(* ===== verification/Prelude.thy ===== *)
theory Prelude
  imports Main "HOL-Library.Word" "HOL-Library.Char_ord" "HOL-Library.List_Lexorder"
    "HOL-Library.Multiset"
begin

text \<open>
  Shared vocabulary of the development: the machine integer types of the Rust sources, their
  saturating and checked operations, results of code that can panic, the stable sort of
  \<^verbatim>\<open>slice::sort_by\<close>, and the list lemmas the component theories use.
  Rust strings are byte lists (\<open>string\<close>), ordered bytewise as \<^verbatim>\<open>str: Ord\<close> is.
\<close>

named_theorems rust_arith \<open>definitions of saturating and checked arithmetic\<close>

type_synonym u8 = "8 word"
type_synonym u16 = "16 word"
type_synonym u32 = "32 word"
type_synonym u64 = "64 word"

text \<open>A signed 64-bit value is an integer; every operation on it writes its range out.\<close>
type_synonym i64 = int

section \<open>Saturating and checked arithmetic\<close>

definition sat_add :: "'a::len word \<Rightarrow> 'a word \<Rightarrow> 'a word" where
  [rust_arith]: "sat_add a b = (if unat a + unat b < 2 ^ LENGTH('a) then a + b else - 1)"

definition sat_sub :: "'a::len word \<Rightarrow> 'a word \<Rightarrow> 'a word" where
  [rust_arith]: "sat_sub a b = (if b \<le> a then a - b else 0)"

definition sat_mul :: "'a::len word \<Rightarrow> 'a word \<Rightarrow> 'a word" where
  [rust_arith]: "sat_mul a b = (if unat a * unat b < 2 ^ LENGTH('a) then a * b else - 1)"

definition checked_add :: "'a::len word \<Rightarrow> 'a word \<Rightarrow> 'a word option" where
  [rust_arith]: "checked_add a b = (if unat a + unat b < 2 ^ LENGTH('a) then Some (a + b) else None)"

text \<open>
  The wide (\<^verbatim>\<open>u64\<close>) intermediate values of the scoring code are natural numbers; the checked
  operations return \<open>None\<close> outside 64 bits.
\<close>

definition u64_checked_add :: "nat \<Rightarrow> nat \<Rightarrow> nat option" where
  [rust_arith]: "u64_checked_add a b = (if a + b < 2 ^ 64 then Some (a + b) else None)"

definition u64_checked_mul :: "nat \<Rightarrow> nat \<Rightarrow> nat option" where
  [rust_arith]: "u64_checked_mul a b = (if a * b < 2 ^ 64 then Some (a * b) else None)"

definition u64_checked_sub :: "nat \<Rightarrow> nat \<Rightarrow> nat option" where
  [rust_arith]: "u64_checked_sub a b = (if b \<le> a then Some (a - b) else None)"

definition u64_checked_div :: "nat \<Rightarrow> nat \<Rightarrow> nat option" where
  [rust_arith]: "u64_checked_div a b = (if b = 0 then None else Some (a div b))"

definition u16_try_from :: "nat \<Rightarrow> u16 option" where
  [rust_arith]: "u16_try_from n = (if n < 2 ^ 16 then Some (of_nat n) else None)"

definition i64_max :: i64 where "i64_max = 9223372036854775807"
definition i64_min :: i64 where "i64_min = - 9223372036854775808"

definition i64_clamp :: "int \<Rightarrow> i64" where
  [rust_arith]: "i64_clamp x = max i64_min (min i64_max x)"

definition i64_sat_add :: "i64 \<Rightarrow> i64 \<Rightarrow> i64" where
  [rust_arith]: "i64_sat_add a b = i64_clamp (a + b)"

definition i64_sat_sub :: "i64 \<Rightarrow> i64 \<Rightarrow> i64" where
  [rust_arith]: "i64_sat_sub a b = i64_clamp (a - b)"

lemma unat_max_word: "unat (- 1 :: 'a::len word) = 2 ^ LENGTH('a) - 1"
  by (metis unsigned_minus_1_eq_mask mask_eq_exp_minus_1)

lemma unat_sat_add: "unat (sat_add a b) = min (unat a + unat b) (2 ^ LENGTH('a) - 1)"
  for a b :: "'a::len word"
proof (cases "unat a + unat b < 2 ^ LENGTH('a)")
  case True
  then show ?thesis by (simp add: sat_add_def unat_add_lem [THEN iffD1])
next
  case False
  then show ?thesis by (simp add: sat_add_def unat_max_word)
qed

lemma unat_sat_sub: "unat (sat_sub a b) = unat a - unat b"
  for a b :: "'a::len word"
  by (auto simp: sat_sub_def unat_sub word_le_nat_alt)

lemma unat_sat_mul: "unat (sat_mul a b) = min (unat a * unat b) (2 ^ LENGTH('a) - 1)"
  for a b :: "'a::len word"
proof (cases "unat a * unat b < 2 ^ LENGTH('a)")
  case True
  then show ?thesis by (simp add: sat_mul_def unat_mult_lem [THEN iffD1])
next
  case False
  then show ?thesis by (simp add: sat_mul_def unat_max_word)
qed

lemma unat_bound: "unat (a :: 'a::len word) \<le> 2 ^ LENGTH('a) - 1"
proof -
  have "unat a < 2 ^ LENGTH('a)" by (rule unsigned_less)
  then show ?thesis by linarith
qed

lemma unat_of_nat_lt: "n < 2 ^ LENGTH('a) \<Longrightarrow> unat (of_nat n :: 'a::len word) = n"
  by (simp add: unat_of_nat)

text \<open>Widening conversions keep the value.\<close>

lemma unat_ucast_widen:
  "LENGTH('a) \<le> LENGTH('b) \<Longrightarrow> unat (ucast (x :: 'a::len word) :: 'b::len word) = unat x"
proof -
  assume "LENGTH('a) \<le> LENGTH('b)"
  then have "(2 :: nat) ^ LENGTH('a) \<le> 2 ^ LENGTH('b)" by simp
  moreover have "unat x < 2 ^ LENGTH('a)" by (rule unsigned_less)
  ultimately have "unat x < 2 ^ LENGTH('b)" by linarith
  then show ?thesis by (simp add: unsigned_ucast_eq take_bit_nat_eq_self)
qed

lemma unat_ucast_16_32 [simp]: "unat (ucast (x :: u16) :: u32) = unat x"
  and unat_ucast_8_16 [simp]: "unat (ucast (y :: u8) :: u16) = unat y"
  and unat_ucast_32_64 [simp]: "unat (ucast (z :: u32) :: u64) = unat z"
  by (rule unat_ucast_widen, simp)+

lemma unat_sub_one: "1 \<le> unat w \<Longrightarrow> unat (w - 1) = unat w - 1"
  for w :: "'a::len word"
  by (subst unat_sub) (auto simp: word_le_nat_alt)

lemma sat_add_ge1: "a \<le> sat_add a b"
  for a b :: "'a::len word"
  using unat_bound [of a] by (simp add: word_le_nat_alt unat_sat_add)

lemma sat_add_pos: "b \<noteq> 0 \<Longrightarrow> sat_add a b \<noteq> 0"
  for a b :: "'a::len word"
proof -
  assume "b \<noteq> 0"
  then have "0 < unat b" by (simp add: unat_gt_0)
  moreover have "unat b \<le> 2 ^ LENGTH('a) - 1" by (rule unat_bound)
  ultimately have "0 < unat (sat_add a b)" by (simp add: unat_sat_add)
  then show ?thesis by (auto simp: unat_gt_0)
qed

lemma sat_sub_le: "sat_sub a b \<le> a"
  for a b :: "'a::len word"
  by (simp add: word_le_nat_alt unat_sat_sub)

lemma i64_clamp_bounds: "i64_min \<le> i64_clamp x" "i64_clamp x \<le> i64_max"
  by (simp_all add: i64_clamp_def i64_min_def i64_max_def)

section \<open>Results of code that may panic\<close>

text \<open>\<open>Panic\<close> is an \<^verbatim>\<open>expect\<close> or \<^verbatim>\<open>unwrap\<close> that fails; \<open>Done\<close> carries the returned value.\<close>

datatype 'a run = Panic string | Done 'a

fun run_bind :: "'a run \<Rightarrow> ('a \<Rightarrow> 'b run) \<Rightarrow> 'b run" where
  "run_bind (Panic m) f = Panic m"
| "run_bind (Done x) f = f x"

definition expect :: "string \<Rightarrow> 'a option \<Rightarrow> 'a run" where
  "expect m v = (case v of None \<Rightarrow> Panic m | Some x \<Rightarrow> Done x)"

fun run_map :: "('a \<Rightarrow> 'b run) \<Rightarrow> 'a list \<Rightarrow> 'b list run" where
  "run_map f [] = Done []"
| "run_map f (x # xs) =
     run_bind (f x) (\<lambda>y. run_bind (run_map f xs) (\<lambda>ys. Done (y # ys)))"

lemma expect_Some [simp]: "expect m (Some x) = Done x"
  by (simp add: expect_def)

lemma run_bind_Done_iff:
  "run_bind r f = Done y \<longleftrightarrow> (\<exists>x. r = Done x \<and> f x = Done y)"
  by (cases r) auto

lemma run_map_Done_map:
  "(\<And>x. x \<in> set xs \<Longrightarrow> f x = Done (g x)) \<Longrightarrow> run_map f xs = Done (map g xs)"
  by (induction xs) auto

section \<open>Fallible results\<close>

fun rbind :: "'e + 'a \<Rightarrow> ('a \<Rightarrow> 'e + 'b) \<Rightarrow> 'e + 'b" where
  "rbind (Inl e) f = Inl e"
| "rbind (Inr x) f = f x"

lemma rbind_Inr_iff: "rbind r f = Inr y \<longleftrightarrow> (\<exists>x. r = Inr x \<and> f x = Inr y)"
  by (cases r) auto

section \<open>Minimum, maximum and the stable sort\<close>

definition min_option :: "'a::linorder list \<Rightarrow> 'a option" where
  "min_option xs = (case xs of [] \<Rightarrow> None | y # ys \<Rightarrow> Some (fold min ys y))"

definition max_option :: "'a::linorder list \<Rightarrow> 'a option" where
  "max_option xs = (case xs of [] \<Rightarrow> None | y # ys \<Rightarrow> Some (fold max ys y))"

lemma min_option_None [simp]: "min_option xs = None \<longleftrightarrow> xs = []"
  by (simp add: min_option_def split: list.split)

lemma max_option_None [simp]: "max_option xs = None \<longleftrightarrow> xs = []"
  by (simp add: max_option_def split: list.split)

lemma min_option_Some: "min_option xs = Some m \<longleftrightarrow> xs \<noteq> [] \<and> m = Min (set xs)"
  by (auto simp: min_option_def Min.set_eq_fold [symmetric] split: list.split)

lemma max_option_Some: "max_option xs = Some m \<longleftrightarrow> xs \<noteq> [] \<and> m = Max (set xs)"
  by (auto simp: max_option_def Max.set_eq_fold [symmetric] split: list.split)

text \<open>
  \<open>sort_by le\<close> is the stable sort by a comparison \<open>le\<close> (\<open>le a b\<close> when the comparator does not
  answer \<^verbatim>\<open>Greater\<close>): an element is placed before the first later element it does not exceed.
\<close>

fun insort_by :: "('a \<Rightarrow> 'a \<Rightarrow> bool) \<Rightarrow> 'a \<Rightarrow> 'a list \<Rightarrow> 'a list" where
  "insort_by le x [] = [x]"
| "insort_by le x (y # ys) = (if le x y then x # y # ys else y # insort_by le x ys)"

definition sort_by :: "('a \<Rightarrow> 'a \<Rightarrow> bool) \<Rightarrow> 'a list \<Rightarrow> 'a list" where
  "sort_by le xs = foldr (insort_by le) xs []"

lemma mset_insort_by [simp]: "mset (insort_by le x xs) = add_mset x (mset xs)"
  by (induction xs) auto

lemma set_insort_by [simp]: "set (insort_by le x xs) = insert x (set xs)"
  by (induction xs) auto

lemma mset_sort_by [simp]: "mset (sort_by le xs) = mset xs"
  by (induction xs) (simp_all add: sort_by_def)

lemma set_sort_by [simp]: "set (sort_by le xs) = set xs"
  by (metis mset_sort_by set_mset_mset)

lemma length_sort_by [simp]: "length (sort_by le xs) = length xs"
  by (metis mset_sort_by size_mset)

lemma sort_by_Nil_iff [simp]: "sort_by le xs = [] \<longleftrightarrow> xs = []"
  by (metis length_0_conv length_sort_by)

lemma distinct_sort_by [simp]: "distinct (sort_by le xs) = distinct xs"
  by (metis mset_sort_by mset_eq_imp_distinct_iff)

locale total_preorder =
  fixes le :: "'a \<Rightarrow> 'a \<Rightarrow> bool"
  assumes total: "le x y \<or> le y x"
    and trans: "le x y \<Longrightarrow> le y z \<Longrightarrow> le x z"
begin

lemma refl: "le x x"
  using total by blast

lemma sorted_insort_by: "sorted_wrt le xs \<Longrightarrow> sorted_wrt le (insort_by le x xs)"
proof (induction xs)
  case Nil
  then show ?case by simp
next
  case (Cons y ys)
  show ?case
  proof (cases "le x y")
    case True
    with Cons.prems show ?thesis by (auto intro: trans)
  next
    case False
    with total have "le y x" by blast
    with Cons False show ?thesis by auto
  qed
qed

lemma sorted_sort_by: "sorted_wrt le (sort_by le xs)"
  by (induction xs) (simp_all add: sort_by_def sorted_insort_by)

lemma hd_sort_by_least: "xs \<noteq> [] \<Longrightarrow> x \<in> set xs \<Longrightarrow> le (hd (sort_by le xs)) x"
proof -
  assume ne: "xs \<noteq> []" and x: "x \<in> set xs"
  then obtain y ys where s: "sort_by le xs = y # ys"
    by (cases "sort_by le xs") auto
  have "x = y \<or> x \<in> set ys"
    using x s by (metis set_ConsD set_sort_by)
  moreover have "sorted_wrt le (y # ys)"
    using sorted_sort_by [of xs] s by simp
  ultimately show ?thesis
    using s refl by auto
qed

end

section \<open>List lemmas\<close>

lemma find_Some_in_set: "find P xs = Some x \<Longrightarrow> x \<in> set xs \<and> P x"
  by (induction xs) (auto split: if_splits)

lemma find_None_all: "find P xs = None \<longleftrightarrow> (\<forall>x \<in> set xs. \<not> P x)"
  by (auto simp: find_None_iff)

lemma find_ex: "x \<in> set xs \<Longrightarrow> P x \<Longrightarrow> \<exists>y. find P xs = Some y"
  by (cases "find P xs") (auto simp: find_None_iff)

lemma find_first_hd: "xs \<noteq> [] \<Longrightarrow> P (hd xs) \<Longrightarrow> find P xs = Some (hd xs)"
  by (cases xs) auto

end
