(* ===== verification/Machine.thy ===== *)
theory Machine
  imports Prelude
begin

text \<open>
  Interfaces shared by the stateful components. A component's state machine is a step function
  \<open>step\<close> on its state type and a datatype of the calls a client can make. The locales below
  state what a component promises of single calls and prove what follows for every sequence of
  calls; the component theories interpret them on their own operations.
\<close>

fun run_ops :: "('s \<Rightarrow> 'op \<Rightarrow> 's) \<Rightarrow> 's \<Rightarrow> 'op list \<Rightarrow> 's" where
  "run_ops step s [] = s"
| "run_ops step s (c # cs) = run_ops step (step s c) cs"

lemma run_ops_append: "run_ops step s (xs @ ys) = run_ops step (run_ops step s xs) ys"
  by (induction xs arbitrary: s) auto

inductive reachable :: "('s \<Rightarrow> 'op \<Rightarrow> 's) \<Rightarrow> 's \<Rightarrow> 's \<Rightarrow> bool" for step s0 where
  reachable_init: "reachable step s0 s0"
| reachable_step: "reachable step s0 s \<Longrightarrow> reachable step s0 (step s c)"

lemma reachable_run: "reachable step s0 s \<Longrightarrow> reachable step s0 (run_ops step s cs)"
  by (induction cs arbitrary: s) (auto intro: reachable_step)

lemma reachable_iff_run: "reachable step s0 s \<longleftrightarrow> (\<exists>cs. s = run_ops step s0 cs)"
proof
  assume "reachable step s0 s"
  then show "\<exists>cs. s = run_ops step s0 cs"
  proof induction
    case reachable_init
    have "s0 = run_ops step s0 []" by simp
    then show ?case by blast
  next
    case (reachable_step s c)
    then obtain cs where "s = run_ops step s0 cs" by blast
    then have "step s c = run_ops step s0 (cs @ [c])" by (simp add: run_ops_append)
    then show ?case by blast
  qed
qed (auto intro: reachable_run reachable_init)

section \<open>Invariants\<close>

text \<open>A predicate that every call keeps.\<close>

locale kept_invariant =
  fixes step :: "'s \<Rightarrow> 'op \<Rightarrow> 's" and inv :: "'s \<Rightarrow> bool"
  assumes keeps: "inv s \<Longrightarrow> inv (step s c)"
begin

lemma run_keeps: "inv s \<Longrightarrow> inv (run_ops step s cs)"
  by (induction cs arbitrary: s) (auto intro: keeps)

lemma reachable_keeps: "reachable step s0 s \<Longrightarrow> inv s0 \<Longrightarrow> inv s"
  by (induction rule: reachable.induct) (auto intro: keeps)

end

section \<open>Budgets\<close>

text \<open>
  Calls that spend from a budget that no call refills; so over every sequence of calls at most
  the initial budget is spent. \<open>spends s c\<close> says that call \<open>c\<close> in state \<open>s\<close> spends.
\<close>

fun spent :: "('s \<Rightarrow> 'op \<Rightarrow> 's) \<Rightarrow> ('s \<Rightarrow> 'op \<Rightarrow> bool) \<Rightarrow> 's \<Rightarrow> 'op list \<Rightarrow> nat" where
  "spent step spends s [] = 0"
| "spent step spends s (c # cs) = (if spends s c then 1 else 0) + spent step spends (step s c) cs"

locale spent_budget =
  fixes step :: "'s \<Rightarrow> 'op \<Rightarrow> 's" and spends :: "'s \<Rightarrow> 'op \<Rightarrow> bool" and budget :: "'s \<Rightarrow> nat"
  assumes spend: "budget (step s c) + (if spends s c then 1 else 0) \<le> budget s"
begin

lemma spent_le: "spent step spends s cs + budget (run_ops step s cs) \<le> budget s"
proof (induction cs arbitrary: s)
  case (Cons c cs)
  from Cons.IH [of "step s c"] spend [of s c] show ?case by simp
qed simp

end

section \<open>Counters that never go back\<close>

text \<open>A measure (a revision, a counter) that no call decreases.\<close>

locale monotone_counter =
  fixes step :: "'s \<Rightarrow> 'op \<Rightarrow> 's" and counter :: "'s \<Rightarrow> nat"
  assumes step_mono: "counter s \<le> counter (step s c)"
begin

lemma run_mono: "counter s \<le> counter (run_ops step s cs)"
proof (induction cs arbitrary: s)
  case Nil
  show ?case by simp
next
  case (Cons c cs)
  have "counter s \<le> counter (step s c)" by (rule step_mono)
  also have "\<dots> \<le> counter (run_ops step (step s c) cs)" by (rule Cons.IH)
  finally show ?case by simp
qed

end

section \<open>Exclusive leases\<close>

text \<open>
  A machine with at most one lease holder: while a lease is held, only a call that ends that very
  lease can take it away, and no call grants anything.
\<close>

locale exclusive_lease =
  fixes step :: "'s \<Rightarrow> 'op \<Rightarrow> 's"
    and holder :: "'s \<Rightarrow> 'id option"
    and ends :: "'id \<Rightarrow> 'op \<Rightarrow> bool"
    and grants :: "'s \<Rightarrow> 'op \<Rightarrow> bool"
  assumes holder_kept: "holder s = Some l \<Longrightarrow> \<not> ends l c \<Longrightarrow> holder (step s c) = Some l"
    and no_grant: "holder s = Some l \<Longrightarrow> \<not> grants s c"
begin

lemma holder_run: "holder s = Some l \<Longrightarrow> \<forall>c \<in> set cs. \<not> ends l c \<Longrightarrow> holder (run_ops step s cs) = Some l"
  by (induction cs arbitrary: s) (auto intro: holder_kept)

lemma no_grant_run:
  "holder s = Some l \<Longrightarrow> \<forall>c \<in> set cs. \<not> ends l c \<Longrightarrow> \<not> grants (run_ops step s cs) c"
  using holder_run no_grant by blast

end

section \<open>Leases on counted resources\<close>

text \<open>
  A client of a registry of counters holds a list of leases, each the list of resources it
  counts against. \<open>Release i\<close> gives the \<open>i\<close>-th outstanding lease back.
\<close>

datatype 'r lease_call = Acquire 'r | Release nat

fun lease_step ::
  "('s \<Rightarrow> 'r \<Rightarrow> 'k list option \<times> 's) \<Rightarrow> ('s \<Rightarrow> 'k list \<Rightarrow> 's) \<Rightarrow> 's \<times> 'k list list \<Rightarrow> 'r lease_call
    \<Rightarrow> 's \<times> 'k list list" where
  "lease_step acquire release (s, out) (Acquire r) =
     (case acquire s r of (Some ks, s') \<Rightarrow> (s', out @ [ks]) | (None, s') \<Rightarrow> (s', out))"
| "lease_step acquire release (s, out) (Release i) =
     (if i < length out then (release s (out ! i), take i out @ drop (Suc i) out) else (s, out))"

text \<open>
  What the registry promises as long as no counter has reached \<open>limit\<close>: an acquisition counts
  each of its resources once, or changes no count, and a release takes its resources off.
\<close>

locale lease_registry =
  fixes active :: "'s \<Rightarrow> 'k \<Rightarrow> nat"
    and acquire :: "'s \<Rightarrow> 'r \<Rightarrow> 'k list option \<times> 's"
    and release :: "'s \<Rightarrow> 'k list \<Rightarrow> 's"
    and limit :: nat
  assumes acquire_Some: "acquire s r = (Some ks, s') \<Longrightarrow> \<forall>k. active s k < limit \<Longrightarrow>
      distinct ks \<and> (\<forall>k. active s' k = active s k + (if k \<in> set ks then 1 else 0))"
    and acquire_None: "acquire s r = (None, s') \<Longrightarrow> \<forall>k. active s k < limit \<Longrightarrow>
      \<forall>k. active s' k = active s k"
    and release_active: "distinct ks \<Longrightarrow> active (release s ks) k = active s k - (if k \<in> set ks then 1 else 0)"
begin

definition counted :: "'s \<times> 'k list list \<Rightarrow> bool" where
  "counted c \<longleftrightarrow> (\<forall>ks \<in> set (snd c). distinct ks)
     \<and> (\<forall>k. active (fst c) k = length (filter (\<lambda>ks. k \<in> set ks) (snd c)))"

lemma counted_below: "counted (s, out) \<Longrightarrow> length out < limit \<Longrightarrow> \<forall>k. active s k < limit"
  by (auto simp: counted_def intro: le_less_trans [OF length_filter_le])

lemma counted_remove:
  assumes "counted (s, out)" "i < length out"
  shows "counted (release s (out ! i), take i out @ drop (Suc i) out)"
proof -
  have out: "out = take i out @ out ! i # drop (Suc i) out" using assms(2) by (rule id_take_nth_drop)
  have d: "distinct (out ! i)" using assms by (simp add: counted_def)
  have "set (take i out @ drop (Suc i) out) \<subseteq> set out"
    by (auto dest: in_set_takeD in_set_dropD)
  moreover have "active (release s (out ! i)) k
      = length (filter (\<lambda>ks. k \<in> set ks) (take i out @ drop (Suc i) out))" for k
  proof -
    have "active s k = length (filter (\<lambda>ks. k \<in> set ks) (take i out @ out ! i # drop (Suc i) out))"
      using assms(1) out by (simp add: counted_def)
    then show ?thesis by (simp add: release_active [OF d])
  qed
  ultimately show ?thesis using assms(1) by (auto simp: counted_def)
qed

lemma counted_acquire:
  assumes "counted (s, out)" "length out < limit" "acquire s r = (res, s')"
  shows "counted (s', case res of Some ks \<Rightarrow> out @ [ks] | None \<Rightarrow> out)"
proof (cases res)
  case None
  with assms acquire_None [OF _ counted_below [OF assms(1,2)]] show ?thesis
    by (auto simp: counted_def)
next
  case (Some ks)
  with assms acquire_Some [OF _ counted_below [OF assms(1,2)]] show ?thesis
    by (auto simp: counted_def)
qed

lemma counted_step:
  assumes "counted (s, out)" "length out < limit"
  shows "counted (lease_step acquire release (s, out) c)
    \<and> length (snd (lease_step acquire release (s, out) c)) \<le> Suc (length out)"
proof (cases c)
  case (Acquire r)
  obtain res s' where "acquire s r = (res, s')" by fastforce
  with counted_acquire [OF assms this] Acquire show ?thesis by (cases res) auto
next
  case (Release i)
  with counted_remove [OF assms(1)] assms(1) show ?thesis by auto
qed

lemma counted_run:
  "counted (s, out) \<Longrightarrow> length out + length cs \<le> limit \<Longrightarrow>
     counted (run_ops (lease_step acquire release) (s, out) cs)"
proof (induction cs arbitrary: s out)
  case Nil
  then show ?case by simp
next
  case (Cons c cs)
  obtain s' out' where st: "lease_step acquire release (s, out) c = (s', out')" by fastforce
  have "counted (s', out')" "length out' \<le> Suc (length out)"
    using counted_step [of s out c] Cons.prems st by auto
  with Cons.IH [of s' out'] Cons.prems st show ?case by simp
qed

end

end
