(* ===== verification/Circuit.thy ===== *)
theory Circuit
  imports Machine
begin

text \<open>
  The circuit breaker of a station key (\<^verbatim>\<open>application/station_key_circuit.rs\<close>): the process-local
  persistence gate and the reducer \<^verbatim>\<open>StationKeyCircuit\<close> with its operations \<^verbatim>\<open>admit\<close>,
  \<^verbatim>\<open>finish\<close> and \<^verbatim>\<open>reap_expired_lease\<close>. An operation returns its \<^verbatim>\<open>Result\<close> (\<open>Inl\<close> the
  error) together with the state it leaves behind, so that the error paths say what they changed.
\<close>

section \<open>The persistence gate\<close>

record CircuitPersistenceGateState =
  gate_global_unavailable :: bool
  gate_station_keys :: "(string \<times> u64) set"
  gate_revision :: u64

definition gate_default :: CircuitPersistenceGateState where
  "gate_default = \<lparr>gate_global_unavailable = False, gate_station_keys = {}, gate_revision = 0\<rparr>"

text \<open>A snapshot is a copy of the state taken under the read lock.\<close>

definition gate_snapshot :: "CircuitPersistenceGateState \<Rightarrow> CircuitPersistenceGateState" where
  "gate_snapshot g = \<lparr>gate_global_unavailable = gate_global_unavailable g,
     gate_station_keys = gate_station_keys g, gate_revision = gate_revision g\<rparr>"

definition gate_is_active :: "CircuitPersistenceGateState \<Rightarrow> string \<Rightarrow> u64 \<Rightarrow> bool" where
  "gate_is_active g station_key_id lifecycle_revision \<longleftrightarrow>
     gate_global_unavailable g \<or> (station_key_id, lifecycle_revision) \<in> gate_station_keys g"

definition gate_mark_station_key ::
  "CircuitPersistenceGateState \<Rightarrow> string \<Rightarrow> u64 \<Rightarrow> CircuitPersistenceGateState" where
  "gate_mark_station_key g station_key_id lifecycle_revision =
     g\<lparr>gate_station_keys := insert (station_key_id, lifecycle_revision) (gate_station_keys g),
       gate_revision := sat_add (gate_revision g) 1\<rparr>"

definition gate_clear_if_unchanged ::
  "CircuitPersistenceGateState \<Rightarrow> u64 \<Rightarrow> bool \<times> CircuitPersistenceGateState" where
  "gate_clear_if_unchanged g expected_revision =
     (if gate_revision g \<noteq> expected_revision then (False, g)
      else (True, g\<lparr>gate_global_unavailable := False, gate_station_keys := {},
                    gate_revision := sat_add (gate_revision g) 1\<rparr>))"

section \<open>Configuration and state of a circuit\<close>

record StationKeyCircuitConfig =
  cc_policy_revision :: u64
  cc_consecutive_failure_threshold :: u16
  cc_recovery_success_threshold :: u16
  cc_recovery_wait_ms :: u64
  cc_max_cooldown_ms :: u64

datatype CircuitError = InvalidConfig | InvalidTime | InvalidLease

definition circuit_config_validate ::
  "StationKeyCircuitConfig \<Rightarrow> CircuitError + StationKeyCircuitConfig" where
  "circuit_config_validate c =
     (if cc_policy_revision c = 0 \<or> cc_consecutive_failure_threshold c = 0
         \<or> cc_recovery_success_threshold c = 0 \<or> cc_recovery_wait_ms c = 0
         \<or> cc_max_cooldown_ms c < cc_recovery_wait_ms c
      then Inl InvalidConfig else Inr c)"

record StationKeyCircuitLeasePolicy =
  lp_policy_revision :: u64
  lp_recovery_success_threshold :: u16
  lp_recovery_wait_ms :: u64

text \<open>
  \<open>Closed state_revision consecutive_failures reopen_level\<close>;
  \<open>Open state_revision opened_at_ms cooldown_until_ms consecutive_failures reopen_level\<close>;
  \<open>HalfOpen state_revision lease_id lease_revision lease_expires_at_ms recovery_successes reopen_level\<close>.
\<close>

datatype StationKeyCircuitState =
    Closed u64 u16 u32
  | Open u64 u64 u64 u16 u32
  | HalfOpen u64 "string option" u64 "u64 option" u16 u32

definition circuit_state_default :: StationKeyCircuitState where
  "circuit_state_default = Closed 1 0 0"

datatype CircuitAdmission =
    AllowedClosed | AllowedHalfOpen | DeniedOpenCooldown | DeniedHalfOpenLease

datatype CircuitTransition =
    Observed | Opened | Reopened | RecoverySucceeded | TransitionClosed | IgnoredLateResult

record StationKeyCircuit =
  kc_config :: StationKeyCircuitConfig
  kc_policy_revision :: u64
  kc_lease_policy :: "StationKeyCircuitLeasePolicy option"
  kc_state :: StationKeyCircuitState

fun state_revision :: "StationKeyCircuitState \<Rightarrow> u64" where
  "state_revision (Closed r _ _) = r"
| "state_revision (Open r _ _ _ _) = r"
| "state_revision (HalfOpen r _ _ _ _ _) = r"

fun reopen_level :: "StationKeyCircuitState \<Rightarrow> u32" where
  "reopen_level (Closed _ _ l) = l"
| "reopen_level (Open _ _ _ _ l) = l"
| "reopen_level (HalfOpen _ _ _ _ _ l) = l"

fun active_lease :: "StationKeyCircuitState \<Rightarrow> string option" where
  "active_lease (HalfOpen _ l _ _ _ _) = l"
| "active_lease _ = None"

text \<open>\<^verbatim>\<open>state_revision.saturating_add(1).max(1)\<close>\<close>

definition next_revision :: "u64 \<Rightarrow> u64" where
  "next_revision r = max (sat_add r 1) 1"

section \<open>Construction and validation\<close>

definition circuit_new :: "StationKeyCircuitConfig \<Rightarrow> CircuitError + StationKeyCircuit" where
  "circuit_new config = rbind (circuit_config_validate config) (\<lambda>c. Inr
     \<lparr>kc_config = c, kc_policy_revision = cc_policy_revision config, kc_lease_policy = None,
      kc_state = circuit_state_default\<rparr>)"

definition circuit_validate_state :: "StationKeyCircuit \<Rightarrow> CircuitError + unit" where
  "circuit_validate_state k =
     (if (active_lease (kc_state k) \<noteq> None) \<noteq> (kc_lease_policy k \<noteq> None)
         \<or> (case kc_lease_policy k of None \<Rightarrow> False | Some p \<Rightarrow>
               lp_policy_revision p = 0 \<or> lp_recovery_success_threshold p = 0
             \<or> lp_recovery_wait_ms p = 0)
      then Inl InvalidLease
      else case kc_state k of
        Open _ opened_at_ms cooldown_until_ms _ _ \<Rightarrow>
          if cooldown_until_ms < opened_at_ms then Inl InvalidTime else Inr ()
      | HalfOpen _ lease_id _ lease_expires_at_ms _ _ \<Rightarrow>
          if (lease_id \<noteq> None) \<noteq> (lease_expires_at_ms \<noteq> None) then Inl InvalidLease else Inr ()
      | Closed _ _ _ \<Rightarrow> Inr ())"

definition circuit_from_state ::
  "StationKeyCircuitConfig \<Rightarrow> u64 \<Rightarrow> StationKeyCircuitLeasePolicy option \<Rightarrow> StationKeyCircuitState
    \<Rightarrow> CircuitError + StationKeyCircuit" where
  "circuit_from_state config policy_revision lease_policy st =
     (if policy_revision = 0 then Inl InvalidConfig
      else rbind (circuit_config_validate config) (\<lambda>c.
        let k = \<lparr>kc_config = c, kc_policy_revision = policy_revision,
                 kc_lease_policy = lease_policy, kc_state = st\<rparr>
        in rbind (circuit_validate_state k) (\<lambda>_. Inr k)))"

section \<open>Transitions\<close>

definition active_lease_policy :: "StationKeyCircuit \<Rightarrow> CircuitError + StationKeyCircuitLeasePolicy" where
  "active_lease_policy k = (case kc_lease_policy k of None \<Rightarrow> Inl InvalidLease | Some p \<Rightarrow> Inr p)"

definition u64_checked_shl :: "u64 \<Rightarrow> u32 \<Rightarrow> u64 option" where
  "u64_checked_shl x n = (if n < 64 then Some (push_bit (unat n) x) else None)"

definition cooldown_ms :: "u64 \<Rightarrow> u64 \<Rightarrow> u32 \<Rightarrow> u64" where
  "cooldown_ms recovery_wait_ms max_cooldown_ms level =
     (let exponent = min (sat_sub level 1) 63;
          multiplier = (case u64_checked_shl 1 exponent of None \<Rightarrow> - 1 | Some m \<Rightarrow> m)
      in min (sat_mul recovery_wait_ms multiplier) max_cooldown_ms)"

definition open_with_policy ::
  "StationKeyCircuit \<Rightarrow> u64 \<Rightarrow> u16 \<Rightarrow> u32 \<Rightarrow> u64 \<Rightarrow> u64 \<Rightarrow> StationKeyCircuit" where
  "open_with_policy k now_ms consecutive_failures previous_level policy_revision recovery_wait_ms =
     (let level = max (sat_add previous_level 1) 1;
          cooldown = cooldown_ms recovery_wait_ms (cc_max_cooldown_ms (kc_config k)) level
      in k\<lparr>kc_policy_revision := policy_revision, kc_lease_policy := None,
           kc_state := Open (next_revision (state_revision (kc_state k))) now_ms
             (sat_add now_ms cooldown) consecutive_failures level\<rparr>)"

definition config_lease_policy :: "StationKeyCircuitConfig \<Rightarrow> StationKeyCircuitLeasePolicy" where
  "config_lease_policy c = \<lparr>lp_policy_revision = cc_policy_revision c,
     lp_recovery_success_threshold = cc_recovery_success_threshold c,
     lp_recovery_wait_ms = cc_recovery_wait_ms c\<rparr>"

definition admit ::
  "StationKeyCircuit \<Rightarrow> u64 \<Rightarrow> u64 \<Rightarrow> string \<Rightarrow> (CircuitError + CircuitAdmission) \<times> StationKeyCircuit"
  where
  "admit k now_ms deadline_at_ms lease_id =
     (let config = kc_config k in
      if deadline_at_ms < now_ms then (Inl InvalidTime, k)
      else if lease_id = [] then (Inl InvalidLease, k)
      else case kc_state k of
        Closed srev failures level \<Rightarrow>
          if cc_consecutive_failure_threshold config \<le> failures then
            (Inr DeniedOpenCooldown,
             open_with_policy (k\<lparr>kc_policy_revision := cc_policy_revision config, kc_lease_policy := None\<rparr>)
               now_ms failures level (cc_policy_revision config) (cc_recovery_wait_ms config))
          else if kc_policy_revision k \<noteq> cc_policy_revision config then
            (Inr AllowedClosed,
             k\<lparr>kc_policy_revision := cc_policy_revision config,
               kc_state := Closed (next_revision srev) failures level\<rparr>)
          else (Inr AllowedClosed, k)
      | Open srev opened_at cooldown_until failures level \<Rightarrow>
          (let k1 = (if kc_policy_revision k \<noteq> cc_policy_revision config
                     then k\<lparr>kc_policy_revision := cc_policy_revision config,
                            kc_state := Open (next_revision srev) opened_at cooldown_until failures level\<rparr>
                     else k)
           in if now_ms < cooldown_until then (Inr DeniedOpenCooldown, k1)
              else let srev' = next_revision (state_revision (kc_state k1)) in
                (Inr AllowedHalfOpen,
                 k1\<lparr>kc_policy_revision := cc_policy_revision config,
                    kc_lease_policy := Some (config_lease_policy config),
                    kc_state := HalfOpen srev' (Some lease_id) srev' (Some deadline_at_ms) 0 level\<rparr>))
      | HalfOpen srev (Some _) _ _ _ _ \<Rightarrow> (Inr DeniedHalfOpenLease, k)
      | HalfOpen srev None _ _ recovery_successes level \<Rightarrow>
          (Inr AllowedHalfOpen,
           k\<lparr>kc_policy_revision := cc_policy_revision config,
             kc_lease_policy := Some (config_lease_policy config),
             kc_state := HalfOpen (next_revision srev) (Some lease_id) (next_revision srev)
               (Some deadline_at_ms) recovery_successes level\<rparr>))"

definition finish ::
  "StationKeyCircuit \<Rightarrow> u64 \<Rightarrow> string option \<Rightarrow> bool \<Rightarrow> bool
    \<Rightarrow> (CircuitError + CircuitTransition) \<times> StationKeyCircuit" where
  "finish k now_ms lease_id success boundary_crossed =
     (let config = kc_config k in
      case kc_state k of
        Closed srev failures level \<Rightarrow>
          if \<not> boundary_crossed then (Inr Observed, k)
          else if success then
            (Inr Observed,
             k\<lparr>kc_policy_revision := cc_policy_revision config, kc_lease_policy := None,
               kc_state := Closed (next_revision srev) 0 level\<rparr>)
          else let failures' = sat_add failures 1 in
            if failures' < cc_consecutive_failure_threshold config then
              (Inr Observed,
               k\<lparr>kc_policy_revision := cc_policy_revision config, kc_lease_policy := None,
                 kc_state := Closed (next_revision srev) failures' level\<rparr>)
            else
              (Inr Opened,
               open_with_policy k now_ms failures' level (cc_policy_revision config)
                 (cc_recovery_wait_ms config))
      | Open _ _ _ _ _ \<Rightarrow> (Inr IgnoredLateResult, k)
      | HalfOpen _ None _ _ _ _ \<Rightarrow> (Inr IgnoredLateResult, k)
      | HalfOpen srev (Some expected) _ lease_expires_at_ms recovery_successes level \<Rightarrow>
          if lease_id \<noteq> Some expected then (Inr IgnoredLateResult, k)
          else if \<not> boundary_crossed then
            (Inr Observed,
             k\<lparr>kc_lease_policy := None,
               kc_state := HalfOpen srev None srev None recovery_successes level\<rparr>)
          else case active_lease_policy k of
            Inl e \<Rightarrow> (Inl e, k)
          | Inr p \<Rightarrow>
              if (case lease_expires_at_ms of None \<Rightarrow> False | Some expires \<Rightarrow> expires \<le> now_ms) then
                (Inr Reopened,
                 open_with_policy k now_ms 0 level (lp_policy_revision p) (lp_recovery_wait_ms p))
              else if success then
                (let successes = sat_add recovery_successes 1 in
                 if lp_recovery_success_threshold p \<le> successes then
                   (Inr TransitionClosed,
                    k\<lparr>kc_policy_revision := lp_policy_revision p, kc_lease_policy := None,
                      kc_state := Closed (next_revision srev) 0 0\<rparr>)
                 else
                   (Inr RecoverySucceeded,
                    k\<lparr>kc_policy_revision := lp_policy_revision p, kc_lease_policy := None,
                      kc_state := HalfOpen (next_revision srev) None (next_revision srev) None
                        successes level\<rparr>))
              else
                (Inr Reopened,
                 open_with_policy k now_ms 0 level (lp_policy_revision p) (lp_recovery_wait_ms p)))"

definition reap_expired_lease ::
  "StationKeyCircuit \<Rightarrow> u64 \<Rightarrow> string \<Rightarrow> (CircuitError + bool) \<times> StationKeyCircuit" where
  "reap_expired_lease k now_ms lease_id =
     (case kc_state k of
        HalfOpen _ (Some active) _ (Some expires) _ level \<Rightarrow>
          if active \<noteq> lease_id \<or> now_ms < expires then (Inr False, k)
          else (case active_lease_policy k of
            Inl e \<Rightarrow> (Inl e, k)
          | Inr p \<Rightarrow>
              (Inr True,
               open_with_policy k now_ms 0 level (lp_policy_revision p) (lp_recovery_wait_ms p)))
      | _ \<Rightarrow> (Inr False, k))"

text \<open>The calls a client (the durable store and request admission) makes on a circuit.\<close>

datatype circuit_call =
    Admit u64 u64 string
  | Finish u64 "string option" bool bool
  | Reap u64 string

fun circuit_step :: "StationKeyCircuit \<Rightarrow> circuit_call \<Rightarrow> StationKeyCircuit" where
  "circuit_step k (Admit now deadline lease) = snd (admit k now deadline lease)"
| "circuit_step k (Finish now lease success crossed) = snd (finish k now lease success crossed)"
| "circuit_step k (Reap now lease) = snd (reap_expired_lease k now lease)"

section \<open>The invariant\<close>

text \<open>
  What \<^verbatim>\<open>from_state\<close> accepts: a validated configuration, a non-zero policy revision and a
  state that \<^verbatim>\<open>validate_state\<close> admits.
\<close>

definition circuit_ok :: "StationKeyCircuit \<Rightarrow> bool" where
  "circuit_ok k \<longleftrightarrow> circuit_config_validate (kc_config k) = Inr (kc_config k)
     \<and> kc_policy_revision k \<noteq> 0 \<and> circuit_validate_state k = Inr ()"

named_theorems circuit_defs \<open>the operations of a circuit\<close>

lemmas [circuit_defs] = admit_def finish_def reap_expired_lease_def open_with_policy_def
  active_lease_policy_def config_lease_policy_def Let_def

lemma next_revision_pos [simp]: "next_revision r \<noteq> 0"
  by (simp add: next_revision_def max_def sat_add_pos)

lemma next_revision_ge: "unat r \<le> unat (next_revision r)"
  using sat_add_ge1 [of r 1] by (simp add: next_revision_def max_def word_le_nat_alt)

lemma next_revision_greater: "r \<noteq> - 1 \<Longrightarrow> unat (next_revision r) = unat r + 1"
proof -
  assume "r \<noteq> - 1"
  then have "unat r \<noteq> unat (- 1 :: u64)" by (metis unsigned_word_eqI)
  then have "unat r \<noteq> 2 ^ 64 - 1" unfolding unat_max_word by simp
  moreover have "unat r \<le> 2 ^ 64 - 1" using unat_bound [of r] by simp
  ultimately have "unat (sat_add r 1) = unat r + 1" by (simp add: unat_sat_add)
  then show ?thesis by (simp add: next_revision_def max_def word_le_nat_alt)
qed

lemma validate_Inr_iff:
  "circuit_config_validate c = Inr c' \<longleftrightarrow> c' = c \<and> cc_policy_revision c \<noteq> 0
     \<and> cc_consecutive_failure_threshold c \<noteq> 0 \<and> cc_recovery_success_threshold c \<noteq> 0
     \<and> cc_recovery_wait_ms c \<noteq> 0 \<and> cc_recovery_wait_ms c \<le> cc_max_cooldown_ms c"
  by (auto simp: circuit_config_validate_def)

lemma circuit_ok_Closed:
  "kc_state k = Closed r f l \<Longrightarrow> circuit_ok k \<longleftrightarrow>
     circuit_config_validate (kc_config k) = Inr (kc_config k) \<and> kc_policy_revision k \<noteq> 0
     \<and> kc_lease_policy k = None"
  by (auto simp: circuit_ok_def circuit_validate_state_def split: option.splits)

lemma circuit_ok_Open:
  "kc_state k = Open r at until f l \<Longrightarrow> circuit_ok k \<longleftrightarrow>
     circuit_config_validate (kc_config k) = Inr (kc_config k) \<and> kc_policy_revision k \<noteq> 0
     \<and> kc_lease_policy k = None \<and> at \<le> until"
  by (auto simp: circuit_ok_def circuit_validate_state_def split: option.splits)

lemma circuit_ok_HalfOpen_free:
  "kc_state k = HalfOpen r None lr e n l \<Longrightarrow> circuit_ok k \<longleftrightarrow>
     circuit_config_validate (kc_config k) = Inr (kc_config k) \<and> kc_policy_revision k \<noteq> 0
     \<and> kc_lease_policy k = None \<and> e = None"
  by (auto simp: circuit_ok_def circuit_validate_state_def split: option.splits)

lemma circuit_ok_HalfOpen_held:
  "kc_state k = HalfOpen r (Some i) lr e n l \<Longrightarrow> circuit_ok k \<longleftrightarrow>
     circuit_config_validate (kc_config k) = Inr (kc_config k) \<and> kc_policy_revision k \<noteq> 0
     \<and> e \<noteq> None \<and> (\<exists>p. kc_lease_policy k = Some p \<and> lp_policy_revision p \<noteq> 0
          \<and> lp_recovery_success_threshold p \<noteq> 0 \<and> lp_recovery_wait_ms p \<noteq> 0)"
  by (auto simp: circuit_ok_def circuit_validate_state_def split: option.splits)

lemmas circuit_ok_simps =
  circuit_ok_Closed circuit_ok_Open circuit_ok_HalfOpen_free circuit_ok_HalfOpen_held

lemma open_with_policy_ok:
  "circuit_config_validate (kc_config k) = Inr (kc_config k) \<Longrightarrow> pr \<noteq> 0 \<Longrightarrow>
     circuit_ok (open_with_policy k now f l pr w)"
  by (simp add: open_with_policy_def Let_def circuit_ok_Open sat_add_ge1)

lemma circuit_ok_config: "circuit_ok k \<Longrightarrow> circuit_config_validate (kc_config k) = Inr (kc_config k)"
  by (simp add: circuit_ok_def)

lemma open_with_policy_config [simp]: "kc_config (open_with_policy k now f l pr w) = kc_config k"
  by (simp add: open_with_policy_def Let_def)

lemma admit_ok: "circuit_ok k \<Longrightarrow> circuit_ok (snd (admit k now deadline lease))"
proof (cases "kc_state k")
  case (Closed r f l)
  assume "circuit_ok k"
  with Closed show ?thesis
    by (auto simp: admit_def Let_def circuit_ok_simps validate_Inr_iff intro: open_with_policy_ok)
next
  case (Open r at until f l)
  assume "circuit_ok k"
  with Open show ?thesis
    by (auto simp: admit_def Let_def circuit_ok_simps config_lease_policy_def validate_Inr_iff)
next
  case (HalfOpen r i lr e n l)
  assume "circuit_ok k"
  with HalfOpen show ?thesis
    by (cases i) (auto simp: admit_def Let_def circuit_ok_simps config_lease_policy_def validate_Inr_iff)
qed

lemma finish_ok: "circuit_ok k \<Longrightarrow> circuit_ok (snd (finish k now lease success crossed))"
proof (cases "kc_state k")
  case (Closed r f l)
  assume "circuit_ok k"
  with Closed show ?thesis
    by (auto simp: finish_def Let_def circuit_ok_simps validate_Inr_iff intro: open_with_policy_ok)
next
  case (Open r at until f l)
  assume "circuit_ok k"
  with Open show ?thesis by (simp add: finish_def)
next
  case (HalfOpen r i lr e n l)
  assume "circuit_ok k"
  with HalfOpen show ?thesis
    by (cases i) (auto simp: finish_def Let_def circuit_ok_simps active_lease_policy_def
        intro: open_with_policy_ok split: option.splits)
qed

lemma reap_ok: "circuit_ok k \<Longrightarrow> circuit_ok (snd (reap_expired_lease k now lease))"
  by (cases "kc_state k") (auto simp: reap_expired_lease_def circuit_ok_simps active_lease_policy_def
      intro: open_with_policy_ok split: option.splits)

interpretation circuit_inv: kept_invariant circuit_step circuit_ok
proof
  fix k c
  assume "circuit_ok k"
  then show "circuit_ok (circuit_step k c)"
    by (cases c) (simp_all add: admit_ok finish_ok reap_ok)
qed

lemma circuit_new_ok: "circuit_new config = Inr k \<Longrightarrow> circuit_ok k"
  by (auto simp: circuit_new_def circuit_state_default_def rbind_Inr_iff validate_Inr_iff
      circuit_ok_Closed)

lemma circuit_from_state_ok_iff:
  "circuit_from_state config pr lp st = Inr k \<longleftrightarrow>
     k = \<lparr>kc_config = config, kc_policy_revision = pr, kc_lease_policy = lp, kc_state = st\<rparr> \<and> circuit_ok k"
  by (auto simp: circuit_from_state_def circuit_ok_def rbind_Inr_iff validate_Inr_iff Let_def)

section \<open>Revisions\<close>

lemma open_with_policy_state:
  "kc_state (open_with_policy k now f l pr w) =
     Open (next_revision (state_revision (kc_state k))) now
       (sat_add now (cooldown_ms w (cc_max_cooldown_ms (kc_config k)) (max (sat_add l 1) 1)))
       f (max (sat_add l 1) 1)"
  by (simp add: open_with_policy_def Let_def)

lemma revision_two_steps: "unat r \<le> unat (next_revision (next_revision r))"
  using next_revision_ge le_trans by blast

interpretation circuit_rev: monotone_counter circuit_step "\<lambda>k. unat (state_revision (kc_state k))"
proof
  fix k c
  show "unat (state_revision (kc_state k)) \<le> unat (state_revision (kc_state (circuit_step k c)))"
    by (cases c; cases "kc_state k")
      (auto simp: admit_def finish_def reap_expired_lease_def Let_def open_with_policy_state
        next_revision_ge revision_two_steps split: option.splits sum.splits)
qed

section \<open>The half-open lease\<close>

definition circuit_holder :: "StationKeyCircuit \<Rightarrow> string option" where
  "circuit_holder k = active_lease (kc_state k)"

fun ends_lease :: "string \<Rightarrow> circuit_call \<Rightarrow> bool" where
  "ends_lease l (Admit _ _ _) = False"
| "ends_lease l (Finish _ lease _ _) = (lease = Some l)"
| "ends_lease l (Reap _ lease) = (lease = l)"

fun grants_admission :: "StationKeyCircuit \<Rightarrow> circuit_call \<Rightarrow> bool" where
  "grants_admission k (Admit now deadline lease) =
     (fst (admit k now deadline lease) \<in> {Inr AllowedClosed, Inr AllowedHalfOpen})"
| "grants_admission k _ = False"

lemma holder_state: "circuit_holder k = Some l \<longleftrightarrow> (\<exists>r lr e n lv. kc_state k = HalfOpen r (Some l) lr e n lv)"
  by (cases "kc_state k") (auto simp: circuit_holder_def)

interpretation circuit_lease: exclusive_lease circuit_step circuit_holder ends_lease grants_admission
proof
  fix k l c
  assume "circuit_holder k = Some l"
  then obtain r lr e n lv where st: "kc_state k = HalfOpen r (Some l) lr e n lv"
    by (auto simp: holder_state)
  then show "circuit_holder (circuit_step k c) = Some l" if "\<not> ends_lease l c"
    using that by (cases c) (auto simp: circuit_holder_def admit_def finish_def
        reap_expired_lease_def Let_def split: option.splits)
  show "\<not> grants_admission k c"
    using st by (cases c) (auto simp: admit_def Let_def)
qed

section \<open>Cooldown\<close>


lemma next_level_pos: "1 \<le> unat (max (sat_add l 1) (1 :: u32))"
  by (simp add: max_def word_le_nat_alt)



section \<open>Sequences of failures and of probes\<close>




lemma finish_config [simp]: "kc_config (snd (finish k now lease s b)) = kc_config k"
  by (cases "kc_state k") (auto simp: finish_def Let_def split: option.splits sum.splits)

lemma admit_config [simp]: "kc_config (snd (admit k now deadline lease)) = kc_config k"
  by (cases "kc_state k") (auto simp: admit_def Let_def split: option.splits sum.splits)

lemma reap_config [simp]: "kc_config (snd (reap_expired_lease k now lease)) = kc_config k"
  by (cases "kc_state k") (auto simp: reap_expired_lease_def split: option.splits sum.splits)

lemma step_config [simp]: "kc_config (circuit_step k c) = kc_config k"
  by (cases c) auto

lemma run_config [simp]: "kc_config (run_ops circuit_step k cs) = kc_config k"
  by (induction cs arbitrary: k) auto




text \<open>A probe that succeeds: an admission with a lease, and a success reported before its deadline.\<close>

fun probe_calls :: "u64 \<times> u64 \<times> string \<times> u64 \<Rightarrow> circuit_call list" where
  "probe_calls (now, deadline, lease, done_at) =
     [Admit now deadline lease, Finish done_at (Some lease) True True]"

fun good_probe :: "u64 \<times> u64 \<times> string \<times> u64 \<Rightarrow> bool" where
  "good_probe (now, deadline, lease, done_at) = (now \<le> deadline \<and> lease \<noteq> [] \<and> done_at < deadline)"

text \<open>The half-open count a circuit starts its next probe with, once its cooldown is over.\<close>

fun recovery_progress :: "StationKeyCircuitState \<Rightarrow> u64 \<Rightarrow> u16 option" where
  "recovery_progress (Open _ _ until _ _) now = (if until \<le> now then Some 0 else None)"
| "recovery_progress (HalfOpen _ None _ _ n _) _ = Some n"
| "recovery_progress _ _ = None"

lemma probe_step:
  assumes "recovery_progress (kc_state k) now = Some n" "good_probe (now, deadline, lease, done_at)"
  defines "k' \<equiv> run_ops circuit_step k (probe_calls (now, deadline, lease, done_at))"
  defines "thr \<equiv> cc_recovery_success_threshold (kc_config k)"
  shows "(sat_add n 1 < thr \<longrightarrow> (\<forall>t. recovery_progress (kc_state k') t = Some (sat_add n 1)))
       \<and> (thr \<le> sat_add n 1 \<longrightarrow> (\<exists>r. kc_state k' = Closed r 0 0))"
proof (cases "kc_state k")
  case (Closed r f l)
  with assms(1) show ?thesis by simp
next
  case (Open r at until f l)
  with assms show ?thesis
    by (auto simp: admit_def finish_def Let_def active_lease_policy_def config_lease_policy_def
        split: if_splits)
next
  case (HalfOpen r i lr e m l)
  with assms(1) have "i = None" by (cases i) auto
  with HalfOpen assms show ?thesis
    by (auto simp: admit_def finish_def Let_def active_lease_policy_def config_lease_policy_def)
qed

lemma probes_progress:
  assumes "ps \<noteq> []" "\<forall>p \<in> set ps. good_probe p"
    and "recovery_progress (kc_state k) (fst (hd ps)) = Some n"
    and "unat n < unat (cc_recovery_success_threshold (kc_config k))"
    and "unat n + length ps = unat (cc_recovery_success_threshold (kc_config k))"
  shows "\<exists>r. kc_state (run_ops circuit_step k (concat (map probe_calls ps))) = Closed r 0 0"
  using assms
proof (induction ps arbitrary: k n)
  case Nil
  then show ?case by simp
next
  case (Cons p ps)
  obtain now deadline lease done_at where p: "p = (now, deadline, lease, done_at)" by (cases p)
  let ?thr = "cc_recovery_success_threshold (kc_config k)"
  let ?k = "run_ops circuit_step k (probe_calls p)"
  have b: "unat ?thr \<le> 2 ^ 16 - 1" using unat_bound [of ?thr] by simp
  with Cons.prems(4) have u: "unat (sat_add n 1) = unat n + 1" by (simp add: unat_sat_add)
  have step: "(sat_add n 1 < ?thr \<longrightarrow> (\<forall>t. recovery_progress (kc_state ?k) t = Some (sat_add n 1)))
      \<and> (?thr \<le> sat_add n 1 \<longrightarrow> (\<exists>r. kc_state ?k = Closed r 0 0))"
    using probe_step [of k now n deadline lease done_at] Cons.prems p by simp
  show ?case
  proof (cases "ps = []")
    case True
    with Cons.prems(5) u have "?thr \<le> sat_add n 1" by (simp add: word_le_nat_alt)
    with step True show ?thesis by simp
  next
    case False
    then have "length ps \<noteq> 0" by simp
    with Cons.prems(5) u have lt: "unat (sat_add n 1) < unat ?thr" by (cases ps) auto
    then have "sat_add n 1 < ?thr" by (simp add: word_less_nat_alt)
    with step have "recovery_progress (kc_state ?k) (fst (hd ps)) = Some (sat_add n 1)" by blast
    from Cons.IH [OF False _ this] Cons.prems lt u show ?thesis
      by (simp add: run_ops_append)
  qed
qed

fun before_cooldown :: "u64 \<Rightarrow> circuit_call \<Rightarrow> bool" where
  "before_cooldown until (Admit now _ _) = (now < until)"
| "before_cooldown until _ = True"

lemma open_step:
  assumes "kc_state k = Open r at until f l" "before_cooldown until c"
  shows "\<exists>r'. kc_state (circuit_step k c) = Open r' at until f l"
  using assms by (cases c) (auto simp: admit_def finish_def reap_expired_lease_def Let_def)

lemma open_run:
  assumes "kc_state k = Open r at until f l" "\<forall>c \<in> set cs. before_cooldown until c"
  shows "\<exists>r'. kc_state (run_ops circuit_step k cs) = Open r' at until f l"
  using assms
proof (induction cs arbitrary: k r)
  case Nil
  then show ?case by simp
next
  case (Cons c cs)
  from open_step [OF Cons.prems(1)] Cons.prems(2)
  obtain r' where "kc_state (circuit_step k c) = Open r' at until f l" by auto
  from Cons.IH [OF this] Cons.prems(2) show ?case by simp
qed

section \<open>Properties\<close>

text \<open>
  A concrete circuit for the examples: three failures open it, two successes close it, cooldowns
  of 10 ms doubling up to 40 ms.
\<close>

definition example_config :: StationKeyCircuitConfig where
  "example_config = \<lparr>cc_policy_revision = 1, cc_consecutive_failure_threshold = 3,
     cc_recovery_success_threshold = 2, cc_recovery_wait_ms = 10, cc_max_cooldown_ms = 40\<rparr>"

definition example_circuit :: "StationKeyCircuitState \<Rightarrow> StationKeyCircuit" where
  "example_circuit st = \<lparr>kc_config = example_config, kc_policy_revision = 1,
     kc_lease_policy = None, kc_state = st\<rparr>"

lemma example_new: "circuit_new example_config = Inr (example_circuit (Closed 1 0 0))"
  by (simp add: circuit_new_def circuit_config_validate_def example_config_def example_circuit_def
      circuit_state_default_def)

text \<open>
  C10: every circuit reachable from a new one by any calls of \<^verbatim>\<open>admit\<close>, \<^verbatim>\<open>finish\<close> and
  \<^verbatim>\<open>reap_expired_lease\<close> passes \<^verbatim>\<open>validate_state\<close>; what the store writes down of it is
  accepted by \<^verbatim>\<open>from_state\<close>, which gives back the same circuit.
\<close>
theorem circuit_store_roundtrip:
  assumes "circuit_new config = Inr k0" and "reachable circuit_step k0 k"
  shows "circuit_validate_state k = Inr ()
    \<and> circuit_from_state config (kc_policy_revision k) (kc_lease_policy k) (kc_state k) = Inr k"
proof -
  have ok: "circuit_ok k"
    using circuit_inv.reachable_keeps assms circuit_new_ok by blast
  have "kc_config k = config"
    using assms by (auto simp: reachable_iff_run circuit_new_def rbind_Inr_iff validate_Inr_iff)
  with ok show ?thesis by (auto simp: circuit_from_state_ok_iff circuit_ok_def)
qed

theorem circuit_store_roundtrip_witness:
  "circuit_validate_state (example_circuit (Closed 1 0 0)) = Inr ()"
  using circuit_store_roundtrip [OF example_new reachable_init] by blast

text \<open>
  C14: at most one half-open probe. Once an admission of an open or half-open circuit is granted
  with a lease, no further call of \<^verbatim>\<open>admit\<close> is granted until that very lease is finished or
  reaped, whatever other calls (with other leases, late results, reaping of other leases) happen
  in between.
\<close>
theorem circuit_single_probe:
  assumes "fst (admit k now deadline lease) = Inr AllowedHalfOpen"
    and "\<forall>c \<in> set cs. \<not> ends_lease lease c"
  shows "fst (admit (run_ops circuit_step (snd (admit k now deadline lease)) cs) now' deadline' lease')
    \<notin> {Inr AllowedClosed, Inr AllowedHalfOpen}"
proof -
  have "circuit_holder (snd (admit k now deadline lease)) = Some lease"
    using assms(1)
    by (auto simp: admit_def Let_def circuit_holder_def split: if_splits StationKeyCircuitState.splits option.splits)
  from circuit_lease.no_grant_run [OF this assms(2), of "Admit now' deadline' lease'"]
  show ?thesis by simp
qed

theorem circuit_single_probe_witness:
  "fst (admit (run_ops circuit_step
      (snd (admit (example_circuit (Open 5 0 10 3 1)) 10 20 ''a''))
      [Finish 11 (Some ''b'') True True, Reap 12 ''c'']) 30 40 ''d'')
    \<notin> {Inr AllowedClosed, Inr AllowedHalfOpen}"
  by (rule circuit_single_probe)
    (simp_all add: admit_def example_circuit_def example_config_def Let_def)



text \<open>
  an open circuit stays open, with its cooldown deadline unchanged, through every sequence of
  calls in which no admission is asked at or after that deadline; results that arrive meanwhile
  are ignored, and each well-formed admission in the sequence is denied with
  \<^verbatim>\<open>DeniedOpenCooldown\<close>.
\<close>
theorem circuit_denies_until_cooldown:
  assumes "kc_state k = Open r opened until f l"
    and "\<forall>c \<in> set cs. before_cooldown until c" and "now < until" and "now \<le> deadline" and "lease \<noteq> []"
  shows "\<exists>r'. kc_state (run_ops circuit_step k cs) = Open r' opened until f l
    \<and> fst (admit (run_ops circuit_step k cs) now deadline lease) = Inr DeniedOpenCooldown"
proof -
  obtain r' where st: "kc_state (run_ops circuit_step k cs) = Open r' opened until f l"
    using open_run assms(1,2) by blast
  with assms(3-5) show ?thesis by (auto simp: admit_def Let_def)
qed

theorem circuit_denies_until_cooldown_witness:
  "fst (admit (run_ops circuit_step (example_circuit (Open 5 0 10 3 1))
      [Admit 3 9 ''a'', Finish 4 (Some ''a'') True True]) 9 20 ''b'') = Inr DeniedOpenCooldown"
  using circuit_denies_until_cooldown [of "example_circuit (Open 5 0 10 3 1)" 5 0 10 3 1
      "[Admit 3 9 ''a'', Finish 4 (Some ''a'') True True]" 9 20 "''b''"]
  by (auto simp: example_circuit_def)

text \<open>
  C40: recovery. When a circuit is open and its cooldown is over, exactly as many successful probes
  as the configured recovery threshold (each reported before its lease's deadline) close it and
  reset both the failure count and the reopen level.
\<close>
theorem circuit_recovers:
  assumes "kc_state k = Open r opened until f l" and "until \<le> fst (hd ps)"
    and "\<forall>p \<in> set ps. good_probe p"
    and "cc_recovery_success_threshold (kc_config k) \<noteq> 0"
    and "length ps = unat (cc_recovery_success_threshold (kc_config k))"
  shows "\<exists>r'. kc_state (run_ops circuit_step k (concat (map probe_calls ps))) = Closed r' 0 0"
proof (rule probes_progress)
  have "0 < unat (cc_recovery_success_threshold (kc_config k))"
    using assms(4) by (simp add: unat_gt_0)
  then show "unat 0 < unat (cc_recovery_success_threshold (kc_config k))" and "ps \<noteq> []"
    using assms(5) by auto
qed (use assms in auto)

theorem circuit_recovers_witness:
  "\<exists>r'. kc_state (run_ops circuit_step (example_circuit (Open 5 0 10 3 1))
     (concat (map probe_calls [(10, 20, ''a'', 15), (30, 40, ''b'', 31)]))) = Closed r' 0 0"
  by (rule circuit_recovers) (auto simp: example_circuit_def example_config_def)

text \<open>
  On a circuit that satisfies its invariant, \<^verbatim>\<open>finish\<close> and \<^verbatim>\<open>reap_expired_lease\<close> never
  return an error, and \<^verbatim>\<open>admit\<close> returns one exactly when the deadline precedes the present or
  the lease id is empty, leaving the circuit unchanged.
\<close>
theorem circuit_errors:
  assumes "circuit_ok k"
  shows "(\<exists>t. fst (finish k now lease success crossed) = Inr t)
    \<and> (\<exists>b. fst (reap_expired_lease k now lid) = Inr b)
    \<and> ((\<exists>e. fst (admit k now deadline lid) = Inl e) \<longleftrightarrow> deadline < now \<or> lid = [])
    \<and> (deadline < now \<or> lid = [] \<longrightarrow> snd (admit k now deadline lid) = k)"
proof (intro conjI)
  show "\<exists>t. fst (finish k now lease success crossed) = Inr t"
    using assms by (cases "kc_state k") (auto simp: finish_def Let_def circuit_ok_simps
        active_lease_policy_def split: option.splits)
  show "\<exists>b. fst (reap_expired_lease k now lid) = Inr b"
    using assms by (cases "kc_state k") (auto simp: reap_expired_lease_def circuit_ok_simps
        active_lease_policy_def split: option.splits)
  show "(\<exists>e. fst (admit k now deadline lid) = Inl e) \<longleftrightarrow> deadline < now \<or> lid = []"
    by (cases "kc_state k") (auto simp: admit_def Let_def split: option.splits)
  show "deadline < now \<or> lid = [] \<longrightarrow> snd (admit k now deadline lid) = k"
    by (auto simp: admit_def Let_def)
qed

theorem circuit_errors_witness:
  "\<exists>t. fst (finish (example_circuit (Closed 1 0 0)) 4 None True True) = Inr t"
  using circuit_errors [OF circuit_new_ok [OF example_new]] by blast

text \<open>
  The persistence gate is fail-closed against races: if a station key is marked after the
  health check took its snapshot, and the revision counter has not reached its maximum, then
  clearing with the snapshot's revision is refused and the key's fence is still active.
\<close>
theorem gate_clear_refused_after_mark:
  fixes g :: CircuitPersistenceGateState
  assumes "gate_revision g \<noteq> - 1"
  shows "let g' = gate_mark_station_key g key lrev; (cleared, g'') = gate_clear_if_unchanged g'
             (gate_revision (gate_snapshot g))
         in \<not> cleared \<and> gate_is_active g'' key lrev"
proof -
  have "next_revision (gate_revision g) = sat_add (gate_revision g) 1"
    using sat_add_pos [of 1 "gate_revision g"] 
    by (simp add: next_revision_def max_def word_le_nat_alt word_unat_eq_iff)
  then have "sat_add (gate_revision g) 1 \<noteq> gate_revision g"
    using next_revision_greater [OF assms] by auto
  then show ?thesis
    by (simp add: gate_mark_station_key_def gate_clear_if_unchanged_def gate_snapshot_def
        gate_is_active_def)
qed

theorem gate_clear_refused_after_mark_witness:
  "\<not> fst (gate_clear_if_unchanged (gate_mark_station_key gate_default ''k'' 1) 0)"
  using gate_clear_refused_after_mark [of gate_default "''k''" 1]
  by (simp add: gate_default_def gate_snapshot_def Let_def split_beta)

end
