(* ===== verification/F64.thy ===== *)
theory F64
  imports Prelude Complex_Main "HOL-Library.Log_Nat"
begin

text \<open>
  The part of Rust's \<^verbatim>\<open>f64\<close> that the routing code uses, as IEEE 754 binary64 with
  round-to-nearest, ties to even. A finite value is the rational it denotes; an operation is the
  exact rational operation followed by one rounding (\<^verbatim>\<open>mul_add\<close> rounds once). The two signed
  zeros are one value here: none of the modelled code distinguishes them (it tests signs with
  comparisons and sorts strictly positive values only). The main results are that rounding is
  monotone and hence that the operations below preserve order.
\<close>

datatype f64 = F64_NaN | F64_Inf bool | F64_Num rat

section \<open>Rounding\<close>

text \<open>The exponent \<open>e\<close> with \<open>2 powi e \<le> q < 2 powi (e + 1)\<close>, for positive \<open>q\<close>.\<close>

definition ilog2 :: "rat \<Rightarrow> int" where
  "ilog2 q = (case quotient_of q of (a, b) \<Rightarrow>
     let k = bitlen a - bitlen b in if 2 powi k \<le> q then k else k - 1)"

definition ulp_exp :: "rat \<Rightarrow> int" where
  "ulp_exp q = max (ilog2 q - 52) (- 1074)"

definition round_half_even :: "rat \<Rightarrow> int" where
  "round_half_even q = (let f = \<lfloor>q\<rfloor>; d = q - of_int f in
     if d < 1 / 2 then f else if 1 / 2 < d then f + 1 else if even f then f else f + 1)"

definition round_pos :: "rat \<Rightarrow> rat" where
  "round_pos q = of_int (round_half_even (q / 2 powi ulp_exp q)) * 2 powi ulp_exp q"

definition f64_round :: "rat \<Rightarrow> f64" where
  "f64_round q =
     (if q = 0 then F64_Num 0
      else if 0 < q then
        (if 2 ^ 1024 \<le> round_pos q then F64_Inf False else F64_Num (round_pos q))
      else
        (if 2 ^ 1024 \<le> round_pos (- q) then F64_Inf True else F64_Num (- round_pos (- q))))"

lemma ilog2_bounds:
  assumes "0 < q"
  shows "2 powi ilog2 q \<le> q" "q < 2 powi (ilog2 q + 1)"
proof -
  obtain a b where ab: "quotient_of q = (a, b)" by fastforce
  then have q: "q = of_int a / of_int b" and b: "0 < b"
    by (auto simp: quotient_of_div quotient_of_denom_pos)
  with assms have a: "0 < a" by (simp add: zero_less_divide_iff)
  define la lb k where "la = bitlen a" and "lb = bitlen b" and "k = la - lb"
  have la: "0 < la" and lb: "0 < lb"
    using a b bitlen_eq_zero_iff bitlen_nonneg unfolding la_def lb_def
    by (metis less_le not_less)+
  have powi: "(2 :: rat) powi n = of_int (2 ^ nat n)" if "0 \<le> n" for n
    using that by (simp add: power_int_def)
  have "2 ^ nat (la - 1) \<le> a \<and> a < 2 ^ nat la" and "2 ^ nat (lb - 1) \<le> b \<and> b < 2 ^ nat lb"
    unfolding la_def lb_def using a b bitlen_bounds by auto
  then have A: "2 powi (la - 1) \<le> (of_int a :: rat)" "(of_int a :: rat) < 2 powi la"
    and B: "2 powi (lb - 1) \<le> (of_int b :: rat)" "(of_int b :: rat) < 2 powi lb"
    using la lb by (simp_all only: powi of_int_le_iff of_int_less_iff)
  have pos: "(0 :: rat) < 2 powi n" for n
    by (simp add: zero_less_power_int)
  have up: "q < 2 powi (k + 1)"
  proof -
    have "q < 2 powi la / of_int b" unfolding q using A b by (simp add: divide_strict_right_mono)
    also have "\<dots> \<le> 2 powi la / 2 powi (lb - 1)"
      using B pos [of la] pos [of "lb - 1"] b by (intro divide_left_mono) auto
    also have "\<dots> = 2 powi (k + 1)"
      by (simp add: k_def power_int_diff [symmetric] algebra_simps)
    finally show ?thesis .
  qed
  have lo: "2 powi (k - 1) \<le> q"
  proof -
    have "(2 :: rat) powi (k - 1) = 2 powi (la - 1) / 2 powi lb"
      by (simp add: k_def power_int_diff [symmetric] algebra_simps)
    also have "\<dots> \<le> 2 powi (la - 1) / of_int b"
      using B pos [of "la - 1"] pos [of lb] b by (intro divide_left_mono) auto
    also have "\<dots> \<le> q" unfolding q using A b by (simp add: divide_right_mono)
    finally show ?thesis .
  qed
  have "ilog2 q = (if 2 powi k \<le> q then k else k - 1)"
    by (simp add: ilog2_def ab k_def la_def lb_def Let_def)
  with up lo show "2 powi ilog2 q \<le> q" "q < 2 powi (ilog2 q + 1)"
    by (auto split: if_splits)
qed

lemma powi2_mono: "m \<le> n \<Longrightarrow> (2 :: rat) powi m \<le> 2 powi n"
  by (simp add: power_int_increasing)

lemma powi2_less_iff: "(2 :: rat) powi m < 2 powi n \<longleftrightarrow> m < n"
  by (metis linorder_not_less order_less_le powi2_mono power_int_strict_increasing one_less_numeral_iff
      semiring_norm(76))

lemma powi2_pos [simp]: "(0 :: rat) < 2 powi n"
  by (simp add: zero_less_power_int)

lemma ilog2_mono:
  assumes "0 < x" "x \<le> y"
  shows "ilog2 x \<le> ilog2 y"
proof -
  have "2 powi ilog2 x \<le> x" using ilog2_bounds(1) assms(1) .
  also have "\<dots> \<le> y" by (rule assms(2))
  also have "\<dots> < 2 powi (ilog2 y + 1)" using assms ilog2_bounds(2) by auto
  finally show ?thesis by (simp add: powi2_less_iff)
qed

lemma round_half_even_mono: "x \<le> y \<Longrightarrow> round_half_even x \<le> round_half_even y"
proof -
  assume xy: "x \<le> y"
  then have fl: "\<lfloor>x\<rfloor> \<le> \<lfloor>y\<rfloor>" by (rule floor_mono)
  show ?thesis
  proof (cases "\<lfloor>x\<rfloor> = \<lfloor>y\<rfloor>")
    case True
    then show ?thesis using xy by (auto simp: round_half_even_def Let_def)
  next
    case False
    with fl have "\<lfloor>x\<rfloor> + 1 \<le> \<lfloor>y\<rfloor>" by simp
    moreover have "round_half_even x \<le> \<lfloor>x\<rfloor> + 1" "\<lfloor>y\<rfloor> \<le> round_half_even y"
      by (auto simp: round_half_even_def Let_def)
    ultimately show ?thesis by linarith
  qed
qed

lemma round_half_even_of_int [simp]: "round_half_even (of_int n) = n"
  by (simp add: round_half_even_def)

lemma round_half_even_le: "x \<le> of_int n \<Longrightarrow> round_half_even x \<le> n"
  using round_half_even_mono [of x "of_int n"] by simp

lemma round_half_even_ge: "of_int n \<le> x \<Longrightarrow> n \<le> round_half_even x"
  using round_half_even_mono [of "of_int n" x] by simp

lemma powi2_split:
  assumes "e \<le> n"
  shows "(2 :: rat) powi n = of_int (2 ^ nat (n - e)) * 2 powi e"
proof -
  have "(2 :: rat) powi n = 2 powi ((n - e) + e)" by simp
  also have "\<dots> = 2 powi (n - e) * 2 powi e" by (rule power_int_add) simp
  also have "2 powi (n - e) = (of_int (2 ^ nat (n - e)) :: rat)"
    using assms by (simp add: power_int_def)
  finally show ?thesis .
qed

lemma round_pos_le_pow:
  assumes "x \<le> 2 powi n" "ulp_exp x \<le> n"
  shows "round_pos x \<le> 2 powi n"
proof -
  let ?e = "ulp_exp x"
  have n: "(2 :: rat) powi n = of_int (2 ^ nat (n - ?e)) * 2 powi ?e"
    by (rule powi2_split [OF assms(2)])
  from assms(1) have "x / 2 powi ?e \<le> of_int (2 ^ nat (n - ?e))"
    unfolding n by (simp add: pos_divide_le_eq)
  then have "round_half_even (x / 2 powi ?e) \<le> 2 ^ nat (n - ?e)"
    by (rule round_half_even_le)
  then have "(of_int (round_half_even (x / 2 powi ?e)) :: rat) \<le> of_int (2 ^ nat (n - ?e))"
    by (simp only: of_int_le_iff)
  then show ?thesis
    unfolding round_pos_def n by (intro mult_right_mono) (auto intro: less_imp_le)
qed

lemma round_pos_ge_pow:
  assumes "2 powi n \<le> x" "ulp_exp x \<le> n"
  shows "2 powi n \<le> round_pos x"
proof -
  let ?e = "ulp_exp x"
  have n: "(2 :: rat) powi n = of_int (2 ^ nat (n - ?e)) * 2 powi ?e"
    by (rule powi2_split [OF assms(2)])
  from assms(1) have "of_int (2 ^ nat (n - ?e)) \<le> x / 2 powi ?e"
    unfolding n by (simp add: pos_le_divide_eq)
  then have "2 ^ nat (n - ?e) \<le> round_half_even (x / 2 powi ?e)"
    by (rule round_half_even_ge)
  then have "(of_int (2 ^ nat (n - ?e)) :: rat) \<le> of_int (round_half_even (x / 2 powi ?e))"
    by (simp only: of_int_le_iff)
  then show ?thesis
    unfolding round_pos_def n by (intro mult_right_mono) (auto intro: less_imp_le)
qed

lemma round_pos_mono:
  assumes "0 < x" "x \<le> y"
  shows "round_pos x \<le> round_pos y"
proof (cases "ulp_exp x = ulp_exp y")
  case True
  have "round_half_even (x / 2 powi ulp_exp x) \<le> round_half_even (y / 2 powi ulp_exp x)"
    using assms by (intro round_half_even_mono divide_right_mono) (auto intro: less_imp_le)
  then show ?thesis
    unfolding round_pos_def True [symmetric]
    by (intro mult_right_mono) (auto intro: less_imp_le)
next
  case False
  have log: "ilog2 x \<le> ilog2 y" by (rule ilog2_mono [OF assms])
  with False have lt: "ilog2 x < ilog2 y" and e: "ulp_exp y = ilog2 y - 52" "ulp_exp x \<le> ilog2 y"
    by (auto simp: ulp_exp_def)
  have "x < 2 powi (ilog2 x + 1)" using assms(1) by (rule ilog2_bounds)
  also have "\<dots> \<le> 2 powi ilog2 y" using lt by (intro powi2_mono) simp
  finally have "round_pos x \<le> 2 powi ilog2 y"
    using e(2) by (intro round_pos_le_pow) auto
  also have "\<dots> \<le> round_pos y"
    using assms e(1) by (intro round_pos_ge_pow ilog2_bounds) auto
  finally show ?thesis .
qed

lemma round_pos_nonneg: "0 \<le> x \<Longrightarrow> 0 \<le> round_pos x"
proof -
  assume "0 \<le> x"
  then have "of_int 0 \<le> x / 2 powi ulp_exp x" by (simp add: less_imp_le)
  then have "0 \<le> round_half_even (x / 2 powi ulp_exp x)" by (rule round_half_even_ge)
  then show ?thesis by (simp add: round_pos_def less_imp_le)
qed

section \<open>Operations\<close>

fun f64_is_finite :: "f64 \<Rightarrow> bool" where
  "f64_is_finite (F64_Num q) = True"
| "f64_is_finite _ = False"

fun f64_is_nan :: "f64 \<Rightarrow> bool" where
  "f64_is_nan F64_NaN = True"
| "f64_is_nan _ = False"

text \<open>The IEEE comparison \<^verbatim>\<open><=\<close>: false as soon as one side is NaN.\<close>

fun f64_le :: "f64 \<Rightarrow> f64 \<Rightarrow> bool" where
  "f64_le F64_NaN b = False"
| "f64_le a F64_NaN = False"
| "f64_le (F64_Inf True) b = True"
| "f64_le a (F64_Inf False) = True"
| "f64_le (F64_Inf False) b = False"
| "f64_le a (F64_Inf True) = False"
| "f64_le (F64_Num p) (F64_Num q) = (p \<le> q)"

definition f64_lt :: "f64 \<Rightarrow> f64 \<Rightarrow> bool" where
  "f64_lt a b = (f64_le a b \<and> \<not> f64_le b a)"

fun f64_neg :: "f64 \<Rightarrow> f64" where
  "f64_neg F64_NaN = F64_NaN"
| "f64_neg (F64_Inf s) = F64_Inf (\<not> s)"
| "f64_neg (F64_Num q) = F64_Num (- q)"

fun f64_add :: "f64 \<Rightarrow> f64 \<Rightarrow> f64" where
  "f64_add F64_NaN b = F64_NaN"
| "f64_add a F64_NaN = F64_NaN"
| "f64_add (F64_Inf s) (F64_Inf t) = (if s = t then F64_Inf s else F64_NaN)"
| "f64_add (F64_Inf s) b = F64_Inf s"
| "f64_add a (F64_Inf t) = F64_Inf t"
| "f64_add (F64_Num p) (F64_Num q) = f64_round (p + q)"

definition f64_sub :: "f64 \<Rightarrow> f64 \<Rightarrow> f64" where
  "f64_sub a b = f64_add a (f64_neg b)"

fun f64_mul :: "f64 \<Rightarrow> f64 \<Rightarrow> f64" where
  "f64_mul F64_NaN b = F64_NaN"
| "f64_mul a F64_NaN = F64_NaN"
| "f64_mul (F64_Inf s) (F64_Inf t) = F64_Inf (s \<noteq> t)"
| "f64_mul (F64_Inf s) (F64_Num q) = (if q = 0 then F64_NaN else F64_Inf (s \<noteq> (q < 0)))"
| "f64_mul (F64_Num p) (F64_Inf t) = (if p = 0 then F64_NaN else F64_Inf ((p < 0) \<noteq> t))"
| "f64_mul (F64_Num p) (F64_Num q) = f64_round (p * q)"

fun f64_div :: "f64 \<Rightarrow> f64 \<Rightarrow> f64" where
  "f64_div F64_NaN b = F64_NaN"
| "f64_div a F64_NaN = F64_NaN"
| "f64_div (F64_Inf s) (F64_Inf t) = F64_NaN"
| "f64_div (F64_Inf s) (F64_Num q) = F64_Inf (s \<noteq> (q < 0))"
| "f64_div (F64_Num p) (F64_Inf t) = F64_Num 0"
| "f64_div (F64_Num p) (F64_Num q) =
     (if q = 0 then (if p = 0 then F64_NaN else F64_Inf (p < 0)) else f64_round (p / q))"

text \<open>\<^verbatim>\<open>a.mul_add(b, c)\<close> with one rounding.\<close>

fun f64_mul_add :: "f64 \<Rightarrow> f64 \<Rightarrow> f64 \<Rightarrow> f64" where
  "f64_mul_add (F64_Num p) (F64_Num q) (F64_Num r) = f64_round (p * q + r)"
| "f64_mul_add a b c = f64_add (f64_mul a b) c"

fun f64_floor :: "f64 \<Rightarrow> f64" where
  "f64_floor (F64_Num q) = F64_Num (of_int \<lfloor>q\<rfloor>)"
| "f64_floor a = a"

text \<open>\<^verbatim>\<open>f64::round\<close>: half away from zero.\<close>

fun f64_round_away :: "f64 \<Rightarrow> f64" where
  "f64_round_away (F64_Num q) =
     F64_Num (if 0 \<le> q then of_int \<lfloor>q + 1 / 2\<rfloor> else - of_int \<lfloor>- q + 1 / 2\<rfloor>)"
| "f64_round_away a = a"

definition f64_clamp :: "f64 \<Rightarrow> f64 \<Rightarrow> f64 \<Rightarrow> f64" where
  "f64_clamp x lo hi = (if f64_lt x lo then lo else if f64_lt hi x then hi else x)"

text \<open>The saturating cast \<^verbatim>\<open>x as uN\<close> for a largest value \<open>m\<close>: NaN and negatives give 0.\<close>

fun f64_to_uint :: "nat \<Rightarrow> f64 \<Rightarrow> nat" where
  "f64_to_uint m F64_NaN = 0"
| "f64_to_uint m (F64_Inf s) = (if s then 0 else m)"
| "f64_to_uint m (F64_Num q) = min m (nat \<lfloor>q\<rfloor>)"

text \<open>The saturating cast \<^verbatim>\<open>x as i64\<close> truncates towards zero; NaN gives 0.\<close>

fun f64_to_i64 :: "f64 \<Rightarrow> i64" where
  "f64_to_i64 F64_NaN = 0"
| "f64_to_i64 (F64_Inf s) = (if s then i64_min else i64_max)"
| "f64_to_i64 (F64_Num q) = i64_clamp (if 0 \<le> q then \<lfloor>q\<rfloor> else - \<lfloor>- q\<rfloor>)"

section \<open>Order preservation\<close>

lemma f64_le_Num_iff [simp]:
  "f64_le (F64_Num p) (F64_Inf s) \<longleftrightarrow> \<not> s"
  "f64_le (F64_Inf s) (F64_Num p) \<longleftrightarrow> s"
  "f64_le (F64_Inf s) (F64_Inf t) \<longleftrightarrow> s \<or> \<not> t"
  by (cases s; cases t; simp)+

text \<open>Values a non-negative finite computation can produce.\<close>

definition f64_nonneg :: "f64 \<Rightarrow> bool" where
  "f64_nonneg a = f64_le (F64_Num 0) a"

lemma f64_nonneg_cases:
  assumes "f64_nonneg a"
  obtains (num) q where "a = F64_Num q" "0 \<le> q" | (inf) "a = F64_Inf False"
  using assms by (cases a) (auto simp: f64_nonneg_def)

lemma f64_round_nonneg: "0 \<le> x \<Longrightarrow> f64_nonneg (f64_round x)"
  using round_pos_nonneg [of x] by (auto simp: f64_nonneg_def f64_round_def)

lemma f64_round_mono:
  assumes "0 \<le> x" "x \<le> y"
  shows "f64_le (f64_round x) (f64_round y)"
proof (cases "x = 0")
  case True
  then show ?thesis
    using f64_round_nonneg [of y] assms by (simp add: f64_round_def f64_nonneg_def)
next
  case False
  with assms have "0 < x" "0 < y" by auto
  with round_pos_mono [of x y] assms show ?thesis
    by (auto simp: f64_round_def)
qed

text \<open>A value with a 53-bit significand and an exponent in range is its own rounding.\<close>

lemma f64_round_exact:
  assumes m: "0 < m" "m < 2 ^ 53" and e: "- 1074 \<le> e" "e \<le> 971"
  shows "f64_round (of_int m * 2 powi e) = F64_Num (of_int m * 2 powi e)"
proof -
  let ?q = "of_int m * 2 powi e :: rat"
  have q: "0 < ?q" using m by simp
  have m': "(of_int m :: rat) < of_int (2 ^ 53)" using m(2) by (simp only: of_int_less_iff)
  have "?q < of_int (2 ^ 53) * 2 powi e"
    using m' by (intro mult_strict_right_mono) auto
  also have "\<dots> = 2 powi (e + 53)" using powi2_split [of e "e + 53"] by simp
  finally have lt: "?q < 2 powi (e + 53)" .
  have "2 powi ilog2 ?q < (2 :: rat) powi (e + 53)"
    using ilog2_bounds(1) [OF q] lt by linarith
  then have ule: "ulp_exp ?q \<le> e" using e by (simp add: ulp_exp_def powi2_less_iff)
  then have "?q = of_int (m * 2 ^ nat (e - ulp_exp ?q)) * 2 powi ulp_exp ?q"
    using powi2_split [OF ule] by simp
  then have "?q / 2 powi ulp_exp ?q = of_int (m * 2 ^ nat (e - ulp_exp ?q))"
    by (metis nonzero_mult_div_cancel_right less_irrefl powi2_pos)
  then have r: "round_pos ?q = ?q"
    by (metis round_pos_def round_half_even_of_int nonzero_eq_divide_eq less_irrefl powi2_pos)
  have "?q < 2 powi 1024"
    using lt powi2_mono [of "e + 53" 1024] e by linarith
  then show ?thesis using q r by (simp add: f64_round_def)
qed

lemma f64_round_one: "f64_round 1 = F64_Num 1"
  using f64_round_exact [of 1 0] by simp

lemma f64_round_ge1: "1 \<le> x \<Longrightarrow> f64_le (F64_Num 1) (f64_round x)"
  using f64_round_mono [of 1 x] by (simp add: f64_round_one)

end
