(* ===== verification/RustString.thy ===== *)
theory RustString
  imports Prelude
begin

text \<open>
  The string operations of the Rust standard library that the sources use. A \<^verbatim>\<open>str\<close> is its list
  of UTF-8 bytes; \<^verbatim>\<open>trim\<close> removes the UTF-8 encodings of the characters with the Unicode
  property \<^verbatim>\<open>White_Space\<close> from both ends.
\<close>

definition byte :: "nat \<Rightarrow> char" where
  "byte n = char_of n"

definition white_space :: "string list" where
  "white_space =
     map (\<lambda>b. [byte b]) [9, 10, 11, 12, 13, 32]
   @ [[byte 0xC2, byte 0x85], [byte 0xC2, byte 0xA0], [byte 0xE1, byte 0x9A, byte 0x80]]
   @ map (\<lambda>b. [byte 0xE2, byte 0x80, byte b]) ([0x80..<0x8B] @ [0xA8, 0xA9, 0xAF])
   @ [[byte 0xE2, byte 0x81, byte 0x9F], [byte 0xE3, byte 0x80, byte 0x80]]"

definition starts_with :: "string \<Rightarrow> string \<Rightarrow> bool" where
  "starts_with s p = (take (length p) s = p)"

text \<open>Removes leading occurrences of the (non-empty) strings \<open>ws\<close>.\<close>

function trim_prefixes :: "string list \<Rightarrow> string \<Rightarrow> string" where
  "trim_prefixes ws s =
     (case find (\<lambda>w. w \<noteq> [] \<and> starts_with s w) ws of
        None \<Rightarrow> s
      | Some w \<Rightarrow> trim_prefixes ws (drop (length w) s))"
  by pat_completeness auto

termination
proof (relation "measure (length \<circ> snd)")
  fix ws s w
  assume "find (\<lambda>w. w \<noteq> [] \<and> starts_with s w) ws = Some w"
  then have "w \<noteq> [] \<and> starts_with s w" by (auto dest: find_Some_in_set)
  then have "0 < length w \<and> 0 < length s" by (auto simp: starts_with_def)
  then show "((ws, drop (length w) s), ws, s) \<in> measure (length \<circ> snd)" by simp
qed simp

declare trim_prefixes.simps [simp del]

definition trim_start :: "string \<Rightarrow> string" where
  "trim_start s = trim_prefixes white_space s"

definition trim_end :: "string \<Rightarrow> string" where
  "trim_end s = rev (trim_prefixes (map rev white_space) (rev s))"

definition trim :: "string \<Rightarrow> string" where
  "trim s = trim_end (trim_start s)"

definition ascii_lowercase :: "char \<Rightarrow> char" where
  "ascii_lowercase c = (let n = of_char c :: nat in if 65 \<le> n \<and> n \<le> 90 then char_of (n + 32) else c)"

definition to_ascii_lowercase :: "string \<Rightarrow> string" where
  "to_ascii_lowercase s = map ascii_lowercase s"

definition eq_ignore_ascii_case :: "string \<Rightarrow> string \<Rightarrow> bool" where
  "eq_ignore_ascii_case a b = (to_ascii_lowercase a = to_ascii_lowercase b)"

text \<open>Decimal printing of an unsigned number.\<close>

fun show_nat :: "nat \<Rightarrow> string" where
  "show_nat n = (if n < 10 then [char_of (48 + n)] else show_nat (n div 10) @ [char_of (48 + n mod 10)])"

declare show_nat.simps [simp del]

lemma trim_prefixes_Nil [simp]: "trim_prefixes ws [] = []"
  by (subst trim_prefixes.simps) (auto simp: starts_with_def find_None_iff split: option.splits
      dest!: find_Some_in_set)

lemma trim_Nil [simp]: "trim [] = []"
  by (simp add: trim_def trim_start_def trim_end_def)

lemma ascii_lowercase_idem [simp]: "ascii_lowercase (ascii_lowercase c) = ascii_lowercase c"
  by (auto simp: ascii_lowercase_def Let_def)

lemma to_ascii_lowercase_idem [simp]:
  "to_ascii_lowercase (to_ascii_lowercase s) = to_ascii_lowercase s"
  by (simp add: to_ascii_lowercase_def)

text \<open>A string with no white space at an end is its own trimming.\<close>

lemma trim_prefixes_id:
  "\<forall>w \<in> set ws. w \<noteq> [] \<longrightarrow> \<not> starts_with s w \<Longrightarrow> trim_prefixes ws s = s"
  by (subst trim_prefixes.simps) (auto split: option.splits dest!: find_Some_in_set)

text \<open>Printed numbers are digits, and different numbers print differently.\<close>

lemma show_nat_digits: "c \<in> set (show_nat n) \<Longrightarrow> 48 \<le> (of_char c :: nat) \<and> (of_char c :: nat) \<le> 57"
proof (induction n rule: show_nat.induct)
  case (1 n)
  show ?case
  proof (cases "n < 10")
    case True
    with 1(2) show ?thesis by (simp add: show_nat.simps [of n])
  next
    case False
    then have "c \<in> set (show_nat (n div 10)) \<or> c = char_of (48 + n mod 10)"
      using 1(2) by (auto simp add: show_nat.simps [of n])
    moreover have "n mod 10 \<le> 9" by simp
    ultimately show ?thesis using 1(1) [OF False] by auto
  qed
qed

lemma show_nat_Nil [simp]: "show_nat n \<noteq> []"
  by (subst show_nat.simps) simp

fun read_nat :: "string \<Rightarrow> nat" where
  "read_nat s = foldl (\<lambda>a c. 10 * a + (of_char c - 48)) 0 s"

lemma read_show: "read_nat (show_nat n) = n"
proof (induction n rule: show_nat.induct)
  case (1 n)
  show ?case
  proof (cases "n < 10")
    case True
    then show ?thesis by (simp add: show_nat.simps [of n])
  next
    case False
    then have "show_nat n = show_nat (n div 10) @ [char_of (48 + n mod 10)]"
      by (simp add: show_nat.simps [of n])
    moreover have "n mod 10 \<le> 9" by simp
    ultimately show ?thesis using 1 [OF False] by simp
  qed
qed

lemma show_nat_inject [simp]: "show_nat m = show_nat n \<longleftrightarrow> m = n"
  by (metis read_show)

text \<open>Trimming of concrete strings: visible ASCII at both ends, and spaces.\<close>


definition visible_ascii :: "char \<Rightarrow> bool" where
  "visible_ascii c \<longleftrightarrow> 32 < (of_char c :: nat) \<and> (of_char c :: nat) < 128"

lemma white_space_ends:
  "\<forall>w \<in> set white_space. w \<noteq> [] \<and> \<not> visible_ascii (hd w) \<and> \<not> visible_ascii (last w)"
  by (simp add: white_space_def byte_def visible_ascii_def upt_rec)

lemma starts_with_hd: "starts_with s w \<Longrightarrow> w \<noteq> [] \<Longrightarrow> hd w = hd s"
  by (cases w; cases s) (auto simp: starts_with_def)

lemma trim_start_id: "s \<noteq> [] \<Longrightarrow> visible_ascii (hd s) \<Longrightarrow> trim_start s = s"
  unfolding trim_start_def
proof (rule trim_prefixes_id, intro ballI impI notI)
  fix w
  assume s: "s \<noteq> []" "visible_ascii (hd s)" and w: "w \<in> set white_space" "w \<noteq> []" "starts_with s w"
  then have "hd w = hd s" by (auto dest: starts_with_hd)
  with s w white_space_ends show False by auto
qed

lemma trim_end_id: "s \<noteq> [] \<Longrightarrow> visible_ascii (last s) \<Longrightarrow> trim_end s = s"
  unfolding trim_end_def
proof -
  assume s: "s \<noteq> []" "visible_ascii (last s)"
  have "trim_prefixes (map rev white_space) (rev s) = rev s"
  proof (rule trim_prefixes_id, intro ballI impI notI)
    fix w
    assume w: "w \<in> set (map rev white_space)" "w \<noteq> []" "starts_with (rev s) w"
    then have "hd w = hd (rev s)" by (auto dest: starts_with_hd)
    with s have "visible_ascii (hd w)" by (simp add: hd_rev)
    moreover obtain v where "w = rev v" "v \<in> set white_space" using w by auto
    ultimately show False using white_space_ends w by (auto simp: hd_rev)
  qed
  then show "rev (trim_prefixes (map rev white_space) (rev s)) = s" by simp
qed

lemma trim_id: "s \<noteq> [] \<Longrightarrow> visible_ascii (hd s) \<Longrightarrow> visible_ascii (last s) \<Longrightarrow> trim s = s"
  by (simp add: trim_def trim_start_id trim_end_id)

lemma find_space: "find (\<lambda>w. w \<noteq> [] \<and> starts_with (CHR '' '' # s) w) white_space = Some '' ''"
  by (simp add: white_space_def byte_def starts_with_def char_of_def bit_0)

lemma trim_start_space: "trim_start (CHR '' '' # s) = trim_start s"
  unfolding trim_start_def by (subst trim_prefixes.simps) (simp add: find_space)

lemma find_space_rev: "find (\<lambda>w. w \<noteq> [] \<and> starts_with (CHR '' '' # s) w) (map rev white_space) = Some '' ''"
  by (simp add: white_space_def byte_def starts_with_def char_of_def bit_0)

lemma trim_end_space: "trim_end (s @ '' '') = trim_end s"
  unfolding trim_end_def by (simp, subst trim_prefixes.simps) (simp add: find_space_rev)

lemma trim_prefixes_idem: "trim_prefixes ws (trim_prefixes ws s) = trim_prefixes ws s"
proof (induction ws s rule: trim_prefixes.induct)
  case (1 ws s)
  show ?case
  proof (cases "find (\<lambda>w. w \<noteq> [] \<and> starts_with s w) ws")
    case None
    then show ?thesis by (simp add: trim_prefixes.simps [of ws s])
  next
    case (Some w)
    then show ?thesis using "1.IH" [OF Some] by (simp add: trim_prefixes.simps [of ws s])
  qed
qed

lemma trim_prefixes_length: "length (trim_prefixes ws s) \<le> length s"
proof (induction ws s rule: trim_prefixes.induct)
  case (1 ws s)
  show ?case
  proof (cases "find (\<lambda>w. w \<noteq> [] \<and> starts_with s w) ws")
    case None
    then show ?thesis by (simp add: trim_prefixes.simps [of ws s])
  next
    case (Some w)
    have "length (trim_prefixes ws (drop (length w) s)) \<le> length s" using "1.IH" [OF Some] by simp
    then show ?thesis using Some by (simp add: trim_prefixes.simps [of ws s])
  qed
qed

lemma trim_prefixes_fixed: "trim_prefixes ws s = s \<longleftrightarrow> (\<forall>w \<in> set ws. w \<noteq> [] \<longrightarrow> \<not> starts_with s w)"
proof
  assume fixed: "trim_prefixes ws s = s"
  show "\<forall>w \<in> set ws. w \<noteq> [] \<longrightarrow> \<not> starts_with s w"
  proof (rule ccontr)
    assume "\<not> (\<forall>w \<in> set ws. w \<noteq> [] \<longrightarrow> \<not> starts_with s w)"
    then obtain w where w: "find (\<lambda>w. w \<noteq> [] \<and> starts_with s w) ws = Some w"
      by (metis (mono_tags, lifting) find_ex)
    then have "w \<noteq> []" "starts_with s w" by (auto dest: find_Some_in_set)
    have "length (trim_prefixes ws s) \<le> length (drop (length w) s)"
      using w trim_prefixes_length [of ws "drop (length w) s"] by (simp add: trim_prefixes.simps [of ws s])
    moreover have "length w \<le> length s" "0 < length w"
      using \<open>w \<noteq> []\<close> \<open>starts_with s w\<close> by (auto simp: starts_with_def dest: arg_cong [of _ _ length])
    ultimately show False using fixed by (metis diff_less leD le_trans length_drop length_greater_0_conv less_le_trans)
  qed
next
  assume "\<forall>w \<in> set ws. w \<noteq> [] \<longrightarrow> \<not> starts_with s w"
  then have "find (\<lambda>w. w \<noteq> [] \<and> starts_with s w) ws = None" by (auto simp: find_None_all)
  then show "trim_prefixes ws s = s" by (simp add: trim_prefixes.simps [of ws s])
qed

lemma starts_with_iff: "starts_with s p \<longleftrightarrow> (\<exists>t. s = p @ t)"
  unfolding starts_with_def by (metis append_eq_conv_conj append_take_drop_id)

lemma trim_prefixes_suffix: "\<exists>p. s = p @ trim_prefixes ws s"
proof (induction ws s rule: trim_prefixes.induct)
  case (1 ws s)
  show ?case
  proof (cases "find (\<lambda>w. w \<noteq> [] \<and> starts_with s w) ws")
    case None
    then show ?thesis by (simp add: trim_prefixes.simps [of ws s])
  next
    case (Some w)
    then obtain p where "drop (length w) s = p @ trim_prefixes ws (drop (length w) s)" using "1.IH" by blast
    moreover have "trim_prefixes ws s = trim_prefixes ws (drop (length w) s)"
      using Some by (simp add: trim_prefixes.simps [of ws s])
    ultimately have "s = (take (length w) s @ p) @ trim_prefixes ws s"
      by (metis append.assoc append_take_drop_id)
    then show ?thesis by blast
  qed
qed

text \<open>Trimming twice is trimming once: the end of a trimmed start cannot expose new leading white space.\<close>

lemma trim_idem [simp]: "trim (trim s) = trim s"
proof -
  define u where "u = trim_start s"
  obtain q where q: "rev u = q @ rev (trim_end u)"
    using trim_prefixes_suffix [of "rev u" "map rev white_space"] by (auto simp: trim_end_def)
  then have u: "u = trim_end u @ rev q" by (metis rev_append rev_rev_ident)
  have "trim_start u = u" by (simp add: u_def trim_start_def trim_prefixes_idem)
  then have "\<forall>w \<in> set white_space. w \<noteq> [] \<longrightarrow> \<not> starts_with u w" by (simp add: trim_start_def trim_prefixes_fixed)
  moreover have "starts_with u w" if "starts_with (trim_end u) w" for w
    using that u unfolding starts_with_iff by (metis append.assoc)
  ultimately have "trim_start (trim_end u) = trim_end u" by (auto simp: trim_start_def trim_prefixes_fixed)
  moreover have "trim_end (trim_end u) = trim_end u" by (simp add: trim_end_def trim_prefixes_idem)
  ultimately show ?thesis by (simp add: trim_def flip: u_def)
qed

end
