(* ===== verification/Policy.thy ===== *)
theory Policy
  imports F64 RustString
begin

text \<open>
  The routing policy (\<^verbatim>\<open>models/routing_policy.rs\<close>, \<^verbatim>\<open>application/routing_policy.rs\<close> and
  \<^verbatim>\<open>application/health_protection.rs\<close>): the three versions of the configuration with their
  validation and upgrades, and the compilers that turn a validated policy into the attempt budget
  and the weights the planner uses. Validation errors carry the source's field, code and message
  key. The JSON decoding in front of it is a third-party library and is not modelled; a decoded
  configuration is a value of the record.
\<close>

section \<open>Basis points\<close>

datatype BasisPoints = BasisPoints u16

fun bp_get :: "BasisPoints \<Rightarrow> u16" where
  "bp_get (BasisPoints v) = v"

definition bp_ZERO :: BasisPoints where
  "bp_ZERO = BasisPoints 0"

definition bp_new :: "u16 \<Rightarrow> BasisPoints option" where
  "bp_new v = (if v \<le> 10000 then Some (BasisPoints v) else None)"

definition bp_checked_add :: "BasisPoints \<Rightarrow> BasisPoints \<Rightarrow> BasisPoints option" where
  "bp_checked_add a b = Option.bind (checked_add (bp_get a) (bp_get b)) bp_new"

text \<open>The values the private constructor lets exist.\<close>

definition bp_ok :: "BasisPoints \<Rightarrow> bool" where
  "bp_ok b \<longleftrightarrow> bp_get b \<le> 10000"

lemma bp_new_Some_iff: "bp_new v = Some b \<longleftrightarrow> b = BasisPoints v \<and> v \<le> 10000"
  by (auto simp: bp_new_def)

lemma bp_checked_add_Some_iff:
  "bp_checked_add a b = Some c \<longleftrightarrow>
     unat (bp_get a) + unat (bp_get b) \<le> 10000 \<and> c = BasisPoints (bp_get a + bp_get b)"
proof (cases "unat (bp_get a) + unat (bp_get b) < 2 ^ 16")
  case True
  then have "unat (bp_get a + bp_get b) = unat (bp_get a) + unat (bp_get b)"
    by (simp add: unat_add_lem [THEN iffD1])
  with True show ?thesis
    by (auto simp: bp_checked_add_def checked_add_def bp_new_def word_le_nat_alt)
next
  case False
  then show ?thesis by (auto simp: bp_checked_add_def checked_add_def)
qed

section \<open>Validation errors\<close>

record RoutingPolicyFieldValidationError =
  fe_field :: string
  fe_code :: string
  fe_message_key :: string

definition field_error :: "string \<Rightarrow> string \<Rightarrow> string \<Rightarrow> RoutingPolicyFieldValidationError" where
  "field_error f c m = \<lparr>fe_field = f, fe_code = c, fe_message_key = m\<rparr>"

type_synonym 'a field_result = "RoutingPolicyFieldValidationError + 'a"

section \<open>Groups and the version 1 configuration\<close>

datatype PricingGroupType = Gpt | Claude | Gemini | Grok | ImageGeneration

datatype RoutingGroupFilter =
    AllGroups | UngroupedOnly | GroupBindingId string | GroupIdHash string | GroupType PricingGroupType

record RoutingPolicyConfigV1 =
  p1_version :: u16
  p1_reliability_weight :: u16
  p1_responsiveness_weight :: u16
  p1_cost_weight :: u16
  p1_preference_weight :: u16
  p1_max_candidates :: u16
  p1_exploration_share_basis_points :: u16
  p1_allow_depleted_fallback :: bool
  p1_affinity_enabled :: bool
  p1_affinity_ttl_seconds :: u32
  p1_max_rate_multiplier :: "f64 option"
  p1_routing_group_filter :: RoutingGroupFilter
  p1_outbound_proxy_mode :: string
  p1_outbound_proxy_url :: "string option"

definition config_v1_default :: RoutingPolicyConfigV1 where
  "config_v1_default =
     \<lparr>p1_version = 1,
      p1_reliability_weight = 4000,
      p1_responsiveness_weight = 2500,
      p1_cost_weight = 2000,
      p1_preference_weight = 1500,
      p1_max_candidates = 64,
      p1_exploration_share_basis_points = 500,
      p1_allow_depleted_fallback = False,
      p1_affinity_enabled = False,
      p1_affinity_ttl_seconds = 300,
      p1_max_rate_multiplier = None,
      p1_routing_group_filter = AllGroups,
      p1_outbound_proxy_mode = ''inherit'',
      p1_outbound_proxy_url = None\<rparr>"

definition proxy_scheme_ok :: "string \<Rightarrow> bool" where
  "proxy_scheme_ok v \<longleftrightarrow> starts_with v ''http://'' \<or> starts_with v ''https://''
     \<or> starts_with v ''socks5://'' \<or> starts_with v ''socks5h://''"

definition config_v1_validate :: "RoutingPolicyConfigV1 \<Rightarrow> string + unit" where
  "config_v1_validate c =
     (let total = unat (p1_reliability_weight c) + unat (p1_responsiveness_weight c)
                + unat (p1_cost_weight c) + unat (p1_preference_weight c) in
      if p1_version c \<noteq> 1
       \<or> p1_max_candidates c = 0
       \<or> p1_max_candidates c > 1024
       \<or> total \<noteq> 10000
       \<or> p1_exploration_share_basis_points c > 2000
       \<or> (case p1_max_rate_multiplier c of None \<Rightarrow> False
           | Some v \<Rightarrow> \<not> f64_is_finite v \<or> f64_lt v (F64_Num 0))
       \<or> to_ascii_lowercase (trim (p1_outbound_proxy_mode c))
           \<notin> {''inherit'', ''direct'', ''system'', ''manual''}
       \<or> (eq_ignore_ascii_case (p1_outbound_proxy_mode c) ''manual''
           \<and> (case p1_outbound_proxy_url c of None \<Rightarrow> True | Some v \<Rightarrow> trim v = []))
       \<or> (case p1_outbound_proxy_url c of None \<Rightarrow> False | Some v \<Rightarrow> \<not> proxy_scheme_ok (trim v))
       \<or> (p1_affinity_enabled c \<and> \<not> (1 \<le> p1_affinity_ttl_seconds c \<and> p1_affinity_ttl_seconds c \<le> 86400))
      then Inl ''invalid routing policy'' else Inr ())"

section \<open>Retry and failover, protection and timeouts (version 2)\<close>

record RetryFailoverPolicyV2 =
  rf_version :: u16
  rf_max_total_attempts :: u16
  rf_max_same_target_capacity_retries :: u16
  rf_capacity_retry_wait_budget_seconds :: f64
  rf_allow_cross_capacity_domain_fallback :: bool

definition retry_failover_default :: RetryFailoverPolicyV2 where
  "retry_failover_default =
     \<lparr>rf_version = 2,
      rf_max_total_attempts = 4,
      rf_max_same_target_capacity_retries = 2,
      rf_capacity_retry_wait_budget_seconds = F64_Num 2,
      rf_allow_cross_capacity_domain_fallback = True\<rparr>"

text \<open>\<^verbatim>\<open>(lo..=hi).contains(&x)\<close> on floating-point numbers.\<close>

definition f64_in_range :: "f64 \<Rightarrow> f64 \<Rightarrow> f64 \<Rightarrow> bool" where
  "f64_in_range lo hi x \<longleftrightarrow> f64_le lo x \<and> f64_le x hi"

definition retry_failover_validate :: "RetryFailoverPolicyV2 \<Rightarrow> unit field_result" where
  "retry_failover_validate r =
     (if rf_version r \<noteq> 2 then
        Inl (field_error ''retryFailover.version'' ''unsupported_version'' ''routing.retryFailover.version.unsupported'')
      else if \<not> (1 \<le> rf_max_total_attempts r \<and> rf_max_total_attempts r \<le> 4) then
        Inl (field_error ''retryFailover.maxTotalAttempts'' ''out_of_range'' ''routing.retryFailover.maxTotalAttempts.range'')
      else if rf_max_same_target_capacity_retries r > 2 then
        Inl (field_error ''retryFailover.maxSameTargetCapacityRetries'' ''out_of_range'' ''routing.retryFailover.maxSameTargetCapacityRetries.range'')
      else if rf_max_same_target_capacity_retries r \<ge> rf_max_total_attempts r then
        Inl (field_error ''retryFailover.maxSameTargetCapacityRetries'' ''must_be_less_than_max_total_attempts'' ''routing.retryFailover.maxSameTargetCapacityRetries.lessThanTotal'')
      else if \<not> f64_is_finite (rf_capacity_retry_wait_budget_seconds r)
           \<or> \<not> f64_in_range (F64_Num 0) (F64_Num 2) (rf_capacity_retry_wait_budget_seconds r) then
        Inl (field_error ''retryFailover.capacityRetryWaitBudgetSeconds'' ''out_of_range'' ''routing.retryFailover.capacityRetryWaitBudgetSeconds.range'')
      else Inr ())"

text \<open>\<^verbatim>\<open>(seconds * 1_000.0).round() as u64\<close>\<close>

definition seconds_to_millis :: "f64 \<Rightarrow> nat" where
  "seconds_to_millis s = f64_to_uint (2 ^ 64 - 1) (f64_round_away (f64_mul s (F64_Num 1000)))"

definition capacity_retry_wait_budget_millis :: "RetryFailoverPolicyV2 \<Rightarrow> u64" where
  "capacity_retry_wait_budget_millis r = of_nat (seconds_to_millis (rf_capacity_retry_wait_budget_seconds r))"

record ProtectionProfileConfigV2 =
  pp_version :: u16
  pp_enabled :: bool
  pp_window_max_samples :: u16
  pp_window_seconds :: f64
  pp_min_samples :: u16
  pp_failure_threshold_percent :: u8
  pp_half_open_successes_to_close :: u8

definition protection_default :: ProtectionProfileConfigV2 where
  "protection_default =
     \<lparr>pp_version = 2,
      pp_enabled = False,
      pp_window_max_samples = 64,
      pp_window_seconds = F64_Num 300,
      pp_min_samples = 5,
      pp_failure_threshold_percent = 60,
      pp_half_open_successes_to_close = 2\<rparr>"

text \<open>\<^verbatim>\<open>f64::MIN_POSITIVE\<close>, the smallest positive normal number.\<close>

definition f64_MIN_POSITIVE :: f64 where
  "f64_MIN_POSITIVE = F64_Num (1 / 2 ^ 1022)"

definition protection_validate :: "ProtectionProfileConfigV2 \<Rightarrow> unit field_result" where
  "protection_validate p =
     (if pp_version p \<noteq> 2 then
        Inl (field_error ''protectionProfile.version'' ''unsupported_version'' ''routing.protectionProfile.version.unsupported'')
      else if pp_window_max_samples p = 0 \<or> pp_window_max_samples p > 256 then
        Inl (field_error ''protectionProfile.windowMaxSamples'' ''out_of_range'' ''routing.protectionProfile.windowMaxSamples.range'')
      else if \<not> f64_is_finite (pp_window_seconds p)
           \<or> \<not> f64_in_range f64_MIN_POSITIVE (F64_Num 86400) (pp_window_seconds p) then
        Inl (field_error ''protectionProfile.windowSeconds'' ''out_of_range'' ''routing.protectionProfile.windowSeconds.range'')
      else if pp_min_samples p = 0 \<or> pp_min_samples p > pp_window_max_samples p then
        Inl (field_error ''protectionProfile.minSamples'' ''out_of_range'' ''routing.protectionProfile.minSamples.range'')
      else if \<not> (1 \<le> pp_failure_threshold_percent p \<and> pp_failure_threshold_percent p \<le> 100) then
        Inl (field_error ''protectionProfile.failureThresholdPercent'' ''out_of_range'' ''routing.protectionProfile.failureThresholdPercent.range'')
      else if pp_half_open_successes_to_close p = 0 \<or> pp_half_open_successes_to_close p > 16 then
        Inl (field_error ''protectionProfile.halfOpenSuccessesToClose'' ''out_of_range'' ''routing.protectionProfile.halfOpenSuccessesToClose.range'')
      else Inr ())"

definition window_millis :: "ProtectionProfileConfigV2 \<Rightarrow> i64" where
  "window_millis p = f64_to_i64 (f64_round_away (f64_mul (pp_window_seconds p) (F64_Num 1000)))"

record TimeoutPolicyV2 =
  to_version :: u16
  to_connect_seconds :: f64
  to_first_byte_seconds :: f64
  to_precommit_seconds :: f64
  to_buffered_execution_seconds :: f64
  to_stream_idle_seconds :: f64

definition timeout_default :: TimeoutPolicyV2 where
  "timeout_default =
     \<lparr>to_version = 2,
      to_connect_seconds = F64_Num 10,
      to_first_byte_seconds = F64_Num 30,
      to_precommit_seconds = F64_Num 60,
      to_buffered_execution_seconds = F64_Num 300,
      to_stream_idle_seconds = F64_Num 180\<rparr>"

definition timeout_fields :: "TimeoutPolicyV2 \<Rightarrow> (string \<times> f64 \<times> f64) list" where
  "timeout_fields t =
     [(''timeoutPolicy.connectSeconds'', to_connect_seconds t, F64_Num 120),
      (''timeoutPolicy.firstByteSeconds'', to_first_byte_seconds t, F64_Num 300),
      (''timeoutPolicy.precommitSeconds'', to_precommit_seconds t, F64_Num 600),
      (''timeoutPolicy.bufferedExecutionSeconds'', to_buffered_execution_seconds t, F64_Num 1800),
      (''timeoutPolicy.streamIdleSeconds'', to_stream_idle_seconds t, F64_Num 600)]"

definition timeout_validate :: "TimeoutPolicyV2 \<Rightarrow> unit field_result" where
  "timeout_validate t =
     (if to_version t \<noteq> 2 then
        Inl (field_error ''timeoutPolicy.version'' ''unsupported_version'' ''routing.timeoutPolicy.version.unsupported'')
      else case find (\<lambda>(f, v, m). \<not> f64_is_finite v \<or> \<not> f64_in_range (F64_Num 1) m v) (timeout_fields t) of
        Some (f, _, _) \<Rightarrow> Inl (field_error f ''out_of_range'' ''routing.timeoutPolicy.range'')
      | None \<Rightarrow>
          if f64_lt (to_buffered_execution_seconds t) (to_precommit_seconds t) then
            Inl (field_error ''timeoutPolicy.precommitSeconds'' ''must_not_exceed_buffered_execution'' ''routing.timeoutPolicy.precommitBeforeBuffered'')
          else Inr ())"

definition connect_millis :: "TimeoutPolicyV2 \<Rightarrow> nat" where
  "connect_millis t = seconds_to_millis (to_connect_seconds t)"

definition first_byte_millis :: "TimeoutPolicyV2 \<Rightarrow> nat" where
  "first_byte_millis t = seconds_to_millis (to_first_byte_seconds t)"

definition precommit_millis :: "TimeoutPolicyV2 \<Rightarrow> nat" where
  "precommit_millis t = seconds_to_millis (to_precommit_seconds t)"

definition buffered_execution_millis :: "TimeoutPolicyV2 \<Rightarrow> nat" where
  "buffered_execution_millis t = seconds_to_millis (to_buffered_execution_seconds t)"

definition stream_idle_millis :: "TimeoutPolicyV2 \<Rightarrow> nat" where
  "stream_idle_millis t = seconds_to_millis (to_stream_idle_seconds t)"

section \<open>The version 2 configuration\<close>

record RoutingPolicyConfigV2 =
  p2_version :: u16
  p2_reliability_weight :: u16
  p2_responsiveness_weight :: u16
  p2_cost_weight :: u16
  p2_preference_weight :: u16
  p2_max_candidates :: u16
  p2_exploration_share_basis_points :: u16
  p2_allow_depleted_fallback :: bool
  p2_affinity_enabled :: bool
  p2_affinity_ttl_seconds :: u32
  p2_max_rate_multiplier :: "f64 option"
  p2_routing_group_filter :: RoutingGroupFilter
  p2_outbound_proxy_mode :: string
  p2_outbound_proxy_url :: "string option"
  p2_retry_failover :: RetryFailoverPolicyV2
  p2_protection_profile :: ProtectionProfileConfigV2
  p2_timeout_policy :: TimeoutPolicyV2

text \<open>The version 2 object with the routing factors of a version 1 object and default additions.\<close>

definition config_v2_of_v1 :: "RoutingPolicyConfigV1 \<Rightarrow> RoutingPolicyConfigV2" where
  "config_v2_of_v1 v =
     \<lparr>p2_version = 2,
      p2_reliability_weight = p1_reliability_weight v,
      p2_responsiveness_weight = p1_responsiveness_weight v,
      p2_cost_weight = p1_cost_weight v,
      p2_preference_weight = p1_preference_weight v,
      p2_max_candidates = p1_max_candidates v,
      p2_exploration_share_basis_points = p1_exploration_share_basis_points v,
      p2_allow_depleted_fallback = p1_allow_depleted_fallback v,
      p2_affinity_enabled = p1_affinity_enabled v,
      p2_affinity_ttl_seconds = p1_affinity_ttl_seconds v,
      p2_max_rate_multiplier = p1_max_rate_multiplier v,
      p2_routing_group_filter = p1_routing_group_filter v,
      p2_outbound_proxy_mode = p1_outbound_proxy_mode v,
      p2_outbound_proxy_url = p1_outbound_proxy_url v,
      p2_retry_failover = retry_failover_default,
      p2_protection_profile = protection_default,
      p2_timeout_policy = timeout_default\<rparr>"

definition config_v2_default :: RoutingPolicyConfigV2 where
  "config_v2_default = config_v2_of_v1 config_v1_default"

definition config_v2_base :: "RoutingPolicyConfigV2 \<Rightarrow> RoutingPolicyConfigV1" where
  "config_v2_base v =
     \<lparr>p1_version = 1,
      p1_reliability_weight = p2_reliability_weight v,
      p1_responsiveness_weight = p2_responsiveness_weight v,
      p1_cost_weight = p2_cost_weight v,
      p1_preference_weight = p2_preference_weight v,
      p1_max_candidates = p2_max_candidates v,
      p1_exploration_share_basis_points = p2_exploration_share_basis_points v,
      p1_allow_depleted_fallback = p2_allow_depleted_fallback v,
      p1_affinity_enabled = p2_affinity_enabled v,
      p1_affinity_ttl_seconds = p2_affinity_ttl_seconds v,
      p1_max_rate_multiplier = p2_max_rate_multiplier v,
      p1_routing_group_filter = p2_routing_group_filter v,
      p1_outbound_proxy_mode = p2_outbound_proxy_mode v,
      p1_outbound_proxy_url = p2_outbound_proxy_url v\<rparr>"

definition config_v2_validate :: "RoutingPolicyConfigV2 \<Rightarrow> unit field_result" where
  "config_v2_validate c =
     (if p2_version c \<noteq> 2 then
        Inl (field_error ''version'' ''unsupported_version'' ''routing.policy.version.unsupported'')
      else case config_v1_validate (config_v2_base c) of
        Inl _ \<Rightarrow> Inl (field_error ''policy'' ''invalid_base_policy'' ''routing.policy.invalid'')
      | Inr _ \<Rightarrow>
          rbind (retry_failover_validate (p2_retry_failover c)) (\<lambda>_.
          rbind (protection_validate (p2_protection_profile c)) (\<lambda>_.
          timeout_validate (p2_timeout_policy c))))"

definition config_v2_from_v1 :: "RoutingPolicyConfigV1 \<Rightarrow> RoutingPolicyConfigV2 field_result" where
  "config_v2_from_v1 v =
     (case config_v1_validate v of
        Inl _ \<Rightarrow> Inl (field_error ''policy'' ''invalid_v1_policy'' ''routing.policy.invalid'')
      | Inr _ \<Rightarrow> (let upgraded = config_v2_of_v1 v in
          rbind (config_v2_validate upgraded) (\<lambda>_. Inr upgraded)))"

section \<open>The version 3 configuration\<close>

record ReliabilitySourceWeightsV3 =
  sw_real_traffic_percent :: u8
  sw_monitoring_percent :: u8

definition source_weights_default :: ReliabilitySourceWeightsV3 where
  "source_weights_default = \<lparr>sw_real_traffic_percent = 70, sw_monitoring_percent = 30\<rparr>"

definition source_weights_validate :: "ReliabilitySourceWeightsV3 \<Rightarrow> unit field_result" where
  "source_weights_validate w =
     (if unat (sw_real_traffic_percent w) + unat (sw_monitoring_percent w) \<noteq> 100 then
        Inl (field_error ''reliabilitySourceWeights.monitoringPercent'' ''sum_must_equal_100'' ''routing.reliabilitySourceWeights.sum'')
      else Inr ())"

definition real_traffic_basis_points :: "ReliabilitySourceWeightsV3 \<Rightarrow> u16" where
  "real_traffic_basis_points w = ucast (sw_real_traffic_percent w) * 100"

definition monitoring_basis_points :: "ReliabilitySourceWeightsV3 \<Rightarrow> u16" where
  "monitoring_basis_points w = ucast (sw_monitoring_percent w) * 100"

record ReliabilitySamplingPolicyV3 =
  rs_historical_minimum_samples :: u16
  rs_recent_minimum_samples :: u16
  rs_optimistic_reliability_percent :: u8
  rs_optimistic_latency_ms :: u32

definition sampling_default :: ReliabilitySamplingPolicyV3 where
  "sampling_default =
     \<lparr>rs_historical_minimum_samples = 15,
      rs_recent_minimum_samples = 5,
      rs_optimistic_reliability_percent = 95,
      rs_optimistic_latency_ms = 2500\<rparr>"

definition sampling_validate :: "ReliabilitySamplingPolicyV3 \<Rightarrow> unit field_result" where
  "sampling_validate s =
     (if \<not> (1 \<le> rs_historical_minimum_samples s \<and> rs_historical_minimum_samples s \<le> 10000) then
        Inl (field_error ''reliabilitySampling.historicalMinimumSamples'' ''out_of_range'' ''routing.reliabilitySampling.historicalMinimumSamples.range'')
      else if \<not> (1 \<le> rs_recent_minimum_samples s \<and> rs_recent_minimum_samples s \<le> 10000) then
        Inl (field_error ''reliabilitySampling.recentMinimumSamples'' ''out_of_range'' ''routing.reliabilitySampling.recentMinimumSamples.range'')
      else if rs_optimistic_reliability_percent s > 100 then
        Inl (field_error ''reliabilitySampling.optimisticReliabilityPercent'' ''out_of_range'' ''routing.reliabilitySampling.optimisticReliabilityPercent.range'')
      else if \<not> (100 \<le> rs_optimistic_latency_ms s \<and> rs_optimistic_latency_ms s \<le> 120000) then
        Inl (field_error ''reliabilitySampling.optimisticLatencyMs'' ''out_of_range'' ''routing.reliabilitySampling.optimisticLatencyMs.range'')
      else Inr ())"

definition optimistic_reliability_basis_points :: "ReliabilitySamplingPolicyV3 \<Rightarrow> u16" where
  "optimistic_reliability_basis_points s = ucast (rs_optimistic_reliability_percent s) * 100"

record RetryPolicyV3 =
  ry_version :: u16
  ry_max_retry_count :: u16
  ry_consecutive_failure_threshold :: u16

definition retry_v3_default :: RetryPolicyV3 where
  "retry_v3_default = \<lparr>ry_version = 1, ry_max_retry_count = 3, ry_consecutive_failure_threshold = 3\<rparr>"

definition retry_v3_validate :: "RetryPolicyV3 \<Rightarrow> unit field_result" where
  "retry_v3_validate r =
     (if ry_version r \<noteq> 1 then
        Inl (field_error ''retry.version'' ''unsupported_version'' ''routing.retry.version.unsupported'')
      else if ry_max_retry_count r > 3 then
        Inl (field_error ''retry.maxRetryCount'' ''out_of_range'' ''routing.retry.maxRetryCount.range'')
      else if \<not> (1 \<le> ry_consecutive_failure_threshold r \<and> ry_consecutive_failure_threshold r \<le> 10) then
        Inl (field_error ''retry.consecutiveFailureThreshold'' ''out_of_range'' ''routing.retry.consecutiveFailureThreshold.range'')
      else Inr ())"

definition retry_v3_max_total_attempts :: "RetryPolicyV3 \<Rightarrow> u32" where
  "retry_v3_max_total_attempts r = ucast (ry_max_retry_count r) + 1"

record CircuitBreakerPolicyV3 =
  cb_version :: u16
  cb_recovery_success_threshold :: u8
  cb_recovery_wait_seconds :: u32

definition breaker_default :: CircuitBreakerPolicyV3 where
  "breaker_default = \<lparr>cb_version = 1, cb_recovery_success_threshold = 2, cb_recovery_wait_seconds = 30\<rparr>"

definition breaker_validate :: "CircuitBreakerPolicyV3 \<Rightarrow> unit field_result" where
  "breaker_validate b =
     (if cb_version b \<noteq> 1 then
        Inl (field_error ''circuitBreaker.version'' ''unsupported_version'' ''routing.circuitBreaker.version.unsupported'')
      else if \<not> (1 \<le> cb_recovery_success_threshold b \<and> cb_recovery_success_threshold b \<le> 16) then
        Inl (field_error ''circuitBreaker.recoverySuccessThreshold'' ''out_of_range'' ''routing.circuitBreaker.recoverySuccessThreshold.range'')
      else if \<not> (5 \<le> cb_recovery_wait_seconds b \<and> cb_recovery_wait_seconds b \<le> 3600) then
        Inl (field_error ''circuitBreaker.recoveryWaitSeconds'' ''out_of_range'' ''routing.circuitBreaker.recoveryWaitSeconds.range'')
      else Inr ())"

record RoutingPolicyConfigV3 =
  p3_version :: u16
  p3_reliability_weight :: u16
  p3_responsiveness_weight :: u16
  p3_cost_weight :: u16
  p3_preference_weight :: u16
  p3_allow_depleted_fallback :: bool
  p3_affinity_enabled :: bool
  p3_affinity_ttl_seconds :: u32
  p3_max_rate_multiplier :: "f64 option"
  p3_routing_group_filter :: RoutingGroupFilter
  p3_outbound_proxy_mode :: string
  p3_outbound_proxy_url :: "string option"
  p3_reliability_source_weights :: ReliabilitySourceWeightsV3
  p3_reliability_sampling :: ReliabilitySamplingPolicyV3
  p3_retry :: RetryPolicyV3
  p3_circuit_breaker :: CircuitBreakerPolicyV3
  p3_timeout_policy :: TimeoutPolicyV2

definition config_v3_default :: RoutingPolicyConfigV3 where
  "config_v3_default =
     \<lparr>p3_version = 3,
      p3_reliability_weight = p1_reliability_weight config_v1_default,
      p3_responsiveness_weight = p1_responsiveness_weight config_v1_default,
      p3_cost_weight = p1_cost_weight config_v1_default,
      p3_preference_weight = p1_preference_weight config_v1_default,
      p3_allow_depleted_fallback = p1_allow_depleted_fallback config_v1_default,
      p3_affinity_enabled = p1_affinity_enabled config_v1_default,
      p3_affinity_ttl_seconds = p1_affinity_ttl_seconds config_v1_default,
      p3_max_rate_multiplier = p1_max_rate_multiplier config_v1_default,
      p3_routing_group_filter = p1_routing_group_filter config_v1_default,
      p3_outbound_proxy_mode = p1_outbound_proxy_mode config_v1_default,
      p3_outbound_proxy_url = p1_outbound_proxy_url config_v1_default,
      p3_reliability_source_weights = source_weights_default,
      p3_reliability_sampling = sampling_default,
      p3_retry = retry_v3_default,
      p3_circuit_breaker = breaker_default,
      p3_timeout_policy = timeout_default\<rparr>"

definition config_v3_base :: "RoutingPolicyConfigV3 \<Rightarrow> RoutingPolicyConfigV1" where
  "config_v3_base v =
     \<lparr>p1_version = 1,
      p1_reliability_weight = p3_reliability_weight v,
      p1_responsiveness_weight = p3_responsiveness_weight v,
      p1_cost_weight = p3_cost_weight v,
      p1_preference_weight = p3_preference_weight v,
      p1_max_candidates = 1,
      p1_exploration_share_basis_points = 0,
      p1_allow_depleted_fallback = p3_allow_depleted_fallback v,
      p1_affinity_enabled = p3_affinity_enabled v,
      p1_affinity_ttl_seconds = p3_affinity_ttl_seconds v,
      p1_max_rate_multiplier = p3_max_rate_multiplier v,
      p1_routing_group_filter = p3_routing_group_filter v,
      p1_outbound_proxy_mode = p3_outbound_proxy_mode v,
      p1_outbound_proxy_url = p3_outbound_proxy_url v\<rparr>"

definition config_v3_validate :: "RoutingPolicyConfigV3 \<Rightarrow> unit field_result" where
  "config_v3_validate c =
     (if p3_version c \<noteq> 3 then
        Inl (field_error ''version'' ''unsupported_version'' ''routing.policy.version.unsupported'')
      else case config_v1_validate (config_v3_base c) of
        Inl _ \<Rightarrow> Inl (field_error ''policy'' ''invalid_base_policy'' ''routing.policy.invalid'')
      | Inr _ \<Rightarrow>
          rbind (source_weights_validate (p3_reliability_source_weights c)) (\<lambda>_.
          rbind (sampling_validate (p3_reliability_sampling c)) (\<lambda>_.
          rbind (retry_v3_validate (p3_retry c)) (\<lambda>_.
          rbind (breaker_validate (p3_circuit_breaker c)) (\<lambda>_.
          timeout_validate (p3_timeout_policy c))))))"

section \<open>Upgrades between versions\<close>

record RoutingPolicyV3UpgradeAudit =
  au_from_version :: u16
  au_to_version :: u16
  au_discarded_fields :: "string list"
  au_defaulted_fields :: "string list"
  au_semantic_changes :: "string list"
  au_quality_rebuild_required :: bool

record RoutingPolicyV3Upgrade =
  up_policy :: RoutingPolicyConfigV3
  up_audit :: RoutingPolicyV3UpgradeAudit

definition v3_upgrade_audit :: RoutingPolicyV3UpgradeAudit where
  "v3_upgrade_audit =
     \<lparr>au_from_version = 2, au_to_version = 3,
      au_discarded_fields =
        [''maxCandidates'', ''explorationShareBasisPoints'',
         ''retryFailover.maxSameTargetCapacityRetries'',
         ''retryFailover.capacityRetryWaitBudgetSeconds'',
         ''retryFailover.allowCrossCapacityDomainFallback'',
         ''protectionProfile.enabled'', ''protectionProfile.windowMaxSamples'',
         ''protectionProfile.windowSeconds'', ''protectionProfile.minSamples'',
         ''protectionProfile.failureThresholdPercent''],
      au_defaulted_fields =
        [''reliabilitySourceWeights'', ''reliabilitySampling'',
         ''retry.consecutiveFailureThreshold'', ''circuitBreaker.recoveryWaitSeconds''],
      au_semantic_changes =
        [''circuit_breaker_always_enabled'',
         ''error_rate_protection_replaced_by_consecutive_failures'',
         ''capacity_domain_controls_removed_from_routing''],
      au_quality_rebuild_required = True\<rparr>"

definition v3_policy_of_v2 :: "RoutingPolicyConfigV2 \<Rightarrow> RoutingPolicyConfigV3" where
  "v3_policy_of_v2 v =
     \<lparr>p3_version = 3,
      p3_reliability_weight = p2_reliability_weight v,
      p3_responsiveness_weight = p2_responsiveness_weight v,
      p3_cost_weight = p2_cost_weight v,
      p3_preference_weight = p2_preference_weight v,
      p3_allow_depleted_fallback = p2_allow_depleted_fallback v,
      p3_affinity_enabled = p2_affinity_enabled v,
      p3_affinity_ttl_seconds = p2_affinity_ttl_seconds v,
      p3_max_rate_multiplier = p2_max_rate_multiplier v,
      p3_routing_group_filter = p2_routing_group_filter v,
      p3_outbound_proxy_mode = p2_outbound_proxy_mode v,
      p3_outbound_proxy_url = p2_outbound_proxy_url v,
      p3_reliability_source_weights = source_weights_default,
      p3_reliability_sampling = sampling_default,
      p3_retry = \<lparr>ry_version = 1,
         ry_max_retry_count = rf_max_total_attempts (p2_retry_failover v) - 1,
         ry_consecutive_failure_threshold = 3\<rparr>,
      p3_circuit_breaker = \<lparr>cb_version = 1,
         cb_recovery_success_threshold = pp_half_open_successes_to_close (p2_protection_profile v),
         cb_recovery_wait_seconds = 30\<rparr>,
      p3_timeout_policy = p2_timeout_policy v\<rparr>"

definition config_v3_from_v2 :: "RoutingPolicyConfigV2 \<Rightarrow> RoutingPolicyV3Upgrade field_result" where
  "config_v3_from_v2 v =
     rbind (config_v2_validate v) (\<lambda>_.
       if rf_max_total_attempts (p2_retry_failover v) < 1 then
         Inl (field_error ''retry.maxRetryCount'' ''invalid_legacy_value'' ''routing.retry.maxRetryCount.invalidLegacy'')
       else
         let policy = v3_policy_of_v2 v
         in rbind (config_v3_validate policy) (\<lambda>_.
              Inr \<lparr>up_policy = policy, up_audit = v3_upgrade_audit\<rparr>))"

definition v2_projection_of_v3 :: "RoutingPolicyConfigV3 \<Rightarrow> u16 \<Rightarrow> RoutingPolicyConfigV2" where
  "v2_projection_of_v3 v max_total_attempts =
     \<lparr>p2_version = 2,
      p2_reliability_weight = p3_reliability_weight v,
      p2_responsiveness_weight = p3_responsiveness_weight v,
      p2_cost_weight = p3_cost_weight v,
      p2_preference_weight = p3_preference_weight v,
      p2_max_candidates = 1024,
      p2_exploration_share_basis_points = 0,
      p2_allow_depleted_fallback = p3_allow_depleted_fallback v,
      p2_affinity_enabled = p3_affinity_enabled v,
      p2_affinity_ttl_seconds = p3_affinity_ttl_seconds v,
      p2_max_rate_multiplier = p3_max_rate_multiplier v,
      p2_routing_group_filter = p3_routing_group_filter v,
      p2_outbound_proxy_mode = p3_outbound_proxy_mode v,
      p2_outbound_proxy_url = p3_outbound_proxy_url v,
      p2_retry_failover = \<lparr>rf_version = 2, rf_max_total_attempts = max_total_attempts,
         rf_max_same_target_capacity_retries = 0,
         rf_capacity_retry_wait_budget_seconds = F64_Num 0,
         rf_allow_cross_capacity_domain_fallback = False\<rparr>,
      p2_protection_profile = \<lparr>pp_version = 2, pp_enabled = False, pp_window_max_samples = 64,
         pp_window_seconds = F64_Num 300, pp_min_samples = 1,
         pp_failure_threshold_percent = 100,
         pp_half_open_successes_to_close = cb_recovery_success_threshold (p3_circuit_breaker v)\<rparr>,
      p2_timeout_policy = p3_timeout_policy v\<rparr>"

definition config_v2_from_v3_compat :: "RoutingPolicyConfigV3 \<Rightarrow> RoutingPolicyConfigV2 field_result" where
  "config_v2_from_v3_compat v =
     (case u16_try_from (unat (retry_v3_max_total_attempts (p3_retry v))) of
        None \<Rightarrow> Inl (field_error ''retry.maxRetryCount'' ''out_of_range'' ''routing.retry.maxRetryCount.range'')
      | Some max_total_attempts \<Rightarrow>
         let projected = v2_projection_of_v3 v max_total_attempts
         in rbind (config_v2_validate projected) (\<lambda>_. Inr projected))"

section \<open>Managed documents\<close>

record RoutingPolicyDocumentPolicyV1 =
  dp_version :: u16
  dp_reliability_weight :: u16
  dp_responsiveness_weight :: u16
  dp_cost_weight :: u16
  dp_preference_weight :: u16
  dp_max_candidates :: u16
  dp_exploration_share_basis_points :: u16
  dp_allow_depleted_fallback :: bool
  dp_affinity_enabled :: bool
  dp_affinity_ttl_seconds :: u32
  dp_max_rate_multiplier :: "f64 option"
  dp_routing_group_filter :: RoutingGroupFilter
  dp_outbound_proxy_mode :: string
  dp_outbound_proxy_url :: "string option"

definition document_policy_into_storage :: "RoutingPolicyDocumentPolicyV1 \<Rightarrow> RoutingPolicyConfigV1" where
  "document_policy_into_storage d =
     \<lparr>p1_version = dp_version d,
      p1_reliability_weight = dp_reliability_weight d,
      p1_responsiveness_weight = dp_responsiveness_weight d,
      p1_cost_weight = dp_cost_weight d,
      p1_preference_weight = dp_preference_weight d,
      p1_max_candidates = dp_max_candidates d,
      p1_exploration_share_basis_points = dp_exploration_share_basis_points d,
      p1_allow_depleted_fallback = dp_allow_depleted_fallback d,
      p1_affinity_enabled = dp_affinity_enabled d,
      p1_affinity_ttl_seconds = dp_affinity_ttl_seconds d,
      p1_max_rate_multiplier = dp_max_rate_multiplier d,
      p1_routing_group_filter = dp_routing_group_filter d,
      p1_outbound_proxy_mode = dp_outbound_proxy_mode d,
      p1_outbound_proxy_url = dp_outbound_proxy_url d\<rparr>"

definition document_policy_from_storage :: "RoutingPolicyConfigV1 \<Rightarrow> RoutingPolicyDocumentPolicyV1" where
  "document_policy_from_storage v =
     \<lparr>dp_version = p1_version v,
      dp_reliability_weight = p1_reliability_weight v,
      dp_responsiveness_weight = p1_responsiveness_weight v,
      dp_cost_weight = p1_cost_weight v,
      dp_preference_weight = p1_preference_weight v,
      dp_max_candidates = p1_max_candidates v,
      dp_exploration_share_basis_points = p1_exploration_share_basis_points v,
      dp_allow_depleted_fallback = p1_allow_depleted_fallback v,
      dp_affinity_enabled = p1_affinity_enabled v,
      dp_affinity_ttl_seconds = p1_affinity_ttl_seconds v,
      dp_max_rate_multiplier = p1_max_rate_multiplier v,
      dp_routing_group_filter = p1_routing_group_filter v,
      dp_outbound_proxy_mode = p1_outbound_proxy_mode v,
      dp_outbound_proxy_url = p1_outbound_proxy_url v\<rparr>"

record RoutingPolicyDocumentV1 =
  d1_format_version :: u16
  d1_base_revision :: u64
  d1_policy :: RoutingPolicyDocumentPolicyV1

record RoutingPolicyDocumentV2 =
  d2_format_version :: u16
  d2_base_revision :: u64
  d2_policy :: RoutingPolicyConfigV2

record RoutingPolicyDocumentV3 =
  d3_format_version :: u16
  d3_base_revision :: u64
  d3_policy :: RoutingPolicyConfigV3

definition document_v2_validate :: "RoutingPolicyDocumentV2 \<Rightarrow> unit field_result" where
  "document_v2_validate d =
     (if d2_format_version d \<noteq> 1 then
        Inl (field_error ''formatVersion'' ''unsupported_version'' ''routing.document.formatVersion.unsupported'')
      else if d2_base_revision d = 0 then
        Inl (field_error ''baseRevision'' ''must_be_positive'' ''routing.document.baseRevision.required'')
      else config_v2_validate (d2_policy d))"

definition document_v3_validate :: "RoutingPolicyDocumentV3 \<Rightarrow> unit field_result" where
  "document_v3_validate d =
     (if d3_format_version d \<noteq> 1 then
        Inl (field_error ''formatVersion'' ''unsupported_version'' ''routing.document.formatVersion.unsupported'')
      else if d3_base_revision d = 0 then
        Inl (field_error ''baseRevision'' ''must_be_positive'' ''routing.document.baseRevision.required'')
      else config_v3_validate (d3_policy d))"

definition document_v2_from_v1 :: "RoutingPolicyDocumentV1 \<Rightarrow> RoutingPolicyDocumentV2 field_result" where
  "document_v2_from_v1 d =
     (if d1_format_version d \<noteq> 1 then
        Inl (field_error ''formatVersion'' ''unsupported_version'' ''routing.document.formatVersion.unsupported'')
      else if d1_base_revision d = 0 then
        Inl (field_error ''baseRevision'' ''must_be_positive'' ''routing.document.baseRevision.required'')
      else rbind (config_v2_from_v1 (document_policy_into_storage (d1_policy d))) (\<lambda>p.
        Inr \<lparr>d2_format_version = d1_format_version d, d2_base_revision = d1_base_revision d, d2_policy = p\<rparr>))"

definition document_v3_from_v2 ::
  "RoutingPolicyDocumentV2 \<Rightarrow> (RoutingPolicyDocumentV3 \<times> RoutingPolicyV3UpgradeAudit) field_result" where
  "document_v3_from_v2 d =
     (if d2_format_version d \<noteq> 1 \<or> d2_base_revision d = 0 then
        Inl (field_error ''document'' ''invalid_envelope'' ''routing.document.invalid'')
      else rbind (config_v3_from_v2 (d2_policy d)) (\<lambda>u.
        Inr (\<lparr>d3_format_version = d2_format_version d, d3_base_revision = d2_base_revision d,
              d3_policy = up_policy u\<rparr>, up_audit u)))"

end
