(* ===== verification/Factors.thy ===== *)
theory Factors
  imports Policy
begin

text \<open>
  Scoring factors of the routing engine (\<^verbatim>\<open>routing_engine/factors.rs\<close>, \<^verbatim>\<open>tiers.rs\<close>,
  \<^verbatim>\<open>algorithm_profile.rs\<close>, \<^verbatim>\<open>fixed_point.rs\<close>): availability tiers, the latency and
  cost scores in basis points, and the median multiplier the cost score refers to.
\<close>

section \<open>Availability tiers\<close>

datatype AvailabilityTier = Primary | ConfiguredBackup | DepletedEmergency

fun tier_index :: "AvailabilityTier \<Rightarrow> nat" where
  "tier_index Primary = 0"
| "tier_index ConfiguredBackup = 1"
| "tier_index DepletedEmergency = 2"

lemma tier_index_inject: "tier_index a = tier_index b \<longleftrightarrow> a = b"
  by (cases a; cases b) auto

instantiation AvailabilityTier :: linorder
begin

definition less_eq_AvailabilityTier :: "AvailabilityTier \<Rightarrow> AvailabilityTier \<Rightarrow> bool" where
  "a \<le> b \<longleftrightarrow> tier_index a \<le> tier_index b"

definition less_AvailabilityTier :: "AvailabilityTier \<Rightarrow> AvailabilityTier \<Rightarrow> bool" where
  "a < b \<longleftrightarrow> tier_index a < tier_index b"

instance
  by standard (auto simp: less_eq_AvailabilityTier_def less_AvailabilityTier_def tier_index_inject)

end

definition classify_tier :: "bool \<Rightarrow> bool \<Rightarrow> bool \<Rightarrow> bool \<Rightarrow> AvailabilityTier option" where
  "classify_tier enabled healthy depleted allow_depleted =
     (if \<not> enabled \<or> \<not> healthy then None
      else if depleted then (if allow_depleted then Some DepletedEmergency else None)
      else Some Primary)"

section \<open>Algorithm profile\<close>

record DispatchAlgorithmProfile =
  dp_algorithm_version :: u16
  dp_latency_cap_ms :: u32
  dp_affinity_bonus_cap_basis_points :: u16
  dp_affinity_hysteresis_margin_basis_points :: u16

definition profile_default :: DispatchAlgorithmProfile where
  "profile_default = \<lparr>dp_algorithm_version = 2, dp_latency_cap_ms = 120000,
     dp_affinity_bonus_cap_basis_points = 150, dp_affinity_hysteresis_margin_basis_points = 1000\<rparr>"

definition profile_validate :: "DispatchAlgorithmProfile \<Rightarrow> string + unit" where
  "profile_validate p =
     (if dp_algorithm_version p \<noteq> 2 \<or> dp_latency_cap_ms p = 0
         \<or> dp_affinity_bonus_cap_basis_points p = 0 \<or> dp_affinity_bonus_cap_basis_points p > 10000
         \<or> dp_affinity_hysteresis_margin_basis_points p = 0
         \<or> dp_affinity_hysteresis_margin_basis_points p > 10000
      then Inl ''invalid dispatch algorithm profile'' else Inr ())"

section \<open>Scores\<close>

text \<open>The cast \<^verbatim>\<open>as u16\<close> keeps the low 16 bits.\<close>

definition responsiveness_score :: "u32 option \<Rightarrow> u32 \<Rightarrow> BasisPoints" where
  "responsiveness_score latency_ms cap_ms =
     (case latency_ms of
        None \<Rightarrow> BasisPoints 5000
      | Some latency \<Rightarrow>
        if cap_ms = 0 then bp_ZERO
        else let clamped = min latency cap_ms;
                 v = (unat (cap_ms - clamped) * 10000) div unat cap_ms
             in (case bp_new (of_nat v) of None \<Rightarrow> bp_ZERO | Some b \<Rightarrow> b))"

definition cost_score :: "u16 option \<Rightarrow> BasisPoints option" where
  "cost_score cost_basis_points = Option.bind cost_basis_points bp_new"

definition f64_positive_finite :: "f64 \<Rightarrow> bool" where
  "f64_positive_finite v \<longleftrightarrow> f64_is_finite v \<and> f64_lt (F64_Num 0) v"

definition multiplier_median :: "f64 list \<Rightarrow> f64 option" where
  "multiplier_median vs =
     (let values = sort_by f64_le (filter f64_positive_finite vs) in
      if values = [] then None
      else let middle = length values div 2 in
        if length values mod 2 = 1 then Some (values ! middle)
        else let lower = values ! (middle - 1); upper = values ! middle
             in Some (f64_add lower (f64_div (f64_sub upper lower) (F64_Num 2))))"

definition cost_efficiency_from_multiplier :: "f64 \<Rightarrow> f64 \<Rightarrow> u16 option" where
  "cost_efficiency_from_multiplier v reference_median =
     (if \<not> f64_is_finite v \<or> f64_le v (F64_Num 0)
         \<or> \<not> f64_is_finite reference_median \<or> f64_le reference_median (F64_Num 0) then None
      else
        let ratio = f64_div (f64_div v reference_median) (F64_Num 2);
            denominator = f64_mul_add ratio ratio (F64_Num 1)
        in if f64_is_nan denominator then None
           else let score = f64_floor (f64_div (F64_Num 10000) denominator) in
             if \<not> f64_is_finite score then Some 0
             else Some (of_nat (f64_to_uint (2 ^ 16 - 1) (f64_clamp score (F64_Num 0) (F64_Num 10000)))))"

section \<open>Lemmas\<close>

lemma responsiveness_score_ok: "bp_ok (responsiveness_score latency cap)"
  by (auto simp: responsiveness_score_def bp_ok_def bp_ZERO_def bp_new_def Let_def split: option.splits)

lemma responsiveness_value:
  assumes "cap \<noteq> 0"
  shows "unat (bp_get (responsiveness_score (Some latency) cap))
    = (unat cap - min (unat latency) (unat cap)) * 10000 div unat cap"
proof -
  let ?v = "(unat cap - min (unat latency) (unat cap)) * 10000 div unat cap"
  have pos: "0 < unat cap" using assms by (simp add: unat_gt_0)
  have "unat (min latency cap) = min (unat latency) (unat cap)" by (simp add: min_def word_le_nat_alt)
  moreover have "min latency cap \<le> cap" by simp
  ultimately have s: "unat (cap - min latency cap) = unat cap - min (unat latency) (unat cap)"
    by (simp add: unat_sub)
  have "?v \<le> unat cap * 10000 div unat cap" by (intro div_le_mono mult_le_mono1) simp
  then have v: "?v \<le> 10000" using pos by simp
  then have "unat (of_nat ?v :: u16) = ?v" by (intro unat_of_nat_lt) simp
  with v s assms show ?thesis
    by (simp add: responsiveness_score_def Let_def bp_new_def word_le_nat_alt)
qed

text \<open>Lower latency never scores worse.\<close>

lemma responsiveness_antimono:
  assumes "cap \<noteq> 0" "a \<le> b"
  shows "bp_get (responsiveness_score (Some b) cap) \<le> bp_get (responsiveness_score (Some a) cap)"
  using assms by (auto simp: word_le_nat_alt responsiveness_value intro!: div_le_mono mult_le_mono1 diff_le_mono2)

lemma f64_positive_finite_Num: "f64_positive_finite v \<longleftrightarrow> (\<exists>q. v = F64_Num q \<and> 0 < q)"
  by (cases v) (auto simp: f64_positive_finite_def f64_lt_def)

lemma f64_le_nonneg: "f64_nonneg a \<Longrightarrow> f64_le a b \<Longrightarrow> f64_nonneg b"
  by (cases a; cases b) (auto simp: f64_nonneg_def)

lemma f64_div_mono:
  assumes "f64_nonneg a" "f64_le a b" "0 < r"
  shows "f64_nonneg (f64_div a (F64_Num r)) \<and> f64_le (f64_div a (F64_Num r)) (f64_div b (F64_Num r))"
proof (cases a)
  case F64_NaN
  with assms show ?thesis by (simp add: f64_nonneg_def)
next
  case (F64_Inf s)
  with assms have "a = F64_Inf False" "b = F64_Inf False" by (cases b; auto simp: f64_nonneg_def)+
  with assms(3) show ?thesis by (simp add: f64_nonneg_def)
next
  case (F64_Num p)
  with assms have p: "0 \<le> p" by (simp add: f64_nonneg_def)
  then have n: "f64_nonneg (f64_round (p / r))" using assms(3) by (intro f64_round_nonneg) simp
  show ?thesis
  proof (cases b)
    case (F64_Num q)
    with assms \<open>a = F64_Num p\<close> p n show ?thesis
      by (auto intro!: f64_round_mono divide_right_mono)
  next
    case (F64_Inf s)
    with assms \<open>a = F64_Num p\<close> n show ?thesis
      by (cases "f64_round (p / r)") (auto simp: f64_nonneg_def)
  qed (use assms \<open>a = F64_Num p\<close> in auto)
qed

lemma f64_square_mono:
  assumes "f64_nonneg a" "f64_le a b"
  shows "f64_le (F64_Num 1) (f64_mul_add a a (F64_Num 1))
       \<and> f64_le (f64_mul_add a a (F64_Num 1)) (f64_mul_add b b (F64_Num 1))"
proof (cases a)
  case F64_NaN
  with assms show ?thesis by (simp add: f64_nonneg_def)
next
  case (F64_Inf s)
  with assms have "a = F64_Inf False" "b = F64_Inf False" by (cases b; auto simp: f64_nonneg_def)+
  then show ?thesis by simp
next
  case (F64_Num p)
  with assms have p: "0 \<le> p" by (simp add: f64_nonneg_def)
  then have n: "f64_le (F64_Num 1) (f64_round (p * p + 1))" by (intro f64_round_ge1) simp
  show ?thesis
  proof (cases b)
    case (F64_Num q)
    with assms \<open>a = F64_Num p\<close> p n show ?thesis
      by (auto intro!: f64_round_mono add_right_mono mult_mono)
  next
    case (F64_Inf s)
    with assms \<open>a = F64_Num p\<close> n show ?thesis
      by (cases "f64_round (p * p + 1)") auto
  qed (use assms \<open>a = F64_Num p\<close> in auto)
qed

text \<open>The score as a function of the denominator, which is at least one.\<close>

definition denominator_score :: "f64 \<Rightarrow> u16" where
  "denominator_score d = (let score = f64_floor (f64_div (F64_Num 10000) d) in
     if \<not> f64_is_finite score then 0
     else of_nat (f64_to_uint (2 ^ 16 - 1) (f64_clamp score (F64_Num 0) (F64_Num 10000))))"

lemma f64_round_10000: "f64_round 10000 = F64_Num 10000"
  using f64_round_exact [of 10000 0] by simp

lemma quotient_10000:
  assumes "1 \<le> q"
  obtains r where "f64_round (10000 / q) = F64_Num r" "0 \<le> r" "r \<le> 10000"
proof -
  have "f64_le (f64_round (10000 / q)) (f64_round 10000)" "f64_nonneg (f64_round (10000 / q))"
    using assms by (auto intro!: f64_round_mono f64_round_nonneg simp: divide_le_eq)
  then show ?thesis
    using that by (auto simp: f64_round_10000 elim!: f64_nonneg_cases)
qed

lemma nat_floor_le: "r \<le> 10000 \<Longrightarrow> nat \<lfloor>r :: rat\<rfloor> \<le> 10000"
  by (metis floor_mono floor_numeral nat_le_iff nat_numeral of_nat_numeral)

lemma denominator_score_Num:
  assumes "1 \<le> q" "f64_round (10000 / q) = F64_Num r" "0 \<le> r" "r \<le> 10000"
  shows "unat (denominator_score (F64_Num q)) = nat \<lfloor>r\<rfloor>"
proof -
  have n: "nat \<lfloor>r\<rfloor> \<le> 10000" by (rule nat_floor_le [OF assms(4)])
  then have m: "min (2 ^ 16 - 1) (nat \<lfloor>r\<rfloor>) = nat \<lfloor>r\<rfloor>" by simp
  have "f64_clamp (F64_Num (of_int \<lfloor>r\<rfloor>)) (F64_Num 0) (F64_Num 10000) = F64_Num (of_int \<lfloor>r\<rfloor>)"
    using assms(3) floor_mono [OF assms(4)] by (simp add: f64_clamp_def f64_lt_def)
  then have "denominator_score (F64_Num q) = of_nat (min (2 ^ 16 - 1) (nat \<lfloor>r\<rfloor>))"
    using assms(1,2) by (simp add: denominator_score_def Let_def del: of_nat_nat)
  with n m show ?thesis by (simp add: unat_of_nat_lt del: of_nat_nat)
qed

lemma denominator_score_Inf: "denominator_score (F64_Inf s) = 0"
  by (simp add: denominator_score_def f64_clamp_def f64_lt_def)

lemma denominator_score_antimono:
  assumes "f64_le (F64_Num 1) a" "f64_le a b"
  shows "denominator_score b \<le> denominator_score a" and "denominator_score a \<le> 10000"
proof -
  have "denominator_score b \<le> denominator_score a \<and> denominator_score a \<le> 10000"
  proof (cases a)
    case F64_NaN
    with assms show ?thesis by simp
  next
    case (F64_Inf s)
    with assms have "b = F64_Inf False" by (cases b; cases s) auto
    with F64_Inf show ?thesis by (simp add: denominator_score_Inf)
  next
    case (F64_Num p)
    with assms have p: "1 \<le> p" by simp
    then obtain r where r: "f64_round (10000 / p) = F64_Num r" "0 \<le> r" "r \<le> 10000"
      by (rule quotient_10000)
    have "nat \<lfloor>r\<rfloor> \<le> 10000" by (rule nat_floor_le [OF r(3)])
    then have le: "denominator_score a \<le> 10000"
      using F64_Num denominator_score_Num [OF p r] by (simp add: word_le_nat_alt)
    show ?thesis
    proof (cases b)
      case (F64_Num q)
      with assms \<open>a = F64_Num p\<close> have q: "1 \<le> q" "p \<le> q" using p by auto
      then obtain t where t: "f64_round (10000 / q) = F64_Num t" "0 \<le> t" "t \<le> 10000"
        by (meson quotient_10000)
      have "f64_le (f64_round (10000 / q)) (f64_round (10000 / p))"
        using p q by (intro f64_round_mono divide_left_mono) auto
      then have "nat \<lfloor>t\<rfloor> \<le> nat \<lfloor>r\<rfloor>" using r t by (auto intro: nat_mono floor_mono)
      with le F64_Num \<open>a = F64_Num p\<close> denominator_score_Num [OF p r] denominator_score_Num [OF q(1) t]
      show ?thesis by (simp add: word_le_nat_alt)
    next
      case (F64_Inf s)
      then show ?thesis using le by (simp add: denominator_score_Inf)
    qed (use assms \<open>a = F64_Num p\<close> in auto)
  qed
  then show "denominator_score b \<le> denominator_score a" "denominator_score a \<le> 10000" by auto
qed

definition cost_denominator :: "f64 \<Rightarrow> f64 \<Rightarrow> f64" where
  "cost_denominator v r = (let ratio = f64_div (f64_div v r) (F64_Num 2) in f64_mul_add ratio ratio (F64_Num 1))"

lemma cost_denominator_mono:
  assumes "0 < p" "p \<le> q" "0 < r"
  shows "f64_le (F64_Num 1) (cost_denominator (F64_Num p) (F64_Num r))
    \<and> f64_le (cost_denominator (F64_Num p) (F64_Num r)) (cost_denominator (F64_Num q) (F64_Num r))"
proof -
  have "f64_nonneg (F64_Num p)" "f64_le (F64_Num p) (F64_Num q)" using assms by (auto simp: f64_nonneg_def)
  from f64_div_mono [OF this assms(3)]
  have "f64_nonneg (f64_div (F64_Num p) (F64_Num r))"
    "f64_le (f64_div (F64_Num p) (F64_Num r)) (f64_div (F64_Num q) (F64_Num r))" by auto
  from f64_div_mono [OF this, of 2] show ?thesis
    unfolding cost_denominator_def Let_def by (intro f64_square_mono) auto
qed

lemma cost_efficiency_score:
  assumes "f64_positive_finite v" "f64_positive_finite r"
  shows "cost_efficiency_from_multiplier v r = Some (denominator_score (cost_denominator v r))"
proof -
  obtain p q where v: "v = F64_Num p" "0 < p" and r: "r = F64_Num q" "0 < q"
    using assms by (auto simp: f64_positive_finite_Num)
  have "\<not> f64_is_nan (cost_denominator v r)"
    using cost_denominator_mono [of p p q] v r by (cases "cost_denominator v r") auto
  then show ?thesis
    using v r by (simp add: cost_efficiency_from_multiplier_def denominator_score_def
        cost_denominator_def Let_def)
qed

lemma cost_efficiency_Some_le: "cost_efficiency_from_multiplier v r = Some s \<Longrightarrow> s \<le> 10000"
proof -
  assume "cost_efficiency_from_multiplier v r = Some s"
  then have pf: "f64_positive_finite v" "f64_positive_finite r"
    by (cases v; cases r; auto simp: cost_efficiency_from_multiplier_def f64_positive_finite_Num split: if_splits)+
  with \<open>cost_efficiency_from_multiplier v r = Some s\<close>
  have "s = denominator_score (cost_denominator v r)" by (simp add: cost_efficiency_score)
  moreover obtain p q where "v = F64_Num p" "0 < p" "r = F64_Num q" "0 < q"
    using pf by (auto simp: f64_positive_finite_Num)
  ultimately show ?thesis
    using cost_denominator_mono [of p p q] denominator_score_antimono(2) by auto
qed

end
