(* ===== verification/PolicyCompile.thy ===== *)
theory PolicyCompile
  imports Policy
begin

text \<open>
  Compilation of a policy (\<^verbatim>\<open>application/routing_policy.rs\<close>, \<^verbatim>\<open>application/health_protection.rs\<close>):
  the health protection profile, the attempt budgets, the compilers for version 2 and 3, the
  aggregate's admission gate and the migration matrix of the old strategy names. The compilers use
  \<^verbatim>\<open>expect\<close> on basis-point fields, so they return a \<open>run\<close>.
\<close>

section \<open>Health protection profile\<close>

datatype HealthProtectionPreset = Conservative | Balanced | Aggressive

datatype HealthProtectionError = HP_UnsupportedVersion | HP_InvalidProfile

record HealthProtectionProfileV1 =
  hp_version :: string
  hp_enabled :: bool
  hp_preset :: HealthProtectionPreset
  hp_window_max_samples :: nat
  hp_window_ms :: i64
  hp_min_samples :: nat
  hp_failure_threshold_percent :: u8
  hp_base_cooldown_ms :: i64
  hp_max_cooldown_ms :: i64
  hp_half_open_successes_to_close :: u8
  hp_max_entries :: nat

definition hp_for_preset :: "HealthProtectionPreset \<Rightarrow> HealthProtectionProfileV1" where
  "hp_for_preset preset =
     (let (samples, min_samples, threshold, base_cooldown, max_cooldown, successes) =
        (case preset of
           Conservative \<Rightarrow> (32, 5, 50, 60000, 15 * 60 * 1000, 3)
         | Balanced \<Rightarrow> (64, 5, 60, 30000, 15 * 60 * 1000, 2)
         | Aggressive \<Rightarrow> (128, 8, 75, 15000, 5 * 60 * 1000, 1))
      in \<lparr>hp_version = ''health_protection_v1'', hp_enabled = True, hp_preset = preset,
          hp_window_max_samples = samples, hp_window_ms = 5 * 60 * 1000,
          hp_min_samples = min_samples, hp_failure_threshold_percent = threshold,
          hp_base_cooldown_ms = base_cooldown, hp_max_cooldown_ms = max_cooldown,
          hp_half_open_successes_to_close = successes, hp_max_entries = 1024\<rparr>)"

definition hp_validate :: "HealthProtectionProfileV1 \<Rightarrow> HealthProtectionError + unit" where
  "hp_validate p =
     (if hp_version p \<noteq> ''health_protection_v1'' then Inl HP_UnsupportedVersion
      else if hp_window_max_samples p = 0 \<or> hp_window_max_samples p > 256 then Inl HP_InvalidProfile
      else if hp_window_ms p \<le> 0 \<or> hp_window_ms p > 24 * 60 * 60 * 1000 then Inl HP_InvalidProfile
      else if hp_min_samples p = 0 \<or> hp_min_samples p > hp_window_max_samples p then Inl HP_InvalidProfile
      else if \<not> (1 \<le> hp_failure_threshold_percent p \<and> hp_failure_threshold_percent p \<le> 100)
        then Inl HP_InvalidProfile
      else if hp_base_cooldown_ms p \<le> 0 \<or> hp_max_cooldown_ms p < hp_base_cooldown_ms p
           \<or> hp_max_cooldown_ms p > 24 * 60 * 60 * 1000 then Inl HP_InvalidProfile
      else if hp_half_open_successes_to_close p = 0 \<or> hp_max_entries p = 0 \<or> hp_max_entries p > 4096
        then Inl HP_InvalidProfile
      else Inr ())"

definition hp_from_policy_config ::
  "ProtectionProfileConfigV2 \<Rightarrow> HealthProtectionError + HealthProtectionProfileV1" where
  "hp_from_policy_config c =
     (case protection_validate c of
        Inl _ \<Rightarrow> Inl HP_InvalidProfile
      | Inr _ \<Rightarrow>
         (let profile = (hp_for_preset Balanced)
            \<lparr>hp_window_max_samples := unat (pp_window_max_samples c),
             hp_window_ms := window_millis c,
             hp_min_samples := unat (pp_min_samples c),
             hp_failure_threshold_percent := pp_failure_threshold_percent c,
             hp_half_open_successes_to_close := pp_half_open_successes_to_close c,
             hp_enabled := pp_enabled c\<rparr>
          in rbind (hp_validate profile) (\<lambda>_. Inr profile)))"

section \<open>Attempt budgets\<close>

datatype RoutingPolicyCompileError =
    CE_InvalidConfig string
  | CE_InvalidField RoutingPolicyFieldValidationError
  | CE_UnknownVersion u16
  | CE_NotAdmitted string

definition invalid_field :: "'a field_result \<Rightarrow> RoutingPolicyCompileError + 'a" where
  "invalid_field r = (case r of Inl e \<Rightarrow> Inl (CE_InvalidField e) | Inr x \<Rightarrow> Inr x)"

record AttemptBudgetProfileV1 =
  ab_policy_revision :: u64
  ab_max_total_attempts :: u32
  ab_max_same_target_capacity_retries :: u32
  ab_capacity_retry_wait_budget_ms :: u64
  ab_consecutive_failure_threshold :: u32
  ab_circuit_recovery_success_threshold :: u16
  ab_circuit_recovery_wait_ms :: u64

definition budget_validate :: "AttemptBudgetProfileV1 \<Rightarrow> RoutingPolicyCompileError + unit" where
  "budget_validate b =
     (if ab_policy_revision b = 0 then Inl (CE_NotAdmitted ''revision_unavailable'')
      else if \<not> (1 \<le> ab_max_total_attempts b \<and> ab_max_total_attempts b \<le> 4) then
        Inl (CE_InvalidField (field_error ''retryFailover.maxTotalAttempts'' ''out_of_range''
          ''routing.retryFailover.maxTotalAttempts.range''))
      else if ab_max_same_target_capacity_retries b > 2 then
        Inl (CE_InvalidField (field_error ''retryFailover.maxSameTargetCapacityRetries'' ''out_of_range''
          ''routing.retryFailover.maxSameTargetCapacityRetries.range''))
      else if ab_max_same_target_capacity_retries b \<ge> ab_max_total_attempts b then
        Inl (CE_InvalidField (field_error ''retryFailover.maxSameTargetCapacityRetries''
          ''must_be_less_than_max_total_attempts''
          ''routing.retryFailover.maxSameTargetCapacityRetries.lessThanTotal''))
      else if ab_capacity_retry_wait_budget_ms b > 2000 then
        Inl (CE_InvalidField (field_error ''retryFailover.capacityRetryWaitBudgetSeconds'' ''out_of_range''
          ''routing.retryFailover.capacityRetryWaitBudgetSeconds.range''))
      else if \<not> (1 \<le> ab_consecutive_failure_threshold b \<and> ab_consecutive_failure_threshold b \<le> 10)
           \<or> ab_circuit_recovery_success_threshold b = 0 \<or> ab_circuit_recovery_wait_ms b < 5000 then
        Inl (CE_InvalidField (field_error ''circuitBreaker'' ''out_of_range'' ''routing.circuitBreaker.invalid''))
      else Inr ())"

definition budget_from_policy ::
  "u64 \<Rightarrow> RetryFailoverPolicyV2 \<Rightarrow> RoutingPolicyCompileError + AttemptBudgetProfileV1" where
  "budget_from_policy policy_revision r =
     (if policy_revision = 0 then Inl (CE_NotAdmitted ''revision_unavailable'')
      else rbind (invalid_field (retry_failover_validate r)) (\<lambda>_.
        let profile = \<lparr>ab_policy_revision = policy_revision,
          ab_max_total_attempts = ucast (rf_max_total_attempts r),
          ab_max_same_target_capacity_retries = ucast (rf_max_same_target_capacity_retries r),
          ab_capacity_retry_wait_budget_ms = capacity_retry_wait_budget_millis r,
          ab_consecutive_failure_threshold = 3,
          ab_circuit_recovery_success_threshold = 2,
          ab_circuit_recovery_wait_ms = 30 * 1000\<rparr>
        in rbind (budget_validate profile) (\<lambda>_. Inr profile)))"

definition budget_from_v3_policy ::
  "u64 \<Rightarrow> RetryPolicyV3 \<Rightarrow> CircuitBreakerPolicyV3 \<Rightarrow> RoutingPolicyCompileError + AttemptBudgetProfileV1" where
  "budget_from_v3_policy policy_revision retry breaker =
     (if policy_revision = 0 then Inl (CE_NotAdmitted ''revision_unavailable'')
      else rbind (invalid_field (retry_v3_validate retry)) (\<lambda>_.
        rbind (invalid_field (breaker_validate breaker)) (\<lambda>_.
        let profile = \<lparr>ab_policy_revision = policy_revision,
          ab_max_total_attempts = retry_v3_max_total_attempts retry,
          ab_max_same_target_capacity_retries = 0,
          ab_capacity_retry_wait_budget_ms = 0,
          ab_consecutive_failure_threshold = ucast (ry_consecutive_failure_threshold retry),
          ab_circuit_recovery_success_threshold = ucast (cb_recovery_success_threshold breaker),
          ab_circuit_recovery_wait_ms = ucast (cb_recovery_wait_seconds breaker) * 1000\<rparr>
        in rbind (budget_validate profile) (\<lambda>_. Inr profile))))"

record AttemptBudgetProfileV3 =
  a3_policy_revision :: u64
  a3_max_retry_count :: u32
  a3_max_total_attempts :: u32
  a3_consecutive_failure_threshold :: u32

definition budget_v3_from_policy ::
  "u64 \<Rightarrow> RetryPolicyV3 \<Rightarrow> RoutingPolicyCompileError + AttemptBudgetProfileV3" where
  "budget_v3_from_policy policy_revision retry =
     (if policy_revision = 0 then Inl (CE_NotAdmitted ''revision_unavailable'')
      else rbind (invalid_field (retry_v3_validate retry)) (\<lambda>_.
        let profile = \<lparr>a3_policy_revision = policy_revision,
          a3_max_retry_count = ucast (ry_max_retry_count retry),
          a3_max_total_attempts = retry_v3_max_total_attempts retry,
          a3_consecutive_failure_threshold = ucast (ry_consecutive_failure_threshold retry)\<rparr>
        in if a3_max_total_attempts profile > 4 then
             Inl (CE_InvalidField (field_error ''retry.maxRetryCount'' ''out_of_range''
               ''routing.retry.maxRetryCount.range''))
           else Inr profile))"

definition into_execution_profile ::
  "AttemptBudgetProfileV3 \<Rightarrow> CircuitBreakerPolicyV3 \<Rightarrow> RoutingPolicyCompileError + AttemptBudgetProfileV1" where
  "into_execution_profile p breaker =
     (case u16_try_from (unat (a3_max_retry_count p)) of
        None \<Rightarrow> Inl (CE_InvalidField (field_error ''retry.maxRetryCount'' ''out_of_range''
          ''routing.retry.maxRetryCount.range''))
      | Some retries \<Rightarrow>
        (case u16_try_from (unat (a3_consecutive_failure_threshold p)) of
           None \<Rightarrow> Inl (CE_InvalidField (field_error ''retry.consecutiveFailureThreshold'' ''out_of_range''
             ''routing.retry.consecutiveFailureThreshold.range''))
         | Some threshold \<Rightarrow>
             budget_from_v3_policy (a3_policy_revision p)
               \<lparr>ry_version = 1, ry_max_retry_count = retries,
                ry_consecutive_failure_threshold = threshold\<rparr> breaker))"

section \<open>Compiled policies\<close>

record CompiledRoutingPolicyV3 =
  c3_source_revision :: u64
  c3_policy_version :: string
  c3_system_version :: string
  c3_reliability_weight :: BasisPoints
  c3_responsiveness_weight :: BasisPoints
  c3_cost_weight :: BasisPoints
  c3_preference_weight :: BasisPoints
  c3_allow_depleted_fallback :: bool
  c3_affinity_enabled :: bool
  c3_affinity_ttl_seconds :: u32
  c3_reliability_source_weights :: ReliabilitySourceWeightsV3
  c3_reliability_sampling :: ReliabilitySamplingPolicyV3
  c3_attempt_budget :: AttemptBudgetProfileV3
  c3_circuit_breaker :: CircuitBreakerPolicyV3
  c3_timeout_policy :: TimeoutPolicyV2

definition expect_bp :: "u16 \<Rightarrow> BasisPoints run" where
  "expect_bp v = expect ''validated basis-point field'' (bp_new v)"

definition compile_config_v3 ::
  "RoutingPolicyConfigV3 \<Rightarrow> u64 \<Rightarrow> string \<Rightarrow> string
    \<Rightarrow> (RoutingPolicyCompileError + CompiledRoutingPolicyV3) run" where
  "compile_config_v3 c source_revision policy_version system_version =
     (if p3_version c \<noteq> 3 then Done (Inl (CE_UnknownVersion (p3_version c)))
      else case config_v3_validate c of
        Inl e \<Rightarrow> Done (Inl (CE_InvalidField e))
      | Inr _ \<Rightarrow>
        if source_revision = 0 \<or> policy_version = [] \<or> system_version = [] then
          Done (Inl (CE_NotAdmitted ''missing_policy_identity''))
        else
          run_bind (expect_bp (p3_reliability_weight c)) (\<lambda>w1.
          run_bind (expect_bp (p3_responsiveness_weight c)) (\<lambda>w2.
          run_bind (expect_bp (p3_cost_weight c)) (\<lambda>w3.
          run_bind (expect_bp (p3_preference_weight c)) (\<lambda>w4.
          Done (rbind (budget_v3_from_policy source_revision (p3_retry c)) (\<lambda>budget. Inr
            \<lparr>c3_source_revision = source_revision, c3_policy_version = policy_version,
             c3_system_version = system_version, c3_reliability_weight = w1,
             c3_responsiveness_weight = w2, c3_cost_weight = w3, c3_preference_weight = w4,
             c3_allow_depleted_fallback = p3_allow_depleted_fallback c,
             c3_affinity_enabled = p3_affinity_enabled c,
             c3_affinity_ttl_seconds = p3_affinity_ttl_seconds c,
             c3_reliability_source_weights = p3_reliability_source_weights c,
             c3_reliability_sampling = p3_reliability_sampling c,
             c3_attempt_budget = budget,
             c3_circuit_breaker = p3_circuit_breaker c,
             c3_timeout_policy = p3_timeout_policy c\<rparr>)))))))"

record CompiledRoutingPolicy =
  c2_source_revision :: u64
  c2_policy_version :: string
  c2_system_version :: string
  c2_reliability_weight :: BasisPoints
  c2_responsiveness_weight :: BasisPoints
  c2_cost_weight :: BasisPoints
  c2_preference_weight :: BasisPoints
  c2_max_candidates :: u16
  c2_exploration_share_basis_points :: BasisPoints
  c2_allow_depleted_fallback :: bool
  c2_affinity_enabled :: bool
  c2_affinity_ttl_seconds :: u32
  c2_attempt_budget :: AttemptBudgetProfileV1
  c2_protection_profile :: HealthProtectionProfileV1
  c2_protection_enabled :: bool

definition compile_config_v2 ::
  "RoutingPolicyConfigV2 \<Rightarrow> u64 \<Rightarrow> string \<Rightarrow> string
    \<Rightarrow> (RoutingPolicyCompileError + CompiledRoutingPolicy) run" where
  "compile_config_v2 c source_revision policy_version system_version =
     (if p2_version c \<noteq> 2 then Done (Inl (CE_UnknownVersion (p2_version c)))
      else case config_v2_validate c of
        Inl e \<Rightarrow> Done (Inl (CE_InvalidField e))
      | Inr _ \<Rightarrow>
        if source_revision = 0 \<or> policy_version = [] \<or> system_version = [] then
          Done (Inl (CE_NotAdmitted ''missing_policy_identity''))
        else case budget_from_policy source_revision (p2_retry_failover c) of
          Inl e \<Rightarrow> Done (Inl e)
        | Inr budget \<Rightarrow>
          run_bind (expect_bp (p2_reliability_weight c)) (\<lambda>w1.
          run_bind (expect_bp (p2_responsiveness_weight c)) (\<lambda>w2.
          run_bind (expect_bp (p2_cost_weight c)) (\<lambda>w3.
          run_bind (expect_bp (p2_preference_weight c)) (\<lambda>w4.
          run_bind (expect_bp (p2_exploration_share_basis_points c)) (\<lambda>share.
          Done (case hp_from_policy_config (p2_protection_profile c) of
              Inl _ \<Rightarrow> Inl (CE_InvalidField (field_error ''protectionProfile'' ''invalid_profile''
                ''routing.protectionProfile.invalid''))
            | Inr profile \<Rightarrow> Inr
            \<lparr>c2_source_revision = source_revision, c2_policy_version = policy_version,
             c2_system_version = system_version, c2_reliability_weight = w1,
             c2_responsiveness_weight = w2, c2_cost_weight = w3, c2_preference_weight = w4,
             c2_max_candidates = p2_max_candidates c,
             c2_exploration_share_basis_points = share,
             c2_allow_depleted_fallback = p2_allow_depleted_fallback c,
             c2_affinity_enabled = p2_affinity_enabled c,
             c2_affinity_ttl_seconds = p2_affinity_ttl_seconds c,
             c2_attempt_budget = budget, c2_protection_profile = profile,
             c2_protection_enabled = pp_enabled (p2_protection_profile c)\<rparr>)))))))"

datatype RoutingPolicyStatus = Status_Active | Status_ConfigurationRequired | Status_Invalid

fun policy_status_as_str :: "RoutingPolicyStatus \<Rightarrow> string" where
  "policy_status_as_str Status_Active = ''active''"
| "policy_status_as_str Status_ConfigurationRequired = ''routing_configuration_required''"
| "policy_status_as_str Status_Invalid = ''invalid''"

record RoutingPolicyAggregate =
  ag_policy :: RoutingPolicyConfigV2
  ag_policy_v3 :: "RoutingPolicyConfigV3 option"
  ag_revision :: u64
  ag_policy_version :: string
  ag_system_version :: string
  ag_status :: RoutingPolicyStatus
  ag_updated_at_ms :: i64

definition aggregate_compile_v2 ::
  "RoutingPolicyAggregate \<Rightarrow> (RoutingPolicyCompileError + CompiledRoutingPolicy) run" where
  "aggregate_compile_v2 a =
     (if ag_revision a = 0 then Done (Inl (CE_NotAdmitted ''revision_unavailable''))
      else if ag_status a \<noteq> Status_Active then
        Done (Inl (CE_NotAdmitted (policy_status_as_str (ag_status a))))
      else compile_config_v2 (ag_policy a) (ag_revision a) (ag_policy_version a) (ag_system_version a))"

definition aggregate_compile_v3 ::
  "RoutingPolicyAggregate \<Rightarrow> (RoutingPolicyCompileError + CompiledRoutingPolicyV3) run" where
  "aggregate_compile_v3 a =
     (if ag_revision a = 0 then Done (Inl (CE_NotAdmitted ''revision_unavailable''))
      else if ag_status a \<noteq> Status_Active then
        Done (Inl (CE_NotAdmitted (policy_status_as_str (ag_status a))))
      else case ag_policy_v3 a of
        Some policy \<Rightarrow>
          compile_config_v3 policy (ag_revision a) (ag_policy_version a) (ag_system_version a)
      | None \<Rightarrow>
          (case config_v3_from_v2 (ag_policy a) of
             Inl e \<Rightarrow> Done (Inl (CE_InvalidField e))
           | Inr u \<Rightarrow>
               compile_config_v3 (up_policy u) (ag_revision a) (ag_policy_version a)
                 (ag_system_version a)))"

section \<open>The migration matrix of the old strategies\<close>

datatype LegacyRoutingPolicy =
    AutomaticBalanced | PriorityFallback | StableFirst | BackupOnly | CheapFirst | CostStableFirst

record LegacyPolicyMapping =
  lm_legacy :: LegacyRoutingPolicy
  lm_preset :: RoutingPolicyConfigV1
  lm_preserved_fields :: "string list"
  lm_lost_semantics :: string
  lm_routing_configuration_required :: bool
  lm_reason :: string

definition with_weights ::
  "RoutingPolicyConfigV1 \<Rightarrow> u16 \<Rightarrow> u16 \<Rightarrow> u16 \<Rightarrow> u16 \<Rightarrow> RoutingPolicyConfigV1" where
  "with_weights c a b d e = c\<lparr>p1_reliability_weight := a, p1_responsiveness_weight := b,
     p1_cost_weight := d, p1_preference_weight := e\<rparr>"

definition legacy_policy_mapping :: "LegacyRoutingPolicy \<Rightarrow> LegacyPolicyMapping" where
  "legacy_policy_mapping policy =
     (let base = config_v1_default;
          (preset, preserved, lost, required, reason) = (case policy of
            AutomaticBalanced \<Rightarrow> (base,
              [''weights'', ''max_candidates'', ''exploration_share'', ''fallback'', ''affinity''],
              ''none; automatic balancing is represented by the default factor weights'', False,
              ''directly representable by V1'')
          | PriorityFallback \<Rightarrow> (with_weights base 5000 2500 1000 1500,
              [''priority ordering'', ''fallback'', ''weights''],
              ''legacy priority tie-break is not retained'', False,
              ''priority becomes preference/reliability weighting'')
          | StableFirst \<Rightarrow> ((with_weights base 5000 2500 1000 1500)\<lparr>p1_affinity_enabled := True\<rparr>,
              [''weights'', ''affinity''],
              ''legacy stable queue order is not retained'', False,
              ''stability is represented by affinity and reliability'')
          | BackupOnly \<Rightarrow> (with_weights base 3500 2000 1500 3000,
              [''weights''],
              ''backup-only tier semantics require candidate role metadata'', True,
              ''V1 cannot infer backup role from a policy name'')
          | CheapFirst \<Rightarrow> (with_weights base 2000 1000 6000 1000,
              [''weights'', ''max_candidates''],
              ''unbounded legacy price comparator is not retained'', False,
              ''cost preference becomes a bounded factor'')
          | CostStableFirst \<Rightarrow> ((with_weights base 2500 1500 4500 1500)\<lparr>p1_affinity_enabled := True\<rparr>,
              [''weights'', ''affinity''],
              ''legacy cost/stability tie-break order is not retained'', False,
              ''cost and stability become independent factors''))
      in \<lparr>lm_legacy = policy, lm_preset = preset, lm_preserved_fields = preserved,
          lm_lost_semantics = lost, lm_routing_configuration_required = required,
          lm_reason = reason\<rparr>)"

section \<open>What validation gives\<close>


lemma unat_max_total_attempts:
  "unat (retry_v3_max_total_attempts r) = unat (ry_max_retry_count r) + 1"
proof -
  have "unat (ry_max_retry_count r) \<le> 2 ^ 16 - 1" using unat_bound [of "ry_max_retry_count r"] by simp
  then show ?thesis
    unfolding retry_v3_max_total_attempts_def
    by (subst unat_add_lem [THEN iffD1]) simp_all
qed

lemma retry_failover_Inr_iff:
  "retry_failover_validate r = Inr u \<longleftrightarrow>
     rf_version r = 2 \<and> 1 \<le> unat (rf_max_total_attempts r) \<and> unat (rf_max_total_attempts r) \<le> 4
     \<and> unat (rf_max_same_target_capacity_retries r) \<le> 2
     \<and> unat (rf_max_same_target_capacity_retries r) < unat (rf_max_total_attempts r)
     \<and> f64_is_finite (rf_capacity_retry_wait_budget_seconds r)
     \<and> f64_in_range (F64_Num 0) (F64_Num 2) (rf_capacity_retry_wait_budget_seconds r)"
  by (auto simp: retry_failover_validate_def word_le_nat_alt word_less_nat_alt)

lemma protection_Inr_iff:
  "protection_validate p = Inr u \<longleftrightarrow>
     pp_version p = 2 \<and> pp_window_max_samples p \<noteq> 0 \<and> unat (pp_window_max_samples p) \<le> 256
     \<and> f64_is_finite (pp_window_seconds p)
     \<and> f64_in_range f64_MIN_POSITIVE (F64_Num 86400) (pp_window_seconds p)
     \<and> pp_min_samples p \<noteq> 0 \<and> unat (pp_min_samples p) \<le> unat (pp_window_max_samples p)
     \<and> 1 \<le> unat (pp_failure_threshold_percent p) \<and> unat (pp_failure_threshold_percent p) \<le> 100
     \<and> pp_half_open_successes_to_close p \<noteq> 0 \<and> unat (pp_half_open_successes_to_close p) \<le> 16"
  by (auto simp: protection_validate_def word_le_nat_alt word_less_nat_alt)

lemma breaker_Inr_iff:
  "breaker_validate b = Inr u \<longleftrightarrow>
     cb_version b = 1 \<and> 1 \<le> unat (cb_recovery_success_threshold b)
     \<and> unat (cb_recovery_success_threshold b) \<le> 16
     \<and> 5 \<le> unat (cb_recovery_wait_seconds b) \<and> unat (cb_recovery_wait_seconds b) \<le> 3600"
  by (auto simp: breaker_validate_def word_le_nat_alt word_less_nat_alt)

lemma retry_v3_Inr_iff:
  "retry_v3_validate r = Inr u \<longleftrightarrow>
     ry_version r = 1 \<and> unat (ry_max_retry_count r) \<le> 3
     \<and> 1 \<le> unat (ry_consecutive_failure_threshold r) \<and> unat (ry_consecutive_failure_threshold r) \<le> 10"
  by (auto simp: retry_v3_validate_def word_le_nat_alt word_less_nat_alt)

lemma config_v2_Inr_iff:
  "config_v2_validate c = Inr u \<longleftrightarrow>
     p2_version c = 2 \<and> config_v1_validate (config_v2_base c) = Inr ()
     \<and> retry_failover_validate (p2_retry_failover c) = Inr ()
     \<and> protection_validate (p2_protection_profile c) = Inr ()
     \<and> timeout_validate (p2_timeout_policy c) = Inr ()"
  by (auto simp: config_v2_validate_def rbind_Inr_iff split: sum.splits)

lemma config_v3_Inr_iff:
  "config_v3_validate c = Inr u \<longleftrightarrow>
     p3_version c = 3 \<and> config_v1_validate (config_v3_base c) = Inr ()
     \<and> source_weights_validate (p3_reliability_source_weights c) = Inr ()
     \<and> sampling_validate (p3_reliability_sampling c) = Inr ()
     \<and> retry_v3_validate (p3_retry c) = Inr ()
     \<and> breaker_validate (p3_circuit_breaker c) = Inr ()
     \<and> timeout_validate (p3_timeout_policy c) = Inr ()"
  by (auto simp: config_v3_validate_def rbind_Inr_iff split: sum.splits)

lemma config_v1_weights:
  "config_v1_validate c = Inr u \<Longrightarrow>
     unat (p1_reliability_weight c) + unat (p1_responsiveness_weight c)
       + unat (p1_cost_weight c) + unat (p1_preference_weight c) = 10000"
  by (auto simp: config_v1_validate_def Let_def split: if_splits)

text \<open>The shared validator reads the two removed fields only for their ranges.\<close>

lemma config_v1_validate_cong:
  assumes "config_v1_validate a = Inr ()"
    and "p1_max_candidates b \<noteq> 0" "p1_max_candidates b \<le> 1024" "p1_exploration_share_basis_points b \<le> 2000"
    and "b = a\<lparr>p1_max_candidates := p1_max_candidates b,
                p1_exploration_share_basis_points := p1_exploration_share_basis_points b\<rparr>"
  shows "config_v1_validate b = Inr ()"
proof -
  have "p1_version b = p1_version a" "p1_reliability_weight b = p1_reliability_weight a"
    "p1_responsiveness_weight b = p1_responsiveness_weight a" "p1_cost_weight b = p1_cost_weight a"
    "p1_preference_weight b = p1_preference_weight a" "p1_max_rate_multiplier b = p1_max_rate_multiplier a"
    "p1_outbound_proxy_mode b = p1_outbound_proxy_mode a" "p1_outbound_proxy_url b = p1_outbound_proxy_url a"
    "p1_affinity_enabled b = p1_affinity_enabled a" "p1_affinity_ttl_seconds b = p1_affinity_ttl_seconds a"
    by (subst assms(5); simp)+
  with assms(1-4) show ?thesis
    by (simp add: config_v1_validate_def Let_def not_less split: if_splits)
qed


lemma upgraded_base_ok:
  assumes "config_v1_validate (config_v2_base v) = Inr ()"
  shows "config_v1_validate (config_v2_base v\<lparr>p1_max_candidates := 1, p1_exploration_share_basis_points := 0\<rparr>) = Inr ()"
  by (rule config_v1_validate_cong [OF assms]) simp_all

lemma default_parts_ok [simp]:
  "source_weights_validate source_weights_default = Inr ()"
  "sampling_validate sampling_default = Inr ()"
  "retry_v3_validate retry_v3_default = Inr ()"
  "breaker_validate breaker_default = Inr ()"
  by (simp_all add: source_weights_validate_def source_weights_default_def sampling_validate_def
      sampling_default_def retry_v3_validate_def retry_v3_default_def breaker_validate_def breaker_default_def)

lemma timeout_default_ok [simp]: "timeout_validate timeout_default = Inr ()"
  by (simp add: timeout_validate_def timeout_default_def timeout_fields_def f64_in_range_def f64_lt_def)

lemma retry_failover_default_ok [simp]: "retry_failover_validate retry_failover_default = Inr ()"
  by (simp add: retry_failover_Inr_iff retry_failover_default_def f64_in_range_def)

lemma f64_MIN_POSITIVE_le: "1 \<le> x \<Longrightarrow> f64_le f64_MIN_POSITIVE (F64_Num x)"
proof -
  assume "1 \<le> x"
  have "(1 :: rat) \<le> 2 ^ 1022" by (rule one_le_power) simp
  then have "1 / 2 ^ 1022 \<le> (1 :: rat)" by (simp only: divide_le_eq_1) simp
  also have "\<dots> \<le> x" by fact
  finally show ?thesis unfolding f64_MIN_POSITIVE_def f64_le.simps .
qed

lemma f64_MIN_POSITIVE_small: "f64_le f64_MIN_POSITIVE (F64_Num (1 / 4096))"
proof -
  have "(2 :: rat) ^ 12 \<le> 2 ^ 1022" by (rule power_increasing) simp_all
  then have "1 / 2 ^ 1022 \<le> (1 / 2 ^ 12 :: rat)" by (intro divide_left_mono) simp_all
  then show ?thesis unfolding f64_MIN_POSITIVE_def f64_le.simps by simp
qed

lemma protection_default_ok [simp]: "protection_validate protection_default = Inr ()"
  by (simp add: protection_Inr_iff protection_default_def f64_in_range_def f64_MIN_POSITIVE_le)

lemma v3_policy_of_v2_facts [simp]:
  "config_v3_base (v3_policy_of_v2 v) = config_v2_base v\<lparr>p1_max_candidates := 1, p1_exploration_share_basis_points := 0\<rparr>"
  "p3_version (v3_policy_of_v2 v) = 3"
  "p3_reliability_source_weights (v3_policy_of_v2 v) = source_weights_default"
  "p3_reliability_sampling (v3_policy_of_v2 v) = sampling_default"
  "p3_timeout_policy (v3_policy_of_v2 v) = p2_timeout_policy v"
  "ry_max_retry_count (p3_retry (v3_policy_of_v2 v)) = rf_max_total_attempts (p2_retry_failover v) - 1"
  "cb_recovery_success_threshold (p3_circuit_breaker (v3_policy_of_v2 v))
     = pp_half_open_successes_to_close (p2_protection_profile v)"
  by (simp_all add: v3_policy_of_v2_def config_v3_base_def config_v2_base_def)

lemma v3_policy_of_v2_attempts:
  assumes "config_v2_validate v = Inr ()"
  shows "unat (retry_v3_max_total_attempts (p3_retry (v3_policy_of_v2 v)))
    = unat (rf_max_total_attempts (p2_retry_failover v))"
    and "unat (rf_max_total_attempts (p2_retry_failover v)) \<le> 4"
    and "1 \<le> unat (rf_max_total_attempts (p2_retry_failover v))"
  using assms by (auto simp: config_v2_Inr_iff retry_failover_Inr_iff unat_max_total_attempts unat_sub_one)

lemma v3_policy_of_v2_valid:
  assumes "config_v2_validate v = Inr ()"
  shows "config_v3_validate (v3_policy_of_v2 v) = Inr ()"
proof -
  have "retry_v3_validate (p3_retry (v3_policy_of_v2 v)) = Inr ()"
    using v3_policy_of_v2_attempts [OF assms]
    by (simp add: retry_v3_Inr_iff unat_sub_one) (simp add: v3_policy_of_v2_def)
  moreover have "breaker_validate (p3_circuit_breaker (v3_policy_of_v2 v)) = Inr ()"
    using assms by (simp add: breaker_Inr_iff config_v2_Inr_iff protection_Inr_iff)
      (simp add: v3_policy_of_v2_def Suc_le_eq unat_gt_0)
  ultimately show ?thesis
    using assms by (simp add: config_v3_Inr_iff config_v2_Inr_iff upgraded_base_ok)
qed

lemma from_v2_total:
  assumes "config_v2_validate v = Inr ()"
  shows "config_v3_from_v2 v = Inr \<lparr>up_policy = v3_policy_of_v2 v, up_audit = v3_upgrade_audit\<rparr>"
proof -
  have "\<not> rf_max_total_attempts (p2_retry_failover v) < 1"
    using v3_policy_of_v2_attempts(3) [OF assms] by (simp add: word_less_nat_alt)
  then show ?thesis
    using assms v3_policy_of_v2_valid by (simp add: config_v3_from_v2_def Let_def)
qed

lemma v2_projection_facts [simp]:
  "config_v2_base (v2_projection_of_v3 v m) = config_v3_base v\<lparr>p1_max_candidates := 1024, p1_exploration_share_basis_points := 0\<rparr>"
  "p2_version (v2_projection_of_v3 v m) = 2"
  "p2_timeout_policy (v2_projection_of_v3 v m) = p3_timeout_policy v"
  "rf_max_total_attempts (p2_retry_failover (v2_projection_of_v3 v m)) = m"
  "rf_max_same_target_capacity_retries (p2_retry_failover (v2_projection_of_v3 v m)) = 0"
  "rf_allow_cross_capacity_domain_fallback (p2_retry_failover (v2_projection_of_v3 v m)) = False"
  by (simp_all add: v2_projection_of_v3_def config_v3_base_def config_v2_base_def)

lemma v2_projection_valid:
  assumes "config_v3_validate v = Inr ()" "1 \<le> unat m" "unat m \<le> 4"
  shows "config_v2_validate (v2_projection_of_v3 v m) = Inr ()"
proof -
  have "config_v1_validate (config_v3_base v\<lparr>p1_max_candidates := 1024, p1_exploration_share_basis_points := 0\<rparr>) = Inr ()"
    using assms(1) by - (rule config_v1_validate_cong [where a = "config_v3_base v"]; simp add: config_v3_Inr_iff)
  moreover have "retry_failover_validate (p2_retry_failover (v2_projection_of_v3 v m)) = Inr ()"
    using assms(2,3) by (simp add: retry_failover_Inr_iff) (simp add: v2_projection_of_v3_def f64_in_range_def Suc_le_eq)
  moreover have "protection_validate (p2_protection_profile (v2_projection_of_v3 v m)) = Inr ()"
    using assms(1)
    by (simp add: protection_Inr_iff v2_projection_of_v3_def f64_in_range_def f64_MIN_POSITIVE_le
        config_v3_Inr_iff breaker_Inr_iff Suc_le_eq unat_gt_0)
  ultimately show ?thesis
    using assms(1) by (simp add: config_v2_Inr_iff config_v3_Inr_iff)
qed

lemma v3_compat_total:
  assumes "config_v3_validate v = Inr ()"
  shows "\<exists>m. config_v2_from_v3_compat v = Inr (v2_projection_of_v3 v m)
     \<and> unat m = unat (ry_max_retry_count (p3_retry v)) + 1
     \<and> config_v2_validate (v2_projection_of_v3 v m) = Inr ()"
proof -
  define m :: u16 where "m = of_nat (unat (ry_max_retry_count (p3_retry v)) + 1)"
  have r: "unat (ry_max_retry_count (p3_retry v)) \<le> 3"
    using assms by (simp add: config_v3_Inr_iff retry_v3_Inr_iff)
  then have "u16_try_from (unat (retry_v3_max_total_attempts (p3_retry v))) = Some m"
    by (simp add: u16_try_from_def unat_max_total_attempts m_def)
  moreover have um: "unat m = unat (ry_max_retry_count (p3_retry v)) + 1"
    unfolding m_def using r by (intro unat_of_nat_lt) simp
  moreover have "config_v2_validate (v2_projection_of_v3 v m) = Inr ()"
    by (rule v2_projection_valid [OF assms]) (use r um in simp_all)
  ultimately show ?thesis by (auto simp: config_v2_from_v3_compat_def Let_def)
qed

section \<open>Milliseconds\<close>

lemma f64_round_away_le:
  assumes "f64_nonneg a" "f64_le a b"
  shows "f64_to_uint m (f64_round_away a) \<le> f64_to_uint m (f64_round_away b)"
proof -
  have b: "f64_nonneg b"
    using assms by (cases a; cases b) (auto simp: f64_nonneg_def)
  from assms(1) show ?thesis
  proof (cases rule: f64_nonneg_cases)
    case (num p)
    from b show ?thesis
    proof (cases rule: f64_nonneg_cases)
      case (num q)
      with \<open>a = F64_Num p\<close> assms(2) \<open>0 \<le> p\<close> have "p \<le> q" "0 \<le> q" by auto
      then have "nat \<lfloor>p + 1 / 2\<rfloor> \<le> nat \<lfloor>q + 1 / 2\<rfloor>" by (intro nat_mono floor_mono) simp
      with num \<open>a = F64_Num p\<close> \<open>0 \<le> p\<close> \<open>0 \<le> q\<close> show ?thesis by (simp add: min_le_iff_disj)
    next
      case inf
      with \<open>a = F64_Num p\<close> show ?thesis by simp
    qed
  next
    case inf
    with assms(2) have "b = F64_Inf False" by (cases b) auto
    with inf show ?thesis by simp
  qed
qed

lemma seconds_to_millis_mono:
  assumes "0 \<le> p" "p \<le> q"
  shows "seconds_to_millis (F64_Num p) \<le> seconds_to_millis (F64_Num q)"
  unfolding seconds_to_millis_def f64_mul.simps
  using assms by (intro f64_round_away_le f64_round_mono f64_round_nonneg) auto

lemma f64_round_of_nat: "0 < n \<Longrightarrow> n < 2 ^ 53 \<Longrightarrow> f64_round (of_nat n) = F64_Num (of_nat n)"
  using f64_round_exact [of "int n" 0] by simp

lemma seconds_to_millis_of_nat:
  assumes "0 < n" "n * 1000 < 2 ^ 53"
  shows "seconds_to_millis (F64_Num (of_nat n)) = n * 1000"
proof -
  have "f64_mul (F64_Num (of_nat n)) (F64_Num 1000) = F64_Num (of_nat (n * 1000))"
    using f64_round_of_nat [of "n * 1000"] assms by simp
  moreover have "\<lfloor>of_nat (n * 1000) + 1 / 2 :: rat\<rfloor> = int (n * 1000)"
    by (rule floor_unique) simp_all
  ultimately show ?thesis
    using assms(2) by (simp add: seconds_to_millis_def del: of_nat_mult)
qed

lemma millis_range:
  assumes "f64_in_range (F64_Num 1) (F64_Num (of_nat n)) v" "0 < n" "n * 1000 < 2 ^ 53"
  shows "1000 \<le> seconds_to_millis v \<and> seconds_to_millis v \<le> n * 1000"
proof -
  from assms(1) obtain p where v: "v = F64_Num p" and p: "1 \<le> p" "p \<le> of_nat n"
    by (cases v) (auto simp: f64_in_range_def)
  show ?thesis
    using seconds_to_millis_mono [of 1 p] seconds_to_millis_mono [of p "of_nat n"] p v
      seconds_to_millis_of_nat [of 1] seconds_to_millis_of_nat [OF assms(2,3)] by simp
qed

lemma wait_budget_bound:
  assumes "f64_in_range (F64_Num 0) (F64_Num 2) v"
  shows "seconds_to_millis v \<le> 2000"
proof -
  from assms obtain p where "v = F64_Num p" "0 \<le> p" "p \<le> 2"
    by (cases v) (auto simp: f64_in_range_def)
  then show ?thesis
    using seconds_to_millis_mono [of p 2] seconds_to_millis_of_nat [of 2] by simp
qed

lemma window_millis_bound:
  assumes "f64_in_range f64_MIN_POSITIVE (F64_Num 86400) (pp_window_seconds p)"
  shows "window_millis p \<le> 86400000"
proof -
  from assms obtain q where q: "pp_window_seconds p = F64_Num q" "q \<le> 86400" "0 \<le> q"
    by (cases "pp_window_seconds p")
      (auto simp: f64_in_range_def f64_MIN_POSITIVE_def intro: order_trans [of 0])
  have "f64_le (f64_round (q * 1000)) (f64_round (of_nat 86400000))" "f64_nonneg (f64_round (q * 1000))"
    using q by (auto intro: f64_round_mono f64_round_nonneg)
  then obtain r where r: "f64_round (q * 1000) = F64_Num r" "0 \<le> r" "r \<le> 86400000"
    using f64_round_of_nat [of 86400000] by (auto elim!: f64_nonneg_cases)
  have "\<lfloor>r + 1 / 2\<rfloor> \<le> 86400000" using r(3) by (simp add: floor_le_iff)
  then show ?thesis
    using q(1) r by (auto simp: window_millis_def i64_clamp_def i64_max_def i64_min_def min_def max_def)
qed

text \<open>A window of 1/4096 of a second is 0.24 ms and rounds to zero milliseconds.\<close>

lemma window_millis_tiny: "pp_window_seconds p = F64_Num (1 / 4096) \<Longrightarrow> window_millis p = 0"
proof -
  have "f64_round (125 / 512) = F64_Num (125 / 512)"
    using f64_round_exact [of 125 "- 9"] by (simp add: power_int_minus)
  then show "pp_window_seconds p = F64_Num (1 / 4096) \<Longrightarrow> window_millis p = 0"
    by (simp add: window_millis_def i64_clamp_def i64_max_def i64_min_def floor_eq_iff)
qed

lemma timeout_Inr_iff:
  "timeout_validate t = Inr u \<longleftrightarrow> to_version t = 2
     \<and> (\<forall>(f, v, m) \<in> set (timeout_fields t). f64_is_finite v \<and> f64_in_range (F64_Num 1) m v)
     \<and> \<not> f64_lt (to_buffered_execution_seconds t) (to_precommit_seconds t)"
  by (auto simp: timeout_validate_def find_None_iff split: option.splits dest!: find_Some_in_set)
    (metis (mono_tags, lifting) case_prod_conv)+

section \<open>Compilation\<close>

lemma weights_le: "config_v1_validate c = Inr u \<Longrightarrow> w \<in> {p1_reliability_weight c,
    p1_responsiveness_weight c, p1_cost_weight c, p1_preference_weight c} \<Longrightarrow> bp_new w = Some (BasisPoints w)"
  using config_v1_weights [of c u] by (auto simp: bp_new_def word_le_nat_alt)

lemma config_v3_base_weights [simp]:
  "p1_reliability_weight (config_v3_base c) = p3_reliability_weight c"
  "p1_responsiveness_weight (config_v3_base c) = p3_responsiveness_weight c"
  "p1_cost_weight (config_v3_base c) = p3_cost_weight c"
  "p1_preference_weight (config_v3_base c) = p3_preference_weight c"
  by (simp_all add: config_v3_base_def)

lemma config_v2_base_weights [simp]:
  "p1_reliability_weight (config_v2_base c) = p2_reliability_weight c"
  "p1_responsiveness_weight (config_v2_base c) = p2_responsiveness_weight c"
  "p1_cost_weight (config_v2_base c) = p2_cost_weight c"
  "p1_preference_weight (config_v2_base c) = p2_preference_weight c"
  "p1_exploration_share_basis_points (config_v2_base c) = p2_exploration_share_basis_points c"
  by (simp_all add: config_v2_base_def)

lemma expect_bp_v3:
  assumes "config_v3_validate c = Inr ()"
  shows "expect_bp (p3_reliability_weight c) = Done (BasisPoints (p3_reliability_weight c))"
    "expect_bp (p3_responsiveness_weight c) = Done (BasisPoints (p3_responsiveness_weight c))"
    "expect_bp (p3_cost_weight c) = Done (BasisPoints (p3_cost_weight c))"
    "expect_bp (p3_preference_weight c) = Done (BasisPoints (p3_preference_weight c))"
  using assms weights_le [of "config_v3_base c"] by (simp_all add: expect_bp_def config_v3_Inr_iff)

lemma expect_bp_v2:
  assumes "config_v2_validate c = Inr ()"
  shows "expect_bp (p2_reliability_weight c) = Done (BasisPoints (p2_reliability_weight c))"
    "expect_bp (p2_responsiveness_weight c) = Done (BasisPoints (p2_responsiveness_weight c))"
    "expect_bp (p2_cost_weight c) = Done (BasisPoints (p2_cost_weight c))"
    "expect_bp (p2_preference_weight c) = Done (BasisPoints (p2_preference_weight c))"
    "expect_bp (p2_exploration_share_basis_points c) = Done (BasisPoints (p2_exploration_share_basis_points c))"
proof -
  have v1: "config_v1_validate (config_v2_base c) = Inr ()"
    using assms by (simp add: config_v2_Inr_iff)
  then have "p2_exploration_share_basis_points c \<le> 2000"
    by (auto simp: config_v1_validate_def Let_def split: if_splits)
  then have "p2_exploration_share_basis_points c \<le> 10000" by (simp add: word_le_nat_alt)
  then show "expect_bp (p2_exploration_share_basis_points c) = Done (BasisPoints (p2_exploration_share_basis_points c))"
    by (simp add: expect_bp_def bp_new_def)
qed (use assms weights_le [of "config_v2_base c"] in \<open>simp_all add: expect_bp_def config_v2_Inr_iff\<close>)

lemma budget_v3_from_policy_valid:
  assumes "retry_v3_validate r = Inr ()" "srev \<noteq> 0"
  shows "budget_v3_from_policy srev r = Inr \<lparr>a3_policy_revision = srev,
    a3_max_retry_count = ucast (ry_max_retry_count r),
    a3_max_total_attempts = retry_v3_max_total_attempts r,
    a3_consecutive_failure_threshold = ucast (ry_consecutive_failure_threshold r)\<rparr>"
proof -
  have "\<not> 4 < retry_v3_max_total_attempts r"
    using assms by (simp add: word_less_nat_alt unat_max_total_attempts retry_v3_Inr_iff)
  with assms show ?thesis by (simp add: budget_v3_from_policy_def invalid_field_def Let_def)
qed

lemma u16_try_from_unat: "u16_try_from (unat (x :: u16)) = Some x"
  using unsigned_less [of x] by (simp add: u16_try_from_def)

lemma budget_from_policy_valid:
  assumes "retry_failover_validate r = Inr ()" "srev \<noteq> 0"
  shows "\<exists>b. budget_from_policy srev r = Inr b \<and> ab_policy_revision b = srev
    \<and> unat (ab_max_total_attempts b) = unat (rf_max_total_attempts r) \<and> budget_validate b = Inr ()"
proof -
  have "capacity_retry_wait_budget_millis r \<le> 2000"
  proof -
    have "seconds_to_millis (rf_capacity_retry_wait_budget_seconds r) \<le> 2000"
      using assms by (simp add: retry_failover_Inr_iff wait_budget_bound)
    then show ?thesis
      by (simp add: capacity_retry_wait_budget_millis_def word_le_nat_alt unat_of_nat_lt)
  qed
  then have "budget_validate \<lparr>ab_policy_revision = srev,
      ab_max_total_attempts = ucast (rf_max_total_attempts r),
      ab_max_same_target_capacity_retries = ucast (rf_max_same_target_capacity_retries r),
      ab_capacity_retry_wait_budget_ms = capacity_retry_wait_budget_millis r,
      ab_consecutive_failure_threshold = 3, ab_circuit_recovery_success_threshold = 2,
      ab_circuit_recovery_wait_ms = 30 * 1000\<rparr> = Inr ()"
    using assms by (simp add: budget_validate_def retry_failover_Inr_iff word_le_nat_alt word_less_nat_alt)
  with assms show ?thesis
    by (simp add: budget_from_policy_def invalid_field_def Let_def)
qed


lemma hp_from_policy_config_Inr:
  assumes "protection_validate p = Inr ()"
  shows "(\<exists>k. hp_from_policy_config p = Inr k) \<longleftrightarrow> 1 \<le> window_millis p"
proof -
  let ?h = "(hp_for_preset Balanced)\<lparr>hp_window_max_samples := unat (pp_window_max_samples p),
    hp_window_ms := window_millis p, hp_min_samples := unat (pp_min_samples p),
    hp_failure_threshold_percent := pp_failure_threshold_percent p,
    hp_half_open_successes_to_close := pp_half_open_successes_to_close p, hp_enabled := pp_enabled p\<rparr>"
  have "window_millis p \<le> 24 * 60 * 60 * 1000"
    using assms window_millis_bound [of p] by (simp add: protection_Inr_iff)
  then have "hp_validate ?h = Inr () \<longleftrightarrow> 1 \<le> window_millis p"
    using assms by (auto simp: hp_for_preset_def hp_validate_def protection_Inr_iff
        word_le_nat_alt unat_eq_0)
  then show ?thesis
    using assms by (auto simp: hp_from_policy_config_def Let_def rbind_Inr_iff)
qed

section \<open>Properties\<close>

text \<open>
  C33: the version 3 compiler never panics, whatever the configuration; it succeeds exactly on a
  valid configuration with a policy identity, and then its four weights are the configured basis
  points with sum 10000 and its budget allows one attempt more than the configured retries, at
  most four.
\<close>
theorem compile_config_v3_total:
  shows "\<exists>r. compile_config_v3 c srev pv sv = Done r
    \<and> ((\<exists>k. r = Inr k) \<longleftrightarrow> config_v3_validate c = Inr () \<and> srev \<noteq> 0 \<and> pv \<noteq> [] \<and> sv \<noteq> [])
    \<and> (\<forall>k. r = Inr k \<longrightarrow>
        sum_list (map (unat \<circ> bp_get) [c3_reliability_weight k, c3_responsiveness_weight k,
          c3_cost_weight k, c3_preference_weight k]) = 10000
        \<and> unat (a3_max_total_attempts (c3_attempt_budget k)) = unat (ry_max_retry_count (p3_retry c)) + 1
        \<and> a3_max_total_attempts (c3_attempt_budget k) \<le> 4
        \<and> a3_policy_revision (c3_attempt_budget k) = srev)"
proof (cases "config_v3_validate c")
  case (Inl e)
  then show ?thesis by (auto simp: compile_config_v3_def)
next
  case (Inr u)
  then have v: "config_v3_validate c = Inr ()" by simp
  have r: "retry_v3_validate (p3_retry c) = Inr ()" and ver: "p3_version c = 3"
    using v by (simp_all add: config_v3_Inr_iff)
  have le: "retry_v3_max_total_attempts (p3_retry c) \<le> 4"
    using r by (simp add: word_le_nat_alt unat_max_total_attempts retry_v3_Inr_iff)
  have sum: "unat (p3_reliability_weight c) + unat (p3_responsiveness_weight c)
      + unat (p3_cost_weight c) + unat (p3_preference_weight c) = 10000"
    using v config_v1_weights [of "config_v3_base c" "()"] by (simp add: config_v3_Inr_iff)
  show ?thesis
  proof (cases "srev = 0 \<or> pv = [] \<or> sv = []")
    case True
    then show ?thesis using v ver by (auto simp: compile_config_v3_def)
  next
    case False
    then show ?thesis
      using sum le v ver budget_v3_from_policy_valid [OF r, of srev]
      by (simp add: compile_config_v3_def expect_bp_v3 unat_max_total_attempts)
  qed
qed

theorem compile_config_v3_total_witness:
  "\<exists>k. compile_config_v3 config_v3_default 7 ''v'' ''s'' = Done (Inr k)"
proof -
  have "config_v1_validate (config_v3_base config_v3_default) = Inr ()"
    by (simp add: config_v3_base_def config_v3_default_def config_v1_default_def config_v1_validate_def trim_id visible_ascii_def eq_ignore_ascii_case_def to_ascii_lowercase_def ascii_lowercase_def)
  then have "config_v3_validate config_v3_default = Inr ()"
    by (simp add: config_v3_Inr_iff) (simp add: config_v3_default_def)
  then show ?thesis
    using compile_config_v3_total [of config_v3_default 7 "''v''" "''s''"] by auto
qed

text \<open>
  the two routes to the execution budget agree. Building the version 3 budget and turning it
  into the execution profile gives exactly what \<^verbatim>\<open>from_v3_policy\<close> computes directly, errors
  included.
\<close>
theorem execution_profile_equivalence:
  "rbind (budget_v3_from_policy srev retry) (\<lambda>p. into_execution_profile p breaker)
     = budget_from_v3_policy srev retry breaker"
proof (cases "srev = 0 \<or> retry_v3_validate retry \<noteq> Inr ()")
  case True
  then show ?thesis
    by (cases "retry_v3_validate retry") (auto simp: budget_v3_from_policy_def budget_from_v3_policy_def invalid_field_def)
next
  case False
  then have v: "retry_v3_validate retry = Inr ()" and s: "srev \<noteq> 0" by auto
  then have "ry_version retry = 1" by (simp add: retry_v3_Inr_iff)
  then have "retry = \<lparr>ry_version = 1, ry_max_retry_count = ry_max_retry_count retry,
      ry_consecutive_failure_threshold = ry_consecutive_failure_threshold retry\<rparr>" by simp
  then show ?thesis
    using budget_v3_from_policy_valid [OF v s] by (simp add: into_execution_profile_def u16_try_from_unat)
qed

text \<open>
  C38: migration is lossless where it claims to be. A valid version 2 policy always upgrades to a
  valid version 3 policy, and the execution-shape projection of that policy is again accepted as
  a valid version 2 policy with the same weights, timeouts, affinity, proxy and group settings and
  the same attempt limit, with exploration and the capacity retries disabled.
\<close>
theorem policy_upgrade_roundtrip:
  assumes "config_v2_validate v = Inr ()"
  shows "\<exists>u c. config_v3_from_v2 v = Inr u \<and> config_v3_validate (up_policy u) = Inr ()
    \<and> config_v2_from_v3_compat (up_policy u) = Inr c \<and> config_v2_validate c = Inr ()
    \<and> config_v2_base c = config_v2_base v\<lparr>p1_max_candidates := 1024, p1_exploration_share_basis_points := 0\<rparr>
    \<and> p2_timeout_policy c = p2_timeout_policy v
    \<and> rf_max_total_attempts (p2_retry_failover c) = rf_max_total_attempts (p2_retry_failover v)
    \<and> rf_max_same_target_capacity_retries (p2_retry_failover c) = 0
    \<and> \<not> rf_allow_cross_capacity_domain_fallback (p2_retry_failover c)"
proof -
  let ?u = "v3_policy_of_v2 v"
  have u: "config_v3_validate ?u = Inr ()" by (rule v3_policy_of_v2_valid [OF assms])
  from v3_compat_total [OF this] obtain m where
    m: "config_v2_from_v3_compat ?u = Inr (v2_projection_of_v3 ?u m)"
      "unat m = unat (ry_max_retry_count (p3_retry ?u)) + 1"
      "config_v2_validate (v2_projection_of_v3 ?u m) = Inr ()" by blast
  have "unat m = unat (rf_max_total_attempts (p2_retry_failover v))"
    using m(2) v3_policy_of_v2_attempts [OF assms] by (simp add: unat_sub_one)
  then have "m = rf_max_total_attempts (p2_retry_failover v)" by (simp add: word_unat_eq_iff)
  with from_v2_total [OF assms] u m show ?thesis by auto
qed

lemma config_v2_default_valid: "config_v2_validate config_v2_default = Inr ()"
  by (simp add: config_v2_Inr_iff)
    (simp add: config_v2_default_def config_v2_of_v1_def config_v2_base_def config_v1_default_def
      config_v1_validate_def trim_id visible_ascii_def eq_ignore_ascii_case_def to_ascii_lowercase_def
      ascii_lowercase_def)

theorem policy_upgrade_roundtrip_witness:
  "\<exists>u. config_v3_from_v2 config_v2_default = Inr u \<and> config_v3_validate (up_policy u) = Inr ()"
  using policy_upgrade_roundtrip [OF config_v2_default_valid] by blast

text \<open>
  A validated timeout policy compiles to millisecond durations within the documented hard
  limits, and the precommit timeout never exceeds the buffered execution timeout after the
  floating-point conversion either.
\<close>
theorem timeout_millis_bounds:
  assumes "timeout_validate t = Inr ()"
  shows "1000 \<le> connect_millis t \<and> connect_millis t \<le> 120000
    \<and> 1000 \<le> first_byte_millis t \<and> first_byte_millis t \<le> 300000
    \<and> 1000 \<le> precommit_millis t \<and> precommit_millis t \<le> 600000
    \<and> 1000 \<le> buffered_execution_millis t \<and> buffered_execution_millis t \<le> 1800000
    \<and> 1000 \<le> stream_idle_millis t \<and> stream_idle_millis t \<le> 600000
    \<and> precommit_millis t \<le> buffered_execution_millis t"
proof -
  have range: "f64_in_range (F64_Num 1) (F64_Num (of_nat 120)) (to_connect_seconds t)"
    "f64_in_range (F64_Num 1) (F64_Num (of_nat 300)) (to_first_byte_seconds t)"
    "f64_in_range (F64_Num 1) (F64_Num (of_nat 600)) (to_precommit_seconds t)"
    "f64_in_range (F64_Num 1) (F64_Num (of_nat 1800)) (to_buffered_execution_seconds t)"
    "f64_in_range (F64_Num 1) (F64_Num (of_nat 600)) (to_stream_idle_seconds t)"
    and order: "\<not> f64_lt (to_buffered_execution_seconds t) (to_precommit_seconds t)"
    using assms by (simp_all add: timeout_Inr_iff timeout_fields_def)
  from range(3,4) obtain p q where
    "to_precommit_seconds t = F64_Num p" "to_buffered_execution_seconds t = F64_Num q" "1 \<le> p"
    by (cases "to_precommit_seconds t"; cases "to_buffered_execution_seconds t") (auto simp: f64_in_range_def)
  with order have "precommit_millis t \<le> buffered_execution_millis t"
    using seconds_to_millis_mono [of p q]
    by (auto simp: precommit_millis_def buffered_execution_millis_def f64_lt_def not_le)
  then show ?thesis
    using millis_range [OF range(1)] millis_range [OF range(2)] millis_range [OF range(3)]
      millis_range [OF range(4)] millis_range [OF range(5)]
    by (simp add: connect_millis_def first_byte_millis_def precommit_millis_def
        buffered_execution_millis_def stream_idle_millis_def)
qed

theorem timeout_millis_bounds_witness: "precommit_millis timeout_default \<le> buffered_execution_millis timeout_default"
  using timeout_millis_bounds [OF timeout_default_ok] by blast

text \<open>
  A manual proxy without an address. The validator trims the proxy mode when it checks that
  the mode is known, but not when it checks that the manual mode has an address, so the mode
  \<^verbatim>\<open>" manual "\<close> without a URL is accepted while \<^verbatim>\<open>"manual"\<close> without a URL is rejected.
\<close>
theorem untrimmed_manual_proxy_accepted:
  "config_v1_validate (config_v1_default\<lparr>p1_outbound_proxy_mode := '' manual ''\<rparr>) = Inr ()
   \<and> config_v1_validate (config_v1_default\<lparr>p1_outbound_proxy_mode := ''manual''\<rparr>)
       = Inl ''invalid routing policy''"
proof -
  have "trim '' manual '' = ''manual''"
    using trim_end_space [of "''manual''"]
    by (simp add: trim_def trim_start_space trim_start_id trim_end_id visible_ascii_def)
  then show ?thesis
    by (simp add: config_v1_validate_def config_v1_default_def eq_ignore_ascii_case_def
        to_ascii_lowercase_def ascii_lowercase_def trim_id visible_ascii_def)
qed

text \<open>
  the version 2 compiler never panics, and on a valid configuration with a policy identity it
  succeeds exactly when the protection window rounds to at least one millisecond. Validation only
  asks for a positive window, so a valid policy with a window below half a millisecond is
  rejected by the compiler.
\<close>
theorem compile_config_v2_window:
  assumes "config_v2_validate c = Inr ()" and "srev \<noteq> 0" and "pv \<noteq> []" and "sv \<noteq> []"
  shows "\<exists>r. compile_config_v2 c srev pv sv = Done r
    \<and> ((\<exists>k. r = Inr k) \<longleftrightarrow> 1 \<le> window_millis (p2_protection_profile c))"
proof -
  let ?p = "p2_protection_profile c"
  have p: "protection_validate ?p = Inr ()" and v: "p2_version c = 2"
    using assms(1) by (simp_all add: config_v2_Inr_iff)
  have "(\<exists>k. hp_from_policy_config ?p = Inr k) \<longleftrightarrow> 1 \<le> window_millis ?p"
    by (rule hp_from_policy_config_Inr [OF p])
  moreover obtain b where "budget_from_policy srev (p2_retry_failover c) = Inr b"
    using budget_from_policy_valid [of "p2_retry_failover c" srev] assms by (auto simp: config_v2_Inr_iff)
  ultimately show ?thesis
    using assms v by (cases "hp_from_policy_config ?p") (auto simp: compile_config_v2_def expect_bp_v2)
qed

theorem compile_config_v2_window_witness:
  "\<exists>e. compile_config_v2 (config_v2_default\<lparr>p2_protection_profile := protection_default\<lparr>pp_window_seconds := F64_Num (1 / 4096)\<rparr>\<rparr>)
     1 ''v'' ''s'' = Done (Inl e)"
proof -
  let ?p = "protection_default\<lparr>pp_window_seconds := F64_Num (1 / 4096)\<rparr>"
  let ?c = "config_v2_default\<lparr>p2_protection_profile := ?p\<rparr>"
  have "f64_in_range f64_MIN_POSITIVE (F64_Num 86400) (F64_Num (1 / 4096))"
    using f64_MIN_POSITIVE_small by (simp add: f64_in_range_def)
  then have "protection_validate ?p = Inr ()"
    by (simp add: protection_Inr_iff protection_default_def)
  then have "config_v2_validate ?c = Inr ()"
    using config_v2_default_valid by (simp add: config_v2_Inr_iff config_v2_base_def)
  moreover have "window_millis (p2_protection_profile ?c) = 0" by (simp add: window_millis_tiny)
  ultimately show ?thesis
    using compile_config_v2_window [of ?c 1 "''v''" "''s''"] by (auto simp: not_less) (metis sum.exhaust)
qed

text \<open>
  Every old strategy name maps to a valid version 1 preset, and the six presets are pairwise
  different, so the migration does not merge two strategies.
\<close>
theorem legacy_mapping_valid_and_distinct:
  "config_v1_validate (lm_preset (legacy_policy_mapping p)) = Inr ()
   \<and> (lm_preset (legacy_policy_mapping p) = lm_preset (legacy_policy_mapping q) \<longleftrightarrow> p = q)"
proof
  show "config_v1_validate (lm_preset (legacy_policy_mapping p)) = Inr ()"
    by (cases p) (simp_all add: legacy_policy_mapping_def with_weights_def config_v1_default_def
        config_v1_validate_def trim_id visible_ascii_def eq_ignore_ascii_case_def
        to_ascii_lowercase_def ascii_lowercase_def)
  show "lm_preset (legacy_policy_mapping p) = lm_preset (legacy_policy_mapping q) \<longleftrightarrow> p = q"
    by (cases p; cases q) (simp_all add: legacy_policy_mapping_def with_weights_def config_v1_default_def)
qed

end
