(* ===== verification/ModelVariant.thy ===== *)
theory ModelVariant
  imports RustString
begin

text \<open>
  The model variants that the resolver (\<^verbatim>\<open>model_mapping/resolver.rs\<close>) hands to the planner, and
  the identity by which the planner, the admission and the trace tell them apart.
\<close>

datatype EndpointKind = EK_ChatCompletions | EK_Responses | EK_Embeddings | EK_Models | EK_Usage

fun endpoint_debug :: "EndpointKind \<Rightarrow> string" where
  "endpoint_debug EK_ChatCompletions = ''ChatCompletions''"
| "endpoint_debug EK_Responses = ''Responses''"
| "endpoint_debug EK_Embeddings = ''Embeddings''"
| "endpoint_debug EK_Models = ''Models''"
| "endpoint_debug EK_Usage = ''Usage''"

record CandidateModelVariant =
  mv_station_key_id :: string
  mv_station_id :: string
  mv_upstream_model :: string
  mv_target_rank :: u16
  mv_binding_revision :: "u64 option"
  mv_model_resolution_fence :: string
  mv_endpoint :: EndpointKind
  mv_credential_revision :: u64
  mv_endpoint_revision :: u64

definition unit_separator :: char where
  "unit_separator = byte 31"

definition identity_key :: "CandidateModelVariant \<Rightarrow> string" where
  "identity_key v =
     mv_station_key_id v @ [unit_separator] @ mv_upstream_model v @ [unit_separator]
     @ endpoint_debug (mv_endpoint v) @ [unit_separator]
     @ show_nat (unat (mv_credential_revision v)) @ [unit_separator]
     @ show_nat (unat (mv_endpoint_revision v)) @ [unit_separator] @ mv_model_resolution_fence v"

datatype FallbackTrigger = NoEligibleTarget | RetryExhaustedBeforeOutput

definition same_variant :: "CandidateModelVariant \<Rightarrow> CandidateModelVariant \<Rightarrow> bool" where
  "same_variant l r \<longleftrightarrow>
     mv_station_key_id l = mv_station_key_id r \<and> mv_upstream_model l = mv_upstream_model r \<and>
     mv_endpoint l = mv_endpoint r \<and> mv_credential_revision l = mv_credential_revision r \<and>
     mv_endpoint_revision l = mv_endpoint_revision r \<and>
     mv_model_resolution_fence l = mv_model_resolution_fence r"

section \<open>Identity keys\<close>

lemma separated:
  assumes "unit_separator \<notin> set a" "unit_separator \<notin> set b" "a @ [unit_separator] @ s = b @ [unit_separator] @ t"
  shows "a = b \<and> s = t"
proof -
  have "takeWhile (\<lambda>c. c \<noteq> unit_separator) (a @ unit_separator # s) = a" "takeWhile (\<lambda>c. c \<noteq> unit_separator) (b @ unit_separator # t) = b"
    using assms(1,2) by (auto simp: takeWhile_append)
  then show ?thesis using assms(3) by auto
qed

lemma show_nat_no_separator: "unit_separator \<notin> set (show_nat n)"
  using show_nat_digits [of unit_separator n] by (auto simp: unit_separator_def byte_def of_char_of)

lemma endpoint_debug_no_separator: "unit_separator \<notin> set (endpoint_debug e)"
  by (cases e) (simp_all add: unit_separator_def byte_def char_of_def bit_iff_odd)

lemma endpoint_debug_inject: "endpoint_debug a = endpoint_debug b \<longleftrightarrow> a = b"
  by (cases a; cases b) simp_all

text \<open>
  The identity key is exact: for key identifiers and model names without the separator (a control
  character) it agrees with the relation by which the resolver deduplicates variants.
\<close>

lemma identity_key_exact:
  assumes "unit_separator \<notin> set (mv_station_key_id v)" "unit_separator \<notin> set (mv_upstream_model v)"
    and "unit_separator \<notin> set (mv_station_key_id w)" "unit_separator \<notin> set (mv_upstream_model w)"
  shows "identity_key v = identity_key w \<longleftrightarrow> same_variant v w"
proof
  assume "identity_key v = identity_key w"
  then have "mv_station_key_id v = mv_station_key_id w \<and> mv_upstream_model v = mv_upstream_model w \<and>
      endpoint_debug (mv_endpoint v) = endpoint_debug (mv_endpoint w) \<and>
      show_nat (unat (mv_credential_revision v)) = show_nat (unat (mv_credential_revision w)) \<and>
      show_nat (unat (mv_endpoint_revision v)) = show_nat (unat (mv_endpoint_revision w)) \<and>
      mv_model_resolution_fence v = mv_model_resolution_fence w"
    unfolding identity_key_def
    using assms separated show_nat_no_separator endpoint_debug_no_separator by metis
  then show "same_variant v w"
    by (simp add: same_variant_def endpoint_debug_inject word_unat_eq_iff)
qed (simp add: same_variant_def identity_key_def)

end
