(* ===== verification/Snapshot.thy ===== *)
theory Snapshot
  imports Factors PolicyCompile ModelVariant
begin

text \<open>
  The immutable planning snapshot (\<^verbatim>\<open>routing_engine/planning_snapshot.rs\<close>,
  \<^verbatim>\<open>candidate_plan.rs\<close>). \<open>snapshot_validate\<close> is the gate in front of the planner.
\<close>

datatype RoutingCostBasis = ExactPrice | MultiplierProxy | Unpriced | NotApplicable

record RoutePlanPricingSnapshot =
  pr_basis :: RoutingCostBasis
  pr_rate_multiplier :: "f64 option"
  pr_currency :: "string option"
  pr_unit :: "string option"
  pr_estimated_input_price :: "f64 option"
  pr_estimated_output_price :: "f64 option"
  pr_estimated_cache_creation_price :: "f64 option"
  pr_estimated_cache_read_price :: "f64 option"
  pr_status_label :: string

definition pricing_unpriced :: "string \<Rightarrow> RoutePlanPricingSnapshot" where
  "pricing_unpriced label = \<lparr>pr_basis = Unpriced, pr_rate_multiplier = None, pr_currency = None,
     pr_unit = None, pr_estimated_input_price = None, pr_estimated_output_price = None,
     pr_estimated_cache_creation_price = None, pr_estimated_cache_read_price = None,
     pr_status_label = label\<rparr>"

record CandidateSnapshot =
  cs_station_key_id :: string
  cs_station_id :: string
  cs_endpoint_revision :: i64
  cs_credential_revision :: i64
  cs_account_revision :: i64
  cs_group_binding_id :: "string option"
  cs_group_revision :: "i64 option"
  cs_resolved_upstream_model :: "string option"
  cs_model_alias_revision :: i64
  cs_model_variants :: "CandidateModelVariant list"
  cs_model_variant_pricing :: "(string \<times> RoutePlanPricingSnapshot) list"
  cs_credential_available :: bool
  cs_hard_eligible :: bool
  cs_backup_only :: bool
  cs_depleted :: bool
  cs_capability_basis_points :: u16
  cs_quality_available :: bool
  cs_reliability_basis_points :: u16
  cs_responsiveness_basis_points :: u16
  cs_cost_basis_points :: "u16 option"
  cs_pricing :: RoutePlanPricingSnapshot
  cs_preference_basis_points :: u16
  cs_failure_domains :: "string list"

record RuntimeOverlaySnapshot =
  ro_runtime_instance_id :: string
  ro_runtime_revision :: u64
  ro_candidate_set_revision :: u64
  ro_in_flight :: u32
  ro_max_concurrency :: u32
  ro_affinity_station_key_id :: "string option"

record PlanningSnapshot =
  ps_snapshot_id :: string
  ps_durable_revision :: u64
  ps_configured_key_count :: nat
  ps_capability_match_count :: nat
  ps_candidate_cap_count :: nat
  ps_routing_runtime_generation_id :: "string option"
  ps_routing_generation_fence_revision :: u64
  ps_routing_policy_revision :: u64
  ps_routing_quality_revision :: u64
  ps_routing_health_revision :: u64
  ps_quality_projection_backlog :: u64
  ps_quality_projection_lag_seconds :: u64
  ps_quality_stale :: bool
  ps_policy :: RoutingPolicyConfigV2
  ps_attempt_budget :: AttemptBudgetProfileV1
  ps_profile :: DispatchAlgorithmProfile
  ps_candidates :: "CandidateSnapshot list"
  ps_model_fallback_trigger :: "FallbackTrigger option"
  ps_runtime :: RuntimeOverlaySnapshot

definition MAX_OPERATIONAL_CANDIDATES :: nat where
  "MAX_OPERATIONAL_CANDIDATES = 1024"

definition some_satisfies :: "('a \<Rightarrow> bool) \<Rightarrow> 'a option \<Rightarrow> bool" where
  "some_satisfies P x = (case x of None \<Rightarrow> False | Some v \<Rightarrow> P v)"

definition candidate_invalid :: "CandidateSnapshot \<Rightarrow> bool" where
  "candidate_invalid c \<longleftrightarrow>
     cs_station_key_id c = []
   \<or> cs_station_id c = []
   \<or> cs_endpoint_revision c \<le> 0
   \<or> cs_credential_revision c \<le> 0
   \<or> cs_account_revision c \<le> 0
   \<or> some_satisfies (\<lambda>r. r \<le> 0) (cs_group_revision c)
   \<or> (cs_group_binding_id c \<noteq> None) \<noteq> (cs_group_revision c \<noteq> None)
   \<or> cs_model_alias_revision c \<le> 0
   \<or> cs_capability_basis_points c > 10000
   \<or> cs_reliability_basis_points c > 10000
   \<or> cs_responsiveness_basis_points c > 10000
   \<or> some_satisfies (\<lambda>v. v > 10000) (cs_cost_basis_points c)
   \<or> pr_status_label (cs_pricing c) = []
   \<or> list_ex (some_satisfies (\<lambda>v. \<not> f64_is_finite v \<or> f64_lt v (F64_Num 0)))
       [pr_estimated_input_price (cs_pricing c), pr_estimated_output_price (cs_pricing c)]
   \<or> cs_preference_basis_points c > 10000
   \<or> list_ex (\<lambda>v. mv_station_key_id v \<noteq> cs_station_key_id c \<or> mv_station_id v \<noteq> cs_station_id c
                 \<or> mv_upstream_model v = []) (cs_model_variants c)"

definition snapshot_validate :: "PlanningSnapshot \<Rightarrow> string + unit" where
  "snapshot_validate s =
     (if ps_snapshot_id s = []
       \<or> ps_durable_revision s = 0
       \<or> ps_routing_policy_revision s = 0
       \<or> ab_policy_revision (ps_attempt_budget s) \<noteq> ps_routing_policy_revision s
       \<or> ps_capability_match_count s > ps_configured_key_count s
       \<or> ps_candidate_cap_count s > ps_capability_match_count s
       \<or> length (ps_candidates s) > ps_candidate_cap_count s
       \<or> ps_candidate_cap_count s > MAX_OPERATIONAL_CANDIDATES
       \<or> length (ps_candidates s) > MAX_OPERATIONAL_CANDIDATES
       \<or> ro_runtime_instance_id (ps_runtime s) = []
       \<or> ro_runtime_revision (ps_runtime s) = 0
       \<or> ro_candidate_set_revision (ps_runtime s) = 0
       \<or> ro_in_flight (ps_runtime s) > ro_max_concurrency (ps_runtime s)
       \<or> (ps_routing_runtime_generation_id s \<noteq> None
           \<and> (ps_routing_quality_revision s = 0 \<or> ps_routing_health_revision s = 0))
       \<or> ps_quality_stale s \<noteq> (ps_quality_projection_backlog s > 0)
       \<or> (\<not> ps_quality_stale s \<and> ps_quality_projection_lag_seconds s > 0)
      then Inl ''invalid planning snapshot''
      else case config_v2_validate (ps_policy s) of
        Inl _ \<Rightarrow> Inl ''invalid planning policy''
      | Inr _ \<Rightarrow> rbind (profile_validate (ps_profile s)) (\<lambda>_.
          if list_ex candidate_invalid (ps_candidates s)
          then Inl ''planning snapshot contains invalid or unavailable candidate'' else Inr ()))"

record RoutePlanCandidate =
  rc_station_key_id :: string
  rc_station_id :: string
  rc_endpoint_revision :: i64
  rc_credential_revision :: i64
  rc_account_revision :: i64
  rc_group_binding_id :: "string option"
  rc_group_revision :: "i64 option"
  rc_resolved_upstream_model :: "string option"
  rc_model_alias_revision :: i64
  rc_model_variant :: "CandidateModelVariant option"
  rc_priority :: i64
  rc_tier :: AvailabilityTier
  rc_pricing :: RoutePlanPricingSnapshot
  rc_evidence :: "(string \<times> string) list"

definition routing_identity :: "RoutePlanCandidate \<Rightarrow> string" where
  "routing_identity c =
     (case rc_model_variant c of Some v \<Rightarrow> identity_key v | None \<Rightarrow> rc_station_key_id c)"

section \<open>What validation gives\<close>

lemma snapshot_valid_parts:
  assumes "snapshot_validate s = Inr u"
  shows "config_v2_validate (ps_policy s) = Inr ()" and "profile_validate (ps_profile s) = Inr ()"
    and "c \<in> set (ps_candidates s) \<Longrightarrow> \<not> candidate_invalid c"
  using assms by (auto simp: snapshot_validate_def rbind_Inr_iff list_ex_iff split: if_splits sum.splits)

lemma candidate_valid_scores:
  assumes "\<not> candidate_invalid c"
  shows "cs_reliability_basis_points c \<le> 10000" "cs_responsiveness_basis_points c \<le> 10000"
    "cs_preference_basis_points c \<le> 10000" "cs_cost_basis_points c = Some v \<Longrightarrow> v \<le> 10000"
    "cs_station_key_id c \<noteq> []"
  using assms by (auto simp: candidate_invalid_def some_satisfies_def not_less)

end
