(* ===== verification/Planner.thy ===== *)
theory Planner
  imports Snapshot
begin

text \<open>
  The deterministic planner (\<^verbatim>\<open>routing_engine/intelligent_planner.rs\<close>): weight
  normalisation by largest remainders, the weighted score, eligibility and tiers, the affinity
  correction and the total order in which candidates are tried. \<^verbatim>\<open>std::array\<close>s of length
  four are lists of length four; the SHA-256 digest of the commitment is a parameter.
\<close>

section \<open>Weight normalisation\<close>

text \<open>\<^verbatim>\<open>try_fold\<close> of \<^verbatim>\<open>checked_add\<close> on 64-bit numbers.\<close>

fun u64_try_sum :: "nat \<Rightarrow> nat list \<Rightarrow> nat option" where
  "u64_try_sum acc [] = Some acc"
| "u64_try_sum acc (x # xs) = Option.bind (u64_checked_add acc x) (\<lambda>a. u64_try_sum a xs)"

text \<open>The elements at the available positions.\<close>

definition available_only :: "'a list \<Rightarrow> bool list \<Rightarrow> 'a list" where
  "available_only xs available = map fst (filter snd (zip xs available))"

fun allocate ::
  "nat \<Rightarrow> u16 list \<Rightarrow> bool list \<Rightarrow> nat list \<Rightarrow> u16 list \<times> nat list \<times> nat \<Rightarrow> (u16 list \<times> nat list \<times> nat) option"
  where
  "allocate weight_sum configured available [] st = Some st"
| "allocate weight_sum configured available (i # is) (normalized, remainders, allocated) =
     (if \<not> available ! i \<or> configured ! i = 0
      then allocate weight_sum configured available is (normalized, remainders, allocated)
      else Option.bind (u64_checked_mul (unat (configured ! i)) 10000) (\<lambda>scaled.
        let quotient = scaled div weight_sum in
        Option.bind (u16_try_from quotient) (\<lambda>q.
        Option.bind (u64_checked_add allocated quotient) (\<lambda>allocated'.
          allocate weight_sum configured available is
            (normalized[i := q], remainders[i := scaled mod weight_sum], allocated')))))"

text \<open>
  \<^verbatim>\<open>Iterator::max_by\<close>: \<open>gt a b\<close> is the comparator's answer \<^verbatim>\<open>Greater\<close>; otherwise the
  later element is kept.
\<close>

definition max_by :: "('a \<Rightarrow> 'a \<Rightarrow> bool) \<Rightarrow> 'a list \<Rightarrow> 'a option" where
  "max_by gt xs = (case xs of [] \<Rightarrow> None
     | y # ys \<Rightarrow> Some (foldl (\<lambda>best x. if gt best x then best else x) y ys))"

definition remainder_greater :: "nat list \<Rightarrow> nat \<Rightarrow> nat \<Rightarrow> bool" where
  "remainder_greater remainders l r \<longleftrightarrow>
     remainders ! l > remainders ! r \<or> (remainders ! l = remainders ! r \<and> r > l)"

fun award_remainders ::
  "nat \<Rightarrow> u16 list \<Rightarrow> bool list \<Rightarrow> nat list \<Rightarrow> u16 list \<Rightarrow> bool list \<Rightarrow> u16 list option" where
  "award_remainders 0 configured available remainders normalized awarded = Some normalized"
| "award_remainders (Suc units) configured available remainders normalized awarded =
     Option.bind
       (max_by (remainder_greater remainders)
         (filter (\<lambda>i. available ! i \<and> configured ! i > 0 \<and> \<not> awarded ! i) [0..<4]))
       (\<lambda>i. Option.bind (checked_add (normalized ! i) 1) (\<lambda>v.
         award_remainders units configured available remainders (normalized[i := v]) (awarded[i := True])))"

definition normalized_available_weights :: "u16 list \<Rightarrow> bool list \<Rightarrow> u16 list option" where
  "normalized_available_weights configured available =
     Option.bind (u64_try_sum 0 (map unat (available_only configured available))) (\<lambda>weight_sum.
       if weight_sum = 0 then Some (replicate 4 0)
       else Option.bind
         (allocate weight_sum configured available [0..<4] (replicate 4 0, replicate 4 0, 0))
         (\<lambda>(normalized, remainders, allocated).
           Option.bind (u64_checked_sub 10000 allocated) (\<lambda>remainder_units.
             award_remainders remainder_units configured available remainders normalized
               (replicate 4 False))))"

section \<open>Scores\<close>

record FactorContribution =
  fc_weight :: BasisPoints
  fc_score :: BasisPoints
  fc_contribution :: BasisPoints

definition factor_contribution :: "u16 \<Rightarrow> u16 \<Rightarrow> FactorContribution run" where
  "factor_contribution w sc =
     run_bind (expect ''normalized weight'' (bp_new w)) (\<lambda>weight.
     run_bind (expect ''validated snapshot'' (bp_new sc)) (\<lambda>score.
       let contribution_value = (unat (bp_get weight) * unat (bp_get score) + 5000) div 10000;
           contribution = (case bp_new (of_nat (min contribution_value 10000)) of
             None \<Rightarrow> bp_ZERO | Some b \<Rightarrow> b)
       in Done \<lparr>fc_weight = weight, fc_score = score, fc_contribution = contribution\<rparr>))"

definition option_or :: "'a option \<Rightarrow> 'a option \<Rightarrow> 'a option" where
  "option_or a b = (case a of None \<Rightarrow> b | Some _ \<Rightarrow> a)"

definition candidate_cost_basis ::
  "CandidateSnapshot \<Rightarrow> u16 option \<Rightarrow> f64 option \<Rightarrow> u16 option" where
  "candidate_cost_basis c cost_basis_override cost_reference_multiplier =
     option_or (option_or cost_basis_override
       (case (pr_rate_multiplier (cs_pricing c), cost_reference_multiplier) of
          (Some multiplier, Some reference) \<Rightarrow> cost_efficiency_from_multiplier multiplier reference
        | _ \<Rightarrow> None))
       (cs_cost_basis_points c)"

definition factor_scores :: "CandidateSnapshot \<Rightarrow> BasisPoints option \<Rightarrow> u16 list" where
  "factor_scores c cost =
     [cs_reliability_basis_points c, cs_responsiveness_basis_points c,
      (case cost of None \<Rightarrow> 0 | Some b \<Rightarrow> bp_get b), cs_preference_basis_points c]"

definition factor_weights :: "RoutingPolicyConfigV2 \<Rightarrow> u16 list" where
  "factor_weights p =
     [p2_reliability_weight p, p2_responsiveness_weight p, p2_cost_weight p, p2_preference_weight p]"

definition factor_available :: "CandidateSnapshot \<Rightarrow> BasisPoints option \<Rightarrow> bool list" where
  "factor_available c cost = [cs_quality_available c, cs_quality_available c, cost \<noteq> None, True]"

definition weighted_total :: "u16 list \<Rightarrow> u16 list \<Rightarrow> bool list \<Rightarrow> BasisPoints option" where
  "weighted_total scores weights available =
     Option.bind (u64_try_sum 0 (map unat (available_only weights available))) (\<lambda>configured_weight_sum.
       if configured_weight_sum = 0 then Some bp_ZERO
       else Option.bind
         (u64_try_sum 0 (map (\<lambda>(s, w). unat s * unat w) (available_only (zip scores weights) available)))
         (\<lambda>numerator.
           Option.bind (u64_checked_add numerator (configured_weight_sum div 2)) (\<lambda>n.
           Option.bind (u64_checked_div n configured_weight_sum) (\<lambda>rounded.
           Option.bind (u16_try_from (min rounded 10000)) bp_new))))"

definition weighted_score_components ::
  "CandidateSnapshot \<Rightarrow> RoutingPolicyConfigV2 \<Rightarrow> u16 option \<Rightarrow> f64 option
    \<Rightarrow> (BasisPoints \<times> FactorContribution list) option run" where
  "weighted_score_components c policy cost_basis_override cost_reference_multiplier =
     (let cost = cost_score (candidate_cost_basis c cost_basis_override cost_reference_multiplier);
          scores = factor_scores c cost;
          weights = factor_weights policy;
          available = factor_available c cost
      in case normalized_available_weights weights available of
           None \<Rightarrow> Done None
         | Some effective_weights \<Rightarrow>
           (case weighted_total scores weights available of
              None \<Rightarrow> Done None
            | Some score_total \<Rightarrow>
                run_bind
                  (run_map (\<lambda>i. factor_contribution (effective_weights ! i) (scores ! i)) [0..<4])
                  (\<lambda>contributions. Done (Some (score_total, contributions)))))"

record CandidateScoreBreakdown =
  sb_total :: u16
  sb_factors :: "FactorContribution list"

definition candidate_score_breakdown_with_cost_basis ::
  "CandidateSnapshot \<Rightarrow> RoutingPolicyConfigV2 \<Rightarrow> u16 option \<Rightarrow> CandidateScoreBreakdown option run" where
  "candidate_score_breakdown_with_cost_basis c policy cost_basis_override =
     run_bind (weighted_score_components c policy cost_basis_override None) (\<lambda>r.
       Done (map_option (\<lambda>(score, factors). \<lparr>sb_total = bp_get score, sb_factors = factors\<rparr>) r))"

section \<open>Planned candidates\<close>

record PlannedCandidate =
  pc_station_key_id :: string
  pc_lifecycle_revision :: i64
  pc_routing_identity :: string
  pc_target_rank :: u16
  pc_variant :: "CandidateModelVariant option"
  pc_tier :: AvailabilityTier
  pc_base_utility :: BasisPoints
  pc_utility :: BasisPoints
  pc_affinity_bonus :: BasisPoints
  pc_affinity_applied :: bool
  pc_contributions :: "FactorContribution list"

definition planned_tier :: "AvailabilityTier \<Rightarrow> bool \<Rightarrow> AvailabilityTier" where
  "planned_tier tier backup_only =
     (case (tier, backup_only) of
        (DepletedEmergency, _) \<Rightarrow> DepletedEmergency
      | (_, True) \<Rightarrow> ConfiguredBackup
      | (tier, False) \<Rightarrow> tier)"

definition planned_candidate ::
  "CandidateSnapshot \<Rightarrow> CandidateModelVariant option \<Rightarrow> RoutingPolicyConfigV2 \<Rightarrow> f64 option
    \<Rightarrow> PlannedCandidate option run" where
  "planned_candidate c variant policy cost_reference_multiplier =
     (if \<not> cs_hard_eligible c then Done None
      else case classify_tier (cs_credential_available c) True (cs_depleted c) (p2_allow_depleted_fallback policy) of
        None \<Rightarrow> Done None
      | Some tier0 \<Rightarrow>
        let tier = planned_tier tier0 (cs_backup_only c) in
        if cs_capability_basis_points c = 0 then Done None
        else run_bind (weighted_score_components c policy None cost_reference_multiplier) (\<lambda>r.
          case r of
            None \<Rightarrow> Done None
          | Some (score_total, contributions) \<Rightarrow> Done (Some
              \<lparr>pc_station_key_id = cs_station_key_id c,
               pc_lifecycle_revision = cs_credential_revision c,
               pc_routing_identity = (case variant of Some v \<Rightarrow> identity_key v | None \<Rightarrow> cs_station_key_id c),
               pc_target_rank = (case variant of Some v \<Rightarrow> mv_target_rank v | None \<Rightarrow> 0),
               pc_variant = variant, pc_tier = tier,
               pc_base_utility = score_total, pc_utility = score_total,
               pc_affinity_bonus = bp_ZERO, pc_affinity_applied = False,
               pc_contributions = contributions\<rparr>)))"

section \<open>Affinity correction\<close>

definition in_layer :: "u16 \<Rightarrow> AvailabilityTier \<Rightarrow> PlannedCandidate \<Rightarrow> bool" where
  "in_layer rank tier c \<longleftrightarrow> pc_target_rank c = rank \<and> pc_tier c = tier"

definition affinity_boost :: "DispatchAlgorithmProfile \<Rightarrow> PlannedCandidate \<Rightarrow> PlannedCandidate" where
  "affinity_boost profile c =
     (let bonus_value = min (dp_affinity_bonus_cap_basis_points profile)
            (sat_sub 10000 (bp_get (pc_base_utility c)))
      in case bp_new bonus_value of
           None \<Rightarrow> c
         | Some bonus \<Rightarrow>
           (case bp_checked_add (pc_base_utility c) bonus of
              None \<Rightarrow> c
            | Some effective \<Rightarrow> c\<lparr>pc_affinity_bonus := bonus,
                pc_affinity_applied := (bonus_value > 0), pc_utility := effective\<rparr>))"

definition hysteresis_blocks ::
  "DispatchAlgorithmProfile \<Rightarrow> CandidateSnapshot \<Rightarrow> CandidateSnapshot list \<Rightarrow> bool" where
  "hysteresis_blocks profile affinity layer =
     (cs_quality_available affinity \<and>
      (let available = filter cs_quality_available layer;
           best_reliability = (case max_option (map cs_reliability_basis_points available) of
             None \<Rightarrow> cs_reliability_basis_points affinity | Some v \<Rightarrow> v);
           best_responsiveness = (case max_option (map cs_responsiveness_basis_points available) of
             None \<Rightarrow> cs_responsiveness_basis_points affinity | Some v \<Rightarrow> v);
           margin = dp_affinity_hysteresis_margin_basis_points profile
       in sat_sub best_reliability (cs_reliability_basis_points affinity) > margin
        \<or> sat_sub best_responsiveness (cs_responsiveness_basis_points affinity) > margin))"

definition snapshot_of_key :: "CandidateSnapshot list \<Rightarrow> string \<Rightarrow> CandidateSnapshot option" where
  "snapshot_of_key candidates key = find (\<lambda>c. cs_station_key_id c = key) candidates"

definition apply_affinity_correction ::
  "PlannedCandidate list \<Rightarrow> CandidateSnapshot list \<Rightarrow> RoutingPolicyConfigV2 \<Rightarrow> DispatchAlgorithmProfile
    \<Rightarrow> string option \<Rightarrow> PlannedCandidate list" where
  "apply_affinity_correction planned candidates policy profile affinity_station_key_id =
     (if \<not> p2_affinity_enabled policy then planned
      else case affinity_station_key_id of
        None \<Rightarrow> planned
      | Some key \<Rightarrow>
      (case min_option (map pc_target_rank planned) of
        None \<Rightarrow> planned
      | Some best_rank \<Rightarrow>
      (case min_option (map pc_tier (filter (\<lambda>c. pc_target_rank c = best_rank) planned)) of
        None \<Rightarrow> planned
      | Some best_tier \<Rightarrow>
        if \<not> list_ex (\<lambda>c. pc_station_key_id c = key \<and> in_layer best_rank best_tier c) planned then planned
        else (case snapshot_of_key candidates key of
          None \<Rightarrow> planned
        | Some affinity_candidate \<Rightarrow>
          let layer = List.map_filter (\<lambda>p. snapshot_of_key candidates (pc_station_key_id p))
                (filter (in_layer best_rank best_tier) planned)
          in if hysteresis_blocks profile affinity_candidate layer then planned
             else map (\<lambda>c. if pc_station_key_id c = key \<and> in_layer best_rank best_tier c
                           then affinity_boost profile c else c) planned))))"

section \<open>The plan\<close>

text \<open>
  The comparator: rank, tier, descending utility, station key, routing identity. \<open>planned_le l r\<close>
  holds when it does not answer \<^verbatim>\<open>Greater\<close>.
\<close>

definition planned_le :: "PlannedCandidate \<Rightarrow> PlannedCandidate \<Rightarrow> bool" where
  "planned_le l r \<longleftrightarrow>
     pc_target_rank l < pc_target_rank r \<or> (pc_target_rank l = pc_target_rank r \<and>
     (pc_tier l < pc_tier r \<or> (pc_tier l = pc_tier r \<and>
     (bp_get (pc_utility r) < bp_get (pc_utility l) \<or> (bp_get (pc_utility r) = bp_get (pc_utility l) \<and>
     (pc_station_key_id l < pc_station_key_id r \<or> (pc_station_key_id l = pc_station_key_id r \<and>
      pc_routing_identity l \<le> pc_routing_identity r)))))))"

record DispatchDecision =
  dd_selected_id :: string
  dd_band_size :: nat
  dd_explored :: bool
  dd_seed_commitment :: string

record RoutePlan =
  rp_snapshot_id :: string
  rp_selected_station_key_id :: string
  rp_candidates :: "PlannedCandidate list"
  rp_dispatch :: DispatchDecision

datatype PlannerError = InvalidSnapshot string | NoEligibleCandidate | RuntimeAtCapacity

definition hex_digit :: "nat \<Rightarrow> char" where
  "hex_digit d = char_of (if d < 10 then 48 + d else 87 + d)"

text \<open>\<^verbatim>\<open>format!("{byte:02x}")\<close>\<close>

definition hex_byte :: "u8 \<Rightarrow> string" where
  "hex_byte b = [hex_digit (unat b div 16), hex_digit (unat b mod 16)]"

definition candidate_variants :: "CandidateSnapshot \<Rightarrow> CandidateModelVariant option list" where
  "candidate_variants c = (if cs_model_variants c = [] then [None] else map Some (cs_model_variants c))"

definition plan_pairs :: "CandidateSnapshot list \<Rightarrow> (CandidateSnapshot \<times> CandidateModelVariant option) list" where
  "plan_pairs cs = concat (map (\<lambda>c. map (Pair c) (candidate_variants c)) cs)"

definition cost_reference :: "CandidateSnapshot list \<Rightarrow> f64 option" where
  "cost_reference cs = multiplier_median (List.map_filter (\<lambda>c. pr_rate_multiplier (cs_pricing c)) cs)"

definition planned_candidates :: "PlanningSnapshot \<Rightarrow> PlannedCandidate list run" where
  "planned_candidates s =
     run_bind (run_map (\<lambda>(c, v). planned_candidate c v (ps_policy s) (cost_reference (ps_candidates s)))
         (plan_pairs (ps_candidates s)))
       (\<lambda>os. Done (List.map_filter (\<lambda>x. x) os))"

definition select_plan ::
  "(string \<Rightarrow> u8 list) \<Rightarrow> string \<Rightarrow> PlannedCandidate list \<Rightarrow> PlannerError + RoutePlan" where
  "select_plan sha256 snapshot_id planned =
     (case planned of
        [] \<Rightarrow> Inl NoEligibleCandidate
      | first # _ \<Rightarrow>
        let best_rank = pc_target_rank first in
        (case min_option (map pc_tier (filter (\<lambda>c. pc_target_rank c = best_rank) planned)) of
           None \<Rightarrow> Inl NoEligibleCandidate
         | Some best_tier \<Rightarrow>
           (case find (in_layer best_rank best_tier) planned of
              None \<Rightarrow> Inl NoEligibleCandidate
            | Some selected \<Rightarrow>
              let dispatch = \<lparr>dd_selected_id = pc_routing_identity selected, dd_band_size = 1,
                    dd_explored = False,
                    dd_seed_commitment = concat (map hex_byte (sha256 snapshot_id))\<rparr>
              in Inr \<lparr>rp_snapshot_id = snapshot_id, rp_selected_station_key_id = dd_selected_id dispatch,
                      rp_candidates = planned, rp_dispatch = dispatch\<rparr>)))"

definition plan_snapshot ::
  "(string \<Rightarrow> u8 list) \<Rightarrow> PlanningSnapshot \<Rightarrow> (PlannerError + RoutePlan) run" where
  "plan_snapshot sha256 s =
     (case snapshot_validate s of
        Inl e \<Rightarrow> Done (Inl (InvalidSnapshot e))
      | Inr _ \<Rightarrow>
        if ro_in_flight (ps_runtime s) \<ge> ro_max_concurrency (ps_runtime s) then Done (Inl RuntimeAtCapacity)
        else run_bind (planned_candidates s) (\<lambda>planned.
          if planned = [] then Done (Inl NoEligibleCandidate)
          else Done (select_plan sha256 (ps_snapshot_id s)
            (sort_by planned_le
              (apply_affinity_correction planned (ps_candidates s) (ps_policy s) (ps_profile s)
                (ro_affinity_station_key_id (ps_runtime s)))))))"

end
