(* ===== verification/PlannerWeights.thy ===== *)
theory PlannerWeights
  imports Planner
begin

text \<open>
  Largest-remainder normalisation: \<open>normalized_available_weights\<close> always returns, its result has
  sum 10000 whenever an available weight is positive, and each entry is the exact share rounded
  down or up.
\<close>

section \<open>Checked sums\<close>

lemma u64_try_sum_eq:
  "acc + sum_list xs < 2 ^ 64 \<Longrightarrow> u64_try_sum acc xs = Some (acc + sum_list xs)"
proof (induction xs arbitrary: acc)
  case (Cons x xs)
  then have "acc + x < 2 ^ 64" by simp
  with Cons.IH [of "acc + x"] Cons.prems show ?case
    by (simp add: u64_checked_add_def add.assoc)
qed simp

lemma sum_list_mult_bound: "(\<And>x. x \<in> set xs \<Longrightarrow> f x \<le> b) \<Longrightarrow> sum_list (map f xs) \<le> length xs * (b :: nat)"
proof (induction xs)
  case (Cons x xs)
  then have "f x \<le> b" "sum_list (map f xs) \<le> length xs * b" by auto
  then show ?case by simp
qed simp

lemma length_available_only: "length (available_only xs av) \<le> length xs"
  by (simp add: available_only_def) (metis length_filter_le length_map length_zip min.bounded_iff)

lemma u16_le: "unat (w :: u16) \<le> 65535"
  using unat_bound [of w] by simp

lemma weight_sum_total:
  fixes ws :: "u16 list"
  assumes "length ws \<le> 4"
  shows "u64_try_sum 0 (map unat (available_only ws av)) = Some (sum_list (map unat (available_only ws av)))"
    and "sum_list (map unat (available_only ws av)) \<le> 262140"
proof -
  have "sum_list (map unat (available_only ws av)) \<le> length (available_only ws av) * 65535"
    by (rule sum_list_mult_bound) (rule u16_le)
  also have "\<dots> \<le> 4 * 65535"
    using length_available_only [of ws av] assms by (intro mult_le_mono1) simp
  finally show b: "sum_list (map unat (available_only ws av)) \<le> 262140" by simp
  then show "u64_try_sum 0 (map unat (available_only ws av)) = Some (sum_list (map unat (available_only ws av)))"
    using u64_try_sum_eq [of 0] by simp
qed

section \<open>Shares\<close>

definition active :: "u16 list \<Rightarrow> bool list \<Rightarrow> nat \<Rightarrow> bool" where
  "active ws av i \<longleftrightarrow> av ! i \<and> ws ! i \<noteq> 0"

definition weight_total :: "u16 list \<Rightarrow> bool list \<Rightarrow> nat" where
  "weight_total ws av = sum_list (map unat (available_only ws av))"

lemma sum_list_filter_map_if:
  "sum_list (map f (filter P xs)) = sum_list (map (\<lambda>x. if P x then f x else (0 :: nat)) xs)"
  by (induction xs) auto

lemma weight_total_index:
  assumes "length ws = 4" "length av = 4"
  shows "weight_total ws av = (\<Sum>i\<leftarrow>[0..<4]. if active ws av i then unat (ws ! i) else 0)"
proof -
  obtain a b c d where ws: "ws = [a, b, c, d]"
    using assms(1) by (auto simp: numeral_eq_Suc length_Suc_conv)
  obtain p q r s where av: "av = [p, q, r, s]"
    using assms(2) by (auto simp: numeral_eq_Suc length_Suc_conv)
  show ?thesis
    by (simp add: weight_total_def available_only_def ws av active_def upt_rec)
qed

lemma weight_le_total:
  assumes "length ws = 4" "length av = 4" "i < 4" "active ws av i"
  shows "unat (ws ! i) \<le> weight_total ws av"
proof -
  have "(if active ws av i then unat (ws ! i) else 0) \<le> (\<Sum>i\<leftarrow>[0..<4]. if active ws av i then unat (ws ! i) else 0)"
    using assms(3) by (intro member_le_sum_list) (auto intro!: image_eqI [of _ _ i])
  with assms show ?thesis by (simp add: weight_total_index)
qed

definition share :: "u16 list \<Rightarrow> bool list \<Rightarrow> nat \<Rightarrow> nat" where
  "share ws av i = (if active ws av i then unat (ws ! i) * 10000 div weight_total ws av else 0)"

definition share_rem :: "u16 list \<Rightarrow> bool list \<Rightarrow> nat \<Rightarrow> nat" where
  "share_rem ws av i = (if active ws av i then unat (ws ! i) * 10000 mod weight_total ws av else 0)"

lemma share_inactive: "\<not> active ws av i \<Longrightarrow> share ws av i = 0"
  by (simp add: share_def)

lemma share_le:
  assumes "length ws = 4" "length av = 4" "i < 4"
  shows "share ws av i \<le> 10000"
proof (cases "active ws av i")
  case True
  then have "unat (ws ! i) * 10000 div weight_total ws av \<le> weight_total ws av * 10000 div weight_total ws av"
    using weight_le_total [OF assms] by (intro div_le_mono mult_le_mono1)
  also have "\<dots> \<le> 10000" by simp
  finally show ?thesis using True by (simp add: share_def)
qed (simp add: share_def)

lemma share_identity:
  assumes "length ws = 4" "length av = 4"
  shows "(\<Sum>i\<leftarrow>[0..<4]. share ws av i) * weight_total ws av + (\<Sum>i\<leftarrow>[0..<4]. share_rem ws av i)
    = 10000 * weight_total ws av"
proof -
  let ?W = "weight_total ws av"
  have "(\<Sum>i\<leftarrow>[0..<4]. share ws av i) * ?W + (\<Sum>i\<leftarrow>[0..<4]. share_rem ws av i)
    = (\<Sum>i\<leftarrow>[0..<4]. share ws av i * ?W + share_rem ws av i)"
    by (simp add: sum_list_addf sum_list_mult_const)
  also have "\<dots> = (\<Sum>i\<leftarrow>[0..<4]. 10000 * (if active ws av i then unat (ws ! i) else 0))"
    by (intro arg_cong [where f = sum_list] map_cong) (auto simp: share_def share_rem_def mult.commute)
  also have "\<dots> = 10000 * ?W"
    by (simp add: sum_list_const_mult weight_total_index [OF assms])
  finally show ?thesis .
qed


section \<open>Allocation\<close>

lemma u16_try_from_le: "n \<le> 10000 \<Longrightarrow> u16_try_from n = Some (of_nat n) \<and> unat (of_nat n :: u16) = n"
  by (simp add: u16_try_from_def unat_of_nat_lt)

lemma allocate_spec:
  assumes "length ws = 4" "length av = 4" "distinct is" "set is \<subseteq> {..<4}"
    and "length nrm = 4" "length rems = 4" "alloc + 10000 * length is < 2 ^ 64"
  shows "\<exists>nrm' rems'. allocate (weight_total ws av) ws av is (nrm, rems, alloc)
      = Some (nrm', rems', alloc + (\<Sum>i\<leftarrow>is. share ws av i))
    \<and> length nrm' = 4 \<and> length rems' = 4
    \<and> (\<forall>j < 4. unat (nrm' ! j) = (if j \<in> set is \<and> active ws av j then share ws av j else unat (nrm ! j)))
    \<and> (\<forall>j < 4. rems' ! j = (if j \<in> set is \<and> active ws av j then share_rem ws av j else rems ! j))"
  using assms
proof (induction "is" arbitrary: nrm rems alloc)
  case Nil
  then show ?case by simp
next
  case (Cons i "is")
  show ?case
  proof (cases "active ws av i")
    case False
    then have "share ws av i = 0" by (simp add: share_def)
    with False Cons.IH [of nrm rems alloc] Cons.prems show ?thesis
      by (auto simp: active_def)
  next
    case True
    have i: "i < 4" using Cons.prems by simp
    let ?q = "share ws av i"
    have q: "?q \<le> 10000" by (rule share_le) (use Cons.prems i in auto)
    have qd: "unat (ws ! i) * 10000 div weight_total ws av = ?q"
      and rd: "unat (ws ! i) * 10000 mod weight_total ws av = share_rem ws av i"
      using True by (simp_all add: share_def share_rem_def)
    have mul: "u64_checked_mul (unat (ws ! i)) 10000 = Some (unat (ws ! i) * 10000)"
      using u16_le [of "ws ! i"] by (simp add: u64_checked_mul_def)
    have add: "u64_checked_add alloc ?q = Some (alloc + ?q)"
      using q Cons.prems(7) by (simp add: u64_checked_add_def)
    have step: "allocate (weight_total ws av) ws av (i # is) (nrm, rems, alloc)
      = allocate (weight_total ws av) ws av is (nrm[i := of_nat ?q], rems[i := share_rem ws av i], alloc + ?q)"
      using True by (simp add: active_def mul qd rd u16_try_from_le [OF q] add Let_def)
    have "alloc + ?q + 10000 * length is < 2 ^ 64" using Cons.prems(7) q by simp
    with Cons.IH [of "nrm[i := of_nat ?q]" "rems[i := share_rem ws av i]" "alloc + ?q"] Cons.prems
    obtain nrm' rems' where
      r: "allocate (weight_total ws av) ws av is (nrm[i := of_nat ?q], rems[i := share_rem ws av i], alloc + ?q)
        = Some (nrm', rems', alloc + ?q + (\<Sum>i\<leftarrow>is. share ws av i))" "length nrm' = 4" "length rems' = 4"
      and n: "\<forall>j < 4. unat (nrm' ! j) = (if j \<in> set is \<and> active ws av j then share ws av j
          else unat (nrm[i := of_nat ?q] ! j))"
      and m: "\<forall>j < 4. rems' ! j = (if j \<in> set is \<and> active ws av j then share_rem ws av j
          else rems[i := share_rem ws av i] ! j)" by auto
    have ni: "i \<notin> set is" using Cons.prems by simp
    have "\<forall>j < 4. unat (nrm' ! j) = (if j \<in> set (i # is) \<and> active ws av j then share ws av j else unat (nrm ! j))"
      using n True ni i Cons.prems(5) u16_try_from_le [OF q] by (auto simp: nth_list_update)
    moreover have "\<forall>j < 4. rems' ! j = (if j \<in> set (i # is) \<and> active ws av j then share_rem ws av j else rems ! j)"
      using m True ni i Cons.prems(6) by (auto simp: nth_list_update)
    ultimately show ?thesis using step r by (simp add: add.assoc)
  qed
qed

section \<open>Awarding the remainder\<close>

lemma max_by_mem: "max_by gt xs = Some x \<Longrightarrow> x \<in> set xs"
proof -
  have "foldl (\<lambda>best x. if gt best x then best else x) y ys \<in> set (y # ys)" for y ys
    by (induction ys arbitrary: y) (auto split: if_splits)
  then show "max_by gt xs = Some x \<Longrightarrow> x \<in> set xs"
    by (auto simp: max_by_def split: list.splits)
qed

lemma max_by_None [simp]: "max_by gt xs = None \<longleftrightarrow> xs = []"
  by (simp add: max_by_def split: list.splits)

definition pending :: "u16 list \<Rightarrow> bool list \<Rightarrow> bool list \<Rightarrow> nat list" where
  "pending ws av awarded = filter (\<lambda>i. av ! i \<and> ws ! i > 0 \<and> \<not> awarded ! i) [0..<4]"

lemma pending_award:
  assumes "i \<in> set (pending ws av awarded)" "length awarded = 4"
  shows "length (pending ws av awarded) = Suc (length (pending ws av (awarded[i := True])))"
proof -
  have i: "i < 4" "av ! i" "ws ! i > 0" "\<not> awarded ! i" using assms(1) by (auto simp: pending_def)
  have "pending ws av (awarded[i := True]) = filter (\<lambda>j. i \<noteq> j) (pending ws av awarded)"
    using assms(2) i by (auto simp: pending_def nth_list_update intro!: filter_cong)
  moreover have "distinct (pending ws av awarded)" by (simp add: pending_def)
  then have "length (filter (\<lambda>j. i \<noteq> j) (pending ws av awarded)) = length (pending ws av awarded) - 1"
    using assms(1) by (simp add: removeAll_filter_not_eq [symmetric] distinct_remove1_removeAll [symmetric]
        length_remove1)
  moreover have "length (pending ws av awarded) \<noteq> 0" using assms(1) by auto
  ultimately show ?thesis by simp
qed

lemma award_spec:
  assumes "units \<le> length (pending ws av awarded)" "length nrm = 4" "length awarded = 4"
    and "\<forall>i \<in> set (pending ws av awarded). unat (nrm ! i) \<le> 10000"
  shows "\<exists>res. award_remainders units ws av rems nrm awarded = Some res \<and> length res = 4
    \<and> sum_list (map unat res) = sum_list (map unat nrm) + units
    \<and> (\<forall>i < 4. unat (res ! i) = unat (nrm ! i)
         \<or> i \<in> set (pending ws av awarded) \<and> unat (res ! i) = unat (nrm ! i) + 1)"
  using assms
proof (induction units arbitrary: nrm awarded)
  case 0
  then show ?case by simp
next
  case (Suc units)
  then obtain i where i: "max_by (remainder_greater rems) (pending ws av awarded) = Some i"
    by (cases "max_by (remainder_greater rems) (pending ws av awarded)") auto
  have mem: "i \<in> set (pending ws av awarded)" using i by (rule max_by_mem)
  then have i4: "i < 4" by (simp add: pending_def)
  have le: "unat (nrm ! i) \<le> 10000" using mem Suc.prems(4) by blast
  then have add: "checked_add (nrm ! i) 1 = Some (nrm ! i + 1)" by (simp add: checked_add_def)
  have u: "unat (nrm ! i + 1) = unat (nrm ! i) + 1"
    using le by (simp add: unat_add_lem [THEN iffD1])
  let ?nrm = "nrm[i := nrm ! i + 1]" and ?aw = "awarded[i := True]"
  have sub: "set (pending ws av ?aw) \<subseteq> set (pending ws av awarded) - {i}"
    using i4 Suc.prems(3) by (auto simp: pending_def nth_list_update split: if_splits)
  have "units \<le> length (pending ws av ?aw)"
    using Suc.prems(1) pending_award [OF mem Suc.prems(3)] by simp
  moreover have "\<forall>j \<in> set (pending ws av ?aw). unat (?nrm ! j) \<le> 10000"
  proof
    fix j
    assume "j \<in> set (pending ws av ?aw)"
    with sub have "j \<in> set (pending ws av awarded)" "j \<noteq> i" by auto
    with Suc.prems(4) show "unat (?nrm ! j) \<le> 10000" by simp
  qed
  ultimately obtain res where r: "award_remainders units ws av rems ?nrm ?aw = Some res" "length res = 4"
      "sum_list (map unat res) = sum_list (map unat ?nrm) + units"
    and n: "\<forall>j < 4. unat (res ! j) = unat (?nrm ! j)
         \<or> j \<in> set (pending ws av ?aw) \<and> unat (res ! j) = unat (?nrm ! j) + 1"
    using Suc.IH [of ?aw ?nrm] Suc.prems(2,3) by auto
  have "sum_list (map unat ?nrm) = sum_list (map unat nrm) + 1"
    using i4 Suc.prems(2) u member_le_sum_list [of "unat (nrm ! i)" "map unat nrm"]
    by (simp add: map_update sum_list_update)
  moreover have "\<forall>j < 4. unat (res ! j) = unat (nrm ! j)
         \<or> j \<in> set (pending ws av awarded) \<and> unat (res ! j) = unat (nrm ! j) + 1"
    using n sub mem i4 u Suc.prems(2) by (auto simp: nth_list_update split: if_splits)
  moreover have "award_remainders (Suc units) ws av rems nrm awarded = Some res"
    using i add r(1) by (simp add: pending_def)
  ultimately show ?case using r(2,3) by auto
qed

section \<open>The normalised weights\<close>

lemma pending_initial: "length (pending ws av (replicate 4 False)) = (\<Sum>i\<leftarrow>[0..<4]. if active ws av i then 1 else 0)"
  by (simp add: pending_def active_def upt_rec word_gt_0)

lemma pending_initial_mem: "i \<in> set (pending ws av (replicate 4 False)) \<longleftrightarrow> i < 4 \<and> active ws av i"
  by (auto simp: pending_def active_def word_gt_0)

lemma sum_list_mono_le: "(\<And>x. x \<in> set xs \<Longrightarrow> f x \<le> (g x :: nat)) \<Longrightarrow> sum_list (map f xs) \<le> sum_list (map g xs)"
  by (induction xs) (auto intro: add_mono)

lemma remainder_units_bound:
  assumes "length ws = 4" "length av = 4" "0 < weight_total ws av"
  shows "(\<Sum>i\<leftarrow>[0..<4]. share ws av i) \<le> 10000"
    and "10000 - (\<Sum>i\<leftarrow>[0..<4]. share ws av i) \<le> length (pending ws av (replicate 4 False))"
proof -
  let ?W = "weight_total ws av" and ?S = "\<Sum>i\<leftarrow>[0..<4]. share ws av i" and ?R = "\<Sum>i\<leftarrow>[0..<4]. share_rem ws av i"
  let ?A = "\<Sum>i\<leftarrow>[0..<4]. if active ws av i then 1 else 0 :: nat"
  have id: "?S * ?W + ?R = 10000 * ?W" by (rule share_identity [OF assms(1,2)])
  then have "?S * ?W \<le> 10000 * ?W" by linarith
  then show S: "?S \<le> 10000" using assms(3) by simp
  have "?R \<le> (\<Sum>i\<leftarrow>[0..<4]. ?W * (if active ws av i then 1 else 0))"
    by (rule sum_list_mono_le) (use assms(3) in \<open>auto simp: share_rem_def intro: less_imp_le\<close>)
  also have "\<dots> = ?W * ?A" by (rule sum_list_const_mult)
  finally have "?R \<le> ?A * ?W" by (simp add: mult.commute)
  moreover have "(10000 - ?S) * ?W = ?R" using id by (simp add: diff_mult_distrib)
  ultimately have "(10000 - ?S) * ?W \<le> ?A * ?W" by simp
  then show "10000 - ?S \<le> length (pending ws av (replicate 4 False))"
    using assms(3) unfolding pending_initial by simp
qed

lemma normalized_weights_spec:
  assumes "length ws = 4" "length av = 4"
  shows "\<exists>res. normalized_available_weights ws av = Some res \<and> length res = 4
    \<and> (weight_total ws av = 0 \<longrightarrow> res = replicate 4 0)
    \<and> (0 < weight_total ws av \<longrightarrow> sum_list (map unat res) = 10000)
    \<and> (\<forall>i < 4. \<not> active ws av i \<longrightarrow> res ! i = 0)
    \<and> (\<forall>i < 4. 0 < weight_total ws av \<longrightarrow> share ws av i \<le> unat (res ! i) \<and> unat (res ! i) \<le> share ws av i + 1)"
proof -
  let ?W = "weight_total ws av" and ?S = "\<Sum>i\<leftarrow>[0..<4]. share ws av i"
  have tot: "u64_try_sum 0 (map unat (available_only ws av)) = Some ?W"
    using weight_sum_total(1) [of ws av] assms by (simp add: weight_total_def)
  show ?thesis
  proof (cases "?W = 0")
    case True
    then show ?thesis using tot by (simp add: normalized_available_weights_def)
  next
    case False
    obtain nrm rems where al: "allocate ?W ws av [0..<4] (replicate 4 0, replicate 4 0, 0) = Some (nrm, rems, ?S)"
      and len: "length nrm = 4"
      and n: "\<forall>j < 4. unat (nrm ! j) = share ws av j"
    proof -
      have "set [0..<4] \<subseteq> {..<4 :: nat}" by auto
      then obtain nrm rems where "allocate ?W ws av [0..<4] (replicate 4 0, replicate 4 0, 0) = Some (nrm, rems, 0 + ?S)"
        "length nrm = 4"
        "\<forall>j < 4. unat (nrm ! j) = (if j \<in> set [0..<4] \<and> active ws av j then share ws av j else unat (replicate 4 0 ! j :: u16))"
        using allocate_spec [OF assms, of "[0..<4]" "replicate 4 0" "replicate 4 0" 0] by auto
      then show ?thesis using that [of nrm rems] by (auto simp: share_inactive)
    qed
    have "map unat nrm = map (share ws av) [0..<4]"
      using n len by (intro nth_equalityI) auto
    then have sum0: "sum_list (map unat nrm) = ?S" by simp
    from False have W: "0 < ?W" by simp
    have "\<forall>i \<in> set (pending ws av (replicate 4 False)). unat (nrm ! i) \<le> 10000"
      using n share_le [OF assms] by (auto simp: pending_initial_mem)
    from award_spec [OF remainder_units_bound(2) [OF assms W] len _ this, of rems]
    obtain res where res: "award_remainders (10000 - ?S) ws av rems nrm (replicate 4 False) = Some res"
      "length res = 4" "sum_list (map unat res) = ?S + (10000 - ?S)"
      and r: "\<forall>i < 4. unat (res ! i) = unat (nrm ! i)
         \<or> i \<in> set (pending ws av (replicate 4 False)) \<and> unat (res ! i) = unat (nrm ! i) + 1"
      using sum0 by auto
    have "u64_checked_sub 10000 ?S = Some (10000 - ?S)"
      using remainder_units_bound(1) [OF assms W] by (simp add: u64_checked_sub_def)
    then have "normalized_available_weights ws av = Some res"
      using tot al res(1) False by (simp add: normalized_available_weights_def)
    moreover have "\<forall>i < 4. \<not> active ws av i \<longrightarrow> res ! i = 0"
      using r n by (auto simp: share_def pending_initial_mem unat_eq_0)
    moreover have "\<forall>i < 4. share ws av i \<le> unat (res ! i) \<and> unat (res ! i) \<le> share ws av i + 1"
      using r n by (metis le_add1 order_refl)
    ultimately show ?thesis
      using res(2,3) remainder_units_bound(1) [OF assms W] False by auto
  qed
qed

lemma normalized_weight_le:
  assumes "length ws = 4" "length av = 4" "normalized_available_weights ws av = Some res" "i < 4"
  shows "res ! i \<le> 10000"
proof -
  obtain res' where r: "normalized_available_weights ws av = Some res'" "length res' = 4"
    "weight_total ws av = 0 \<longrightarrow> res' = replicate 4 0"
    "0 < weight_total ws av \<longrightarrow> sum_list (map unat res') = 10000"
    using normalized_weights_spec [OF assms(1,2)] that by (elim exE conjE)
  with assms(3) have "res' = res" by simp
  have "unat (res ! i) \<le> 10000"
  proof (cases "weight_total ws av = 0")
    case True
    with r \<open>res' = res\<close> assms(4) show ?thesis by simp
  next
    case False
    have "unat (res ! i) \<le> sum_list (map unat res)"
      using r(2) \<open>res' = res\<close> assms(4) by (intro member_le_sum_list) auto
    with False r \<open>res' = res\<close> show ?thesis by simp
  qed
  then show ?thesis by (simp add: word_le_nat_alt)
qed

section \<open>The weighted total\<close>

lemma rounded_mean_bounds:
  fixes N W m M :: nat
  assumes "0 < W" "m * W \<le> N" "N \<le> M * W"
  shows "m \<le> (N + W div 2) div W \<and> (N + W div 2) div W \<le> M"
proof
  have "m * W \<le> N + W div 2" using assms(2) by linarith
  then show "m \<le> (N + W div 2) div W" using assms(1) by (simp add: less_eq_div_iff_mult_less_eq)
  have "N + W div 2 < (M + 1) * W" using assms(1,3) by (simp add: algebra_simps)
  then show "(N + W div 2) div W \<le> M" using assms(1) by (simp add: div_less_iff_less_mult less_Suc_eq_le [symmetric] del: less_Suc_eq_le)
qed

lemma sum_list_weighted_bounds:
  fixes L :: "(nat \<times> nat) list"
  assumes "\<forall>(s, w) \<in> set L. m \<le> s \<and> s \<le> M"
  shows "m * sum_list (map snd L) \<le> sum_list (map (\<lambda>(s, w). s * w) L)
       \<and> sum_list (map (\<lambda>(s, w). s * w) L) \<le> M * sum_list (map snd L)"
  using assms by (induction L) (auto simp: algebra_simps intro: add_mono)

lemma available_only_zip_snd:
  "length xs = length ys \<Longrightarrow> map snd (available_only (zip xs ys) av) = available_only ys av"
proof (induction xs ys arbitrary: av rule: list_induct2)
  case Nil
  then show ?case by (simp add: available_only_def)
next
  case (Cons x xs y ys)
  then show ?case by (cases av) (auto simp: available_only_def)
qed

lemma weighted_total_spec:
  fixes scores weights :: "u16 list" and av :: "bool list"
  assumes "length scores = 4" "length weights = 4" "\<forall>s \<in> set scores. s \<le> 10000"
  defines "L \<equiv> available_only (zip scores weights) av"
  shows "\<exists>b. weighted_total scores weights av = Some b \<and> bp_ok b
    \<and> (\<forall>m M. 0 < weight_total weights av \<longrightarrow> (\<forall>(s, w) \<in> set L. m \<le> unat s \<and> unat s \<le> M) \<longrightarrow>
         m \<le> unat (bp_get b) \<and> unat (bp_get b) \<le> M)
    \<and> (0 < weight_total weights av \<longrightarrow> unat (bp_get b) =
         (sum_list (map (\<lambda>(s, w). unat s * unat w) L) + weight_total weights av div 2)
           div weight_total weights av)"
proof (cases "weight_total weights av = 0")
  case True
  then show ?thesis
    using weight_sum_total(1) [of weights av] assms(2)
    by (simp add: weighted_total_def weight_total_def [symmetric] bp_ok_def bp_ZERO_def)
next
  case False
  let ?W = "weight_total weights av"
  let ?L = "map (\<lambda>(s, w). (unat s, unat w)) L"
  let ?N = "sum_list (map (\<lambda>(s, w). unat s * unat w) L)"
  have W: "0 < ?W" using False by simp
  have sumw: "u64_try_sum 0 (map unat (available_only weights av)) = Some ?W"
    and Wb: "?W \<le> 262140"
    using weight_sum_total [of weights av] assms(2) by (auto simp: weight_total_def)
  have snd: "sum_list (map snd ?L) = ?W"
    using available_only_zip_snd [of scores weights av] assms(1,2)
    by (simp add: L_def weight_total_def o_def case_prod_unfold flip: map_map [of unat snd, unfolded o_def])
  have prod: "sum_list (map (\<lambda>(s, w). s * w) ?L) = ?N"
    by (simp add: o_def case_prod_unfold)
  have memL: "(s, w) \<in> set L \<Longrightarrow> s \<in> set scores" for s w
    by (auto simp: L_def available_only_def dest!: set_zip_leftD in_set_zipE)
  have bounds: "m * ?W \<le> ?N \<and> ?N \<le> M * ?W" if "\<forall>(s, w) \<in> set L. m \<le> unat s \<and> unat s \<le> M" for m M
    using sum_list_weighted_bounds [of ?L m M] that unfolding snd prod by fastforce
  have all: "\<forall>(s, w) \<in> set L. 0 \<le> unat s \<and> unat s \<le> 10000"
    using memL assms(3) by (auto simp: word_le_nat_alt)
  have N: "?N \<le> 10000 * ?W" using bounds [OF all] by simp
  let ?r = "(?N + ?W div 2) div ?W"
  have r: "?r \<le> 10000" using rounded_mean_bounds [OF W] bounds [OF all] by blast
  have "u64_try_sum 0 (map (\<lambda>(s, w). unat s * unat w) L) = Some ?N"
    using u64_try_sum_eq [of 0] N Wb by simp
  then have "weighted_total scores weights av = Some (BasisPoints (of_nat ?r))"
    using sumw False N Wb r u16_try_from_le [OF r]
    by (simp add: weighted_total_def L_def [symmetric] u64_checked_add_def u64_checked_div_def
        bp_new_def word_le_nat_alt min_def)
  moreover have "bp_ok (BasisPoints (of_nat ?r))"
    using r u16_try_from_le [OF r] by (simp add: bp_ok_def word_le_nat_alt)
  moreover have "\<forall>m M. (\<forall>(s, w) \<in> set L. m \<le> unat s \<and> unat s \<le> M) \<longrightarrow> m \<le> ?r \<and> ?r \<le> M"
    using rounded_mean_bounds [OF W] bounds by blast
  ultimately show ?thesis using u16_try_from_le [OF r] by simp
qed

end
