(* ===== verification/PlannerCorrect.thy ===== *)
theory PlannerCorrect
  imports PlannerWeights
begin

text \<open>
  Correctness of the planner: it never panics, its errors mean what they say, its candidates are
  exactly the eligible variants, the selected one is the least in the documented order, and the
  affinity correction is confined and bounded.
\<close>

section \<open>Totality of the scores\<close>

lemma bp_new_le: "v \<le> 10000 \<Longrightarrow> bp_new v = Some (BasisPoints v)"
  by (simp add: bp_new_def)

lemma factor_contribution_total:
  "w \<le> 10000 \<Longrightarrow> sc \<le> 10000 \<Longrightarrow> \<exists>f. factor_contribution w sc = Done f"
  by (simp add: factor_contribution_def bp_new_le Let_def)

lemma run_map_total: "(\<And>x. x \<in> set xs \<Longrightarrow> \<exists>y. f x = Done y) \<Longrightarrow> \<exists>ys. run_map f xs = Done ys \<and> length ys = length xs"
proof (induction xs)
  case (Cons x xs)
  then obtain y ys where "f x = Done y" "run_map f xs = Done ys" "length ys = length xs" by fastforce
  then show ?case by simp
qed simp

lemma cost_score_le: "cost_score b = Some v \<Longrightarrow> bp_get v \<le> 10000"
  by (cases b) (auto simp: cost_score_def bp_new_Some_iff)

lemma factor_scores_le:
  assumes "\<not> candidate_invalid c"
  shows "\<forall>x \<in> set (factor_scores c (cost_score b)). x \<le> 10000"
  using candidate_valid_scores [OF assms] cost_score_le by (auto simp: factor_scores_def split: option.splits)

lemma factor_lengths [simp]:
  "length (factor_scores c cost) = 4" "length (factor_weights p) = 4" "length (factor_available c cost) = 4"
  by (simp_all add: factor_scores_def factor_weights_def factor_available_def)

definition candidate_cost :: "CandidateSnapshot \<Rightarrow> u16 option \<Rightarrow> f64 option \<Rightarrow> BasisPoints option" where
  "candidate_cost c override ref = cost_score (candidate_cost_basis c override ref)"

lemma weighted_score_total:
  assumes "\<not> candidate_invalid c"
  shows "\<exists>b fs. weighted_score_components c policy override ref = Done (Some (b, fs))
    \<and> length fs = 4 \<and> bp_ok b
    \<and> weighted_total (factor_scores c (candidate_cost c override ref)) (factor_weights policy)
        (factor_available c (candidate_cost c override ref)) = Some b"
proof -
  let ?cost = "candidate_cost c override ref"
  let ?s = "factor_scores c ?cost" and ?w = "factor_weights policy" and ?a = "factor_available c ?cost"
  have s: "\<forall>x \<in> set ?s. x \<le> 10000" unfolding candidate_cost_def by (rule factor_scores_le [OF assms])
  obtain ew where ew: "normalized_available_weights ?w ?a = Some ew"
    using normalized_weights_spec [of ?w ?a] by auto
  obtain b where b: "weighted_total ?s ?w ?a = Some b" "bp_ok b"
    using weighted_total_spec [of ?s ?w ?a] s by auto
  have "\<exists>f. factor_contribution (ew ! i) (?s ! i) = Done f" if "i \<in> set [0..<4]" for i
    using that s normalized_weight_le [OF _ _ ew] by (intro factor_contribution_total) auto
  then obtain fs where "run_map (\<lambda>i. factor_contribution (ew ! i) (?s ! i)) [0..<4] = Done fs" "length fs = 4"
    using run_map_total [of "[0..<4]" "\<lambda>i. factor_contribution (ew ! i) (?s ! i)"] by auto
  with ew b show ?thesis
    by (simp add: weighted_score_components_def candidate_cost_def [symmetric] Let_def)
qed

section \<open>Eligibility\<close>

text \<open>The documented eligibility of a candidate and the identity a plan entry gets.\<close>

definition eligible :: "RoutingPolicyConfigV2 \<Rightarrow> CandidateSnapshot \<Rightarrow> bool" where
  "eligible policy c \<longleftrightarrow> cs_hard_eligible c \<and> cs_credential_available c
     \<and> (cs_depleted c \<longrightarrow> p2_allow_depleted_fallback policy) \<and> cs_capability_basis_points c \<noteq> 0"

definition expected_tier :: "CandidateSnapshot \<Rightarrow> AvailabilityTier" where
  "expected_tier c = (if cs_depleted c then DepletedEmergency
     else if cs_backup_only c then ConfiguredBackup else Primary)"

type_synonym plan_entry = "string \<times> i64 \<times> string \<times> u16 \<times> AvailabilityTier"

fun expected_entry :: "CandidateSnapshot \<times> CandidateModelVariant option \<Rightarrow> plan_entry" where
  "expected_entry (c, None) = (cs_station_key_id c, cs_credential_revision c, cs_station_key_id c, 0, expected_tier c)"
| "expected_entry (c, Some v) = (cs_station_key_id c, cs_credential_revision c, identity_key v, mv_target_rank v, expected_tier c)"

definition plan_entry :: "PlannedCandidate \<Rightarrow> plan_entry" where
  "plan_entry p = (pc_station_key_id p, pc_lifecycle_revision p, pc_routing_identity p, pc_target_rank p, pc_tier p)"

definition fresh :: "PlannedCandidate \<Rightarrow> bool" where
  "fresh p \<longleftrightarrow> pc_utility p = pc_base_utility p \<and> bp_ok (pc_base_utility p)"

lemma planned_candidate_spec:
  assumes "\<not> candidate_invalid c"
  shows "if eligible policy c
    then \<exists>p. planned_candidate c v policy ref = Done (Some p) \<and> plan_entry p = expected_entry (c, v) \<and> fresh p
    else planned_candidate c v policy ref = Done None"
proof (cases "eligible policy c")
  case False
  then show ?thesis
    by (auto simp: eligible_def planned_candidate_def classify_tier_def Let_def)
next
  case True
  obtain b fs where b: "weighted_score_components c policy None ref = Done (Some (b, fs))" "bp_ok b"
    using weighted_score_total [OF assms] by blast
  from True b show ?thesis
    by (cases v) (auto simp: eligible_def planned_candidate_def classify_tier_def Let_def plan_entry_def
        expected_tier_def planned_tier_def fresh_def)
qed

lemma map_filter_runs:
  assumes "\<And>x. x \<in> set xs \<Longrightarrow> if P x then \<exists>y. f x = Done (Some y) \<and> g y = h x \<and> Q y else f x = Done None"
  shows "\<exists>ys. run_bind (run_map f xs) (\<lambda>os. Done (List.map_filter (\<lambda>x. x) os)) = Done ys
    \<and> map g ys = map h (filter P xs) \<and> (\<forall>y \<in> set ys. Q y)"
  using assms
proof (induction xs)
  case Nil
  then show ?case by (simp add: List.map_filter_def)
next
  case (Cons x xs)
  have "\<exists>ys. run_bind (run_map f xs) (\<lambda>os. Done (List.map_filter (\<lambda>x. x) os)) = Done ys
    \<and> map g ys = map h (filter P xs) \<and> (\<forall>y \<in> set ys. Q y)"
    by (rule Cons.IH) (use Cons.prems in auto)
  then obtain os where os: "run_map f xs = Done os"
    "map g (List.map_filter (\<lambda>x. x) os) = map h (filter P xs)" "\<forall>y \<in> set (List.map_filter (\<lambda>x. x) os). Q y"
    by (auto simp: run_bind_Done_iff)
  show ?case
  proof (cases "P x")
    case True
    then obtain y where "f x = Done (Some y)" "g y = h x" "Q y" using Cons.prems [of x] by auto
    with os True show ?thesis by (simp add: List.map_filter_def)
  next
    case False
    then have "f x = Done None" using Cons.prems [of x] by simp
    with os False show ?thesis by (simp add: List.map_filter_def)
  qed
qed

definition eligible_pairs :: "PlanningSnapshot \<Rightarrow> (CandidateSnapshot \<times> CandidateModelVariant option) list" where
  "eligible_pairs s = filter (\<lambda>(c, v). eligible (ps_policy s) c) (plan_pairs (ps_candidates s))"

lemma plan_pairs_fst: "(c, v) \<in> set (plan_pairs cs) \<Longrightarrow> c \<in> set cs"
  by (auto simp: plan_pairs_def)

lemma planned_candidates_spec:
  assumes "snapshot_validate s = Inr u"
  shows "\<exists>ps. planned_candidates s = Done ps
    \<and> map plan_entry ps = map expected_entry (eligible_pairs s) \<and> (\<forall>p \<in> set ps. fresh p)"
  unfolding planned_candidates_def eligible_pairs_def
proof (rule map_filter_runs)
  fix x
  assume "x \<in> set (plan_pairs (ps_candidates s))"
  moreover obtain c v where x: "x = (c, v)" by (cases x)
  ultimately have "\<not> candidate_invalid c"
    using plan_pairs_fst snapshot_valid_parts(3) [OF assms] by auto
  from planned_candidate_spec [OF this] x
  show "if case x of (c, v) \<Rightarrow> eligible (ps_policy s) c
    then \<exists>y. (case x of (c, v) \<Rightarrow> planned_candidate c v (ps_policy s) (cost_reference (ps_candidates s))) = Done (Some y)
      \<and> plan_entry y = expected_entry x \<and> fresh y
    else (case x of (c, v) \<Rightarrow> planned_candidate c v (ps_policy s) (cost_reference (ps_candidates s))) = Done None"
    by simp
qed

lemma eligible_pairs_Nil: "eligible_pairs s = [] \<longleftrightarrow> (\<forall>c \<in> set (ps_candidates s). \<not> eligible (ps_policy s) c)"
  by (auto simp: eligible_pairs_def plan_pairs_def candidate_variants_def filter_empty_conv)

section \<open>Affinity\<close>

lemma affinity_boost_spec:
  assumes "fresh p"
  shows "plan_entry (affinity_boost profile p) = plan_entry p
    \<and> pc_base_utility (affinity_boost profile p) = pc_base_utility p
    \<and> unat (bp_get (pc_utility (affinity_boost profile p)))
        = min (unat (bp_get (pc_base_utility p)) + unat (dp_affinity_bonus_cap_basis_points profile)) 10000"
proof -
  let ?b = "pc_base_utility p" and ?cap = "dp_affinity_bonus_cap_basis_points profile"
  let ?v = "min ?cap (sat_sub 10000 (bp_get ?b))"
  have b: "unat (bp_get ?b) \<le> 10000" using assms by (simp add: fresh_def bp_ok_def word_le_nat_alt)
  have v: "unat ?v = min (unat ?cap) (10000 - unat (bp_get ?b))"
    by (simp add: min_def word_le_nat_alt unat_sat_sub)
  then have le: "unat (bp_get ?b) + unat ?v \<le> 10000" using b by linarith
  then have new: "bp_new ?v = Some (BasisPoints ?v)" by (intro bp_new_le) (simp add: word_le_nat_alt)
  have add: "bp_checked_add ?b (BasisPoints ?v) = Some (BasisPoints (bp_get ?b + ?v))"
    using le by (simp add: bp_checked_add_Some_iff)
  have "unat (bp_get ?b + ?v) = unat (bp_get ?b) + unat ?v"
    using le by (simp add: unat_add_lem [THEN iffD1])
  also have "\<dots> = min (unat (bp_get ?b) + unat ?cap) 10000"
    using v b by linarith
  finally show ?thesis
    by (simp add: affinity_boost_def new add plan_entry_def Let_def)
qed

text \<open>What the correction may do to one entry: nothing, or a bounded boost of the bound key in the best layer.\<close>

definition affinity_adjusted ::
  "DispatchAlgorithmProfile \<Rightarrow> string option \<Rightarrow> PlannedCandidate list \<Rightarrow> PlannedCandidate \<Rightarrow> PlannedCandidate \<Rightarrow> bool" where
  "affinity_adjusted profile key all p q \<longleftrightarrow> q = p \<or>
     (key = Some (pc_station_key_id p)
      \<and> (\<forall>r \<in> set all. pc_target_rank p < pc_target_rank r
            \<or> (pc_target_rank p = pc_target_rank r \<and> pc_tier p \<le> pc_tier r))
      \<and> plan_entry q = plan_entry p \<and> pc_base_utility q = pc_base_utility p
      \<and> unat (bp_get (pc_utility q))
          = min (unat (bp_get (pc_base_utility p)) + unat (dp_affinity_bonus_cap_basis_points profile)) 10000)"

lemma best_layer_least:
  assumes "min_option (map pc_target_rank ps) = Some rank"
    and "min_option (map pc_tier (filter (\<lambda>c. pc_target_rank c = rank) ps)) = Some tier"
    and "in_layer rank tier p" "r \<in> set ps"
  shows "pc_target_rank p < pc_target_rank r \<or> (pc_target_rank p = pc_target_rank r \<and> pc_tier p \<le> pc_tier r)"
proof -
  have "rank \<le> pc_target_rank r" using assms(1,4) by (auto simp: min_option_Some)
  moreover have "pc_target_rank r = rank \<Longrightarrow> tier \<le> pc_tier r"
    using assms(2,4) by (auto simp: min_option_Some)
  ultimately show ?thesis using assms(3) by (auto simp: in_layer_def)
qed

lemma affinity_correction_spec:
  assumes "\<forall>p \<in> set ps. fresh p"
  shows "list_all2 (affinity_adjusted profile key ps) ps (apply_affinity_correction ps cands policy profile key)"
proof -
  have same: "list_all2 (affinity_adjusted profile key ps) ps ps"
    by (rule list.rel_refl) (simp add: affinity_adjusted_def)
  show ?thesis
  proof (cases "apply_affinity_correction ps cands policy profile key = ps")
    case False
    then obtain k rank tier where k: "key = Some k"
      and m: "min_option (map pc_target_rank ps) = Some rank"
        "min_option (map pc_tier (filter (\<lambda>c. pc_target_rank c = rank) ps)) = Some tier"
      and r: "apply_affinity_correction ps cands policy profile key
        = map (\<lambda>c. if pc_station_key_id c = k \<and> in_layer rank tier c then affinity_boost profile c else c) ps"
      by (auto simp: apply_affinity_correction_def Let_def split: option.splits if_splits)
    have "affinity_adjusted profile key ps c (if pc_station_key_id c = k \<and> in_layer rank tier c then affinity_boost profile c else c)"
      if c: "c \<in> set ps" for c
      using affinity_boost_spec [of c profile] best_layer_least [OF m, of c] assms c k
      by (auto simp: affinity_adjusted_def)
    then show ?thesis unfolding r by (auto simp: list_all2_conv_all_nth)
  qed (use same in simp)
qed

lemma affinity_adjusted_entry: "affinity_adjusted profile key all p q \<Longrightarrow> plan_entry q = plan_entry p"
  by (auto simp: affinity_adjusted_def)

lemma affinity_entries:
  "list_all2 (affinity_adjusted profile key all) ps qs \<Longrightarrow> map plan_entry qs = map plan_entry ps"
  by (induction rule: list_all2_induct) (auto dest: affinity_adjusted_entry)

section \<open>The order\<close>

interpretation planned: total_preorder planned_le
proof
  fix x y z
  show "planned_le x y \<or> planned_le y x"
    by (auto simp: planned_le_def)
  show "planned_le x y \<Longrightarrow> planned_le y z \<Longrightarrow> planned_le x z"
    by (auto simp: planned_le_def)
qed

lemma select_plan_hd:
  assumes "sorted_wrt planned_le ps" "ps \<noteq> []"
  shows "\<exists>plan. select_plan sha sid ps = Inr plan \<and> rp_candidates plan = ps \<and> rp_snapshot_id plan = sid
    \<and> rp_selected_station_key_id plan = pc_routing_identity (hd ps)
    \<and> dd_selected_id (rp_dispatch plan) = pc_routing_identity (hd ps) \<and> \<not> dd_explored (rp_dispatch plan)"
proof -
  obtain p qs where ps: "ps = p # qs" using assms(2) by (cases ps) auto
  let ?same = "filter (\<lambda>c. pc_target_rank c = pc_target_rank p) ps"
  have "pc_tier p \<le> pc_tier q" if "q \<in> set ?same" for q
    using that assms(1) ps by (auto simp: planned_le_def)
  then have "Min (set (map pc_tier ?same)) = pc_tier p"
    using ps by (intro Min_eqI) auto
  then have m: "min_option (map pc_tier ?same) = Some (pc_tier p)"
    using ps by (simp add: min_option_Some)
  have "find (in_layer (pc_target_rank p) (pc_tier p)) ps = Some p"
    using ps by (simp add: in_layer_def)
  with m ps show ?thesis by (simp add: select_plan_def Let_def)
qed

text \<open>The planner's answer on a valid snapshot with free capacity.\<close>

lemma plan_snapshot_spec:
  assumes "snapshot_validate s = Inr u" "ro_in_flight (ps_runtime s) < ro_max_concurrency (ps_runtime s)"
  obtains (none) "eligible_pairs s = []" "plan_snapshot sha s = Done (Inl NoEligibleCandidate)"
  | (plan) ps qs plan where "eligible_pairs s \<noteq> []" "planned_candidates s = Done ps"
      "\<forall>p \<in> set ps. fresh p" "map plan_entry ps = map expected_entry (eligible_pairs s)"
      "qs = apply_affinity_correction ps (ps_candidates s) (ps_policy s) (ps_profile s)
              (ro_affinity_station_key_id (ps_runtime s))"
      "plan_snapshot sha s = Done (Inr plan)" "rp_candidates plan = sort_by planned_le qs" "qs \<noteq> []"
      "rp_snapshot_id plan = ps_snapshot_id s"
      "rp_selected_station_key_id plan = pc_routing_identity (hd (sort_by planned_le qs))"
      "dd_selected_id (rp_dispatch plan) = rp_selected_station_key_id plan" "\<not> dd_explored (rp_dispatch plan)"
proof -
  obtain ps where ps: "planned_candidates s = Done ps"
    "map plan_entry ps = map expected_entry (eligible_pairs s)" "\<forall>p \<in> set ps. fresh p"
    using planned_candidates_spec [OF assms(1)] by blast
  then have empty: "ps = [] \<longleftrightarrow> eligible_pairs s = []" by (metis map_is_Nil_conv)
  have cap: "\<not> ro_max_concurrency (ps_runtime s) \<le> ro_in_flight (ps_runtime s)"
    using assms(2) by (simp add: not_le)
  define qs where "qs = apply_affinity_correction ps (ps_candidates s) (ps_policy s) (ps_profile s)
              (ro_affinity_station_key_id (ps_runtime s))"
  show ?thesis
  proof (cases "ps = []")
    case True
    then show ?thesis using none assms(1) cap ps(1) empty by (simp add: plan_snapshot_def)
  next
    case False
    have "length qs = length ps"
      unfolding qs_def using affinity_correction_spec [OF ps(3)] by (metis list_all2_lengthD)
    with False have qne: "qs \<noteq> []" by auto
    then have "sort_by planned_le qs \<noteq> []" by simp
    from select_plan_hd [OF planned.sorted_sort_by this, of sha "ps_snapshot_id s"]
    obtain plan where plan: "select_plan sha (ps_snapshot_id s) (sort_by planned_le qs) = Inr plan"
      "rp_candidates plan = sort_by planned_le qs" "rp_snapshot_id plan = ps_snapshot_id s"
      "rp_selected_station_key_id plan = pc_routing_identity (hd (sort_by planned_le qs))"
      "dd_selected_id (rp_dispatch plan) = pc_routing_identity (hd (sort_by planned_le qs))"
      "\<not> dd_explored (rp_dispatch plan)" by blast
    have "plan_snapshot sha s = Done (Inr plan)"
      using assms(1) cap ps(1) False plan(1) by (simp add: plan_snapshot_def qs_def)
    with that(2) [OF _ ps(1,3,2) qs_def _ plan(2) qne plan(3,4)] plan(4-6) False empty show ?thesis by simp
  qed
qed

section \<open>Monotonicity of the total\<close>

lemma available_only_map_mono:
  fixes xs ys ws :: "u16 list"
  assumes "length xs = length ws" "length ys = length ws" "\<And>i. i < length ws \<Longrightarrow> unat (xs ! i) \<le> unat (ys ! i)"
  shows "sum_list (map (\<lambda>(s, w). unat s * unat w) (available_only (zip xs ws) av))
    \<le> sum_list (map (\<lambda>(s, w). unat s * unat w) (available_only (zip ys ws) av))"
  using assms
proof (induction ws arbitrary: xs ys av)
  case Nil
  then show ?case by (simp add: available_only_def)
next
  case (Cons w ws)
  obtain x xs' y ys' where xy: "xs = x # xs'" "ys = y # ys'"
    using Cons.prems(1,2) by (auto simp: length_Suc_conv)
  have "unat x \<le> unat y" using Cons.prems(3) [of 0] xy by simp
  moreover have IH: "sum_list (map (\<lambda>(s, w). unat s * unat w) (available_only (zip xs' ws) bs))
    \<le> sum_list (map (\<lambda>(s, w). unat s * unat w) (available_only (zip ys' ws) bs))" for bs
  proof (rule Cons.IH)
    show "unat (xs' ! i) \<le> unat (ys' ! i)" if "i < length ws" for i
      using Cons.prems(3) [of "Suc i"] that xy by simp
  qed (use Cons.prems xy in auto)
  ultimately show ?case
    using xy by (cases av) (auto simp: available_only_def intro: add_mono mult_le_mono1)
qed

lemma weighted_total_mono:
  fixes xs ys weights :: "u16 list"
  assumes "length xs = 4" "length ys = 4" "length weights = 4"
    and "\<forall>s \<in> set xs. s \<le> 10000" "\<forall>s \<in> set ys. s \<le> 10000"
    and "\<And>i. i < 4 \<Longrightarrow> xs ! i \<le> ys ! i"
    and "weighted_total xs weights av = Some a" "weighted_total ys weights av = Some b"
  shows "bp_get a \<le> bp_get b"
proof (cases "weight_total weights av = 0")
  case True
  then have "a = b" using assms(3,7,8) weight_sum_total(1) [of weights av]
    by (simp add: weighted_total_def weight_total_def [symmetric])
  then show ?thesis by simp
next
  case False
  have "sum_list (map (\<lambda>(s, w). unat s * unat w) (available_only (zip xs weights) av))
    \<le> sum_list (map (\<lambda>(s, w). unat s * unat w) (available_only (zip ys weights) av))"
    using assms(1-3,6) by (intro available_only_map_mono) (auto simp: word_le_nat_alt)
  then show ?thesis
    using weighted_total_spec [OF assms(1,3,4), of av] weighted_total_spec [OF assms(2,3,5), of av] assms(7,8) False
    by (auto simp: word_le_nat_alt intro!: div_le_mono)
qed

text \<open>A concrete snapshot with two keys for the examples: one primary, one backup.\<close>

definition example_candidate :: "string \<Rightarrow> bool \<Rightarrow> CandidateSnapshot" where
  "example_candidate key backup = \<lparr>cs_station_key_id = key, cs_station_id = ''st'', cs_endpoint_revision = 1,
     cs_credential_revision = 1, cs_account_revision = 1, cs_group_binding_id = None,
     cs_group_revision = None, cs_resolved_upstream_model = None, cs_model_alias_revision = 1,
     cs_model_variants = [], cs_model_variant_pricing = [], cs_credential_available = True,
     cs_hard_eligible = True, cs_backup_only = backup, cs_depleted = False,
     cs_capability_basis_points = 10000, cs_quality_available = True,
     cs_reliability_basis_points = 9000, cs_responsiveness_basis_points = 8000,
     cs_cost_basis_points = Some 5000, cs_pricing = pricing_unpriced ''none'',
     cs_preference_basis_points = 5000, cs_failure_domains = []\<rparr>"

definition example_budget :: AttemptBudgetProfileV1 where
  "example_budget = \<lparr>ab_policy_revision = 1, ab_max_total_attempts = 4,
     ab_max_same_target_capacity_retries = 0, ab_capacity_retry_wait_budget_ms = 0,
     ab_consecutive_failure_threshold = 3, ab_circuit_recovery_success_threshold = 2,
     ab_circuit_recovery_wait_ms = 30000\<rparr>"

definition example_snapshot :: PlanningSnapshot where
  "example_snapshot = \<lparr>ps_snapshot_id = ''s1'', ps_durable_revision = 1, ps_configured_key_count = 2,
     ps_capability_match_count = 2, ps_candidate_cap_count = 2,
     ps_routing_runtime_generation_id = None, ps_routing_generation_fence_revision = 0,
     ps_routing_policy_revision = 1, ps_routing_quality_revision = 0, ps_routing_health_revision = 0,
     ps_quality_projection_backlog = 0, ps_quality_projection_lag_seconds = 0, ps_quality_stale = False,
     ps_policy = config_v2_default, ps_attempt_budget = example_budget, ps_profile = profile_default,
     ps_candidates = [example_candidate ''b'' True, example_candidate ''a'' False],
     ps_model_fallback_trigger = None,
     ps_runtime = \<lparr>ro_runtime_instance_id = ''r'', ro_runtime_revision = 1, ro_candidate_set_revision = 1,
       ro_in_flight = 0, ro_max_concurrency = 8, ro_affinity_station_key_id = None\<rparr>\<rparr>"

lemma example_candidate_valid: "key \<noteq> [] \<Longrightarrow> \<not> candidate_invalid (example_candidate key b)"
  by (simp add: candidate_invalid_def example_candidate_def some_satisfies_def pricing_unpriced_def)

lemma example_snapshot_valid: "snapshot_validate example_snapshot = Inr ()"
proof -
  have "profile_validate profile_default = Inr ()" by (simp add: profile_validate_def profile_default_def)
  then show ?thesis
    using config_v2_default_valid
    by (simp add: snapshot_validate_def example_snapshot_def example_budget_def MAX_OPERATIONAL_CANDIDATES_def
        example_candidate_valid)
qed

lemma example_eligible: "eligible policy (example_candidate key b)"
  by (simp add: eligible_def example_candidate_def)

lemma example_plan: "\<exists>plan. plan_snapshot sha example_snapshot = Done (Inr plan)"
proof (rule plan_snapshot_spec [OF example_snapshot_valid, of sha])
  show "ro_in_flight (ps_runtime example_snapshot) < ro_max_concurrency (ps_runtime example_snapshot)"
    by (simp add: example_snapshot_def)
  assume "eligible_pairs example_snapshot = []"
  then show ?thesis by (simp add: eligible_pairs_Nil) (simp add: example_snapshot_def example_eligible)
qed blast

section \<open>Properties\<close>

text \<open>
  C25: the planner never panics: for every snapshot, valid or not, it returns a plan or one of its
  errors, and the errors classify the snapshot exactly. An invalid snapshot is reported with its
  validation message, a runtime without free slots as at capacity, and a valid snapshot with free
  slots lacks a plan exactly when no candidate is eligible.
\<close>
theorem plan_snapshot_outcomes:
  "(\<exists>r. plan_snapshot sha s = Done r)
   \<and> (plan_snapshot sha s = Done (Inl (InvalidSnapshot m)) \<longleftrightarrow> snapshot_validate s = Inl m)
   \<and> (plan_snapshot sha s = Done (Inl RuntimeAtCapacity) \<longleftrightarrow>
        snapshot_validate s = Inr () \<and> ro_max_concurrency (ps_runtime s) \<le> ro_in_flight (ps_runtime s))
   \<and> (plan_snapshot sha s = Done (Inl NoEligibleCandidate) \<longleftrightarrow>
        snapshot_validate s = Inr () \<and> ro_in_flight (ps_runtime s) < ro_max_concurrency (ps_runtime s)
        \<and> (\<forall>c \<in> set (ps_candidates s). \<not> eligible (ps_policy s) c))"
proof (cases "snapshot_validate s")
  case (Inl e)
  then show ?thesis by (simp add: plan_snapshot_def)
next
  case (Inr u)
  show ?thesis
  proof (cases "ro_max_concurrency (ps_runtime s) \<le> ro_in_flight (ps_runtime s)")
    case True
    with Inr show ?thesis by (auto simp: plan_snapshot_def)
  next
    case False
    then have free: "ro_in_flight (ps_runtime s) < ro_max_concurrency (ps_runtime s)" by simp
    show ?thesis
      by (rule plan_snapshot_spec [OF Inr free, of sha])
        (use Inr free in \<open>auto simp: eligible_pairs_Nil not_le\<close>)
  qed
qed

theorem plan_snapshot_outcomes_witness:
  "\<forall>sha. \<exists>r. plan_snapshot sha example_snapshot = Done r \<and> r \<noteq> Inl NoEligibleCandidate"
proof
  fix sha
  show "\<exists>r. plan_snapshot sha example_snapshot = Done r \<and> r \<noteq> Inl NoEligibleCandidate"
    using plan_snapshot_outcomes [of sha example_snapshot "[]"]
    by (auto simp: example_snapshot_def example_eligible)
qed

text \<open>
  C2: soundness and completeness of a plan. The entries of a plan (key, lifecycle revision,
  identity, target rank, tier) are, as a multiset, exactly those of the eligible candidates of the
  snapshot with each of their model variants; no candidate is lost, invented or duplicated.
\<close>
theorem plan_snapshot_entries:
  assumes "plan_snapshot sha s = Done (Inr plan)"
  shows "mset (map plan_entry (rp_candidates plan)) = mset (map expected_entry (eligible_pairs s))"
proof -
  have v: "snapshot_validate s = Inr ()" and f: "ro_in_flight (ps_runtime s) < ro_max_concurrency (ps_runtime s)"
    using assms by (auto simp: plan_snapshot_def not_le split: sum.splits if_splits)
  from v f show ?thesis
  proof (cases rule: plan_snapshot_spec [where sha = sha])
    case (plan ps qs plan')
    have "mset (map plan_entry (rp_candidates plan)) = mset (map plan_entry qs)"
      using plan assms by (simp add: mset_map)
    also have "\<dots> = mset (map plan_entry ps)"
      using affinity_entries [OF affinity_correction_spec [OF plan(3)]] plan(5) by metis
    finally show ?thesis using plan(4) by simp
  qed (use assms in simp)
qed

theorem plan_snapshot_entries_witness:
  "\<forall>sha. \<exists>plan. plan_snapshot sha example_snapshot = Done (Inr plan)
     \<and> mset (map plan_entry (rp_candidates plan)) = {#(''b'', 1, ''b'', 0, ConfiguredBackup), (''a'', 1, ''a'', 0, Primary)#}"
proof
  fix sha
  obtain plan where p: "plan_snapshot sha example_snapshot = Done (Inr plan)" using example_plan by blast
  have "map expected_entry (eligible_pairs example_snapshot)
      = [(''b'', 1, ''b'', 0, ConfiguredBackup), (''a'', 1, ''a'', 0, Primary)]"
    by (simp add: eligible_pairs_def plan_pairs_def candidate_variants_def example_snapshot_def example_eligible)
      (simp add: example_candidate_def expected_tier_def)
  with plan_snapshot_entries [OF p] p
  show "\<exists>plan. plan_snapshot sha example_snapshot = Done (Inr plan)
     \<and> mset (map plan_entry (rp_candidates plan)) = {#(''b'', 1, ''b'', 0, ConfiguredBackup), (''a'', 1, ''a'', 0, Primary)#}"
    by auto
qed

text \<open>
  C5: the plan is score ordered and the dispatch is deterministic. A candidate of a better target
  rank precedes one of a worse rank; within a rank a better tier precedes a worse one; within rank
  and tier a higher utility precedes a lower one; equal utilities are in order of station key, and the
  variants of one key in order of their routing identity. The selected candidate is the first, and no
  exploration happens.
\<close>
theorem plan_snapshot_selects_least:
  assumes "plan_snapshot sha s = Done (Inr plan)"
  shows "sorted_wrt (\<lambda>p q. pc_target_rank p \<le> pc_target_rank q
        \<and> (pc_target_rank p = pc_target_rank q \<longrightarrow> pc_tier p \<le> pc_tier q
          \<and> (pc_tier p = pc_tier q \<longrightarrow> bp_get (pc_utility q) \<le> bp_get (pc_utility p)
            \<and> (bp_get (pc_utility q) = bp_get (pc_utility p) \<longrightarrow> pc_station_key_id p \<le> pc_station_key_id q
              \<and> (pc_station_key_id p = pc_station_key_id q \<longrightarrow> pc_routing_identity p \<le> pc_routing_identity q)))))
      (rp_candidates plan)
    \<and> rp_candidates plan \<noteq> []
    \<and> rp_selected_station_key_id plan = pc_routing_identity (hd (rp_candidates plan))
    \<and> dd_selected_id (rp_dispatch plan) = rp_selected_station_key_id plan \<and> \<not> dd_explored (rp_dispatch plan)"
proof -
  have v: "snapshot_validate s = Inr ()" and f: "ro_in_flight (ps_runtime s) < ro_max_concurrency (ps_runtime s)"
    using assms by (auto simp: plan_snapshot_def not_le split: sum.splits if_splits)
  have le: "sorted_wrt (\<lambda>p q. pc_target_rank p \<le> pc_target_rank q
        \<and> (pc_target_rank p = pc_target_rank q \<longrightarrow> pc_tier p \<le> pc_tier q
          \<and> (pc_tier p = pc_tier q \<longrightarrow> bp_get (pc_utility q) \<le> bp_get (pc_utility p)
            \<and> (bp_get (pc_utility q) = bp_get (pc_utility p) \<longrightarrow> pc_station_key_id p \<le> pc_station_key_id q
              \<and> (pc_station_key_id p = pc_station_key_id q \<longrightarrow> pc_routing_identity p \<le> pc_routing_identity q)))))
      (sort_by planned_le qs)" for qs
    by (rule sorted_wrt_mono_rel [OF _ planned.sorted_sort_by]) (auto simp: planned_le_def less_imp_le)
  from v f show ?thesis
  proof (cases rule: plan_snapshot_spec [where sha = sha])
    case (plan ps qs plan')
    then show ?thesis using assms le by simp
  qed (use assms in simp)
qed

theorem plan_snapshot_selects_least_witness:
  "\<forall>sha. \<exists>plan. plan_snapshot sha example_snapshot = Done (Inr plan)
     \<and> rp_selected_station_key_id plan = pc_routing_identity (hd (rp_candidates plan))"
  using plan_snapshot_selects_least example_plan by blast

text \<open>
  the affinity correction is confined and bounded. On freshly scored candidates it changes
  nothing but the utility of the bound key, and only where that key is in the best target rank and
  the best tier of that rank; there the utility becomes the base utility plus the configured cap,
  cut off at 10000 basis points. It never moves a candidate to another rank or tier.
\<close>
theorem affinity_correction_confined:
  assumes "\<forall>p \<in> set ps. fresh p"
  shows "length (apply_affinity_correction ps cands policy profile key) = length ps
    \<and> (\<forall>i < length ps. let p = ps ! i; q = apply_affinity_correction ps cands policy profile key ! i in
        q = p \<or> (key = Some (pc_station_key_id p)
          \<and> (\<forall>r \<in> set ps. pc_target_rank p < pc_target_rank r
                \<or> (pc_target_rank p = pc_target_rank r \<and> pc_tier p \<le> pc_tier r))
          \<and> plan_entry q = plan_entry p \<and> pc_base_utility q = pc_base_utility p
          \<and> unat (bp_get (pc_utility q)) = min (unat (bp_get (pc_base_utility p))
                + unat (dp_affinity_bonus_cap_basis_points profile)) 10000))"
  using affinity_correction_spec [OF assms, of profile key cands policy]
  by (simp add: list_all2_conv_all_nth affinity_adjusted_def Let_def)

definition example_planned :: PlannedCandidate where
  "example_planned = \<lparr>pc_station_key_id = ''a'', pc_lifecycle_revision = 1, pc_routing_identity = ''a'',
     pc_target_rank = 0, pc_variant = None, pc_tier = Primary, pc_base_utility = BasisPoints 9900,
     pc_utility = BasisPoints 9900, pc_affinity_bonus = bp_ZERO, pc_affinity_applied = False,
     pc_contributions = []\<rparr>"

theorem affinity_correction_confined_witness:
  "length (apply_affinity_correction [example_planned] [] config_v2_default profile_default (Some ''a'')) = 1"
  using affinity_correction_confined [of "[example_planned]" "[]" config_v2_default profile_default "Some ''a''"]
  by (simp add: fresh_def example_planned_def bp_ok_def)

text \<open>
  C28: normalised weights. For any four configured weights and any availability, normalisation
  returns; if some available weight is positive the result sums to exactly 10000, unavailable or
  zero weights get nothing, and every other weight gets its exact share of 10000 rounded down or up.
\<close>
theorem normalized_weights_correct:
  assumes "length ws = 4" and "length av = 4"
  shows "\<exists>res. normalized_available_weights ws av = Some res \<and> length res = 4
    \<and> (weight_total ws av = 0 \<longrightarrow> res = replicate 4 0)
    \<and> (0 < weight_total ws av \<longrightarrow> sum_list (map unat res) = 10000)
    \<and> (\<forall>i < 4. (\<not> av ! i \<or> ws ! i = 0) \<longrightarrow> res ! i = 0)
    \<and> (\<forall>i < 4. av ! i \<and> ws ! i \<noteq> 0 \<longrightarrow>
         unat (ws ! i) * 10000 div weight_total ws av \<le> unat (res ! i)
         \<and> unat (res ! i) \<le> unat (ws ! i) * 10000 div weight_total ws av + 1)"
proof -
  from normalized_weights_spec [OF assms] obtain res where
    r: "normalized_available_weights ws av = Some res" "length res = 4"
    "weight_total ws av = 0 \<longrightarrow> res = replicate 4 0"
    "0 < weight_total ws av \<longrightarrow> sum_list (map unat res) = 10000"
    "\<forall>i < 4. \<not> active ws av i \<longrightarrow> res ! i = 0"
    "\<forall>i < 4. 0 < weight_total ws av \<longrightarrow> share ws av i \<le> unat (res ! i) \<and> unat (res ! i) \<le> share ws av i + 1"
    by (elim exE conjE)
  have pos: "0 < weight_total ws av" if "i < 4" "active ws av i" for i
  proof -
    have "0 < unat (ws ! i)" using that(2) by (simp add: active_def unat_gt_0)
    then show ?thesis using weight_le_total [OF assms that] by linarith
  qed
  have "\<forall>i < 4. av ! i \<and> ws ! i \<noteq> 0 \<longrightarrow>
         unat (ws ! i) * 10000 div weight_total ws av \<le> unat (res ! i)
         \<and> unat (res ! i) \<le> unat (ws ! i) * 10000 div weight_total ws av + 1"
  proof (intro allI impI)
    fix i :: nat
    assume "i < 4" and a: "av ! i \<and> ws ! i \<noteq> 0"
    then have "share ws av i = unat (ws ! i) * 10000 div weight_total ws av" "0 < weight_total ws av"
      using pos by (simp_all add: active_def share_def)
    with r(6) \<open>i < 4\<close> show "unat (ws ! i) * 10000 div weight_total ws av \<le> unat (res ! i)
         \<and> unat (res ! i) \<le> unat (ws ! i) * 10000 div weight_total ws av + 1" by metis
  qed
  with r show ?thesis by (auto simp: active_def)
qed

theorem normalized_weights_correct_witness:
  "\<exists>res. normalized_available_weights [4000, 2500, 2000, 1500] [True, True, False, True] = Some res
     \<and> sum_list (map unat res) = 10000"
  using normalized_weights_correct [of "[4000, 2500, 2000, 1500]" "[True, True, False, True]"]
  by (auto simp: weight_total_def available_only_def)

text \<open>
  The score is a weighted mean. On a valid candidate scoring always returns, without panics,
  four contributions and a total of at most 10000 basis points; when some available factor has a
  positive weight, the total lies between the smallest and the largest available factor score.
\<close>
theorem weighted_score_is_mean:
  assumes "\<not> candidate_invalid c"
  shows "\<exists>b fs. weighted_score_components c policy override ref = Done (Some (b, fs)) \<and> length fs = 4
    \<and> bp_get b \<le> 10000
    \<and> (let cost = cost_score (candidate_cost_basis c override ref);
           scores = available_only (factor_scores c cost) (factor_available c cost)
       in 0 < weight_total (factor_weights policy) (factor_available c cost) \<longrightarrow>
          Min (set scores) \<le> bp_get b \<and> bp_get b \<le> Max (set scores))"
proof -
  let ?cost = "candidate_cost c override ref"
  let ?s = "factor_scores c ?cost" and ?w = "factor_weights policy" and ?a = "factor_available c ?cost"
  obtain b fs where b: "weighted_score_components c policy override ref = Done (Some (b, fs))" "length fs = 4"
    "bp_ok b" "weighted_total ?s ?w ?a = Some b"
    using weighted_score_total [OF assms] by blast
  have s: "\<forall>x \<in> set ?s. x \<le> 10000" unfolding candidate_cost_def by (rule factor_scores_le [OF assms])
  have fst: "set (map fst (available_only (zip ?s ?w) ?a)) = set (available_only ?s ?a)"
    by (auto simp: available_only_def factor_scores_def factor_weights_def factor_available_def)
  have mem: "x \<in> set (available_only ?s ?a)" if "(x, w) \<in> set (available_only (zip ?s ?w) ?a)" for x w
    using that fst by force
  let ?m = "unat (Min (set (available_only ?s ?a)))" and ?M = "unat (Max (set (available_only ?s ?a)))"
  have "\<forall>(x, w) \<in> set (available_only (zip ?s ?w) ?a). ?m \<le> unat x \<and> unat x \<le> ?M"
    using mem by (auto simp: word_le_nat_alt [symmetric] dest: mem intro!: Min_le Max_ge)
  then have "0 < weight_total ?w ?a \<longrightarrow> ?m \<le> unat (bp_get b) \<and> unat (bp_get b) \<le> ?M"
    using weighted_total_spec [of ?s ?w ?a] s b(4) by auto
  with b show ?thesis
    by (simp add: candidate_cost_def Let_def bp_ok_def word_le_nat_alt)
qed

theorem weighted_score_is_mean_witness:
  "\<exists>b fs. weighted_score_components (example_candidate ''a'' False) config_v2_default None None = Done (Some (b, fs))
     \<and> bp_get b \<le> 10000"
  using weighted_score_is_mean [OF example_candidate_valid, of "''a''" False config_v2_default None None] by blast

text \<open>
  C36: cheaper is never worse. Of two valid candidates that agree in everything but their price
  multiplier, scored against the same positive reference, the one with the smaller positive
  multiplier gets at least the other's total, through all floating-point roundings of the cost
  formula.
\<close>
theorem cheaper_never_scores_worse:
  assumes "\<not> candidate_invalid c" and "\<not> candidate_invalid d"
    and "d = c\<lparr>cs_pricing := cs_pricing d\<rparr>"
    and "pr_rate_multiplier (cs_pricing c) = Some (F64_Num p)" and "pr_rate_multiplier (cs_pricing d) = Some (F64_Num q)"
    and "0 < p" and "p \<le> q" and "0 < r"
    and "weighted_score_components c policy None (Some (F64_Num r)) = Done (Some (cheap, fs))"
    and "weighted_score_components d policy None (Some (F64_Num r)) = Done (Some (dear, gs))"
  shows "bp_get dear \<le> bp_get cheap"
proof -
  let ?e = "\<lambda>x. denominator_score (cost_denominator (F64_Num x) (F64_Num r))"
  have pf: "f64_positive_finite (F64_Num p)" "f64_positive_finite (F64_Num q)" "f64_positive_finite (F64_Num r)"
    using assms(6-8) by (auto simp: f64_positive_finite_Num)
  have den: "f64_le (F64_Num 1) (cost_denominator (F64_Num p) (F64_Num r))"
    "f64_le (cost_denominator (F64_Num p) (F64_Num r)) (cost_denominator (F64_Num q) (F64_Num r))"
    using cost_denominator_mono [OF assms(6,7,8)] by auto
  have le: "?e q \<le> ?e p" "?e p \<le> 10000" using denominator_score_antimono [OF den] by auto
  have cost: "candidate_cost c None (Some (F64_Num r)) = Some (BasisPoints (?e p))"
    "candidate_cost d None (Some (F64_Num r)) = Some (BasisPoints (?e q))"
    using assms(4,5) pf le
    by (simp_all add: candidate_cost_def candidate_cost_basis_def option_or_def cost_efficiency_score
        cost_score_def bp_new_le)
  let ?w = "factor_weights policy" and ?a = "factor_available c (Some (BasisPoints (?e p)))"
  have dc: "factor_scores d (Some (BasisPoints (?e q))) = (factor_scores c (Some (BasisPoints (?e p))))[2 := ?e q]"
    "factor_available d (Some (BasisPoints (?e q))) = ?a"
    by (subst assms(3), simp add: factor_scores_def factor_available_def)+
  have tc: "weighted_total (factor_scores c (Some (BasisPoints (?e p)))) ?w ?a = Some cheap"
    using weighted_score_total [OF assms(1), of policy None "Some (F64_Num r)"] assms(9) cost by auto
  have td: "weighted_total (factor_scores d (Some (BasisPoints (?e q)))) ?w ?a = Some dear"
    using weighted_score_total [OF assms(2), of policy None "Some (F64_Num r)"] assms(10) cost dc by auto
  show ?thesis
  proof (rule weighted_total_mono [OF _ _ _ _ _ _ td tc])
    show "factor_scores d (Some (BasisPoints (?e q))) ! i \<le> factor_scores c (Some (BasisPoints (?e p))) ! i" if "i < 4" for i
      unfolding dc using le by (cases "i = 2") (simp add: factor_scores_def, simp)
    show "\<forall>s \<in> set (factor_scores d (Some (BasisPoints (?e q)))). s \<le> 10000"
      using factor_scores_le [OF assms(2)] cost(2) unfolding candidate_cost_def by metis
    show "\<forall>s \<in> set (factor_scores c (Some (BasisPoints (?e p)))). s \<le> 10000"
      using factor_scores_le [OF assms(1)] cost(1) unfolding candidate_cost_def by metis
  qed simp_all
qed

definition priced_candidate :: "rat \<Rightarrow> CandidateSnapshot" where
  "priced_candidate q = (example_candidate ''a'' False)
     \<lparr>cs_pricing := (pricing_unpriced ''x'')\<lparr>pr_rate_multiplier := Some (F64_Num q)\<rparr>\<rparr>"

lemma priced_candidate_valid: "\<not> candidate_invalid (priced_candidate q)"
  by (simp add: candidate_invalid_def priced_candidate_def example_candidate_def some_satisfies_def
      pricing_unpriced_def)

theorem cheaper_never_scores_worse_witness:
  "\<exists>cheap dear fs gs.
     weighted_score_components (priced_candidate 1) config_v2_default None (Some (F64_Num 2)) = Done (Some (cheap, fs))
   \<and> weighted_score_components (priced_candidate 3) config_v2_default None (Some (F64_Num 2)) = Done (Some (dear, gs))
   \<and> bp_get dear \<le> bp_get cheap"
proof -
  obtain cheap fs where c: "weighted_score_components (priced_candidate 1) config_v2_default None (Some (F64_Num 2))
      = Done (Some (cheap, fs))"
    using weighted_score_total [OF priced_candidate_valid] by blast
  obtain dear gs where d: "weighted_score_components (priced_candidate 3) config_v2_default None (Some (F64_Num 2))
      = Done (Some (dear, gs))"
    using weighted_score_total [OF priced_candidate_valid] by blast
  have "bp_get dear \<le> bp_get cheap"
    by (rule cheaper_never_scores_worse [OF priced_candidate_valid priced_candidate_valid _ _ _ _ _ _ c d,
          where p = 1 and q = 3])
      (simp_all add: priced_candidate_def)
  with c d show ?thesis by blast
qed

end
