(* ===== verification/Capacity.thy ===== *)
theory Capacity
  imports Machine
begin

text \<open>
  Composite capacity (\<^verbatim>\<open>routing_engine/capacity.rs\<close>): the registry of in-flight counters,
  all-or-nothing acquisition with rollback, leases, wait permits and the misses one planning pass
  records. The registry's mutex makes every operation atomic, so an operation is a function on
  the guarded state. Constraints that exist only in test builds are left out.
\<close>

section \<open>State\<close>

datatype CapacityConstraintKey =
    CK_HalfOpen string | CK_Global | CK_StationAccount string | CK_StationKey string

record CompositeCapacityRequest =
  cr_station_id :: string
  cr_station_key_id :: string
  cr_half_open_probe_id :: "string option"
  cr_global_max_concurrency :: u32
  cr_station_account_max_concurrency :: u32
  cr_station_key_max_concurrency :: u32

text \<open>\<open>ConstraintUnavailable constraint in_flight max_concurrency\<close>; the evidence gaps are always empty.\<close>

datatype CapacityAcquireFailure = ConstraintUnavailable CapacityConstraintKey u32 u32

record CapacityCounter =
  ct_active :: u32
  ct_waiting :: u32
  ct_load_denominator :: u32
  ct_waiters :: "u64 list"

definition counter_default :: CapacityCounter where
  "counter_default = \<lparr>ct_active = 0, ct_waiting = 0, ct_load_denominator = 0, ct_waiters = []\<rparr>"

record CapacityState =
  st_counters :: "CapacityConstraintKey \<rightharpoonup> CapacityCounter"
  st_runtime_max_overrides :: "CapacityConstraintKey \<rightharpoonup> u32"
  st_next_wait_ticket :: u64

definition capacity_default :: CapacityState where
  "capacity_default = \<lparr>st_counters = Map.empty, st_runtime_max_overrides = Map.empty, st_next_wait_ticket = 0\<rparr>"

record CapacityLease =
  ls_constraints :: "CapacityConstraintKey list"
  ls_released :: bool

section \<open>Operations\<close>

text \<open>\<^verbatim>\<open>counters.entry(key).or_default()\<close>, as a value.\<close>

definition counter_of :: "CapacityState \<Rightarrow> CapacityConstraintKey \<Rightarrow> CapacityCounter" where
  "counter_of st k = (case st_counters st k of None \<Rightarrow> counter_default | Some c \<Rightarrow> c)"

definition put_counter :: "CapacityState \<Rightarrow> CapacityConstraintKey \<Rightarrow> CapacityCounter \<Rightarrow> CapacityState" where
  "put_counter st k c = st\<lparr>st_counters := (st_counters st)(k \<mapsto> c)\<rparr>"

definition active_for :: "CapacityState \<Rightarrow> CapacityConstraintKey \<Rightarrow> u32" where
  "active_for st k = (case st_counters st k of None \<Rightarrow> 0 | Some c \<Rightarrow> ct_active c)"

definition active_for_station_key :: "CapacityState \<Rightarrow> string \<Rightarrow> u32" where
  "active_for_station_key st key = active_for st (CK_StationKey key)"

definition effective_max :: "CapacityState \<Rightarrow> CapacityConstraintKey \<Rightarrow> u32 \<Rightarrow> u32" where
  "effective_max st k requested_max =
     (case st_runtime_max_overrides st k of
        None \<Rightarrow> requested_max
      | Some runtime_max \<Rightarrow>
          if requested_max = 0 then runtime_max
          else if runtime_max = 0 then requested_max
          else min requested_max runtime_max)"

definition effective_load_denominator :: "u32 \<Rightarrow> u32 \<Rightarrow> u32" where
  "effective_load_denominator max_concurrency load_factor =
     (if load_factor > 0 then load_factor else if max_concurrency > 0 then max_concurrency else 1)"

definition ordered_constraints :: "CompositeCapacityRequest \<Rightarrow> (CapacityConstraintKey \<times> u32) list" where
  "ordered_constraints r =
     (case cr_half_open_probe_id r of None \<Rightarrow> [] | Some p \<Rightarrow> [(CK_HalfOpen p, 1)])
     @ [(CK_Global, cr_global_max_concurrency r),
        (CK_StationAccount (cr_station_id r), cr_station_account_max_concurrency r),
        (CK_StationKey (cr_station_key_id r), cr_station_key_max_concurrency r)]"

definition release_one :: "CapacityConstraintKey \<Rightarrow> CapacityState \<Rightarrow> CapacityState" where
  "release_one k st =
     (case st_counters st k of
        None \<Rightarrow> st
      | Some c \<Rightarrow> put_counter st k (c\<lparr>ct_active := sat_sub (ct_active c) 1\<rparr>))"

definition rollback :: "CapacityState \<Rightarrow> CapacityConstraintKey list \<Rightarrow> CapacityState" where
  "rollback st acquired = fold release_one (rev acquired) st"

fun acquire_loop ::
  "CapacityState \<Rightarrow> (CapacityConstraintKey \<times> u32) list \<Rightarrow> CapacityConstraintKey list
    \<Rightarrow> (CapacityAcquireFailure + CapacityConstraintKey list) \<times> CapacityState" where
  "acquire_loop st [] acquired = (Inr acquired, st)"
| "acquire_loop st ((k, requested_max) # rest) acquired =
     (let max_concurrency = effective_max st k requested_max;
          counter = counter_of st k;
          st1 = put_counter st k counter;
          in_flight = ct_active counter
      in if max_concurrency > 0 \<and> in_flight \<ge> max_concurrency
         then (Inl (ConstraintUnavailable k in_flight max_concurrency), rollback st1 acquired)
         else acquire_loop
           (put_counter st1 k (counter\<lparr>ct_active := sat_add in_flight 1,
              ct_load_denominator := effective_load_denominator max_concurrency 0\<rparr>))
           rest (acquired @ [k]))"

definition try_acquire ::
  "CapacityState \<Rightarrow> CompositeCapacityRequest \<Rightarrow> (CapacityAcquireFailure + CapacityLease) \<times> CapacityState" where
  "try_acquire st request =
     (case acquire_loop st (ordered_constraints request) [] of
        (Inl e, st') \<Rightarrow> (Inl e, st')
      | (Inr acquired, st') \<Rightarrow> (Inr \<lparr>ls_constraints = acquired, ls_released = False\<rparr>, st'))"

definition lease_release :: "CapacityState \<Rightarrow> CapacityLease \<Rightarrow> CapacityLease \<times> CapacityState" where
  "lease_release st l =
     (if ls_released l then (l, st)
      else (l\<lparr>ls_released := True\<rparr>, rollback st (ls_constraints l)))"

datatype CapacityWaitMiss = NotAdmitted | QueueFull

record CapacityWaitPermit =
  wp_constraint :: CapacityConstraintKey
  wp_ticket :: u64
  wp_released :: bool

definition try_enter_wait ::
  "CapacityState \<Rightarrow> CapacityConstraintKey \<Rightarrow> u32 \<Rightarrow> i64 \<Rightarrow> i64
    \<Rightarrow> (CapacityWaitMiss + CapacityWaitPermit) \<times> CapacityState" where
  "try_enter_wait st k max_waiters now_ms deadline_ms =
     (if max_waiters = 0 \<or> deadline_ms \<le> now_ms then (Inl NotAdmitted, st)
      else let counter = counter_of st k; st1 = put_counter st k counter in
        if ct_waiting counter \<ge> max_waiters then (Inl QueueFull, st1)
        else let ticket = st_next_wait_ticket st1;
                 st2 = st1\<lparr>st_next_wait_ticket := sat_add ticket 1\<rparr>
             in (Inr \<lparr>wp_constraint = k, wp_ticket = ticket, wp_released = False\<rparr>,
                 put_counter st2 k (counter\<lparr>ct_waiting := sat_add (ct_waiting counter) 1,
                   ct_waiters := ct_waiters counter @ [ticket]\<rparr>)))"

definition permit_release :: "CapacityState \<Rightarrow> CapacityWaitPermit \<Rightarrow> CapacityWaitPermit \<times> CapacityState" where
  "permit_release st p =
     (if wp_released p then (p, st)
      else (p\<lparr>wp_released := True\<rparr>,
        (case st_counters st (wp_constraint p) of
           None \<Rightarrow> st
         | Some c \<Rightarrow> put_counter st (wp_constraint p)
             (c\<lparr>ct_waiting := sat_sub (ct_waiting c) 1,
                ct_waiters := remove1 (wp_ticket p) (ct_waiters c)\<rparr>))))"

section \<open>Misses of a planning pass\<close>

record CapacityMissObservation =
  mo_constraint :: CapacityConstraintKey
  mo_waitable :: bool
  mo_in_flight :: u32
  mo_max_concurrency :: u32

record PlanningRoundCapacityState =
  rd_unavailable_this_pass :: "CapacityMissObservation list"
  rd_wait_observations :: "CapacityMissObservation list"

definition pass_capacity_default :: PlanningRoundCapacityState where
  "pass_capacity_default = \<lparr>rd_unavailable_this_pass = [], rd_wait_observations = []\<rparr>"

definition record_miss :: "PlanningRoundCapacityState \<Rightarrow> CapacityMissObservation \<Rightarrow> PlanningRoundCapacityState" where
  "record_miss s obs =
     (let s1 = (if mo_waitable obs then s\<lparr>rd_wait_observations := rd_wait_observations s @ [obs]\<rparr> else s)
      in s1\<lparr>rd_unavailable_this_pass := rd_unavailable_this_pass s1 @ [obs]\<rparr>)"

definition pass_capacity_clear :: "PlanningRoundCapacityState \<Rightarrow> PlanningRoundCapacityState" where
  "pass_capacity_clear s = s\<lparr>rd_unavailable_this_pass := [], rd_wait_observations := []\<rparr>"

record CapacityWaitPlan =
  pl_constraint :: CapacityConstraintKey
  pl_max_waiters :: u32
  pl_timeout_ms :: i64

definition build_wait_plan ::
  "PlanningRoundCapacityState \<Rightarrow> i64 \<Rightarrow> i64 \<Rightarrow> u32 \<Rightarrow> CapacityWaitMiss + CapacityWaitPlan" where
  "build_wait_plan s now_ms deadline_ms max_waiters =
     (if deadline_ms \<le> now_ms \<or> max_waiters = 0 then Inl NotAdmitted
      else case rd_wait_observations s of
        [] \<Rightarrow> Inl NotAdmitted
      | obs # _ \<Rightarrow> Inr \<lparr>pl_constraint = mo_constraint obs, pl_max_waiters = max_waiters,
                       pl_timeout_ms = i64_sat_sub deadline_ms now_ms\<rparr>)"

section \<open>Counting\<close>

abbreviation active_nat :: "CapacityState \<Rightarrow> CapacityConstraintKey \<Rightarrow> nat" where
  "active_nat st k \<equiv> unat (active_for st k)"

lemma active_counter: "active_for st k = ct_active (counter_of st k)"
  by (simp add: active_for_def counter_of_def counter_default_def split: option.splits)

lemma active_put [simp]: "active_for (put_counter st k c) j = (if j = k then ct_active c else active_for st j)"
  by (simp add: active_for_def put_counter_def)

lemma overrides_put [simp]: "st_runtime_max_overrides (put_counter st k c) = st_runtime_max_overrides st"
  by (simp add: put_counter_def)

lemma effective_max_put [simp]: "effective_max (put_counter st k c) j m = effective_max st j m"
  by (simp add: effective_max_def)

lemma active_release_one: "active_nat (release_one k st) j = active_nat st j - (if j = k then 1 else 0)"
  by (cases "st_counters st k") (auto simp: release_one_def active_for_def put_counter_def unat_sat_sub)

lemma rollback_Cons: "rollback st (k # ks) = release_one k (rollback st ks)"
  by (simp add: rollback_def)

lemma active_rollback:
  "distinct ks \<Longrightarrow> active_nat (rollback st ks) j = active_nat st j - (if j \<in> set ks then 1 else 0)"
  by (induction ks) (auto simp: rollback_Cons active_release_one, simp add: rollback_def)

lemma ordered_constraints_distinct: "distinct (map fst (ordered_constraints r))"
  by (simp add: ordered_constraints_def split: option.splits)

text \<open>A constraint of a request admits one more lease.\<close>

definition has_room :: "CapacityState \<Rightarrow> CapacityConstraintKey \<times> u32 \<Rightarrow> bool" where
  "has_room st c = (effective_max st (fst c) (snd c) = 0 \<or> active_for st (fst c) < effective_max st (fst c) (snd c))"

definition below_max :: "CapacityState \<Rightarrow> bool" where
  "below_max st \<longleftrightarrow> (\<forall>k. active_nat st k < 2 ^ 32 - 1)"

lemma acquire_loop_spec:
  assumes "distinct (map fst cs @ acq)" "\<forall>k. k \<in> set (map fst cs) \<longrightarrow> active_nat st k < 2 ^ 32 - 1"
    and "\<forall>k \<in> set acq. 0 < active_nat st k"
  shows "if \<forall>c \<in> set cs. has_room st c
    then \<exists>st'. acquire_loop st cs acq = (Inr (acq @ map fst cs), st')
      \<and> (\<forall>k. active_nat st' k = active_nat st k + (if k \<in> set (map fst cs) then 1 else 0))
    else \<exists>k n m st'. acquire_loop st cs acq = (Inl (ConstraintUnavailable k n m), st')
      \<and> n = active_for st k \<and> 0 < m \<and> m \<le> n \<and> k \<in> set (map fst cs)
      \<and> (\<forall>k. active_nat st' k = active_nat st k - (if k \<in> set acq then 1 else 0))"
  using assms
proof (induction cs arbitrary: st acq)
  case Nil
  then show ?case by simp
next
  case (Cons c cs)
  obtain k m where c: "c = (k, m)" by (cases c)
  let ?st1 = "put_counter st k (counter_of st k)"
  have same: "active_for ?st1 j = active_for st j" for j by (simp add: active_counter [of st k])
  show ?case
  proof (cases "has_room st c")
    case False
    then have full: "effective_max st k m > 0 \<and> effective_max st k m \<le> ct_active (counter_of st k)"
      by (auto simp: has_room_def c active_counter word_gt_0)
    have "distinct acq" using Cons.prems(1) by simp
    then have "active_nat (rollback ?st1 acq) j = active_nat st j - (if j \<in> set acq then 1 else 0)" for j
      by (simp add: active_rollback same del: active_put)
    with full False show ?thesis by (auto simp: c Let_def active_counter)
  next
    case True
    define st2 where "st2 = put_counter ?st1 k ((counter_of st k)\<lparr>ct_active := sat_add (ct_active (counter_of st k)) 1,
        ct_load_denominator := effective_load_denominator (effective_max st k m) 0\<rparr>)"
    have step: "acquire_loop st (c # cs) acq = acquire_loop st2 cs (acq @ [k])"
      using True by (auto simp: c Let_def has_room_def active_counter st2_def)
    have lt: "active_nat st k < 2 ^ 32 - 1" using Cons.prems(2) c by simp
    have act: "active_nat st2 j = active_nat st j + (if j = k then 1 else 0)" for j
      using lt by (simp add: st2_def active_counter [symmetric] unat_sat_add)
    have other: "active_for st2 j = active_for st j" if "j \<noteq> k" for j
      using that by (simp add: st2_def)
    have k: "k \<notin> set (map fst cs)" "k \<notin> set acq" using Cons.prems(1) c by auto
    have room: "(\<forall>x \<in> set cs. has_room st2 x) = (\<forall>x \<in> set cs. has_room st x)"
      using k(1) by (intro ball_cong refl) (auto simp: has_room_def st2_def)
    have pre: "distinct (map fst cs @ (acq @ [k]))" "\<forall>j. j \<in> set (map fst cs) \<longrightarrow> active_nat st2 j < 2 ^ 32 - 1"
      "\<forall>j \<in> set (acq @ [k]). 0 < active_nat st2 j"
      using Cons.prems c unfolding act by (auto split: if_splits)
    note IH = Cons.IH [OF pre, unfolded room]
    show ?thesis
    proof (cases "\<forall>x \<in> set cs. has_room st x")
      case all: True
      from IH [unfolded if_P [OF all]] obtain st' where
        r: "acquire_loop st2 cs (acq @ [k]) = (Inr ((acq @ [k]) @ map fst cs), st')"
        "\<forall>j. active_nat st' j = active_nat st2 j + (if j \<in> set (map fst cs) then 1 else 0)" by blast
      from r(2) have "\<forall>j. active_nat st' j = active_nat st j + (if j \<in> set (map fst (c # cs)) then 1 else 0)"
        unfolding act using k c by auto
      with all True step r(1) c show ?thesis by simp
    next
      case some: False
      from IH [unfolded if_not_P [OF some]] obtain k' n m' st' where
        r: "acquire_loop st2 cs (acq @ [k]) = (Inl (ConstraintUnavailable k' n m'), st')"
        "n = active_for st2 k'" "0 < m'" "m' \<le> n" "k' \<in> set (map fst cs)"
        "\<forall>j. active_nat st' j = active_nat st2 j - (if j \<in> set (acq @ [k]) then 1 else 0)" by blast
      have "n = active_for st k'" using r(2,5) k(1) other by metis
      moreover from r(6) have "\<forall>j. active_nat st' j = active_nat st j - (if j \<in> set acq then 1 else 0)"
        unfolding act using k by auto
      moreover have "k' \<in> set (map fst (c # cs))" using r(5) by simp
      moreover have "\<not> (\<forall>x \<in> set (c # cs). has_room st x)" using some by simp
      ultimately show ?thesis using r(1,3,4) step by (metis (no_types, lifting))
    qed
  qed
qed

lemma try_acquire_spec:
  assumes "below_max st"
  shows "if \<forall>c \<in> set (ordered_constraints r). has_room st c
    then \<exists>st'. try_acquire st r = (Inr \<lparr>ls_constraints = map fst (ordered_constraints r), ls_released = False\<rparr>, st')
      \<and> (\<forall>k. active_nat st' k = active_nat st k + (if k \<in> set (map fst (ordered_constraints r)) then 1 else 0))
    else \<exists>k n m st'. try_acquire st r = (Inl (ConstraintUnavailable k n m), st')
      \<and> n = active_for st k \<and> 0 < m \<and> m \<le> n \<and> (\<forall>k. active_nat st' k = active_nat st k)"
proof -
  have "distinct (map fst (ordered_constraints r) @ [])" by (simp add: ordered_constraints_distinct)
  from acquire_loop_spec [OF this, of st] assms show ?thesis
    by (auto simp: try_acquire_def below_max_def split: if_splits)
qed

section \<open>The registry as a client sees it\<close>

definition registry_acquire ::
  "CapacityState \<Rightarrow> CompositeCapacityRequest \<Rightarrow> CapacityConstraintKey list option \<times> CapacityState" where
  "registry_acquire st r = (case try_acquire st r of
     (Inr l, st') \<Rightarrow> (Some (ls_constraints l), st') | (Inl _, st') \<Rightarrow> (None, st'))"

definition registry_release :: "CapacityState \<Rightarrow> CapacityConstraintKey list \<Rightarrow> CapacityState" where
  "registry_release st ks = snd (lease_release st \<lparr>ls_constraints = ks, ls_released = False\<rparr>)"

interpretation capacity: lease_registry active_nat registry_acquire registry_release "2 ^ 32 - 1"
proof
  fix st st' :: CapacityState and r :: CompositeCapacityRequest and ks :: "CapacityConstraintKey list" and k
  assume lim: "\<forall>k. active_nat st k < 2 ^ 32 - 1"
  then have b: "below_max st" by (simp add: below_max_def)
  show "distinct ks \<and> (\<forall>k. active_nat st' k = active_nat st k + (if k \<in> set ks then 1 else 0))"
    if a: "registry_acquire st r = (Some ks, st')"
  proof (cases "\<forall>c \<in> set (ordered_constraints r). has_room st c")
    case True
    from try_acquire_spec [OF b, of r, unfolded if_P [OF True]] a ordered_constraints_distinct [of r]
    show ?thesis by (elim exE conjE) (simp add: registry_acquire_def)
  next
    case False
    from try_acquire_spec [OF b, of r, unfolded if_not_P [OF False]] a
    show ?thesis by (auto simp: registry_acquire_def)
  qed
  show "\<forall>k. active_nat st' k = active_nat st k" if "registry_acquire st r = (None, st')"
    using that try_acquire_spec [OF b, of r] by (auto simp: registry_acquire_def split: if_splits)
next
  fix st :: CapacityState and ks :: "CapacityConstraintKey list" and k
  assume "distinct ks"
  then show "active_nat (registry_release st ks) k = active_nat st k - (if k \<in> set ks then 1 else 0)"
    by (simp add: registry_release_def lease_release_def active_rollback)
qed

section \<open>Properties\<close>

definition example_request :: CompositeCapacityRequest where
  "example_request = \<lparr>cr_station_id = ''st'', cr_station_key_id = ''k'', cr_half_open_probe_id = None,
     cr_global_max_concurrency = 8, cr_station_account_max_concurrency = 4,
     cr_station_key_max_concurrency = 2\<rparr>"

lemma active_capacity_default [simp]: "active_for capacity_default k = 0"
  by (simp add: active_for_def capacity_default_def)

text \<open>
  C31: acquisition is all or nothing and respects every limit. As long as no counter is saturated,
  an acquisition succeeds exactly when each of its constraints is unlimited or below its effective
  maximum; then each is counted once more, stays within its maximum, and releasing the lease
  restores every count, a second release doing nothing. Otherwise the failure names a full
  constraint and no count has changed.
\<close>
theorem try_acquire_all_or_nothing:
  assumes "below_max st"
  shows "case try_acquire st r of
    (Inr l, st') \<Rightarrow>
       (\<forall>c \<in> set (ordered_constraints r). has_room st c)
       \<and> (\<forall>k. active_nat st' k = active_nat st k + (if k \<in> fst ` set (ordered_constraints r) then 1 else 0))
       \<and> (\<forall>(k, m) \<in> set (ordered_constraints r). effective_max st k m \<noteq> 0 \<longrightarrow> active_for st' k \<le> effective_max st k m)
       \<and> (\<forall>k. active_nat (snd (lease_release st' l)) k = active_nat st k)
       \<and> lease_release st' (fst (lease_release st' l)) = (fst (lease_release st' l), st')
  | (Inl (ConstraintUnavailable k n m), st') \<Rightarrow>
       \<not> (\<forall>c \<in> set (ordered_constraints r). has_room st c)
       \<and> n = active_for st k \<and> 0 < m \<and> m \<le> n \<and> (\<forall>j. active_nat st' j = active_nat st j)"
proof (cases "\<forall>c \<in> set (ordered_constraints r). has_room st c")
  case False
  with try_acquire_spec [OF assms, of r, unfolded if_not_P [OF False]] show ?thesis by (elim exE conjE) simp
next
  case True
  let ?l = "\<lparr>ls_constraints = map fst (ordered_constraints r), ls_released = False\<rparr>"
  from True try_acquire_spec [OF assms, of r] obtain st' where
    st': "try_acquire st r = (Inr ?l, st')"
    "\<forall>k. active_nat st' k = active_nat st k + (if k \<in> set (map fst (ordered_constraints r)) then 1 else 0)"
    by auto
  have "active_for st' k \<le> effective_max st k m"
    if "(k, m) \<in> set (ordered_constraints r)" "effective_max st k m \<noteq> 0" for k m
  proof -
    have "active_for st k < effective_max st k m" using True that by (force simp: has_room_def)
    moreover have "active_nat st' k = active_nat st k + 1" using st'(2) that(1) by force
    ultimately show ?thesis by (simp add: word_le_nat_alt word_less_nat_alt)
  qed
  moreover have "active_nat (rollback st' (map fst (ordered_constraints r))) k = active_nat st k" for k
    using st'(2) by (simp add: active_rollback ordered_constraints_distinct)
  ultimately show ?thesis
    using True st' by (auto simp: lease_release_def)
qed

theorem try_acquire_all_or_nothing_witness:
  "\<forall>k. active_nat (snd (try_acquire capacity_default example_request)) k
     = (if k \<in> {CK_Global, CK_StationAccount ''st'', CK_StationKey ''k''} then 1 else 0)"
proof -
  have b: "below_max capacity_default" by (simp add: below_max_def)
  have "\<forall>c \<in> set (ordered_constraints example_request). has_room capacity_default c"
    by (simp add: has_room_def ordered_constraints_def example_request_def effective_max_def capacity_default_def)
      (simp add: active_for_def)
  then show ?thesis
    using try_acquire_all_or_nothing [OF b, of example_request]
    by (auto simp: ordered_constraints_def example_request_def split: prod.splits sum.splits CapacityAcquireFailure.splits)
qed

text \<open>
  C34: the registry never leaks and never loses capacity. From an empty registry, after any
  sequence of fewer than \<open>2 ^ 32\<close> acquisitions and releases by any clients, in any order, the
  count of every constraint is the number of outstanding leases that hold it; in particular it is
  zero again once all leases are given back.
\<close>
theorem capacity_counts_outstanding:
  assumes "length calls \<le> 2 ^ 32 - 1"
    and "run_ops (lease_step registry_acquire registry_release) (capacity_default, []) calls = (st, out)"
  shows "unat (active_for st k) = length (filter (\<lambda>l. k \<in> set l) out)"
proof -
  have "capacity.counted (capacity_default, [])" by (simp add: capacity.counted_def)
  from capacity.counted_run [OF this, of calls] assms show ?thesis by (simp add: capacity.counted_def)
qed

theorem capacity_counts_outstanding_witness:
  "\<exists>st out. run_ops (lease_step registry_acquire registry_release) (capacity_default, [])
      [Acquire example_request, Release 0] = (st, out)
    \<and> unat (active_for st CK_Global) = length (filter (\<lambda>l. CK_Global \<in> set l) out)"
proof -
  obtain st out where r: "run_ops (lease_step registry_acquire registry_release) (capacity_default, [])
      [Acquire example_request, Release 0] = (st, out)" by fastforce
  with capacity_counts_outstanding [OF _ r, of CK_Global] show ?thesis by auto
qed

end
