(* ===== verification/Admission.thy ===== *)
theory Admission
  imports PlannerCorrect Capacity
begin

text \<open>
  Route admission (\<^verbatim>\<open>routing_engine/admission.rs\<close> and the request progress of
  \<^verbatim>\<open>routing_engine/request.rs\<close>): the coordinator that, for one request, plans over the keys
  not yet excluded, acquires capacity, waits, asks for a new plan or a new snapshot, and accounts
  for the attempts that were made. Fields and events that exist only in test builds are left out;
  so is the request's facts record, which the coordinator drops.
\<close>

section \<open>Progress of a request\<close>

record RouteProgress =
  pg_ordinal :: u32
  pg_actual_attempt_exclusions :: "string set"
  pg_deadline_ms :: i64
  pg_attempt_count :: u32
  pg_snapshot_rebuild_count :: u32
  pg_runtime_rebuild_count :: u32

definition progress_new :: "i64 \<Rightarrow> RouteProgress" where
  "progress_new deadline_ms = \<lparr>pg_ordinal = 0, pg_actual_attempt_exclusions = {}, pg_deadline_ms = deadline_ms,
     pg_attempt_count = 0, pg_snapshot_rebuild_count = 0, pg_runtime_rebuild_count = 0\<rparr>"

definition progress_exclude_without_attempt :: "RouteProgress \<Rightarrow> string \<Rightarrow> bool \<times> RouteProgress" where
  "progress_exclude_without_attempt p key =
     (key \<notin> pg_actual_attempt_exclusions p,
      p\<lparr>pg_actual_attempt_exclusions := insert key (pg_actual_attempt_exclusions p)\<rparr>)"

definition progress_exclude_attempted_key :: "RouteProgress \<Rightarrow> string \<Rightarrow> bool \<times> RouteProgress" where
  "progress_exclude_attempted_key p key =
     progress_exclude_without_attempt (p\<lparr>pg_attempt_count := sat_add (pg_attempt_count p) 1\<rparr>) key"

definition progress_record_actual_attempt :: "RouteProgress \<Rightarrow> string \<Rightarrow> bool \<times> RouteProgress" where
  "progress_record_actual_attempt p key =
     progress_exclude_without_attempt (p\<lparr>pg_ordinal := sat_add (pg_ordinal p) 1,
       pg_attempt_count := sat_add (pg_attempt_count p) 1\<rparr>) key"

definition progress_record_retry_attempt :: "RouteProgress \<Rightarrow> RouteProgress" where
  "progress_record_retry_attempt p = p\<lparr>pg_ordinal := sat_add (pg_ordinal p) 1\<rparr>"

definition record_snapshot_rebuild :: "RouteProgress \<Rightarrow> RouteProgress" where
  "record_snapshot_rebuild p = p\<lparr>pg_snapshot_rebuild_count := sat_add (pg_snapshot_rebuild_count p) 1\<rparr>"

definition record_runtime_rebuild :: "RouteProgress \<Rightarrow> RouteProgress" where
  "record_runtime_rebuild p = p\<lparr>pg_runtime_rebuild_count := sat_add (pg_runtime_rebuild_count p) 1\<rparr>"

definition excludes_station_key :: "RouteProgress \<Rightarrow> string \<Rightarrow> bool" where
  "excludes_station_key p key \<longleftrightarrow> key \<in> pg_actual_attempt_exclusions p"

section \<open>Generation fence\<close>

record RoutingGenerationAdmissionGuard =
  gg_active_runtime_generation_id :: "string option"
  gg_fence_revision :: u64
  gg_fencing :: bool

datatype RoutingGenerationAdmissionDecision =
    Proceed | WaitForFence u64 | RebuildSnapshot | GenerationDeadline

definition assess_routing_generation_admission ::
  "PlanningSnapshot \<Rightarrow> RoutingGenerationAdmissionGuard \<Rightarrow> i64 \<Rightarrow> i64 \<Rightarrow> RoutingGenerationAdmissionDecision" where
  "assess_routing_generation_admission snapshot current now_ms deadline_ms =
     (if now_ms \<ge> deadline_ms then GenerationDeadline
      else if gg_fencing current then WaitForFence (gg_fence_revision current)
      else if ps_routing_runtime_generation_id snapshot \<noteq> gg_active_runtime_generation_id current
         \<or> ps_routing_generation_fence_revision snapshot \<noteq> gg_fence_revision current then RebuildSnapshot
      else Proceed)"

section \<open>Coordinator data\<close>

definition ordered_planned_candidates :: "RoutePlan \<Rightarrow> PlannedCandidate list" where
  "ordered_planned_candidates plan =
     (case min_option (map pc_tier (rp_candidates plan)) of
        None \<Rightarrow> []
      | Some best_tier \<Rightarrow>
        let selected_id = dd_selected_id (rp_dispatch plan) in
        (case find (\<lambda>c. pc_routing_identity c = selected_id) (rp_candidates plan) of
           None \<Rightarrow> [] | Some selected \<Rightarrow> [selected])
        @ filter (\<lambda>c. pc_tier c = best_tier \<and> pc_routing_identity c \<noteq> selected_id) (rp_candidates plan)
        @ filter (\<lambda>c. pc_tier c \<noteq> best_tier \<and> pc_routing_identity c \<noteq> selected_id) (rp_candidates plan))"

record CandidateAdmissionProfile =
  pf_endpoint_revision :: i64
  pf_expected_credential_revision :: i64
  pf_credential_revision :: i64
  pf_durable_generation :: u64
  pf_global_max_concurrency :: u32
  pf_station_account_max_concurrency :: u32
  pf_station_key_max_concurrency :: u32
  pf_half_open_probe_id :: "string option"

definition capacity_request :: "CandidateAdmissionProfile \<Rightarrow> RoutePlanCandidate \<Rightarrow> CompositeCapacityRequest" where
  "capacity_request profile candidate =
     \<lparr>cr_station_id = rc_station_id candidate,
      cr_station_key_id = rc_station_key_id candidate,
      cr_half_open_probe_id = pf_half_open_probe_id profile,
      cr_global_max_concurrency = pf_global_max_concurrency profile,
      cr_station_account_max_concurrency = pf_station_account_max_concurrency profile,
      cr_station_key_max_concurrency = pf_station_key_max_concurrency profile\<rparr>"

datatype ActualAttemptTerminal = FailedBeforeCommit | PossiblyAccepted | Succeeded

fun terminal_as_code :: "ActualAttemptTerminal \<Rightarrow> string" where
  "terminal_as_code FailedBeforeCommit = ''failed_before_commit''"
| "terminal_as_code PossiblyAccepted = ''possibly_accepted''"
| "terminal_as_code Succeeded = ''succeeded''"

record FallbackPolicy =
  fp_has_stable_idempotency_key :: bool
  fp_non_idempotent :: bool

definition retry_safe :: "FallbackPolicy \<Rightarrow> ActualAttemptTerminal \<Rightarrow> bool" where
  "retry_safe fp outcome \<longleftrightarrow> outcome \<noteq> PossiblyAccepted \<or> \<not> fp_non_idempotent fp \<or> fp_has_stable_idempotency_key fp"

record AdmissionSettings =
  as_deadline_ms :: i64
  as_initial_snapshot_id :: string
  as_initial_runtime_overlay_revision :: u64
  as_initial_durable_generation :: u64
  as_fallback_policy :: FallbackPolicy
  as_attempt_budget :: AttemptBudgetProfileV1

datatype AdmissionFailureKind =
    NoEligible | TemporaryHealth | CapacityExhausted | DeadlineElapsed | ConfigUnstable | AttemptLimit | CommitUncertain

datatype AdmissionTransition =
    RuntimeReplan | SnapshotRebuild | PlanSkip | CapacityMiss | CapacityAcquired | WaitEntered | AttemptTerminal

text \<open>Evidence is a code and a detail.\<close>

type_synonym AdmissionEvidence = "string \<times> string"

record AdmissionFailure =
  af_kind :: AdmissionFailureKind
  af_evidence :: "AdmissionEvidence list"

record AdmissionTraceEvent =
  te_transition :: AdmissionTransition
  te_evidence :: "AdmissionEvidence list"

record SelectedRoute =
  sr_candidate :: RoutePlanCandidate
  sr_lease :: CapacityLease
  sr_evidence :: "AdmissionEvidence list"

datatype AdmissionDecision =
    Selected SelectedRoute
  | WaitDecision CapacityConstraintKey CapacityWaitPermit
  | Replan AdmissionTransition

record RouteAdmissionCoordinator =
  co_progress :: RouteProgress
  co_snapshot_id :: string
  co_runtime_overlay_revision :: u64
  co_durable_generation :: u64
  co_pass_capacity :: PlanningRoundCapacityState
  co_fallback_policy :: FallbackPolicy
  co_model_fallback_trigger :: "FallbackTrigger option"
  co_model_fallback_rank_limit :: "u16 option"
  co_fallback_blocked :: "AdmissionFailureKind option"
  co_max_attempts :: "u32 option"
  co_candidate_target_ranks :: "string \<rightharpoonup> u16"
  co_attempted_model_target_ranks :: "u16 set"
  co_trace :: "AdmissionTraceEvent list"

record AdmissionPlanningInput =
  ai_execution_candidates :: "RoutePlanCandidate list"
  ai_planning_snapshot :: PlanningSnapshot
  ai_profiles :: "string \<rightharpoonup> CandidateAdmissionProfile"
  ai_current_runtime_overlay_revision :: u64
  ai_now_ms :: i64
  ai_max_waiters_per_constraint :: u32

definition MAX_RUNTIME_ONLY_REPLANS :: u32 where
  "MAX_RUNTIME_ONLY_REPLANS = 8"

section \<open>Coordinator helpers\<close>

definition coordinator_new :: "AdmissionSettings \<Rightarrow> RouteAdmissionCoordinator" where
  "coordinator_new settings =
     \<lparr>co_progress = progress_new (as_deadline_ms settings),
      co_snapshot_id = as_initial_snapshot_id settings,
      co_runtime_overlay_revision = as_initial_runtime_overlay_revision settings,
      co_durable_generation = as_initial_durable_generation settings,
      co_pass_capacity = pass_capacity_default,
      co_fallback_policy = as_fallback_policy settings,
      co_model_fallback_trigger = None,
      co_model_fallback_rank_limit = None,
      co_fallback_blocked = None,
      co_max_attempts = Some (ab_max_total_attempts (as_attempt_budget settings)),
      co_candidate_target_ranks = Map.empty,
      co_attempted_model_target_ranks = {},
      co_trace = []\<rparr>"

definition admission_failure :: "AdmissionFailureKind \<Rightarrow> string \<Rightarrow> AdmissionFailure" where
  "admission_failure kind detail = \<lparr>af_kind = kind, af_evidence = [(''failure'', detail)]\<rparr>"

definition trace_event :: "AdmissionTransition \<Rightarrow> string \<Rightarrow> RouteAdmissionCoordinator \<Rightarrow> RouteAdmissionCoordinator" where
  "trace_event transition detail co =
     (let trace = co_trace co @ [\<lparr>te_transition = transition, te_evidence = [(''reason'', detail)]\<rparr>]
      in co\<lparr>co_trace := (if length trace > 64 then drop 1 trace else trace)\<rparr>)"

definition clear_pass :: "RouteAdmissionCoordinator \<Rightarrow> RouteAdmissionCoordinator" where
  "clear_pass co = co\<lparr>co_pass_capacity := pass_capacity_clear (co_pass_capacity co)\<rparr>"

definition intelligent_planner_failure :: "PlannerError \<Rightarrow> AdmissionFailure" where
  "intelligent_planner_failure e =
     (case e of
        InvalidSnapshot detail \<Rightarrow>
          \<lparr>af_kind = ConfigUnstable, af_evidence = [(''invalid_planning_snapshot'', detail)]\<rparr>
      | NoEligibleCandidate \<Rightarrow> admission_failure NoEligible ''no_available_key''
      | RuntimeAtCapacity \<Rightarrow> admission_failure CapacityExhausted ''runtime_at_capacity'')"

definition wait_failure :: "CapacityWaitMiss \<Rightarrow> AdmissionFailure" where
  "wait_failure miss = admission_failure CapacityExhausted
     (case miss of NotAdmitted \<Rightarrow> ''wait_not_admitted'' | QueueFull \<Rightarrow> ''wait_queue_full'')"

definition candidate_population_failure :: "PlanningSnapshot \<Rightarrow> string option" where
  "candidate_population_failure s =
     (if ps_configured_key_count s = 0 then Some ''no_configured_key''
      else if ps_capability_match_count s = 0 then Some ''capability_mismatch''
      else if ps_candidate_cap_count s = 0 then Some ''static_candidate_unavailable''
      else None)"

definition miss_observation :: "CapacityAcquireFailure \<Rightarrow> CapacityMissObservation" where
  "miss_observation failure =
     (case failure of ConstraintUnavailable constraint in_flight max_concurrency \<Rightarrow>
        \<lparr>mo_constraint = constraint,
         mo_waitable = (case constraint of CK_HalfOpen _ \<Rightarrow> False | _ \<Rightarrow> True),
         mo_in_flight = in_flight, mo_max_concurrency = max_concurrency\<rparr>)"

definition retry_exhausted_fallback_is_open ::
  "CandidateSnapshot list \<Rightarrow> RouteProgress \<Rightarrow> u16 set \<Rightarrow> bool" where
  "retry_exhausted_fallback_is_open candidates progress attempted_target_ranks =
     (0 \<in> attempted_target_ranks \<or>
      list_ex (\<lambda>c. excludes_station_key progress (cs_station_key_id c)
        \<and> (cs_model_variants c = [] \<or> list_ex (\<lambda>v. mv_target_rank v = 0) (cs_model_variants c))) candidates)"

definition model_fallback_rank_allowed :: "u16 option \<Rightarrow> u16 \<Rightarrow> bool" where
  "model_fallback_rank_allowed rank_limit target_rank =
     (case rank_limit of None \<Rightarrow> True | Some l \<Rightarrow> target_rank \<le> l)"

definition tighten_model_fallback_rank_limit :: "u16 option \<Rightarrow> u16 \<Rightarrow> u16" where
  "tighten_model_fallback_rank_limit current failed_rank =
     (case current of None \<Rightarrow> failed_rank | Some c \<Rightarrow> min c failed_rank)"

definition capacity_state_blocks_candidate ::
  "RouteAdmissionCoordinator \<Rightarrow> RoutePlanCandidate \<Rightarrow> CandidateAdmissionProfile \<Rightarrow> bool" where
  "capacity_state_blocks_candidate co candidate profile =
     list_ex (\<lambda>miss. case mo_constraint miss of
         CK_Global \<Rightarrow> True
       | CK_StationAccount station_id \<Rightarrow> station_id = rc_station_id candidate
       | CK_StationKey station_key_id \<Rightarrow> station_key_id = rc_station_key_id candidate
       | CK_HalfOpen half_open_probe_id \<Rightarrow> pf_half_open_probe_id profile = Some half_open_probe_id)
       (rd_unavailable_this_pass (co_pass_capacity co))"

definition profile_invalidates_candidate ::
  "RouteAdmissionCoordinator \<Rightarrow> RoutePlanCandidate \<Rightarrow> CandidateAdmissionProfile \<Rightarrow> bool" where
  "profile_invalidates_candidate co candidate profile \<longleftrightarrow>
     pf_endpoint_revision profile \<noteq> rc_endpoint_revision candidate
   \<or> pf_credential_revision profile \<noteq> pf_expected_credential_revision profile
   \<or> pf_durable_generation profile \<noteq> co_durable_generation co"

definition rebuild_or_fail_config ::
  "RouteAdmissionCoordinator \<Rightarrow> CandidateAdmissionProfile
    \<Rightarrow> (AdmissionFailure + AdmissionDecision) \<times> RouteAdmissionCoordinator" where
  "rebuild_or_fail_config co profile =
     (if pg_snapshot_rebuild_count (co_progress co) > 0
      then (Inl (admission_failure ConfigUnstable ''config_fence_changed_after_rebuild''), co)
      else (Inr (Replan SnapshotRebuild),
        trace_event SnapshotRebuild ''candidate_fence_changed''
          (clear_pass (co\<lparr>co_progress := record_snapshot_rebuild (co_progress co),
             co_durable_generation := pf_durable_generation profile,
             co_snapshot_id := ''snapshot-generation-'' @ show_nat (unat (pf_durable_generation profile))\<rparr>))))"

text \<open>\<^verbatim>\<open>BasisPoints\<close> and \<^verbatim>\<open>bool\<close> as \<^verbatim>\<open>to_string\<close> prints them.\<close>

definition bp_to_string :: "BasisPoints \<Rightarrow> string" where
  "bp_to_string b = show_nat (unat (bp_get b)) @ ''bp''"

definition bool_to_string :: "bool \<Rightarrow> string" where
  "bool_to_string b = (if b then ''true'' else ''false'')"

text \<open>
  The candidate that is executed: the one of the input with the planned routing identity, with tier,
  evidence and variant of the plan. (The tiers of planner and execution candidate are one type here.)
\<close>

definition execution_candidate ::
  "RoutePlanCandidate list \<Rightarrow> RoutePlan \<Rightarrow> PlannedCandidate \<Rightarrow> RoutePlanCandidate option" where
  "execution_candidate candidates plan planned =
     map_option (\<lambda>base. base\<lparr>rc_tier := pc_tier planned,
        rc_evidence := [(''planner_snapshot'', rp_snapshot_id plan),
          (''utility_score'', bp_to_string (pc_utility planned)),
          (''base_utility_score'', bp_to_string (pc_base_utility planned)),
          (''affinity_bonus'', bp_to_string (pc_affinity_bonus planned)),
          (''affinity_applied'', bool_to_string (pc_affinity_applied planned))],
        rc_model_variant := pc_variant planned,
        rc_resolved_upstream_model := option_or (map_option mv_upstream_model (pc_variant planned))
          (rc_resolved_upstream_model base)\<rparr>)
       (find (\<lambda>c. routing_identity c = pc_routing_identity planned) candidates)"

section \<open>The admission pass\<close>

text \<open>
  The loop over the planned candidates of the best rank. \<open>None\<close> means that the loop ended without
  a return. The registry is seen by this pass alone between its calls.
\<close>

fun admission_loop ::
  "AdmissionPlanningInput \<Rightarrow> RoutePlan \<Rightarrow> PlannedCandidate list \<Rightarrow> RouteAdmissionCoordinator \<Rightarrow> CapacityState
    \<Rightarrow> (AdmissionFailure + AdmissionDecision) option \<times> RouteAdmissionCoordinator \<times> CapacityState" where
  "admission_loop input plan [] co cap = (None, co, cap)"
| "admission_loop input plan (planned # rest) co cap =
     (case execution_candidate (ai_execution_candidates input) plan planned of
        None \<Rightarrow> (Some (Inl (admission_failure ConfigUnstable ''candidate_snapshot_missing'')), co, cap)
      | Some candidate \<Rightarrow>
        (case ai_profiles input (rc_station_key_id candidate) of
           None \<Rightarrow> (Some (Inl (admission_failure ConfigUnstable ''missing_profile'')), co, cap)
         | Some profile \<Rightarrow>
           if capacity_state_blocks_candidate co candidate profile
           then admission_loop input plan rest
             (trace_event PlanSkip ''candidate_unavailable_this_pass'' co) cap
           else if profile_invalidates_candidate co candidate profile
           then (let (r, co') = rebuild_or_fail_config co profile in (Some r, co', cap))
           else (case try_acquire cap (capacity_request profile candidate) of
              (Inr lease, cap') \<Rightarrow>
                (Some (Inr (Selected \<lparr>sr_candidate = candidate, sr_lease = lease,
                   sr_evidence = [(''selected'', rc_station_key_id candidate)]\<rparr>)),
                 trace_event CapacityAcquired ''capacity_lease_acquired'' co, cap')
            | (Inl failure, cap') \<Rightarrow>
                admission_loop input plan rest
                  (trace_event CapacityMiss ''capacity_miss''
                    (co\<lparr>co_pass_capacity := record_miss (co_pass_capacity co) (miss_observation failure)\<rparr>))
                  cap')))"

definition wait_phase ::
  "AdmissionPlanningInput \<Rightarrow> RouteAdmissionCoordinator \<Rightarrow> CapacityState
    \<Rightarrow> (AdmissionFailure + AdmissionDecision) \<times> RouteAdmissionCoordinator \<times> CapacityState" where
  "wait_phase input co cap =
     (let deadline_ms = pg_deadline_ms (co_progress co) in
      case build_wait_plan (co_pass_capacity co) (ai_now_ms input) deadline_ms (ai_max_waiters_per_constraint input) of
        Inl _ \<Rightarrow> (Inl (admission_failure CapacityExhausted ''all_strata_capacity_exhausted''), co, cap)
      | Inr plan \<Rightarrow>
        (case try_enter_wait cap (pl_constraint plan) (pl_max_waiters plan) (ai_now_ms input) deadline_ms of
           (Inr permit, cap') \<Rightarrow>
             (Inr (WaitDecision (pl_constraint plan) permit),
              trace_event WaitEntered ''capacity_wait_entered'' co, cap')
         | (Inl miss, cap') \<Rightarrow> (Inl (wait_failure miss), co, cap')))"

definition target_ranks :: "CandidateSnapshot list \<Rightarrow> (string \<times> u16) list" where
  "target_ranks candidates = concat (map (\<lambda>c.
     if cs_model_variants c = [] then [(cs_station_key_id c, 0)]
     else map (\<lambda>v. (identity_key v, mv_target_rank v)) (cs_model_variants c)) candidates)"

definition working_snapshot :: "RouteProgress \<Rightarrow> PlanningSnapshot \<Rightarrow> PlanningSnapshot" where
  "working_snapshot progress s =
     s\<lparr>ps_candidates := filter (\<lambda>c. \<not> excludes_station_key progress (cs_station_key_id c)) (ps_candidates s)\<rparr>"

definition runtime_replan ::
  "AdmissionPlanningInput \<Rightarrow> RouteAdmissionCoordinator
    \<Rightarrow> (AdmissionFailure + AdmissionDecision) \<times> RouteAdmissionCoordinator" where
  "runtime_replan input co =
     (let co1 = clear_pass (co\<lparr>co_progress := record_runtime_rebuild (co_progress co)\<rparr>);
          co2 = trace_event RuntimeReplan ''runtime_overlay_revision_changed''
            (co1\<lparr>co_runtime_overlay_revision := ai_current_runtime_overlay_revision input\<rparr>)
      in if pg_runtime_rebuild_count (co_progress co2) > MAX_RUNTIME_ONLY_REPLANS
         then (Inl (admission_failure TemporaryHealth ''runtime_replan_limit_exceeded''), co2)
         else (Inr (Replan RuntimeReplan), co2))"

text \<open>The checks on a plan before its candidates are tried, and the rank they are tried on.\<close>

definition plan_gate ::
  "AdmissionPlanningInput \<Rightarrow> RouteAdmissionCoordinator \<Rightarrow> RoutePlan \<Rightarrow> (AdmissionFailure + u16) run" where
  "plan_gate input co plan =
     (if rp_candidates plan = [] then Done (Inl (admission_failure NoEligible ''no_available_key''))
      else run_bind (expect ''attempt budget is required by admission settings'' (co_max_attempts co)) (\<lambda>max_attempts.
        if pg_attempt_count (co_progress co) \<ge> max_attempts
        then Done (Inl (admission_failure AttemptLimit ''attempt_limit_reached''))
        else let best_target_rank = (case min_option (map pc_target_rank (rp_candidates plan)) of
               None \<Rightarrow> 0 | Some r \<Rightarrow> r)
          in if \<not> model_fallback_rank_allowed (co_model_fallback_rank_limit co) best_target_rank
             then Done (Inl (admission_failure AttemptLimit ''model_fallback_rank_limit_reached''))
             else if co_model_fallback_trigger co = Some RetryExhaustedBeforeOutput \<and> best_target_rank > 0
               \<and> \<not> retry_exhausted_fallback_is_open (ps_candidates (ai_planning_snapshot input))
                     (co_progress co) (co_attempted_model_target_ranks co)
             then Done (Inl (admission_failure NoEligible ''fallback_requires_rank_zero_attempt''))
             else Done (Inr best_target_rank)))"

definition admission_next ::
  "(string \<Rightarrow> u8 list) \<Rightarrow> AdmissionPlanningInput \<Rightarrow> RouteAdmissionCoordinator \<Rightarrow> CapacityState
    \<Rightarrow> ((AdmissionFailure + AdmissionDecision) \<times> RouteAdmissionCoordinator \<times> CapacityState) run" where
  "admission_next sha256 input co cap =
     (case co_fallback_blocked co of
        Some kind \<Rightarrow> Done (Inl (admission_failure kind ''fallback_blocked''), co, cap)
      | None \<Rightarrow>
        if ai_now_ms input \<ge> pg_deadline_ms (co_progress co)
        then Done (Inl (admission_failure DeadlineElapsed ''deadline_elapsed''), co, cap)
        else if ai_current_runtime_overlay_revision input \<noteq> co_runtime_overlay_revision co
        then (let (r, co') = runtime_replan input co in Done (r, co', cap))
        else
          let s = ai_planning_snapshot input;
              co1 = co\<lparr>co_model_fallback_trigger := ps_model_fallback_trigger s\<rparr> in
          (case candidate_population_failure s of
             Some detail \<Rightarrow> Done (Inl (admission_failure NoEligible detail), co1, cap)
           | None \<Rightarrow>
             let co2 = co1\<lparr>co_candidate_target_ranks := map_of (rev (target_ranks (ps_candidates s)))\<rparr> in
             run_bind (plan_snapshot sha256 (working_snapshot (co_progress co2) s)) (\<lambda>planned.
               case planned of
                 Inl e \<Rightarrow> Done (Inl (intelligent_planner_failure e), co2, cap)
               | Inr plan \<Rightarrow>
                 run_bind (plan_gate input co2 plan) (\<lambda>gate.
                   case gate of
                     Inl failure \<Rightarrow> Done (Inl failure, co2, cap)
                   | Inr best_target_rank \<Rightarrow>
                     (case admission_loop input plan
                         (filter (\<lambda>p. pc_target_rank p = best_target_rank) (ordered_planned_candidates plan))
                         co2 cap of
                        (Some r, co', cap') \<Rightarrow> Done (r, co', cap')
                      | (None, co', cap') \<Rightarrow> Done (wait_phase input co' cap'))))))"

section \<open>Accounting for attempts\<close>

definition record_actual_terminal_for_station_key ::
  "RouteAdmissionCoordinator \<Rightarrow> string \<Rightarrow> string \<Rightarrow> ActualAttemptTerminal
    \<Rightarrow> (AdmissionFailure + unit) \<times> RouteAdmissionCoordinator" where
  "record_actual_terminal_for_station_key co station_key_id identity outcome =
     (let rank = co_candidate_target_ranks co identity;
          co1 = co\<lparr>co_progress := snd (progress_record_actual_attempt (co_progress co) station_key_id),
                 co_attempted_model_target_ranks := (case rank of
                   None \<Rightarrow> co_attempted_model_target_ranks co
                 | Some r \<Rightarrow> insert r (co_attempted_model_target_ranks co))\<rparr>;
          co2 = trace_event AttemptTerminal (terminal_as_code outcome) (clear_pass co1);
          co3 = (if co_model_fallback_trigger co2 = Some NoEligibleTarget \<and> outcome = FailedBeforeCommit
                 then co2\<lparr>co_model_fallback_rank_limit := Some (tighten_model_fallback_rank_limit
                   (co_model_fallback_rank_limit co2) (case rank of None \<Rightarrow> 0 | Some r \<Rightarrow> r))\<rparr>
                 else co2)
      in if \<not> retry_safe (co_fallback_policy co3) outcome
         then (Inl (admission_failure CommitUncertain ''possibly_accepted_without_idempotency_key''),
               co3\<lparr>co_fallback_blocked := Some CommitUncertain\<rparr>)
         else (Inr (), co3))"

definition record_retry_attempt :: "RouteAdmissionCoordinator \<Rightarrow> RouteAdmissionCoordinator" where
  "record_retry_attempt co =
     trace_event AttemptTerminal ''retry_current_key''
       (clear_pass (co\<lparr>co_progress := progress_record_retry_attempt (co_progress co)\<rparr>))"

definition exclude_attempted_key :: "RouteAdmissionCoordinator \<Rightarrow> string \<Rightarrow> RouteAdmissionCoordinator" where
  "exclude_attempted_key co key =
     trace_event AttemptTerminal ''key_circuit_opened''
       (clear_pass (co\<lparr>co_progress := snd (progress_exclude_attempted_key (co_progress co) key)\<rparr>))"

definition exclude_station_key :: "RouteAdmissionCoordinator \<Rightarrow> string \<Rightarrow> bool \<times> RouteAdmissionCoordinator" where
  "exclude_station_key co key =
     (if key = [] then (False, co)
      else let (fresh, progress) = progress_exclude_without_attempt (co_progress co) key
           in (fresh, co\<lparr>co_progress := progress\<rparr>))"

definition remaining_additional_key_budget :: "RouteAdmissionCoordinator \<Rightarrow> u32" where
  "remaining_additional_key_budget co =
     sat_sub (sat_sub (case co_max_attempts co of None \<Rightarrow> 1 | Some m \<Rightarrow> m) (pg_attempt_count (co_progress co))) 1"

end
