(* ===== verification/AdmissionPass.thy ===== *)
theory AdmissionPass
  imports Admission
begin

text \<open>
  One admission pass, analysed: which routes it can select and why, what it does to the capacity
  registry, which fields of the coordinator it keeps and what it spends of the replan budget. The
  properties of admission are in \<open>AdmissionCorrect\<close>.
\<close>

section \<open>Where planned candidates come from\<close>

definition variant_ranked :: "PlannedCandidate \<Rightarrow> bool" where
  "variant_ranked p \<longleftrightarrow> pc_target_rank p = (case pc_variant p of None \<Rightarrow> 0 | Some v \<Rightarrow> mv_target_rank v)"

lemma planned_candidate_ranked: "planned_candidate c v policy ref = Done (Some p) \<Longrightarrow> variant_ranked p"
  by (auto simp: planned_candidate_def variant_ranked_def Let_def run_bind_Done_iff
      split: if_splits option.splits)

lemma affinity_boost_ranked [simp]: "variant_ranked (affinity_boost profile p) = variant_ranked p"
  by (simp add: affinity_boost_def variant_ranked_def Let_def split: option.splits)

lemma run_map_mem:
  "run_map f xs = Done ys \<Longrightarrow> y \<in> set ys \<Longrightarrow> \<exists>x \<in> set xs. f x = Done y"
proof (induction xs arbitrary: ys)
  case (Cons x xs)
  from Cons.prems(1) obtain z zs where z: "f x = Done z" "run_map f xs = Done zs" "ys = z # zs"
    by (auto simp: run_bind_Done_iff)
  with Cons.IH [OF z(2)] Cons.prems(2) show ?case by auto
qed simp

lemma planned_candidates_ranked:
  assumes "planned_candidates s = Done ps" "p \<in> set ps"
  shows "variant_ranked p"
proof -
  let ?f = "\<lambda>(c, v). planned_candidate c v (ps_policy s) (cost_reference (ps_candidates s))"
  from assms obtain os where os: "run_map ?f (plan_pairs (ps_candidates s)) = Done os" "Some p \<in> set os"
    by (auto simp: planned_candidates_def run_bind_Done_iff List.map_filter_def)
  from run_map_mem [OF os] obtain c v where "planned_candidate c v (ps_policy s) (cost_reference (ps_candidates s)) = Done (Some p)"
    by auto
  then show ?thesis by (rule planned_candidate_ranked)
qed

lemma affinity_correction_ranked:
  assumes "\<forall>p \<in> set ps. variant_ranked p" "q \<in> set (apply_affinity_correction ps cands policy profile key)"
  shows "variant_ranked q"
  using assms by (auto simp: apply_affinity_correction_def Let_def split: option.splits if_splits)

text \<open>Everything admission needs of a plan.\<close>

lemma plan_facts:
  assumes "plan_snapshot sha s = Done (Inr plan)"
  shows "snapshot_validate s = Inr ()"
    and "sorted_wrt planned_le (rp_candidates plan)"
    and "rp_candidates plan \<noteq> []"
    and "dd_selected_id (rp_dispatch plan) = pc_routing_identity (hd (rp_candidates plan))"
    and "mset (map plan_entry (rp_candidates plan)) = mset (map expected_entry (eligible_pairs s))"
    and "\<forall>p \<in> set (rp_candidates plan). variant_ranked p"
proof -
  have v: "snapshot_validate s = Inr ()" and f: "ro_in_flight (ps_runtime s) < ro_max_concurrency (ps_runtime s)"
    using assms by (auto simp: plan_snapshot_def not_le split: sum.splits if_splits)
  show "snapshot_validate s = Inr ()" by (rule v)
  obtain ps qs where ps: "planned_candidates s = Done ps" "\<forall>p \<in> set ps. fresh p"
    "map plan_entry ps = map expected_entry (eligible_pairs s)"
    and qs: "qs = apply_affinity_correction ps (ps_candidates s) (ps_policy s) (ps_profile s)
              (ro_affinity_station_key_id (ps_runtime s))" "qs \<noteq> []"
    and rp: "rp_candidates plan = sort_by planned_le qs"
      "dd_selected_id (rp_dispatch plan) = pc_routing_identity (hd (rp_candidates plan))"
    by (rule plan_snapshot_spec [OF v f, of sha]) (use assms in auto)
  show "sorted_wrt planned_le (rp_candidates plan)" by (simp add: rp planned.sorted_sort_by)
  show "rp_candidates plan \<noteq> []" using qs by (simp add: rp)
  show "dd_selected_id (rp_dispatch plan) = pc_routing_identity (hd (rp_candidates plan))" by (rule rp)
  have "mset (map plan_entry (rp_candidates plan)) = mset (map plan_entry qs)" by (simp add: rp mset_map)
  also have "\<dots> = mset (map plan_entry ps)"
    using affinity_entries [OF affinity_correction_spec [OF ps(2)]] qs(1) by metis
  finally show "mset (map plan_entry (rp_candidates plan)) = mset (map expected_entry (eligible_pairs s))"
    using ps(3) by simp
  have "\<forall>q \<in> set qs. variant_ranked q"
    using affinity_correction_ranked planned_candidates_ranked [OF ps(1)] qs(1) by blast
  moreover have "set (rp_candidates plan) = set qs" using rp(1) by (metis mset_sort_by set_mset_mset)
  ultimately show "\<forall>p \<in> set (rp_candidates plan). variant_ranked p" by simp
qed

lemma plan_candidate_origin:
  assumes "plan_snapshot sha s = Done (Inr plan)" "p \<in> set (rp_candidates plan)"
  obtains c v where "(c, v) \<in> set (plan_pairs (ps_candidates s))" "c \<in> set (ps_candidates s)"
    "eligible (ps_policy s) c" "plan_entry p = expected_entry (c, v)"
proof -
  have "set (map plan_entry (rp_candidates plan)) = set (map expected_entry (eligible_pairs s))"
    using plan_facts(5) [OF assms(1)] by (metis set_mset_mset)
  with assms(2) obtain x where x: "x \<in> set (eligible_pairs s)" "plan_entry p = expected_entry x" by force
  obtain c v where cv: "x = (c, v)" by (cases x)
  with x have "(c, v) \<in> set (plan_pairs (ps_candidates s))" "eligible (ps_policy s) c"
    by (auto simp: eligible_pairs_def)
  with that [of c v] x cv plan_pairs_fst show ?thesis by blast
qed

section \<open>The order in which candidates are tried\<close>

lemma filter_two_tiers:
  fixes f :: "'a \<Rightarrow> 'b::linorder"
  assumes "sorted_wrt (\<lambda>x y. f x \<le> f y) xs" "\<forall>x \<in> set xs. t \<le> f x"
  shows "filter (\<lambda>x. f x = t) xs @ filter (\<lambda>x. f x \<noteq> t) xs = xs"
  using assms
proof (induction xs)
  case (Cons x xs)
  show ?case
  proof (cases "f x = t")
    case False
    with Cons.prems have "\<forall>y \<in> set xs. f y \<noteq> t" by force
    then have "filter (\<lambda>x. f x = t) xs = []" "filter (\<lambda>x. f x \<noteq> t) xs = xs"
      by (auto simp: filter_empty_conv filter_id_conv)
    with False show ?thesis by simp
  qed (use Cons in simp)
qed simp

lemma ordered_best_rank:
  assumes "plan_snapshot sha s = Done (Inr plan)"
    and "distinct (map pc_routing_identity (rp_candidates plan))"
    and "r = Min (pc_target_rank ` set (rp_candidates plan))"
  shows "filter (\<lambda>p. pc_target_rank p = r) (ordered_planned_candidates plan)
    = filter (\<lambda>p. pc_target_rank p = r) (rp_candidates plan)"
proof -
  obtain p ps where ps: "rp_candidates plan = p # ps" using plan_facts(3) [OF assms(1)] by (cases "rp_candidates plan") auto
  define t where "t = Min (pc_tier ` set (p # ps))"
  have t: "min_option (map pc_tier (rp_candidates plan)) = Some t" by (simp add: ps t_def min_option_Some)
  have sorted: "sorted_wrt planned_le (p # ps)" using plan_facts(2) [OF assms(1)] ps by simp
  have "\<forall>q \<in> set (p # ps). pc_target_rank p \<le> pc_target_rank q" using sorted by (auto simp: planned_le_def)
  then have rp: "r = pc_target_rank p" using assms(3) ps by (auto intro!: Min_eqI)
  have "sorted_wrt planned_le (filter (\<lambda>q. pc_target_rank q = r) ps)"
    using sorted by (simp add: sorted_wrt_filter)
  then have st: "sorted_wrt (\<lambda>x y. pc_tier x \<le> pc_tier y) (filter (\<lambda>q. pc_target_rank q = r) ps)"
    by (rule sorted_wrt_mono_rel [rotated]) (auto simp: planned_le_def)
  have "\<forall>q \<in> set (filter (\<lambda>q. pc_target_rank q = r) ps). t \<le> pc_tier q" by (auto simp: t_def)
  from filter_two_tiers [OF st this]
  have two: "filter (\<lambda>q. pc_tier q = t) (filter (\<lambda>q. pc_target_rank q = r) ps)
      @ filter (\<lambda>q. pc_tier q \<noteq> t) (filter (\<lambda>q. pc_target_rank q = r) ps) = filter (\<lambda>q. pc_target_rank q = r) ps" .
  have fresh: "\<forall>q \<in> set ps. pc_routing_identity q \<noteq> pc_routing_identity p" using assms(2) ps by (auto simp: image_iff)
  have "filter (\<lambda>c. P c \<and> pc_routing_identity c \<noteq> pc_routing_identity p) ps = filter P ps" for P
    using fresh by (auto intro: filter_cong)
  then show ?thesis
    using two plan_facts(4) [OF assms(1)] ps t rp
    by (simp add: ordered_planned_candidates_def Let_def) (simp add: conj_commute)
qed

section \<open>What a failed acquisition says\<close>

lemma overrides_release_one [simp]: "st_runtime_max_overrides (release_one k st) = st_runtime_max_overrides st"
  by (simp add: release_one_def split: option.splits)

lemma overrides_rollback [simp]: "st_runtime_max_overrides (rollback st ks) = st_runtime_max_overrides st"
  by (induction ks) (simp add: rollback_def, simp add: rollback_Cons)

lemma overrides_acquire_loop:
  "st_runtime_max_overrides (snd (acquire_loop st cs acq)) = st_runtime_max_overrides st"
  by (induction st cs acq rule: acquire_loop.induct) (simp_all add: Let_def)

lemma acquire_loop_names_constraint:
  "fst (acquire_loop st cs acq) = Inl (ConstraintUnavailable k n m)
    \<Longrightarrow> \<exists>m0. (k, m0) \<in> set cs \<and> m = effective_max st k m0"
proof (induction cs arbitrary: st acq)
  case (Cons c cs)
  obtain j r where c: "c = (j, r)" by (cases c)
  show ?case
  proof (cases "0 < effective_max st j r \<and> effective_max st j r \<le> ct_active (counter_of st j)")
    case True
    with Cons.prems c show ?thesis by (auto simp: Let_def)
  next
    case False
    define st' where "st' = put_counter (put_counter st j (counter_of st j)) j
      ((counter_of st j)\<lparr>ct_active := sat_add (ct_active (counter_of st j)) 1,
        ct_load_denominator := effective_load_denominator (effective_max st j r) 0\<rparr>)"
    have "acquire_loop st (c # cs) acq = acquire_loop st' cs (acq @ [j])"
      using False by (auto simp: c Let_def st'_def)
    with Cons.prems have "fst (acquire_loop st' cs (acq @ [j])) = Inl (ConstraintUnavailable k n m)" by simp
    from Cons.IH [OF this] have "\<exists>m0. (k, m0) \<in> set cs \<and> m = effective_max st k m0" by (simp add: st'_def)
    with c show ?thesis by auto
  qed
qed simp

text \<open>Two registry states a client cannot tell apart by acquiring.\<close>

definition same_room :: "CapacityState \<Rightarrow> CapacityState \<Rightarrow> bool" where
  "same_room a b \<longleftrightarrow> st_runtime_max_overrides a = st_runtime_max_overrides b \<and> (\<forall>k. active_for a k = active_for b k)"

lemma same_room_refl [simp]: "same_room a a"
  by (simp add: same_room_def)

lemma same_room_trans: "same_room a b \<Longrightarrow> same_room b c \<Longrightarrow> same_room a c"
  by (simp add: same_room_def)

lemma has_room_same: "same_room a b \<Longrightarrow> has_room a c = has_room b c"
  by (simp add: same_room_def has_room_def effective_max_def)

lemma below_max_same: "same_room a b \<Longrightarrow> below_max a \<Longrightarrow> below_max b"
  by (simp add: same_room_def below_max_def)

lemma try_acquire_failed:
  assumes "below_max cap" "try_acquire cap r = (Inl f, cap')"
  shows "same_room cap cap'"
    and "\<exists>m. (mo_constraint (miss_observation f), m) \<in> set (ordered_constraints r)
           \<and> \<not> has_room cap (mo_constraint (miss_observation f), m)"
proof -
  have no: "\<not> (\<forall>c \<in> set (ordered_constraints r). has_room cap c)"
    using try_acquire_spec [OF assms(1), of r] assms(2) by (auto split: if_splits)
  obtain k n m where f: "f = ConstraintUnavailable k n m" "n = active_for cap k" "0 < m" "m \<le> n"
    and same: "\<forall>k. active_nat cap' k = active_nat cap k"
    using try_acquire_spec [OF assms(1), of r, unfolded if_not_P [OF no]] assms(2) by auto
  have loop: "acquire_loop cap (ordered_constraints r) [] = (Inl f, cap')"
    using assms(2) by (auto simp: try_acquire_def split: prod.splits sum.splits)
  from overrides_acquire_loop [of cap "ordered_constraints r" "[]"] loop
  have "st_runtime_max_overrides cap' = st_runtime_max_overrides cap" by simp
  moreover have "active_for cap' j = active_for cap j" for j using same by (simp add: word_unat_eq_iff)
  ultimately show "same_room cap cap'" by (simp add: same_room_def)
  obtain m0 where "(k, m0) \<in> set (ordered_constraints r)" "m = effective_max cap k m0"
    using acquire_loop_names_constraint [of cap "ordered_constraints r" "[]" k n m] loop f(1) by auto
  then show "\<exists>m. (mo_constraint (miss_observation f), m) \<in> set (ordered_constraints r)
      \<and> \<not> has_room cap (mo_constraint (miss_observation f), m)"
    using f by (auto simp: miss_observation_def has_room_def)
qed

section \<open>One admission pass\<close>

text \<open>The capacity request an admission pass makes for a planned candidate.\<close>

definition route_request ::
  "AdmissionPlanningInput \<Rightarrow> RoutePlan \<Rightarrow> PlannedCandidate \<Rightarrow> CompositeCapacityRequest option" where
  "route_request input plan p =
     Option.bind (execution_candidate (ai_execution_candidates input) plan p) (\<lambda>c.
       map_option (\<lambda>pf. capacity_request pf c) (ai_profiles input (rc_station_key_id c)))"

lemma blocks_iff:
  "capacity_state_blocks_candidate co c pf \<longleftrightarrow>
     (\<exists>miss \<in> set (rd_unavailable_this_pass (co_pass_capacity co)).
        mo_constraint miss \<in> fst ` set (ordered_constraints (capacity_request pf c)))"
proof -
  have "(case k of CK_Global \<Rightarrow> True | CK_StationAccount i \<Rightarrow> i = rc_station_id c
      | CK_StationKey i \<Rightarrow> i = rc_station_key_id c | CK_HalfOpen i \<Rightarrow> pf_half_open_probe_id pf = Some i)
    \<longleftrightarrow> k \<in> fst ` set (ordered_constraints (capacity_request pf c))" for k
    by (cases k) (auto simp: ordered_constraints_def capacity_request_def split: option.splits)
  then show ?thesis by (simp add: capacity_state_blocks_candidate_def list_ex_iff)
qed

lemma trace_event_fields [simp]:
  "co_progress (trace_event t d co) = co_progress co"
  "co_pass_capacity (trace_event t d co) = co_pass_capacity co"
  "co_durable_generation (trace_event t d co) = co_durable_generation co"
  "co_fallback_policy (trace_event t d co) = co_fallback_policy co"
  "co_model_fallback_trigger (trace_event t d co) = co_model_fallback_trigger co"
  "co_model_fallback_rank_limit (trace_event t d co) = co_model_fallback_rank_limit co"
  "co_fallback_blocked (trace_event t d co) = co_fallback_blocked co"
  "co_max_attempts (trace_event t d co) = co_max_attempts co"
  "co_candidate_target_ranks (trace_event t d co) = co_candidate_target_ranks co"
  "co_attempted_model_target_ranks (trace_event t d co) = co_attempted_model_target_ranks co"
  by (simp_all add: trace_event_def Let_def)

lemma trace_event_bound [simp]: "length (co_trace co) \<le> 64 \<Longrightarrow> length (co_trace (trace_event t d co)) \<le> 64"
  by (auto simp: trace_event_def Let_def)

text \<open>What a pass never changes.\<close>

definition pass_kept :: "RouteAdmissionCoordinator \<Rightarrow> RouteAdmissionCoordinator \<Rightarrow> bool" where
  "pass_kept co co' \<longleftrightarrow>
     pg_actual_attempt_exclusions (co_progress co') = pg_actual_attempt_exclusions (co_progress co)
   \<and> pg_attempt_count (co_progress co') = pg_attempt_count (co_progress co)
   \<and> pg_deadline_ms (co_progress co') = pg_deadline_ms (co_progress co)
   \<and> co_max_attempts co' = co_max_attempts co
   \<and> co_fallback_policy co' = co_fallback_policy co
   \<and> co_model_fallback_rank_limit co' = co_model_fallback_rank_limit co
   \<and> co_fallback_blocked co' = co_fallback_blocked co
   \<and> co_attempted_model_target_ranks co' = co_attempted_model_target_ranks co
   \<and> (length (co_trace co) \<le> 64 \<longrightarrow> length (co_trace co') \<le> 64)"

lemma pass_kept_refl [simp]: "pass_kept co co"
  by (simp add: pass_kept_def)

lemma pass_kept_trans: "pass_kept a b \<Longrightarrow> pass_kept b c \<Longrightarrow> pass_kept a c"
  by (simp add: pass_kept_def)

lemma pass_kept_trace [simp]: "pass_kept co (trace_event t d co)"
  by (simp add: pass_kept_def)

lemma pass_kept_miss [simp]: "pass_kept co (trace_event t d (co\<lparr>co_pass_capacity := m\<rparr>))"
  by (auto simp: pass_kept_def)

lemma pass_kept_trigger [simp]: "pass_kept co (co\<lparr>co_model_fallback_trigger := t\<rparr>)"
  "pass_kept co (co\<lparr>co_model_fallback_trigger := t, co_candidate_target_ranks := r\<rparr>)"
  by (simp_all add: pass_kept_def)

lemma rebuild_or_fail_kept: "rebuild_or_fail_config co pf = (r, co') \<Longrightarrow> pass_kept co co'"
  by (auto simp: rebuild_or_fail_config_def pass_kept_def clear_pass_def record_snapshot_rebuild_def
      trace_event_def Let_def split: if_splits)

text \<open>The two counters of replans, and the answers that spend them.\<close>

abbreviation runtime_replans :: "RouteAdmissionCoordinator \<Rightarrow> nat" where
  "runtime_replans co \<equiv> unat (pg_runtime_rebuild_count (co_progress co))"

abbreviation snapshot_rebuilds :: "RouteAdmissionCoordinator \<Rightarrow> nat" where
  "snapshot_rebuilds co \<equiv> unat (pg_snapshot_rebuild_count (co_progress co))"

definition replan_budget :: "RouteAdmissionCoordinator \<Rightarrow> nat" where
  "replan_budget co = (8 - runtime_replans co) + (1 - snapshot_rebuilds co)"

definition is_replan :: "AdmissionFailure + AdmissionDecision \<Rightarrow> bool" where
  "is_replan r \<longleftrightarrow> (\<exists>t. r = Inr (Replan t))"

lemma rebuild_or_fail_budget:
  assumes "rebuild_or_fail_config co pf = (r, co')"
  shows "replan_budget co' + (if is_replan r then 1 else 0) \<le> replan_budget co"
  using assms
  by (auto simp: rebuild_or_fail_config_def replan_budget_def clear_pass_def record_snapshot_rebuild_def
      is_replan_def admission_failure_def word_less_nat_alt unat_sat_add split: if_splits)

lemma rebuild_not_selected: "fst (rebuild_or_fail_config co pf) \<noteq> Inr (Selected sel)"
  by (simp add: rebuild_or_fail_config_def)

lemma runtime_replan_kept: "runtime_replan input co = (r, co') \<Longrightarrow> pass_kept co co'"
  by (auto simp: runtime_replan_def pass_kept_def clear_pass_def record_runtime_rebuild_def
      trace_event_def Let_def split: if_splits)

lemma runtime_replan_budget:
  assumes "runtime_replan input co = (r, co')"
  shows "replan_budget co' + (if is_replan r then 1 else 0) \<le> replan_budget co"
  using assms
  by (auto simp: runtime_replan_def replan_budget_def clear_pass_def record_runtime_rebuild_def Let_def
      is_replan_def admission_failure_def MAX_RUNTIME_ONLY_REPLANS_def word_less_nat_alt unat_sat_add split: if_splits)

text \<open>The ways one candidate is handled.\<close>

lemma admission_loop_cases [consumes 1, case_names missing skip stale selected miss]:
  assumes "admission_loop input plan (p # ps) co cap = (r, co', cap')"
  obtains d where "r = Some (Inl (admission_failure ConfigUnstable d))" "co' = co" "cap' = cap"
  | c pf where "execution_candidate (ai_execution_candidates input) plan p = Some c"
      "ai_profiles input (rc_station_key_id c) = Some pf" "capacity_state_blocks_candidate co c pf"
      "admission_loop input plan ps (trace_event PlanSkip ''candidate_unavailable_this_pass'' co) cap = (r, co', cap')"
  | pf q where "rebuild_or_fail_config co pf = (q, co')" "r = Some q" "cap' = cap"
  | c pf lease where "execution_candidate (ai_execution_candidates input) plan p = Some c"
      "ai_profiles input (rc_station_key_id c) = Some pf" "\<not> profile_invalidates_candidate co c pf"
      "try_acquire cap (capacity_request pf c) = (Inr lease, cap')"
      "r = Some (Inr (Selected \<lparr>sr_candidate = c, sr_lease = lease, sr_evidence = [(''selected'', rc_station_key_id c)]\<rparr>))"
      "co' = trace_event CapacityAcquired ''capacity_lease_acquired'' co"
  | c pf f cap1 where "execution_candidate (ai_execution_candidates input) plan p = Some c"
      "ai_profiles input (rc_station_key_id c) = Some pf" "\<not> profile_invalidates_candidate co c pf"
      "try_acquire cap (capacity_request pf c) = (Inl f, cap1)"
      "admission_loop input plan ps (trace_event CapacityMiss ''capacity_miss''
         (co\<lparr>co_pass_capacity := record_miss (co_pass_capacity co) (miss_observation f)\<rparr>)) cap1 = (r, co', cap')"
proof (cases "execution_candidate (ai_execution_candidates input) plan p")
  case None
  with that(1) assms show ?thesis by auto
next
  case (Some c)
  show ?thesis
  proof (cases "ai_profiles input (rc_station_key_id c)")
    case None
    with that(1) assms Some show ?thesis by auto
  next
    case pf: (Some pf)
    note here = assms [simplified admission_loop.simps Some pf option.case]
    consider "capacity_state_blocks_candidate co c pf"
      | "\<not> capacity_state_blocks_candidate co c pf" "profile_invalidates_candidate co c pf"
      | "\<not> capacity_state_blocks_candidate co c pf" "\<not> profile_invalidates_candidate co c pf" by blast
    then show ?thesis
    proof cases
      case 1
      with here that(2) [OF Some pf] show ?thesis by simp
    next
      case 2
      obtain q co1 where q: "rebuild_or_fail_config co pf = (q, co1)" by fastforce
      from here 2 q that(3) [of pf q] show ?thesis by simp
    next
      case 3
      obtain a cap1 where a: "try_acquire cap (capacity_request pf c) = (a, cap1)" by fastforce
      show ?thesis
      proof (cases a)
        case (Inl f)
        from here 3 a Inl that(5) [OF Some pf 3(2)] show ?thesis by simp
      next
        case (Inr lease)
        from here 3 a Inr that(4) [OF Some pf 3(2)] show ?thesis by simp
      qed
    qed
  qed
qed

lemma admission_loop_kept:
  "admission_loop input plan ps co cap = (r, co', cap') \<Longrightarrow> pass_kept co co'"
proof (induction ps arbitrary: co cap)
  case (Cons p ps)
  from Cons.prems show ?case
  proof (cases rule: admission_loop_cases)
    case skip
    from pass_kept_trans [OF pass_kept_trace Cons.IH [OF skip(4)]] show ?thesis .
  next
    case miss
    from pass_kept_trans [OF pass_kept_miss Cons.IH [OF miss(5)]] show ?thesis .
  qed (auto dest: rebuild_or_fail_kept)
qed simp

lemma admission_loop_budget:
  "admission_loop input plan ps co cap = (r, co', cap') \<Longrightarrow>
     replan_budget co' + (case r of None \<Rightarrow> 0 | Some q \<Rightarrow> if is_replan q then 1 else 0) \<le> replan_budget co"
proof (induction ps arbitrary: co cap)
  case (Cons p ps)
  have same: "replan_budget (trace_event t d x) = replan_budget x" for t d x by (simp add: replan_budget_def)
  from Cons.prems show ?case
  proof (cases rule: admission_loop_cases)
    case skip
    from Cons.IH [OF skip(4)] show ?thesis by (simp only: same)
  next
    case miss
    from Cons.IH [OF miss(5)] show ?thesis by (simp add: same) (simp add: replan_budget_def)
  next
    case stale
    from rebuild_or_fail_budget [OF stale(1)] stale(2) show ?thesis by simp
  qed (simp_all add: is_replan_def same)
qed simp

text \<open>A pass that does not select a route leaves the room of the registry as it was.\<close>

lemma admission_loop_room:
  "admission_loop input plan ps co cap = (r, co', cap') \<Longrightarrow> below_max cap \<Longrightarrow>
     \<forall>sel. r \<noteq> Some (Inr (Selected sel)) \<Longrightarrow> same_room cap cap'"
proof (induction ps arbitrary: co cap)
  case (Cons p ps)
  from Cons.prems(1) show ?case
  proof (cases rule: admission_loop_cases)
    case skip
    from Cons.IH [OF skip(4) Cons.prems(2,3)] show ?thesis .
  next
    case (miss c pf f cap1)
    have s: "same_room cap cap1" by (rule try_acquire_failed(1) [OF Cons.prems(2) miss(4)])
    from same_room_trans [OF s Cons.IH [OF miss(5) below_max_same [OF s Cons.prems(2)] Cons.prems(3)]]
    show ?thesis .
  qed (use Cons.prems(3) in auto)
qed simp

text \<open>
  The selected route: the candidates before it were passed over because of a constraint that an
  earlier miss, of this pass or still remembered, had shown to be full.
\<close>

definition shown_full ::
  "AdmissionPlanningInput \<Rightarrow> RoutePlan \<Rightarrow> CapacityState \<Rightarrow> PlannedCandidate list \<Rightarrow> CapacityConstraintKey \<Rightarrow> bool" where
  "shown_full input plan cap tried k \<longleftrightarrow>
     (\<exists>q \<in> set tried. \<exists>req m. route_request input plan q = Some req
        \<and> (k, m) \<in> set (ordered_constraints req) \<and> \<not> has_room cap (k, m))"

definition passed_over :: "AdmissionPlanningInput \<Rightarrow> RoutePlan \<Rightarrow> CapacityState \<Rightarrow> CapacityConstraintKey set
    \<Rightarrow> PlannedCandidate list \<Rightarrow> PlannedCandidate \<Rightarrow> bool" where
  "passed_over input plan cap known tried q \<longleftrightarrow>
     (\<exists>req k. route_request input plan q = Some req \<and> k \<in> fst ` set (ordered_constraints req)
       \<and> (k \<in> known \<or> shown_full input plan cap tried k))"

definition known_misses :: "RouteAdmissionCoordinator \<Rightarrow> CapacityConstraintKey set" where
  "known_misses co = mo_constraint ` set (rd_unavailable_this_pass (co_pass_capacity co))"

lemma known_misses_simps [simp]:
  "known_misses (trace_event t d co) = known_misses co"
  "known_misses (co\<lparr>co_pass_capacity := record_miss (co_pass_capacity co) obs\<rparr>)
     = insert (mo_constraint obs) (known_misses co)"
  by (simp_all add: known_misses_def record_miss_def Let_def)

lemma route_request_Some:
  "execution_candidate (ai_execution_candidates input) plan p = Some c \<Longrightarrow>
   ai_profiles input (rc_station_key_id c) = Some pf \<Longrightarrow> route_request input plan p = Some (capacity_request pf c)"
  by (simp add: route_request_def)

lemma passed_over_same_room: "same_room a b \<Longrightarrow> passed_over input plan a known xs q = passed_over input plan b known xs q"
  by (simp add: passed_over_def shown_full_def has_room_same)

lemma shown_full_Cons: "shown_full input plan cap xs k \<Longrightarrow> shown_full input plan cap (p # xs) k"
  unfolding shown_full_def by (meson list.set_intros(2))

lemma passed_over_Cons: "passed_over input plan cap known xs q \<Longrightarrow> passed_over input plan cap known (p # xs) q"
  unfolding passed_over_def by (meson shown_full_Cons)

lemma passed_over_learn:
  assumes "passed_over input plan cap (insert k known) xs q" "shown_full input plan cap (p # xs) k"
  shows "passed_over input plan cap known (p # xs) q"
  using assms unfolding passed_over_def by (metis insertE shown_full_Cons)

lemma admission_loop_selected:
  assumes "admission_loop input plan ps co cap = (Some (Inr (Selected sel)), co', cap')" "below_max cap"
  shows "\<exists>pre p post pf cap1. ps = pre @ p # post
    \<and> execution_candidate (ai_execution_candidates input) plan p = Some (sr_candidate sel)
    \<and> ai_profiles input (rc_station_key_id (sr_candidate sel)) = Some pf
    \<and> \<not> profile_invalidates_candidate co (sr_candidate sel) pf
    \<and> same_room cap cap1 \<and> try_acquire cap1 (capacity_request pf (sr_candidate sel)) = (Inr (sr_lease sel), cap')
    \<and> (\<forall>q \<in> set pre. passed_over input plan cap (known_misses co) pre q)"
  using assms
proof (induction ps arbitrary: co cap)
  case (Cons p ps)
  have gen: "profile_invalidates_candidate (trace_event t d (co\<lparr>co_pass_capacity := m\<rparr>)) c pf
      = profile_invalidates_candidate co c pf"
    "profile_invalidates_candidate (trace_event t d co) c pf = profile_invalidates_candidate co c pf" for t d m c pf
    by (simp_all add: profile_invalidates_candidate_def)
  from Cons.prems(1) show ?case
  proof (cases rule: admission_loop_cases)
    case (skip c pf)
    have now: "passed_over input plan cap (known_misses co) xs p" for xs
      using skip(3) route_request_Some [OF skip(1,2)]
      unfolding blocks_iff passed_over_def known_misses_def by blast
    from Cons.IH [OF skip(4) Cons.prems(2)] obtain pre p' post pf' cap1 where
      "ps = pre @ p' # post" and rest: "execution_candidate (ai_execution_candidates input) plan p' = Some (sr_candidate sel)"
      "ai_profiles input (rc_station_key_id (sr_candidate sel)) = Some pf'"
      "\<not> profile_invalidates_candidate co (sr_candidate sel) pf'" "same_room cap cap1"
      "try_acquire cap1 (capacity_request pf' (sr_candidate sel)) = (Inr (sr_lease sel), cap')"
      and pre: "\<forall>q \<in> set pre. passed_over input plan cap (known_misses co) pre q"
      by (auto simp: gen)
    then have "p # ps = (p # pre) @ p' # post" by simp
    moreover have "\<forall>q \<in> set (p # pre). passed_over input plan cap (known_misses co) (p # pre) q"
      using now pre passed_over_Cons by auto
    ultimately show ?thesis using rest by blast
  next
    case (miss c pf f cap1)
    let ?k = "mo_constraint (miss_observation f)"
    have s: "same_room cap cap1" by (rule try_acquire_failed(1) [OF Cons.prems(2) miss(4)])
    obtain m where m: "(?k, m) \<in> set (ordered_constraints (capacity_request pf c))" "\<not> has_room cap (?k, m)"
      using try_acquire_failed(2) [OF Cons.prems(2) miss(4)] by blast
    have full: "shown_full input plan cap (p # xs) ?k" for xs
      using route_request_Some [OF miss(1,2)] m unfolding shown_full_def by (meson list.set_intros(1))
    have now: "passed_over input plan cap (known_misses co) (p # xs) p" for xs
      using route_request_Some [OF miss(1,2)] m full unfolding passed_over_def by (metis fst_conv imageI)
    from Cons.IH [OF miss(5) below_max_same [OF s Cons.prems(2)]] obtain pre p' post pf' cap2 where
      "ps = pre @ p' # post" and rest: "execution_candidate (ai_execution_candidates input) plan p' = Some (sr_candidate sel)"
      "ai_profiles input (rc_station_key_id (sr_candidate sel)) = Some pf'"
      "\<not> profile_invalidates_candidate co (sr_candidate sel) pf'" "same_room cap1 cap2"
      "try_acquire cap2 (capacity_request pf' (sr_candidate sel)) = (Inr (sr_lease sel), cap')"
      and pre: "\<forall>q \<in> set pre. passed_over input plan cap1 (insert ?k (known_misses co)) pre q"
      by (auto simp: gen)
    then have "p # ps = (p # pre) @ p' # post" by simp
    moreover have "\<forall>q \<in> set (p # pre). passed_over input plan cap (known_misses co) (p # pre) q"
      using now pre passed_over_learn [OF _ full] by (auto simp: passed_over_same_room [OF s])
    ultimately show ?thesis using rest same_room_trans [OF s rest(4)] by blast
  next
    case (selected c pf lease)
    then have "p # ps = [] @ p # ps" "sr_candidate sel = c" "sr_lease sel = lease" by simp_all
    with selected show ?thesis by (metis empty_iff list.set(1) same_room_refl)
  next
    case (stale pf q)
    with rebuild_not_selected [of co pf sel] show ?thesis by simp
  qed simp
qed simp

section \<open>A call of next\<close>

definition planning_coordinator :: "AdmissionPlanningInput \<Rightarrow> RouteAdmissionCoordinator \<Rightarrow> RouteAdmissionCoordinator" where
  "planning_coordinator input co = co\<lparr>co_model_fallback_trigger := ps_model_fallback_trigger (ai_planning_snapshot input),
     co_candidate_target_ranks := map_of (rev (target_ranks (ps_candidates (ai_planning_snapshot input))))\<rparr>"

definition attempt_snapshot :: "AdmissionPlanningInput \<Rightarrow> RouteAdmissionCoordinator \<Rightarrow> PlanningSnapshot" where
  "attempt_snapshot input co = working_snapshot (co_progress co) (ai_planning_snapshot input)"

definition best_rank :: "RoutePlan \<Rightarrow> u16" where
  "best_rank plan = Min (pc_target_rank ` set (rp_candidates plan))"

lemma planning_coordinator_simps [simp]:
  "co_progress (planning_coordinator input co) = co_progress co"
  "co_pass_capacity (planning_coordinator input co) = co_pass_capacity co"
  "co_max_attempts (planning_coordinator input co) = co_max_attempts co"
  "co_model_fallback_rank_limit (planning_coordinator input co) = co_model_fallback_rank_limit co"
  "co_durable_generation (planning_coordinator input co) = co_durable_generation co"
  "pass_kept co (planning_coordinator input co)"
  "replan_budget (planning_coordinator input co) = replan_budget co"
  "known_misses (planning_coordinator input co) = known_misses co"
  by (simp_all add: planning_coordinator_def replan_budget_def known_misses_def)

lemma plan_total: "\<exists>r. plan_snapshot sha s = Done r"
proof (cases "snapshot_validate s")
  case (Inr u)
  show ?thesis
  proof (cases "ro_max_concurrency (ps_runtime s) \<le> ro_in_flight (ps_runtime s)")
    case False
    then have "ro_in_flight (ps_runtime s) < ro_max_concurrency (ps_runtime s)" by simp
    from plan_snapshot_spec [OF Inr this, of sha] show ?thesis by metis
  qed (simp add: plan_snapshot_def Inr)
qed (simp add: plan_snapshot_def)

lemma plan_gate_Inr:
  assumes "plan_gate input co plan = Done (Inr r)"
  shows "r = best_rank plan" "model_fallback_rank_allowed (co_model_fallback_rank_limit co) r"
    "\<exists>m. co_max_attempts co = Some m \<and> pg_attempt_count (co_progress co) < m"
  using assms
  by (auto simp: plan_gate_def expect_def run_bind_Done_iff Let_def min_option_Some min_option_None best_rank_def
      not_le split: if_splits option.splits)

lemma plan_gate_total: "co_max_attempts co \<noteq> None \<Longrightarrow> \<exists>r. plan_gate input co plan = Done r"
  by (auto simp: plan_gate_def expect_def Let_def split: if_splits option.splits)

lemma admission_next_cases [consumes 1, case_names early replan loop]:
  assumes "admission_next sha input co cap = Done (r, co', cap')"
  obtains f where "r = Inl f" "cap' = cap" "pass_kept co co'" "replan_budget co' = replan_budget co"
  | "runtime_replan input co = (r, co')" "cap' = cap"
  | plan q co1 cap1 where "co_fallback_blocked co = None" "ai_now_ms input < pg_deadline_ms (co_progress co)"
      "plan_snapshot sha (attempt_snapshot input co) = Done (Inr plan)"
      "plan_gate input (planning_coordinator input co) plan = Done (Inr (best_rank plan))"
      "admission_loop input plan (filter (\<lambda>p. pc_target_rank p = best_rank plan) (ordered_planned_candidates plan))
         (planning_coordinator input co) cap = (q, co1, cap1)"
      "case q of Some r' \<Rightarrow> r = r' \<and> co' = co1 \<and> cap' = cap1 | None \<Rightarrow> wait_phase input co1 cap1 = (r, co', cap')"
proof -
  let ?s = "ai_planning_snapshot input"
  let ?co1 = "co\<lparr>co_model_fallback_trigger := ps_model_fallback_trigger ?s\<rparr>"
  note early_end = that(1)
  have early: "thesis" if "r = Inl f" "cap' = cap" "co' \<in> {co, ?co1, planning_coordinator input co}" for f
  proof (rule early_end [OF that(1,2)])
    show "pass_kept co co'" "replan_budget co' = replan_budget co"
      using that(3) by (auto simp: replan_budget_def planning_coordinator_def)
  qed
  consider (blocked) k where "co_fallback_blocked co = Some k"
    | (deadline) "co_fallback_blocked co = None" "ai_now_ms input \<ge> pg_deadline_ms (co_progress co)"
    | (stale) "co_fallback_blocked co = None" "\<not> ai_now_ms input \<ge> pg_deadline_ms (co_progress co)"
        "ai_current_runtime_overlay_revision input \<noteq> co_runtime_overlay_revision co"
    | (ok) "co_fallback_blocked co = None" "\<not> ai_now_ms input \<ge> pg_deadline_ms (co_progress co)"
        "ai_current_runtime_overlay_revision input = co_runtime_overlay_revision co" by fastforce
  then show thesis
  proof cases
    case blocked
    with assms early show thesis by (auto simp: admission_next_def)
  next
    case deadline
    with assms early show thesis by (auto simp: admission_next_def)
  next
    case stale
    obtain a b where "runtime_replan input co = (a, b)" by fastforce
    with stale assms show thesis by (intro that(2)) (auto simp: admission_next_def Let_def)
  next
    case ok
    note here = assms [unfolded admission_next_def Let_def, simplified ok, simplified]
    show thesis
    proof (cases "candidate_population_failure ?s")
      case (Some d)
      with here early show thesis by auto
    next
      case None
      obtain planned where planned: "plan_snapshot sha (attempt_snapshot input co) = Done planned"
        using plan_total by blast
      show thesis
      proof (cases planned)
        case (Inl e)
        with here None planned early show thesis
          by (auto simp: attempt_snapshot_def planning_coordinator_def)
      next
        case (Inr plan)
        have here2: "run_bind (plan_gate input (planning_coordinator input co) plan) (\<lambda>gate. case gate of
            Inl failure \<Rightarrow> Done (Inl failure, planning_coordinator input co, cap)
          | Inr rank \<Rightarrow> (case admission_loop input plan
              (filter (\<lambda>p. pc_target_rank p = rank) (ordered_planned_candidates plan))
              (planning_coordinator input co) cap of
                (Some r, co', cap') \<Rightarrow> Done (r, co', cap')
              | (None, co', cap') \<Rightarrow> Done (wait_phase input co' cap'))) = Done (r, co', cap')"
          using here None planned Inr unfolding planning_coordinator_def attempt_snapshot_def by simp
        then obtain gate where gate: "plan_gate input (planning_coordinator input co) plan = Done gate"
          by (auto simp: run_bind_Done_iff)
        show thesis
        proof (cases gate)
          case (Inl f)
          with gate here2 early show thesis by auto
        next
          case g: (Inr rank)
          have rank: "rank = best_rank plan" using plan_gate_Inr(1) gate g by blast
          obtain q co1 cap1 where l: "admission_loop input plan
              (filter (\<lambda>p. pc_target_rank p = best_rank plan) (ordered_planned_candidates plan))
              (planning_coordinator input co) cap = (q, co1, cap1)" by (metis prod_cases3)
          have "case q of Some r' \<Rightarrow> r = r' \<and> co' = co1 \<and> cap' = cap1 | None \<Rightarrow> wait_phase input co1 cap1 = (r, co', cap')"
            using here2 gate g rank l by (cases q) auto
          with that(3) [OF ok(1) _ planned [unfolded Inr] gate [unfolded g rank] l] ok(2) show thesis by simp
        qed
      qed
    qed
  qed
qed

lemma try_enter_wait_room: "try_enter_wait cap k n now d = (r, cap') \<Longrightarrow> same_room cap cap'"
  by (auto simp: try_enter_wait_def same_room_def Let_def active_counter split: if_splits)
    (auto simp: counter_of_def put_counter_def)

lemma wait_phase_facts:
  assumes "wait_phase input co cap = (r, co', cap')"
  shows "same_room cap cap'" "pass_kept co co'" "replan_budget co' = replan_budget co"
    "\<not> is_replan r" "r \<noteq> Inr (Selected sel)"
  using assms
  by (auto simp: wait_phase_def Let_def is_replan_def replan_budget_def wait_failure_def admission_failure_def
      split: sum.splits prod.splits dest: try_enter_wait_room)

lemma next_kept:
  assumes "admission_next sha input co cap = Done (r, co', cap')"
  shows "pass_kept co co'"
  using assms
proof (cases rule: admission_next_cases)
  case (loop plan q co1 cap1)
  have "pass_kept co co1"
    using pass_kept_trans [OF planning_coordinator_simps(6) admission_loop_kept [OF loop(5)]] .
  with loop(6) wait_phase_facts(2) show ?thesis by (cases q) (auto intro: pass_kept_trans)
qed (auto dest: runtime_replan_kept)

lemma next_budget:
  assumes "admission_next sha input co cap = Done (r, co', cap')"
  shows "replan_budget co' + (if is_replan r then 1 else 0) \<le> replan_budget co"
  using assms
proof (cases rule: admission_next_cases)
  case (loop plan q co1 cap1)
  from admission_loop_budget [OF loop(5)] loop(6) show ?thesis
    by (cases q) (auto dest: wait_phase_facts(3,4))
qed (auto dest: runtime_replan_budget simp: is_replan_def)

lemma next_room:
  assumes "admission_next sha input co cap = Done (r, co', cap')" "below_max cap"
    and "\<And>sel. r \<noteq> Inr (Selected sel)"
  shows "same_room cap cap'"
  using assms(1)
proof (cases rule: admission_next_cases)
  case (loop plan q co1 cap1)
  have "\<forall>sel. q \<noteq> Some (Inr (Selected sel))" using loop(6) assms(3) by (cases q) auto
  from admission_loop_room [OF loop(5) assms(2) this] loop(6) show ?thesis
    by (cases q) (auto intro: same_room_trans dest: wait_phase_facts(1))
qed auto

lemma run_bind_total: "\<exists>x. r = Done x \<Longrightarrow> (\<And>x. \<exists>y. f x = Done y) \<Longrightarrow> \<exists>y. run_bind r f = Done y"
  by (cases r) auto

lemma next_total:
  assumes "co_max_attempts co \<noteq> None"
  shows "\<exists>r co' cap'. admission_next sha input co cap = Done (r, co', cap')"
proof -
  let ?co = "planning_coordinator input co"
  let ?tail = "\<lambda>planned. case planned of Inl e \<Rightarrow> Done (Inl (intelligent_planner_failure e), ?co, cap)
     | Inr plan \<Rightarrow> run_bind (plan_gate input ?co plan) (\<lambda>gate. case gate of
            Inl failure \<Rightarrow> Done (Inl failure, ?co, cap)
          | Inr rank \<Rightarrow> (case admission_loop input plan
              (filter (\<lambda>p. pc_target_rank p = rank) (ordered_planned_candidates plan)) ?co cap of
                (Some r, co', cap') \<Rightarrow> Done (r, co', cap')
              | (None, co', cap') \<Rightarrow> Done (wait_phase input co' cap')))"
  have "\<exists>y. ?tail planned = Done y" for planned
  proof (cases planned)
    case (Inr plan)
    have "\<exists>y. run_bind (plan_gate input ?co plan) (\<lambda>gate. case gate of
            Inl failure \<Rightarrow> Done (Inl failure, ?co, cap)
          | Inr rank \<Rightarrow> (case admission_loop input plan
              (filter (\<lambda>p. pc_target_rank p = rank) (ordered_planned_candidates plan)) ?co cap of
                (Some r, co', cap') \<Rightarrow> Done (r, co', cap')
              | (None, co', cap') \<Rightarrow> Done (wait_phase input co' cap'))) = Done y"
      by (rule run_bind_total [OF plan_gate_total], use assms in \<open>auto split: sum.split prod.split option.split\<close>)
        (metis prod_cases3)
    with Inr show ?thesis by simp
  qed simp
  from run_bind_total [OF plan_total this, of sha "attempt_snapshot input co"]
  have "\<exists>x. admission_next sha input co cap = Done x"
    unfolding planning_coordinator_def attempt_snapshot_def
    by (simp add: admission_next_def Let_def split: option.split prod.split)
  then show ?thesis by auto
qed

text \<open>The plan, the candidate and the gates behind a selected route.\<close>

lemma next_selected_loop:
  assumes "admission_next sha input co cap = Done (Inr (Selected sel), co', cap')"
  obtains plan where "plan_snapshot sha (attempt_snapshot input co) = Done (Inr plan)"
    "plan_gate input (planning_coordinator input co) plan = Done (Inr (best_rank plan))"
    "admission_loop input plan (filter (\<lambda>p. pc_target_rank p = best_rank plan) (ordered_planned_candidates plan))
       (planning_coordinator input co) cap = (Some (Inr (Selected sel)), co', cap')"
    "co_fallback_blocked co = None" "ai_now_ms input < pg_deadline_ms (co_progress co)"
  using assms
proof (cases rule: admission_next_cases)
  case replan
  then show ?thesis by (auto simp: runtime_replan_def Let_def split: if_splits)
next
  case (loop plan q co1 cap1)
  show ?thesis
  proof (cases q)
    case None
    then have "wait_phase input co1 cap1 = (Inr (Selected sel), co', cap')" using loop(6) by simp
    from wait_phase_facts(5) [OF this] show ?thesis by blast
  next
    case (Some r')
    with loop that [of plan] show ?thesis by simp
  qed
qed simp

lemma admission_loop_selected_mem:
  "admission_loop input plan ps co cap = (Some (Inr (Selected sel)), co', cap') \<Longrightarrow>
     \<exists>p \<in> set ps. execution_candidate (ai_execution_candidates input) plan p = Some (sr_candidate sel)"
proof (induction ps arbitrary: co cap)
  case (Cons p ps)
  from Cons.prems show ?case
  proof (cases rule: admission_loop_cases)
    case (stale pf q)
    with rebuild_not_selected [of co pf sel] show ?thesis by simp
  qed (use Cons.IH in auto)
qed simp

lemma ordered_planned_mem: "set (ordered_planned_candidates plan) \<subseteq> set (rp_candidates plan)"
proof -
  have "find P (rp_candidates plan) = Some x \<Longrightarrow> x \<in> set (rp_candidates plan)" for P x
    by (auto simp: find_Some_iff)
  then show ?thesis
    by (cases "min_option (map pc_tier (rp_candidates plan))")
      (auto simp: ordered_planned_candidates_def Let_def split: option.split_asm)
qed

section \<open>Identities\<close>

text \<open>
  Station key ids do not contain the separator of routing identities, and the variant of an
  execution candidate names its own key.
\<close>

definition routable_ids :: "AdmissionPlanningInput \<Rightarrow> bool" where
  "routable_ids input \<longleftrightarrow>
     (\<forall>c \<in> set (ai_execution_candidates input). unit_separator \<notin> set (rc_station_key_id c)
        \<and> (case rc_model_variant c of None \<Rightarrow> True | Some v \<Rightarrow> mv_station_key_id v = rc_station_key_id c))
   \<and> (\<forall>c \<in> set (ps_candidates (ai_planning_snapshot input)). unit_separator \<notin> set (cs_station_key_id c))"

definition identity_station_key :: "string \<Rightarrow> string" where
  "identity_station_key i = takeWhile (\<lambda>ch. ch \<noteq> unit_separator) i"

lemma identity_station_key_plain: "unit_separator \<notin> set k \<Longrightarrow> identity_station_key k = k"
  by (auto simp: identity_station_key_def takeWhile_eq_all_conv)

lemma identity_station_key_variant:
  "unit_separator \<notin> set (mv_station_key_id v) \<Longrightarrow> identity_station_key (identity_key v) = mv_station_key_id v"
  by (simp add: identity_station_key_def identity_key_def takeWhile_tail) (metis takeWhile_append2 append_Nil2 takeWhile.simps)

lemma planned_identity_key:
  assumes "plan_snapshot sha s = Done (Inr plan)" "p \<in> set (rp_candidates plan)"
    and "\<forall>c \<in> set (ps_candidates s). unit_separator \<notin> set (cs_station_key_id c)"
  shows "identity_station_key (pc_routing_identity p) = pc_station_key_id p"
    and "\<exists>c \<in> set (ps_candidates s). cs_station_key_id c = pc_station_key_id p"
proof -
  obtain c v where cv: "(c, v) \<in> set (plan_pairs (ps_candidates s))" "c \<in> set (ps_candidates s)"
    "plan_entry p = expected_entry (c, v)" by (rule plan_candidate_origin [OF assms(1,2)])
  then show "\<exists>c \<in> set (ps_candidates s). cs_station_key_id c = pc_station_key_id p"
    by (cases v) (auto simp: plan_entry_def)
  have sep: "unit_separator \<notin> set (cs_station_key_id c)" using assms(3) cv(2) by blast
  show "identity_station_key (pc_routing_identity p) = pc_station_key_id p"
  proof (cases v)
    case None
    with cv(3) sep show ?thesis by (simp add: plan_entry_def identity_station_key_plain)
  next
    case (Some w)
    have "w \<in> set (cs_model_variants c)" using cv(1) Some by (auto simp: plan_pairs_def candidate_variants_def split: if_splits)
    moreover have "\<not> candidate_invalid c" using snapshot_valid_parts(3) [OF plan_facts(1) [OF assms(1)] cv(2)] .
    ultimately have "mv_station_key_id w = cs_station_key_id c" by (auto simp: candidate_invalid_def list_ex_iff)
    with cv(3) Some sep show ?thesis
      using identity_station_key_variant [of w] by (simp add: plan_entry_def)
  qed
qed

lemma execution_candidate_key:
  assumes "execution_candidate (ai_execution_candidates input) plan p = Some c" "routable_ids input"
  shows "rc_station_key_id c = identity_station_key (pc_routing_identity p)" "rc_model_variant c = pc_variant p"
proof -
  from assms(1) obtain b where b: "find (\<lambda>c. routing_identity c = pc_routing_identity p) (ai_execution_candidates input) = Some b"
    "rc_station_key_id c = rc_station_key_id b" "rc_model_variant c = pc_variant p"
    by (auto simp: execution_candidate_def)
  then have mem: "b \<in> set (ai_execution_candidates input)" "routing_identity b = pc_routing_identity p"
    by (auto simp: find_Some_iff)
  have "identity_station_key (routing_identity b) = rc_station_key_id b"
    using assms(2) mem(1) identity_station_key_variant identity_station_key_plain
    by (cases "rc_model_variant b") (auto simp: routable_ids_def routing_identity_def)
  with b mem show "rc_station_key_id c = identity_station_key (pc_routing_identity p)" "rc_model_variant c = pc_variant p"
    by simp_all
qed

lemma selected_not_excluded:
  assumes "admission_next sha input co cap = Done (Inr (Selected sel), co', cap')" "routable_ids input"
  shows "rc_station_key_id (sr_candidate sel) \<notin> pg_actual_attempt_exclusions (co_progress co)"
proof -
  obtain plan where plan: "plan_snapshot sha (attempt_snapshot input co) = Done (Inr plan)"
    and l: "admission_loop input plan (filter (\<lambda>p. pc_target_rank p = best_rank plan) (ordered_planned_candidates plan))
       (planning_coordinator input co) cap = (Some (Inr (Selected sel)), co', cap')"
    by (rule next_selected_loop [OF assms(1)])
  obtain p where "p \<in> set (ordered_planned_candidates plan)"
    and e: "execution_candidate (ai_execution_candidates input) plan p = Some (sr_candidate sel)"
    using admission_loop_selected_mem [OF l] by auto
  then have p: "p \<in> set (rp_candidates plan)" using ordered_planned_mem by blast
  have sep: "\<forall>c \<in> set (ps_candidates (attempt_snapshot input co)). unit_separator \<notin> set (cs_station_key_id c)"
    using assms(2) by (auto simp: routable_ids_def attempt_snapshot_def working_snapshot_def)
  from planned_identity_key [OF plan p sep] execution_candidate_key(1) [OF e assms(2)]
  show ?thesis by (auto simp: attempt_snapshot_def working_snapshot_def excludes_station_key_def)
qed

end
