(* ===== verification/AdmissionCorrect.thy ===== *)
theory AdmissionCorrect
  imports AdmissionPass
begin

text \<open>
  Correctness of route admission over every sequence of calls a proxy can make on one coordinator
  while other requests use the same capacity registry.
\<close>

section \<open>Calls\<close>

text \<open>
  The calls on a coordinator. \<open>Others\<close> is what other requests do to the shared registry between
  two calls of this one: it may become any state.
\<close>

datatype admission_call =
    Next AdmissionPlanningInput
  | Terminal string string ActualAttemptTerminal
  | RetryAttempt
  | CircuitOpened string
  | ExcludeKey string
  | Others CapacityState

type_synonym admission_state = "RouteAdmissionCoordinator \<times> CapacityState"

definition next_state :: "(string \<Rightarrow> u8 list) \<Rightarrow> AdmissionPlanningInput \<Rightarrow> admission_state \<Rightarrow> admission_state" where
  "next_state sha256 input s =
     (case admission_next sha256 input (fst s) (snd s) of Done (r, s') \<Rightarrow> s' | Panic _ \<Rightarrow> s)"

fun admission_step :: "(string \<Rightarrow> u8 list) \<Rightarrow> admission_state \<Rightarrow> admission_call \<Rightarrow> admission_state" where
  "admission_step sha256 s (Next input) = next_state sha256 input s"
| "admission_step sha256 (co, cap) (Terminal key identity outcome) =
     (snd (record_actual_terminal_for_station_key co key identity outcome), cap)"
| "admission_step sha256 (co, cap) RetryAttempt = (record_retry_attempt co, cap)"
| "admission_step sha256 (co, cap) (CircuitOpened key) = (exclude_attempted_key co key, cap)"
| "admission_step sha256 (co, cap) (ExcludeKey key) = (snd (exclude_station_key co key), cap)"
| "admission_step sha256 (co, cap) (Others cap') = (co, cap')"

abbreviation excluded :: "admission_state \<Rightarrow> string set" where
  "excluded s \<equiv> pg_actual_attempt_exclusions (co_progress (fst s))"

abbreviation attempt_count :: "admission_state \<Rightarrow> nat" where
  "attempt_count s \<equiv> unat (pg_attempt_count (co_progress (fst s)))"

fun excluding :: "string \<Rightarrow> admission_call \<Rightarrow> bool" where
  "excluding k (Terminal key _ _) = (key = k)"
| "excluding k (CircuitOpened key) = (key = k)"
| "excluding k (ExcludeKey key) = (key = k \<and> k \<noteq> [])"
| "excluding k _ = False"

fun attempt :: "admission_call \<Rightarrow> bool" where
  "attempt (Terminal _ _ _) = True"
| "attempt (CircuitOpened _) = True"
| "attempt _ = False"

lemma clear_pass_fields [simp]:
  "co_progress (clear_pass co) = co_progress co" "co_max_attempts (clear_pass co) = co_max_attempts co"
  "co_fallback_policy (clear_pass co) = co_fallback_policy co"
  "co_model_fallback_rank_limit (clear_pass co) = co_model_fallback_rank_limit co"
  "co_model_fallback_trigger (clear_pass co) = co_model_fallback_trigger co"
  "co_fallback_blocked (clear_pass co) = co_fallback_blocked co"
  "co_candidate_target_ranks (clear_pass co) = co_candidate_target_ranks co"
  "co_trace (clear_pass co) = co_trace co"
  by (simp_all add: clear_pass_def)

lemmas progress_defs = progress_record_actual_attempt_def progress_exclude_attempted_key_def
  progress_exclude_without_attempt_def progress_record_retry_attempt_def

lemmas record_defs = record_actual_terminal_for_station_key_def record_retry_attempt_def
  exclude_attempted_key_def exclude_station_key_def progress_defs Let_def

lemma next_state_kept: "pass_kept (fst s) (fst (next_state sha input s))"
proof (cases "admission_next sha input (fst s) (snd s)")
  case (Done x)
  then show ?thesis by (cases x) (auto simp: next_state_def dest: next_kept)
qed (simp add: next_state_def)

lemma step_exclusions:
  "excluded (admission_step sha s c) = excluded s \<union> {k. excluding k c}"
  using next_state_kept [of s sha]
  by (cases "(sha, s, c)" rule: admission_step.cases) (auto simp: record_defs pass_kept_def)

lemma step_attempts:
  "attempt_count (admission_step sha s c) = min (2 ^ 32 - 1) (attempt_count s + (if attempt c then 1 else 0))"
proof -
  have "attempt_count s \<le> 2 ^ 32 - 1" using unat_bound [of "pg_attempt_count (co_progress (fst s))"] by simp
  then show ?thesis
    using next_state_kept [of s sha]
    by (cases "(sha, s, c)" rule: admission_step.cases) (auto simp: record_defs pass_kept_def unat_sat_add)
qed

lemma step_settings:
  "co_max_attempts (fst (admission_step sha s c)) = co_max_attempts (fst s)"
  "co_fallback_policy (fst (admission_step sha s c)) = co_fallback_policy (fst s)"
  using next_state_kept [of s sha]
  by (cases "(sha, s, c)" rule: admission_step.cases; auto simp: record_defs pass_kept_def)+

interpretation exclusions: kept_invariant "admission_step sha" "\<lambda>s. k \<in> excluded s" for sha k
  by unfold_locales (simp add: step_exclusions)

interpretation settings: kept_invariant "admission_step sha"
    "\<lambda>s :: admission_state. co_max_attempts (fst s) = m \<and> co_fallback_policy (fst s) = fp \<and> length (co_trace (fst s)) \<le> 64" for sha m fp
proof
  fix s :: admission_state and c
  assume i: "co_max_attempts (fst s) = m \<and> co_fallback_policy (fst s) = fp \<and> length (co_trace (fst s)) \<le> 64"
  then have "length (co_trace (fst (admission_step sha s c))) \<le> 64"
    using next_state_kept [of s sha]
    by (cases "(sha, s, c)" rule: admission_step.cases) (auto simp: record_defs pass_kept_def)
  with i step_settings show "co_max_attempts (fst (admission_step sha s c)) = m
      \<and> co_fallback_policy (fst (admission_step sha s c)) = fp \<and> length (co_trace (fst (admission_step sha s c))) \<le> 64"
    by simp
qed

lemma run_attempts:
  "attempt_count s < 2 ^ 32 \<Longrightarrow>
   attempt_count (run_ops (admission_step sha) s cs) = min (2 ^ 32 - 1) (attempt_count s + length (filter attempt cs))"
proof (induction cs arbitrary: s)
  case Nil
  then show ?case by simp
next
  case (Cons c cs)
  from Cons.IH [of "admission_step sha s c"] step_attempts [of sha s c] show ?case by (auto simp: min_def)
qed

text \<open>Replans: a call of \<open>next\<close> that asks for one spends from the budget of eight and one.\<close>

definition replans :: "(string \<Rightarrow> u8 list) \<Rightarrow> admission_state \<Rightarrow> admission_call \<Rightarrow> bool" where
  "replans sha256 s c = (case c of
     Next input \<Rightarrow> (case admission_next sha256 input (fst s) (snd s) of Done (r, _) \<Rightarrow> is_replan r | Panic _ \<Rightarrow> False)
   | _ \<Rightarrow> False)"

interpretation replan: spent_budget "admission_step sha" "replans sha" "\<lambda>s. replan_budget (fst s)" for sha
proof
  fix s :: admission_state and c
  show "replan_budget (fst (admission_step sha s c)) + (if replans sha s c then 1 else 0) \<le> replan_budget (fst s)"
  proof (cases c)
    case (Next input)
    show ?thesis
    proof (cases "admission_next sha input (fst s) (snd s)")
      case (Done x)
      obtain r co' cap' where "x = (r, co', cap')" by (metis prod_cases3)
      with Done Next next_budget [of sha input "fst s" "snd s" r co' cap'] show ?thesis
        by (simp add: next_state_def replans_def)
    qed (simp add: Next next_state_def replans_def)
  qed (cases s; simp add: replans_def replan_budget_def record_defs)+
qed

text \<open>A fallback that was blocked stays blocked.\<close>

interpretation blocked: kept_invariant "admission_step sha" "\<lambda>s. co_fallback_blocked (fst s) = Some CommitUncertain" for sha
proof
  fix s :: admission_state and c
  assume "co_fallback_blocked (fst s) = Some CommitUncertain"
  then show "co_fallback_blocked (fst (admission_step sha s c)) = Some CommitUncertain"
    using next_state_kept [of s sha]
    by (cases "(sha, s, c)" rule: admission_step.cases) (auto simp: record_defs pass_kept_def)
qed

text \<open>The model rank limit only tightens.\<close>

definition rank_limited :: "u16 \<Rightarrow> admission_state \<Rightarrow> bool" where
  "rank_limited r s \<longleftrightarrow> (\<exists>l. co_model_fallback_rank_limit (fst s) = Some l \<and> l \<le> r)"

interpretation rank_limit: kept_invariant "admission_step sha" "rank_limited r" for sha r
proof
  fix s c
  assume "rank_limited r s"
  then show "rank_limited r (admission_step sha s c)"
    using next_state_kept [of s sha]
    by (cases "(sha, s, c)" rule: admission_step.cases)
      (auto simp: record_defs pass_kept_def rank_limited_def tighten_model_fallback_rank_limit_def min_le_iff_disj)
qed

section \<open>An example\<close>

definition example_route :: "string \<Rightarrow> RoutePlanCandidate" where
  "example_route key = \<lparr>rc_station_key_id = key, rc_station_id = ''st'', rc_endpoint_revision = 1,
     rc_credential_revision = 1, rc_account_revision = 1, rc_group_binding_id = None, rc_group_revision = None,
     rc_resolved_upstream_model = None, rc_model_alias_revision = 1, rc_model_variant = None, rc_priority = 0,
     rc_tier = Primary, rc_pricing = pricing_unpriced ''none'', rc_evidence = []\<rparr>"

definition example_profile :: CandidateAdmissionProfile where
  "example_profile = \<lparr>pf_endpoint_revision = 1, pf_expected_credential_revision = 1, pf_credential_revision = 1,
     pf_durable_generation = 1, pf_global_max_concurrency = 8, pf_station_account_max_concurrency = 4,
     pf_station_key_max_concurrency = 2, pf_half_open_probe_id = None\<rparr>"

definition example_input :: AdmissionPlanningInput where
  "example_input = \<lparr>ai_execution_candidates = [example_route ''b'', example_route ''a''],
     ai_planning_snapshot = example_snapshot, ai_profiles = (\<lambda>_. Some example_profile),
     ai_current_runtime_overlay_revision = 1, ai_now_ms = 0, ai_max_waiters_per_constraint = 0\<rparr>"

definition example_settings :: AdmissionSettings where
  "example_settings = \<lparr>as_deadline_ms = 1000, as_initial_snapshot_id = ''s1'',
     as_initial_runtime_overlay_revision = 1, as_initial_durable_generation = 1,
     as_fallback_policy = \<lparr>fp_has_stable_idempotency_key = False, fp_non_idempotent = True\<rparr>,
     as_attempt_budget = example_budget\<rparr>"

text \<open>When nothing stands in its way, the first candidate of the plan is selected.\<close>

lemma ordered_head:
  assumes "plan_snapshot sha s = Done (Inr plan)"
  shows "\<exists>rest. filter (\<lambda>p. pc_target_rank p = best_rank plan) (ordered_planned_candidates plan)
    = hd (rp_candidates plan) # rest"
proof -
  obtain p ps where ps: "rp_candidates plan = p # ps" using plan_facts(3) [OF assms] by (cases "rp_candidates plan") auto
  have "\<forall>q \<in> set (p # ps). pc_target_rank p \<le> pc_target_rank q"
    using plan_facts(2) [OF assms] ps by (auto simp: planned_le_def)
  then have "best_rank plan = pc_target_rank p" using ps by (auto simp: best_rank_def intro!: Min_eqI)
  moreover obtain t where "min_option (map pc_tier (rp_candidates plan)) = Some t" using ps by (auto simp: min_option_def)
  ultimately show ?thesis using ps plan_facts(4) [OF assms] by (simp add: ordered_planned_candidates_def Let_def)
qed

lemma next_head_selected:
  assumes "co_fallback_blocked co = None" "ai_now_ms input < pg_deadline_ms (co_progress co)"
    and "ai_current_runtime_overlay_revision input = co_runtime_overlay_revision co"
    and "candidate_population_failure (ai_planning_snapshot input) = None"
    and plan: "plan_snapshot sha (attempt_snapshot input co) = Done (Inr plan)"
    and gate: "plan_gate input (planning_coordinator input co) plan = Done (Inr (best_rank plan))"
    and cand: "execution_candidate (ai_execution_candidates input) plan (hd (rp_candidates plan)) = Some c"
    "ai_profiles input (rc_station_key_id c) = Some pf"
    and "known_misses co = {}" and inv: "\<not> profile_invalidates_candidate co c pf"
    and acq: "try_acquire cap (capacity_request pf c) = (Inr lease, cap')"
  shows "\<exists>co'. admission_next sha input co cap = Done (Inr (Selected
    \<lparr>sr_candidate = c, sr_lease = lease, sr_evidence = [(''selected'', rc_station_key_id c)]\<rparr>), co', cap')"
proof -
  let ?co = "planning_coordinator input co"
  have nb: "\<not> capacity_state_blocks_candidate ?co c pf"
    using assms(9) by (auto simp: blocks_iff known_misses_def)
  have ni: "\<not> profile_invalidates_candidate ?co c pf" using inv by (simp add: profile_invalidates_candidate_def)
  obtain rest where "filter (\<lambda>p. pc_target_rank p = best_rank plan) (ordered_planned_candidates plan)
      = hd (rp_candidates plan) # rest" using ordered_head [OF plan] by blast
  then have "admission_loop input plan (filter (\<lambda>p. pc_target_rank p = best_rank plan) (ordered_planned_candidates plan)) ?co cap
      = (Some (Inr (Selected \<lparr>sr_candidate = c, sr_lease = lease, sr_evidence = [(''selected'', rc_station_key_id c)]\<rparr>)),
         trace_event CapacityAcquired ''capacity_lease_acquired'' ?co, cap')"
    using cand nb ni acq by simp
  with assms(1-4) plan gate show ?thesis
    unfolding planning_coordinator_def attempt_snapshot_def by (simp add: admission_next_def not_le Let_def)
qed

lemma example_plan_head:
  assumes "cs = [example_candidate ''b'' True, example_candidate ''a'' False] \<and> k = ''a''
    \<or> cs = [example_candidate ''b'' True] \<and> k = ''b''"
  obtains plan where "plan_snapshot sha (example_snapshot\<lparr>ps_candidates := cs\<rparr>) = Done (Inr plan)"
    "pc_routing_identity (hd (rp_candidates plan)) = k" "best_rank plan = 0" "rp_candidates plan \<noteq> []"
proof -
  let ?s = "example_snapshot\<lparr>ps_candidates := cs\<rparr>"
  have valid: "snapshot_validate ?s = Inr ()"
    using example_snapshot_valid assms
    by (auto simp: snapshot_validate_def example_snapshot_def example_candidate_valid rbind_Inr_iff split: if_splits sum.splits)
  have free: "ro_in_flight (ps_runtime ?s) < ro_max_concurrency (ps_runtime ?s)" by (simp add: example_snapshot_def)
  have el: "eligible_pairs ?s \<noteq> []" using assms by (auto simp: eligible_pairs_Nil example_eligible)
  have "\<exists>plan. plan_snapshot sha ?s = Done (Inr plan)"
  proof (rule plan_snapshot_spec [OF valid free, of sha])
    assume "eligible_pairs ?s = []"
    with el show ?thesis by contradiction
  qed blast
  then obtain plan where plan: "plan_snapshot sha ?s = Done (Inr plan)" by blast
  let ?ps = "rp_candidates plan"
  have ep: "eligible_pairs ?s = map (\<lambda>c. (c, None)) cs"
    using assms by (auto simp: eligible_pairs_def plan_pairs_def candidate_variants_def example_eligible)
      (auto simp: example_candidate_def)
  have m: "mset (map plan_entry ?ps) = mset (map expected_entry (map (\<lambda>c. (c, None)) cs))"
    using plan_facts(5) [OF plan] ep by simp
  then have set: "plan_entry ` set ?ps = set (map expected_entry (map (\<lambda>c. (c, None)) cs))"
    by (metis set_map set_mset_mset)
  have ne: "?ps \<noteq> []" by (rule plan_facts(3) [OF plan])
  have rank: "pc_target_rank q = 0" if "q \<in> set ?ps" for q
  proof -
    have "plan_entry q \<in> set (map expected_entry (map (\<lambda>c. (c, None)) cs))" using set that by blast
    then show ?thesis by (auto simp: plan_entry_def)
  qed
  have hd: "hd ?ps \<in> set ?ps" "\<forall>q \<in> set ?ps. planned_le (hd ?ps) q"
    using ne plan_facts(2) [OF plan] planned.refl by (cases ?ps; auto)+
  have "plan_entry (hd ?ps) \<in> set (map expected_entry (map (\<lambda>c. (c, None)) cs))" using set hd(1) by blast
  moreover have "\<not> (pc_tier (hd ?ps) = ConfiguredBackup \<and> k = ''a'')"
  proof
    assume b: "pc_tier (hd ?ps) = ConfiguredBackup \<and> k = ''a''"
    then have "(''a'', 1, ''a'', 0, Primary) \<in> plan_entry ` set ?ps"
      using assms set by (auto simp: example_candidate_def expected_tier_def)
    then obtain q where "q \<in> set ?ps" "pc_tier q = Primary" "pc_target_rank q = 0" by (auto simp: plan_entry_def)
    with hd(2) rank [OF hd(1)] b show False by (auto simp: planned_le_def less_AvailabilityTier_def)
  qed
  ultimately have "pc_routing_identity (hd ?ps) = k"
    using assms by (auto simp: plan_entry_def example_candidate_def expected_tier_def)
  moreover have "pc_target_rank ` set ?ps = {0}" using rank hd(1) by (auto simp: image_iff)
  ultimately show ?thesis using that [of plan] plan ne by (simp add: best_rank_def)
qed

text \<open>On the example the key \<open>a\<close> is selected, and \<open>b\<close> once \<open>a\<close> is excluded.\<close>

lemma example_acquire:
  "\<exists>lease cap'. try_acquire capacity_default (capacity_request example_profile c) = (Inr lease, cap')"
proof -
  have b: "below_max capacity_default" by (simp add: below_max_def)
  have "\<forall>x \<in> set (ordered_constraints (capacity_request example_profile c)). has_room capacity_default x"
    by (simp add: has_room_def ordered_constraints_def example_profile_def capacity_request_def effective_max_def
        capacity_default_def) (simp add: active_for_def)
  with try_acquire_spec [OF b, of "capacity_request example_profile c"] show ?thesis by auto
qed

lemma example_selects:
  assumes "co_fallback_blocked co = None" "pg_deadline_ms (co_progress co) = 1000"
    "co_runtime_overlay_revision co = 1" "known_misses co = {}" "co_durable_generation co = 1"
    "co_max_attempts co = Some 4"
    "pg_attempt_count (co_progress co) < 4"
    and ex: "pg_actual_attempt_exclusions (co_progress co) = {} \<and> k = ''a''
      \<or> pg_actual_attempt_exclusions (co_progress co) = {''a''} \<and> k = ''b''"
  shows "\<exists>sel co' cap'. admission_next sha example_input co capacity_default = Done (Inr (Selected sel), co', cap')
    \<and> rc_station_key_id (sr_candidate sel) = k"
proof -
  have snap: "attempt_snapshot example_input co = example_snapshot\<lparr>ps_candidates :=
      filter (\<lambda>c. \<not> excludes_station_key (co_progress co) (cs_station_key_id c))
        [example_candidate ''b'' True, example_candidate ''a'' False]\<rparr>"
    by (simp add: attempt_snapshot_def working_snapshot_def example_input_def example_snapshot_def)
  have "filter (\<lambda>c. \<not> excludes_station_key (co_progress co) (cs_station_key_id c))
        [example_candidate ''b'' True, example_candidate ''a'' False]
      = (if k = ''a'' then [example_candidate ''b'' True, example_candidate ''a'' False] else [example_candidate ''b'' True])"
  proof -
    have "cs_station_key_id (example_candidate j b) = j" for j b by (simp add: example_candidate_def)
    with ex show ?thesis by (auto simp: excludes_station_key_def)
  qed
  with snap ex have snap: "attempt_snapshot example_input co = example_snapshot\<lparr>ps_candidates :=
      (if k = ''a'' then [example_candidate ''b'' True, example_candidate ''a'' False] else [example_candidate ''b'' True])\<rparr>"
    by simp
  obtain plan where plan: "plan_snapshot sha (attempt_snapshot example_input co) = Done (Inr plan)"
    "pc_routing_identity (hd (rp_candidates plan)) = k" "best_rank plan = 0" "rp_candidates plan \<noteq> []"
  proof (rule example_plan_head [of _ k sha])
    show "(if k = ''a'' then [example_candidate ''b'' True, example_candidate ''a'' False] else [example_candidate ''b'' True])
        = [example_candidate ''b'' True, example_candidate ''a'' False] \<and> k = ''a''
      \<or> (if k = ''a'' then [example_candidate ''b'' True, example_candidate ''a'' False] else [example_candidate ''b'' True])
        = [example_candidate ''b'' True] \<and> k = ''b''" using ex by auto
  qed (simp add: snap)
  obtain c where c: "execution_candidate (ai_execution_candidates example_input) plan (hd (rp_candidates plan)) = Some c"
    "rc_station_key_id c = k" "rc_endpoint_revision c = 1"
    using plan(2) ex by (auto simp: execution_candidate_def example_input_def example_route_def routing_identity_def)
  have pop: "candidate_population_failure (ai_planning_snapshot example_input) = None"
    by (simp add: candidate_population_failure_def example_input_def example_snapshot_def)
  have min0: "min_option (map pc_target_rank (rp_candidates plan)) = Some 0"
    using plan(3,4) by (simp add: min_option_Some best_rank_def)
  have gate: "plan_gate example_input (planning_coordinator example_input co) plan = Done (Inr (best_rank plan))"
    using plan(3,4) assms(6,7) min0 by (simp add: plan_gate_def expect_def model_fallback_rank_allowed_def not_le split: option.split)
  obtain lease cap' where acq: "try_acquire capacity_default (capacity_request example_profile c) = (Inr lease, cap')"
    using example_acquire by blast
  have pf: "ai_profiles example_input (rc_station_key_id c) = Some example_profile" by (simp add: example_input_def)
  have inv: "\<not> profile_invalidates_candidate co c example_profile"
    using c(3) assms(5) by (simp add: profile_invalidates_candidate_def example_profile_def)
  have "\<exists>co'. admission_next sha example_input co capacity_default = Done (Inr (Selected
    \<lparr>sr_candidate = c, sr_lease = lease, sr_evidence = [(''selected'', rc_station_key_id c)]\<rparr>), co', cap')"
    by (rule next_head_selected [OF assms(1) _ _ pop plan(1) gate c(1) pf assms(4) inv acq])
      (use assms(2,3) in \<open>simp_all add: example_input_def\<close>)
  then obtain co' where n: "admission_next sha example_input co capacity_default = Done (Inr (Selected
    \<lparr>sr_candidate = c, sr_lease = lease, sr_evidence = [(''selected'', rc_station_key_id c)]\<rparr>), co', cap')" by blast
  show ?thesis by (intro exI conjI, rule n) (simp add: c(2))
qed

lemma example_new_selects:
  "\<exists>sel co' cap'. admission_next sha example_input (coordinator_new example_settings) capacity_default
      = Done (Inr (Selected sel), co', cap') \<and> rc_station_key_id (sr_candidate sel) = ''a''"
  by (rule example_selects)
    (simp_all add: coordinator_new_def example_settings_def example_budget_def known_misses_def
      pass_capacity_default_def progress_new_def)

lemma example_ids: "routable_ids example_input"
proof -
  have "unit_separator \<noteq> CHR ''a''" "unit_separator \<noteq> CHR ''b''" by code_simp+
  then show ?thesis
    by (simp add: routable_ids_def example_input_def example_route_def example_snapshot_def example_candidate_def)
qed

section \<open>Properties\<close>

text \<open>
  C6: a key is tried once. Once a terminal attempt on a key was recorded, its circuit opened, or it
  was excluded, no later pass of this request selects it again, under any model variant, whatever
  calls come in between and whatever snapshots and registry states the passes see.
\<close>
theorem excluded_key_never_reselected:
  assumes "excluding k c" and "run_ops (admission_step sha) s (c # calls) = (co, cap)"
    and "routable_ids input"
    and "admission_next sha input co cap = Done (Inr (Selected sel), co', cap')"
  shows "rc_station_key_id (sr_candidate sel) \<noteq> k"
proof -
  have "k \<in> excluded (admission_step sha s c)" using assms(1) by (simp add: step_exclusions)
  from exclusions.run_keeps [OF this, of sha calls] assms(2)
  have "k \<in> pg_actual_attempt_exclusions (co_progress co)" by simp
  with selected_not_excluded [OF assms(4,3)] show ?thesis by blast
qed

theorem excluded_key_never_reselected_witness:
  "\<exists>sel co' cap'. admission_next (\<lambda>_. []) example_input
      (fst (admission_step (\<lambda>_. []) (coordinator_new example_settings, capacity_default) (ExcludeKey ''a''))) capacity_default
      = Done (Inr (Selected sel), co', cap') \<and> rc_station_key_id (sr_candidate sel) \<noteq> ''a''"
proof -
  let ?c = "ExcludeKey ''a''"
  let ?s = "(coordinator_new example_settings, capacity_default)"
  let ?co = "fst (admission_step (\<lambda>_. []) ?s ?c)"
  have "\<exists>sel co' cap'. admission_next (\<lambda>_. []) example_input ?co capacity_default = Done (Inr (Selected sel), co', cap')
      \<and> rc_station_key_id (sr_candidate sel) = ''b''"
    by (rule example_selects)
      (simp_all add: record_defs coordinator_new_def example_settings_def example_budget_def known_misses_def
        pass_capacity_default_def progress_new_def)
  then obtain sel co' cap' where n: "admission_next (\<lambda>_. []) example_input ?co capacity_default = Done (Inr (Selected sel), co', cap')"
    by blast
  have "run_ops (admission_step (\<lambda>_. [])) ?s (?c # []) = (?co, capacity_default)" by simp
  from excluded_key_never_reselected [OF _ this example_ids n, of "''a''"] n show ?thesis by auto
qed

text \<open>
  C29: the attempt budget is respected. Whenever a route is selected, fewer keys than the policy's
  total number of attempts have been used up by this request, and the remaining budget the
  coordinator reports is exactly what is left after the selected one.
\<close>
theorem selection_within_attempt_budget:
  assumes "run_ops (admission_step sha) (coordinator_new settings, cap0) calls = (co, cap)"
    and "admission_next sha input co cap = Done (Inr (Selected sel), co', cap')"
  shows "length (filter attempt calls) < unat (ab_max_total_attempts (as_attempt_budget settings))
    \<and> unat (remaining_additional_key_budget co)
        = unat (ab_max_total_attempts (as_attempt_budget settings)) - length (filter attempt calls) - 1"
proof -
  let ?s = "(coordinator_new settings, cap0)"
  let ?m = "ab_max_total_attempts (as_attempt_budget settings)"
  have m: "co_max_attempts co = Some ?m"
    using settings.run_keeps [where s = ?s and sha = sha and m = "Some ?m" and fp = "as_fallback_policy settings" and cs = calls]
      assms(1) by (simp add: coordinator_new_def)
  have count: "unat (pg_attempt_count (co_progress co)) = min (2 ^ 32 - 1) (length (filter attempt calls))"
    using run_attempts [of ?s sha calls] assms(1) by (simp add: coordinator_new_def progress_new_def)
  obtain plan where "plan_gate input (planning_coordinator input co) plan = Done (Inr (best_rank plan))"
    by (rule next_selected_loop [OF assms(2)])
  from plan_gate_Inr(3) [OF this] m have lt: "pg_attempt_count (co_progress co) < ?m" by simp
  moreover have "unat ?m \<le> 2 ^ 32 - 1" using unat_bound [of ?m] by simp
  ultimately have "length (filter attempt calls) < unat ?m"
    and "unat (pg_attempt_count (co_progress co)) = length (filter attempt calls)"
    using count by (simp_all add: word_less_nat_alt min_def split: if_splits)
  with m show ?thesis
    by (simp add: remaining_additional_key_budget_def unat_sat_sub word_less_nat_alt)
qed

theorem selection_within_attempt_budget_witness:
  "\<exists>sel co' cap'. admission_next (\<lambda>_. []) example_input (coordinator_new example_settings) capacity_default
      = Done (Inr (Selected sel), co', cap')
    \<and> unat (remaining_additional_key_budget (coordinator_new example_settings)) = 3"
proof -
  obtain sel co' cap' where n: "admission_next (\<lambda>_. []) example_input (coordinator_new example_settings) capacity_default
      = Done (Inr (Selected sel), co', cap')" using example_new_selects by blast
  have "run_ops (admission_step (\<lambda>_. [])) (coordinator_new example_settings, capacity_default) []
      = (coordinator_new example_settings, capacity_default)" by simp
  from selection_within_attempt_budget [OF this n] n show ?thesis by (simp add: example_settings_def example_budget_def)
qed

text \<open>
  C26: no second delivery. If the request is not idempotent and has no idempotency key, then after an
  attempt that the upstream may have accepted every further pass is refused as commit uncertain and
  touches neither the coordinator nor the registry, whatever is called in between.
\<close>
theorem uncertain_commit_blocks_fallback:
  assumes "fp_non_idempotent (as_fallback_policy settings)"
    and "\<not> fp_has_stable_idempotency_key (as_fallback_policy settings)"
    and "Terminal key identity PossiblyAccepted \<in> set calls"
    and "run_ops (admission_step sha) (coordinator_new settings, cap0) calls = (co, cap)"
  shows "admission_next sha input co cap = Done (Inl (admission_failure CommitUncertain ''fallback_blocked''), co, cap)"
proof -
  let ?s = "(coordinator_new settings, cap0)"
  let ?t = "Terminal key identity PossiblyAccepted"
  obtain xs ys where calls: "calls = xs @ ?t # ys" using assms(3) by (meson split_list)
  obtain co1 cap1 where mid: "run_ops (admission_step sha) ?s xs = (co1, cap1)" by fastforce
  have "co_fallback_policy co1 = as_fallback_policy settings"
    using settings.run_keeps [where s = ?s and sha = sha and fp = "as_fallback_policy settings" and cs = xs
        and m = "Some (ab_max_total_attempts (as_attempt_budget settings))"] mid
    by (simp add: coordinator_new_def)
  then have "co_fallback_blocked (fst (admission_step sha (co1, cap1) ?t)) = Some CommitUncertain"
    using assms(1,2) by (simp add: record_actual_terminal_for_station_key_def Let_def retry_safe_def)
  from blocked.run_keeps [OF this, of sha ys] calls mid assms(4)
  have "co_fallback_blocked co = Some CommitUncertain" by (simp add: run_ops_append)
  then show ?thesis by (simp add: admission_next_def)
qed

theorem uncertain_commit_blocks_fallback_witness:
  "\<exists>co cap. run_ops (admission_step (\<lambda>_. [])) (coordinator_new example_settings, capacity_default)
      [Terminal ''a'' ''a'' PossiblyAccepted, RetryAttempt] = (co, cap)
    \<and> admission_next (\<lambda>_. []) example_input co cap
        = Done (Inl (admission_failure CommitUncertain ''fallback_blocked''), co, cap)"
proof -
  obtain co cap where r: "run_ops (admission_step (\<lambda>_. [])) (coordinator_new example_settings, capacity_default)
      [Terminal ''a'' ''a'' PossiblyAccepted, RetryAttempt] = (co, cap)" by fastforce
  from uncertain_commit_blocks_fallback [OF _ _ _ r] r show ?thesis by (auto simp: example_settings_def)
qed

text \<open>
  C39: replanning ends. Over the whole life of a coordinator, passes answer with a request to replan
  at most nine times, eight for runtime changes and one for a changed configuration, however often
  the runtime revision or the configuration changes.
\<close>
theorem replans_bounded:
  "spent (admission_step sha) (replans sha) (coordinator_new settings, cap) calls \<le> 9"
proof -
  have "replan_budget (coordinator_new settings) = 9"
    by (simp add: replan_budget_def coordinator_new_def progress_new_def)
  with replan.spent_le [of sha "(coordinator_new settings, cap)" calls] show ?thesis by simp
qed

text \<open>
  A pass always answers and its trace stays bounded. After any calls the coordinator still has
  its attempt budget, so the \<^verbatim>\<open>expect\<close> on it and the planner's never panic, and the trace keeps at
  most 64 events.
\<close>
theorem admission_never_panics:
  assumes "run_ops (admission_step sha) (coordinator_new settings, cap0) calls = (co, cap)"
  shows "(\<exists>r co' cap'. admission_next sha input co cap = Done (r, co', cap')) \<and> length (co_trace co) \<le> 64"
proof -
  have "co_max_attempts co \<noteq> None \<and> length (co_trace co) \<le> 64"
    using settings.run_keeps [where s = "(coordinator_new settings, cap0)" and sha = sha and cs = calls
        and m = "Some (ab_max_total_attempts (as_attempt_budget settings))" and fp = "as_fallback_policy settings"]
      assms by (simp add: coordinator_new_def)
  with next_total show ?thesis by blast
qed

theorem admission_never_panics_witness:
  "\<exists>co cap r co' cap'. run_ops (admission_step (\<lambda>_. [])) (coordinator_new example_settings, capacity_default)
      [RetryAttempt, CircuitOpened ''b''] = (co, cap) \<and> admission_next (\<lambda>_. []) example_input co cap = Done (r, co', cap')"
proof -
  obtain co cap where r: "run_ops (admission_step (\<lambda>_. [])) (coordinator_new example_settings, capacity_default)
      [RetryAttempt, CircuitOpened ''b''] = (co, cap)" by fastforce
  from admission_never_panics [OF r, of example_input] r show ?thesis by blast
qed

text \<open>
  C3: the best candidate with room is selected. A selected route belongs to the plan over the keys
  still allowed, before the deadline; its request has room under every constraint; and (when the
  routing identities of the plan are distinct) it is the first such candidate of the best model
  rank in plan order, in the sense that each earlier one was passed over because of a constraint
  that was shown to be full, in this pass or in one remembered since the last change.
\<close>
theorem selected_route_is_first_with_room:
  assumes "admission_next sha input co cap = Done (Inr (Selected sel), co', cap')" and "below_max cap"
  shows "\<exists>plan pre p post req. plan_snapshot sha (attempt_snapshot input co) = Done (Inr plan)
    \<and> ai_now_ms input < pg_deadline_ms (co_progress co)
    \<and> (distinct (map pc_routing_identity (rp_candidates plan)) \<longrightarrow>
         filter (\<lambda>q. pc_target_rank q = best_rank plan) (rp_candidates plan) = pre @ p # post)
    \<and> execution_candidate (ai_execution_candidates input) plan p = Some (sr_candidate sel)
    \<and> route_request input plan p = Some req
    \<and> (\<forall>c \<in> set (ordered_constraints req). has_room cap c)
    \<and> (\<forall>q \<in> set pre. passed_over input plan cap (known_misses co) pre q)"
proof -
  obtain plan where plan: "plan_snapshot sha (attempt_snapshot input co) = Done (Inr plan)"
    and l: "admission_loop input plan (filter (\<lambda>p. pc_target_rank p = best_rank plan) (ordered_planned_candidates plan))
       (planning_coordinator input co) cap = (Some (Inr (Selected sel)), co', cap')"
    and now: "ai_now_ms input < pg_deadline_ms (co_progress co)"
    by (rule next_selected_loop [OF assms(1)])
  obtain pre p post pf cap1 where
    split: "filter (\<lambda>p. pc_target_rank p = best_rank plan) (ordered_planned_candidates plan) = pre @ p # post"
    and c: "execution_candidate (ai_execution_candidates input) plan p = Some (sr_candidate sel)"
      "ai_profiles input (rc_station_key_id (sr_candidate sel)) = Some pf"
    and s: "same_room cap cap1"
    and a: "try_acquire cap1 (capacity_request pf (sr_candidate sel)) = (Inr (sr_lease sel), cap')"
    and pre: "\<forall>q \<in> set pre. passed_over input plan cap (known_misses co) pre q"
    using admission_loop_selected [OF l assms(2)] by auto
  have "\<forall>x \<in> set (ordered_constraints (capacity_request pf (sr_candidate sel))). has_room cap x"
    using try_acquire_spec [OF below_max_same [OF s assms(2)], of "capacity_request pf (sr_candidate sel)"] a
    by (auto simp: has_room_same [OF s] split: if_splits)
  moreover have "distinct (map pc_routing_identity (rp_candidates plan)) \<longrightarrow>
      filter (\<lambda>q. pc_target_rank q = best_rank plan) (rp_candidates plan) = pre @ p # post"
    using ordered_best_rank [OF plan _ best_rank_def] split by simp
  ultimately show ?thesis using plan now c(1) route_request_Some [OF c] pre by blast
qed

theorem selected_route_is_first_with_room_witness:
  "\<exists>(sel :: SelectedRoute) plan p. plan_snapshot (\<lambda>_. []) (attempt_snapshot example_input (coordinator_new example_settings))
        = Done (Inr plan)
    \<and> execution_candidate (ai_execution_candidates example_input) plan p = Some (sr_candidate sel)
    \<and> rc_station_key_id (sr_candidate sel) = ''a''"
proof -
  obtain sel co' cap' where n: "admission_next (\<lambda>_. []) example_input (coordinator_new example_settings) capacity_default
      = Done (Inr (Selected sel), co', cap')" "rc_station_key_id (sr_candidate sel) = ''a''"
    using example_new_selects by blast
  have "below_max capacity_default" by (simp add: below_max_def)
  from selected_route_is_first_with_room [OF n(1) this] n(2) show ?thesis by blast
qed

text \<open>
  C37: a pass leaks no capacity. A pass that selects a route counts one more on exactly the
  constraints of the returned, unreleased lease; every other answer (errors, waits, replans) leaves
  every count as it was, and so does releasing the lease.
\<close>
theorem pass_leaks_no_capacity:
  assumes "admission_next sha input co cap = Done (r, co', cap')" and "below_max cap"
  shows "case r of
      Inr (Selected sel) \<Rightarrow> \<not> ls_released (sr_lease sel)
        \<and> (\<forall>k. active_nat cap' k = active_nat cap k + (if k \<in> set (ls_constraints (sr_lease sel)) then 1 else 0))
        \<and> (\<forall>k. active_nat (snd (lease_release cap' (sr_lease sel))) k = active_nat cap k)
    | _ \<Rightarrow> \<forall>k. active_nat cap' k = active_nat cap k"
proof (cases "\<exists>sel. r = Inr (Selected sel)")
  case False
  then have "same_room cap cap'" using next_room [OF assms] by blast
  with False show ?thesis by (auto simp: same_room_def split: sum.split AdmissionDecision.split)
next
  case True
  then obtain sel where r: "r = Inr (Selected sel)" by blast
  obtain plan where l: "admission_loop input plan (filter (\<lambda>p. pc_target_rank p = best_rank plan) (ordered_planned_candidates plan))
       (planning_coordinator input co) cap = (Some (Inr (Selected sel)), co', cap')"
    by (rule next_selected_loop [OF assms(1) [unfolded r]])
  obtain req cap1 where s: "same_room cap cap1" and a: "try_acquire cap1 req = (Inr (sr_lease sel), cap')"
    using admission_loop_selected [OF l assms(2)] by auto
  let ?ks = "map fst (ordered_constraints req)"
  have room: "\<forall>c \<in> set (ordered_constraints req). has_room cap1 c"
    using try_acquire_spec [OF below_max_same [OF s assms(2)], of req] a by (auto split: if_splits)
  from try_acquire_spec [OF below_max_same [OF s assms(2)], of req, unfolded if_P [OF room]] a
  have "sr_lease sel = \<lparr>ls_constraints = ?ks, ls_released = False\<rparr>"
    and n: "\<forall>k. active_nat cap' k = active_nat cap1 k + (if k \<in> set ?ks then 1 else 0)" by auto
  moreover have "active_nat (rollback cap' ?ks) k = active_nat cap1 k" for k
    using n by (simp add: active_rollback ordered_constraints_distinct)
  ultimately show ?thesis using r s by (simp add: lease_release_def same_room_def)
qed

theorem pass_leaks_no_capacity_witness:
  "\<exists>sel co' cap'. admission_next (\<lambda>_. []) example_input (coordinator_new example_settings) capacity_default
      = Done (Inr (Selected sel), co', cap') \<and> (\<forall>k. active_nat (snd (lease_release cap' (sr_lease sel))) k = 0)"
proof -
  obtain sel co' cap' where n: "admission_next (\<lambda>_. []) example_input (coordinator_new example_settings) capacity_default
      = Done (Inr (Selected sel), co', cap')" using example_new_selects by blast
  have "below_max capacity_default" by (simp add: below_max_def)
  from pass_leaks_no_capacity [OF n this] n show ?thesis by auto
qed

lemma execution_candidate_variant:
  "execution_candidate cs plan p = Some c \<Longrightarrow> rc_model_variant c = pc_variant p"
  by (auto simp: execution_candidate_def)

text \<open>
  a qualification fallback never becomes an error fallback. When the model mapping falls back
  only for lack of an eligible target, then after an attempt failed before output on a target of
  some rank, no later pass of the request selects a model of a lower priority rank.
\<close>
theorem no_eligible_target_never_descends:
  assumes "co_model_fallback_trigger co = Some NoEligibleTarget"
    and "run_ops (admission_step sha) (co, cap) (Terminal key identity FailedBeforeCommit # calls) = (co1, cap1)"
    and "admission_next sha input co1 cap1 = Done (Inr (Selected sel), co2, cap2)"
  shows "(case rc_model_variant (sr_candidate sel) of None \<Rightarrow> 0 | Some v \<Rightarrow> mv_target_rank v)
    \<le> (case co_candidate_target_ranks co identity of None \<Rightarrow> 0 | Some r \<Rightarrow> r)"
proof -
  let ?r = "case co_candidate_target_ranks co identity of None \<Rightarrow> 0 | Some r \<Rightarrow> r"
  have "rank_limited ?r (admission_step sha (co, cap) (Terminal key identity FailedBeforeCommit))"
    using assms(1)
    by (auto simp: rank_limited_def record_defs tighten_model_fallback_rank_limit_def retry_safe_def split: option.split)
  from rank_limit.run_keeps [OF this, of sha calls] assms(2)
  obtain l where l: "co_model_fallback_rank_limit co1 = Some l" "l \<le> ?r" by (auto simp: rank_limited_def)
  obtain plan where plan: "plan_snapshot sha (attempt_snapshot input co1) = Done (Inr plan)"
    and gate: "plan_gate input (planning_coordinator input co1) plan = Done (Inr (best_rank plan))"
    and loop: "admission_loop input plan (filter (\<lambda>p. pc_target_rank p = best_rank plan) (ordered_planned_candidates plan))
       (planning_coordinator input co1) cap1 = (Some (Inr (Selected sel)), co2, cap2)"
    by (rule next_selected_loop [OF assms(3)])
  have "best_rank plan \<le> l" using plan_gate_Inr(2) [OF gate] l(1) by (simp add: model_fallback_rank_allowed_def)
  moreover obtain p where p: "p \<in> set (ordered_planned_candidates plan)" "pc_target_rank p = best_rank plan"
    "execution_candidate (ai_execution_candidates input) plan p = Some (sr_candidate sel)"
    using admission_loop_selected_mem [OF loop] by auto
  moreover have "variant_ranked p" using plan_facts(6) [OF plan] p(1) ordered_planned_mem by blast
  moreover have "rc_model_variant (sr_candidate sel) = pc_variant p" using p(3) by (rule execution_candidate_variant)
  ultimately show ?thesis using l(2) by (simp add: variant_ranked_def)
qed

theorem no_eligible_target_never_descends_witness:
  "\<exists>(sel :: SelectedRoute) co2 cap2. admission_next (\<lambda>_. []) example_input
      (fst (admission_step (\<lambda>_. []) ((coordinator_new example_settings)\<lparr>co_model_fallback_trigger := Some NoEligibleTarget\<rparr>,
         capacity_default) (Terminal ''a'' ''a'' FailedBeforeCommit))) capacity_default = Done (Inr (Selected sel), co2, cap2)
    \<and> (case rc_model_variant (sr_candidate sel) of None \<Rightarrow> 0 | Some v \<Rightarrow> mv_target_rank v) \<le> 0"
proof -
  let ?co = "(coordinator_new example_settings)\<lparr>co_model_fallback_trigger := Some NoEligibleTarget\<rparr>"
  let ?co1 = "fst (admission_step (\<lambda>_. []) (?co, capacity_default) (Terminal ''a'' ''a'' FailedBeforeCommit))"
  have "\<exists>sel co' cap'. admission_next (\<lambda>_. []) example_input ?co1 capacity_default = Done (Inr (Selected sel), co', cap')
      \<and> rc_station_key_id (sr_candidate sel) = ''b''"
    by (rule example_selects)
      (simp_all add: record_defs coordinator_new_def example_settings_def example_budget_def known_misses_def
        pass_capacity_default_def pass_capacity_clear_def progress_new_def clear_pass_def trace_event_def retry_safe_def sat_add_def)
  then obtain sel co2 cap2 where n: "admission_next (\<lambda>_. []) example_input ?co1 capacity_default = Done (Inr (Selected sel), co2, cap2)"
    by blast
  have r: "run_ops (admission_step (\<lambda>_. [])) (?co, capacity_default) [Terminal ''a'' ''a'' FailedBeforeCommit]
      = (?co1, capacity_default)" by simp
  have t: "co_model_fallback_trigger ?co = Some NoEligibleTarget" "co_candidate_target_ranks ?co ''a'' = None"
    by (simp_all add: coordinator_new_def)
  from no_eligible_target_never_descends [OF t(1) r n] t(2) n show ?thesis by auto
qed

text \<open>
  The gate of the retry-only fallback also opens when a rank-zero key was merely excluded, without
  any attempt: an exclusion by the durable circuit is enough.
\<close>
lemma retry_fallback_opens_without_attempt:
  "let co = snd (exclude_station_key (coordinator_new example_settings) ''a'') in
     retry_exhausted_fallback_is_open [example_candidate ''a'' False] (co_progress co) (co_attempted_model_target_ranks co)
     \<and> pg_attempt_count (co_progress co) = 0 \<and> pg_ordinal (co_progress co) = 0
     \<and> co_attempted_model_target_ranks co = {}"
  by (simp add: record_defs coordinator_new_def progress_new_def retry_exhausted_fallback_is_open_def
      excludes_station_key_def example_candidate_def)

end
