(* ===== verification/BTree.thy ===== *)
theory BTree
  imports Prelude "HOL-Library.Product_Lexorder"
begin

text \<open>
  \<^verbatim>\<open>BTreeMap\<close> where the sources depend on its iteration order or its length: an association list
  in strictly increasing key order. \<open>map_of\<close> is the map it denotes.
\<close>

type_synonym ('k, 'v) btree = "('k \<times> 'v) list"

definition bt_ok :: "('k::linorder, 'v) btree \<Rightarrow> bool" where
  "bt_ok m \<longleftrightarrow> sorted (map fst m) \<and> distinct (map fst m)"

fun bt_insert :: "'k::linorder \<Rightarrow> 'v \<Rightarrow> ('k, 'v) btree \<Rightarrow> ('k, 'v) btree" where
  "bt_insert k v [] = [(k, v)]"
| "bt_insert k v ((j, w) # m) =
     (if k < j then (k, v) # (j, w) # m else if k = j then (k, v) # m else (j, w) # bt_insert k v m)"

definition bt_remove :: "'k \<Rightarrow> ('k, 'v) btree \<Rightarrow> ('k, 'v) btree" where
  "bt_remove k m = filter (\<lambda>p. fst p \<noteq> k) m"

lemma set_bt_insert: "fst ` set (bt_insert k v m) = insert k (fst ` set m)"
  by (induction k v m rule: bt_insert.induct) (simp_all add: insert_commute)

lemma bt_ok_insert: "bt_ok m \<Longrightarrow> bt_ok (bt_insert k v m)"
proof (induction m)
  case (Cons p m)
  obtain j w where p: "p = (j, w)" by (cases p)
  have tail: "bt_ok m" "\<forall>x \<in> fst ` set m. j < x"
    using Cons.prems p by (auto simp: bt_ok_def less_le)
  with Cons.IH have IH: "bt_ok (bt_insert k v m)" by simp
  consider "k < j" | "k = j" | "j < k" by fastforce
  then show ?case
  proof cases
    case 1
    with Cons.prems p tail show ?thesis by (auto simp: bt_ok_def intro: less_imp_le dest: less_trans)
  next
    case 2
    with Cons.prems p show ?thesis by (auto simp: bt_ok_def)
  next
    case 3
    then have "\<forall>x \<in> fst ` set (bt_insert k v m). j < x" using tail by (auto simp: set_bt_insert)
    with IH 3 p show ?thesis by (auto simp: bt_ok_def less_le)
  qed
qed (simp add: bt_ok_def)

lemma map_of_bt_insert: "bt_ok m \<Longrightarrow> map_of (bt_insert k v m) = (map_of m)(k \<mapsto> v)"
proof (induction m)
  case (Cons p m)
  obtain j w where p: "p = (j, w)" by (cases p)
  have "bt_ok m" using Cons.prems by (auto simp: bt_ok_def)
  with Cons.IH p show ?case by (auto simp: fun_eq_iff)
qed simp

lemma length_bt_insert: "length (bt_insert k v m) \<le> Suc (length m)"
  by (induction m) auto

lemma bt_ok_filter: "bt_ok m \<Longrightarrow> bt_ok (filter P m)"
  by (simp add: bt_ok_def sorted_filter distinct_map_filter)

lemma map_of_bt_remove: "map_of (bt_remove k m) = (map_of m)(k := None)"
  by (induction m) (auto simp: bt_remove_def fun_eq_iff)

lemma bt_ok_remove: "bt_ok m \<Longrightarrow> bt_ok (bt_remove k m)"
  by (simp add: bt_remove_def bt_ok_filter)

lemma map_of_bt_filter: "bt_ok m \<Longrightarrow> map_of (filter P m) k = (case map_of m k of None \<Rightarrow> None
    | Some v \<Rightarrow> if P (k, v) then Some v else None)"
proof (induction m)
  case (Cons p m)
  obtain j w where p: "p = (j, w)" by (cases p)
  have ok: "bt_ok m" and j: "j \<notin> fst ` set m" using Cons.prems p by (auto simp: bt_ok_def)
  have "map_of (filter P m) j = None" using j by (auto simp: map_of_eq_None_iff)
  with Cons.IH [OF ok] p show ?case by (auto split: option.splits)
qed simp

lemma length_bt_remove: "k \<in> fst ` set m \<Longrightarrow> length (bt_remove k m) < length m"
  by (auto simp: bt_remove_def intro: length_filter_less)

lemma map_of_mem: "bt_ok m \<Longrightarrow> (k, v) \<in> set m \<longleftrightarrow> map_of m k = Some v"
  by (auto simp: bt_ok_def dest: map_of_SomeD)

end
