(* ===== verification/Affinity.thy ===== *)
theory Affinity
  imports BTree RustString Machine
begin

text \<open>
  Session affinity (\<^verbatim>\<open>routing_engine/affinity.rs\<close> and the model class of
  \<^verbatim>\<open>runtime_metrics.rs\<close>): a bounded registry from scoped lookups to station keys with
  expiry, least-recently-touched eviction and classification of misses.
\<close>

section \<open>Model classes and lookups\<close>

datatype RuntimeModelClass = Named string | OtherModel

definition ascii_model_char :: "char \<Rightarrow> bool" where
  "ascii_model_char c = (let n = of_char c :: nat in
     (48 \<le> n \<and> n \<le> 57) \<or> (65 \<le> n \<and> n \<le> 90) \<or> (97 \<le> n \<and> n \<le> 122)
     \<or> c \<in> {CHR ''-'', CHR ''_'', CHR ''.''})"

text \<open>A multi-byte character has a byte above 127, so testing bytes is testing characters.\<close>

definition model_class_normalize :: "string option \<Rightarrow> RuntimeModelClass" where
  "model_class_normalize model =
     (case model of
        None \<Rightarrow> OtherModel
      | Some m \<Rightarrow>
        let normalized = to_ascii_lowercase (trim m) in
        if normalized = [] \<or> length normalized > 64 then OtherModel
        else if \<not> list_all ascii_model_char normalized then OtherModel
        else Named normalized)"

datatype AffinityKind = PreviousResponse | Session

text \<open>\<open>AffinityLookup kind routing_group_scope value endpoint_revision model_class\<close>\<close>

datatype AffinityLookup =
  AffinityLookup (lk_kind: AffinityKind) (lk_routing_group_scope: string) (lk_value: string)
    (lk_endpoint_revision: i64) (lk_model_class: RuntimeModelClass)

fun kind_index :: "AffinityKind \<Rightarrow> nat" where
  "kind_index PreviousResponse = 0"
| "kind_index Session = 1"

fun class_key :: "RuntimeModelClass \<Rightarrow> nat \<times> string" where
  "class_key (Named s) = (0, s)"
| "class_key OtherModel = (1, [])"

fun lookup_key :: "AffinityLookup \<Rightarrow> nat \<times> string \<times> string \<times> i64 \<times> nat \<times> string" where
  "lookup_key (AffinityLookup k g v e m) = (kind_index k, g, v, e, class_key m)"

lemma kind_index_inject [simp]: "kind_index a = kind_index b \<longleftrightarrow> a = b"
  by (cases a; cases b) auto

lemma class_key_inject [simp]: "class_key a = class_key b \<longleftrightarrow> a = b"
  by (cases a; cases b) auto

lemma lookup_key_inject [simp]: "lookup_key a = lookup_key b \<longleftrightarrow> a = b"
  by (cases a; cases b) auto

text \<open>The derived \<^verbatim>\<open>Ord\<close>: lexicographic in the order of the fields.\<close>

instantiation AffinityLookup :: linorder
begin

definition less_eq_AffinityLookup :: "AffinityLookup \<Rightarrow> AffinityLookup \<Rightarrow> bool" where
  "a \<le> b \<longleftrightarrow> lookup_key a \<le> lookup_key b"

definition less_AffinityLookup :: "AffinityLookup \<Rightarrow> AffinityLookup \<Rightarrow> bool" where
  "a < b \<longleftrightarrow> lookup_key a < lookup_key b"

instance
proof
  fix a b c :: AffinityLookup
  show "a < b \<longleftrightarrow> a \<le> b \<and> \<not> b \<le> a"
    unfolding less_eq_AffinityLookup_def less_AffinityLookup_def by (rule less_le_not_le)
  show "a \<le> a" by (simp only: less_eq_AffinityLookup_def order_refl)
  show "a \<le> b \<Longrightarrow> b \<le> c \<Longrightarrow> a \<le> c"
    unfolding less_eq_AffinityLookup_def by (rule order_trans)
  show "a \<le> b \<Longrightarrow> b \<le> a \<Longrightarrow> a = b"
    unfolding less_eq_AffinityLookup_def by (metis order_antisym lookup_key_inject)
  show "a \<le> b \<or> b \<le> a" unfolding less_eq_AffinityLookup_def by (rule linear)
qed

end

definition affinity_lookup_new ::
  "AffinityKind \<Rightarrow> string \<Rightarrow> string \<Rightarrow> i64 \<Rightarrow> string option \<Rightarrow> AffinityLookup" where
  "affinity_lookup_new kind scope v endpoint_revision model =
     AffinityLookup kind scope v endpoint_revision (model_class_normalize model)"

section \<open>The registry\<close>

record AffinityPolicy =
  ap_max_entries :: nat
  ap_ttl_ms :: i64

definition affinity_policy_default :: AffinityPolicy where
  "affinity_policy_default = \<lparr>ap_max_entries = 1024, ap_ttl_ms = 86400 * 1000\<rparr>"

record AffinityHit =
  ht_station_key_id :: string
  ht_bound_at_ms :: i64
  ht_expires_at_ms :: i64

datatype AffinityMiss =
    MissInvalidInput | NotFound | Expired | GroupScopeMismatch | EndpointRevisionMismatch | ModelMismatch

datatype AffinityBindError = BindInvalidInput | InvalidTtl

record AffinityEntry =
  en_station_key_id :: string
  en_bound_at_ms :: i64
  en_expires_at_ms :: i64
  en_last_touched_ms :: i64

record AffinityRegistry =
  ar_policy :: AffinityPolicy
  ar_entries :: "(AffinityLookup, AffinityEntry) btree"

definition affinity_new :: "AffinityPolicy \<Rightarrow> AffinityRegistry" where
  "affinity_new policy = \<lparr>ar_policy = policy, ar_entries = []\<rparr>"

definition validate_lookup :: "AffinityLookup \<Rightarrow> AffinityBindError + unit" where
  "validate_lookup l = (if lk_routing_group_scope l = [] \<or> lk_value l = [] then Inl BindInvalidInput else Inr ())"

definition keep_entry :: "AffinityPolicy \<Rightarrow> i64 \<Rightarrow> AffinityLookup \<times> AffinityEntry \<Rightarrow> bool" where
  "keep_entry policy now_ms p \<longleftrightarrow> en_expires_at_ms (snd p) > now_ms
     \<and> i64_sat_sub now_ms (en_last_touched_ms (snd p)) \<le> ap_ttl_ms policy"

definition cleanup :: "AffinityRegistry \<Rightarrow> i64 \<Rightarrow> nat \<times> AffinityRegistry" where
  "cleanup r now_ms =
     (let kept = filter (keep_entry (ar_policy r) now_ms) (ar_entries r)
      in (length (ar_entries r) - length kept, r\<lparr>ar_entries := kept\<rparr>))"

text \<open>\<^verbatim>\<open>min_by_key\<close> over \<^verbatim>\<open>(last_touched_ms, key)\<close>.\<close>

definition oldest_key :: "(AffinityLookup, AffinityEntry) btree \<Rightarrow> AffinityLookup option" where
  "oldest_key m = map_option snd (min_option (map (\<lambda>(k, e). (en_last_touched_ms e, k)) m))"

lemma oldest_key_mem: "oldest_key m = Some k \<Longrightarrow> k \<in> fst ` set m"
proof -
  assume "oldest_key m = Some k"
  then obtain t where t: "min_option (map (\<lambda>(k, e). (en_last_touched_ms e, k)) m) = Some (t, k)"
    by (auto simp: oldest_key_def)
  then have "m \<noteq> []" and "(t, k) = Min (set (map (\<lambda>(k, e). (en_last_touched_ms e, k)) m))"
    by (auto simp: min_option_Some)
  then have "(t, k) \<in> set (map (\<lambda>(k, e). (en_last_touched_ms e, k)) m)" by (metis Min_in List.finite_set set_empty map_is_Nil_conv)
  then show ?thesis by force
qed

function enforce_bounds :: "nat \<Rightarrow> (AffinityLookup, AffinityEntry) btree \<Rightarrow> (AffinityLookup, AffinityEntry) btree" where
  "enforce_bounds max_entries m =
     (if length m > max_entries then
        (case oldest_key m of None \<Rightarrow> m | Some k \<Rightarrow> enforce_bounds max_entries (bt_remove k m))
      else m)"
  by pat_completeness auto

termination
  by (relation "measure (length \<circ> snd)") (auto intro: length_bt_remove oldest_key_mem)

declare enforce_bounds.simps [simp del]

definition bind_key ::
  "AffinityRegistry \<Rightarrow> AffinityLookup \<Rightarrow> string \<Rightarrow> i64 \<Rightarrow> i64 \<Rightarrow> (AffinityBindError + unit) \<times> AffinityRegistry" where
  "bind_key r l station_key_id now_ms ttl_ms =
     (case validate_lookup l of
        Inl e \<Rightarrow> (Inl e, r)
      | Inr _ \<Rightarrow>
        if station_key_id = [] then (Inl BindInvalidInput, r)
        else if ttl_ms \<le> 0 then (Inl InvalidTtl, r)
        else
          let ttl = min ttl_ms (ap_ttl_ms (ar_policy r));
              r1 = snd (cleanup r now_ms);
              inserted = bt_insert l \<lparr>en_station_key_id = station_key_id, en_bound_at_ms = now_ms,
                en_expires_at_ms = i64_sat_add now_ms ttl, en_last_touched_ms = now_ms\<rparr> (ar_entries r1)
          in (Inr (), r1\<lparr>ar_entries := enforce_bounds (ap_max_entries (ar_policy r1)) inserted\<rparr>))"

definition same_value :: "AffinityLookup \<Rightarrow> AffinityLookup \<Rightarrow> bool" where
  "same_value k l \<longleftrightarrow> lk_kind k = lk_kind l \<and> lk_value k = lk_value l"

definition classify_mismatch ::
  "AffinityRegistry \<Rightarrow> AffinityLookup \<Rightarrow> i64 \<Rightarrow> (AffinityMiss + AffinityHit) \<times> AffinityRegistry" where
  "classify_mismatch r l now_ms =
     (let related = filter (\<lambda>(k, e). same_value k l) (ar_entries r);
          expired = map fst (filter (\<lambda>(k, e). en_expires_at_ms e \<le> now_ms) related);
          live = map fst (filter (\<lambda>(k, e). \<not> en_expires_at_ms e \<le> now_ms) related);
          same_group = filter (\<lambda>k. lk_routing_group_scope k = lk_routing_group_scope l) live;
          group_mismatch = list_ex (\<lambda>k. lk_routing_group_scope k \<noteq> lk_routing_group_scope l) live;
          revision_mismatch = list_ex (\<lambda>k. lk_endpoint_revision k \<noteq> lk_endpoint_revision l) same_group;
          model_mismatch = list_ex (\<lambda>k. lk_endpoint_revision k = lk_endpoint_revision l
             \<and> lk_model_class k \<noteq> lk_model_class l) same_group
      in (Inl (if group_mismatch then GroupScopeMismatch
               else if revision_mismatch then EndpointRevisionMismatch
               else if model_mismatch then ModelMismatch else NotFound),
          r\<lparr>ar_entries := fold bt_remove expired (ar_entries r)\<rparr>))"

definition lookup ::
  "AffinityRegistry \<Rightarrow> AffinityLookup \<Rightarrow> i64 \<Rightarrow> (AffinityMiss + AffinityHit) \<times> AffinityRegistry" where
  "lookup r l now_ms =
     (case validate_lookup l of
        Inl _ \<Rightarrow> (Inl MissInvalidInput, r)
      | Inr _ \<Rightarrow>
        (case map_of (ar_entries r) l of
           None \<Rightarrow> classify_mismatch r l now_ms
         | Some e \<Rightarrow>
           if en_expires_at_ms e \<le> now_ms then (Inl Expired, r\<lparr>ar_entries := bt_remove l (ar_entries r)\<rparr>)
           else (Inr \<lparr>ht_station_key_id = en_station_key_id e, ht_bound_at_ms = en_bound_at_ms e,
                      ht_expires_at_ms = en_expires_at_ms e\<rparr>,
                 r\<lparr>ar_entries := bt_insert l (e\<lparr>en_last_touched_ms := now_ms\<rparr>) (ar_entries r)\<rparr>)))"

datatype affinity_call =
    Bind AffinityLookup string i64 i64
  | Lookup AffinityLookup i64
  | Cleanup i64

fun affinity_step :: "AffinityRegistry \<Rightarrow> affinity_call \<Rightarrow> AffinityRegistry" where
  "affinity_step r (Bind l key now ttl) = snd (bind_key r l key now ttl)"
| "affinity_step r (Lookup l now) = snd (lookup r l now)"
| "affinity_step r (Cleanup now) = snd (cleanup r now)"

section \<open>The bound and the order of entries\<close>

definition affinity_ok :: "AffinityRegistry \<Rightarrow> bool" where
  "affinity_ok r \<longleftrightarrow> bt_ok (ar_entries r) \<and> length (ar_entries r) \<le> ap_max_entries (ar_policy r)"

lemma enforce_bounds_spec:
  "bt_ok m \<Longrightarrow> bt_ok (enforce_bounds n m) \<and> length (enforce_bounds n m) \<le> n \<and> set (enforce_bounds n m) \<subseteq> set m"
proof (induction n m rule: enforce_bounds.induct)
  case (1 n m)
  show ?case
  proof (cases "length m > n")
    case False
    with 1 show ?thesis by (subst enforce_bounds.simps, simp)+
  next
    case True
    then have "m \<noteq> []" by auto
    then obtain k where k: "oldest_key m = Some k"
      by (cases "oldest_key m") (auto simp: oldest_key_def)
    have "enforce_bounds n m = enforce_bounds n (bt_remove k m)"
      using True k by (subst enforce_bounds.simps) simp
    moreover have "set (bt_remove k m) \<subseteq> set m" by (auto simp: bt_remove_def)
    ultimately show ?thesis using 1(1) [OF True k] bt_ok_remove [OF 1(2)] by auto
  qed
qed

lemma fold_bt_remove_set: "set (fold bt_remove ks m) \<subseteq> set m"
  by (induction ks arbitrary: m) (auto simp: bt_remove_def, fastforce)

lemma fold_bt_remove_ok: "bt_ok m \<Longrightarrow> bt_ok (fold bt_remove ks m) \<and> length (fold bt_remove ks m) \<le> length m"
proof (induction ks arbitrary: m)
  case (Cons k ks)
  have "length (bt_remove k m) \<le> length m" by (simp add: bt_remove_def)
  with Cons.IH [OF bt_ok_remove [OF Cons.prems]] show ?case by (auto intro: le_trans)
qed simp

lemma length_bt_insert_mem: "bt_ok m \<Longrightarrow> map_of m k = Some w \<Longrightarrow> length (bt_insert k v m) = length m"
proof (induction m)
  case (Cons p m)
  obtain j u where p: "p = (j, u)" by (cases p)
  have ok: "bt_ok m" "\<forall>x \<in> fst ` set m. j < x" using Cons.prems p by (auto simp: bt_ok_def less_le)
  show ?case
  proof (cases "k = j")
    case False
    with Cons.prems p have "map_of m k = Some w" by simp
    moreover then have "k \<in> fst ` set m" by (force dest: map_of_SomeD)
    ultimately show ?thesis using Cons.IH ok p by auto
  qed (simp add: p)
qed simp

lemma bind_key_ok: "affinity_ok r \<Longrightarrow> affinity_ok (snd (bind_key r l key now ttl))"
  by (auto simp: affinity_ok_def bind_key_def cleanup_def Let_def enforce_bounds_spec bt_ok_insert bt_ok_filter
      split: sum.splits)

lemma lookup_ok: "affinity_ok r \<Longrightarrow> affinity_ok (snd (lookup r l now))"
proof -
  assume ok: "affinity_ok r"
  then have bt: "bt_ok (ar_entries r)" and len: "length (ar_entries r) \<le> ap_max_entries (ar_policy r)"
    by (simp_all add: affinity_ok_def)
  have rm: "length (bt_remove l (ar_entries r)) \<le> length (ar_entries r)" by (simp add: bt_remove_def)
  have fold: "bt_ok (fold bt_remove ks (ar_entries r))"
    "length (fold bt_remove ks (ar_entries r)) \<le> ap_max_entries (ar_policy r)" for ks
    using fold_bt_remove_ok [OF bt, of ks] len by auto
  show ?thesis
    using ok len rm bt_ok_remove [OF bt] bt_ok_insert [OF bt] length_bt_insert_mem [OF bt] fold
    by (auto simp: lookup_def classify_mismatch_def Let_def affinity_ok_def
        split: sum.splits option.splits intro: le_trans)
qed

interpretation affinity_inv: kept_invariant affinity_step affinity_ok
proof
  fix r c
  assume ok: "affinity_ok r"
  have "affinity_ok (snd (cleanup r now))" for now
    using ok le_trans [OF length_filter_le] by (auto simp: affinity_ok_def cleanup_def Let_def bt_ok_filter)
  with ok show "affinity_ok (affinity_step r c)"
    by (cases c) (simp_all add: bind_key_ok lookup_ok)
qed

section \<open>A fresh binding survives\<close>

lemma enforce_bounds_keeps:
  assumes "bt_ok m" "1 \<le> n" "map_of m l = Some e"
    and "\<forall>(k, f) \<in> set m. k \<noteq> l \<longrightarrow> en_last_touched_ms f < en_last_touched_ms e"
  shows "map_of (enforce_bounds n m) l = Some e"
  using assms
proof (induction n m rule: enforce_bounds.induct)
  case (1 n m)
  show ?case
  proof (cases "length m > n")
    case False
    with 1 show ?thesis by (subst enforce_bounds.simps) simp
  next
    case True
    then have ne: "m \<noteq> []" by auto
    let ?ts = "map (\<lambda>(k, e). (en_last_touched_ms e, k)) m"
    have "oldest_key m \<noteq> None" using ne by (simp add: oldest_key_def)
    then obtain k where k: "oldest_key m = Some k" by blast
    have "k \<noteq> l"
    proof
      assume "k = l"
      with k obtain t where "min_option ?ts = Some (t, l)" by (auto simp: oldest_key_def)
      then have min: "(t, l) = Min (set ?ts)" unfolding min_option_Some by blast
      have "set ?ts \<noteq> {}" using ne by simp
      then have "Min (set ?ts) \<in> set ?ts" by (intro Min_in) simp_all
      then have "(t, l) \<in> set ?ts" unfolding min .
      then obtain e' where e': "(l, e') \<in> set m" "t = en_last_touched_ms e'" by force
      with 1(2,4) have t: "t = en_last_touched_ms e" by (auto simp: map_of_mem)
      have "1 < length m" using True 1(3) by simp
      then obtain i where i: "i < length m" "fst (m ! i) \<noteq> l"
        using 1(2) by (metis bt_ok_def length_map nth_eq_iff_index_eq nth_map less_trans zero_less_one zero_neq_one)
      then have mem: "m ! i \<in> set m" by simp
      obtain j f where jf: "m ! i = (j, f)" by fastforce
      with i mem 1(5) have lt: "en_last_touched_ms f < en_last_touched_ms e" by fastforce
      have "(en_last_touched_ms f, j) \<in> set ?ts" using mem jf by force
      then have "Min (set ?ts) \<le> (en_last_touched_ms f, j)" by (intro Min_le) auto
      then have "(t, l) \<le> (en_last_touched_ms f, j)" unfolding min .
      with lt t show False by auto
    qed
    have "enforce_bounds n m = enforce_bounds n (bt_remove k m)"
      using True k by (subst enforce_bounds.simps) simp
    moreover have "map_of (enforce_bounds n (bt_remove k m)) l = Some e"
    proof (rule 1(1) [OF True k])
      show "map_of (bt_remove k m) l = Some e" using \<open>k \<noteq> l\<close> 1(4) by (simp add: map_of_bt_remove)
      show "\<forall>(k', f) \<in> set (bt_remove k m). k' \<noteq> l \<longrightarrow> en_last_touched_ms f < en_last_touched_ms e"
        using 1(5) by (auto simp: bt_remove_def)
    qed (use 1(2,3) bt_ok_remove in auto)
    ultimately show ?thesis by simp
  qed
qed

lemma set_bt_insert_subset: "set (bt_insert k v m) \<subseteq> insert (k, v) (set m)"
  by (induction k v m rule: bt_insert.induct) auto

section \<open>Where entries come from\<close>

definition bound_by :: "AffinityPolicy \<Rightarrow> affinity_call set \<Rightarrow> AffinityLookup \<Rightarrow> AffinityEntry \<Rightarrow> bool" where
  "bound_by policy H l e \<longleftrightarrow> (\<exists>ttl. Bind l (en_station_key_id e) (en_bound_at_ms e) ttl \<in> H \<and> 0 < ttl
     \<and> en_expires_at_ms e = i64_sat_add (en_bound_at_ms e) (min ttl (ap_ttl_ms policy)))"

definition entries_from :: "AffinityPolicy \<Rightarrow> affinity_call set \<Rightarrow> AffinityRegistry \<Rightarrow> bool" where
  "entries_from policy H r \<longleftrightarrow> ar_policy r = policy \<and> bt_ok (ar_entries r)
     \<and> (\<forall>(l, e) \<in> set (ar_entries r). bound_by policy H l e)"

lemma bound_by_mono: "bound_by policy H l e \<Longrightarrow> H \<subseteq> H' \<Longrightarrow> bound_by policy H' l e"
  by (auto simp: bound_by_def)

lemma entries_from_subset:
  "entries_from policy H r \<Longrightarrow> H \<subseteq> H' \<Longrightarrow> bt_ok m \<Longrightarrow>
     (\<And>l e. (l, e) \<in> set m \<Longrightarrow> (l, e) \<in> set (ar_entries r) \<or> bound_by policy H' l e) \<Longrightarrow>
     entries_from policy H' (r\<lparr>ar_entries := m\<rparr>)"
  by (simp add: entries_from_def) (blast intro: bound_by_mono)

lemma entries_from_step:
  assumes "entries_from policy H r"
  shows "entries_from policy (insert c H) (affinity_step r c)"
proof -
  have bt: "bt_ok (ar_entries r)" and pol: "ar_policy r = policy" using assms by (auto simp: entries_from_def)
  have same: "entries_from policy (insert c H) r"
    using entries_from_subset [OF assms, of "insert c H" "ar_entries r"] bt by auto
  show ?thesis
  proof (cases c)
    case (Bind l key now ttl)
    define e where "e = \<lparr>en_station_key_id = key, en_bound_at_ms = now,
        en_expires_at_ms = i64_sat_add now (min ttl (ap_ttl_ms policy)), en_last_touched_ms = now\<rparr>"
    let ?k = "filter (keep_entry policy now) (ar_entries r)"
    let ?m = "enforce_bounds (ap_max_entries policy) (bt_insert l e ?k)"
    have "bt_ok (bt_insert l e ?k)" by (simp add: bt_ok_insert bt_ok_filter bt)
    from enforce_bounds_spec [OF this, of "ap_max_entries policy"]
    have m: "bt_ok ?m" "set ?m \<subseteq> set (bt_insert l e ?k)" by auto
    have "0 < ttl \<Longrightarrow> bound_by policy (insert c H) l e" using Bind by (auto simp: bound_by_def e_def)
    then have "0 < ttl \<Longrightarrow> entries_from policy (insert c H) (r\<lparr>ar_entries := ?m\<rparr>)"
      using m set_bt_insert_subset [of l e ?k] by (intro entries_from_subset [OF assms]) auto
    then show ?thesis
      using same Bind pol by (auto simp: bind_key_def cleanup_def Let_def e_def split: sum.splits)
  next
    case (Lookup l now)
    have rem: "entries_from policy (insert c H) (r\<lparr>ar_entries := bt_remove l (ar_entries r)\<rparr>)"
      using bt_ok_remove [OF bt] by (intro entries_from_subset [OF assms]) (auto simp: bt_remove_def)
    have fold: "entries_from policy (insert c H) (r\<lparr>ar_entries := fold bt_remove ks (ar_entries r)\<rparr>)" for ks
      using fold_bt_remove_ok [OF bt] fold_bt_remove_set [of ks "ar_entries r"]
      by (intro entries_from_subset [OF assms]) auto
    have touch: "entries_from policy (insert c H)
        (r\<lparr>ar_entries := bt_insert l (e\<lparr>en_last_touched_ms := now\<rparr>) (ar_entries r)\<rparr>)"
      if "map_of (ar_entries r) l = Some e" for e
    proof (rule entries_from_subset [OF assms])
      have "bound_by policy (insert c H) l e"
        using that same bt by (auto simp: entries_from_def map_of_mem [symmetric])
      then have "bound_by policy (insert c H) l (e\<lparr>en_last_touched_ms := now\<rparr>)" by (simp add: bound_by_def)
      then show "(k, f) \<in> set (bt_insert l (e\<lparr>en_last_touched_ms := now\<rparr>) (ar_entries r)) \<Longrightarrow>
          (k, f) \<in> set (ar_entries r) \<or> bound_by policy (insert c H) k f" for k f
        using set_bt_insert_subset [of l _ "ar_entries r"] by auto
    qed (use bt_ok_insert [OF bt] in auto)
    show ?thesis
      using Lookup same rem fold touch
      by (auto simp: lookup_def classify_mismatch_def Let_def split: sum.splits option.splits)
  next
    case (Cleanup now)
    show ?thesis
      using Cleanup bt_ok_filter [OF bt]
      by (auto simp: cleanup_def Let_def intro!: entries_from_subset [OF assms])
  qed
qed

lemma entries_from_run:
  "entries_from policy H r \<Longrightarrow> entries_from policy (H \<union> set cs) (run_ops affinity_step r cs)"
proof (induction cs arbitrary: H r)
  case (Cons c cs)
  from Cons.IH [OF entries_from_step [OF Cons.prems, of c]] show ?case by simp
qed simp

section \<open>Properties\<close>

text \<open>
  The registry is bounded. After any sequence of binds, lookups and cleanups on a new registry
  it holds at most the configured number of entries, with distinct lookups.
\<close>
theorem affinity_bounded:
  assumes "reachable affinity_step (affinity_new policy) r"
  shows "length (ar_entries r) \<le> ap_max_entries policy \<and> distinct (map fst (ar_entries r))"
proof -
  have "affinity_ok (affinity_new policy)" by (simp add: affinity_ok_def affinity_new_def bt_ok_def)
  with assms have "affinity_ok r" by (rule affinity_inv.reachable_keeps)
  moreover obtain cs where "r = run_ops affinity_step (affinity_new policy) cs"
    using assms by (auto simp: reachable_iff_run)
  then have "ar_policy r = policy"
    using entries_from_run [of policy "{}" "affinity_new policy" cs]
    by (simp add: entries_from_def affinity_new_def bt_ok_def)
  ultimately show ?thesis by (simp add: affinity_ok_def bt_ok_def)
qed

theorem affinity_bounded_witness:
  "length (ar_entries (affinity_step (affinity_new \<lparr>ap_max_entries = 0, ap_ttl_ms = 5\<rparr>)
     (Bind (AffinityLookup Session ''g'' ''v'' 1 OtherModel) ''k'' 0 5))) \<le> 0"
  using affinity_bounded [OF reachable_step [OF reachable_init], of "\<lparr>ap_max_entries = 0, ap_ttl_ms = 5\<rparr>"
      "Bind (AffinityLookup Session ''g'' ''v'' 1 OtherModel) ''k'' 0 5"]
  by (simp del: affinity_step.simps)

text \<open>
  No leakage between scopes, revisions or models, and no stale hits. Whatever calls were made
  before, a hit for a lookup returns a station key that was bound for exactly this lookup (kind,
  group scope, value, endpoint revision, model class), and only strictly before the expiry computed
  from that bind, which never exceeds the configured time to live.
\<close>
theorem affinity_hit_provenance:
  assumes "fst (lookup (run_ops affinity_step (affinity_new policy) cs) l now) = Inr hit"
  shows "\<exists>ttl. Bind l (ht_station_key_id hit) (ht_bound_at_ms hit) ttl \<in> set cs \<and> 0 < ttl
    \<and> ht_expires_at_ms hit = i64_sat_add (ht_bound_at_ms hit) (min ttl (ap_ttl_ms policy))
    \<and> now < ht_expires_at_ms hit"
proof -
  let ?r = "run_ops affinity_step (affinity_new policy) cs"
  have prov: "entries_from policy (set cs) ?r"
    using entries_from_run [of policy "{}" "affinity_new policy" cs]
    by (simp add: entries_from_def affinity_new_def bt_ok_def)
  from assms obtain e where e: "map_of (ar_entries ?r) l = Some e" "\<not> en_expires_at_ms e \<le> now"
    and h: "ht_station_key_id hit = en_station_key_id e" "ht_bound_at_ms hit = en_bound_at_ms e"
      "ht_expires_at_ms hit = en_expires_at_ms e"
    by (auto simp: lookup_def classify_mismatch_def Let_def split: sum.splits option.splits if_splits)
  have "(l, e) \<in> set (ar_entries ?r)" using e(1) by (rule map_of_SomeD)
  with prov have "bound_by policy (set cs) l e" by (auto simp: entries_from_def)
  with e h show ?thesis by (auto simp: bound_by_def not_le)
qed

text \<open>
  a binding is found again. If the registry has room for at least one entry and every existing
  entry was touched strictly before now, then after binding a valid lookup to a key, looking it up
  at any time from now until the (capped) time to live ends returns that key.
\<close>
theorem affinity_bind_lookup:
  assumes "affinity_ok r" and "1 \<le> ap_max_entries (ar_policy r)" and "validate_lookup l = Inr ()"
    and "key \<noteq> []" and "0 < ttl" and "\<forall>(k, e) \<in> set (ar_entries r). en_last_touched_ms e < now"
    and "t < i64_sat_add now (min ttl (ap_ttl_ms (ar_policy r)))"
  shows "fst (lookup (snd (bind_key r l key now ttl)) l t)
    = Inr \<lparr>ht_station_key_id = key, ht_bound_at_ms = now,
           ht_expires_at_ms = i64_sat_add now (min ttl (ap_ttl_ms (ar_policy r)))\<rparr>"
proof -
  let ?e = "\<lparr>en_station_key_id = key, en_bound_at_ms = now,
    en_expires_at_ms = i64_sat_add now (min ttl (ap_ttl_ms (ar_policy r))), en_last_touched_ms = now\<rparr>"
  let ?k = "filter (keep_entry (ar_policy r) now) (ar_entries r)"
  have bt: "bt_ok ?k" using assms(1) by (simp add: affinity_ok_def bt_ok_filter)
  have "map_of (enforce_bounds (ap_max_entries (ar_policy r)) (bt_insert l ?e ?k)) l = Some ?e"
  proof (rule enforce_bounds_keeps [OF bt_ok_insert [OF bt] assms(2)])
    show "map_of (bt_insert l ?e ?k) l = Some ?e" by (simp add: map_of_bt_insert [OF bt])
    show "\<forall>(k, f) \<in> set (bt_insert l ?e ?k). k \<noteq> l \<longrightarrow> en_last_touched_ms f < en_last_touched_ms ?e"
      using set_bt_insert_subset [of l ?e ?k] assms(6) by auto
  qed
  then show ?thesis
    using assms(3-5,7) by (simp add: lookup_def bind_key_def cleanup_def Let_def)
qed

theorem affinity_bind_lookup_witness:
  "fst (lookup (snd (bind_key (affinity_new affinity_policy_default)
      (AffinityLookup Session ''g'' ''v'' 1 OtherModel) ''k'' 10 100))
      (AffinityLookup Session ''g'' ''v'' 1 OtherModel) 50)
    = Inr \<lparr>ht_station_key_id = ''k'', ht_bound_at_ms = 10, ht_expires_at_ms = 110\<rparr>"
  using affinity_bind_lookup [of "affinity_new affinity_policy_default"
      "AffinityLookup Session ''g'' ''v'' 1 OtherModel" "''k''" 100 10 50]
  by (simp add: affinity_ok_def affinity_new_def bt_ok_def affinity_policy_default_def validate_lookup_def
      i64_sat_add_def i64_clamp_def i64_max_def i64_min_def)

theorem affinity_hit_provenance_witness:
  "\<exists>hit. fst (lookup (run_ops affinity_step (affinity_new affinity_policy_default)
      [Bind (AffinityLookup Session ''g'' ''v'' 1 OtherModel) ''k'' 10 100])
      (AffinityLookup Session ''g'' ''v'' 1 OtherModel) 50) = Inr hit \<and> 50 < ht_expires_at_ms hit"
proof -
  let ?l = "AffinityLookup Session ''g'' ''v'' 1 OtherModel"
  let ?hit = "\<lparr>ht_station_key_id = ''k'', ht_bound_at_ms = 10, ht_expires_at_ms = 110\<rparr>"
  have "fst (lookup (run_ops affinity_step (affinity_new affinity_policy_default) [Bind ?l ''k'' 10 100]) ?l 50) = Inr ?hit"
    by (simp add: lookup_def bind_key_def cleanup_def Let_def affinity_new_def affinity_policy_default_def
        validate_lookup_def enforce_bounds.simps i64_sat_add_def i64_clamp_def i64_max_def i64_min_def)
  with affinity_hit_provenance [OF this] show ?thesis by auto
qed

text \<open>
  Without the strictness of the hypothesis on the touch times the binding can be lost: when the
  registry is full and another entry was touched in the same millisecond, eviction breaks the tie
  by the key order and may remove the entry that was just inserted.
\<close>
lemma affinity_bind_tie_evicts_itself:
  "let r = run_ops affinity_step (affinity_new \<lparr>ap_max_entries = 1, ap_ttl_ms = 100\<rparr>)
         [Bind (AffinityLookup Session ''g'' ''w'' 1 OtherModel) ''a'' 10 50];
       l = AffinityLookup Session ''g'' ''v'' 1 OtherModel
   in fst (bind_key r l ''b'' 10 50) = Inr () \<and> fst (lookup (snd (bind_key r l ''b'' 10 50)) l 10) = Inl NotFound"
  by code_simp

end
