(* ===== verification/Utf8.thy ===== *)
theory Utf8
  imports RustString
begin

text \<open>
  UTF-8 as the standard library reads it: \<open>utf8_chars\<close> is \<^verbatim>\<open>str::from_utf8\<close> followed by
  \<^verbatim>\<open>chars()\<close>, the list of Unicode scalar values of a byte string, or \<open>None\<close> when the bytes are
  not well formed (overlong forms, surrogates and values above \<^verbatim>\<open>0x10FFFF\<close> are not).
\<close>

definition cont_byte :: "nat \<Rightarrow> nat \<Rightarrow> char \<Rightarrow> bool" where
  "cont_byte lo hi b \<longleftrightarrow> lo \<le> of_char b \<and> of_char b \<le> hi"

definition second_lo :: "nat \<Rightarrow> nat" where
  "second_lo n = (if n = 0xE0 then 0xA0 else if n = 0xF0 then 0x90 else 0x80)"

definition second_hi :: "nat \<Rightarrow> nat" where
  "second_hi n = (if n = 0xED then 0x9F else if n = 0xF4 then 0x8F else 0xBF)"

abbreviation payload :: "char \<Rightarrow> nat" where
  "payload b \<equiv> of_char b - 0x80"

fun utf8_chars :: "string \<Rightarrow> nat list option" where
  "utf8_chars [] = Some []"
| "utf8_chars (b # bs) =
     (let n = of_char b :: nat in
      if n < 0x80 then map_option (Cons n) (utf8_chars bs)
      else if 0xC2 \<le> n \<and> n \<le> 0xDF then
        (case bs of
           c # r \<Rightarrow> if cont_byte 0x80 0xBF c
             then map_option (Cons ((n - 0xC0) * 64 + payload c)) (utf8_chars r) else None
         | _ \<Rightarrow> None)
      else if 0xE0 \<le> n \<and> n \<le> 0xEF then
        (case bs of
           c # d # r \<Rightarrow> if cont_byte (second_lo n) (second_hi n) c \<and> cont_byte 0x80 0xBF d
             then map_option (Cons ((n - 0xE0) * 4096 + payload c * 64 + payload d)) (utf8_chars r) else None
         | _ \<Rightarrow> None)
      else if 0xF0 \<le> n \<and> n \<le> 0xF4 then
        (case bs of
           c # d # e # r \<Rightarrow> if cont_byte (second_lo n) (second_hi n) c \<and> cont_byte 0x80 0xBF d \<and> cont_byte 0x80 0xBF e
             then map_option (Cons ((n - 0xF0) * 262144 + payload c * 4096 + payload d * 64 + payload e)) (utf8_chars r)
             else None
         | _ \<Rightarrow> None)
      else None)"

text \<open>The \<^verbatim>\<open>chars()\<close> of a \<^verbatim>\<open>str\<close>, whose bytes are well formed by its type.\<close>

definition str_chars :: "string \<Rightarrow> nat list" where
  "str_chars s = (case utf8_chars s of None \<Rightarrow> [] | Some cs \<Rightarrow> cs)"

definition scalar :: "nat \<Rightarrow> bool" where
  "scalar c \<longleftrightarrow> c < 0xD800 \<or> (0xDFFF < c \<and> c \<le> 0x10FFFF)"

definition utf8_encode :: "nat \<Rightarrow> string" where
  "utf8_encode c =
     (if c < 0x80 then [byte c]
      else if c < 0x800 then [byte (0xC0 + c div 64), byte (0x80 + c mod 64)]
      else if c < 0x10000 then [byte (0xE0 + c div 4096), byte (0x80 + c div 64 mod 64), byte (0x80 + c mod 64)]
      else [byte (0xF0 + c div 262144), byte (0x80 + c div 4096 mod 64), byte (0x80 + c div 64 mod 64), byte (0x80 + c mod 64)])"

definition utf8_string :: "nat list \<Rightarrow> string" where
  "utf8_string cs = concat (map utf8_encode cs)"

lemma of_char_byte: "n < 256 \<Longrightarrow> of_char (byte n) = n"
  by (simp add: byte_def of_char_of)

lemma decode_encode_one:
  assumes "scalar c"
  shows "utf8_chars (utf8_encode c @ s) = map_option (Cons c) (utf8_chars s)"
proof -
  consider "c < 0x80" | "0x80 \<le> c" "c < 0x800" | "0x800 \<le> c" "c < 0x10000" | "0x10000 \<le> c" by linarith
  then show ?thesis
  proof cases
    case 1
    then show ?thesis by (simp add: utf8_encode_def of_char_byte)
  next
    case 2
    define q r where "q = c div 64" and "r = c mod 64"
    then have "q \<le> 31" "2 \<le> q" "r \<le> 63" "q * 64 + r = c" using 2 by auto
    moreover have "utf8_encode c = [byte (0xC0 + q), byte (0x80 + r)]" using 2 by (simp add: utf8_encode_def q_def r_def)
    ultimately show ?thesis by (simp add: of_char_byte cont_byte_def Let_def)
  next
    case 3
    define q r d where "q = c div 4096" and "r = c div 64 mod 64" and "d = c mod 64"
    have "c div 64 = q * 64 + r" using div_mult2_eq [of c 64 64] by (simp add: q_def r_def)
    moreover have "c = c div 64 * 64 + d" by (simp add: d_def)
    ultimately have c: "q * 4096 + r * 64 + d = c" by linarith
    have bounds: "r \<le> 63" "d \<le> 63" by (auto simp: r_def d_def)
    then have q: "q \<le> 15" using 3 c by linarith
    have lo: "second_lo (0xE0 + q) \<le> 0x80 + r" using 3 c bounds q by (auto simp: second_lo_def)
    have hi: "0x80 + r \<le> second_hi (0xE0 + q)" using assms c bounds q by (auto simp: second_hi_def scalar_def)
    have "utf8_encode c = [byte (0xE0 + q), byte (0x80 + r), byte (0x80 + d)]"
      using 3 by (simp add: utf8_encode_def q_def r_def d_def)
    with bounds q lo hi c show ?thesis by (simp add: of_char_byte cont_byte_def Let_def)
  next
    case 4
    have top: "c \<le> 0x10FFFF" using assms 4 by (auto simp: scalar_def)
    define q t r d where "q = c div 262144" and "t = c div 4096 mod 64" and "r = c div 64 mod 64" and "d = c mod 64"
    have "c div 64 = c div 4096 * 64 + r" using div_mult2_eq [of c 64 64] by (simp add: r_def)
    moreover have "c div 4096 = q * 64 + t" using div_mult2_eq [of c 4096 64] by (simp add: q_def t_def)
    moreover have "c = c div 64 * 64 + d" by (simp add: d_def)
    ultimately have c: "q * 262144 + t * 4096 + r * 64 + d = c" by linarith
    have bounds: "t \<le> 63" "r \<le> 63" "d \<le> 63" by (auto simp: t_def r_def d_def)
    then have q: "q \<le> 4" using top c by linarith
    have lo: "second_lo (0xF0 + q) \<le> 0x80 + t" using 4 c bounds q by (auto simp: second_lo_def)
    have hi: "0x80 + t \<le> second_hi (0xF0 + q)" using top c bounds q by (auto simp: second_hi_def)
    have "utf8_encode c = [byte (0xF0 + q), byte (0x80 + t), byte (0x80 + r), byte (0x80 + d)]"
      using 4 by (simp add: utf8_encode_def q_def t_def r_def d_def)
    with bounds q lo hi c show ?thesis by (simp add: of_char_byte cont_byte_def Let_def)
  qed
qed

lemma utf8_chars_string: "list_all scalar cs \<Longrightarrow> utf8_chars (utf8_string cs) = Some cs"
  by (induction cs) (auto simp: utf8_string_def decode_encode_one)

lemma utf8_chars_ascii: "list_all (\<lambda>b. of_char b < (0x80 :: nat)) s \<Longrightarrow> utf8_chars s = Some (map of_char s)"
  by (induction s) auto

lemma str_chars_string [simp]: "list_all scalar cs \<Longrightarrow> str_chars (utf8_string cs) = cs"
  by (simp add: str_chars_def utf8_chars_string)

lemma str_chars_ascii: "list_all (\<lambda>b. of_char b < (0x80 :: nat)) s \<Longrightarrow> str_chars s = map of_char s"
  by (simp add: str_chars_def utf8_chars_ascii)

lemma utf8_chars_append:
  "utf8_chars a = Some xs \<Longrightarrow> utf8_chars (a @ b) = map_option (\<lambda>ys. xs @ ys) (utf8_chars b)"
proof (induction a arbitrary: xs rule: length_induct)
  case (1 a)
  then have IH: "utf8_chars (r @ b) = map_option (\<lambda>ys. z @ ys) (utf8_chars b)"
    if "length r < length a" "utf8_chars r = Some z" for r z
    using that by blast
  show ?case
  proof (cases a)
    case Nil
    then show ?thesis using "1.prems" by (cases "utf8_chars b") auto
  next
    case (Cons c cs)
    with "1.prems" show ?thesis
      by (cases "utf8_chars b") (auto simp: Let_def IH split: if_splits list.splits)
  qed
qed

text \<open>A line break (any ASCII byte) never falls inside the encoding of a character.\<close>

lemma utf8_chars_split:
  assumes "of_char c < (0x80 :: nat)"
  shows "utf8_chars (a @ c # b) = Some z \<Longrightarrow> (\<exists>x. utf8_chars a = Some x) \<and> (\<exists>y. utf8_chars b = Some y)"
proof (induction a arbitrary: z rule: length_induct)
  case (1 a)
  then have IH: "(\<exists>x. utf8_chars r = Some x) \<and> (\<exists>y. utf8_chars b = Some y)"
    if "length r < length a" "utf8_chars (r @ c # b) = Some y" for r y
    using that by blast
  have c: "\<not> cont_byte lo hi c" if "0x80 \<le> lo" for lo hi using assms that by (simp add: cont_byte_def)
  have lo: "0x80 \<le> second_lo n" for n by (simp add: second_lo_def)
  show ?case
  proof (cases a)
    case Nil
    then show ?thesis using "1.prems" assms by auto
  next
    case (Cons d ds)
    with "1.prems" show ?thesis
      by (auto simp: Let_def c lo append_eq_Cons_conv Cons_eq_append_conv split: if_splits list.splits dest!: IH [rotated])
  qed
qed

end
