(* ===== verification/Glob.thy ===== *)
theory Glob
  imports Utf8 "HOL-Library.While_Combinator"
begin

text \<open>
  The glob matcher of model mapping rules (\<^verbatim>\<open>model_mapping/glob.rs\<close>): compilation, the linear
  greedy matcher and the bounded product search that decides whether two patterns overlap. The
  matcher is proved equivalent to the meaning of the pattern text, and the overlap search exact.
\<close>

section \<open>Compilation\<close>

definition MAX_PATTERN_BYTES :: nat where "MAX_PATTERN_BYTES = 256"
definition MAX_PATTERN_TOKENS :: nat where "MAX_PATTERN_TOKENS = 256"
definition MAX_INTERSECTION_STATES :: nat where "MAX_INTERSECTION_STATES = 16384"
definition MAX_INTERSECTION_WORK :: nat where "MAX_INTERSECTION_WORK = 100000"

datatype GlobCompileError = GlobEmpty | TooLong | TooManyTokens | TrailingEscape | InvalidControl

datatype GlobToken = Literal nat | Any | Star

record CompiledGlob =
  gl_tokens :: "GlobToken list"
  gl_literal_count :: nat

text \<open>\<^verbatim>\<open>char::is_control\<close>: general category Cc.\<close>

definition is_control :: "nat \<Rightarrow> bool" where
  "is_control c \<longleftrightarrow> c < 0x20 \<or> (0x7F \<le> c \<and> c < 0xA0)"

abbreviation backslash :: nat where "backslash \<equiv> 0x5C"
abbreviation asterisk :: nat where "asterisk \<equiv> 0x2A"
abbreviation question :: nat where "question \<equiv> 0x3F"

definition push_token :: "GlobToken list \<Rightarrow> GlobToken \<Rightarrow> GlobToken list" where
  "push_token tokens token =
     (if \<not> (tokens \<noteq> [] \<and> last tokens = Star) \<or> token \<noteq> Star then tokens @ [token] else tokens)"

text \<open>One character of the pattern (with the character it quotes): the token and what is left.\<close>

fun glob_token :: "nat \<Rightarrow> nat list \<Rightarrow> GlobCompileError + (GlobToken \<times> nat list)" where
  "glob_token c rest =
     (if c = backslash then
        (case rest of
           [] \<Rightarrow> Inl TrailingEscape
         | e # rest' \<Rightarrow> if e = 0 \<or> is_control e then Inl InvalidControl else Inr (Literal e, rest'))
      else if c = asterisk then Inr (Star, rest)
      else if c = question then Inr (Any, rest)
      else if c = 0 \<or> is_control c then Inl InvalidControl
      else Inr (Literal c, rest))"

definition is_literal :: "GlobToken \<Rightarrow> bool" where
  "is_literal t = (case t of Literal _ \<Rightarrow> True | _ \<Rightarrow> False)"

lemma glob_token_shorter: "glob_token c rest = Inr (t, rest') \<Longrightarrow> length rest' \<le> length rest"
  by (auto split: if_splits list.splits)

declare glob_token.simps [simp del]

function compile_loop :: "nat list \<Rightarrow> GlobToken list \<Rightarrow> nat \<Rightarrow> GlobCompileError + (GlobToken list \<times> nat)" where
  "compile_loop [] tokens literal_count = Inr (tokens, literal_count)"
| "compile_loop (c # rest) tokens literal_count =
     (case glob_token c rest of
        Inl e \<Rightarrow> Inl e
      | Inr (token, rest') \<Rightarrow>
        let literal_count' = (if is_literal token then literal_count + 1 else literal_count);
            tokens' = push_token tokens token
        in if length tokens' > MAX_PATTERN_TOKENS then Inl TooManyTokens
           else compile_loop rest' tokens' literal_count')"
  by pat_completeness auto

termination
  by (relation "measure (\<lambda>(cs, _). length cs)") (auto dest: glob_token_shorter intro: le_imp_less_Suc)

definition glob_compile :: "string \<Rightarrow> GlobCompileError + CompiledGlob" where
  "glob_compile pattern =
     (if pattern = [] then Inl GlobEmpty
      else if length pattern > MAX_PATTERN_BYTES then Inl TooLong
      else rbind (compile_loop (str_chars pattern) [] 0) (\<lambda>(tokens, literal_count).
        if tokens = [] then Inl GlobEmpty
        else Inr \<lparr>gl_tokens = tokens, gl_literal_count = literal_count\<rparr>))"

section \<open>Matching\<close>

record match_state =
  ms_input_index :: nat
  ms_token_index :: nat
  ms_star_index :: "nat option"
  ms_star_input_index :: nat
  ms_failed :: bool

definition token_at :: "GlobToken list \<Rightarrow> nat \<Rightarrow> GlobToken option" where
  "token_at tokens i = (if i < length tokens then Some (tokens ! i) else None)"

definition match_step :: "GlobToken list \<Rightarrow> nat list \<Rightarrow> match_state \<Rightarrow> match_state" where
  "match_step tokens input s =
     (let i = ms_input_index s; t = ms_token_index s;
          advance = s\<lparr>ms_token_index := t + 1, ms_input_index := i + 1\<rparr>;
          retry = (case ms_star_index s of
            None \<Rightarrow> s\<lparr>ms_failed := True\<rparr>
          | Some star \<Rightarrow> s\<lparr>ms_token_index := star + 1, ms_star_input_index := ms_star_input_index s + 1,
              ms_input_index := ms_star_input_index s + 1\<rparr>)
      in case token_at tokens t of
           Some (Literal expected) \<Rightarrow> if expected = input ! i then advance else retry
         | Some Any \<Rightarrow> advance
         | Some Star \<Rightarrow> s\<lparr>ms_star_index := Some t, ms_star_input_index := i, ms_token_index := t + 1\<rparr>
         | None \<Rightarrow> retry)"

fun skip_stars :: "GlobToken list \<Rightarrow> GlobToken list" where
  "skip_stars (Star # ts) = skip_stars ts"
| "skip_stars ts = ts"

definition glob_matches :: "CompiledGlob \<Rightarrow> string \<Rightarrow> bool option" where
  "glob_matches g s =
     (let input = str_chars s; tokens = gl_tokens g in
      map_option (\<lambda>st. \<not> ms_failed st \<and> skip_stars (drop (ms_token_index st) tokens) = [])
        (while_option (\<lambda>st. \<not> ms_failed st \<and> ms_input_index st < length input) (match_step tokens input)
          \<lparr>ms_input_index = 0, ms_token_index = 0, ms_star_index = None, ms_star_input_index = 0, ms_failed = False\<rparr>))"

section \<open>What a pattern means\<close>

fun accepts :: "GlobToken list \<Rightarrow> nat list \<Rightarrow> bool" where
  "accepts [] s = (s = [])"
| "accepts (Literal c # ts) s = (case s of [] \<Rightarrow> False | d # r \<Rightarrow> d = c \<and> accepts ts r)"
| "accepts (Any # ts) s = (case s of [] \<Rightarrow> False | d # r \<Rightarrow> accepts ts r)"
| "accepts (Star # ts) s = list_ex (\<lambda>n. accepts ts (drop n s)) [0..<Suc (length s)]"

lemma accepts_Star: "accepts (Star # ts) s \<longleftrightarrow> (\<exists>n \<le> length s. accepts ts (drop n s))"
  by (simp only: accepts.simps list_ex_iff set_upt atLeastLessThanSuc_atLeastAtMost) auto

declare accepts.simps(4) [simp del]

lemma accepts_Star_drop: "accepts (Star # ts) (drop m s) \<Longrightarrow> accepts (Star # ts) s"
proof -
  assume "accepts (Star # ts) (drop m s)"
  then obtain n where "n \<le> length s - m" "accepts ts (drop (n + m) s)" by (auto simp: accepts_Star)
  then show ?thesis
    by (cases "n + m \<le> length s") (auto simp: accepts_Star intro: exI [of _ "n + m"] exI [of _ "length s"])
qed

lemma accepts_Star_idem: "accepts (Star # Star # ts) s = accepts (Star # ts) s"
proof
  assume "accepts (Star # Star # ts) s"
  then obtain n where "accepts (Star # ts) (drop n s)" by (subst (asm) accepts_Star) auto
  then show "accepts (Star # ts) s" by (rule accepts_Star_drop)
next
  assume "accepts (Star # ts) s"
  then have "accepts (Star # ts) (drop 0 s)" by simp
  then show "accepts (Star # Star # ts) s" by (subst accepts_Star) blast
qed

text \<open>Tokens that consume exactly one character each.\<close>

lemma accepts_segment:
  "Star \<notin> set seg \<Longrightarrow> accepts (seg @ ts) s \<Longrightarrow> length seg \<le> length s \<and> accepts ts (drop (length seg) s)"
proof (induction seg arbitrary: s)
  case (Cons t seg)
  then show ?case by (cases t; cases s) auto
qed simp

section \<open>The greedy matcher is exact\<close>

text \<open>
  Between two iterations: what is left to match either matches from here, or the last star can
  swallow more. The tokens since that star each consumed one character.
\<close>

definition match_inv :: "GlobToken list \<Rightarrow> nat list \<Rightarrow> match_state \<Rightarrow> bool" where
  "match_inv tokens input s \<longleftrightarrow>
     ms_token_index s \<le> length tokens \<and> ms_input_index s \<le> length input \<and> ms_star_input_index s \<le> ms_input_index s
   \<and> (case ms_star_index s of
        None \<Rightarrow> accepts tokens input = (\<not> ms_failed s \<and> accepts (drop (ms_token_index s) tokens) (drop (ms_input_index s) input))
      | Some star \<Rightarrow> \<not> ms_failed s
          \<and> star < ms_token_index s \<and> tokens ! star = Star
          \<and> Star \<notin> set (take (ms_token_index s - Suc star) (drop (Suc star) tokens))
          \<and> ms_input_index s = ms_star_input_index s + (ms_token_index s - Suc star)
          \<and> accepts tokens input = (accepts (drop (ms_token_index s) tokens) (drop (ms_input_index s) input)
              \<or> (\<exists>j. ms_star_input_index s < j \<and> j \<le> length input \<and> accepts (drop (Suc star) tokens) (drop j input))))"

text \<open>Lexicographic: later stars, then later restarts of the same star, then progress.\<close>

definition match_measure :: "GlobToken list \<Rightarrow> nat list \<Rightarrow> match_state \<Rightarrow> nat \<times> nat \<times> nat" where
  "match_measure tokens input s =
     (length tokens - (case ms_star_index s of None \<Rightarrow> 0 | Some star \<Rightarrow> Suc star),
      (if ms_failed s then 0 else Suc (length input) - ms_star_input_index s),
      (length tokens - ms_token_index s) + (length input - ms_input_index s))"

lemma accepts_drop_Star:
  assumes "t < length ts" "ts ! t = Star"
  shows "accepts (drop t ts) s \<longleftrightarrow> accepts (drop (Suc t) ts) s \<or> (\<exists>j. 0 < j \<and> j \<le> length s \<and> accepts (drop (Suc t) ts) (drop j s))"
proof -
  have "drop t ts = Star # drop (Suc t) ts" using assms by (metis Cons_nth_drop_Suc)
  then show ?thesis by (simp add: accepts_Star) (metis drop0 gr0I le0)
qed

text \<open>A restart of an earlier star that succeeds makes the present star succeed too.\<close>

lemma earlier_star_subsumed:
  assumes "star < t" "t < length ts" "ts ! t = Star"
    and "Star \<notin> set (take (t - Suc star) (drop (Suc star) ts))"
    and "i = si + (t - Suc star)" "si < j" "accepts (drop (Suc star) ts) (drop j input)"
  shows "accepts (drop t ts) (drop i input)"
proof -
  let ?seg = "take (t - Suc star) (drop (Suc star) ts)"
  have len: "length ?seg = t - Suc star" using assms(1,2) by simp
  have split: "drop (Suc star) ts = ?seg @ drop t ts"
    using assms(1) append_take_drop_id [of "t - Suc star" "drop (Suc star) ts"] by simp
  from accepts_segment [OF assms(4), of "drop t ts" "drop j input"] assms(7) split len
  have "accepts (drop t ts) (drop (t - Suc star) (drop j input))" by metis
  then have "accepts (drop t ts) (drop (j - si) (drop i input))" using assms(5,6) by (simp add: algebra_simps)
  moreover have "drop t ts = Star # drop (Suc t) ts" using assms(2,3) by (metis Cons_nth_drop_Suc)
  ultimately show ?thesis by (metis accepts_Star_drop)
qed

lemma accepts_advance:
  assumes "t < length ts" "i < length input" "ts ! t = Any \<or> ts ! t = Literal (input ! i)"
  shows "accepts (drop t ts) (drop i input) = accepts (drop (Suc t) ts) (drop (Suc i) input)"
proof -
  have "drop t ts = ts ! t # drop (Suc t) ts" "drop i input = input ! i # drop (Suc i) input"
    using assms(1,2) by (simp_all add: Cons_nth_drop_Suc)
  with assms(3) show ?thesis by auto
qed

lemma accepts_stuck:
  assumes "i < length input" "t \<le> length ts" "t < length ts \<Longrightarrow> \<exists>c. ts ! t = Literal c \<and> c \<noteq> input ! i"
  shows "\<not> accepts (drop t ts) (drop i input)"
proof (cases "t < length ts")
  case True
  have "drop t ts = ts ! t # drop (Suc t) ts" "drop i input = input ! i # drop (Suc i) input"
    using True assms(1) by (simp_all add: Cons_nth_drop_Suc)
  with assms(3) [OF True] show ?thesis by auto
qed (use assms in simp)

abbreviation match_order :: "((nat \<times> nat \<times> nat) \<times> (nat \<times> nat \<times> nat)) set" where
  "match_order \<equiv> less_than <*lex*> less_than <*lex*> less_than"

lemma match_step_advance:
  assumes inv: "match_inv tokens input s" and run: "\<not> ms_failed s" "ms_input_index s < length input"
    and t: "ms_token_index s < length tokens"
      "tokens ! ms_token_index s = Any \<or> tokens ! ms_token_index s = Literal (input ! ms_input_index s)"
  defines "s' \<equiv> s\<lparr>ms_token_index := ms_token_index s + 1, ms_input_index := ms_input_index s + 1\<rparr>"
  shows "match_inv tokens input s' \<and> (match_measure tokens input s', match_measure tokens input s) \<in> match_order"
proof -
  note adv = accepts_advance [OF t(1) run(2) t(2)]
  have "match_inv tokens input s'"
  proof (cases "ms_star_index s")
    case None
    with inv run t adv show ?thesis by (simp add: match_inv_def s'_def)
  next
    case (Some star)
    have st: "star < ms_token_index s" using inv Some by (simp add: match_inv_def)
    have "take (Suc (ms_token_index s) - Suc star) (drop (Suc star) tokens)
        = take (ms_token_index s - Suc star) (drop (Suc star) tokens) @ [tokens ! ms_token_index s]"
      using st t(1) take_Suc_conv_app_nth [of "ms_token_index s - Suc star" "drop (Suc star) tokens"]
      by (simp add: Suc_diff_Suc)
    with inv run t adv Some st show ?thesis by (auto simp: match_inv_def s'_def)
  qed
  moreover have "(match_measure tokens input s', match_measure tokens input s) \<in> match_order"
    using run t by (auto simp: match_measure_def s'_def)
  ultimately show ?thesis by blast
qed

lemma match_step_star:
  assumes inv: "match_inv tokens input s" and run: "\<not> ms_failed s" "ms_input_index s < length input"
    and t: "ms_token_index s < length tokens" "tokens ! ms_token_index s = Star"
  defines "s' \<equiv> s\<lparr>ms_star_index := Some (ms_token_index s), ms_star_input_index := ms_input_index s,
    ms_token_index := ms_token_index s + 1\<rparr>"
  shows "match_inv tokens input s' \<and> (match_measure tokens input s', match_measure tokens input s) \<in> match_order"
proof -
  let ?t = "ms_token_index s" and ?i = "ms_input_index s"
  have here: "accepts tokens input = accepts (drop ?t tokens) (drop ?i input)"
  proof (cases "ms_star_index s")
    case (Some star)
    then have i: "star < ?t" "Star \<notin> set (take (?t - Suc star) (drop (Suc star) tokens))"
      "?i = ms_star_input_index s + (?t - Suc star)"
      and a: "accepts tokens input = (accepts (drop ?t tokens) (drop ?i input)
        \<or> (\<exists>j. ms_star_input_index s < j \<and> j \<le> length input \<and> accepts (drop (Suc star) tokens) (drop j input)))"
      using inv by (simp_all add: match_inv_def)
    from earlier_star_subsumed [OF i(1) t i(2,3)] a show ?thesis by blast
  qed (use inv run in \<open>simp add: match_inv_def\<close>)
  have "accepts tokens input = (accepts (drop (Suc ?t) tokens) (drop ?i input)
      \<or> (\<exists>j. 0 < j \<and> j \<le> length (drop ?i input) \<and> accepts (drop (Suc ?t) tokens) (drop j (drop ?i input))))"
    using here accepts_drop_Star [OF t] by simp
  also have "(\<exists>j. 0 < j \<and> j \<le> length (drop ?i input) \<and> accepts (drop (Suc ?t) tokens) (drop j (drop ?i input)))
      = (\<exists>j. ?i < j \<and> j \<le> length input \<and> accepts (drop (Suc ?t) tokens) (drop j input))" (is "?L = ?R")
  proof
    assume ?L
    then obtain j where "0 < j" "j \<le> length input - ?i" "accepts (drop (Suc ?t) tokens) (drop (j + ?i) input)" by auto
    then show ?R using run(2) by (intro exI [of _ "j + ?i"]) auto
  next
    assume ?R
    then obtain j where "?i < j" "j \<le> length input" "accepts (drop (Suc ?t) tokens) (drop j input)" by blast
    then show ?L by (intro exI [of _ "j - ?i"]) auto
  qed
  finally have "match_inv tokens input s'" using inv run t by (auto simp: match_inv_def s'_def)
  moreover have "(match_measure tokens input s', match_measure tokens input s) \<in> match_order"
    using inv t by (auto simp: match_measure_def s'_def match_inv_def split: option.splits)
  ultimately show ?thesis by blast
qed

lemma match_step_retry:
  assumes inv: "match_inv tokens input s" and run: "\<not> ms_failed s" "ms_input_index s < length input"
    and stuck: "ms_token_index s < length tokens \<Longrightarrow>
      \<exists>c. tokens ! ms_token_index s = Literal c \<and> c \<noteq> input ! ms_input_index s"
  defines "s' \<equiv> case ms_star_index s of None \<Rightarrow> s\<lparr>ms_failed := True\<rparr>
    | Some star \<Rightarrow> s\<lparr>ms_token_index := star + 1, ms_star_input_index := ms_star_input_index s + 1,
        ms_input_index := ms_star_input_index s + 1\<rparr>"
  shows "match_inv tokens input s' \<and> (match_measure tokens input s', match_measure tokens input s) \<in> match_order"
proof -
  let ?t = "ms_token_index s" and ?i = "ms_input_index s" and ?si = "ms_star_input_index s"
  have le: "?t \<le> length tokens" "?si \<le> ?i" using inv by (simp_all add: match_inv_def)
  have no: "\<not> accepts (drop ?t tokens) (drop ?i input)" using accepts_stuck [OF run(2) le(1)] stuck by blast
  show ?thesis
  proof (cases "ms_star_index s")
    case None
    with inv run no le show ?thesis by (auto simp: match_inv_def match_measure_def s'_def)
  next
    case (Some star)
    have next_restart: "(\<exists>j. ?si < j \<and> j \<le> length input \<and> accepts (drop (Suc star) tokens) (drop j input))
      = (accepts (drop (Suc star) tokens) (drop (Suc ?si) input)
         \<or> (\<exists>j. Suc ?si < j \<and> j \<le> length input \<and> accepts (drop (Suc star) tokens) (drop j input)))" (is "?L = ?R")
    proof
      assume ?L
      then obtain j where "?si < j" "j \<le> length input" "accepts (drop (Suc star) tokens) (drop j input)" by blast
      then show ?R by (cases "j = Suc ?si") auto
    next
      assume ?R
      then show ?L using le(2) run(2) by (metis Suc_lessD lessI less_trans_Suc order_le_less_trans Suc_leI)
    qed
    from Some inv run no le next_restart show ?thesis
      by (auto simp: match_inv_def match_measure_def s'_def)
  qed
qed

lemma match_step_correct:
  assumes "match_inv tokens input s" "\<not> ms_failed s" "ms_input_index s < length input"
  shows "match_inv tokens input (match_step tokens input s)
    \<and> (match_measure tokens input (match_step tokens input s), match_measure tokens input s) \<in> match_order"
proof (cases "token_at tokens (ms_token_index s)")
  case None
  then have "\<not> ms_token_index s < length tokens" by (simp add: token_at_def split: if_splits)
  with match_step_retry [OF assms] None show ?thesis by (simp add: match_step_def Let_def)
next
  case (Some tok)
  then have t: "ms_token_index s < length tokens" "tokens ! ms_token_index s = tok"
    by (simp_all add: token_at_def split: if_splits)
  show ?thesis
  proof (cases tok)
    case (Literal c)
    show ?thesis
    proof (cases "c = input ! ms_input_index s")
      case True
      with match_step_advance [OF assms t(1)] t(2) Literal Some show ?thesis by (simp add: match_step_def Let_def)
    next
      case False
      with match_step_retry [OF assms] t(2) Literal Some show ?thesis by (simp add: match_step_def Let_def)
    qed
  next
    case Any
    with match_step_advance [OF assms t(1)] t(2) Some show ?thesis by (simp add: match_step_def Let_def)
  next
    case Star
    with match_step_star [OF assms t(1)] t(2) Some show ?thesis by (simp add: match_step_def Let_def)
  qed
qed

lemma accepts_end: "accepts ts [] \<longleftrightarrow> skip_stars ts = []"
  by (induction ts rule: skip_stars.induct) (auto simp: accepts_Star)

text \<open>The matcher terminates and decides acceptance.\<close>

lemma glob_matches_accepts: "glob_matches g s = Some (accepts (gl_tokens g) (str_chars s))"
proof -
  let ?ts = "gl_tokens g" and ?in = "str_chars s"
  let ?b = "\<lambda>st. \<not> ms_failed st \<and> ms_input_index st < length ?in"
  let ?s0 = "\<lparr>ms_input_index = 0, ms_token_index = 0, ms_star_index = None, ms_star_input_index = 0, ms_failed = False\<rparr>"
  have init: "match_inv ?ts ?in ?s0" by (simp add: match_inv_def)
  have "wf (inv_image match_order (match_measure ?ts ?in))" by (intro wf_inv_image wf_lex_prod wf_less_than)
  moreover have "{(t, s). (match_inv ?ts ?in s \<and> ?b s) \<and> t = match_step ?ts ?in s} \<subseteq> inv_image match_order (match_measure ?ts ?in)"
    using match_step_correct by (auto simp: in_inv_image)
  ultimately have "wf {(t, s). (match_inv ?ts ?in s \<and> ?b s) \<and> t = match_step ?ts ?in s}" by (rule wf_subset)
  then obtain st where st: "while_option ?b (match_step ?ts ?in) ?s0 = Some st"
    using wf_while_option_Some [of "match_inv ?ts ?in" ?b "match_step ?ts ?in" ?s0] match_step_correct init by blast
  have inv: "match_inv ?ts ?in st"
    using while_option_rule [of "match_inv ?ts ?in" ?b "match_step ?ts ?in" ?s0 st] match_step_correct st init by blast
  have stop: "\<not> ?b st" using while_option_stop [OF st] .
  have "accepts ?ts ?in \<longleftrightarrow> \<not> ms_failed st \<and> accepts (drop (ms_token_index st) ?ts) []"
  proof (cases "ms_star_index st")
    case None
    with inv stop show ?thesis by (auto simp: match_inv_def)
  next
    case (Some star)
    then have "ms_input_index st = length ?in" "\<not> ms_failed st" using inv stop by (auto simp: match_inv_def)
    moreover have "accepts (drop (ms_token_index st) ?ts) []"
      if "ms_star_input_index st < j" "j \<le> length ?in" "accepts (drop (Suc star) ?ts) (drop j ?in)" for j
    proof -
      let ?t = "ms_token_index st"
      let ?seg = "take (?t - Suc star) (drop (Suc star) ?ts)"
      have i: "star < ?t" "?t \<le> length ?ts" "Star \<notin> set ?seg" "ms_input_index st = ms_star_input_index st + (?t - Suc star)"
        using inv Some by (simp_all add: match_inv_def)
      have "drop (Suc star) ?ts = ?seg @ drop ?t ?ts"
        using i(1) append_take_drop_id [of "?t - Suc star" "drop (Suc star) ?ts"] by simp
      with accepts_segment [OF i(3), of "drop ?t ?ts" "drop j ?in"] that(3)
      have "?t - Suc star \<le> length ?in - j" using i(1,2) by simp
      with i that \<open>ms_input_index st = length ?in\<close> show ?thesis by linarith
    qed
    ultimately show ?thesis using inv Some by (auto simp: match_inv_def)
  qed
  then show ?thesis by (simp add: glob_matches_def Let_def st accepts_end)
qed

section \<open>Compilation keeps the meaning of the text\<close>

text \<open>The meaning of a pattern, read off its characters.\<close>

fun pattern_accepts :: "nat list \<Rightarrow> nat list \<Rightarrow> bool" where
  "pattern_accepts [] s = (s = [])"
| "pattern_accepts (c # p) s =
     (if c = backslash then
        (case (p, s) of (e # p', d # r) \<Rightarrow> d = e \<and> pattern_accepts p' r | _ \<Rightarrow> False)
      else if c = asterisk then list_ex (\<lambda>n. pattern_accepts p (drop n s)) [0..<Suc (length s)]
      else (case s of [] \<Rightarrow> False | d # r \<Rightarrow> (c = question \<or> d = c) \<and> pattern_accepts p r))"

lemma accepts_append_cong:
  "(\<And>s. accepts ys s = accepts zs s) \<Longrightarrow> accepts (xs @ ys) s = accepts (xs @ zs) s"
proof (induction xs arbitrary: s)
  case (Cons t xs)
  then show ?case by (cases t) (auto simp: accepts_Star split: list.splits)
qed simp

lemma accepts_push_token: "accepts (push_token ts t @ raw) s = accepts (ts @ t # raw) s"
proof (cases "ts \<noteq> [] \<and> last ts = Star \<and> t = Star")
  case True
  then have "ts = butlast ts @ [Star]" by (metis append_butlast_last_id)
  then have ts: "ts @ raw = butlast ts @ Star # raw" "ts @ t # raw = butlast ts @ Star # Star # raw"
    using True by (metis append.assoc append_Cons append_Nil)+
  have "push_token ts t = ts" using True by (simp add: push_token_def)
  then show ?thesis unfolding ts using accepts_append_cong [of "Star # raw" "Star # Star # raw" "butlast ts"]
    by (simp add: accepts_Star_idem ts(1))
next
  case False
  then have "push_token ts t = ts @ [t]" by (auto simp: push_token_def)
  then show ?thesis by simp
qed

lemma accepts_foldl_push: "accepts (foldl push_token ts raw) s = accepts (ts @ raw) s"
proof (induction raw arbitrary: ts)
  case (Cons t raw)
  then show ?case using accepts_push_token [of ts t raw s] by simp
qed simp

lemma glob_token_meaning:
  assumes "glob_token c rest = Inr (t, rest')"
    and "\<And>s. pattern_accepts rest' s = accepts raw s"
  shows "pattern_accepts (c # rest) s = accepts (t # raw) s"
proof -
  consider "c = backslash" | "c = asterisk" | "c = question" | "c \<noteq> backslash" "c \<noteq> asterisk" "c \<noteq> question" by blast
  then show ?thesis
  proof cases
    case 1
    with assms(1) obtain e where "rest = e # rest'" "t = Literal e"
      by (auto simp: glob_token.simps split: list.splits if_splits)
    with 1 assms(2) show ?thesis by (simp split: list.split)
  next
    case 2
    with assms(1) have "rest' = rest" "t = Star" by (simp_all add: glob_token.simps)
    with 2 assms(2) show ?thesis by (simp add: accepts.simps(4))
  next
    case 3
    with assms(1) have "rest' = rest" "t = Any" by (simp_all add: glob_token.simps)
    with 3 assms(2) show ?thesis by (simp split: list.split)
  next
    case 4
    with assms(1) have "rest' = rest" "t = Literal c" by (simp_all add: glob_token.simps split: if_splits)
    with 4 assms(2) show ?thesis by (simp split: list.split)
  qed
qed

lemma compile_loop_raw:
  "compile_loop cs ts n = Inr (ts', n') \<Longrightarrow>
   \<exists>raw. ts' = foldl push_token ts raw \<and> (\<forall>s. pattern_accepts cs s = accepts raw s)
     \<and> n' = n + length (filter is_literal raw)"
proof (induction cs ts n rule: compile_loop.induct)
  case (1 tokens n)
  then show ?case by (intro exI [of _ "[]"]) simp
next
  case (2 c rest tokens n)
  from "2.prems" obtain t rest' where t: "glob_token c rest = Inr (t, rest')"
    by (auto split: sum.splits)
  from "2.prems" t have rec: "\<not> MAX_PATTERN_TOKENS < length (push_token tokens t)"
    "compile_loop rest' (push_token tokens t) (if is_literal t then n + 1 else n) = Inr (ts', n')"
    by (auto simp: Let_def split: if_splits)
  from "2.IH" [OF t refl refl refl rec] obtain raw where
    raw: "ts' = foldl push_token (push_token tokens t) raw" "\<forall>s. pattern_accepts rest' s = accepts raw s"
    "n' = (if is_literal t then n + 1 else n) + length (filter is_literal raw)" by blast
  from glob_token_meaning [OF t] raw show ?case by (intro exI [of _ "t # raw"]) simp
qed

text \<open>Compiled patterns are canonical.\<close>

definition no_double_star :: "GlobToken list \<Rightarrow> bool" where
  "no_double_star ts \<longleftrightarrow> (\<forall>i. Suc i < length ts \<longrightarrow> \<not> (ts ! i = Star \<and> ts ! Suc i = Star))"

lemma no_double_star_push: "no_double_star ts \<Longrightarrow> no_double_star (push_token ts t)"
proof (cases "ts \<noteq> [] \<and> last ts = Star \<and> t = Star")
  case False
  assume no: "no_double_star ts"
  from False have push: "push_token ts t = ts @ [t]" by (auto simp: push_token_def)
  have "\<not> (ts ! i = Star \<and> t = Star)" if "Suc i = length ts" for i
  proof -
    have ne: "ts \<noteq> []" using that by auto
    have "length ts - 1 = i" using that by simp
    with ne have "last ts = ts ! i" by (simp add: last_conv_nth)
    with ne False show ?thesis by auto
  qed
  with no push show ?thesis by (auto simp: no_double_star_def nth_append less_Suc_eq)
qed (auto simp: push_token_def)

lemma literals_push: "length (filter is_literal (push_token ts t)) = length (filter is_literal ts) + (if is_literal t then 1 else 0)"
  by (auto simp: push_token_def is_literal_def)

lemma literals_foldl_push:
  "length (filter is_literal (foldl push_token ts raw)) = length (filter is_literal ts) + length (filter is_literal raw)"
  by (induction raw arbitrary: ts) (auto simp: literals_push)

lemma no_double_star_foldl: "no_double_star ts \<Longrightarrow> no_double_star (foldl push_token ts raw)"
  by (induction raw arbitrary: ts) (auto simp: no_double_star_push)

lemma compile_loop_bound:
  "compile_loop cs ts n = Inr (ts', n') \<Longrightarrow> length ts \<le> MAX_PATTERN_TOKENS \<Longrightarrow> length ts' \<le> MAX_PATTERN_TOKENS"
  by (induction cs ts n rule: compile_loop.induct) (auto simp: Let_def split: sum.splits if_splits)

lemma glob_compile_raw:
  assumes "glob_compile p = Inr g"
  shows "\<exists>raw. gl_tokens g = foldl push_token [] raw \<and> (\<forall>s. pattern_accepts (str_chars p) s = accepts raw s)
    \<and> gl_literal_count g = length (filter is_literal raw) \<and> gl_tokens g \<noteq> [] \<and> length (gl_tokens g) \<le> MAX_PATTERN_TOKENS"
  using assms compile_loop_raw [of "str_chars p" "[]" 0] compile_loop_bound [of "str_chars p" "[]" 0]
  by (auto simp: glob_compile_def rbind_Inr_iff split: if_splits)

section \<open>Overlap of two patterns\<close>

datatype GlobIntersectionError = BudgetExceeded

function epsilon_closure :: "GlobToken list \<Rightarrow> nat \<Rightarrow> nat list" where
  "epsilon_closure tokens current =
     current # (if token_at tokens current = Some Star then epsilon_closure tokens (current + 1) else [])"
  by pat_completeness auto

termination
  by (relation "measure (\<lambda>(ts, i). length ts - i)") (auto simp: token_at_def split: if_splits)

declare epsilon_closure.simps [simp del]

definition consume :: "GlobToken list \<Rightarrow> nat \<Rightarrow> nat \<Rightarrow> nat option" where
  "consume tokens character i =
     (case token_at tokens i of
        Some (Literal expected) \<Rightarrow> if expected = character then Some (i + 1) else None
      | Some Any \<Rightarrow> Some (i + 1)
      | Some Star \<Rightarrow> Some i
      | None \<Rightarrow> None)"

definition push_new :: "'a list \<Rightarrow> 'a \<Rightarrow> 'a list" where
  "push_new xs x = (if x \<in> set xs then xs else xs @ [x])"

definition consume_states :: "GlobToken list \<Rightarrow> nat list \<Rightarrow> nat \<Rightarrow> nat list" where
  "consume_states tokens closure character =
     foldl (\<lambda>states i. case consume tokens character i of None \<Rightarrow> states | Some j \<Rightarrow> push_new states j) [] closure"

text \<open>The iteration over the \<^verbatim>\<open>BTreeSet\<close> of literals is in increasing order.\<close>

definition glob_literals :: "GlobToken list \<Rightarrow> nat list" where
  "glob_literals ts = List.map_filter (\<lambda>t. case t of Literal c \<Rightarrow> Some c | _ \<Rightarrow> None) ts"

definition representative_alphabet :: "GlobToken list \<Rightarrow> GlobToken list \<Rightarrow> nat list" where
  "representative_alphabet l r =
     (let literals = sort (remdups (glob_literals l @ glob_literals r));
          other = (case find (\<lambda>c. c \<notin> set literals) [0x10FFFF, 0xFFFD, 0x61, 0x30, 0x5F] of
            None \<Rightarrow> 0x10FFFF | Some c \<Rightarrow> c)
      in literals @ [other])"

type_synonym pair_state = "nat \<times> nat"

text \<open>Adds the unseen pairs to the set and, in order, to the queue.\<close>

definition visit :: "pair_state list \<times> pair_state list \<Rightarrow> pair_state \<Rightarrow> pair_state list \<times> pair_state list" where
  "visit qs p = (case qs of (queue, seen) \<Rightarrow> if p \<in> set seen then (queue, seen) else (queue @ [p], p # seen))"

definition successors :: "GlobToken list \<Rightarrow> GlobToken list \<Rightarrow> nat list \<Rightarrow> pair_state \<Rightarrow> pair_state list" where
  "successors l r alphabet p =
     (let lc = epsilon_closure l (fst p); rc = epsilon_closure r (snd p) in
      concat (map (\<lambda>c. List.product (consume_states l lc c) (consume_states r rc c)) alphabet))"

definition both_end :: "GlobToken list \<Rightarrow> GlobToken list \<Rightarrow> pair_state \<Rightarrow> bool" where
  "both_end l r p \<longleftrightarrow> length l \<in> set (epsilon_closure l (fst p)) \<and> length r \<in> set (epsilon_closure r (snd p))"

function intersect_loop ::
  "GlobToken list \<Rightarrow> GlobToken list \<Rightarrow> pair_state list \<Rightarrow> pair_state list \<Rightarrow> nat \<Rightarrow> GlobIntersectionError + bool" where
  "intersect_loop l r [] seen work = Inr False"
| "intersect_loop l r (p # queue) seen work =
     (if work + 1 > MAX_INTERSECTION_WORK \<or> length seen > MAX_INTERSECTION_STATES then Inl BudgetExceeded
      else if both_end l r p then Inr True
      else let (queue', seen') = foldl visit (queue, seen) (successors l r (representative_alphabet l r) p)
           in intersect_loop l r queue' seen' (work + 1))"
  by pat_completeness auto

termination
  by (relation "measure (\<lambda>(l, r, queue, seen, work). MAX_INTERSECTION_WORK + 1 - work)") auto

definition glob_intersects :: "CompiledGlob \<Rightarrow> CompiledGlob \<Rightarrow> GlobIntersectionError + bool" where
  "glob_intersects g h = intersect_loop (gl_tokens g) (gl_tokens h) [(0, 0)] [(0, 0)] 0"

section \<open>The overlap search is exact\<close>

lemma token_at_Some: "token_at ts i = Some t \<longleftrightarrow> i < length ts \<and> ts ! i = t"
  by (auto simp: token_at_def)

lemma drop_token: "token_at ts i = Some t \<Longrightarrow> drop i ts = t # drop (Suc i) ts"
  by (metis Cons_nth_drop_Suc token_at_Some)

lemma token_at_None: "token_at ts i = None \<longleftrightarrow> length ts \<le> i"
  by (auto simp: token_at_def)

lemma closure_bound: "i \<le> length ts \<Longrightarrow> j \<in> set (epsilon_closure ts i) \<Longrightarrow> j \<le> length ts"
proof (induction ts i rule: epsilon_closure.induct)
  case (1 ts i)
  then show ?case by (subst (asm) (2) epsilon_closure.simps) (auto simp: token_at_Some split: if_splits)
qed

lemma closure_end: "i \<le> length ts \<Longrightarrow> accepts (drop i ts) [] \<longleftrightarrow> length ts \<in> set (epsilon_closure ts i)"
proof (induction ts i rule: epsilon_closure.induct)
  case (1 ts i)
  show ?case
  proof (cases "token_at ts i")
    case None
    then have "i = length ts" using 1(2) by (simp add: token_at_None)
    then show ?thesis by (subst epsilon_closure.simps) simp
  next
    case (Some t)
    then have i: "i < length ts" by (simp add: token_at_Some)
    show ?thesis
    proof (cases "t = Star")
      case True
      with Some i 1(1) drop_token [OF Some] show ?thesis
        by (subst epsilon_closure.simps) (simp add: accepts_Star)
    next
      case False
      with Some i drop_token [OF Some] show ?thesis
        by (subst epsilon_closure.simps) (cases t; simp)
    qed
  qed
qed

lemma accepts_Star_Cons: "accepts (Star # ts) (c # s) \<longleftrightarrow> accepts ts (c # s) \<or> accepts (Star # ts) s"
proof
  assume "accepts (Star # ts) (c # s)"
  then obtain n where n: "n \<le> Suc (length s)" "accepts ts (drop n (c # s))" by (auto simp: accepts_Star)
  then show "accepts ts (c # s) \<or> accepts (Star # ts) s" by (cases n) (auto simp: accepts_Star)
next
  assume "accepts ts (c # s) \<or> accepts (Star # ts) s"
  then show "accepts (Star # ts) (c # s)"
  proof
    assume "accepts ts (c # s)"
    then show ?thesis by (auto simp: accepts_Star intro: exI [of _ 0])
  next
    assume "accepts (Star # ts) s"
    then obtain n where "n \<le> length s" "accepts ts (drop n s)" by (auto simp: accepts_Star)
    then show ?thesis by (auto simp: accepts_Star intro: exI [of _ "Suc n"])
  qed
qed

lemma closure_step:
  "i \<le> length ts \<Longrightarrow> accepts (drop i ts) (c # s) \<longleftrightarrow>
     (\<exists>j \<in> set (epsilon_closure ts i). \<exists>k. consume ts c j = Some k \<and> accepts (drop k ts) s)"
proof (induction ts i rule: epsilon_closure.induct)
  case (1 ts i)
  show ?case
  proof (cases "token_at ts i = Some Star")
    case True
    have "accepts (drop i ts) (c # s) \<longleftrightarrow> accepts (drop (i + 1) ts) (c # s) \<or> accepts (drop i ts) s"
      using drop_token [OF True] accepts_Star_Cons by simp
    also have "accepts (drop (i + 1) ts) (c # s) \<longleftrightarrow>
        (\<exists>j \<in> set (epsilon_closure ts (i + 1)). \<exists>k. consume ts c j = Some k \<and> accepts (drop k ts) s)"
      using 1(1) [OF True] True by (simp add: token_at_Some)
    finally show ?thesis using True by (subst epsilon_closure.simps) (auto simp: consume_def)
  next
    case False
    then show ?thesis
    proof (cases "token_at ts i")
      case None
      then have "drop i ts = []" by (simp add: token_at_None)
      with None show ?thesis by (subst epsilon_closure.simps) (simp add: consume_def)
    next
      case (Some t)
      with False drop_token [OF Some] show ?thesis
        by (subst epsilon_closure.simps) (cases t; auto simp: consume_def)
    qed
  qed
qed

lemma consume_bound: "consume ts c j = Some k \<Longrightarrow> k \<le> length ts"
  by (auto simp: consume_def token_at_def split: option.splits if_splits GlobToken.splits)

lemma set_consume_states:
  "set (consume_states ts cl c) = {k. \<exists>j \<in> set cl. consume ts c j = Some k}"
proof -
  have "set (foldl (\<lambda>states i. case consume ts c i of None \<Rightarrow> states | Some j \<Rightarrow> push_new states j) acc cl)
      = set acc \<union> {k. \<exists>j \<in> set cl. consume ts c j = Some k}" for acc
    by (induction cl arbitrary: acc) (auto simp: push_new_def split: option.splits)
  then show ?thesis by (simp add: consume_states_def)
qed

lemma consume_other:
  "consume ts c j = Some k \<Longrightarrow> c \<notin> set (glob_literals ts) \<Longrightarrow> consume ts d j = Some k"
proof -
  assume k: "consume ts c j = Some k" and c: "c \<notin> set (glob_literals ts)"
  have "token_at ts j \<noteq> Some (Literal c)"
  proof
    assume "token_at ts j = Some (Literal c)"
    then have "Literal c \<in> set ts" by (metis nth_mem token_at_Some)
    then have "c \<in> set (glob_literals ts)" by (force simp: glob_literals_def List.map_filter_def)
    with c show False by blast
  qed
  with k show ?thesis by (auto simp: consume_def split: option.splits GlobToken.splits if_splits)
qed

lemma alphabet_represents:
  "\<exists>d \<in> set (representative_alphabet l r). \<forall>j k. (consume l c j = Some k \<longrightarrow> consume l d j = Some k)
      \<and> (consume r c j = Some k \<longrightarrow> consume r d j = Some k)"
proof (cases "c \<in> set (glob_literals l) \<union> set (glob_literals r)")
  case True
  then have "c \<in> set (representative_alphabet l r)" by (auto simp: representative_alphabet_def Let_def)
  then show ?thesis by blast
next
  case False
  have "\<exists>d. d \<in> set (representative_alphabet l r)" by (auto simp: representative_alphabet_def Let_def)
  then show ?thesis using consume_other False by (meson UnCI)
qed

definition common :: "GlobToken list \<Rightarrow> GlobToken list \<Rightarrow> pair_state \<Rightarrow> nat \<Rightarrow> bool" where
  "common l r p n \<longleftrightarrow> (\<exists>s. length s = n \<and> accepts (drop (fst p) l) s \<and> accepts (drop (snd p) r) s)"

definition in_range :: "GlobToken list \<Rightarrow> GlobToken list \<Rightarrow> pair_state \<Rightarrow> bool" where
  "in_range l r p \<longleftrightarrow> fst p \<le> length l \<and> snd p \<le> length r"

lemma common_0: "in_range l r p \<Longrightarrow> common l r p 0 \<longleftrightarrow> both_end l r p"
  by (auto simp: common_def in_range_def both_end_def closure_end)

lemma successors_iff:
  "q \<in> set (successors l r al p) \<longleftrightarrow> (\<exists>c \<in> set al.
     (\<exists>j \<in> set (epsilon_closure l (fst p)). consume l c j = Some (fst q))
   \<and> (\<exists>j \<in> set (epsilon_closure r (snd p)). consume r c j = Some (snd q)))"
  by (cases q) (auto simp: successors_def Let_def set_consume_states)

lemma successors_range: "q \<in> set (successors l r al p) \<Longrightarrow> in_range l r q"
  by (auto simp: successors_iff in_range_def dest: consume_bound)

lemma common_successor:
  assumes "in_range l r p" "q \<in> set (successors l r al p)" "common l r q n"
  shows "common l r p (Suc n)"
proof -
  from assms(3) obtain s where s: "length s = n" "accepts (drop (fst q) l) s" "accepts (drop (snd q) r) s"
    by (auto simp: common_def)
  from assms(2) obtain c where
    "\<exists>j \<in> set (epsilon_closure l (fst p)). consume l c j = Some (fst q)"
    "\<exists>j \<in> set (epsilon_closure r (snd p)). consume r c j = Some (snd q)" by (auto simp: successors_iff)
  with assms(1) s have "accepts (drop (fst p) l) (c # s)" "accepts (drop (snd p) r) (c # s)"
    using closure_step [of "fst p" l c s] closure_step [of "snd p" r c s] by (auto simp: in_range_def)
  with s(1) show ?thesis unfolding common_def by (intro exI [of _ "c # s"]) simp
qed

lemma common_Suc:
  assumes "in_range l r p" "common l r p (Suc n)"
  shows "\<exists>q \<in> set (successors l r (representative_alphabet l r) p). common l r q n"
proof -
  from assms(2) obtain c s where s: "length s = n" "accepts (drop (fst p) l) (c # s)" "accepts (drop (snd p) r) (c # s)"
    by (auto simp: common_def length_Suc_conv)
  from s(2) obtain j k where k: "j \<in> set (epsilon_closure l (fst p))" "consume l c j = Some k" "accepts (drop k l) s"
    using closure_step [of "fst p" l c s] assms(1) by (auto simp: in_range_def)
  from s(3) obtain i m where m: "i \<in> set (epsilon_closure r (snd p))" "consume r c i = Some m" "accepts (drop m r) s"
    using closure_step [of "snd p" r c s] assms(1) by (auto simp: in_range_def)
  obtain d where d: "d \<in> set (representative_alphabet l r)" "consume l d j = Some k" "consume r d i = Some m"
    using alphabet_represents [of l r c] k(2) m(2) by blast
  have "(k, m) \<in> set (successors l r (representative_alphabet l r) p)" using d k(1) m(1) by (auto simp: successors_iff)
  moreover have "common l r (k, m) n" using s(1) k(3) m(3) by (auto simp: common_def)
  ultimately show ?thesis by blast
qed

lemma foldl_visit_all:
  "foldl visit (queue, seen) ps = (queue', seen') \<Longrightarrow>
     set seen' = set seen \<union> set ps \<and> set queue' \<subseteq> set queue \<union> set ps \<and> set queue \<subseteq> set queue'
   \<and> set ps - set seen \<subseteq> set queue' \<and> (distinct seen \<longrightarrow> distinct seen')
   \<and> length queue' + length seen = length queue + length seen'"
proof (induction ps arbitrary: queue seen)
  case (Cons p ps)
  show ?case
  proof (cases "p \<in> set seen")
    case True
    then have "visit (queue, seen) p = (queue, seen)" by (simp add: visit_def)
    with Cons.prems have "foldl visit (queue, seen) ps = (queue', seen')" by simp
    from Cons.IH [OF this] True show ?thesis by auto
  next
    case False
    then have "visit (queue, seen) p = (queue @ [p], p # seen)" by (simp add: visit_def)
    with Cons.prems have "foldl visit (queue @ [p], p # seen) ps = (queue', seen')" by simp
    from Cons.IH [OF this] False show ?thesis by auto
  qed
qed simp

lemma foldl_visit:
  assumes "foldl visit (queue, seen) ps = (queue', seen')"
  shows "set seen' = set seen \<union> set ps" "set queue' \<subseteq> set queue \<union> set ps" "set queue \<subseteq> set queue'"
    "set ps - set seen \<subseteq> set queue'" "distinct seen \<Longrightarrow> distinct seen'"
    "length queue' + length seen = length queue + length seen'"
  using foldl_visit_all [OF assms] by blast+

lemma intersect_loop_True:
  assumes "intersect_loop l r queue seen work = Inr True" "\<forall>p \<in> set queue. in_range l r p"
    and "\<forall>p \<in> set queue. \<forall>n. common l r p n \<longrightarrow> (\<exists>m. common l r start m)"
  shows "\<exists>m. common l r start m"
  using assms
proof (induction l r queue seen work rule: intersect_loop.induct)
  case (2 l r p queue seen work)
  have p: "in_range l r p" using "2.prems"(2) by simp
  show ?case
  proof (cases "both_end l r p")
    case True
    with common_0 [OF p] "2.prems"(3) show ?thesis by auto
  next
    case False
    obtain queue' seen' where q: "foldl visit (queue, seen) (successors l r (representative_alphabet l r) p) = (queue', seen')"
      by fastforce
    from "2.prems"(1) False q have go: "\<not> (work + 1 > MAX_INTERSECTION_WORK \<or> length seen > MAX_INTERSECTION_STATES)"
      "intersect_loop l r queue' seen' (work + 1) = Inr True" by (auto split: if_splits)
    have sub: "set queue' \<subseteq> set queue \<union> set (successors l r (representative_alphabet l r) p)" by (rule foldl_visit(2) [OF q])
    have "\<forall>x \<in> set queue'. in_range l r x" using sub "2.prems"(2) successors_range by (meson UnE list.set_intros(2) subsetD)
    moreover have "\<forall>x \<in> set queue'. \<forall>n. common l r x n \<longrightarrow> (\<exists>m. common l r start m)"
    proof (intro ballI allI impI)
      fix x n
      assume x: "x \<in> set queue'" "common l r x n"
      then consider "x \<in> set queue" | "x \<in> set (successors l r (representative_alphabet l r) p)" using sub by blast
      then show "\<exists>m. common l r start m"
      proof cases
        case 1
        with x(2) "2.prems"(3) show ?thesis by (meson list.set_intros(2))
      next
        case 2
        from common_successor [OF p 2 x(2)] "2.prems"(3) show ?thesis by (meson list.set_intros(1))
      qed
    qed
    ultimately show ?thesis using "2.IH" [OF go(1) False q [symmetric] refl go(2)] by blast
  qed
qed simp

definition explored :: "GlobToken list \<Rightarrow> GlobToken list \<Rightarrow> pair_state set \<Rightarrow> pair_state \<Rightarrow> bool" where
  "explored l r seen p \<longleftrightarrow> \<not> both_end l r p \<and> set (successors l r (representative_alphabet l r) p) \<subseteq> seen"

lemma intersect_loop_False:
  assumes "intersect_loop l r queue seen work = Inr False" "\<forall>p \<in> set seen. in_range l r p"
    and "set queue \<subseteq> set seen" "\<forall>p \<in> set seen - set queue. explored l r (set seen) p"
  shows "\<exists>S. set seen \<subseteq> S \<and> (\<forall>p \<in> S. in_range l r p \<and> explored l r S p)"
  using assms
proof (induction l r queue seen work rule: intersect_loop.induct)
  case (1 l r seen work)
  then show ?case by (intro exI [of _ "set seen"]) auto
next
  case (2 l r p queue seen work)
  have nb: "\<not> both_end l r p" using "2.prems"(1) by (auto split: if_splits)
  let ?su = "successors l r (representative_alphabet l r) p"
  obtain queue' seen' where q: "foldl visit (queue, seen) ?su = (queue', seen')" by fastforce
  from "2.prems"(1) nb q have go: "\<not> (work + 1 > MAX_INTERSECTION_WORK \<or> length seen > MAX_INTERSECTION_STATES)"
    "intersect_loop l r queue' seen' (work + 1) = Inr False" by (auto split: if_splits)
  note v = foldl_visit(1-4) [OF q]
  have range: "\<forall>x \<in> set seen'. in_range l r x" using v(1) "2.prems"(2) successors_range by blast
  moreover have "set queue' \<subseteq> set seen'" using v(1,2) "2.prems"(3) by auto
  moreover have "\<forall>x \<in> set seen' - set queue'. explored l r (set seen') x"
  proof
    fix x
    assume x: "x \<in> set seen' - set queue'"
    then have "x \<in> set seen" "x \<notin> set queue" using v by auto
    then have "x = p \<or> explored l r (set seen) x" using "2.prems"(4) by auto
    then show "explored l r (set seen') x" using nb v(1) by (auto simp: explored_def)
  qed
  ultimately obtain S where "set seen' \<subseteq> S" "\<forall>p \<in> S. in_range l r p \<and> explored l r S p"
    using "2.IH" [OF go(1) nb q [symmetric] refl go(2)] by blast
  with v(1) show ?case by blast
qed

lemma explored_no_common:
  assumes "\<forall>p \<in> S. in_range l r p \<and> explored l r S p" "p \<in> S"
  shows "\<not> common l r p n"
  using assms(2)
proof (induction n arbitrary: p)
  case 0
  with assms(1) common_0 show ?case by (auto simp: explored_def)
next
  case (Suc n)
  then have "in_range l r p" "set (successors l r (representative_alphabet l r) p) \<subseteq> S"
    using assms(1) by (auto simp: explored_def)
  with Suc.IH common_Suc show ?case by blast
qed

lemma intersect_loop_decides:
  assumes "(length l + 1) * (length r + 1) \<le> MAX_INTERSECTION_STATES"
    and "distinct seen" "\<forall>p \<in> set seen. in_range l r p" "set queue \<subseteq> set seen" "work + length queue = length seen"
  shows "intersect_loop l r queue seen work \<noteq> Inl BudgetExceeded"
  using assms
proof (induction l r queue seen work rule: intersect_loop.induct)
  case (2 l r p queue seen work)
  have "length seen = card (set seen)" using "2.prems"(2) by (simp add: distinct_card)
  also have "\<dots> \<le> card ({0..length l} \<times> {0..length r})"
    using "2.prems"(3) by (intro card_mono) (auto simp: in_range_def)
  also have "\<dots> \<le> MAX_INTERSECTION_STATES" using "2.prems"(1) by simp
  finally have len: "length seen \<le> MAX_INTERSECTION_STATES" .
  then have go: "\<not> (work + 1 > MAX_INTERSECTION_WORK \<or> length seen > MAX_INTERSECTION_STATES)"
    using "2.prems"(5) by (simp add: MAX_INTERSECTION_WORK_def MAX_INTERSECTION_STATES_def)
  show ?case
  proof (cases "both_end l r p")
    case False
    let ?su = "successors l r (representative_alphabet l r) p"
    obtain queue' seen' where q: "foldl visit (queue, seen) ?su = (queue', seen')" by fastforce
    note v = foldl_visit [OF q]
    have "distinct seen'" using v(5) "2.prems"(2) by blast
    moreover have "\<forall>x \<in> set seen'. in_range l r x" using v(1) "2.prems"(3) successors_range by blast
    moreover have "set queue' \<subseteq> set seen'" using v(1,2) "2.prems"(4) by auto
    moreover have "work + 1 + length queue' = length seen'" using v(6) "2.prems"(5) by simp
    ultimately have "intersect_loop l r queue' seen' (work + 1) \<noteq> Inl BudgetExceeded"
      using "2.IH" [OF go False q [symmetric] refl "2.prems"(1)] by blast
    with go False q show ?thesis by auto
  qed (use go in auto)
qed simp

section \<open>Properties\<close>

text \<open>
  C32: the matcher implements the pattern language. For every pattern text that compiles and every
  model name, the linear greedy matcher terminates and answers exactly whether the name is in the
  language of the text, in which a star stands for any characters, a question mark for one and a
  backslash quotes the next character.
\<close>
theorem glob_matches_correct:
  assumes "glob_compile p = Inr g"
  shows "glob_matches g s = Some (pattern_accepts (str_chars p) (str_chars s))"
proof -
  obtain raw where raw: "gl_tokens g = foldl push_token [] raw" "\<forall>s. pattern_accepts (str_chars p) s = accepts raw s"
    using glob_compile_raw [OF assms] by blast
  then show ?thesis by (simp add: glob_matches_accepts accepts_foldl_push)
qed

lemma compiles_iff: "(\<exists>g. glob_compile p = Inr g) \<longleftrightarrow> (case glob_compile p of Inl _ \<Rightarrow> False | Inr _ \<Rightarrow> True)"
  by (cases "glob_compile p") auto

theorem glob_matches_correct_witness:
  "\<exists>g. glob_compile ''codex-*'' = Inr g \<and> glob_matches g ''codex-5'' = Some True \<and> glob_matches g ''gpt-5'' = Some False"
proof -
  have "case glob_compile ''codex-*'' of Inl _ \<Rightarrow> False | Inr _ \<Rightarrow> True" by code_simp
  then obtain g where g: "glob_compile ''codex-*'' = Inr g" using compiles_iff by blast
  have "pattern_accepts (str_chars ''codex-*'') (str_chars ''codex-5'')" by code_simp
  moreover have "\<not> pattern_accepts (str_chars ''codex-*'') (str_chars ''gpt-5'')" by code_simp
  ultimately show ?thesis using glob_matches_correct [OF g] g by simp
qed

text \<open>
  Compiled patterns are canonical and bounded: never empty, at most 256 tokens, no two adjacent
  stars, and the literal count used to rank rules is the number of literal tokens.
\<close>
theorem glob_compile_canonical:
  assumes "glob_compile p = Inr g"
  shows "gl_tokens g \<noteq> [] \<and> length (gl_tokens g) \<le> 256 \<and> no_double_star (gl_tokens g)
    \<and> gl_literal_count g = length (filter is_literal (gl_tokens g))"
proof -
  obtain raw where raw: "gl_tokens g = foldl push_token [] raw" "gl_literal_count g = length (filter is_literal raw)"
    "gl_tokens g \<noteq> []" "length (gl_tokens g) \<le> MAX_PATTERN_TOKENS"
    using glob_compile_raw [OF assms] by blast
  moreover have "no_double_star (gl_tokens g)" unfolding raw(1) by (rule no_double_star_foldl) (simp add: no_double_star_def)
  ultimately show ?thesis by (simp add: literals_foldl_push MAX_PATTERN_TOKENS_def)
qed

theorem glob_compile_canonical_witness:
  "\<exists>g. glob_compile ''a**b'' = Inr g \<and> no_double_star (gl_tokens g)"
proof -
  have "case glob_compile ''a**b'' of Inl _ \<Rightarrow> False | Inr _ \<Rightarrow> True" by code_simp
  then obtain g where g: "glob_compile ''a**b'' = Inr g" using compiles_iff by blast
  with glob_compile_canonical [OF g] show ?thesis by blast
qed

lemma glob_intersects_sound:
  assumes b: "glob_intersects g h = Inr b"
  shows "b = (\<exists>s. accepts (gl_tokens g) s \<and> accepts (gl_tokens h) s)"
proof -
  let ?l = "gl_tokens g" and ?r = "gl_tokens h"
  have start: "in_range ?l ?r (0, 0)" by (simp add: in_range_def)
  have meaning: "(\<exists>m. common ?l ?r (0, 0) m) = (\<exists>s. accepts ?l s \<and> accepts ?r s)" by (auto simp: common_def)
  show ?thesis
  proof (cases b)
    case True
    with b intersect_loop_True [of ?l ?r "[(0, 0)]" "[(0, 0)]" 0 "(0, 0)"] start
    have "\<exists>m. common ?l ?r (0, 0) m" by (auto simp: glob_intersects_def)
    with True meaning show ?thesis by simp
  next
    case False
    with b intersect_loop_False [of ?l ?r "[(0, 0)]" "[(0, 0)]" 0] start
    obtain S where "(0, 0) \<in> S" "\<forall>p \<in> S. in_range ?l ?r p \<and> explored ?l ?r S p" by (auto simp: glob_intersects_def)
    then have "\<not> (\<exists>m. common ?l ?r (0, 0) m)" using explored_no_common by blast
    with False meaning show ?thesis by simp
  qed
qed

text \<open>
  the overlap check is exact. Whenever the bounded product search answers, it answers whether
  some sequence of characters is matched by both patterns, although it only tries the literals of
  the two patterns and one further character; and it always answers when the product of the two
  automata has at most 16384 states.
\<close>
theorem glob_intersects_exact:
  "(glob_intersects g h = Inr b \<longrightarrow> b = (\<exists>s. accepts (gl_tokens g) s \<and> accepts (gl_tokens h) s))
   \<and> ((length (gl_tokens g) + 1) * (length (gl_tokens h) + 1) \<le> 16384 \<longrightarrow> (\<exists>b. glob_intersects g h = Inr b))"
proof -
  let ?l = "gl_tokens g" and ?r = "gl_tokens h"
  have start: "in_range ?l ?r (0, 0)" by (simp add: in_range_def)
  have "b = (\<exists>s. accepts ?l s \<and> accepts ?r s)" if "glob_intersects g h = Inr b"
    using that by (rule glob_intersects_sound)
  moreover have "\<exists>b. glob_intersects g h = Inr b" if "(length ?l + 1) * (length ?r + 1) \<le> 16384"
  proof -
    have "glob_intersects g h \<noteq> Inl BudgetExceeded"
      unfolding glob_intersects_def
      by (rule intersect_loop_decides) (use that start in \<open>simp_all add: MAX_INTERSECTION_STATES_def\<close>)
    then show ?thesis by (cases "glob_intersects g h") (metis GlobIntersectionError.exhaust, blast)
  qed
  ultimately show ?thesis by blast
qed

theorem glob_intersects_exact_witness:
  "glob_intersects \<lparr>gl_tokens = [Literal 97, Star], gl_literal_count = 1\<rparr> \<lparr>gl_tokens = [Star, Literal 98], gl_literal_count = 1\<rparr>
    = Inr True"
proof -
  let ?g = "\<lparr>gl_tokens = [Literal 97, Star], gl_literal_count = 1\<rparr>"
  let ?h = "\<lparr>gl_tokens = [Star, Literal 98], gl_literal_count = 1\<rparr>"
  have "accepts (gl_tokens ?g) [97, 98] \<and> accepts (gl_tokens ?h) [97, 98]" by code_simp
  then have "\<exists>s. accepts (gl_tokens ?g) s \<and> accepts (gl_tokens ?h) s" by blast
  moreover obtain b where b: "glob_intersects ?g ?h = Inr b" using glob_intersects_exact [of ?g ?h] by auto
  ultimately have "b" using glob_intersects_exact [of ?g ?h b] by blast
  with b show ?thesis by simp
qed

end
