(* ===== verification/ModelMapping.thy ===== *)
theory ModelMapping
  imports Glob ModelVariant
begin

text \<open>
  Model mapping documents (\<^verbatim>\<open>models/model_mapping.rs\<close>) and their compiler
  (\<^verbatim>\<open>application/model_mapping/compiler.rs\<close>): validation with diagnostics, compilation of the rules
  and the order in which they are tried. SHA-256 and the JSON codec are parameters.
\<close>

section \<open>Documents\<close>

definition MODEL_MAPPING_FORMAT_VERSION :: u16 where "MODEL_MAPPING_FORMAT_VERSION = 1"
definition MAX_MODEL_NAME_BYTES :: nat where "MAX_MODEL_NAME_BYTES = 256"
definition MAX_RULES :: nat where "MAX_RULES = 256"
definition MAX_PROFILES :: nat where "MAX_PROFILES = 256"
definition MAX_BINDINGS :: nat where "MAX_BINDINGS = 512"
definition MAX_TARGETS_PER_RULE :: nat where "MAX_TARGETS_PER_RULE = 3"
definition MAX_RULE_ID_BYTES :: nat where "MAX_RULE_ID_BYTES = 128"
definition MAX_PRIORITY :: u32 where "MAX_PRIORITY = 1000000"
definition MAX_NOTE_BYTES :: nat where "MAX_NOTE_BYTES = 1024"
definition MAX_REJECTION_MESSAGE_BYTES :: nat where "MAX_REJECTION_MESSAGE_BYTES = 256"

datatype UnmatchedModelBehavior = PreserveUnmatched | RejectUnmatched

record ModelMappingPolicy =
  mp_unmatched_model_behavior :: UnmatchedModelBehavior

definition is_mapping_bypass :: "EndpointKind \<Rightarrow> bool" where
  "is_mapping_bypass e \<longleftrightarrow> e \<in> {EK_Models, EK_Usage}"

datatype ConditionRequirement = AnyValue | Required | Forbidden

record RuleConditions =
  rc_endpoint_kinds :: "EndpointKind list option"
  rc_stream :: ConditionRequirement
  rc_tools :: ConditionRequirement
  rc_vision :: ConditionRequirement
  rc_reasoning :: ConditionRequirement

datatype Matcher = MatchExact string | MatchGlob string | MatchDefault

datatype TargetRef = LiteralTarget string | ProfileTarget string

datatype ModelProfileStatus = Active | Archived

datatype ModelBindingSource = Manual | Discovered | Migrated

record ModelProfile =
  mo_id :: string
  mo_canonical_model :: string
  mo_display_name :: string
  mo_default_upstream_model :: "string option"
  mo_status :: ModelProfileStatus
  mo_note :: "string option"
  mo_revision :: u64
  mo_created_at_ms :: i64
  mo_updated_at_ms :: i64

record ModelOfferingBinding =
  mb_id :: string
  mb_model_profile_id :: string
  mb_station_key_id :: "string option"
  mb_station_id :: "string option"
  mb_upstream_model :: string
  mb_source :: ModelBindingSource
  mb_enabled :: bool
  mb_note :: "string option"
  mb_revision :: u64
  mb_created_at_ms :: i64
  mb_updated_at_ms :: i64

datatype RejectionKind = UnsupportedModel | PolicyDenied | ClientNotAllowed

datatype Action =
    MapFixed TargetRef
  | MapFallbackChain "TargetRef list" FallbackTrigger
  | PreserveModel
  | RejectModel RejectionKind "string option"

record ModelMappingRule =
  mr_id :: string
  mr_priority :: u32
  mr_enabled :: bool
  mr_matcher :: Matcher
  mr_conditions :: RuleConditions
  mr_action :: Action
  mr_note :: "string option"
  mr_revision :: u64

record ModelMappingDocument =
  md_format_version :: u16
  md_base_revision :: u64
  md_policy :: ModelMappingPolicy
  md_rules :: "ModelMappingRule list"
  md_profiles :: "ModelProfile list"
  md_bindings :: "ModelOfferingBinding list"

record ModelRequestFacts =
  mf_requested_model :: "string option"
  mf_endpoint :: EndpointKind
  mf_stream :: bool
  mf_tools :: bool
  mf_vision :: bool
  mf_reasoning :: bool

definition has_control :: "string \<Rightarrow> bool" where
  "has_control s \<longleftrightarrow> list_ex (\<lambda>c. c = 0 \<or> is_control c) (str_chars s)"

definition normalize_model_name :: "string \<Rightarrow> string option" where
  "normalize_model_name v =
     (let v = trim v in if v = [] \<or> length v > MAX_MODEL_NAME_BYTES \<or> has_control v then None else Some v)"

section \<open>Diagnostics\<close>

datatype DiagnosticCode =
    InvalidDocument | InvalidRule | DuplicateRuleId | DuplicateBindingScope | InvalidModelName
  | InvalidCondition | InvalidProfileReference | InvalidDefault | RuleConflict | RuleShadowed
  | EmptyTarget | DuplicateTarget | InvalidTargetReference | InvalidFallback | InvalidGlob
  | GlobAnalysisBudget

fun diagnostic_code :: "DiagnosticCode \<Rightarrow> string" where
  "diagnostic_code InvalidDocument = ''model_mapping_invalid_document''"
| "diagnostic_code InvalidRule = ''model_mapping_invalid_rule''"
| "diagnostic_code DuplicateRuleId = ''model_mapping_duplicate_rule_id''"
| "diagnostic_code DuplicateBindingScope = ''model_mapping_duplicate_binding_scope''"
| "diagnostic_code InvalidModelName = ''model_mapping_invalid_model_name''"
| "diagnostic_code InvalidCondition = ''model_mapping_invalid_condition''"
| "diagnostic_code InvalidProfileReference = ''model_mapping_invalid_profile_reference''"
| "diagnostic_code InvalidDefault = ''model_mapping_invalid_default''"
| "diagnostic_code RuleConflict = ''model_mapping_conflict''"
| "diagnostic_code RuleShadowed = ''model_mapping_shadowed_rule''"
| "diagnostic_code EmptyTarget = ''model_mapping_empty_target''"
| "diagnostic_code DuplicateTarget = ''model_mapping_duplicate_target''"
| "diagnostic_code InvalidTargetReference = ''model_mapping_invalid_target_reference''"
| "diagnostic_code InvalidFallback = ''model_mapping_invalid_fallback''"
| "diagnostic_code InvalidGlob = ''model_mapping_invalid_glob''"
| "diagnostic_code GlobAnalysisBudget = ''model_mapping_glob_analysis_budget''"

text \<open>The derived order of the codes is the order of their declaration.\<close>

fun code_rank :: "DiagnosticCode \<Rightarrow> nat" where
  "code_rank InvalidDocument = 0"
| "code_rank InvalidRule = 1"
| "code_rank DuplicateRuleId = 2"
| "code_rank DuplicateBindingScope = 3"
| "code_rank InvalidModelName = 4"
| "code_rank InvalidCondition = 5"
| "code_rank InvalidProfileReference = 6"
| "code_rank InvalidDefault = 7"
| "code_rank RuleConflict = 8"
| "code_rank RuleShadowed = 9"
| "code_rank EmptyTarget = 10"
| "code_rank DuplicateTarget = 11"
| "code_rank InvalidTargetReference = 12"
| "code_rank InvalidFallback = 13"
| "code_rank InvalidGlob = 14"
| "code_rank GlobAnalysisBudget = 15"

record ModelMappingDiagnostic =
  dg_code :: DiagnosticCode
  dg_rule_id :: "string option"
  dg_path :: string
  dg_message :: string

definition diagnostic :: "DiagnosticCode \<Rightarrow> string option \<Rightarrow> string \<Rightarrow> string \<Rightarrow> ModelMappingDiagnostic" where
  "diagnostic code rule_id path message =
     \<lparr>dg_code = code, dg_rule_id = rule_id, dg_path = path, dg_message = message\<rparr>"

text \<open>A diagnostic that is pushed when a condition holds.\<close>

definition diag_if :: "bool \<Rightarrow> ModelMappingDiagnostic \<Rightarrow> ModelMappingDiagnostic list" where
  "diag_if b d = (if b then [d] else [])"

lemma diag_if_Nil [simp]: "diag_if b d = [] \<longleftrightarrow> \<not> b"
  by (simp add: diag_if_def)

definition indexed :: "string \<Rightarrow> nat \<Rightarrow> string" where
  "indexed name i = name @ ''['' @ show_nat i @ '']''"

definition rule_id_of :: "ModelMappingDiagnostic \<Rightarrow> string" where
  "rule_id_of d = (case dg_rule_id d of None \<Rightarrow> [] | Some i \<Rightarrow> i)"

definition diagnostic_le :: "ModelMappingDiagnostic \<Rightarrow> ModelMappingDiagnostic \<Rightarrow> bool" where
  "diagnostic_le l r \<longleftrightarrow> rule_id_of l < rule_id_of r \<or> rule_id_of l = rule_id_of r \<and>
     (code_rank (dg_code l) < code_rank (dg_code r) \<or> code_rank (dg_code l) = code_rank (dg_code r) \<and>
       (dg_path l < dg_path r \<or> dg_path l = dg_path r \<and> dg_message l \<le> dg_message r))"

section \<open>Rules\<close>

datatype CompiledMatcher = CExact string | CGlob CompiledGlob | CDefault

record CompiledRule =
  cr_id :: string
  cr_priority :: u32
  cr_matcher :: CompiledMatcher
  cr_conditions :: RuleConditions
  cr_action :: Action
  cr_revision :: u64

record CompiledConfiguration =
  cc_mapping_revision :: u64
  cc_model_resolution_fence :: string
  cc_policy :: ModelMappingPolicy
  cc_rules :: "CompiledRule list"
  cc_profiles :: "ModelProfile list"
  cc_bindings :: "ModelOfferingBinding list"

fun glob_error_text :: "GlobCompileError \<Rightarrow> string" where
  "glob_error_text GlobEmpty = ''glob pattern must not be empty''"
| "glob_error_text TooLong = ''glob pattern is too long''"
| "glob_error_text TooManyTokens = ''glob pattern has too many tokens''"
| "glob_error_text TrailingEscape = ''glob pattern has a trailing escape''"
| "glob_error_text InvalidControl = ''glob pattern contains a control character''"

definition compile_matcher :: "string \<Rightarrow> string \<Rightarrow> Matcher \<Rightarrow> ModelMappingDiagnostic list \<times> CompiledMatcher" where
  "compile_matcher rule_id path m =
     (case m of
        MatchExact model \<Rightarrow>
          (case normalize_model_name model of
             Some model \<Rightarrow> ([], CExact model)
           | None \<Rightarrow> ([diagnostic InvalidModelName (Some rule_id) (path @ ''.matcher.model'')
               (''model must be 1..='' @ show_nat MAX_MODEL_NAME_BYTES @ '' bytes with no control characters'')], CDefault))
      | MatchGlob pattern \<Rightarrow>
          (case glob_compile pattern of
             Inr glob \<Rightarrow> ([], CGlob glob)
           | Inl error \<Rightarrow> ([diagnostic InvalidGlob (Some rule_id) (path @ ''.matcher.pattern'')
               (glob_error_text error)], CDefault))
      | MatchDefault \<Rightarrow> ([], CDefault))"

definition validate_conditions :: "RuleConditions \<Rightarrow> string \<Rightarrow> string \<Rightarrow> ModelMappingDiagnostic list" where
  "validate_conditions conditions rule_id path =
     (case rc_endpoint_kinds conditions of
        None \<Rightarrow> []
      | Some endpoints \<Rightarrow>
        diag_if (endpoints = []) (diagnostic InvalidCondition (Some rule_id) path
          ''endpointKinds cannot be empty'') @
        diag_if (\<not> distinct endpoints) (diagnostic InvalidCondition (Some rule_id) path
          ''endpointKinds cannot contain duplicates'') @
        diag_if (list_ex is_mapping_bypass endpoints) (diagnostic InvalidCondition (Some rule_id) path
          ''mapping conditions may only reference inference endpoints''))"

definition compile_target :: "string \<Rightarrow> string \<Rightarrow> TargetRef \<Rightarrow> ModelMappingDiagnostic list \<times> TargetRef" where
  "compile_target rule_id path target =
     (case target of
        LiteralTarget upstream_model \<Rightarrow>
          (case normalize_model_name upstream_model of
             Some model \<Rightarrow> ([], LiteralTarget model)
           | None \<Rightarrow> ([diagnostic EmptyTarget (Some rule_id) (path @ ''.upstreamModel'')
               ''literal target must be a non-empty valid model name''], target))
      | ProfileTarget _ \<Rightarrow> ([], target))"

definition compile_action :: "string \<Rightarrow> string \<Rightarrow> Action \<Rightarrow> ModelMappingDiagnostic list \<times> Action" where
  "compile_action rule_id path action =
     (case action of
        MapFixed target \<Rightarrow> (case compile_target rule_id (path @ ''.action.target'') target of (ds, t) \<Rightarrow> (ds, MapFixed t))
      | MapFallbackChain targets fallback_trigger \<Rightarrow>
          (let compiled = map (\<lambda>(i, target). compile_target rule_id (path @ indexed ''.action.targets'' i) target)
             (enumerate 0 targets)
           in (concat (map fst compiled), MapFallbackChain (map snd compiled) fallback_trigger))
      | _ \<Rightarrow> ([], action))"

definition rejection_diagnostics :: "string \<Rightarrow> string \<Rightarrow> Action \<Rightarrow> ModelMappingDiagnostic list" where
  "rejection_diagnostics rule_id path action =
     (case action of
        RejectModel _ (Some message) \<Rightarrow>
          diag_if (length message > MAX_REJECTION_MESSAGE_BYTES \<or> has_control message)
            (diagnostic InvalidRule (Some rule_id) (path @ ''.action.message'')
              (''rejection message must be at most '' @ show_nat MAX_REJECTION_MESSAGE_BYTES @
               '' bytes and contain no control characters''))
      | _ \<Rightarrow> [])"

text \<open>
  Every diagnostic of a rule also clears its \<^verbatim>\<open>valid\<close> flag, so the compiled rule is returned
  exactly when there is none.
\<close>

definition compile_rule ::
  "ModelMappingRule \<Rightarrow> nat \<Rightarrow> ModelMappingDiagnostic list \<times> CompiledRule option" where
  "compile_rule rule index =
     (let path = indexed ''rules'' index; rule_id = mr_id rule;
          id_diagnostics = diag_if (trim rule_id = [] \<or> length rule_id > MAX_RULE_ID_BYTES \<or> has_control rule_id)
            (diagnostic InvalidRule (Some rule_id) (path @ ''.id'')
              (''rule id must be 1..='' @ show_nat MAX_RULE_ID_BYTES @ '' bytes''));
          priority_diagnostics = diag_if (\<not> (1 \<le> mr_priority rule \<and> mr_priority rule \<le> MAX_PRIORITY))
            (diagnostic InvalidRule (Some rule_id) (path @ ''.priority'')
              (''priority must be in 1..='' @ show_nat (unat MAX_PRIORITY)));
          note_diagnostics = diag_if (case mr_note rule of None \<Rightarrow> False
              | Some note \<Rightarrow> length note > MAX_NOTE_BYTES \<or> has_control note)
            (diagnostic InvalidRule (Some rule_id) (path @ ''.note'')
              (''note must be at most '' @ show_nat MAX_NOTE_BYTES @ '' bytes and contain no control characters''));
          (matcher_diagnostics, matcher) = compile_matcher rule_id path (mr_matcher rule);
          condition_diagnostics = validate_conditions (mr_conditions rule) rule_id (path @ ''.conditions'');
          reject_diagnostics = rejection_diagnostics rule_id path (mr_action rule);
          (action_diagnostics, action) = compile_action rule_id path (mr_action rule);
          diagnostics = id_diagnostics @ priority_diagnostics @ note_diagnostics @ matcher_diagnostics @
            condition_diagnostics @ reject_diagnostics @ action_diagnostics
      in (diagnostics,
          if diagnostics = [] then Some \<lparr>cr_id = rule_id, cr_priority = mr_priority rule, cr_matcher = matcher,
            cr_conditions = mr_conditions rule, cr_action = action, cr_revision = mr_revision rule\<rparr>
          else None))"

section \<open>Targets, profiles and bindings\<close>

text \<open>A map collected from pairs keeps the last value of a key.\<close>

definition profile_by_id :: "ModelProfile list \<Rightarrow> string \<Rightarrow> ModelProfile option" where
  "profile_by_id profiles = map_of (rev (map (\<lambda>p. (mo_id p, p)) profiles))"

definition action_targets :: "Action \<Rightarrow> TargetRef list option" where
  "action_targets action =
     (case action of MapFixed target \<Rightarrow> Some [target] | MapFallbackChain targets _ \<Rightarrow> Some targets | _ \<Rightarrow> None)"

fun target_key :: "TargetRef \<Rightarrow> string" where
  "target_key (LiteralTarget upstream_model) = ''literal:'' @ upstream_model"
| "target_key (ProfileTarget model_profile_id) = ''profile:'' @ model_profile_id"

definition target_reference_diagnostics ::
  "ModelProfile list \<Rightarrow> string \<Rightarrow> string \<Rightarrow> TargetRef \<Rightarrow> ModelMappingDiagnostic list" where
  "target_reference_diagnostics profiles rule_id path target =
     (case target of
        LiteralTarget _ \<Rightarrow> []
      | ProfileTarget model_profile_id \<Rightarrow>
          (case profile_by_id profiles model_profile_id of
             Some profile \<Rightarrow> diag_if (mo_status profile = Archived)
               (diagnostic InvalidTargetReference (Some rule_id) path ''target profile is archived'')
           | None \<Rightarrow> [diagnostic InvalidTargetReference (Some rule_id) path
               ''target profile does not exist in the document'']))"

definition validate_one_rule_targets ::
  "ModelProfile list \<Rightarrow> nat \<times> ModelMappingRule \<Rightarrow> ModelMappingDiagnostic list" where
  "validate_one_rule_targets profiles ir =
     (case ir of (index, rule) \<Rightarrow>
      case action_targets (mr_action rule) of
        None \<Rightarrow> []
      | Some targets \<Rightarrow>
        diag_if (case mr_action rule of
            MapFallbackChain _ _ \<Rightarrow> \<not> (2 \<le> length targets \<and> length targets \<le> MAX_TARGETS_PER_RULE)
          | _ \<Rightarrow> False)
          (diagnostic InvalidFallback (Some (mr_id rule)) (indexed ''rules'' index @ ''.action.targets'')
            (''fallback chains must contain 2..='' @ show_nat MAX_TARGETS_PER_RULE @ '' targets'')) @
        concat (map (\<lambda>(i, target).
            target_reference_diagnostics profiles (mr_id rule) (indexed ''rules'' index @ indexed ''.action.targets'' i) target @
            diag_if (target_key target \<in> set (map target_key (take i targets)))
              (diagnostic DuplicateTarget (Some (mr_id rule)) (indexed ''rules'' index @ indexed ''.action.targets'' i)
                ''target references must be unique within a fallback chain''))
          (enumerate 0 targets)))"

definition validate_rule_targets :: "ModelMappingDocument \<Rightarrow> ModelMappingDiagnostic list" where
  "validate_rule_targets document =
     concat (map (validate_one_rule_targets (md_profiles document)) (enumerate 0 (md_rules document)))"

definition valid_identifier :: "string \<Rightarrow> nat \<Rightarrow> bool" where
  "valid_identifier v max_bytes \<longleftrightarrow> trim v \<noteq> [] \<and> length v \<le> max_bytes \<and> \<not> has_control v"

definition valid_display_name :: "string \<Rightarrow> bool" where
  "valid_display_name v \<longleftrightarrow> trim v \<noteq> [] \<and> length v \<le> MAX_NOTE_BYTES \<and> \<not> list_ex is_control (str_chars v)"

definition valid_note :: "string \<Rightarrow> bool" where
  "valid_note v \<longleftrightarrow> length v \<le> MAX_NOTE_BYTES \<and> \<not> has_control v"

definition validate_timestamp_metadata :: "string \<Rightarrow> i64 \<Rightarrow> i64 \<Rightarrow> ModelMappingDiagnostic list" where
  "validate_timestamp_metadata path created_at_ms updated_at_ms =
     diag_if (created_at_ms < 0 \<or> updated_at_ms < 0 \<or> updated_at_ms < created_at_ms)
       (diagnostic InvalidRule None path ''object timestamps are invalid'')"

text \<open>The sets of identifiers and scopes seen so far hold those of the earlier entries.\<close>

definition validate_profile ::
  "ModelProfile list \<Rightarrow> nat \<times> ModelProfile \<Rightarrow> ModelMappingDiagnostic list" where
  "validate_profile profiles ip =
     (case ip of (index, profile) \<Rightarrow>
      let path = indexed ''profiles'' index; earlier = take index profiles in
      diag_if (\<not> valid_identifier (mo_id profile) MAX_RULE_ID_BYTES)
        (diagnostic InvalidRule None (path @ ''.id'') ''profile id is invalid'') @
      diag_if (mo_id profile \<in> set (map mo_id earlier))
        (diagnostic DuplicateRuleId None (path @ ''.id'') ''profile IDs must be unique'') @
      (case normalize_model_name (mo_canonical_model profile) of
         Some normalized \<Rightarrow>
           diag_if (normalized \<in> set (List.map_filter (\<lambda>p. normalize_model_name (mo_canonical_model p)) earlier))
             (diagnostic RuleConflict None (path @ ''.canonicalModel'') ''canonical model names must be unique'')
       | None \<Rightarrow> [diagnostic InvalidModelName None (path @ ''.canonicalModel'') ''canonical model is invalid'']) @
      diag_if (\<not> valid_display_name (mo_display_name profile))
        (diagnostic InvalidRule None (path @ ''.displayName'') ''display name is invalid'') @
      diag_if (case mo_note profile of None \<Rightarrow> False | Some note \<Rightarrow> \<not> valid_note note)
        (diagnostic InvalidRule None (path @ ''.note'') ''profile note is invalid'') @
      diag_if (case mo_default_upstream_model profile of None \<Rightarrow> False | Some model \<Rightarrow> normalize_model_name model = None)
        (diagnostic InvalidModelName None (path @ ''.defaultUpstreamModel'') ''default upstream model is invalid'') @
      validate_timestamp_metadata path (mo_created_at_ms profile) (mo_updated_at_ms profile))"

definition validate_binding ::
  "ModelProfile list \<Rightarrow> ModelOfferingBinding list \<Rightarrow> nat \<times> ModelOfferingBinding \<Rightarrow> ModelMappingDiagnostic list" where
  "validate_binding profiles bindings ib =
     (case ib of (index, binding) \<Rightarrow>
      let path = indexed ''bindings'' index; earlier = take index bindings in
      diag_if (\<not> valid_identifier (mb_id binding) MAX_RULE_ID_BYTES)
        (diagnostic InvalidRule None (path @ ''.id'') ''binding id is invalid'') @
      diag_if (mb_id binding \<in> set (map mb_id earlier))
        (diagnostic DuplicateRuleId None (path @ ''.id'') ''binding IDs must be unique'') @
      (if \<not> valid_identifier (mb_model_profile_id binding) MAX_RULE_ID_BYTES
       then [diagnostic InvalidRule None (path @ ''.modelProfileId'') ''binding profile ID is invalid'']
       else diag_if (mb_model_profile_id binding \<notin> set (map mo_id profiles))
         (diagnostic InvalidProfileReference None (path @ ''.modelProfileId'')
           ''binding must reference a profile in the same document'')) @
      diag_if ((mb_station_key_id binding \<noteq> None) = (mb_station_id binding \<noteq> None))
        (diagnostic InvalidCondition None (path @ ''.stationKeyId/stationId'') ''exactly one binding scope must be set'') @
      diag_if (case (case mb_station_key_id binding of Some k \<Rightarrow> Some k | None \<Rightarrow> mb_station_id binding) of
          None \<Rightarrow> False | Some scope \<Rightarrow> \<not> valid_identifier scope MAX_RULE_ID_BYTES)
        (diagnostic InvalidRule None (path @ ''.stationKeyId/stationId'') ''binding scope ID is invalid'') @
      diag_if (mb_station_key_id binding \<noteq> None \<and> (mb_model_profile_id binding, mb_station_key_id binding) \<in>
          set (map (\<lambda>b. (mb_model_profile_id b, mb_station_key_id b)) earlier))
        (diagnostic DuplicateBindingScope None (path @ ''.stationKeyId'')
          ''a profile may have at most one binding for a station key'') @
      diag_if (mb_station_id binding \<noteq> None \<and> (mb_model_profile_id binding, mb_station_id binding) \<in>
          set (map (\<lambda>b. (mb_model_profile_id b, mb_station_id b)) earlier))
        (diagnostic DuplicateBindingScope None (path @ ''.stationId'')
          ''a profile may have at most one binding for a station'') @
      diag_if (normalize_model_name (mb_upstream_model binding) = None)
        (diagnostic InvalidModelName None (path @ ''.upstreamModel'') ''binding upstream model is invalid'') @
      diag_if (case mb_note binding of None \<Rightarrow> False | Some note \<Rightarrow> \<not> valid_note note)
        (diagnostic InvalidRule None (path @ ''.note'') ''binding note is invalid'') @
      validate_timestamp_metadata path (mb_created_at_ms binding) (mb_updated_at_ms binding))"

definition validate_profiles_and_bindings :: "ModelMappingDocument \<Rightarrow> ModelMappingDiagnostic list" where
  "validate_profiles_and_bindings document =
     diag_if (length (md_profiles document) > MAX_PROFILES)
       (diagnostic InvalidDocument None ''profiles''
         (''at most '' @ show_nat MAX_PROFILES @ '' profiles are supported'')) @
     diag_if (length (md_bindings document) > MAX_BINDINGS)
       (diagnostic InvalidDocument None ''bindings''
         (''at most '' @ show_nat MAX_BINDINGS @ '' bindings are supported'')) @
     concat (map (validate_profile (md_profiles document)) (enumerate 0 (md_profiles document))) @
     concat (map (validate_binding (md_profiles document) (md_bindings document)) (enumerate 0 (md_bindings document)))"

section \<open>Overlap and shadowing\<close>

definition glob_matches_name :: "CompiledGlob \<Rightarrow> string \<Rightarrow> bool" where
  "glob_matches_name g s \<longleftrightarrow> glob_matches g s = Some True"

fun matcher_intersects :: "CompiledMatcher \<Rightarrow> CompiledMatcher \<Rightarrow> GlobIntersectionError + bool" where
  "matcher_intersects CDefault r = Inr True"
| "matcher_intersects l CDefault = Inr True"
| "matcher_intersects (CExact l) (CExact r) = Inr (l = r)"
| "matcher_intersects (CGlob g) (CExact e) = Inr (glob_matches_name g e)"
| "matcher_intersects (CExact e) (CGlob g) = Inr (glob_matches_name g e)"
| "matcher_intersects (CGlob l) (CGlob r) = glob_intersects l r"

fun matcher_covers :: "CompiledMatcher \<Rightarrow> CompiledMatcher \<Rightarrow> bool" where
  "matcher_covers CDefault r = True"
| "matcher_covers (CExact l) (CExact r) = (l = r)"
| "matcher_covers (CGlob g) (CExact e) = glob_matches_name g e"
| "matcher_covers (CGlob l) (CGlob r) = (l = r)"
| "matcher_covers (CExact _) CDefault = False"
| "matcher_covers (CExact _) (CGlob _) = False"
| "matcher_covers (CGlob _) CDefault = False"

fun endpoint_intersects :: "EndpointKind list option \<Rightarrow> EndpointKind list option \<Rightarrow> bool" where
  "endpoint_intersects None r = True"
| "endpoint_intersects l None = True"
| "endpoint_intersects (Some l) (Some r) = list_ex (\<lambda>item. item \<in> set r) l"

fun endpoint_covers :: "EndpointKind list option \<Rightarrow> EndpointKind list option \<Rightarrow> bool" where
  "endpoint_covers None r = True"
| "endpoint_covers (Some l) None = False"
| "endpoint_covers (Some l) (Some r) = list_all (\<lambda>item. item \<in> set l) r"

definition requirement_intersects :: "ConditionRequirement \<Rightarrow> ConditionRequirement \<Rightarrow> bool" where
  "requirement_intersects l r \<longleftrightarrow> (l, r) \<noteq> (Required, Forbidden) \<and> (l, r) \<noteq> (Forbidden, Required)"

definition requirement_covers :: "ConditionRequirement \<Rightarrow> ConditionRequirement \<Rightarrow> bool" where
  "requirement_covers l r \<longleftrightarrow> l = AnyValue \<or> l = r"

definition conditions_intersect :: "RuleConditions \<Rightarrow> RuleConditions \<Rightarrow> bool" where
  "conditions_intersect l r \<longleftrightarrow>
     endpoint_intersects (rc_endpoint_kinds l) (rc_endpoint_kinds r) \<and>
     requirement_intersects (rc_stream l) (rc_stream r) \<and> requirement_intersects (rc_tools l) (rc_tools r) \<and>
     requirement_intersects (rc_vision l) (rc_vision r) \<and> requirement_intersects (rc_reasoning l) (rc_reasoning r)"

definition conditions_covers :: "RuleConditions \<Rightarrow> RuleConditions \<Rightarrow> bool" where
  "conditions_covers l r \<longleftrightarrow>
     endpoint_covers (rc_endpoint_kinds l) (rc_endpoint_kinds r) \<and>
     requirement_covers (rc_stream l) (rc_stream r) \<and> requirement_covers (rc_tools l) (rc_tools r) \<and>
     requirement_covers (rc_vision l) (rc_vision r) \<and> requirement_covers (rc_reasoning l) (rc_reasoning r)"

definition is_unconditional :: "RuleConditions \<Rightarrow> bool" where
  "is_unconditional c \<longleftrightarrow> rc_endpoint_kinds c = None \<and> rc_stream c = AnyValue \<and> rc_tools c = AnyValue \<and>
     rc_vision c = AnyValue \<and> rc_reasoning c = AnyValue"

definition validate_default_rules :: "CompiledRule list \<Rightarrow> ModelMappingDiagnostic list" where
  "validate_default_rules rules =
     (let unconditional = filter (\<lambda>r. cr_matcher r = CDefault \<and> is_unconditional (cr_conditions r)) rules in
      (if length unconditional > 1
       then map (\<lambda>r. diagnostic InvalidDefault (Some (cr_id r)) ''matcher''
         ''only one unconditional default rule may be enabled'') unconditional
       else []) @
      concat (map (\<lambda>default.
        diag_if (list_ex (\<lambda>other. cr_id other \<noteq> cr_id default \<and> cr_priority other \<le> cr_priority default) rules)
          (diagnostic InvalidDefault (Some (cr_id default)) ''priority''
            ''an unconditional default must have the lowest enabled priority'')) unconditional))"

definition shadow_diagnostic :: "CompiledRule \<Rightarrow> CompiledRule \<Rightarrow> ModelMappingDiagnostic" where
  "shadow_diagnostic higher lower =
     diagnostic RuleShadowed (Some (cr_id lower)) ''priority''
       (''rule is completely shadowed by higher-priority rule '' @ cr_id higher)"

definition overlap_diagnostics :: "CompiledRule \<Rightarrow> CompiledRule \<Rightarrow> ModelMappingDiagnostic list" where
  "overlap_diagnostics l r =
     (if cr_priority l = cr_priority r \<and> cr_action l \<noteq> cr_action r
      then [diagnostic RuleConflict (Some (cr_id l)) ''priority'' (''rule overlaps same-priority rule '' @ cr_id r),
            diagnostic RuleConflict (Some (cr_id r)) ''priority'' (''rule overlaps same-priority rule '' @ cr_id l)]
      else []) @
     (if cr_priority l > cr_priority r \<and> matcher_covers (cr_matcher l) (cr_matcher r) \<and>
         conditions_covers (cr_conditions l) (cr_conditions r)
      then [shadow_diagnostic l r]
      else diag_if (cr_priority r > cr_priority l \<and> matcher_covers (cr_matcher r) (cr_matcher l) \<and>
         conditions_covers (cr_conditions r) (cr_conditions l)) (shadow_diagnostic r l))"

definition pair_diagnostics :: "CompiledRule \<Rightarrow> CompiledRule \<Rightarrow> ModelMappingDiagnostic list" where
  "pair_diagnostics l r =
     (if \<not> conditions_intersect (cr_conditions l) (cr_conditions r) then []
      else case matcher_intersects (cr_matcher l) (cr_matcher r) of
        Inl BudgetExceeded \<Rightarrow> [diagnostic GlobAnalysisBudget (Some (cr_id l)) ''matcher''
          (''glob overlap analysis with rule '' @ cr_id r @ '' exceeded its bounded budget'')]
      | Inr False \<Rightarrow> []
      | Inr True \<Rightarrow> overlap_diagnostics l r)"

fun validate_overlaps_and_shadowing :: "CompiledRule list \<Rightarrow> ModelMappingDiagnostic list" where
  "validate_overlaps_and_shadowing [] = []"
| "validate_overlaps_and_shadowing (l # rest) =
     concat (map (pair_diagnostics l) rest) @ validate_overlaps_and_shadowing rest"

section \<open>The order of the rules\<close>

fun matcher_specificity :: "CompiledMatcher \<Rightarrow> nat" where
  "matcher_specificity (CExact _) = 3"
| "matcher_specificity (CGlob _) = 2"
| "matcher_specificity CDefault = 0"

fun matcher_literal_specificity :: "CompiledMatcher \<Rightarrow> nat" where
  "matcher_literal_specificity (CGlob glob) = gl_literal_count glob"
| "matcher_literal_specificity _ = 0"

definition rule_le :: "CompiledRule \<Rightarrow> CompiledRule \<Rightarrow> bool" where
  "rule_le l r \<longleftrightarrow> cr_priority r < cr_priority l \<or> cr_priority r = cr_priority l \<and>
     (matcher_specificity (cr_matcher r) < matcher_specificity (cr_matcher l) \<or>
      matcher_specificity (cr_matcher r) = matcher_specificity (cr_matcher l) \<and>
      (matcher_literal_specificity (cr_matcher r) < matcher_literal_specificity (cr_matcher l) \<or>
       matcher_literal_specificity (cr_matcher r) = matcher_literal_specificity (cr_matcher l) \<and> cr_id l \<le> cr_id r))"

section \<open>The fence\<close>

fun be_bytes :: "nat \<Rightarrow> nat \<Rightarrow> string" where
  "be_bytes 0 v = []"
| "be_bytes (Suc n) v = be_bytes n (v div 256) @ [byte (v mod 256)]"

definition hex_digit :: "nat \<Rightarrow> char" where
  "hex_digit d = byte (if d < 10 then 48 + d else 87 + d)"

definition hex_digest :: "string \<Rightarrow> string" where
  "hex_digest bytes = concat (map (\<lambda>b. [hex_digit (of_char b div 16), hex_digit (of_char b mod 16)]) bytes)"

definition resolution_fence ::
  "(string \<Rightarrow> string) \<Rightarrow> u64 \<Rightarrow> CompiledRule list \<Rightarrow> ModelProfile list \<Rightarrow> ModelOfferingBinding list \<Rightarrow> string" where
  "resolution_fence sha256 revision rules profiles bindings =
     ''mapping-'' @ hex_digest (sha256 (be_bytes 8 (unat revision) @
       concat (map (\<lambda>r. cr_id r @ be_bytes 8 (unat (cr_revision r)) @ be_bytes 4 (unat (cr_priority r))) rules) @
       concat (map (\<lambda>p. mo_id p @ be_bytes 8 (unat (mo_revision p)))
         (sort_by (\<lambda>l r. mo_id l \<le> mo_id r) profiles)) @
       concat (map (\<lambda>b. mb_id b @ be_bytes 8 (unat (mb_revision b)))
         (sort_by (\<lambda>l r. mb_id l \<le> mb_id r) bindings))))"

section \<open>The compiler\<close>

text \<open>The rules in document order: a duplicate identifier, then the diagnostics of the rule itself.\<close>

definition rule_diagnostics :: "ModelMappingRule list \<Rightarrow> nat \<times> ModelMappingRule \<Rightarrow> ModelMappingDiagnostic list" where
  "rule_diagnostics rules ir =
     (case ir of (index, rule) \<Rightarrow>
      diag_if (mr_id rule \<in> set (map mr_id (take index rules)))
        (diagnostic DuplicateRuleId (Some (mr_id rule)) (indexed ''rules'' index @ ''.id'') ''rule IDs must be unique'') @
      fst (compile_rule rule index))"

definition compiled_rule :: "nat \<times> ModelMappingRule \<Rightarrow> CompiledRule option" where
  "compiled_rule ir = (case ir of (index, rule) \<Rightarrow> if mr_enabled rule then snd (compile_rule rule index) else None)"

definition compile_rules :: "ModelMappingDocument \<Rightarrow> CompiledRule list" where
  "compile_rules document = List.map_filter compiled_rule (enumerate 0 (md_rules document))"

definition document_diagnostics :: "ModelMappingDocument \<Rightarrow> ModelMappingDiagnostic list" where
  "document_diagnostics document =
     (let compiled = compile_rules document in
      diag_if (md_format_version document \<noteq> MODEL_MAPPING_FORMAT_VERSION)
        (diagnostic InvalidDocument None ''formatVersion''
          (''formatVersion must be '' @ show_nat (unat MODEL_MAPPING_FORMAT_VERSION))) @
      diag_if (length (md_rules document) > MAX_RULES)
        (diagnostic InvalidDocument None ''rules'' (''at most '' @ show_nat MAX_RULES @ '' rules are supported'')) @
      validate_profiles_and_bindings document @
      validate_rule_targets document @
      concat (map (rule_diagnostics (md_rules document)) (enumerate 0 (md_rules document))) @
      validate_default_rules compiled @
      validate_overlaps_and_shadowing compiled)"

definition compile_at_revision ::
  "(string \<Rightarrow> string) \<Rightarrow> ModelMappingDocument \<Rightarrow> u64 \<Rightarrow> ModelMappingDiagnostic list + CompiledConfiguration" where
  "compile_at_revision sha256 document mapping_revision =
     (let diagnostics = sort_by diagnostic_le (document_diagnostics document) in
      if diagnostics \<noteq> [] then Inl diagnostics
      else let compiled = sort_by rule_le (compile_rules document) in
        Inr \<lparr>cc_mapping_revision = mapping_revision,
          cc_model_resolution_fence =
            resolution_fence sha256 mapping_revision compiled (md_profiles document) (md_bindings document),
          cc_policy = md_policy document, cc_rules = compiled,
          cc_profiles = md_profiles document, cc_bindings = md_bindings document\<rparr>)"

text \<open>The document codec around the JSON library.\<close>

datatype 'e DocumentCodecError = JsonError 'e | UnsupportedVersion u16

definition decode_document ::
  "(string \<Rightarrow> 'e + ModelMappingDocument) \<Rightarrow> string \<Rightarrow> 'e DocumentCodecError + ModelMappingDocument" where
  "decode_document from_str input =
     (case from_str input of
        Inl e \<Rightarrow> Inl (JsonError e)
      | Inr document \<Rightarrow>
        if md_format_version document \<noteq> MODEL_MAPPING_FORMAT_VERSION
        then Inl (UnsupportedVersion (md_format_version document))
        else Inr document)"

definition canonical_document_json ::
  "(ModelMappingDocument \<Rightarrow> 'e + string) \<Rightarrow> ModelMappingDocument \<Rightarrow> 'e + string" where
  "canonical_document_json to_vec document =
     to_vec (document\<lparr>md_rules := sort_by (\<lambda>l r. mr_id l \<le> mr_id r) (md_rules document),
       md_profiles := sort_by (\<lambda>l r. mo_id l \<le> mo_id r) (md_profiles document),
       md_bindings := sort_by (\<lambda>l r. mb_id l \<le> mb_id r) (md_bindings document)\<rparr>)"

end
