(* ===== verification/ModelResolve.thy ===== *)
theory ModelResolve
  imports ModelMapping
begin

text \<open>
  The resolver of model mapping (\<^verbatim>\<open>application/model_mapping/resolver.rs\<close>): which rule applies to a
  request, which upstream models its action stands for on a candidate key, and the candidate
  variants planned for them.
\<close>

section \<open>Plans\<close>

datatype Disposition = Bypass | Preserve | Mapped | Reject

datatype TargetPolicy = NoTargets | PreserveTarget | Fixed | Fallback

datatype ResolutionReason =
  UnmatchedPreserve | RuleMatch | ProfileKeyBinding | ProfileStationBinding | ProfileDefault

record ResolvedTarget =
  rt_target_rank :: u16
  rt_route_model :: string
  rt_resolution_reason :: ResolutionReason
  rt_binding_revision :: "u64 option"

record CandidateResolutionContext =
  cx_station_key_id :: string
  cx_station_id :: string
  cx_endpoint :: EndpointKind
  cx_credential_revision :: u64
  cx_endpoint_revision :: u64

record DecisionEvidence =
  de_code :: string
  de_rule_id :: "string option"

record ResolvedModelPlan =
  rp_requested_model :: "string option"
  rp_disposition :: Disposition
  rp_matched_rule_id :: "string option"
  rp_mapping_revision :: u64
  rp_model_resolution_fence :: string
  rp_target_policy :: TargetPolicy
  rp_fallback_trigger :: "FallbackTrigger option"
  rp_target_models :: "ResolvedTarget list"
  rp_rejection_kind :: "RejectionKind option"
  rp_rejection_message :: "string option"
  rp_decision_evidence :: "DecisionEvidence list"

datatype TargetSelectionError = MultipleTargetsUnsupported nat

definition execution_target :: "ResolvedModelPlan \<Rightarrow> TargetSelectionError + ResolvedTarget option" where
  "execution_target plan =
     (case rp_target_models plan of
        [] \<Rightarrow> Inr None
      | [target] \<Rightarrow> Inr (Some target)
      | targets \<Rightarrow> Inl (MultipleTargetsUnsupported (length targets)))"

datatype ResolutionError =
    RequestedModelInvalid | TargetRequiresCandidateContext | ProfileNotFound | ProfileHasNoOffering
  | NoResolvedTargets

section \<open>Matching\<close>

definition requirement_matches :: "ConditionRequirement \<Rightarrow> bool \<Rightarrow> bool" where
  "requirement_matches requirement actual =
     (case requirement of AnyValue \<Rightarrow> True | Required \<Rightarrow> actual | Forbidden \<Rightarrow> \<not> actual)"

fun matcher_matches :: "CompiledMatcher \<Rightarrow> string \<Rightarrow> bool" where
  "matcher_matches (CExact expected) model = (expected = model)"
| "matcher_matches (CGlob pattern) model = glob_matches_name pattern model"
| "matcher_matches CDefault model = True"

definition conditions_match :: "RuleConditions \<Rightarrow> ModelRequestFacts \<Rightarrow> bool" where
  "conditions_match c facts \<longleftrightarrow>
     (case rc_endpoint_kinds c of None \<Rightarrow> True | Some endpoints \<Rightarrow> mf_endpoint facts \<in> set endpoints) \<and>
     requirement_matches (rc_stream c) (mf_stream facts) \<and> requirement_matches (rc_tools c) (mf_tools facts) \<and>
     requirement_matches (rc_vision c) (mf_vision facts) \<and> requirement_matches (rc_reasoning c) (mf_reasoning facts)"

definition rule_matches :: "CompiledRule \<Rightarrow> string \<Rightarrow> ModelRequestFacts \<Rightarrow> bool" where
  "rule_matches rule model facts \<longleftrightarrow>
     matcher_matches (cr_matcher rule) model \<and> conditions_match (cr_conditions rule) facts"

section \<open>Resolution\<close>

type_synonym resolved_target = "string \<times> u64 option \<times> ResolutionReason"

definition resolve_target ::
  "CompiledConfiguration \<Rightarrow> TargetRef \<Rightarrow> CandidateResolutionContext option \<Rightarrow> ResolutionError + resolved_target" where
  "resolve_target configuration target context =
     (case target of
        LiteralTarget upstream_model \<Rightarrow> Inr (upstream_model, None, RuleMatch)
      | ProfileTarget model_profile_id \<Rightarrow>
        (case find (\<lambda>p. mo_id p = model_profile_id) (cc_profiles configuration) of
           None \<Rightarrow> Inl ProfileNotFound
         | Some profile \<Rightarrow>
           if mo_status profile = Archived then Inl ProfileHasNoOffering
           else (case context of
              None \<Rightarrow> Inl TargetRequiresCandidateContext
            | Some cx \<Rightarrow>
              (case find (\<lambda>b. mb_enabled b \<and> mb_model_profile_id b = mo_id profile \<and>
                  mb_station_key_id b = Some (cx_station_key_id cx)) (cc_bindings configuration) of
                 Some binding \<Rightarrow>
                   (case normalize_model_name (mb_upstream_model binding) of
                      None \<Rightarrow> Inl ProfileHasNoOffering
                    | Some model \<Rightarrow> Inr (model, Some (mb_revision binding), ProfileKeyBinding))
               | None \<Rightarrow>
                 (case find (\<lambda>b. mb_enabled b \<and> mb_model_profile_id b = mo_id profile \<and>
                     mb_station_id b = Some (cx_station_id cx)) (cc_bindings configuration) of
                    Some binding \<Rightarrow>
                      (case normalize_model_name (mb_upstream_model binding) of
                         None \<Rightarrow> Inl ProfileHasNoOffering
                       | Some model \<Rightarrow> Inr (model, Some (mb_revision binding), ProfileStationBinding))
                  | None \<Rightarrow>
                    (case Option.bind (mo_default_upstream_model profile) normalize_model_name of
                       None \<Rightarrow> Inl ProfileHasNoOffering
                     | Some model \<Rightarrow> Inr (model, Some (mo_revision profile), ProfileDefault)))))))"

fun resolve_chain ::
  "CompiledConfiguration \<Rightarrow> CandidateResolutionContext option \<Rightarrow> nat \<Rightarrow> TargetRef list
    \<Rightarrow> ResolutionError + ResolvedTarget list" where
  "resolve_chain configuration context rank [] = Inr []"
| "resolve_chain configuration context rank (target # rest) =
     (case resolve_target configuration target context of
        Inr (route_model, binding_revision, resolution_reason) \<Rightarrow>
          rbind (resolve_chain configuration context (rank + 1) rest) (\<lambda>resolved.
            Inr (\<lparr>rt_target_rank = of_nat rank, rt_route_model = route_model,
              rt_resolution_reason = resolution_reason, rt_binding_revision = binding_revision\<rparr> # resolved))
      | Inl ProfileHasNoOffering \<Rightarrow> resolve_chain configuration context (rank + 1) rest
      | Inl error \<Rightarrow> Inl error)"

text \<open>The fields every plan of a configuration shares.\<close>

definition plan_base ::
  "CompiledConfiguration \<Rightarrow> string option \<Rightarrow> Disposition \<Rightarrow> string option \<Rightarrow> TargetPolicy \<Rightarrow> ResolvedTarget list
    \<Rightarrow> DecisionEvidence list \<Rightarrow> ResolvedModelPlan" where
  "plan_base configuration requested_model disposition matched_rule_id target_policy target_models evidence =
     \<lparr>rp_requested_model = requested_model, rp_disposition = disposition, rp_matched_rule_id = matched_rule_id,
      rp_mapping_revision = cc_mapping_revision configuration,
      rp_model_resolution_fence = cc_model_resolution_fence configuration,
      rp_target_policy = target_policy, rp_fallback_trigger = None, rp_target_models = target_models,
      rp_rejection_kind = None, rp_rejection_message = None, rp_decision_evidence = evidence\<rparr>"

definition resolve_action ::
  "CompiledConfiguration \<Rightarrow> string \<Rightarrow> CompiledRule \<Rightarrow> CandidateResolutionContext option
    \<Rightarrow> ResolutionError + ResolvedModelPlan" where
  "resolve_action configuration requested_model rule context =
     (let evidence = [\<lparr>de_code = ''model_mapping_rule_match'', de_rule_id = Some (cr_id rule)\<rparr>];
          plan = (\<lambda>disposition policy targets.
            plan_base configuration (Some requested_model) disposition (Some (cr_id rule)) policy targets evidence)
      in case cr_action rule of
        MapFixed target \<Rightarrow>
          rbind (resolve_target configuration target context) (\<lambda>(upstream_model, binding_revision, reason).
            Inr (plan Mapped Fixed [\<lparr>rt_target_rank = 0, rt_route_model = upstream_model,
              rt_resolution_reason = reason, rt_binding_revision = binding_revision\<rparr>]))
      | MapFallbackChain targets fallback_trigger \<Rightarrow>
          rbind (resolve_chain configuration context 0 targets) (\<lambda>resolved.
            if resolved = [] then Inl NoResolvedTargets
            else Inr ((plan Mapped Fallback resolved)\<lparr>rp_fallback_trigger := Some fallback_trigger\<rparr>))
      | PreserveModel \<Rightarrow>
          Inr (plan Preserve PreserveTarget [\<lparr>rt_target_rank = 0, rt_route_model = requested_model,
            rt_resolution_reason = RuleMatch, rt_binding_revision = None\<rparr>])
      | RejectModel rejection_kind message \<Rightarrow>
          Inr ((plan Reject NoTargets [])\<lparr>rp_rejection_kind := Some rejection_kind, rp_rejection_message := message\<rparr>))"

definition resolve ::
  "CompiledConfiguration \<Rightarrow> ModelRequestFacts \<Rightarrow> ResolutionError + ResolvedModelPlan" where
  "resolve configuration facts =
     (let base = plan_base configuration (Option.bind (mf_requested_model facts) normalize_model_name) in
      if is_mapping_bypass (mf_endpoint facts)
      then Inr (base Bypass None NoTargets [] [\<lparr>de_code = ''model_mapping_bypass_endpoint'', de_rule_id = None\<rparr>])
      else case mf_requested_model facts of
        None \<Rightarrow>
          Inr (base Bypass None NoTargets [] [\<lparr>de_code = ''model_mapping_bypass_missing_model'', de_rule_id = None\<rparr>])
      | Some requested \<Rightarrow>
        (case normalize_model_name requested of
           None \<Rightarrow> Inl RequestedModelInvalid
         | Some requested_model \<Rightarrow>
           (case find (\<lambda>rule. rule_matches rule requested_model facts) (cc_rules configuration) of
              Some rule \<Rightarrow> resolve_action configuration requested_model rule None
            | None \<Rightarrow>
              (case mp_unmatched_model_behavior (cc_policy configuration) of
                 PreserveUnmatched \<Rightarrow>
                   Inr (base Preserve None PreserveTarget
                     [\<lparr>rt_target_rank = 0, rt_route_model = requested_model,
                       rt_resolution_reason = UnmatchedPreserve, rt_binding_revision = None\<rparr>]
                     [\<lparr>de_code = ''model_mapping_unmatched_preserve'', de_rule_id = None\<rparr>])
               | RejectUnmatched \<Rightarrow>
                   Inr ((base Reject None NoTargets []
                     [\<lparr>de_code = ''model_mapping_unmatched_reject'', de_rule_id = None\<rparr>])
                     \<lparr>rp_rejection_kind := Some UnsupportedModel\<rparr>)))))"

definition resolve_for_candidate ::
  "CompiledConfiguration \<Rightarrow> ModelRequestFacts \<Rightarrow> CandidateResolutionContext \<Rightarrow> ResolutionError + ResolvedModelPlan" where
  "resolve_for_candidate configuration facts context =
     (if is_mapping_bypass (mf_endpoint facts) \<or> mf_requested_model facts = None then resolve configuration facts
      else case Option.bind (mf_requested_model facts) normalize_model_name of
        None \<Rightarrow> Inl RequestedModelInvalid
      | Some requested_model \<Rightarrow>
        (case find (\<lambda>rule. rule_matches rule requested_model facts) (cc_rules configuration) of
           Some rule \<Rightarrow> resolve_action configuration requested_model rule (Some context)
         | None \<Rightarrow> resolve configuration facts))"

definition candidate_variant ::
  "ResolvedModelPlan \<Rightarrow> CandidateResolutionContext \<Rightarrow> ResolvedTarget \<Rightarrow> CandidateModelVariant" where
  "candidate_variant plan context target =
     \<lparr>mv_station_key_id = cx_station_key_id context, mv_station_id = cx_station_id context,
      mv_upstream_model = rt_route_model target, mv_target_rank = rt_target_rank target,
      mv_binding_revision = rt_binding_revision target,
      mv_model_resolution_fence = rp_model_resolution_fence plan, mv_endpoint = cx_endpoint context,
      mv_credential_revision = cx_credential_revision context,
      mv_endpoint_revision = cx_endpoint_revision context\<rparr>"

definition resolved_variants ::
  "ResolvedModelPlan \<Rightarrow> CandidateResolutionContext \<Rightarrow> CandidateModelVariant list" where
  "resolved_variants plan context =
     foldl (\<lambda>variants target.
         let variant = candidate_variant plan context target in
         if list_ex (\<lambda>existing. same_variant existing variant) variants then variants else variants @ [variant])
       [] (rp_target_models plan)"

section \<open>Overlap and cover against matching\<close>

text \<open>Two rules that match a common request are found to overlap, unless the analysis gives up.\<close>

lemma matchers_overlap:
  assumes "matcher_matches l m" "matcher_matches r m"
  shows "matcher_intersects l r \<noteq> Inr False"
proof (cases "\<exists>g h. l = CGlob g \<and> r = CGlob h")
  case True
  then obtain g h where lr: "l = CGlob g" "r = CGlob h" by blast
  have "accepts (gl_tokens g) (str_chars m) \<and> accepts (gl_tokens h) (str_chars m)"
    using assms lr by (auto simp: glob_matches_name_def glob_matches_accepts)
  then show ?thesis using glob_intersects_sound [of g h False] lr by auto
next
  case False
  with assms show ?thesis by (cases l; cases r) auto
qed

lemma requirements_overlap:
  "requirement_matches l b \<Longrightarrow> requirement_matches r b \<Longrightarrow> requirement_intersects l r"
  by (cases l; cases r) (auto simp: requirement_matches_def requirement_intersects_def)

lemma conditions_overlap: "conditions_match l f \<Longrightarrow> conditions_match r f \<Longrightarrow> conditions_intersect l r"
  unfolding conditions_match_def conditions_intersect_def
  by (cases "rc_endpoint_kinds l"; cases "rc_endpoint_kinds r")
     (auto simp: list_ex_iff intro: requirements_overlap)

text \<open>A rule that is reported as shadowed is never the first to match.\<close>

lemma requirement_covers_sound:
  "requirement_covers l r \<Longrightarrow> requirement_matches r b \<Longrightarrow> requirement_matches l b"
  by (cases l; cases r) (auto simp: requirement_matches_def requirement_covers_def)

lemma shadowed_covered:
  assumes "matcher_covers (cr_matcher h) (cr_matcher l)" "conditions_covers (cr_conditions h) (cr_conditions l)"
    and "rule_matches l m f"
  shows "rule_matches h m f"
proof -
  have "matcher_matches (cr_matcher h) m"
    using assms by (cases "cr_matcher h"; cases "cr_matcher l") (auto simp: rule_matches_def)
  moreover have "conditions_match (cr_conditions h) f"
    using assms(2,3) unfolding rule_matches_def conditions_match_def conditions_covers_def
    by (cases "rc_endpoint_kinds (cr_conditions h)"; cases "rc_endpoint_kinds (cr_conditions l)")
       (auto simp: list_all_iff intro: requirement_covers_sound)
  ultimately show ?thesis by (simp add: rule_matches_def)
qed

section \<open>Compiled configurations\<close>

lemma overlaps_Nil:
  "validate_overlaps_and_shadowing rs = [] \<longleftrightarrow> sorted_wrt (\<lambda>l r. pair_diagnostics l r = []) rs"
  by (induction rs) auto

lemma sorted_wrt_pair: "sorted_wrt P xs \<Longrightarrow> x \<in> set xs \<Longrightarrow> y \<in> set xs \<Longrightarrow> x = y \<or> P x y \<or> P y x"
  by (induction xs) auto

lemma pair_no_conflict:
  assumes "pair_diagnostics l r = []" "rule_matches l m f" "rule_matches r m f" "cr_priority l = cr_priority r"
  shows "cr_action l = cr_action r"
proof -
  have "conditions_intersect (cr_conditions l) (cr_conditions r)"
    "matcher_intersects (cr_matcher l) (cr_matcher r) \<noteq> Inr False"
    using assms(2,3) conditions_overlap matchers_overlap by (auto simp: rule_matches_def)
  then have "overlap_diagnostics l r = []"
    using assms(1) by (auto simp: pair_diagnostics_def split: sum.splits bool.splits GlobIntersectionError.splits)
  then show ?thesis using assms(4) by (auto simp: overlap_diagnostics_def split: if_splits)
qed

lemma compile_Inr:
  "compile_at_revision sha document n = Inr cfg \<longleftrightarrow> document_diagnostics document = [] \<and>
   cfg = \<lparr>cc_mapping_revision = n,
     cc_model_resolution_fence = resolution_fence sha n (sort_by rule_le (compile_rules document))
       (md_profiles document) (md_bindings document),
     cc_policy = md_policy document, cc_rules = sort_by rule_le (compile_rules document),
     cc_profiles = md_profiles document, cc_bindings = md_bindings document\<rparr>"
  by (auto simp: compile_at_revision_def Let_def)

interpretation rule_order: total_preorder rule_le
  by unfold_locales (auto simp: rule_le_def)

lemma first_match_best:
  assumes "sorted_wrt rule_le rs" "find P rs = Some r" "r' \<in> set rs" "P r'"
  shows "r \<in> set rs \<and> P r \<and> cr_priority r' \<le> cr_priority r"
  using assms
proof (induction rs)
  case (Cons x rs)
  then show ?case by (cases "P x") (auto simp: rule_le_def)
qed simp

lemma compiled_no_conflict:
  assumes "compile_at_revision sha document n = Inr cfg"
    and "r \<in> set (cc_rules cfg)" "r' \<in> set (cc_rules cfg)" "rule_matches r m f" "rule_matches r' m f"
    and "cr_priority r = cr_priority r'"
  shows "cr_action r = cr_action r'"
proof -
  have "validate_overlaps_and_shadowing (compile_rules document) = []"
    using assms(1) by (auto simp: compile_Inr document_diagnostics_def Let_def)
  then have "sorted_wrt (\<lambda>l r. pair_diagnostics l r = []) (compile_rules document)" by (simp add: overlaps_Nil)
  moreover have "r \<in> set (compile_rules document)" "r' \<in> set (compile_rules document)"
    using assms(1-3) by (auto simp: compile_Inr)
  ultimately show ?thesis
    using sorted_wrt_pair pair_no_conflict [OF _ assms(4,5)] pair_no_conflict [OF _ assms(5,4)] assms(6) by fastforce
qed

text \<open>
  C17: A configuration that compiles is unambiguous. A request with a matching rule is resolved by a
  matching rule of the highest priority, and every other matching rule of that priority has the
  same action, so neither the order of the rules nor their identifiers decide what happens.
\<close>
theorem resolve_is_highest_priority:
  assumes "compile_at_revision sha document n = Inr cfg"
    and "\<not> is_mapping_bypass (mf_endpoint facts)" "mf_requested_model facts = Some requested"
    and "normalize_model_name requested = Some model"
    and "r0 \<in> set (cc_rules cfg)" "rule_matches r0 model facts"
  shows "\<exists>r \<in> set (cc_rules cfg). rule_matches r model facts \<and> resolve cfg facts = resolve_action cfg model r None \<and>
    resolve_for_candidate cfg facts context = resolve_action cfg model r (Some context) \<and>
    list_all (\<lambda>r'. \<not> rule_matches r' model facts \<or> cr_priority r' < cr_priority r \<or>
      cr_priority r' = cr_priority r \<and> cr_action r' = cr_action r) (cc_rules cfg)"
proof -
  let ?P = "\<lambda>r. rule_matches r model facts"
  obtain r where r: "find ?P (cc_rules cfg) = Some r" using find_ex assms(5,6) by metis
  have sorted: "sorted_wrt rule_le (cc_rules cfg)"
    using assms(1) rule_order.sorted_sort_by by (auto simp: compile_Inr)
  note best = first_match_best [OF sorted r]
  have mem: "r \<in> set (cc_rules cfg)" "?P r" using best [OF assms(5,6)] by auto
  have "\<not> ?P r' \<or> cr_priority r' < cr_priority r \<or> cr_priority r' = cr_priority r \<and> cr_action r' = cr_action r"
    if "r' \<in> set (cc_rules cfg)" for r'
    using best [OF that] compiled_no_conflict [OF assms(1) that mem(1) _ mem(2)] by fastforce
  then show ?thesis
    using mem r assms(2-4)
    by (intro bexI [of _ r]) (auto simp: resolve_def resolve_for_candidate_def Let_def list_all_iff)
qed

text \<open>An exact rule above an unconditional default.\<close>

definition no_conditions :: RuleConditions where
  "no_conditions = \<lparr>rc_endpoint_kinds = None, rc_stream = AnyValue, rc_tools = AnyValue, rc_vision = AnyValue,
     rc_reasoning = AnyValue\<rparr>"

definition all_source :: ModelMappingRule where
  "all_source = \<lparr>mr_id = ''all'', mr_priority = 10, mr_enabled = True, mr_matcher = MatchDefault,
     mr_conditions = no_conditions, mr_action = PreserveModel, mr_note = None, mr_revision = 1\<rparr>"

definition codex_source :: ModelMappingRule where
  "codex_source = \<lparr>mr_id = ''codex'', mr_priority = 20, mr_enabled = True, mr_matcher = MatchExact ''codex-5.4'',
     mr_conditions = no_conditions, mr_action = MapFixed (LiteralTarget ''deepseek-v4''), mr_note = None, mr_revision = 1\<rparr>"

definition example_document :: "ModelMappingRule list \<Rightarrow> ModelMappingDocument" where
  "example_document rules = \<lparr>md_format_version = 1, md_base_revision = 7,
     md_policy = \<lparr>mp_unmatched_model_behavior = PreserveUnmatched\<rparr>, md_rules = rules, md_profiles = [], md_bindings = []\<rparr>"

definition codex_rule :: CompiledRule where
  "codex_rule = \<lparr>cr_id = ''codex'', cr_priority = 20, cr_matcher = CExact ''codex-5.4'',
     cr_conditions = no_conditions, cr_action = MapFixed (LiteralTarget ''deepseek-v4''), cr_revision = 1\<rparr>"

definition default_rule :: CompiledRule where
  "default_rule = \<lparr>cr_id = ''all'', cr_priority = 10, cr_matcher = CDefault, cr_conditions = no_conditions,
     cr_action = PreserveModel, cr_revision = 1\<rparr>"

definition example_facts :: ModelRequestFacts where
  "example_facts = \<lparr>mf_requested_model = Some '' codex-5.4'', mf_endpoint = EK_Responses, mf_stream = True,
     mf_tools = False, mf_vision = False, mf_reasoning = False\<rparr>"

definition example_candidate :: CandidateResolutionContext where
  "example_candidate = \<lparr>cx_station_key_id = ''key-a'', cx_station_id = ''station-a'', cx_endpoint = EK_Responses,
     cx_credential_revision = 1, cx_endpoint_revision = 1\<rparr>"

lemma normalize_ascii:
  assumes "s \<noteq> []" "visible_ascii (hd s)" "visible_ascii (last s)" "length s \<le> 256"
    and "list_all (\<lambda>c. 32 \<le> (of_char c :: nat) \<and> of_char c < (127 :: nat)) s"
  shows "normalize_model_name s = Some s" "\<not> has_control s"
proof -
  have "list_all (\<lambda>b. of_char b < (0x80 :: nat)) s" using assms(5) by (auto simp: list_all_iff)
  then have "str_chars s = map of_char s" by (rule str_chars_ascii)
  then show c: "\<not> has_control s"
    using assms(5) by (auto simp: has_control_def is_control_def list_all_iff list_ex_iff)
  show "normalize_model_name s = Some s"
    using c assms trim_id [of s] by (simp add: normalize_model_name_def MAX_MODEL_NAME_BYTES_def)
qed

lemma example_names:
  "normalize_model_name ''codex-5.4'' = Some ''codex-5.4''" "normalize_model_name ''deepseek-v4'' = Some ''deepseek-v4''"
  "trim ''codex'' = ''codex''" "trim ''all'' = ''all''" "\<not> has_control ''codex''" "\<not> has_control ''all''"
  using normalize_ascii(2) [of "''codex''"] normalize_ascii(2) [of "''all''"]
  by (auto intro!: normalize_ascii(1) trim_id simp: visible_ascii_def)

lemma example_requested: "normalize_model_name '' codex-5.4'' = Some ''codex-5.4''"
  using example_names(1) trim_start_space [of "''codex-5.4''"] by (simp add: normalize_model_name_def trim_def)

lemma example_compile_rules:
  "compile_rule all_source i = ([], Some default_rule)" "compile_rule codex_source i = ([], Some codex_rule)"
  using example_names
  by (simp_all add: compile_rule_def all_source_def codex_source_def Let_def compile_matcher_def compile_action_def
      compile_target_def validate_conditions_def no_conditions_def rejection_diagnostics_def default_rule_def
      codex_rule_def diag_if_def MAX_RULE_ID_BYTES_def MAX_PRIORITY_def)

lemma example_compiled:
  "compile_rules (example_document [all_source, codex_source]) = [default_rule, codex_rule]"
proof -
  have "mr_enabled all_source" "mr_enabled codex_source" by (simp_all add: all_source_def codex_source_def)
  then show ?thesis
    by (simp add: compile_rules_def example_document_def map_filter_simps compiled_rule_def example_compile_rules)
qed

lemma example_diagnostics: "document_diagnostics (example_document [all_source, codex_source]) = []"
proof -
  let ?rules = "[all_source, codex_source]"
  have "concat (map (rule_diagnostics ?rules) (enumerate 0 ?rules)) = []"
    by (simp add: rule_diagnostics_def example_compile_rules) (simp add: all_source_def codex_source_def)
  moreover have "validate_rule_targets (example_document ?rules) = []"
    by (simp add: validate_rule_targets_def example_document_def all_source_def codex_source_def
        validate_one_rule_targets_def action_targets_def target_reference_diagnostics_def)
  moreover have "validate_default_rules [default_rule, codex_rule] = []"
    by (simp add: validate_default_rules_def default_rule_def codex_rule_def is_unconditional_def no_conditions_def)
  moreover have "validate_overlaps_and_shadowing [default_rule, codex_rule] = []"
    by (simp add: pair_diagnostics_def overlap_diagnostics_def default_rule_def codex_rule_def diag_if_def)
  ultimately show ?thesis
    by (simp add: document_diagnostics_def example_compiled Let_def validate_profiles_and_bindings_def)
       (simp add: example_document_def MODEL_MAPPING_FORMAT_VERSION_def MAX_RULES_def)
qed

lemma example_configuration:
  "\<exists>cfg. compile_at_revision sha (example_document [all_source, codex_source]) n = Inr cfg \<and>
     cc_rules cfg = [codex_rule, default_rule]"
  by (simp add: compile_Inr example_diagnostics example_compiled)
     (simp add: sort_by_def rule_le_def codex_rule_def default_rule_def)

theorem resolve_is_highest_priority_witness:
  "\<exists>cfg. compile_at_revision id (example_document [all_source, codex_source]) 8 = Inr cfg \<and>
     resolve cfg example_facts = resolve_action cfg ''codex-5.4'' codex_rule None"
proof -
  obtain cfg where cfg: "compile_at_revision id (example_document [all_source, codex_source]) 8 = Inr cfg"
    "cc_rules cfg = [codex_rule, default_rule]"
    using example_configuration by blast
  have m: "rule_matches default_rule ''codex-5.4'' example_facts" "rule_matches codex_rule ''codex-5.4'' example_facts"
    by (simp_all add: rule_matches_def conditions_match_def no_conditions_def default_rule_def codex_rule_def
        requirement_matches_def)
  have f: "\<not> is_mapping_bypass (mf_endpoint example_facts)" "mf_requested_model example_facts = Some '' codex-5.4''"
    by (simp_all add: example_facts_def is_mapping_bypass_def)
  have d: "default_rule \<in> set (cc_rules cfg)" using cfg by simp
  have p: "cr_priority codex_rule > cr_priority default_rule" by (simp add: codex_rule_def default_rule_def)
  from resolve_is_highest_priority [OF cfg(1) f example_requested d m(1), of example_candidate]
  show ?thesis using cfg m p by (auto simp: list_all_iff)
qed

section \<open>The order of the rules in the document\<close>

text \<open>A list that is sorted by a comparison without ties is the only such arrangement.\<close>

lemma sorted_wrt_unique:
  assumes "\<And>x y. x \<in> set xs \<Longrightarrow> y \<in> set xs \<Longrightarrow> le x y \<Longrightarrow> le y x \<Longrightarrow> x = y"
    and "sorted_wrt le xs" "sorted_wrt le ys" "mset xs = mset ys"
  shows "xs = ys"
  using assms
proof (induction xs arbitrary: ys)
  case (Cons x xs)
  obtain y zs where ys: "ys = y # zs" using Cons.prems(4) by (cases ys) auto
  have set_eq: "set (x # xs) = set (y # zs)" using Cons.prems(4) ys mset_eq_setD by blast
  have "x = y"
  proof (rule ccontr)
    assume ne: "x \<noteq> y"
    then have "y \<in> set xs" "x \<in> set zs" using set_eq by auto
    then have "le x y" "le y x" using Cons.prems(2,3) ys by auto
    with Cons.prems(1) [of x y] \<open>y \<in> set xs\<close> ne show False by auto
  qed
  moreover from this have "xs = zs"
    using Cons.prems ys by (intro Cons.IH) auto
  ultimately show ?case using ys by simp
qed simp

lemma compile_rule_id: "snd (compile_rule r i) = Some c \<Longrightarrow> cr_id c = mr_id r"
  by (auto simp: compile_rule_def Let_def split: prod.splits if_splits)

text \<open>The compiled rule does not depend on the position, which only appears in diagnostics.\<close>

lemma compile_matcher_index: "compile_matcher k p m = (ds, c) \<Longrightarrow> compile_matcher k q m = (es, d) \<Longrightarrow>
   c = d \<and> (ds = [] \<longleftrightarrow> es = [])"
  by (auto simp: compile_matcher_def split: Matcher.splits option.splits sum.splits)

lemma compile_target_index: "snd (compile_target k p t) = snd (compile_target k q t) \<and>
   (fst (compile_target k p t) = [] \<longleftrightarrow> fst (compile_target k q t) = [])"
  by (auto simp: compile_target_def split: TargetRef.splits option.splits)

lemma compile_action_index: "compile_action k p a = (ds, c) \<Longrightarrow> compile_action k q a = (es, d) \<Longrightarrow>
   c = d \<and> (ds = [] \<longleftrightarrow> es = [])"
proof (cases a)
  case (MapFixed t)
  assume "compile_action k p a = (ds, c)" "compile_action k q a = (es, d)"
  then show ?thesis using MapFixed compile_target_index [of k "p @ ''.action.target''" t "q @ ''.action.target''"]
    by (auto simp: compile_action_def split: prod.splits)
next
  case (MapFallbackChain ts f)
  assume c: "compile_action k p a = (ds, c)" "compile_action k q a = (es, d)"
  have "map snd (map (\<lambda>(i, t). compile_target k (p @ indexed ''.action.targets'' i) t) (enumerate 0 ts)) =
      map snd (map (\<lambda>(i, t). compile_target k (q @ indexed ''.action.targets'' i) t) (enumerate 0 ts))"
    using compile_target_index by (simp add: split_def)
  moreover have "concat (map fst (map (\<lambda>(i, t). compile_target k (p @ indexed ''.action.targets'' i) t) (enumerate 0 ts))) = [] \<longleftrightarrow>
      concat (map fst (map (\<lambda>(i, t). compile_target k (q @ indexed ''.action.targets'' i) t) (enumerate 0 ts))) = []"
    unfolding concat_eq_Nil_conv set_map split_def using compile_target_index by blast
  ultimately show ?thesis using c MapFallbackChain by (auto simp: compile_action_def Let_def)
qed (auto simp: compile_action_def)

lemma validate_conditions_index: "validate_conditions c k p = [] \<longleftrightarrow> validate_conditions c k q = []"
  by (auto simp: validate_conditions_def split: option.splits)

lemma rejection_index: "rejection_diagnostics k p a = [] \<longleftrightarrow> rejection_diagnostics k q a = []"
  by (auto simp: rejection_diagnostics_def split: Action.splits option.splits)

lemma compile_rule_index: "snd (compile_rule r i) = snd (compile_rule r j)"
proof -
  obtain m1 c1 m2 c2 where m: "compile_matcher (mr_id r) (indexed ''rules'' i) (mr_matcher r) = (m1, c1)"
    "compile_matcher (mr_id r) (indexed ''rules'' j) (mr_matcher r) = (m2, c2)" by (metis prod.collapse)
  obtain a1 d1 a2 d2 where a: "compile_action (mr_id r) (indexed ''rules'' i) (mr_action r) = (a1, d1)"
    "compile_action (mr_id r) (indexed ''rules'' j) (mr_action r) = (a2, d2)" by (metis prod.collapse)
  have "c1 = c2 \<and> (m1 = [] \<longleftrightarrow> m2 = [])" "d1 = d2 \<and> (a1 = [] \<longleftrightarrow> a2 = [])"
    using compile_matcher_index [OF m] compile_action_index [OF a] by auto
  moreover have "validate_conditions (mr_conditions r) (mr_id r) (indexed ''rules'' i @ ''.conditions'') = [] \<longleftrightarrow>
      validate_conditions (mr_conditions r) (mr_id r) (indexed ''rules'' j @ ''.conditions'') = []"
    by (rule validate_conditions_index)
  moreover have "rejection_diagnostics (mr_id r) (indexed ''rules'' i) (mr_action r) = [] \<longleftrightarrow>
      rejection_diagnostics (mr_id r) (indexed ''rules'' j) (mr_action r) = []"
    by (rule rejection_index)
  ultimately show ?thesis by (simp add: compile_rule_def Let_def m a)
qed

definition compiled_source :: "ModelMappingRule \<Rightarrow> CompiledRule option" where
  "compiled_source r = (if mr_enabled r then snd (compile_rule r 0) else None)"

lemma compile_rules_source: "compile_rules document = List.map_filter compiled_source (md_rules document)"
proof -
  have "compiled_rule (i, r) = compiled_source r" for i r
    using compile_rule_index [of r i 0] by (simp add: compiled_rule_def compiled_source_def)
  then have A: "compiled_rule = compiled_source \<circ> snd" by auto
  have B: "List.map_filter (f \<circ> snd) (enumerate n rs) = List.map_filter f rs" for f :: "ModelMappingRule \<Rightarrow> CompiledRule option" and n rs
    by (induction rs arbitrary: n) (auto simp: map_filter_simps split: option.splits)
  show ?thesis unfolding compile_rules_def A by (rule B)
qed

lemma mset_map_filter: "mset xs = mset ys \<Longrightarrow> mset (List.map_filter f xs) = mset (List.map_filter f ys)"
  by (simp add: List.map_filter_def)

lemma distinct_by_takes: "(\<And>i. i < length xs \<Longrightarrow> xs ! i \<notin> set (take i xs)) \<Longrightarrow> distinct xs"
proof -
  assume fresh: "\<And>i. i < length xs \<Longrightarrow> xs ! i \<notin> set (take i xs)"
  have "xs ! i \<noteq> xs ! j" if "i < j" "j < length xs" for i j
  proof -
    have "xs ! i \<in> set (take j xs)" using that by (auto simp: in_set_conv_nth intro!: exI [of _ i])
    then show ?thesis using fresh [OF that(2)] by metis
  qed
  then show ?thesis by (metis distinct_conv_nth linorder_neqE_nat)
qed

text \<open>Identifiers of the compiled rules are distinct when the document has no diagnostics.\<close>

lemma rule_ids_distinct:
  assumes "document_diagnostics document = []"
  shows "distinct (map mr_id (md_rules document))"
proof -
  let ?rs = "md_rules document"
  have all: "rule_diagnostics ?rs (i, ?rs ! i) = []" if "i < length ?rs" for i
  proof -
    have "(i, ?rs ! i) \<in> set (enumerate 0 ?rs)" using that by (simp add: in_set_enumerate_eq)
    then show ?thesis using assms by (fastforce simp: document_diagnostics_def Let_def)
  qed
  have "map mr_id ?rs ! i \<notin> set (take i (map mr_id ?rs))" if "i < length ?rs" for i
    using all [OF that] that by (auto simp: rule_diagnostics_def take_map)
  then show ?thesis by (intro distinct_by_takes) simp
qed

lemma compiled_ids:
  assumes "document_diagnostics document = []" "c \<in> set (compile_rules document)" "d \<in> set (compile_rules document)"
    and "cr_id c = cr_id d"
  shows "c = d"
proof -
  obtain r s where rs: "r \<in> set (md_rules document)" "compiled_source r = Some c"
    "s \<in> set (md_rules document)" "compiled_source s = Some d"
    using assms(2,3) by (auto simp: compile_rules_source List.map_filter_def)
  then have "cr_id c = mr_id r" "cr_id d = mr_id s"
    using compile_rule_id by (auto simp: compiled_source_def split: if_splits)
  with assms(4) have "mr_id r = mr_id s" by simp
  with rs rule_ids_distinct [OF assms(1)] have "r = s" by (auto simp: distinct_map dest: inj_onD)
  with rs show ?thesis by simp
qed

text \<open>
  The order of the rules in the document has no meaning. Two documents that differ only in the
  order of their rules, and that both compile, compile to the same configuration, fence included.
\<close>
theorem compile_ignores_rule_order:
  assumes "compile_at_revision sha document n = Inr cfg"
    and "compile_at_revision sha (document\<lparr>md_rules := rules\<rparr>) n = Inr cfg'"
    and "mset rules = mset (md_rules document)"
  shows "cfg' = cfg"
proof -
  let ?d = "document\<lparr>md_rules := rules\<rparr>"
  have ok: "document_diagnostics document = []" using assms(1) by (simp add: compile_Inr)
  have "mset (compile_rules ?d) = mset (compile_rules document)"
    using mset_map_filter [OF assms(3)] by (simp add: compile_rules_source)
  then have "sort_by rule_le (compile_rules document) = sort_by rule_le (compile_rules ?d)"
    using compiled_ids [OF ok]
    by (intro sorted_wrt_unique [OF _ rule_order.sorted_sort_by rule_order.sorted_sort_by])
       (auto simp: rule_le_def)
  then show ?thesis using assms(1,2) by (simp add: compile_Inr)
qed

lemma example_swapped:
  "document_diagnostics (example_document [codex_source, all_source]) = [] \<and>
   compile_rules (example_document [codex_source, all_source]) = [codex_rule, default_rule]"
proof -
  let ?rules = "[codex_source, all_source]"
  have c: "compile_rules (example_document ?rules) = [codex_rule, default_rule]"
    by (simp add: compile_rules_source example_document_def map_filter_simps compiled_source_def example_compile_rules)
       (simp add: all_source_def codex_source_def)
  have "concat (map (rule_diagnostics ?rules) (enumerate 0 ?rules)) = []"
    by (simp add: rule_diagnostics_def example_compile_rules) (simp add: all_source_def codex_source_def)
  moreover have "validate_rule_targets (example_document ?rules) = []"
    by (simp add: validate_rule_targets_def example_document_def all_source_def codex_source_def
        validate_one_rule_targets_def action_targets_def target_reference_diagnostics_def)
  moreover have "validate_default_rules [codex_rule, default_rule] = []"
    by (simp add: validate_default_rules_def default_rule_def codex_rule_def is_unconditional_def no_conditions_def)
  moreover have "validate_overlaps_and_shadowing [codex_rule, default_rule] = []"
    by (simp add: pair_diagnostics_def overlap_diagnostics_def default_rule_def codex_rule_def diag_if_def)
  ultimately have "document_diagnostics (example_document ?rules) = []"
    by (simp add: document_diagnostics_def c Let_def validate_profiles_and_bindings_def)
       (simp add: example_document_def MODEL_MAPPING_FORMAT_VERSION_def MAX_RULES_def)
  with c show ?thesis by simp
qed

theorem compile_ignores_rule_order_witness:
  "compile_at_revision id (example_document [codex_source, all_source]) 8 =
   compile_at_revision id (example_document [all_source, codex_source]) 8"
proof -
  let ?d = "example_document [all_source, codex_source]"
  have upd: "?d\<lparr>md_rules := [codex_source, all_source]\<rparr> = example_document [codex_source, all_source]"
    by (simp add: example_document_def)
  obtain cfg cfg' where c: "compile_at_revision id ?d 8 = Inr cfg"
    "compile_at_revision id (?d\<lparr>md_rules := [codex_source, all_source]\<rparr>) 8 = Inr cfg'"
    by (simp add: upd compile_Inr example_diagnostics example_swapped)
  have "mset [codex_source, all_source] = mset (md_rules ?d)" by (simp add: example_document_def)
  from compile_ignores_rule_order [OF c this] c upd show ?thesis by simp
qed

section \<open>Resolution on a compiled configuration\<close>

lemma normalize_idem: "normalize_model_name v = Some w \<Longrightarrow> normalize_model_name w = Some w"
  by (auto simp: normalize_model_name_def Let_def split: if_splits)

text \<open>A target that a validated document may hold after compilation.\<close>

definition target_ok :: "ModelProfile list \<Rightarrow> TargetRef \<Rightarrow> bool" where
  "target_ok profiles t =
     (case t of
        LiteralTarget m \<Rightarrow> normalize_model_name m = Some m
      | ProfileTarget i \<Rightarrow> (\<exists>p. find (\<lambda>p. mo_id p = i) profiles = Some p \<and> mo_status p \<noteq> Archived))"

definition action_ok :: "ModelProfile list \<Rightarrow> Action \<Rightarrow> bool" where
  "action_ok profiles a = (case action_targets a of None \<Rightarrow> True | Some ts \<Rightarrow> list_all (target_ok profiles) ts \<and> length ts \<le> 3)"

lemma profile_ids_distinct:
  assumes "document_diagnostics document = []"
  shows "distinct (map mo_id (md_profiles document))"
proof -
  let ?ps = "md_profiles document"
  have "validate_profile ?ps (i, ?ps ! i) = []" if "i < length ?ps" for i
  proof -
    have "(i, ?ps ! i) \<in> set (enumerate 0 ?ps)" using that by (simp add: in_set_enumerate_eq)
    then show ?thesis
      using assms by (fastforce simp: document_diagnostics_def validate_profiles_and_bindings_def Let_def)
  qed
  then have "map mo_id ?ps ! i \<notin> set (take i (map mo_id ?ps))" if "i < length ?ps" for i
    using that by (auto simp: validate_profile_def take_map Let_def)
  then show ?thesis by (intro distinct_by_takes) simp
qed

lemma profile_by_id_find:
  assumes "distinct (map mo_id ps)" "profile_by_id ps i = Some p"
  shows "find (\<lambda>p. mo_id p = i) ps = Some p"
proof -
  have "(i, p) \<in> set (map (\<lambda>p. (mo_id p, p)) ps)" using assms(2) by (auto simp: profile_by_id_def dest: map_of_SomeD)
  then have "p \<in> set ps" "mo_id p = i" by auto
  then show ?thesis using assms(1) by (induction ps) auto
qed

lemma enumerate_mem: "x \<in> set xs \<longleftrightarrow> (\<exists>i. (i, x) \<in> set (enumerate n xs))"
proof (induction xs arbitrary: n)
  case (Cons y xs)
  from Cons.IH [of "Suc n"] show ?case by auto
qed simp

lemma validated_targets:
  assumes "document_diagnostics document = []" "r \<in> set (md_rules document)" "action_targets (mr_action r) = Some ts"
  shows "length ts \<le> 3" and "ProfileTarget i \<in> set ts \<Longrightarrow> target_ok (md_profiles document) (ProfileTarget i)"
proof -
  obtain k where "(k, r) \<in> set (enumerate 0 (md_rules document))"
    using assms(2) enumerate_mem by metis
  then have none: "validate_one_rule_targets (md_profiles document) (k, r) = []"
    using assms(1) by (fastforce simp: document_diagnostics_def validate_rule_targets_def Let_def)
  then show "length ts \<le> 3"
    using assms(3) by (auto simp: validate_one_rule_targets_def action_targets_def MAX_TARGETS_PER_RULE_def split: Action.splits)
  assume "ProfileTarget i \<in> set ts"
  then obtain j where "(j, ProfileTarget i) \<in> set (enumerate 0 ts)"
    using enumerate_mem by metis
  then have "target_reference_diagnostics (md_profiles document) (mr_id r)
      (indexed ''rules'' k @ indexed ''.action.targets'' j) (ProfileTarget i) = []"
    using none assms(3) by (fastforce simp: validate_one_rule_targets_def)
  then obtain p where "profile_by_id (md_profiles document) i = Some p" "mo_status p \<noteq> Archived"
    by (auto simp: target_reference_diagnostics_def split: option.splits)
  then show "target_ok (md_profiles document) (ProfileTarget i)"
    using profile_by_id_find [OF profile_ids_distinct [OF assms(1)]] by (auto simp: target_ok_def)
qed

lemma compile_target_ok:
  assumes "fst (compile_target k q t) = []" "\<And>i. t = ProfileTarget i \<Longrightarrow> target_ok ps t"
  shows "target_ok ps (snd (compile_target k q t))"
  using assms normalize_idem by (auto simp: compile_target_def target_ok_def split: TargetRef.splits option.splits)

lemma compile_action_ok:
  assumes "compile_action k q a = ([], b)"
    and "\<And>ts. action_targets a = Some ts \<Longrightarrow> length ts \<le> 3 \<and> (\<forall>i. ProfileTarget i \<in> set ts \<longrightarrow> target_ok ps (ProfileTarget i))"
  shows "action_ok ps b"
proof (cases a)
  case (MapFixed t)
  then have "b = MapFixed (snd (compile_target k (q @ ''.action.target'') t))"
    "fst (compile_target k (q @ ''.action.target'') t) = []"
    using assms(1) by (auto simp: compile_action_def split: prod.splits)
  moreover from this(2) have "target_ok ps (snd (compile_target k (q @ ''.action.target'') t))"
    using assms(2) [of "[t]"] MapFixed by (intro compile_target_ok) (auto simp: action_targets_def)
  ultimately show ?thesis by (simp add: action_ok_def action_targets_def)
next
  case (MapFallbackChain ts f)
  let ?c = "\<lambda>(i, t). compile_target k (q @ indexed ''.action.targets'' i) t"
  have b: "b = MapFallbackChain (map snd (map ?c (enumerate 0 ts))) f" and
    none: "\<forall>p \<in> set (enumerate 0 ts). fst (?c p) = []"
    using assms(1) MapFallbackChain by (auto simp: compile_action_def Let_def)
  have "target_ok ps (snd (?c p))" if "p \<in> set (enumerate 0 ts)" for p
  proof -
    have "snd p \<in> set ts" using that enumerate_mem [of "snd p" ts 0] by (metis prod.collapse)
    then show ?thesis
      using none that assms(2) [of ts] MapFallbackChain
      by (cases p) (auto intro!: compile_target_ok simp: action_targets_def)
  qed
  then show ?thesis using assms(2) [of ts] MapFallbackChain by (auto simp: b action_ok_def action_targets_def list_all_iff)
qed (use assms in \<open>auto simp: compile_action_def action_ok_def action_targets_def\<close>)

lemma compiled_actions_ok:
  assumes "document_diagnostics document = []" "c \<in> set (compile_rules document)"
  shows "action_ok (md_profiles document) (cr_action c)"
proof -
  obtain r where r: "r \<in> set (md_rules document)" "compiled_source r = Some c"
    using assms(2) by (auto simp: compile_rules_source List.map_filter_def)
  then have c: "snd (compile_rule r 0) = Some c" by (auto simp: compiled_source_def split: if_splits)
  obtain ds b where a: "compile_action (mr_id r) (indexed ''rules'' 0) (mr_action r) = (ds, b)" by (metis prod.collapse)
  have "ds = []" "cr_action c = b"
    using c a by (auto simp: compile_rule_def Let_def split: prod.splits if_splits)
  then show ?thesis using compile_action_ok [of "mr_id r" "indexed ''rules'' 0" "mr_action r" b] a validated_targets [OF assms(1) r(1)]
    by blast
qed

lemma resolve_target_ok:
  assumes "target_ok (cc_profiles cfg) t"
  shows "case resolve_target cfg t (Some cx) of
      Inl e \<Rightarrow> e = ProfileHasNoOffering
    | Inr (m, _, _) \<Rightarrow> normalize_model_name m = Some m"
proof (cases t)
  case (LiteralTarget m)
  then show ?thesis using assms by (simp add: resolve_target_def target_ok_def)
next
  case (ProfileTarget i)
  then obtain p where "find (\<lambda>p. mo_id p = i) (cc_profiles cfg) = Some p" "mo_status p \<noteq> Archived"
    using assms by (auto simp: target_ok_def)
  then show ?thesis using ProfileTarget
    by (auto simp: resolve_target_def normalize_idem bind_eq_Some_conv split: option.splits)
qed

lemma resolve_chain_ok:
  "list_all (target_ok (cc_profiles cfg)) ts \<Longrightarrow> rank + length ts \<le> 3 \<Longrightarrow>
   \<exists>rs. resolve_chain cfg (Some cx) rank ts = Inr rs \<and> length rs \<le> length ts \<and>
     list_all (\<lambda>t. normalize_model_name (rt_route_model t) = Some (rt_route_model t) \<and>
       rank \<le> unat (rt_target_rank t) \<and> unat (rt_target_rank t) < rank + length ts) rs \<and>
     sorted_wrt (\<lambda>s t. unat (rt_target_rank s) < unat (rt_target_rank t)) rs"
proof (induction ts arbitrary: rank)
  case (Cons t ts)
  have "list_all (target_ok (cc_profiles cfg)) ts" "rank + 1 + length ts \<le> 3" using Cons.prems by auto
  from Cons.IH [OF this] obtain rs where rs: "resolve_chain cfg (Some cx) (rank + 1) ts = Inr rs" "length rs \<le> length ts"
    "list_all (\<lambda>t. normalize_model_name (rt_route_model t) = Some (rt_route_model t) \<and>
       rank + 1 \<le> unat (rt_target_rank t) \<and> unat (rt_target_rank t) < rank + 1 + length ts) rs"
    "sorted_wrt (\<lambda>s t. unat (rt_target_rank s) < unat (rt_target_rank t)) rs"
    by auto
  have rank: "unat (of_nat rank :: u16) = rank" using Cons.prems(2) by (intro unat_of_nat_lt) simp
  show ?case
  proof (cases "resolve_target cfg t (Some cx)")
    case (Inl e)
    then have "e = ProfileHasNoOffering" using resolve_target_ok [of cfg t cx] Cons.prems(1) by simp
    with Inl rs show ?thesis by (auto simp: list_all_iff)
  next
    case (Inr x)
    obtain m v q where x: "x = (m, v, q)" by (cases x)
    then have "normalize_model_name m = Some m" using resolve_target_ok [of cfg t cx] Cons.prems(1) Inr by simp
    with Inr x rs rank show ?thesis by (fastforce simp: list_all_iff)
  qed
qed simp

text \<open>The targets of a plan: valid model names in strictly increasing rank, none exactly when nothing is sent on.\<close>

definition plan_ok :: "CompiledConfiguration \<Rightarrow> ResolvedModelPlan \<Rightarrow> bool" where
  "plan_ok cfg plan \<longleftrightarrow>
     list_all (\<lambda>t. normalize_model_name (rt_route_model t) = Some (rt_route_model t)) (rp_target_models plan) \<and>
     sorted_wrt (\<lambda>s t. unat (rt_target_rank s) < unat (rt_target_rank t)) (rp_target_models plan) \<and>
     length (rp_target_models plan) \<le> 3 \<and>
     (rp_target_models plan = [] \<longleftrightarrow> rp_disposition plan = Bypass \<or> rp_disposition plan = Reject) \<and>
     (rp_disposition plan = Reject \<longleftrightarrow> rp_rejection_kind plan \<noteq> None) \<and>
     rp_model_resolution_fence plan = cc_model_resolution_fence cfg"

lemma resolve_action_ok:
  assumes "action_ok (cc_profiles cfg) (cr_action r)" "normalize_model_name m = Some m"
  shows "case resolve_action cfg m r (Some cx) of
      Inl e \<Rightarrow> e = ProfileHasNoOffering \<or> e = NoResolvedTargets
    | Inr plan \<Rightarrow> plan_ok cfg plan"
proof (cases "cr_action r")
  case (MapFixed t)
  then have "target_ok (cc_profiles cfg) t" using assms(1) by (simp add: action_ok_def action_targets_def)
  from resolve_target_ok [OF this, of cx] MapFixed show ?thesis
    by (auto simp: resolve_action_def plan_ok_def plan_base_def Let_def split: sum.splits prod.splits)
next
  case (MapFallbackChain ts f)
  then have "list_all (target_ok (cc_profiles cfg)) ts" "0 + length ts \<le> 3"
    using assms(1) by (auto simp: action_ok_def action_targets_def)
  from resolve_chain_ok [OF this, of cx] obtain rs where rs: "resolve_chain cfg (Some cx) 0 ts = Inr rs"
    "length rs \<le> 3" "list_all (\<lambda>t. normalize_model_name (rt_route_model t) = Some (rt_route_model t)) rs"
    "sorted_wrt (\<lambda>s t. unat (rt_target_rank s) < unat (rt_target_rank t)) rs"
    using \<open>0 + length ts \<le> 3\<close> by (auto simp: list_all_iff)
  then show ?thesis using MapFallbackChain
    by (auto simp: resolve_action_def plan_ok_def plan_base_def Let_def)
qed (use assms in \<open>auto simp: resolve_action_def plan_ok_def plan_base_def Let_def\<close>)

lemma candidate_resolution:
  assumes "compile_at_revision sha document n = Inr cfg"
  shows "case resolve_for_candidate cfg facts cx of
      Inl e \<Rightarrow> e = RequestedModelInvalid \<or> e = ProfileHasNoOffering \<or> e = NoResolvedTargets
    | Inr plan \<Rightarrow> plan_ok cfg plan"
proof -
  have cfg: "cc_profiles cfg = md_profiles document" "set (cc_rules cfg) = set (compile_rules document)"
    "document_diagnostics document = []"
    using assms by (auto simp: compile_Inr)
  show ?thesis
  proof (cases "is_mapping_bypass (mf_endpoint facts) \<or> mf_requested_model facts = None")
    case True
    then show ?thesis
      by (auto simp: resolve_for_candidate_def resolve_def plan_ok_def plan_base_def Let_def split: option.splits)
  next
    case False
    then obtain v where v: "mf_requested_model facts = Some v" by auto
    show ?thesis
    proof (cases "normalize_model_name v")
      case None
      then show ?thesis using False v by (simp add: resolve_for_candidate_def)
    next
      case (Some m)
      then have m: "normalize_model_name m = Some m" by (rule normalize_idem)
      show ?thesis
      proof (cases "find (\<lambda>r. rule_matches r m facts) (cc_rules cfg)")
        case None
        then show ?thesis using False v Some m
          by (auto simp: resolve_for_candidate_def resolve_def plan_ok_def plan_base_def Let_def
              split: UnmatchedModelBehavior.splits)
      next
        case r: (Some r)
        then have "r \<in> set (compile_rules document)" using find_Some_in_set cfg(2) by fastforce
        then have "action_ok (cc_profiles cfg) (cr_action r)" using compiled_actions_ok [OF cfg(3)] cfg(1) by simp
        from resolve_action_ok [OF this m, of cx] show ?thesis
          using False v Some r by (auto simp: resolve_for_candidate_def split: sum.splits)
      qed
    qed
  qed
qed

text \<open>
  C35: Resolution for a candidate on a compiled configuration. It fails only on an invalid requested
  name or when no profile of the rule has an offering for the candidate, never because a profile is
  missing or a context is needed. A plan has at most three targets, each a valid normalized model
  name, in strictly increasing rank; it has none exactly when the request bypasses mapping or is
  rejected; and it carries the fence of the configuration.
\<close>
theorem candidate_resolution_ok:
  assumes "compile_at_revision sha document n = Inr cfg"
  shows "case resolve_for_candidate cfg facts cx of
      Inl e \<Rightarrow> e = RequestedModelInvalid \<or> e = ProfileHasNoOffering \<or> e = NoResolvedTargets
    | Inr plan \<Rightarrow> plan_ok cfg plan"
  by (rule candidate_resolution [OF assms])

lemma example_resolution:
  "\<exists>cfg plan. compile_at_revision id (example_document [all_source, codex_source]) 8 = Inr cfg \<and>
     resolve_for_candidate cfg example_facts example_candidate = Inr plan \<and>
     map rt_route_model (rp_target_models plan) = [''deepseek-v4'']"
proof -
  obtain cfg where cfg: "compile_at_revision id (example_document [all_source, codex_source]) 8 = Inr cfg"
    "cc_rules cfg = [codex_rule, default_rule]"
    using example_configuration by blast
  have "rule_matches codex_rule ''codex-5.4'' example_facts"
    by (simp add: rule_matches_def conditions_match_def no_conditions_def codex_rule_def requirement_matches_def)
  then show ?thesis
    using cfg example_requested
    by (simp add: resolve_for_candidate_def example_facts_def is_mapping_bypass_def resolve_action_def Let_def
        codex_rule_def resolve_target_def plan_base_def)
qed

theorem candidate_resolution_ok_witness:
  "\<exists>cfg plan. compile_at_revision id (example_document [all_source, codex_source]) 8 = Inr cfg \<and>
     resolve_for_candidate cfg example_facts example_candidate = Inr plan \<and>
     map rt_route_model (rp_target_models plan) = [''deepseek-v4''] \<and> plan_ok cfg plan"
proof -
  obtain cfg plan where c: "compile_at_revision id (example_document [all_source, codex_source]) 8 = Inr cfg"
    "resolve_for_candidate cfg example_facts example_candidate = Inr plan"
    "map rt_route_model (rp_target_models plan) = [''deepseek-v4'']"
    using example_resolution by (elim exE conjE) (rule that)
  with candidate_resolution_ok [OF c(1), of example_facts example_candidate] show ?thesis by auto
qed

section \<open>Duplicate targets\<close>

text \<open>
  The duplicate check of a fallback chain compares the names as written, the compiled chain holds
  the trimmed names: a chain of one model and the same model with a leading space passes the check.
\<close>

lemma duplicate_target_not_reported:
  "validate_one_rule_targets [] (0, codex_source\<lparr>mr_action :=
     MapFallbackChain [LiteralTarget ''codex-5.4'', LiteralTarget '' codex-5.4''] NoEligibleTarget\<rparr>) = []"
  "compile_action rule_id path (MapFallbackChain [LiteralTarget ''codex-5.4'', LiteralTarget '' codex-5.4''] NoEligibleTarget) =
     ([], MapFallbackChain [LiteralTarget ''codex-5.4'', LiteralTarget ''codex-5.4''] NoEligibleTarget)"
  by (simp_all add: validate_one_rule_targets_def action_targets_def MAX_TARGETS_PER_RULE_def
      target_reference_diagnostics_def compile_action_def compile_target_def example_names example_requested)

section \<open>Variants of a candidate\<close>

lemma same_variant_target:
  "same_variant (candidate_variant plan cx s) (candidate_variant plan cx t) \<longleftrightarrow> rt_route_model s = rt_route_model t"
  by (simp add: same_variant_def candidate_variant_def)

definition add_variant ::
  "ResolvedModelPlan \<Rightarrow> CandidateResolutionContext \<Rightarrow> CandidateModelVariant list \<Rightarrow> ResolvedTarget \<Rightarrow> CandidateModelVariant list" where
  "add_variant plan cx variants target =
     (if list_ex (\<lambda>existing. same_variant existing (candidate_variant plan cx target)) variants then variants
      else variants @ [candidate_variant plan cx target])"

lemma resolved_variants_fold: "resolved_variants plan cx = foldl (add_variant plan cx) [] (rp_target_models plan)"
  by (simp add: resolved_variants_def add_variant_def [abs_def] Let_def)

text \<open>The first target of every model survives.\<close>

lemma foldl_add_variant:
  "\<exists>ts. foldl (add_variant plan cx) [] targets = map (candidate_variant plan cx) ts \<and> set ts \<subseteq> set targets \<and>
     distinct (map rt_route_model ts) \<and>
     (\<forall>i < length targets. \<exists>j \<le> i. targets ! j \<in> set ts \<and> rt_route_model (targets ! j) = rt_route_model (targets ! i))"
proof (induction targets rule: rev_induct)
  case (snoc t targets)
  then obtain ts where ts: "foldl (add_variant plan cx) [] targets = map (candidate_variant plan cx) ts"
    "set ts \<subseteq> set targets" "distinct (map rt_route_model ts)"
    "\<forall>i < length targets. \<exists>j \<le> i. targets ! j \<in> set ts \<and> rt_route_model (targets ! j) = rt_route_model (targets ! i)"
    by blast
  show ?case
  proof (cases "rt_route_model t \<in> set (map rt_route_model ts)")
    case True
    then obtain k where k: "k < length targets" "targets ! k \<in> set ts" "rt_route_model (targets ! k) = rt_route_model t"
      using ts(2) by (auto simp: in_set_conv_nth) (metis in_set_conv_nth nth_mem subsetD)
    have "\<exists>j \<le> i. (targets @ [t]) ! j \<in> set ts \<and> rt_route_model ((targets @ [t]) ! j) = rt_route_model ((targets @ [t]) ! i)"
      if "i < length (targets @ [t])" for i
    proof (cases "i < length targets")
      case True
      then obtain j where "j \<le> i" "targets ! j \<in> set ts" "rt_route_model (targets ! j) = rt_route_model (targets ! i)"
        using ts(4) by blast
      then show ?thesis using True by (intro exI [of _ j]) (simp add: nth_append)
    next
      case False
      then show ?thesis using that k by (intro exI [of _ k]) (simp add: nth_append)
    qed
    moreover have "foldl (add_variant plan cx) [] (targets @ [t]) = map (candidate_variant plan cx) ts"
      using True by (auto simp: ts(1) add_variant_def list_ex_iff same_variant_target)
    ultimately show ?thesis using ts(2,3) by fastforce
  next
    case False
    have "\<exists>j \<le> i. (targets @ [t]) ! j \<in> set (ts @ [t]) \<and>
        rt_route_model ((targets @ [t]) ! j) = rt_route_model ((targets @ [t]) ! i)"
      if "i < length (targets @ [t])" for i
    proof (cases "i < length targets")
      case True
      then obtain j where "j \<le> i" "targets ! j \<in> set ts" "rt_route_model (targets ! j) = rt_route_model (targets ! i)"
        using ts(4) by blast
      then show ?thesis using True by (intro exI [of _ j]) (simp add: nth_append)
    next
      case False
      then show ?thesis using that by (intro exI [of _ i]) (simp add: nth_append)
    qed
    moreover have "foldl (add_variant plan cx) [] (targets @ [t]) = map (candidate_variant plan cx) (ts @ [t])"
      using False by (auto simp: ts(1) add_variant_def list_ex_iff same_variant_target) (metis imageI)
    ultimately show ?thesis using ts(2,3) False by (intro exI [of _ "ts @ [t]"]) auto
  qed
qed simp

text \<open>
  What the resolver hands to the planner. For a candidate of a compiled configuration the
  variants have pairwise different identity keys, and every target of the plan is represented by a
  variant of the same model whose rank is not worse.
\<close>
theorem resolved_variants_distinct:
  assumes "compile_at_revision sha document n = Inr cfg"
    and "resolve_for_candidate cfg facts cx = Inr plan"
    and "unit_separator \<notin> set (cx_station_key_id cx)"
    and "list_all (\<lambda>t. unit_separator \<notin> set (rt_route_model t)) (rp_target_models plan)"
  shows "distinct (map identity_key (resolved_variants plan cx)) \<and>
    list_all (\<lambda>t. list_ex (\<lambda>v. mv_upstream_model v = rt_route_model t \<and> mv_target_rank v \<le> rt_target_rank t)
      (resolved_variants plan cx)) (rp_target_models plan)"
proof -
  let ?T = "rp_target_models plan"
  obtain ts where ts: "resolved_variants plan cx = map (candidate_variant plan cx) ts" "set ts \<subseteq> set ?T"
    "distinct (map rt_route_model ts)"
    "\<forall>i < length ?T. \<exists>j \<le> i. ?T ! j \<in> set ts \<and> rt_route_model (?T ! j) = rt_route_model (?T ! i)"
    using foldl_add_variant [of plan cx ?T] unfolding resolved_variants_fold by blast
  have sorted: "sorted_wrt (\<lambda>s t. unat (rt_target_rank s) < unat (rt_target_rank t)) ?T"
    using candidate_resolution [OF assms(1), of facts cx] assms(2) by (simp add: plan_ok_def)
  have "identity_key (candidate_variant plan cx s) = identity_key (candidate_variant plan cx t) \<longleftrightarrow>
      rt_route_model s = rt_route_model t" if "s \<in> set ts" "t \<in> set ts" for s t
    unfolding same_variant_target [of plan cx, symmetric]
    using that ts(2) assms(3,4)
    by (intro identity_key_exact) (auto simp: candidate_variant_def list_all_iff)
  then have "distinct (map identity_key (resolved_variants plan cx))"
    using ts(1,3) by (auto simp: distinct_map inj_on_def)
  moreover have "list_ex (\<lambda>v. mv_upstream_model v = rt_route_model (?T ! i) \<and> mv_target_rank v \<le> rt_target_rank (?T ! i))
      (resolved_variants plan cx)" if i: "i < length ?T" for i
  proof -
    obtain j where j: "j \<le> i" "?T ! j \<in> set ts" "rt_route_model (?T ! j) = rt_route_model (?T ! i)" using ts(4) i by blast
    have "rt_target_rank (?T ! j) \<le> rt_target_rank (?T ! i)"
      using sorted_wrt_nth_less [OF sorted, of j i] j(1) i by (cases "j = i") (auto simp: word_le_nat_alt)
    with j show ?thesis by (auto simp: ts(1) list_ex_iff candidate_variant_def)
  qed
  ultimately show ?thesis by (auto simp: list_all_iff in_set_conv_nth)
qed

theorem resolved_variants_distinct_witness:
  "\<exists>cfg plan. compile_at_revision id (example_document [all_source, codex_source]) 8 = Inr cfg \<and>
     resolve_for_candidate cfg example_facts example_candidate = Inr plan \<and>
     distinct (map identity_key (resolved_variants plan example_candidate))"
proof -
  obtain cfg plan where c: "compile_at_revision id (example_document [all_source, codex_source]) 8 = Inr cfg"
    "resolve_for_candidate cfg example_facts example_candidate = Inr plan"
    "map rt_route_model (rp_target_models plan) = [''deepseek-v4'']"
    using example_resolution by (elim exE conjE) (rule that)
  have "unit_separator \<notin> set (cx_station_key_id example_candidate)"
    by (simp add: example_candidate_def unit_separator_def byte_def char_of_def bit_iff_odd)
  moreover have "list_all (\<lambda>t. unit_separator \<notin> set (rt_route_model t)) (rp_target_models plan)"
    using c(3) by (auto simp: map_eq_Cons_conv unit_separator_def byte_def char_of_def bit_iff_odd)
  ultimately show ?thesis using resolved_variants_distinct [OF c(1,2)] c by blast
qed

end
