(* ===== verification/Sse.thy ===== *)
theory Sse
  imports Utf8 Machine
begin

text \<open>
  The incremental Server-Sent Events framer (\<^verbatim>\<open>protocol_streaming/sse.rs\<close>): boundary search,
  event parsing and the decoder that is fed network chunks. The decoder is proved to refine the
  framing of the whole byte stream, however it is cut into chunks.
\<close>

section \<open>Limits and errors\<close>

record SseLimits =
  sl_max_pending_event_bytes :: nat
  sl_max_total_stream_bytes :: nat
  sl_max_sse_events :: nat

definition sse_limits_default :: SseLimits where
  "sse_limits_default = \<lparr>sl_max_pending_event_bytes = 64 * 1024,
     sl_max_total_stream_bytes = 2 * 1024 * 1024, sl_max_sse_events = 4096\<rparr>"

datatype StreamError =
    ResponseBodyLimit | SseEventLimit | SseEventTooLarge | InvalidSseUtf8 | InvalidSseFraming
  | InvalidEventJson | UnexpectedContentType | MissingTerminalEvent | UpstreamFailedEvent
  | UpstreamIncompleteEvent | ContentValidationFailed | OutputLimit

fun stream_error_code :: "StreamError \<Rightarrow> string" where
  "stream_error_code ResponseBodyLimit = ''response_body_limit''"
| "stream_error_code SseEventLimit = ''sse_event_limit''"
| "stream_error_code SseEventTooLarge = ''sse_event_too_large''"
| "stream_error_code InvalidSseUtf8 = ''invalid_sse_utf8''"
| "stream_error_code InvalidSseFraming = ''invalid_sse_framing''"
| "stream_error_code InvalidEventJson = ''invalid_event_json''"
| "stream_error_code UnexpectedContentType = ''unexpected_content_type''"
| "stream_error_code MissingTerminalEvent = ''missing_terminal_event''"
| "stream_error_code UpstreamFailedEvent = ''upstream_failed_event''"
| "stream_error_code UpstreamIncompleteEvent = ''upstream_incomplete_event''"
| "stream_error_code ContentValidationFailed = ''content_validation_failed''"
| "stream_error_code OutputLimit = ''output_limit''"

text \<open>An event is its data; stream statistics count in \<^verbatim>\<open>usize\<close> with saturation.\<close>

record SseEvent =
  ev_data :: string

record SseStreamStats =
  ss_total_stream_bytes :: nat
  ss_event_count :: nat
  ss_max_pending_event_bytes :: nat

definition usize_sat_add :: "nat \<Rightarrow> nat \<Rightarrow> nat" where
  "usize_sat_add a b = min (a + b) (2 ^ 64 - 1)"

section \<open>Framing\<close>

definition LF :: char where "LF = CHR 0x0A"
definition CR :: char where "CR = CHR 0x0D"

text \<open>The length of the first event and of the separator after it.\<close>

fun find_event_boundary :: "string \<Rightarrow> (nat \<times> nat) option" where
  "find_event_boundary [] = None"
| "find_event_boundary (b # bs) =
     (if starts_with (b # bs) [LF, LF] then Some (0, 2)
      else if starts_with (b # bs) [CR, LF, CR, LF] then Some (0, 4)
      else map_option (\<lambda>(e, s). (e + 1, s)) (find_event_boundary bs))"

text \<open>\<^verbatim>\<open>split('\n')\<close>\<close>

fun split_lines :: "string \<Rightarrow> string list" where
  "split_lines [] = [[]]"
| "split_lines (b # bs) =
     (if b = LF then [] # split_lines bs
      else (case split_lines bs of [] \<Rightarrow> [[b]] | l # ls \<Rightarrow> (b # l) # ls))"

definition strip_line :: "string \<Rightarrow> StreamError + string" where
  "strip_line raw_line =
     (if raw_line \<noteq> [] \<and> last raw_line = CR then Inr (butlast raw_line)
      else if CR \<in> set raw_line then Inl InvalidSseFraming
      else Inr raw_line)"

text \<open>\<^verbatim>\<open>split_once(':').unwrap_or((line, ""))\<close>\<close>

definition split_field :: "string \<Rightarrow> string \<times> string" where
  "split_field line =
     (takeWhile (\<lambda>c. c \<noteq> CHR '':'') line, drop 1 (dropWhile (\<lambda>c. c \<noteq> CHR '':'') line))"

fun collect_data :: "string list \<Rightarrow> StreamError + string list" where
  "collect_data [] = Inr []"
| "collect_data (raw_line # rest) =
     rbind (strip_line raw_line) (\<lambda>line.
       if line = [] \<or> hd line = CHR '':'' then collect_data rest
       else let (field, v) = split_field line in
         if field = ''data''
         then rbind (collect_data rest) (\<lambda>ds. Inr ((if v \<noteq> [] \<and> hd v = CHR '' '' then tl v else v) # ds))
         else collect_data rest)"

fun join_lines :: "string list \<Rightarrow> string" where
  "join_lines [] = []"
| "join_lines [l] = l"
| "join_lines (l # ls) = l @ LF # join_lines ls"

definition parse_event :: "string \<Rightarrow> StreamError + SseEvent option" where
  "parse_event bytes =
     (if utf8_chars bytes = None then Inl InvalidSseUtf8
      else rbind (collect_data (split_lines bytes)) (\<lambda>data_lines.
        Inr (if data_lines = [] then None else Some \<lparr>ev_data = join_lines data_lines\<rparr>)))"

section \<open>The decoder\<close>

record SseDecoder =
  sd_limits :: SseLimits
  sd_pending :: string
  sd_stats :: SseStreamStats
  sd_failure :: "StreamError option"

definition decoder_new :: "SseLimits \<Rightarrow> SseDecoder" where
  "decoder_new limits = \<lparr>sd_limits = limits, sd_pending = [],
     sd_stats = \<lparr>ss_total_stream_bytes = 0, ss_event_count = 0, ss_max_pending_event_bytes = 0\<rparr>,
     sd_failure = None\<rparr>"

definition decoder_fail :: "SseDecoder \<Rightarrow> StreamError \<Rightarrow> SseDecoder" where
  "decoder_fail d e = d\<lparr>sd_pending := [], sd_failure := Some e\<rparr>"

definition set_event_count :: "SseDecoder \<Rightarrow> nat \<Rightarrow> SseDecoder" where
  "set_event_count d n = d\<lparr>sd_stats := (sd_stats d)\<lparr>ss_event_count := n\<rparr>\<rparr>"

lemma boundary_progress: "find_event_boundary bs = Some (e, s) \<Longrightarrow> 0 < s \<and> e + s \<le> length bs"
proof (induction bs arbitrary: e s)
  case (Cons b bs)
  show ?case
  proof (cases "starts_with (b # bs) [LF, LF] \<or> starts_with (b # bs) [CR, LF, CR, LF]")
    case True
    with Cons.prems show ?thesis by (auto simp: starts_with_iff split: if_splits)
  next
    case False
    with Cons.prems obtain e' where "find_event_boundary bs = Some (e', s)" "e = e' + 1" by auto
    with Cons.IH show ?thesis by fastforce
  qed
qed simp

text \<open>
  The loop over the complete events: the events, the bytes that are left and the event count, or
  the error with the seen at that point.
\<close>

function push_loop ::
  "SseLimits \<Rightarrow> string \<Rightarrow> nat \<Rightarrow> SseEvent list \<Rightarrow> (StreamError + (SseEvent list \<times> string)) \<times> nat" where
  "push_loop limits bytes seen events =
     (case find_event_boundary bytes of
        None \<Rightarrow> (Inr (events, bytes), seen)
      | Some (event_len, separator_len) \<Rightarrow>
        if event_len > sl_max_pending_event_bytes limits then (Inl SseEventTooLarge, seen)
        else (case parse_event (take event_len bytes) of
          Inl e \<Rightarrow> (Inl e, seen)
        | Inr None \<Rightarrow> push_loop limits (drop (event_len + separator_len) bytes) seen events
        | Inr (Some ev) \<Rightarrow>
          let counted = usize_sat_add seen 1 in
          if counted > sl_max_sse_events limits then (Inl SseEventLimit, counted)
          else push_loop limits (drop (event_len + separator_len) bytes) counted (events @ [ev])))"
  by pat_completeness auto

termination
  by (relation "measure (\<lambda>(_, bytes, _, _). length bytes)") (auto dest: boundary_progress)

declare push_loop.simps [simp del]

definition push :: "SseDecoder \<Rightarrow> string \<Rightarrow> (StreamError + SseEvent list) \<times> SseDecoder" where
  "push d chunk =
     (case sd_failure d of
        Some failure \<Rightarrow> (Inl failure, d)
      | None \<Rightarrow>
        let d1 = d\<lparr>sd_stats := (sd_stats d)\<lparr>ss_total_stream_bytes :=
              usize_sat_add (ss_total_stream_bytes (sd_stats d)) (length chunk)\<rparr>\<rparr> in
        if ss_total_stream_bytes (sd_stats d1) > sl_max_total_stream_bytes (sd_limits d)
        then (Inl ResponseBodyLimit, decoder_fail d1 ResponseBodyLimit)
        else (case push_loop (sd_limits d) (sd_pending d @ chunk) (ss_event_count (sd_stats d)) [] of
          (Inl e, n) \<Rightarrow> (Inl e, decoder_fail (set_event_count d1 n) e)
        | (Inr (events, rest), n) \<Rightarrow>
          let d2 = set_event_count d1 n;
              d3 = d2\<lparr>sd_pending := rest, sd_stats := (sd_stats d2)\<lparr>ss_max_pending_event_bytes :=
                max (ss_max_pending_event_bytes (sd_stats d2)) (length rest)\<rparr>\<rparr>
          in if length rest > sl_max_pending_event_bytes (sd_limits d)
             then (Inl SseEventTooLarge, decoder_fail d3 SseEventTooLarge)
             else (Inr events, d3)))"

definition sse_finish :: "SseDecoder \<Rightarrow> (StreamError + SseEvent list) \<times> SseDecoder" where
  "sse_finish d =
     (case sd_failure d of
        Some failure \<Rightarrow> (Inl failure, d)
      | None \<Rightarrow>
        if sd_pending d = [] then (Inr [], d)
        else if last (sd_pending d) \<noteq> LF then (Inl InvalidSseFraming, decoder_fail d InvalidSseFraming)
        else let d1 = d\<lparr>sd_pending := []\<rparr> in
          (case parse_event (sd_pending d) of
             Inl e \<Rightarrow> (Inl e, decoder_fail d1 e)
           | Inr None \<Rightarrow> (Inr [], d1)
           | Inr (Some ev) \<Rightarrow>
             let n = usize_sat_add (ss_event_count (sd_stats d1)) 1; d2 = set_event_count d1 n in
             if n > sl_max_sse_events (sd_limits d) then (Inl SseEventLimit, decoder_fail d2 SseEventLimit)
             else (Inr [ev], d2)))"

section \<open>Boundaries and appended bytes\<close>

lemma starts_with_append: "starts_with bs p \<Longrightarrow> starts_with (bs @ cs) p"
  by (auto simp: starts_with_iff)

lemma boundary_append: "find_event_boundary bs = Some x \<Longrightarrow> find_event_boundary (bs @ cs) = Some x"
proof (induction bs arbitrary: x)
  case (Cons b bs)
  show ?case
  proof (cases "starts_with (b # bs) [LF, LF] \<or> starts_with (b # bs) [CR, LF, CR, LF]")
    case True
    then have "starts_with (b # (bs @ cs)) [LF, LF] \<or> starts_with (b # (bs @ cs)) [CR, LF, CR, LF]"
      using starts_with_append [of "b # bs"] by auto
    with True Cons.prems show ?thesis
      by (auto simp: starts_with_def LF_def CR_def split: if_splits)
  next
    case False
    with Cons.prems obtain y where y: "find_event_boundary bs = Some y" by auto
    have "\<not> starts_with (b # (bs @ cs)) [LF, LF]"
      using False y by (cases bs) (auto simp: starts_with_def)
    moreover have "\<not> starts_with (b # (bs @ cs)) [CR, LF, CR, LF]"
    proof
      assume s: "starts_with (b # (bs @ cs)) [CR, LF, CR, LF]"
      have "length bs < 3"
      proof (rule ccontr)
        assume "\<not> length bs < 3"
        with s have "starts_with (b # bs) [CR, LF, CR, LF]" by (auto simp: starts_with_def)
        with False show False by simp
      qed
      then have "bs = [] \<or> (\<exists>c. bs = [c]) \<or> (\<exists>c d. bs = [c, d])"
        by (cases bs; cases "tl bs"; cases "tl (tl bs)") auto
      with s y show False by (auto simp: starts_with_def LF_def CR_def)
    qed
    ultimately show ?thesis using False Cons by auto
  qed
qed simp

section \<open>The frames of a whole stream\<close>

text \<open>
  The specification: cut the stream at every boundary, parse every frame and keep the events that
  carry data. What follows the last boundary is not framed yet.
\<close>

function frames :: "string \<Rightarrow> string list \<times> string" where
  "frames bytes =
     (case find_event_boundary bytes of
        None \<Rightarrow> ([], bytes)
      | Some (e, s) \<Rightarrow> (take e bytes # fst (frames (drop (e + s) bytes)), snd (frames (drop (e + s) bytes))))"
  by pat_completeness auto

termination
  by (relation "measure length") (auto dest: boundary_progress)

declare frames.simps [simp del]

lemma frames_None: "find_event_boundary bs = None \<Longrightarrow> frames bs = ([], bs)"
  by (simp add: frames.simps)

lemma frames_Some: "find_event_boundary bs = Some (e, s) \<Longrightarrow>
   frames bs = (take e bs # fst (frames (drop (e + s) bs)), snd (frames (drop (e + s) bs)))"
  by (subst frames.simps) simp

lemma frames_Nil [simp]: "frames [] = ([], [])"
  by (simp add: frames_None)

lemma frames_append:
  "frames (bs @ cs) =
     (fst (frames bs) @ fst (frames (snd (frames bs) @ cs)), snd (frames (snd (frames bs) @ cs)))"
proof (induction bs rule: frames.induct)
  case (1 bs)
  show ?case
  proof (cases "find_event_boundary bs")
    case None
    then show ?thesis by (simp add: frames_None)
  next
    case (Some x)
    obtain e s where x: "x = (e, s)" by (cases x)
    have fit: "e + s \<le> length bs" using boundary_progress Some x by blast
    have app: "find_event_boundary (bs @ cs) = Some (e, s)" using boundary_append Some x by blast
    have IH: "frames (drop (e + s) bs @ cs) =
       (fst (frames (drop (e + s) bs)) @ fst (frames (snd (frames (drop (e + s) bs)) @ cs)),
        snd (frames (snd (frames (drop (e + s) bs)) @ cs)))"
      using 1 [OF Some x [symmetric]] by simp
    show ?thesis
      using IH fit Some x by (simp add: frames_Some [OF app] frames_Some [of bs])
  qed
qed

fun frame_events :: "string list \<Rightarrow> StreamError + SseEvent list" where
  "frame_events [] = Inr []"
| "frame_events (f # fs) =
     rbind (parse_event f) (\<lambda>ev. rbind (frame_events fs) (\<lambda>es.
       Inr (case ev of None \<Rightarrow> es | Some e \<Rightarrow> e # es)))"

lemma frame_events_append:
  "frame_events (fs @ gs) = rbind (frame_events fs) (\<lambda>es. rbind (frame_events gs) (\<lambda>es'. Inr (es @ es')))"
proof (induction fs)
  case Nil
  show ?case by (cases "frame_events gs") auto
next
  case (Cons f fs)
  show ?case
    by (cases "parse_event f"; cases "frame_events fs"; cases "frame_events gs")
       (auto simp: Cons.IH split: option.splits)
qed

text \<open>A stream with the events \<open>es\<close> that keeps every limit.\<close>

definition stream_ok :: "SseLimits \<Rightarrow> string \<Rightarrow> SseEvent list \<Rightarrow> bool" where
  "stream_ok L bytes es \<longleftrightarrow>
     length bytes \<le> sl_max_total_stream_bytes L \<and>
     list_all (\<lambda>f. length f \<le> sl_max_pending_event_bytes L) (fst (frames bytes)) \<and>
     frame_events (fst (frames bytes)) = Inr es \<and>
     length es \<le> sl_max_sse_events L \<and>
     length (snd (frames bytes)) \<le> sl_max_pending_event_bytes L"

text \<open>Limits whose excess a saturating \<^verbatim>\<open>usize\<close> counter can show.\<close>

definition limits_ok :: "SseLimits \<Rightarrow> bool" where
  "limits_ok L \<longleftrightarrow> sl_max_total_stream_bytes L < 2 ^ 64 - 1 \<and> sl_max_sse_events L < 2 ^ 64 - 1"

lemma sat_le: "m < 2 ^ 64 - 1 \<Longrightarrow> (m < usize_sat_add a b) = (m < a + b)"
  by (simp add: usize_sat_add_def)

lemma sat_eq: "m < 2 ^ 64 - 1 \<Longrightarrow> a + b \<le> m \<Longrightarrow> usize_sat_add a b = a + b"
  by (simp add: usize_sat_add_def)

lemma push_loop_spec:
  assumes "sl_max_sse_events L < 2 ^ 64 - 1" "n \<le> sl_max_sse_events L"
  shows "push_loop L bs n evs = (Inr (out, r), m) \<longleftrightarrow>
     list_all (\<lambda>f. length f \<le> sl_max_pending_event_bytes L) (fst (frames bs)) \<and>
     r = snd (frames bs) \<and>
     (\<exists>es. frame_events (fst (frames bs)) = Inr es \<and> out = evs @ es \<and> m = n + length es \<and>
        n + length es \<le> sl_max_sse_events L)"
  using assms
proof (induction L bs n evs rule: push_loop.induct)
  case (1 L bs n evs)
  show ?case
  proof (cases "find_event_boundary bs")
    case None
    then show ?thesis using "1.prems" by (subst push_loop.simps) (auto simp: frames_None)
  next
    case (Some x)
    obtain e s where x: "x = (e, s)" by (cases x)
    note b = Some [unfolded x]
    have len: "min (length bs) e = e" using boundary_progress [OF b] by simp
    show ?thesis
    proof (cases "e > sl_max_pending_event_bytes L")
      case True
      then show ?thesis by (subst push_loop.simps) (simp add: b frames_Some len)
    next
      case small: False
      show ?thesis
      proof (cases "parse_event (take e bs)")
        case (Inl err)
        then show ?thesis using small by (subst push_loop.simps) (simp add: b frames_Some)
      next
        case (Inr ev)
        show ?thesis
        proof (cases ev)
          case None
          from "1.IH"(1) [OF Some x [symmetric] small Inr None "1.prems"] None Inr small
          show ?thesis
            by (subst push_loop.simps) (auto simp: b frames_Some len rbind_Inr_iff)
        next
          case (Some v)
          show ?thesis
          proof (cases "n + 1 > sl_max_sse_events L")
            case True
            then show ?thesis using small Inr Some sat_le [OF "1.prems"(1)]
              by (subst push_loop.simps) (auto simp: b frames_Some len rbind_Inr_iff Let_def)
          next
            case False
            have sat: "usize_sat_add n 1 = n + 1" using sat_eq "1.prems" False by simp
            from "1.IH"(2) [OF b refl small Inr Some sat [symmetric] False "1.prems"(1)] False sat
            show ?thesis using small Inr Some
              by (subst push_loop.simps) (auto simp: b frames_Some len rbind_Inr_iff Let_def)
          qed
        qed
      qed
    qed
  qed
qed

section \<open>The decoder refines the specification\<close>

text \<open>A decoder that has accepted the bytes \<open>bytes\<close> and returned the events \<open>es\<close>.\<close>

definition framed :: "SseLimits \<Rightarrow> string \<Rightarrow> SseEvent list \<Rightarrow> SseDecoder \<Rightarrow> bool" where
  "framed L bytes es d \<longleftrightarrow> stream_ok L bytes es \<and> sd_limits d = L \<and> sd_failure d = None \<and>
     sd_pending d = snd (frames bytes) \<and> ss_total_stream_bytes (sd_stats d) = length bytes \<and>
     ss_event_count (sd_stats d) = length es"

lemma framed_new: "framed L [] [] (decoder_new L)"
  by (simp add: framed_def stream_ok_def decoder_new_def)

lemma stream_ok_append:
  "stream_ok L bytes es \<Longrightarrow> stream_ok L (bytes @ c) es' \<Longrightarrow> \<exists>new. es' = es @ new"
  by (auto simp: stream_ok_def frames_append [of bytes] frame_events_append rbind_Inr_iff)

lemma push_Inr_ok:
  assumes L: "limits_ok L" and f: "framed L bytes es d" and p: "push d c = (Inr new, d')"
  shows "framed L (bytes @ c) (es @ new) d'"
proof -
  have tot: "(sl_max_total_stream_bytes L < usize_sat_add (length bytes) (length c)) =
      (sl_max_total_stream_bytes L < length bytes + length c)"
    using L sat_le by (simp add: limits_ok_def)
  obtain r m where loop: "push_loop L (snd (frames bytes) @ c) (length es) [] = (Inr (new, r), m)"
    and le: "length bytes + length c \<le> sl_max_total_stream_bytes L" "length r \<le> sl_max_pending_event_bytes L"
    and d': "d' = d\<lparr>sd_pending := r, sd_stats := \<lparr>ss_total_stream_bytes = usize_sat_add (length bytes) (length c),
        ss_event_count = m, ss_max_pending_event_bytes = max (ss_max_pending_event_bytes (sd_stats d)) (length r)\<rparr>\<rparr>"
    using p f tot by (auto simp: push_def framed_def Let_def set_event_count_def
        split: if_splits prod.splits sum.splits)
  have "length es \<le> sl_max_sse_events L" using f by (simp add: framed_def stream_ok_def)
  from loop push_loop_spec [THEN iffD1, OF _ this loop] L f
  have "list_all (\<lambda>f. length f \<le> sl_max_pending_event_bytes L) (fst (frames (snd (frames bytes) @ c)))"
    "r = snd (frames (snd (frames bytes) @ c))" "frame_events (fst (frames (snd (frames bytes) @ c))) = Inr new"
    "m = length es + length new" "length es + length new \<le> sl_max_sse_events L"
    by (auto simp: limits_ok_def)
  moreover have "usize_sat_add (length bytes) (length c) = length bytes + length c"
    using L le sat_eq [of "sl_max_total_stream_bytes L"] by (simp add: limits_ok_def)
  ultimately show ?thesis
    using f le by (simp add: d' framed_def stream_ok_def frames_append [of bytes] frame_events_append)
qed

lemma push_ok_Inr:
  assumes L: "limits_ok L" and f: "framed L bytes es d" and ok: "stream_ok L (bytes @ c) (es @ new)"
  shows "\<exists>d'. push d c = (Inr new, d')"
proof -
  have n: "length es \<le> sl_max_sse_events L" using f by (simp add: framed_def stream_ok_def)
  have "push_loop L (snd (frames bytes) @ c) (length es) [] =
      (Inr (new, snd (frames (snd (frames bytes) @ c))), length es + length new)"
    using push_loop_spec [THEN iffD2, OF _ n] ok f L
    by (auto simp: limits_ok_def framed_def stream_ok_def frames_append [of bytes] frame_events_append rbind_Inr_iff)
  moreover have "usize_sat_add (length bytes) (length c) = length bytes + length c"
    "length bytes + length c \<le> sl_max_total_stream_bytes L"
    using sat_eq [of "sl_max_total_stream_bytes L"] L ok by (auto simp: limits_ok_def stream_ok_def)
  moreover have "length (snd (frames (snd (frames bytes) @ c))) \<le> sl_max_pending_event_bytes L"
    using ok by (simp add: stream_ok_def frames_append [of bytes])
  ultimately show ?thesis using f by (simp add: push_def framed_def Let_def set_event_count_def)
qed

text \<open>A client that feeds chunks until one is refused, as the stream readers do.\<close>

fun push_all :: "SseDecoder \<Rightarrow> string list \<Rightarrow> (StreamError + SseEvent list) \<times> SseDecoder" where
  "push_all d [] = (Inr [], d)"
| "push_all d (c # cs) =
     (case push d c of
        (Inl e, d') \<Rightarrow> (Inl e, d')
      | (Inr evs, d') \<Rightarrow> (case push_all d' cs of
          (Inl e, d'') \<Rightarrow> (Inl e, d'')
        | (Inr evs', d'') \<Rightarrow> (Inr (evs @ evs'), d'')))"

lemma push_all_ok:
  assumes "limits_ok L"
  shows "framed L bytes es d \<Longrightarrow> push_all d cs = (Inr new, d') \<Longrightarrow>
     framed L (bytes @ concat cs) (es @ new) d' \<and>
     (\<forall>k. \<exists>es'. stream_ok L (bytes @ concat (take k cs)) es')"
proof (induction cs arbitrary: bytes es d new)
  case Nil
  then show ?case by (auto simp: framed_def)
next
  case (Cons c cs)
  from Cons.prems(2) obtain d1 evs evs' where 1: "push d c = (Inr evs, d1)"
    "push_all d1 cs = (Inr evs', d')" "new = evs @ evs'"
    by (auto split: prod.splits sum.splits)
  have f1: "framed L (bytes @ c) (es @ evs) d1" by (rule push_Inr_ok [OF assms Cons.prems(1) 1(1)])
  have "\<exists>es'. stream_ok L (bytes @ concat (take k (c # cs))) es'" for k
    using Cons.prems(1) Cons.IH [OF f1 1(2)] by (cases k) (auto simp: framed_def)
  with Cons.IH [OF f1 1(2)] 1(3) show ?case by simp
qed

lemma push_all_complete:
  assumes "limits_ok L"
  shows "framed L bytes es d \<Longrightarrow> \<forall>k. \<exists>es'. stream_ok L (bytes @ concat (take k cs)) es' \<Longrightarrow>
     stream_ok L (bytes @ concat cs) (es @ new) \<Longrightarrow> \<exists>d'. push_all d cs = (Inr new, d')"
proof (induction cs arbitrary: bytes es d new)
  case Nil
  then show ?case by (auto simp: framed_def stream_ok_def)
next
  case (Cons c cs)
  have "\<exists>es'. stream_ok L (bytes @ concat (take 1 (c # cs))) es'" using Cons.prems(2) by blast
  then obtain evs where c: "stream_ok L (bytes @ c) (es @ evs)"
    using Cons.prems(1) stream_ok_append by (fastforce simp: framed_def)
  then obtain d1 where d1: "push d c = (Inr evs, d1)" using push_ok_Inr [OF assms Cons.prems(1)] by blast
  have f1: "framed L (bytes @ c) (es @ evs) d1" by (rule push_Inr_ok [OF assms Cons.prems(1) d1])
  obtain evs' where new: "new = evs @ evs'"
    using stream_ok_append [OF c, of "concat cs" "es @ new"] Cons.prems(3) by auto
  have "\<exists>es'. stream_ok L ((bytes @ c) @ concat (take k cs)) es'" for k
    using Cons.prems(2) [rule_format, of "Suc k"] by simp
  then obtain d' where "push_all d1 cs = (Inr evs', d')"
    using Cons.IH [OF f1, of evs'] Cons.prems(3) new by auto
  with d1 new show ?case by auto
qed

text \<open>
  C22: Decoding is independent of how the network cuts the stream. Feeding the chunks one by one
  succeeds with the events \<open>es\<close> if and only if these are the events of the whole stream, cut at
  every blank line and parsed frame by frame, and the part of the stream that has arrived after
  each chunk keeps the total, event-count and event-size limits.
\<close>
theorem sse_push_refines_framing:
  assumes "limits_ok L"
  shows "(\<exists>d. push_all (decoder_new L) chunks = (Inr es, d)) \<longleftrightarrow>
    stream_ok L (concat chunks) es \<and> (\<forall>k. \<exists>es'. stream_ok L (concat (take k chunks)) es')"
  using push_all_ok [OF assms framed_new, of chunks es] push_all_complete [OF assms framed_new, of chunks es]
  by (auto simp: framed_def)

text \<open>Two events cut in the middle of a separator, with a limit of 16 bytes per event.\<close>

definition example_limits :: SseLimits where
  "example_limits = \<lparr>sl_max_pending_event_bytes = 16, sl_max_total_stream_bytes = 64, sl_max_sse_events = 4\<rparr>"

lemmas sse_eval = push_def push_loop.simps parse_event_def strip_line_def split_field_def starts_with_def
  LF_def CR_def decoder_new_def decoder_fail_def set_event_count_def usize_sat_add_def example_limits_def Let_def
  sse_finish_def

theorem sse_push_refines_framing_witness:
  "stream_ok example_limits (concat [''data: a'' @ [LF], [LF] @ ''data: b'' @ [LF, LF]])
     [\<lparr>ev_data = ''a''\<rparr>, \<lparr>ev_data = ''b''\<rparr>]"
proof -
  have L: "limits_ok example_limits" by (simp add: limits_ok_def example_limits_def)
  have "fst (push_all (decoder_new example_limits) [''data: a'' @ [LF], [LF] @ ''data: b'' @ [LF, LF]])
      = Inr [\<lparr>ev_data = ''a''\<rparr>, \<lparr>ev_data = ''b''\<rparr>]"
    by (simp add: sse_eval)
  then have "\<exists>d. push_all (decoder_new example_limits) [''data: a'' @ [LF], [LF] @ ''data: b'' @ [LF, LF]]
      = (Inr [\<lparr>ev_data = ''a''\<rparr>, \<lparr>ev_data = ''b''\<rparr>], d)"
    by (metis prod.collapse)
  then show ?thesis using sse_push_refines_framing [OF L] by blast
qed

section \<open>Resource bounds\<close>

datatype SseCall = Push string | Finish

fun sse_call :: "SseDecoder \<Rightarrow> SseCall \<Rightarrow> (StreamError + SseEvent list) \<times> SseDecoder" where
  "sse_call d (Push chunk) = push d chunk"
| "sse_call d Finish = sse_finish d"

definition sse_step :: "SseDecoder \<Rightarrow> SseCall \<Rightarrow> SseDecoder" where
  "sse_step d c = snd (sse_call d c)"

definition decoder_bounded :: "SseLimits \<Rightarrow> SseDecoder \<Rightarrow> bool" where
  "decoder_bounded L d \<longleftrightarrow> sd_limits d = L \<and>
     (case sd_failure d of
        Some _ \<Rightarrow> sd_pending d = []
      | None \<Rightarrow> length (sd_pending d) \<le> sl_max_pending_event_bytes L \<and>
          ss_total_stream_bytes (sd_stats d) \<le> sl_max_total_stream_bytes L \<and>
          ss_event_count (sd_stats d) \<le> sl_max_sse_events L)"

lemma push_loop_count:
  "n \<le> sl_max_sse_events L \<Longrightarrow> push_loop L bs n evs = (Inr res, m) \<Longrightarrow> m \<le> sl_max_sse_events L"
proof (induction L bs n evs rule: push_loop.induct)
  case (1 L bs n evs)
  show ?case
  proof (cases "find_event_boundary bs")
    case None
    then show ?thesis using "1.prems" by (simp add: push_loop.simps [of L bs])
  next
    case (Some x)
    obtain e s where x: "x = (e, s)" by (cases x)
    note step = push_loop.simps [of L bs n evs, unfolded Some x, simplified]
    have small: "\<not> sl_max_pending_event_bytes L < e" using "1.prems"(2) by (auto simp: step split: if_splits)
    show ?thesis
    proof (cases "parse_event (take e bs)")
      case (Inl err)
      then show ?thesis using "1.prems"(2) small by (simp add: step)
    next
      case (Inr ev)
      show ?thesis
      proof (cases ev)
        case None
        then show ?thesis using "1.IH"(1) [OF Some x [symmetric] small Inr None "1.prems"(1)] "1.prems"(2) Inr small
          by (simp add: step)
      next
        case ev: (Some v)
        have ok: "\<not> sl_max_sse_events L < usize_sat_add n 1"
          using "1.prems"(2) Inr small ev by (auto simp: step Let_def split: if_splits)
        then show ?thesis using "1.IH"(2) [OF Some x [symmetric] small Inr ev refl ok] "1.prems"(2) Inr small ev
          by (simp add: step Let_def)
      qed
    qed
  qed
qed

lemma decoder_fail_bounded: "sd_limits d = L \<Longrightarrow> decoder_bounded L (decoder_fail d e)"
  by (simp add: decoder_bounded_def decoder_fail_def)

lemma push_bounded:
  assumes "decoder_bounded L d"
  shows "decoder_bounded L (snd (push d c))"
proof (cases "sd_failure d")
  case None
  show ?thesis
  proof (cases "push_loop L (sd_pending d @ c) (ss_event_count (sd_stats d)) []")
    case (Pair res m)
    show ?thesis
    proof (cases res)
      case (Inl e)
      with Pair None assms show ?thesis
        by (simp add: push_def Let_def decoder_fail_bounded decoder_bounded_def decoder_fail_def set_event_count_def)
    next
      case (Inr x)
      then have "m \<le> sl_max_sse_events L"
        using push_loop_count [of "ss_event_count (sd_stats d)"] Pair None assms
        by (cases x) (auto simp: decoder_bounded_def)
      with Inr Pair None assms show ?thesis
        by (cases x) (simp add: push_def Let_def decoder_bounded_def decoder_fail_def set_event_count_def)
    qed
  qed
qed (use assms in \<open>simp add: push_def\<close>)

lemma finish_bounded:
  assumes "decoder_bounded L d"
  shows "decoder_bounded L (snd (sse_finish d))"
  using assms
  by (auto simp: sse_finish_def decoder_bounded_def decoder_fail_def set_event_count_def Let_def
      split: option.splits sum.splits)

interpretation decoder: kept_invariant sse_step "decoder_bounded L" for L
proof
  show "decoder_bounded L (sse_step d c)" if "decoder_bounded L d" for d c
    using that by (cases c) (simp_all add: sse_step_def push_bounded finish_bounded)
qed

text \<open>
  Whatever bytes a provider sends, and however the calls are ordered, the decoder never
  buffers more than the limit of one event. While it has not failed its totals are within the
  limits; once it has failed it holds no bytes and answers every call with the same error.
\<close>
theorem sse_decoder_bounded:
  assumes "reachable sse_step (decoder_new L) d"
  shows "length (sd_pending d) \<le> sl_max_pending_event_bytes L \<and>
    (case sd_failure d of
       None \<Rightarrow> ss_total_stream_bytes (sd_stats d) \<le> sl_max_total_stream_bytes L \<and>
         ss_event_count (sd_stats d) \<le> sl_max_sse_events L
     | Some e \<Rightarrow> sse_call d c = (Inl e, d))"
proof -
  have "decoder_bounded L d"
    using decoder.reachable_keeps [OF assms] by (simp add: decoder_bounded_def decoder_new_def)
  then show ?thesis
    by (cases c) (auto simp: decoder_bounded_def push_def sse_finish_def split: option.splits)
qed

theorem sse_decoder_bounded_witness:
  "sse_call (run_ops sse_step (decoder_new example_limits) [Push ''data: 0123456789abcdef'', Push [LF, LF]]) Finish
   = (Inl SseEventTooLarge, run_ops sse_step (decoder_new example_limits) [Push ''data: 0123456789abcdef'', Push [LF, LF]])"
proof -
  let ?d = "run_ops sse_step (decoder_new example_limits) [Push ''data: 0123456789abcdef'', Push [LF, LF]]"
  have "reachable sse_step (decoder_new example_limits) ?d"
    by (rule reachable_run [OF reachable_init])
  moreover have "sd_failure ?d = Some SseEventTooLarge" by (simp add: sse_eval sse_step_def)
  ultimately show ?thesis using sse_decoder_bounded [of example_limits ?d Finish] by simp
qed

section \<open>Round trip\<close>

text \<open>How a provider writes an event: one \<^verbatim>\<open>data\<close> line per line of the payload and a blank line.\<close>

definition sse_frame :: "string \<Rightarrow> string" where
  "sse_frame s = join_lines (map (append ''data: '') (split_lines s))"

definition sse_encode :: "string \<Rightarrow> string" where
  "sse_encode s = sse_frame s @ [LF, LF]"

lemma split_lines_ne [simp]: "split_lines s \<noteq> []"
  by (induction s) (auto split: list.splits)

lemma join_split [simp]: "join_lines (split_lines s) = s"
proof (induction s)
  case (Cons b s)
  obtain l ls where "split_lines s = l # ls" by (cases "split_lines s") auto
  with Cons show ?case by (cases ls) auto
qed simp

lemma split_lines_no_LF: "l \<in> set (split_lines s) \<Longrightarrow> LF \<notin> set l \<and> set l \<subseteq> set s"
proof (induction s arbitrary: l)
  case (Cons b s)
  obtain k ks where "split_lines s = k # ks" by (cases "split_lines s") auto
  with Cons show ?case by (fastforce split: if_splits)
qed simp

lemma split_lines_Cons: "LF \<notin> set l \<Longrightarrow> split_lines (l @ LF # s) = l # split_lines s"
  by (induction l) auto

lemma split_lines_one: "LF \<notin> set l \<Longrightarrow> split_lines l = [l]"
  by (induction l) auto

lemma split_join: "ls \<noteq> [] \<Longrightarrow> list_all (\<lambda>l. LF \<notin> set l) ls \<Longrightarrow> split_lines (join_lines ls) = ls"
  by (induction ls rule: join_lines.induct) (auto simp: split_lines_one split_lines_Cons)

text \<open>A frame whose lines are not empty and have no line break of their own ends at the first blank line.\<close>

lemma boundary_skip:
  "LF \<notin> set l \<Longrightarrow> CR \<notin> set l \<Longrightarrow>
   find_event_boundary (l @ bs) = map_option (\<lambda>(e, s). (e + length l, s)) (find_event_boundary bs)"
proof (induction l)
  case Nil
  show ?case by (cases "find_event_boundary bs") auto
next
  case (Cons b l)
  then show ?case by (cases "find_event_boundary bs") (auto simp: starts_with_iff)
qed

lemma boundary_join:
  "ls \<noteq> [] \<Longrightarrow> list_all (\<lambda>l. l \<noteq> [] \<and> LF \<notin> set l \<and> CR \<notin> set l) ls \<Longrightarrow>
   find_event_boundary (join_lines ls @ LF # LF # bs) = Some (length (join_lines ls), 2)"
proof (induction ls rule: join_lines.induct)
  case (2 l)
  then show ?case by (simp add: boundary_skip starts_with_iff)
next
  case (3 l k ls)
  then have IH: "find_event_boundary (join_lines (k # ls) @ LF # LF # bs) = Some (length (join_lines (k # ls)), 2)"
    by simp
  have "hd (join_lines (k # ls) @ LF # LF # bs) \<noteq> LF"
    using 3 by (cases ls; cases k) auto
  then have "find_event_boundary (LF # join_lines (k # ls) @ LF # LF # bs) = Some (length (join_lines (k # ls)) + 1, 2)"
    using IH by (auto simp: starts_with_iff LF_def CR_def)
  then show ?case using 3 by (simp add: boundary_skip)
qed simp

lemma utf8_join:
  "list_all (\<lambda>l. \<exists>x. utf8_chars l = Some x) ls \<Longrightarrow> \<exists>x. utf8_chars (join_lines ls) = Some x"
proof (induction ls rule: join_lines.induct)
  case (3 l k ls)
  then obtain x y where "utf8_chars l = Some x" "utf8_chars (join_lines (k # ls)) = Some y" by auto
  then show ?case by (simp add: utf8_chars_append LF_def)
qed auto

lemma utf8_lines:
  "utf8_chars s = Some z \<Longrightarrow> l \<in> set (split_lines s) \<Longrightarrow> \<exists>x. utf8_chars l = Some x"
proof (induction "length s" arbitrary: s z rule: less_induct)
  case less
  show ?case
  proof (cases "LF \<in> set s")
    case True
    then obtain a b where s: "s = a @ LF # b" "LF \<notin> set a" by (metis split_list_first)
    have ab: "(\<exists>x. utf8_chars a = Some x) \<and> (\<exists>y. utf8_chars b = Some y)"
      using utf8_chars_split [of LF a b z] less.prems(1) s by (simp add: LF_def)
    then show ?thesis using less.hyps [of b] less.prems(2) s by (auto simp: split_lines_Cons)
  next
    case False
    then show ?thesis using less.prems by (simp add: split_lines_one)
  qed
qed

lemma collect_data_lines:
  "list_all (\<lambda>l. CR \<notin> set l) ls \<Longrightarrow> collect_data (map (append ''data: '') ls) = Inr ls"
proof (induction ls)
  case (Cons l ls)
  have "strip_line (''data: '' @ l) = Inr (''data: '' @ l)"
    using Cons.prems by (auto simp: strip_line_def CR_def dest: last_in_set split: if_splits)
  with Cons show ?case by (simp add: split_field_def)
qed simp

lemma parse_encoded:
  assumes "utf8_chars s = Some z" "CR \<notin> set s"
  shows "parse_event (sse_frame s) = Inr (Some \<lparr>ev_data = s\<rparr>)"
proof -
  let ?ls = "map (append ''data: '') (split_lines s)"
  have "list_all (\<lambda>l. \<exists>x. utf8_chars l = Some x) ?ls"
    using utf8_lines [OF assms(1)] by (auto simp: list_all_iff)
  then obtain x where x: "utf8_chars (join_lines ?ls) = Some x" using utf8_join by blast
  have "list_all (\<lambda>l. LF \<notin> set l) ?ls"
    using split_lines_no_LF by (fastforce simp: list_all_iff LF_def)
  then have sp: "split_lines (join_lines ?ls) = ?ls" by (intro split_join) auto
  have "list_all (\<lambda>l. CR \<notin> set l) (split_lines s)"
    using split_lines_no_LF assms(2) by (fastforce simp: list_all_iff)
  then have "collect_data ?ls = Inr (split_lines s)" by (rule collect_data_lines)
  with x sp show ?thesis by (simp add: parse_event_def sse_frame_def)
qed

lemma frames_encoded:
  assumes "CR \<notin> set s"
  shows "frames (sse_encode s @ bs) =
    (sse_frame s # fst (frames bs), snd (frames bs))"
proof -
  let ?ls = "map (append ''data: '') (split_lines s)"
  have "list_all (\<lambda>l. l \<noteq> [] \<and> LF \<notin> set l \<and> CR \<notin> set l) ?ls"
    using split_lines_no_LF assms by (fastforce simp: list_all_iff LF_def CR_def)
  then have "find_event_boundary (sse_encode s @ bs) = Some (length (join_lines ?ls), 2)"
    by (simp add: sse_encode_def sse_frame_def boundary_join)
  then show ?thesis by (simp add: frames_Some sse_encode_def sse_frame_def)
qed

lemma frame_events_encoded:
  "list_all (\<lambda>s. CR \<notin> set s \<and> (\<exists>z. utf8_chars s = Some z)) ps \<Longrightarrow>
   snd (frames (concat (map sse_encode ps))) = [] \<and>
   fst (frames (concat (map sse_encode ps))) = map sse_frame ps \<and>
   frame_events (map sse_frame ps) = Inr (map SseEvent.make ps)"
proof (induction ps)
  case (Cons p ps)
  then obtain z where "utf8_chars p = Some z" by auto
  with Cons show ?case
    using parse_encoded [of p z] frames_encoded [of p "concat (map sse_encode ps)"] by (auto simp: SseEvent.make_def)
qed simp

text \<open>
  Round trip. Payloads of any well-formed UTF-8 text without carriage returns, multi-line and
  empty ones included, written as \<^verbatim>\<open>data:\<close> lines with a blank line after each event and sent as
  one chunk within the limits, come back as exactly these events, and end of stream adds nothing.
\<close>
theorem sse_roundtrip:
  assumes "limits_ok L"
    and "list_all (\<lambda>s. CR \<notin> set s \<and> utf8_chars s \<noteq> None) payloads"
    and "list_all (\<lambda>s. length (sse_encode s) \<le> sl_max_pending_event_bytes L) payloads"
    and "length (concat (map sse_encode payloads)) \<le> sl_max_total_stream_bytes L"
    and "length payloads \<le> sl_max_sse_events L"
  shows "\<exists>d. push (decoder_new L) (concat (map sse_encode payloads)) = (Inr (map SseEvent.make payloads), d) \<and>
    sse_finish d = (Inr [], d)"
proof -
  let ?s = "concat (map sse_encode payloads)"
  have "list_all (\<lambda>s. CR \<notin> set s \<and> (\<exists>z. utf8_chars s = Some z)) payloads"
    using assms(2) by (auto simp: list_all_iff)
  note f = frame_events_encoded [OF this]
  have "list_all (\<lambda>f. length f \<le> sl_max_pending_event_bytes L) (fst (frames ?s))"
    using assms(3) f by (fastforce simp: list_all_iff sse_encode_def)
  then have ok: "stream_ok L ([] @ ?s) ([] @ map SseEvent.make payloads)"
    using f assms by (simp add: stream_ok_def)
  then obtain d where d: "push (decoder_new L) ?s = (Inr (map SseEvent.make payloads), d)"
    using push_ok_Inr [OF assms(1) framed_new] by blast
  then have "framed L ([] @ ?s) ([] @ map SseEvent.make payloads) d"
    using push_Inr_ok [OF assms(1) framed_new] by blast
  then have "sd_failure d = None" "sd_pending d = []" using f by (auto simp: framed_def)
  with d show ?thesis by (auto simp: sse_finish_def)
qed

theorem sse_roundtrip_witness:
  "\<exists>d. push (decoder_new sse_limits_default) (concat (map sse_encode [''first'' @ [LF] @ ''second'', [], ''[DONE]''])) =
     (Inr (map SseEvent.make [''first'' @ [LF] @ ''second'', [], ''[DONE]'']), d) \<and> sse_finish d = (Inr [], d)"
  by (rule sse_roundtrip)
     (simp_all add: limits_ok_def sse_limits_default_def sse_encode_def sse_frame_def LF_def CR_def)

section \<open>The pending limit and chunk boundaries\<close>

text \<open>
  The bytes of a separator that is still incomplete count as pending bytes of the event before
  it, so an event of exactly the limit is accepted in one chunk and refused when the chunk ends
  inside its separator.
\<close>

lemma separator_split_refused:
  defines "ev \<equiv> ''data: 0123456789''"
  shows "fst (push_all (decoder_new example_limits) [ev @ [LF, LF]]) = Inr [\<lparr>ev_data = ''0123456789''\<rparr>]"
    and "fst (push_all (decoder_new example_limits) [ev @ [LF], [LF]]) = Inl SseEventTooLarge"
  by (simp_all add: ev_def sse_eval)

end
