(* ===== verification/Failure.thy ===== *)
theory Failure
  imports RustString
begin

text \<open>
  The canonical failure taxonomy (\<^verbatim>\<open>request_finalization/failure.rs\<close>) and the status classifier
  (\<^verbatim>\<open>routing_engine/routing_failure.rs\<close>): what a provider signal, a planning failure or an HTTP
  status means for the retry loop, for the health of the key and for the client.
\<close>

section \<open>Targets, classes and effects\<close>

datatype ProviderProtocolKind = OpenAiChatCompletions | OpenAiResponses | OpenAiCompatible | UnknownProtocol

datatype LocalAdapterComponent = RequestBody | ResponseTransform | LifecycleComponent | InvariantComponent

datatype FailureTarget =
    TargetRequest
  | CurrentKey
  | ModelOnKey string string
  | StationKeyCredential string
  | StationAccount string
  | StationGroup string string
  | StationEndpoint string i64
  | ProviderProtocol ProviderProtocolKind
  | TargetLocalAdapter LocalAdapterComponent
  | TargetDownstream
  | TargetUncertain

datatype FailureClass =
    FC_ConfigRequired | FC_PolicyRejected | FC_EconomicsUnavailable | FC_HealthUnavailable
  | FC_Authentication | FC_InsufficientBalance | FC_RateLimited | FC_QuotaExhausted
  | FC_RuntimeConcurrencyLimited | FC_ProviderCapacity | FC_RelayServiceUnavailable
  | FC_ModelUnavailable | FC_CapabilityMismatch | FC_BadRequest | FC_ProviderRejectedRequest
  | FC_Timeout | FC_Transport | FC_Upstream5xx | FC_UpstreamOverloaded | FC_MalformedResponse
  | FC_StreamInterrupted | FC_DownstreamDrop | FC_NoAvailableKey | FC_CapacityExhausted
  | FC_CandidateLimit | FC_FactsUnavailable | FC_ConfigUnstable | FC_Lifecycle | FC_Deadline
  | FC_Invariant | FC_Uncertain

datatype RetryDisposition = TryNextKey | StopRequest

datatype EvidenceConfidence = Confirmed | Probable | UnknownConfidence | Conflicting

datatype RequestAcceptance = RejectedBeforeAcceptance | AcceptedOrMayHaveBeenAccepted | UnknownAcceptance

datatype ReplaySafety = ReplaySafe | RequiresProviderIdempotency | NotReplayable

datatype BillingState = BillingUncertain

datatype HealthEffect =
  HE_Success | HE_ObserveFailure | HE_Cooldown "i64 option" | HE_HardFail | HE_Neutral

datatype CapabilityEffect =
    CE_Neutral
  | ConfirmUnsupportedModel string string
  | ConfirmUnsupportedProtocol ProviderProtocolKind

datatype CapabilityApplicabilitySet =
    ConfirmedModelCatalog | UnknownModelCatalog | PositiveCapabilityEvidence | LoadEvidenceGap
  | RequestPolicyOnly

definition permits_model_not_found_learning :: "CapabilityApplicabilitySet \<Rightarrow> bool" where
  "permits_model_not_found_learning a \<longleftrightarrow> a = ConfirmedModelCatalog"

section \<open>The public face of a failure\<close>

datatype PublicErrorCode =
    PE_ConfigRequired | PE_PolicyRejected | PE_EconomicsUnavailable | PE_HealthUnavailable
  | PE_AuthenticationFailed | PE_InsufficientBalance | PE_RateLimited | PE_ModelUnavailable
  | PE_CapabilityMismatch | PE_BadRequest | PE_UpstreamRequestRejected | PE_Timeout
  | PE_TransportFailure | PE_UpstreamUnavailable | PE_UpstreamOverloaded | PE_MalformedResponse
  | PE_StreamInterrupted | PE_DownstreamDisconnected | PE_NoAvailableKey | PE_CapacityExhausted
  | PE_CandidateLimitExceeded | PE_FactsUnavailable | PE_ConfigUnstable
  | PE_LifecycleUnavailable | PE_DeadlineExceeded | PE_InvariantViolation
  | PE_UpstreamUncertain

fun public_error_code :: "PublicErrorCode \<Rightarrow> string" where
  "public_error_code PE_ConfigRequired = ''routing_configuration_required''"
| "public_error_code PE_PolicyRejected = ''route_policy_rejected''"
| "public_error_code PE_EconomicsUnavailable = ''route_economics_unavailable''"
| "public_error_code PE_HealthUnavailable = ''route_health_unavailable''"
| "public_error_code PE_AuthenticationFailed = ''upstream_authentication_failed''"
| "public_error_code PE_InsufficientBalance = ''upstream_insufficient_balance''"
| "public_error_code PE_RateLimited = ''upstream_rate_limited''"
| "public_error_code PE_ModelUnavailable = ''upstream_model_unavailable''"
| "public_error_code PE_CapabilityMismatch = ''upstream_capability_mismatch''"
| "public_error_code PE_BadRequest = ''request_bad_request''"
| "public_error_code PE_UpstreamRequestRejected = ''upstream_request_rejected''"
| "public_error_code PE_Timeout = ''upstream_timeout''"
| "public_error_code PE_TransportFailure = ''upstream_transport_failure''"
| "public_error_code PE_UpstreamUnavailable = ''upstream_unavailable''"
| "public_error_code PE_UpstreamOverloaded = ''upstream_overloaded''"
| "public_error_code PE_MalformedResponse = ''upstream_malformed_response''"
| "public_error_code PE_StreamInterrupted = ''upstream_stream_interrupted''"
| "public_error_code PE_DownstreamDisconnected = ''downstream_disconnected''"
| "public_error_code PE_NoAvailableKey = ''no_available_key''"
| "public_error_code PE_CapacityExhausted = ''route_capacity_exhausted''"
| "public_error_code PE_CandidateLimitExceeded = ''route_candidate_limit_exceeded''"
| "public_error_code PE_FactsUnavailable = ''route_facts_unavailable''"
| "public_error_code PE_ConfigUnstable = ''route_configuration_changed''"
| "public_error_code PE_LifecycleUnavailable = ''route_lifecycle_unavailable''"
| "public_error_code PE_DeadlineExceeded = ''route_deadline_exceeded''"
| "public_error_code PE_InvariantViolation = ''route_invariant_violation''"
| "public_error_code PE_UpstreamUncertain = ''upstream_uncertain''"

record PublicError =
  pe_code :: PublicErrorCode
  pe_http_status :: nat
  pe_message :: string

definition public_error :: "PublicErrorCode \<Rightarrow> nat \<Rightarrow> string \<Rightarrow> PublicError" where
  "public_error code http_status message =
     \<lparr>pe_code = code, pe_http_status = http_status, pe_message = message\<rparr>"

fun public_error_for_class :: "FailureClass \<Rightarrow> PublicError" where
  "public_error_for_class FC_ConfigRequired = public_error PE_ConfigRequired 503 ''routing configuration is required''"
| "public_error_for_class FC_PolicyRejected = public_error PE_PolicyRejected 503 ''request is rejected by routing policy''"
| "public_error_for_class FC_EconomicsUnavailable = public_error PE_EconomicsUnavailable 503 ''routing economics are unavailable''"
| "public_error_for_class FC_HealthUnavailable = public_error PE_HealthUnavailable 503 ''routing health is unavailable''"
| "public_error_for_class FC_Authentication = public_error PE_AuthenticationFailed 502 ''upstream authentication failed''"
| "public_error_for_class FC_InsufficientBalance = public_error PE_InsufficientBalance 402 ''upstream balance is insufficient''"
| "public_error_for_class FC_RateLimited = public_error PE_RateLimited 429 ''upstream is rate limited''"
| "public_error_for_class FC_QuotaExhausted = public_error PE_RateLimited 429 ''upstream quota is exhausted''"
| "public_error_for_class FC_RuntimeConcurrencyLimited = public_error PE_UpstreamOverloaded 429 ''upstream concurrency is limited''"
| "public_error_for_class FC_ProviderCapacity = public_error PE_UpstreamOverloaded 503 ''upstream server is temporarily overloaded''"
| "public_error_for_class FC_RelayServiceUnavailable = public_error PE_UpstreamUnavailable 502 ''upstream relay service is unavailable''"
| "public_error_for_class FC_ModelUnavailable = public_error PE_ModelUnavailable 404 ''upstream model was not found''"
| "public_error_for_class FC_CapabilityMismatch = public_error PE_CapabilityMismatch 502 ''upstream capability is not compatible''"
| "public_error_for_class FC_BadRequest = public_error PE_BadRequest 400 ''request body is invalid''"
| "public_error_for_class FC_ProviderRejectedRequest = public_error PE_UpstreamRequestRejected 400 ''upstream rejected the request''"
| "public_error_for_class FC_Timeout = public_error PE_Timeout 504 ''upstream timed out''"
| "public_error_for_class FC_Transport = public_error PE_TransportFailure 502 ''upstream transport failed''"
| "public_error_for_class FC_Upstream5xx = public_error PE_UpstreamUnavailable 502 ''upstream is unavailable''"
| "public_error_for_class FC_UpstreamOverloaded = public_error PE_UpstreamOverloaded 503 ''upstream is overloaded''"
| "public_error_for_class FC_MalformedResponse = public_error PE_MalformedResponse 502 ''upstream response is malformed''"
| "public_error_for_class FC_StreamInterrupted = public_error PE_StreamInterrupted 502 ''upstream stream was interrupted''"
| "public_error_for_class FC_DownstreamDrop = public_error PE_DownstreamDisconnected 502 ''downstream disconnected''"
| "public_error_for_class FC_NoAvailableKey = public_error PE_NoAvailableKey 503 ''no available key''"
| "public_error_for_class FC_CapacityExhausted = public_error PE_CapacityExhausted 503 ''routing capacity is exhausted''"
| "public_error_for_class FC_CandidateLimit = public_error PE_CandidateLimitExceeded 503 ''routing candidate limit is exceeded''"
| "public_error_for_class FC_FactsUnavailable = public_error PE_FactsUnavailable 503 ''routing facts are unavailable''"
| "public_error_for_class FC_ConfigUnstable = public_error PE_ConfigUnstable 503 ''routing configuration changed during planning''"
| "public_error_for_class FC_Lifecycle = public_error PE_LifecycleUnavailable 503 ''request lifecycle writer is unavailable''"
| "public_error_for_class FC_Deadline = public_error PE_DeadlineExceeded 504 ''routing deadline was exceeded''"
| "public_error_for_class FC_Invariant = public_error PE_InvariantViolation 500 ''routing invariant was violated''"
| "public_error_for_class FC_Uncertain = public_error PE_UpstreamUncertain 502 ''upstream failure is uncertain''"

record CanonicalFailure =
  cf_target :: FailureTarget
  cf_class :: FailureClass
  cf_retry :: RetryDisposition
  cf_health :: HealthEffect
  cf_capability :: CapabilityEffect
  cf_public :: PublicError
  cf_confidence :: EvidenceConfidence
  cf_request_acceptance :: RequestAcceptance
  cf_replay_safety :: ReplaySafety
  cf_billing :: BillingState
  cf_classifier_profile_version :: string

section \<open>Provider signals\<close>

datatype ProviderErrorSemanticSignal =
    ConfirmedAuthentication string
  | ConfirmedModelNotFound string string
  | ConfirmedInsufficientBalance string
  | ConfirmedGroupSubscriptionInvalid string string
  | ConfirmedCapabilityMismatch ProviderProtocolKind
  | SignalRateLimited string "i64 option"
  | SignalBadRequest
  | SignalOverloaded
  | SignalProviderCapacity string "i64 option"
  | SignalServerError string i64
  | GenericStatus u16 EvidenceConfidence
  | SignalTransport string i64
  | SignalTimeout string i64
  | SignalMalformedResponse

definition default_request_acceptance :: "FailureClass \<Rightarrow> RequestAcceptance" where
  "default_request_acceptance class =
     (if class \<in> {FC_ProviderCapacity, FC_UpstreamOverloaded, FC_ProviderRejectedRequest, FC_PolicyRejected,
         FC_Authentication, FC_InsufficientBalance, FC_RateLimited, FC_QuotaExhausted,
         FC_RuntimeConcurrencyLimited, FC_ModelUnavailable, FC_CapabilityMismatch, FC_Uncertain, FC_Deadline}
      then RejectedBeforeAcceptance
      else if class \<in> {FC_Upstream5xx, FC_Transport, FC_Timeout, FC_MalformedResponse, FC_StreamInterrupted}
      then AcceptedOrMayHaveBeenAccepted
      else UnknownAcceptance)"

definition default_replay_safety :: "FailureClass \<Rightarrow> ReplaySafety" where
  "default_replay_safety class =
     (if class \<in> {FC_ProviderCapacity, FC_UpstreamOverloaded, FC_ProviderRejectedRequest, FC_PolicyRejected,
         FC_Authentication, FC_InsufficientBalance, FC_RateLimited, FC_QuotaExhausted,
         FC_RuntimeConcurrencyLimited, FC_ModelUnavailable, FC_CapabilityMismatch, FC_Uncertain}
      then ReplaySafe
      else if class \<in> {FC_Transport, FC_Timeout, FC_Upstream5xx, FC_MalformedResponse, FC_StreamInterrupted}
      then RequiresProviderIdempotency
      else NotReplayable)"

text \<open>Target, class, retry, health and capability effect of a signal.\<close>

fun signal_verdict ::
  "ProviderErrorSemanticSignal \<Rightarrow> CapabilityApplicabilitySet
    \<Rightarrow> FailureTarget \<times> FailureClass \<times> RetryDisposition \<times> HealthEffect \<times> CapabilityEffect" where
  "signal_verdict (ConfirmedAuthentication key) a =
     (StationKeyCredential key, FC_Authentication, TryNextKey, HE_HardFail, CE_Neutral)"
| "signal_verdict (ConfirmedModelNotFound key model) a =
     (if permits_model_not_found_learning a
      then (ModelOnKey key model, FC_ModelUnavailable, StopRequest, HE_Neutral, ConfirmUnsupportedModel key model)
      else (TargetUncertain, FC_Uncertain, StopRequest, HE_Neutral, CE_Neutral))"
| "signal_verdict (ConfirmedInsufficientBalance station) a =
     (StationAccount station, FC_InsufficientBalance, StopRequest, HE_HardFail, CE_Neutral)"
| "signal_verdict (ConfirmedGroupSubscriptionInvalid station binding) a =
     (StationGroup station binding, FC_PolicyRejected, TryNextKey, HE_HardFail, CE_Neutral)"
| "signal_verdict (ConfirmedCapabilityMismatch protocol) a =
     (ProviderProtocol protocol, FC_CapabilityMismatch, TryNextKey, HE_Neutral, ConfirmUnsupportedProtocol protocol)"
| "signal_verdict (SignalRateLimited _ _) a = (CurrentKey, FC_RateLimited, TryNextKey, HE_ObserveFailure, CE_Neutral)"
| "signal_verdict SignalBadRequest a = (TargetRequest, FC_ProviderRejectedRequest, TryNextKey, HE_Neutral, CE_Neutral)"
| "signal_verdict SignalOverloaded a = (CurrentKey, FC_UpstreamOverloaded, TryNextKey, HE_ObserveFailure, CE_Neutral)"
| "signal_verdict (SignalProviderCapacity _ _) a =
     (CurrentKey, FC_ProviderCapacity, TryNextKey, HE_ObserveFailure, CE_Neutral)"
| "signal_verdict (SignalServerError _ _) a = (CurrentKey, FC_Upstream5xx, TryNextKey, HE_ObserveFailure, CE_Neutral)"
| "signal_verdict (GenericStatus _ _) a = (TargetUncertain, FC_Uncertain, TryNextKey, HE_Neutral, CE_Neutral)"
| "signal_verdict (SignalTransport _ _) a = (CurrentKey, FC_Transport, TryNextKey, HE_ObserveFailure, CE_Neutral)"
| "signal_verdict (SignalTimeout _ _) a = (CurrentKey, FC_Timeout, TryNextKey, HE_ObserveFailure, CE_Neutral)"
| "signal_verdict SignalMalformedResponse a =
     (ProviderProtocol UnknownProtocol, FC_MalformedResponse, TryNextKey, HE_Neutral, CE_Neutral)"

definition signal_confidence :: "ProviderErrorSemanticSignal \<Rightarrow> EvidenceConfidence" where
  "signal_confidence s = (case s of GenericStatus _ confidence \<Rightarrow> confidence | _ \<Rightarrow> Confirmed)"

definition failure_from_provider_signal ::
  "ProviderErrorSemanticSignal \<Rightarrow> CapabilityApplicabilitySet \<Rightarrow> CanonicalFailure" where
  "failure_from_provider_signal s applicability =
     (case signal_verdict s applicability of (target, class, retry, health, capability) \<Rightarrow>
        \<lparr>cf_target = target, cf_class = class, cf_retry = retry, cf_health = health, cf_capability = capability,
         cf_public = public_error_for_class class, cf_confidence = signal_confidence s,
         cf_request_acceptance = default_request_acceptance class,
         cf_replay_safety = default_replay_safety class, cf_billing = BillingUncertain,
         cf_classifier_profile_version = ''canonical-failure-v1''\<rparr>)"

definition planning_failure :: "FailureClass \<Rightarrow> FailureTarget \<Rightarrow> RetryDisposition \<Rightarrow> CanonicalFailure" where
  "planning_failure class target retry =
     \<lparr>cf_target = target, cf_class = class, cf_retry = retry, cf_health = HE_Neutral, cf_capability = CE_Neutral,
      cf_public = public_error_for_class class, cf_confidence = Confirmed,
      cf_request_acceptance = default_request_acceptance class,
      cf_replay_safety = default_replay_safety class, cf_billing = BillingUncertain,
      cf_classifier_profile_version = ''canonical-failure-v1''\<rparr>"

section \<open>Statuses without a provider signal\<close>

datatype RouteFailureKind =
    AuthError | InsufficientBalance | RateLimited | CapabilityMismatch | BadRequest | TemporaryNetwork
  | Upstream5xx | Timeout | StreamInterrupted | Uncertain

datatype RouteFailureAction = HardFail | Cooldown | Observe | IgnoreForKeyHealth

datatype RouteFailureScope = KeyHealth | RequestOnly

record RouteFailureInput =
  rf_http_status :: "nat option"
  rf_output_started :: bool
  rf_transport_error :: bool
  rf_timeout :: bool
  rf_retry_after_ms :: "i64 option"

definition http_status_input :: "nat \<Rightarrow> bool \<Rightarrow> RouteFailureInput" where
  "http_status_input status output_started =
     \<lparr>rf_http_status = Some status, rf_output_started = output_started, rf_transport_error = False,
      rf_timeout = False, rf_retry_after_ms = None\<rparr>"

record ClassifiedRouteFailure =
  rc_kind :: RouteFailureKind
  rc_action :: RouteFailureAction
  rc_scope :: RouteFailureScope
  rc_retryable_before_output :: bool
  rc_retry_after_ms :: "i64 option"

definition request_only :: "RouteFailureKind \<Rightarrow> bool \<Rightarrow> ClassifiedRouteFailure" where
  "request_only kind retryable =
     \<lparr>rc_kind = kind, rc_action = IgnoreForKeyHealth, rc_scope = RequestOnly,
      rc_retryable_before_output = retryable, rc_retry_after_ms = None\<rparr>"

definition key_health ::
  "RouteFailureKind \<Rightarrow> RouteFailureAction \<Rightarrow> bool \<Rightarrow> i64 option \<Rightarrow> ClassifiedRouteFailure" where
  "key_health kind action retryable retry_after_ms =
     \<lparr>rc_kind = kind, rc_action = action, rc_scope = KeyHealth,
      rc_retryable_before_output = retryable, rc_retry_after_ms = retry_after_ms\<rparr>"

definition timeout_observe :: ClassifiedRouteFailure where
  "timeout_observe =
     \<lparr>rc_kind = Timeout, rc_action = Observe, rc_scope = KeyHealth,
      rc_retryable_before_output = True, rc_retry_after_ms = None\<rparr>"

text \<open>The arms after the statuses: timeout, transport error, anything else.\<close>

definition classify_without_status :: "RouteFailureInput \<Rightarrow> ClassifiedRouteFailure" where
  "classify_without_status i =
     (if rf_timeout i then timeout_observe
      else if rf_transport_error i then key_health TemporaryNetwork Observe (\<not> rf_output_started i) None
      else key_health Uncertain IgnoreForKeyHealth (\<not> rf_output_started i) None)"

definition classify_route_failure :: "RouteFailureInput \<Rightarrow> ClassifiedRouteFailure" where
  "classify_route_failure i =
     (if rf_output_started i \<and> rf_transport_error i then request_only StreamInterrupted False
      else case rf_http_status i of
        None \<Rightarrow> classify_without_status i
      | Some status \<Rightarrow>
        if status = 401 then key_health AuthError HardFail (\<not> rf_output_started i) None
        else if status \<in> {408, 425} then key_health TemporaryNetwork Observe (\<not> rf_output_started i) (rf_retry_after_ms i)
        else if status = 402 then key_health InsufficientBalance HardFail False None
        else if status = 429 then key_health RateLimited Cooldown True (rf_retry_after_ms i)
        else if status \<in> {403, 404} then request_only Uncertain False
        else if status \<in> {405, 501} then key_health CapabilityMismatch Observe True None
        else if status \<in> {400, 409, 422} then request_only BadRequest False
        else if 500 \<le> status \<and> status \<le> 599 then key_health Upstream5xx Observe True None
        else classify_without_status i)"

section \<open>Planning failures\<close>

datatype RoutePlanningFailure =
    PlanNoAvailableKey | PlanCapabilityMismatch | PlanHealthUnavailable | PlanCapacityExhausted
  | PlanCandidateLimitExceeded nat nat | PlanConfigUnstable | PlanDeadlineExceeded | PlanInvariantViolation string

fun into_canonical :: "RoutePlanningFailure \<Rightarrow> CanonicalFailure" where
  "into_canonical PlanNoAvailableKey = planning_failure FC_NoAvailableKey TargetRequest StopRequest"
| "into_canonical PlanCapabilityMismatch = planning_failure FC_CapabilityMismatch TargetRequest StopRequest"
| "into_canonical PlanHealthUnavailable = planning_failure FC_HealthUnavailable TargetRequest StopRequest"
| "into_canonical PlanCapacityExhausted = planning_failure FC_CapacityExhausted TargetRequest StopRequest"
| "into_canonical (PlanCandidateLimitExceeded _ _) = planning_failure FC_CandidateLimit TargetRequest StopRequest"
| "into_canonical PlanConfigUnstable = planning_failure FC_ConfigUnstable TargetRequest StopRequest"
| "into_canonical PlanDeadlineExceeded = planning_failure FC_Deadline TargetRequest StopRequest"
| "into_canonical (PlanInvariantViolation _) =
     planning_failure FC_Invariant (TargetLocalAdapter InvariantComponent) StopRequest"

fun stable_code :: "RoutePlanningFailure \<Rightarrow> string" where
  "stable_code PlanNoAvailableKey = ''no_available_key''"
| "stable_code PlanCapabilityMismatch = ''upstream_capability_mismatch''"
| "stable_code PlanHealthUnavailable = ''route_health_unavailable''"
| "stable_code PlanCapacityExhausted = ''route_capacity_exhausted''"
| "stable_code (PlanCandidateLimitExceeded actual limit) =
     (if actual > limit then ''route_candidate_limit_exceeded'' else ''route_candidate_limit_invalid'')"
| "stable_code PlanConfigUnstable = ''route_configuration_changed''"
| "stable_code PlanDeadlineExceeded = ''route_deadline_exceeded''"
| "stable_code (PlanInvariantViolation code) = code"

section \<open>Correctness\<close>

text \<open>A class that is safe to replay was certainly refused; one that may have been accepted needs idempotency.\<close>

lemma replay_acceptance:
  "default_replay_safety class = ReplaySafe \<Longrightarrow> default_request_acceptance class = RejectedBeforeAcceptance"
  "default_request_acceptance class = AcceptedOrMayHaveBeenAccepted \<longleftrightarrow>
   default_replay_safety class = RequiresProviderIdempotency"
  by (cases "class"; simp add: default_replay_safety_def default_request_acceptance_def)+

text \<open>
  What the canonical classifier concludes from a provider signal. The request stops exactly on
  a confirmed empty balance and on a confirmed missing model; everything else moves on to the next
  key. The health of a key is touched only by failures of that key, its account or its group; a
  failure that may have been accepted upstream is never declared safe to replay without provider
  idempotency; and the status shown to the client is an error status.
\<close>
theorem provider_signal_verdicts:
  "let f = failure_from_provider_signal s a in
     (cf_retry f = StopRequest \<longleftrightarrow>
        (\<exists>station. s = ConfirmedInsufficientBalance station) \<or> (\<exists>key model. s = ConfirmedModelNotFound key model)) \<and>
     (cf_health f = HE_Neutral \<or> cf_target f = CurrentKey \<or> (\<exists>key. cf_target f = StationKeyCredential key) \<or>
        (\<exists>station. cf_target f = StationAccount station) \<or> (\<exists>station binding. cf_target f = StationGroup station binding)) \<and>
     (cf_request_acceptance f = AcceptedOrMayHaveBeenAccepted \<longleftrightarrow> cf_replay_safety f = RequiresProviderIdempotency) \<and>
     cf_replay_safety f \<noteq> NotReplayable \<and>
     400 \<le> pe_http_status (cf_public f) \<and> pe_http_status (cf_public f) < 600"
proof -
  have accepted: "cf_request_acceptance (failure_from_provider_signal s a) = AcceptedOrMayHaveBeenAccepted \<longleftrightarrow>
      cf_replay_safety (failure_from_provider_signal s a) = RequiresProviderIdempotency"
    by (cases "signal_verdict s a") (simp add: failure_from_provider_signal_def replay_acceptance(2))
  show ?thesis
    unfolding Let_def accepted
    by (cases s) (simp_all add: failure_from_provider_signal_def default_replay_safety_def public_error_def)
qed

text \<open>
  Planning failures stop the request, never touch health or capabilities, and (invariant
  violations and misreported candidate limits apart) carry the code the client sees.
\<close>

lemma planning_failure_codes:
  "cf_retry (into_canonical p) = StopRequest \<and> cf_health (into_canonical p) = HE_Neutral \<and>
   cf_capability (into_canonical p) = CE_Neutral"
  "(case p of PlanInvariantViolation _ \<Rightarrow> True | PlanCandidateLimitExceeded actual limit \<Rightarrow> actual \<le> limit | _ \<Rightarrow> False) \<or>
   stable_code p = public_error_code (pe_code (cf_public (into_canonical p)))"
  by (cases p; simp add: planning_failure_def public_error_def)+

end
