(* ===== verification/Lifecycle.thy ===== *)
theory Lifecycle
  imports Failure Machine
begin

text \<open>
  The life of a request and of its attempts (\<^verbatim>\<open>request_lifecycle/{delivery,attempt,request}.rs\<close>):
  the terminal records that are written to the request log and the two phase machines that the
  debug builds run beside the execution. Variants that exist only in test builds are left out.
\<close>

section \<open>Terminals and records\<close>

datatype DeliveryTerminal = BodyCompleted | DownstreamDropped | NotStarted

fun delivery_code :: "DeliveryTerminal \<Rightarrow> string" where
  "delivery_code BodyCompleted = ''body_completed''"
| "delivery_code DownstreamDropped = ''downstream_dropped''"
| "delivery_code NotStarted = ''not_started''"

record AttemptId =
  aid_request_id :: string
  aid_ordinal :: u16

record RequestContextSnapshot =
  rx_request_id :: string
  rx_method :: string
  rx_local_path :: string
  rx_endpoint :: string
  rx_received_at_ms :: i64

record RequestCompletion =
  rq_protocol_completed :: bool
  rq_attempt_id :: "AttemptId option"

record RequestFailure =
  rl_code :: string
  rl_detail :: "string option"

record DeliveryFailure =
  df_terminal :: DeliveryTerminal
  df_detail :: "string option"

datatype RequestTerminal =
    Completed RequestCompletion
  | PartialSuccess RequestCompletion
  | Failed RequestFailure
  | Interrupted DeliveryFailure

record RequestTerminalSnapshot =
  ts_terminal :: RequestTerminal
  ts_delivery :: DeliveryTerminal

record RequestLogAnnotations =
  an_model :: "string option"
  an_stream :: bool
  an_http_status :: "u16 option"
  an_selected_station_key_id :: "string option"
  an_selected_station_id :: "string option"
  an_upstream_base_url :: "string option"
  an_route_policy :: "string option"
  an_route_reason :: "string option"
  an_rejected_candidates_json :: "string option"
  an_body_bytes :: "i64 option"
  an_route_wait_ms :: "i64 option"
  an_upstream_headers_ms :: "i64 option"
  an_failure_source :: "string option"
  an_attempts_json :: "string option"
  an_completion_source :: "string option"
  an_prompt_tokens :: "i64 option"
  an_completion_tokens :: "i64 option"
  an_total_tokens :: "i64 option"
  an_cache_creation_tokens :: "i64 option"
  an_cache_read_tokens :: "i64 option"
  an_reasoning_effort :: "string option"
  an_first_token_ms :: "i64 option"
  an_billing_mode :: "string option"

definition annotations_default :: RequestLogAnnotations where
  "annotations_default =
     \<lparr>an_model = None, an_stream = False, an_http_status = None, an_selected_station_key_id = None,
      an_selected_station_id = None, an_upstream_base_url = None, an_route_policy = None,
      an_route_reason = None, an_rejected_candidates_json = None, an_body_bytes = None,
      an_route_wait_ms = None, an_upstream_headers_ms = None, an_failure_source = None,
      an_attempts_json = None, an_completion_source = None, an_prompt_tokens = None,
      an_completion_tokens = None, an_total_tokens = None, an_cache_creation_tokens = None,
      an_cache_read_tokens = None, an_reasoning_effort = None, an_first_token_ms = None,
      an_billing_mode = None\<rparr>"

record RequestRoutingOutcomeFacts =
  ro_classification :: string
  ro_confidence :: string
  ro_evidence_source :: string
  ro_request_accepted :: string
  ro_send_phase :: string
  ro_replay_disposition :: string
  ro_billing_state :: string
  ro_retry_disposition :: string
  ro_effect_summary :: string
  ro_failure_domain_commitment_version :: "i64 option"
  ro_failure_domain_commitment_digest :: "string option"

record FinalRequestRecord =
  fr_context :: RequestContextSnapshot
  fr_terminal :: RequestTerminalSnapshot
  fr_selected_attempt_id :: "AttemptId option"
  fr_attempt_count :: u16
  fr_fallback_count :: u16
  fr_annotations :: RequestLogAnnotations
  fr_routing_outcome :: "RequestRoutingOutcomeFacts option"

definition final_record_new ::
  "RequestContextSnapshot \<Rightarrow> RequestTerminalSnapshot \<Rightarrow> AttemptId option \<Rightarrow> u16 \<Rightarrow> u16 \<Rightarrow> RequestLogAnnotations
    \<Rightarrow> FinalRequestRecord" where
  "final_record_new context terminal selected attempts fallbacks annotations =
     \<lparr>fr_context = context, fr_terminal = terminal, fr_selected_attempt_id = selected,
      fr_attempt_count = attempts, fr_fallback_count = fallbacks, fr_annotations = annotations,
      fr_routing_outcome = None\<rparr>"

text \<open>A record that waits for the end of the response body.\<close>

record PendingFinalRequestRecord =
  pf_context :: RequestContextSnapshot
  pf_selected_attempt_id :: "AttemptId option"
  pf_attempt_count :: u16
  pf_fallback_count :: u16
  pf_annotations :: RequestLogAnnotations
  pf_routing_outcome :: "RequestRoutingOutcomeFacts option"

definition pending_new ::
  "RequestContextSnapshot \<Rightarrow> AttemptId option \<Rightarrow> u16 \<Rightarrow> u16 \<Rightarrow> RequestLogAnnotations \<Rightarrow> PendingFinalRequestRecord" where
  "pending_new context selected attempts fallbacks annotations =
     \<lparr>pf_context = context, pf_selected_attempt_id = selected, pf_attempt_count = attempts,
      pf_fallback_count = fallbacks, pf_annotations = annotations, pf_routing_outcome = None\<rparr>"

definition set_routing_outcome ::
  "PendingFinalRequestRecord \<Rightarrow> RequestRoutingOutcomeFacts \<Rightarrow> PendingFinalRequestRecord" where
  "set_routing_outcome p facts = p\<lparr>pf_routing_outcome := Some facts\<rparr>"

definition into_record ::
  "PendingFinalRequestRecord \<Rightarrow> RequestTerminal \<Rightarrow> DeliveryTerminal \<Rightarrow> FinalRequestRecord" where
  "into_record p terminal delivery =
     (final_record_new (pf_context p) \<lparr>ts_terminal = terminal, ts_delivery = delivery\<rparr>
        (pf_selected_attempt_id p) (pf_attempt_count p) (pf_fallback_count p) (pf_annotations p))
     \<lparr>fr_routing_outcome := pf_routing_outcome p\<rparr>"

definition pending_complete :: "PendingFinalRequestRecord \<Rightarrow> DeliveryTerminal \<Rightarrow> FinalRequestRecord" where
  "pending_complete p delivery =
     (let completion = \<lparr>rq_protocol_completed = True, rq_attempt_id = pf_selected_attempt_id p\<rparr>;
          terminal = (if pf_fallback_count p > 0 then PartialSuccess completion else Completed completion)
      in into_record p terminal delivery)"

definition pending_fail ::
  "PendingFinalRequestRecord \<Rightarrow> string \<Rightarrow> string option \<Rightarrow> DeliveryTerminal \<Rightarrow> FinalRequestRecord" where
  "pending_fail p code detail delivery =
     into_record p (Failed \<lparr>rl_code = code, rl_detail = detail\<rparr>) delivery"

definition pending_interrupt ::
  "PendingFinalRequestRecord \<Rightarrow> DeliveryTerminal \<Rightarrow> string option \<Rightarrow> FinalRequestRecord" where
  "pending_interrupt p delivery detail =
     into_record p (Interrupted \<lparr>df_terminal = delivery, df_detail = detail\<rparr>) delivery"

section \<open>Attempts\<close>

record AttemptContext =
  ac_attempt_id :: AttemptId
  ac_station_id :: string
  ac_station_key_id :: string
  ac_endpoint_revision :: i64
  ac_credential_revision :: i64
  ac_account_revision :: i64
  ac_group_binding_id :: "string option"
  ac_group_revision :: "i64 option"
  ac_resolved_upstream_model :: "string option"
  ac_comparability_key :: "string option"
  ac_model_alias_revision :: i64
  ac_started_at_ms :: i64

datatype AttemptPhase = Started | AwaitingHeaders | BootstrappingStream | AttemptCommitted | AttemptTerminalPhase

datatype FailureBlame = BlameUpstream | BlameDownstream | BlameLocalAdapter

datatype AttemptFailureKind =
    AK_Authentication | AK_Balance | AK_RateLimit | AK_Connect | AK_Timeout | AK_HttpStatus
  | AK_CapabilityMismatch | AK_BadRequest | AK_MalformedResponse | AK_StreamInterrupted
  | AK_LocalAdapter | AK_DownstreamDrop

datatype LifecycleRetry = RetrySameTarget | TryNextCandidate | StopLifecycleRequest

fun project_retry_disposition :: "RetryDisposition \<Rightarrow> LifecycleRetry" where
  "project_retry_disposition TryNextKey = TryNextCandidate"
| "project_retry_disposition StopRequest = StopLifecycleRequest"

datatype DurableCapabilityEffect =
  DurableUnsupportedModel (du_station_key_id: string) (du_model: string) (du_evidence_code: string)
    (du_classifier_profile_version: string)

datatype LifecycleHealth =
    LH_Success | LH_ObserveFailure | LH_Cooldown "i64 option" | LH_HardFail | LH_Neutral
  | LH_Capability DurableCapabilityEffect

record ClassifiedAttemptFailure =
  ca_kind :: AttemptFailureKind
  ca_blame :: FailureBlame
  ca_retry :: LifecycleRetry
  ca_health :: LifecycleHealth
  ca_public_code :: string
  ca_sanitized_detail :: "string option"

datatype AttemptTerminal = Succeeded | AttemptFailed ClassifiedAttemptFailure | Abandoned string

record AttemptTerminalRecord =
  at_context :: AttemptContext
  at_terminal :: AttemptTerminal
  at_output_committed :: bool
  at_terminal_at_ms :: i64

datatype AttemptInvariantError = AttemptInvalidTransition AttemptPhase string | AttemptAlreadyTerminal

record AttemptLifecycle =
  al_context :: AttemptContext
  al_phase :: AttemptPhase
  al_terminal :: "AttemptTerminal option"

definition attempt_new :: "AttemptContext \<Rightarrow> AttemptLifecycle" where
  "attempt_new context = \<lparr>al_context = context, al_phase = Started, al_terminal = None\<rparr>"

definition attempt_invalid :: "AttemptLifecycle \<Rightarrow> string \<Rightarrow> AttemptInvariantError" where
  "attempt_invalid l event = AttemptInvalidTransition (al_phase l) event"

definition observe_headers :: "AttemptLifecycle \<Rightarrow> (AttemptInvariantError + unit) \<times> AttemptLifecycle" where
  "observe_headers l =
     (if al_phase l = Started then (Inr (), l\<lparr>al_phase := AwaitingHeaders\<rparr>)
      else (Inl (attempt_invalid l ''observe_headers''), l))"

definition begin_stream :: "AttemptLifecycle \<Rightarrow> (AttemptInvariantError + unit) \<times> AttemptLifecycle" where
  "begin_stream l =
     (if al_phase l = AwaitingHeaders then (Inr (), l\<lparr>al_phase := BootstrappingStream\<rparr>)
      else (Inl (attempt_invalid l ''begin_stream''), l))"

definition attempt_commit :: "AttemptLifecycle \<Rightarrow> (AttemptInvariantError + unit) \<times> AttemptLifecycle" where
  "attempt_commit l =
     (if al_phase l = BootstrappingStream then (Inr (), l\<lparr>al_phase := AttemptCommitted\<rparr>)
      else (Inl (attempt_invalid l ''commit''), l))"

definition attempt_terminalize ::
  "AttemptLifecycle \<Rightarrow> AttemptTerminal \<Rightarrow> (AttemptInvariantError + AttemptTerminal) \<times> AttemptLifecycle" where
  "attempt_terminalize l terminal =
     (if al_terminal l \<noteq> None then (Inl AttemptAlreadyTerminal, l)
      else if al_phase l = AttemptTerminalPhase then (Inl AttemptAlreadyTerminal, l)
      else (Inr terminal, l\<lparr>al_phase := AttemptTerminalPhase, al_terminal := Some terminal\<rparr>))"

definition attempt_terminal_record ::
  "AttemptLifecycle \<Rightarrow> bool \<Rightarrow> i64 \<Rightarrow> AttemptInvariantError + AttemptTerminalRecord" where
  "attempt_terminal_record l output_committed terminal_at_ms =
     (case al_terminal l of
        None \<Rightarrow> Inl (attempt_invalid l ''terminal_record'')
      | Some terminal \<Rightarrow> Inr \<lparr>at_context = al_context l, at_terminal = terminal,
          at_output_committed = output_committed, at_terminal_at_ms = terminal_at_ms\<rparr>)"

section \<open>Requests\<close>

datatype RequestPhase =
  Accepted | Admitted | Routing | Attempting u16 | Committed AttemptId | TerminalPhase

datatype RequestInvariantError = InvalidTransition RequestPhase string | AlreadyTerminal

record RequestLifecycle =
  rl_context :: RequestContextSnapshot
  rl_phase :: RequestPhase
  rl_attempt_count :: u16
  rl_fallback_count :: u16
  rl_selected_attempt_id :: "AttemptId option"
  rl_terminal_record :: "FinalRequestRecord option"

definition request_new :: "RequestContextSnapshot \<Rightarrow> RequestLifecycle" where
  "request_new context =
     \<lparr>rl_context = context, rl_phase = Accepted, rl_attempt_count = 0, rl_fallback_count = 0,
      rl_selected_attempt_id = None, rl_terminal_record = None\<rparr>"

definition request_invalid :: "RequestLifecycle \<Rightarrow> string \<Rightarrow> RequestInvariantError" where
  "request_invalid l event = InvalidTransition (rl_phase l) event"

definition request_admit :: "RequestLifecycle \<Rightarrow> (RequestInvariantError + unit) \<times> RequestLifecycle" where
  "request_admit l =
     (case rl_phase l of
        Accepted \<Rightarrow> (Inr (), l\<lparr>rl_phase := Admitted\<rparr>)
      | _ \<Rightarrow> (Inl (request_invalid l ''admit''), l))"

definition start_routing :: "RequestLifecycle \<Rightarrow> (RequestInvariantError + unit) \<times> RequestLifecycle" where
  "start_routing l =
     (case rl_phase l of
        Admitted \<Rightarrow> (Inr (), l\<lparr>rl_phase := Routing\<rparr>)
      | _ \<Rightarrow> (Inl (request_invalid l ''start_routing''), l))"

definition enter_attempt :: "RequestLifecycle \<Rightarrow> u16 \<Rightarrow> RequestLifecycle" where
  "enter_attempt l ordinal =
     l\<lparr>rl_attempt_count := max (rl_attempt_count l) (sat_add ordinal 1), rl_phase := Attempting ordinal\<rparr>"

definition start_attempt :: "RequestLifecycle \<Rightarrow> u16 \<Rightarrow> (RequestInvariantError + unit) \<times> RequestLifecycle" where
  "start_attempt l ordinal =
     (case rl_phase l of
        Routing \<Rightarrow> (Inr (), enter_attempt l ordinal)
      | Attempting _ \<Rightarrow> (Inr (), enter_attempt l ordinal)
      | _ \<Rightarrow> (Inl (request_invalid l ''start_attempt''), l))"

definition request_commit :: "RequestLifecycle \<Rightarrow> AttemptId \<Rightarrow> (RequestInvariantError + unit) \<times> RequestLifecycle" where
  "request_commit l attempt_id =
     (case rl_phase l of
        Attempting _ \<Rightarrow> (Inr (), l\<lparr>rl_selected_attempt_id := Some attempt_id, rl_phase := Committed attempt_id\<rparr>)
      | _ \<Rightarrow> (Inl (request_invalid l ''commit''), l))"

definition request_terminalize ::
  "RequestLifecycle \<Rightarrow> RequestTerminal \<Rightarrow> DeliveryTerminal
    \<Rightarrow> (RequestInvariantError + FinalRequestRecord) \<times> RequestLifecycle" where
  "request_terminalize l terminal delivery =
     (if rl_terminal_record l \<noteq> None then (Inl AlreadyTerminal, l)
      else if rl_phase l = Accepted then (Inl (request_invalid l ''terminalize''), l)
      else let rec = final_record_new (rl_context l) \<lparr>ts_terminal = terminal, ts_delivery = delivery\<rparr>
             (rl_selected_attempt_id l) (rl_attempt_count l) (rl_fallback_count l) annotations_default
        in (Inr rec, l\<lparr>rl_phase := TerminalPhase, rl_terminal_record := Some rec\<rparr>))"

text \<open>The calls a client of the request machine makes, and whether one succeeded.\<close>

datatype RequestCall =
  Admit | StartRouting | StartAttempt u16 | Commit AttemptId | Terminalize RequestTerminal DeliveryTerminal

definition succeeded :: "('e + 'a) \<times> 's \<Rightarrow> bool \<times> 's" where
  "succeeded r = (case fst r of Inl _ \<Rightarrow> False | Inr _ \<Rightarrow> True, snd r)"

fun request_call :: "RequestLifecycle \<Rightarrow> RequestCall \<Rightarrow> bool \<times> RequestLifecycle" where
  "request_call l Admit = succeeded (request_admit l)"
| "request_call l StartRouting = succeeded (start_routing l)"
| "request_call l (StartAttempt ordinal) = succeeded (start_attempt l ordinal)"
| "request_call l (Commit attempt_id) = succeeded (request_commit l attempt_id)"
| "request_call l (Terminalize terminal delivery) = succeeded (request_terminalize l terminal delivery)"

definition request_step :: "RequestLifecycle \<Rightarrow> RequestCall \<Rightarrow> RequestLifecycle" where
  "request_step l c = snd (request_call l c)"

lemmas request_defs = request_admit_def start_routing_def start_attempt_def request_commit_def
  request_terminalize_def enter_attempt_def succeeded_def

section \<open>The protocol of a request\<close>

text \<open>
  The specification: admission, routing, one or more attempts, possibly a commit of one of them,
  and one terminal, which may come at any time after admission. A run may stop anywhere.
\<close>

definition may_end :: "RequestCall list \<Rightarrow> bool" where
  "may_end cs \<longleftrightarrow> cs = [] \<or> (\<exists>t d. cs = [Terminalize t d])"

definition attempting_ok :: "RequestCall list \<Rightarrow> bool" where
  "attempting_ok cs \<longleftrightarrow> (\<exists>ordinals rest. cs = map StartAttempt ordinals @ rest \<and>
     (may_end rest \<or> (\<exists>a rest'. rest = Commit a # rest' \<and> may_end rest')))"

definition routing_ok :: "RequestCall list \<Rightarrow> bool" where
  "routing_ok cs \<longleftrightarrow> may_end cs \<or> (\<exists>n rest. cs = StartAttempt n # rest \<and> attempting_ok rest)"

definition admitted_ok :: "RequestCall list \<Rightarrow> bool" where
  "admitted_ok cs \<longleftrightarrow> may_end cs \<or> (\<exists>rest. cs = StartRouting # rest \<and> routing_ok rest)"

definition request_protocol :: "RequestCall list \<Rightarrow> bool" where
  "request_protocol cs \<longleftrightarrow> cs = [] \<or> (\<exists>rest. cs = Admit # rest \<and> admitted_ok rest)"

fun all_succeed :: "RequestLifecycle \<Rightarrow> RequestCall list \<Rightarrow> bool" where
  "all_succeed l [] = True"
| "all_succeed l (c # cs) = (fst (request_call l c) \<and> all_succeed (request_step l c) cs)"

text \<open>A record exists exactly in the terminal phase.\<close>

definition lifecycle_ok :: "RequestLifecycle \<Rightarrow> bool" where
  "lifecycle_ok l \<longleftrightarrow> (rl_terminal_record l = None \<longleftrightarrow> rl_phase l \<noteq> TerminalPhase)"

interpretation lifecycle: kept_invariant request_step lifecycle_ok
proof
  show "lifecycle_ok (request_step l c)" if "lifecycle_ok l" for l c
    using that by (cases c)
      (auto simp: request_step_def lifecycle_ok_def request_defs Let_def split: RequestPhase.splits)
qed

lemma terminal_sticky: "lifecycle_ok l \<Longrightarrow> rl_phase l = TerminalPhase \<Longrightarrow> request_call l c = (False, l)"
  by (cases c) (auto simp: lifecycle_ok_def request_defs)

lemma all_succeed_terminal: "lifecycle_ok l \<Longrightarrow> rl_phase l = TerminalPhase \<Longrightarrow> all_succeed l cs \<longleftrightarrow> cs = []"
  by (cases cs) (auto simp: terminal_sticky)

lemma terminalize_phase:
  "lifecycle_ok l \<Longrightarrow> rl_phase l \<noteq> Accepted \<Longrightarrow> rl_phase l \<noteq> TerminalPhase \<Longrightarrow>
   fst (request_call l (Terminalize t d)) \<and> rl_phase (request_step l (Terminalize t d)) = TerminalPhase"
  by (auto simp: lifecycle_ok_def request_defs request_step_def Let_def)

lemma committed_succeed:
  assumes "lifecycle_ok l" "rl_phase l = Committed a"
  shows "all_succeed l cs \<longleftrightarrow> may_end cs"
proof (cases cs)
  case (Cons c cs')
  have t: "all_succeed (request_step l (Terminalize t d)) cs' \<longleftrightarrow> cs' = []" for t d
    using terminalize_phase [OF assms(1)] assms by (intro all_succeed_terminal lifecycle.keeps) auto
  show ?thesis
    using assms terminalize_phase [OF assms(1)] Cons t
    by (cases c) (auto simp: may_end_def request_defs)
qed (simp add: may_end_def)

lemma may_end_Cons [simp]: "may_end (c # cs) \<longleftrightarrow> (\<exists>t d. c = Terminalize t d) \<and> cs = []"
  by (auto simp: may_end_def)

lemma attempting_ok_Cons:
  "attempting_ok (c # cs) \<longleftrightarrow> (case c of
     StartAttempt _ \<Rightarrow> attempting_ok cs | Commit _ \<Rightarrow> may_end cs | Terminalize _ _ \<Rightarrow> cs = [] | _ \<Rightarrow> False)"
proof (cases c)
  case (StartAttempt n)
  have "attempting_ok (StartAttempt n # cs)" if "attempting_ok cs"
    using that unfolding attempting_ok_def by (metis append_Cons list.simps(9))
  moreover have "attempting_ok cs" if "attempting_ok (StartAttempt n # cs)"
  proof -
    obtain ordinals rest where eq: "StartAttempt n # cs = map StartAttempt ordinals @ rest"
      and rest: "may_end rest \<or> (\<exists>a rest'. rest = Commit a # rest' \<and> may_end rest')"
      using \<open>attempting_ok (StartAttempt n # cs)\<close> unfolding attempting_ok_def by blast
    from eq rest obtain ks where "cs = map StartAttempt ks @ rest"
      by (cases ordinals) (auto simp: may_end_def)
    with rest show ?thesis unfolding attempting_ok_def by blast
  qed
  ultimately show ?thesis using StartAttempt by auto
qed (auto simp: attempting_ok_def Cons_eq_append_conv Cons_eq_map_conv may_end_def)

lemma attempting_succeed:
  "lifecycle_ok l \<Longrightarrow> rl_phase l = Attempting n \<Longrightarrow> all_succeed l cs \<longleftrightarrow> attempting_ok cs"
proof (induction cs arbitrary: l n)
  case Nil
  then show ?case by (auto simp: attempting_ok_def may_end_def)
next
  case (Cons c cs)
  note ok = lifecycle.keeps [OF Cons.prems(1), of c]
  show ?case
  proof (cases c)
    case (StartAttempt m)
    then have "rl_phase (request_step l c) = Attempting m" "fst (request_call l c)"
      using Cons.prems by (auto simp: request_step_def request_defs)
    with Cons.IH [OF ok] StartAttempt show ?thesis by (simp add: attempting_ok_Cons)
  next
    case (Commit a)
    then have "rl_phase (request_step l c) = Committed a" "fst (request_call l c)"
      using Cons.prems by (auto simp: request_step_def request_defs)
    with committed_succeed [OF ok] Commit show ?thesis by (simp add: attempting_ok_Cons)
  next
    case (Terminalize t d)
    with terminalize_phase [OF Cons.prems(1)] Cons.prems all_succeed_terminal [OF ok]
    show ?thesis by (simp add: attempting_ok_Cons)
  qed (use Cons.prems in \<open>simp_all add: attempting_ok_Cons request_defs\<close>)
qed

lemma routing_succeed:
  assumes "lifecycle_ok l" "rl_phase l = Routing"
  shows "all_succeed l cs \<longleftrightarrow> routing_ok cs"
proof (cases cs)
  case (Cons c cs')
  note ok = lifecycle.keeps [OF assms(1), of c]
  show ?thesis
  proof (cases c)
    case (StartAttempt m)
    then have "rl_phase (request_step l c) = Attempting m" "fst (request_call l c)"
      using assms by (auto simp: request_step_def request_defs)
    with attempting_succeed [OF ok] StartAttempt Cons show ?thesis by (simp add: routing_ok_def)
  next
    case (Terminalize t d)
    with terminalize_phase [OF assms(1)] assms all_succeed_terminal [OF ok] Cons
    show ?thesis by (simp add: routing_ok_def)
  qed (use assms Cons in \<open>simp_all add: routing_ok_def request_defs\<close>)
qed (simp add: routing_ok_def may_end_def)

lemma admitted_succeed:
  assumes "lifecycle_ok l" "rl_phase l = Admitted"
  shows "all_succeed l cs \<longleftrightarrow> admitted_ok cs"
proof (cases cs)
  case (Cons c cs')
  note ok = lifecycle.keeps [OF assms(1), of c]
  show ?thesis
  proof (cases c)
    case StartRouting
    then have "rl_phase (request_step l c) = Routing" "fst (request_call l c)"
      using assms by (auto simp: request_step_def request_defs)
    with routing_succeed [OF ok] StartRouting Cons show ?thesis by (simp add: admitted_ok_def)
  next
    case (Terminalize t d)
    with terminalize_phase [OF assms(1)] assms all_succeed_terminal [OF ok] Cons
    show ?thesis by (simp add: admitted_ok_def)
  qed (use assms Cons in \<open>simp_all add: admitted_ok_def request_defs\<close>)
qed (simp add: admitted_ok_def may_end_def)

lemma request_new_ok: "lifecycle_ok (request_new ctx)"
  by (simp add: lifecycle_ok_def request_new_def)

text \<open>
  C30: The request machine implements its protocol: from a fresh request every call of a sequence
  succeeds if and only if the sequence is admission, routing, at least one attempt, at most one
  commit after an attempt, and at most one terminal, which ends it and never comes before admission.
\<close>
theorem request_machine_protocol: "all_succeed (request_new ctx) cs \<longleftrightarrow> request_protocol cs"
proof (cases cs)
  case (Cons c cs')
  note ok = lifecycle.keeps [OF request_new_ok, of ctx c]
  show ?thesis
  proof (cases c)
    case Admit
    then have "rl_phase (request_step (request_new ctx) c) = Admitted" "fst (request_call (request_new ctx) c)"
      by (auto simp: request_step_def request_defs request_new_def)
    with admitted_succeed [OF ok] Admit Cons show ?thesis by (simp add: request_protocol_def)
  qed (use Cons in \<open>simp_all add: request_protocol_def request_defs request_new_def\<close>)
qed (simp add: request_protocol_def)

section \<open>The terminal record\<close>

definition writes_record :: "RequestLifecycle \<Rightarrow> RequestCall \<Rightarrow> bool" where
  "writes_record l c \<longleftrightarrow> (\<exists>t d. c = Terminalize t d) \<and> fst (request_call l c)"

interpretation terminal: spent_budget request_step writes_record "\<lambda>l. if rl_terminal_record l = None then 1 else 0"
proof
  fix l c
  show "(if rl_terminal_record (request_step l c) = None then 1 else 0) + (if writes_record l c then 1 else 0)
      \<le> (if rl_terminal_record l = None then (1::nat) else 0)"
    by (cases c)
       (auto simp: writes_record_def request_step_def request_defs Let_def split: RequestPhase.splits if_splits)
qed

text \<open>What a record says of the calls that led to it.\<close>

definition record_ok :: "RequestLifecycle \<Rightarrow> bool" where
  "record_ok l \<longleftrightarrow> lifecycle_ok l \<and>
     (case rl_terminal_record l of
        None \<Rightarrow> True
      | Some r \<Rightarrow> fr_context r = rl_context l \<and> fr_selected_attempt_id r = rl_selected_attempt_id l \<and>
          fr_attempt_count r = rl_attempt_count l)"

interpretation record_kept: kept_invariant request_step record_ok
proof
  show "record_ok (request_step l c)" if "record_ok l" for l c
    using that lifecycle.keeps [of l c]
    by (cases c)
       (auto simp: record_ok_def request_step_def lifecycle_ok_def request_defs final_record_new_def Let_def
         split: RequestPhase.splits option.splits if_splits)
qed

interpretation context_kept: kept_invariant request_step "\<lambda>l. rl_context l = ctx" for ctx
proof
  show "rl_context (request_step l c) = ctx" if "rl_context l = ctx" for l c
    using that by (cases c) (auto simp: request_step_def request_defs Let_def split: RequestPhase.splits)
qed

text \<open>
  Over any sequence of calls, legal or not, at most one terminal record is produced. Once
  there is one every further call is refused and changes nothing, and the record carries the
  context, the attempt count and the committed attempt of the machine.
\<close>
theorem request_terminal_once:
  assumes "reachable request_step (request_new ctx) l"
  shows "spent request_step writes_record (request_new ctx) cs \<le> 1 \<and>
    (case rl_terminal_record l of
       None \<Rightarrow> True
     | Some r \<Rightarrow> request_call l c = (False, l) \<and> fr_context r = ctx \<and>
         fr_attempt_count r = rl_attempt_count l \<and> fr_selected_attempt_id r = rl_selected_attempt_id l)"
proof -
  have "record_ok l"
    by (rule record_kept.reachable_keeps [OF assms]) (simp add: record_ok_def request_new_ok, simp add: request_new_def)
  moreover have "rl_context l = ctx" using context_kept.reachable_keeps [OF assms] by (simp add: request_new_def)
  moreover have "spent request_step writes_record (request_new ctx) cs \<le> 1"
    using terminal.spent_le [of "request_new ctx" cs] by (simp add: request_new_def split: if_splits)
  ultimately show ?thesis
    using terminal_sticky [of l c] by (auto simp: record_ok_def lifecycle_ok_def split: option.splits)
qed

text \<open>A request that fell back once: two attempts, the second one committed and completed.\<close>

definition example_context :: RequestContextSnapshot where
  "example_context = \<lparr>rx_request_id = ''req-1'', rx_method = ''POST'', rx_local_path = ''/v1/responses'',
     rx_endpoint = ''responses'', rx_received_at_ms = 1\<rparr>"

definition example_run :: "RequestCall list" where
  "example_run = [Admit, StartRouting, StartAttempt 0, StartAttempt 1,
     Commit \<lparr>aid_request_id = ''req-1'', aid_ordinal = 1\<rparr>,
     Terminalize (Completed \<lparr>rq_protocol_completed = True, rq_attempt_id = None\<rparr>) BodyCompleted]"

theorem request_terminal_once_witness:
  "fst (request_call (run_ops request_step (request_new example_context) example_run) Admit) = False \<and>
   map_option fr_attempt_count (rl_terminal_record (run_ops request_step (request_new example_context) example_run)) = Some 2"
proof -
  let ?l = "run_ops request_step (request_new example_context) example_run"
  have r: "reachable request_step (request_new example_context) ?l" by (rule reachable_run [OF reachable_init])
  have "map_option fr_attempt_count (rl_terminal_record ?l) = Some 2 \<and> rl_terminal_record ?l \<noteq> None"
    by (simp add: example_run_def request_step_def request_defs request_new_def final_record_new_def Let_def
        sat_add_def)
  then show ?thesis using request_terminal_once [OF r, of "[]" Admit] by (auto split: option.splits)
qed

end
