(* ===== verification/Finalization.thy ===== *)
theory Finalization
  imports Lifecycle BTree
begin

text \<open>
  What is recorded when an attempt or a request ends: the effects planned for a failure
  (\<^verbatim>\<open>request_finalization/effect_planner.rs\<close>), the cost of an attempt and the cost of the request
  (\<^verbatim>\<open>outcome.rs\<close>), and the records handed to the store (\<^verbatim>\<open>outcome_orchestrator.rs\<close>).
\<close>

section \<open>Effects of a failure\<close>

record FailureEffectPlan =
  ep_target :: FailureTarget
  ep_class :: FailureClass
  ep_retry :: RetryDisposition
  ep_health :: HealthEffect
  ep_capability :: CapabilityEffect
  ep_public_code :: PublicErrorCode

definition plan_failure_effects :: "CanonicalFailure \<Rightarrow> FailureEffectPlan" where
  "plan_failure_effects f =
     \<lparr>ep_target = cf_target f, ep_class = cf_class f, ep_retry = cf_retry f, ep_health = cf_health f,
      ep_capability = cf_capability f, ep_public_code = pe_code (cf_public f)\<rparr>"

fun attempt_kind_for_class :: "FailureClass \<Rightarrow> AttemptFailureKind" where
  "attempt_kind_for_class FC_Authentication = AK_Authentication"
| "attempt_kind_for_class FC_InsufficientBalance = AK_Balance"
| "attempt_kind_for_class FC_RateLimited = AK_RateLimit"
| "attempt_kind_for_class FC_QuotaExhausted = AK_RateLimit"
| "attempt_kind_for_class FC_Transport = AK_Connect"
| "attempt_kind_for_class FC_Timeout = AK_Timeout"
| "attempt_kind_for_class FC_Deadline = AK_Timeout"
| "attempt_kind_for_class FC_CapabilityMismatch = AK_CapabilityMismatch"
| "attempt_kind_for_class FC_ModelUnavailable = AK_CapabilityMismatch"
| "attempt_kind_for_class FC_PolicyRejected = AK_CapabilityMismatch"
| "attempt_kind_for_class FC_EconomicsUnavailable = AK_CapabilityMismatch"
| "attempt_kind_for_class FC_HealthUnavailable = AK_CapabilityMismatch"
| "attempt_kind_for_class FC_CandidateLimit = AK_CapabilityMismatch"
| "attempt_kind_for_class FC_BadRequest = AK_BadRequest"
| "attempt_kind_for_class FC_ProviderRejectedRequest = AK_BadRequest"
| "attempt_kind_for_class FC_ConfigRequired = AK_BadRequest"
| "attempt_kind_for_class FC_MalformedResponse = AK_MalformedResponse"
| "attempt_kind_for_class FC_StreamInterrupted = AK_StreamInterrupted"
| "attempt_kind_for_class FC_DownstreamDrop = AK_DownstreamDrop"
| "attempt_kind_for_class FC_NoAvailableKey = AK_LocalAdapter"
| "attempt_kind_for_class FC_Upstream5xx = AK_HttpStatus"
| "attempt_kind_for_class FC_UpstreamOverloaded = AK_HttpStatus"
| "attempt_kind_for_class FC_ProviderCapacity = AK_HttpStatus"
| "attempt_kind_for_class FC_RuntimeConcurrencyLimited = AK_HttpStatus"
| "attempt_kind_for_class FC_RelayServiceUnavailable = AK_HttpStatus"
| "attempt_kind_for_class FC_CapacityExhausted = AK_HttpStatus"
| "attempt_kind_for_class FC_FactsUnavailable = AK_HttpStatus"
| "attempt_kind_for_class FC_ConfigUnstable = AK_HttpStatus"
| "attempt_kind_for_class FC_Lifecycle = AK_HttpStatus"
| "attempt_kind_for_class FC_Invariant = AK_HttpStatus"
| "attempt_kind_for_class FC_Uncertain = AK_HttpStatus"

definition blame_for_target :: "FailureTarget \<Rightarrow> FailureBlame" where
  "blame_for_target target =
     (case target of
        TargetDownstream \<Rightarrow> BlameDownstream
      | TargetLocalAdapter _ \<Rightarrow> BlameLocalAdapter
      | TargetRequest \<Rightarrow> BlameLocalAdapter
      | TargetUncertain \<Rightarrow> BlameLocalAdapter
      | _ \<Rightarrow> BlameUpstream)"

fun lifecycle_health :: "HealthEffect \<Rightarrow> LifecycleHealth" where
  "lifecycle_health HE_Success = LH_Success"
| "lifecycle_health HE_ObserveFailure = LH_ObserveFailure"
| "lifecycle_health (HE_Cooldown retry_after_ms) = LH_Cooldown retry_after_ms"
| "lifecycle_health HE_HardFail = LH_HardFail"
| "lifecycle_health HE_Neutral = LH_Neutral"

definition into_classified_attempt_failure ::
  "FailureEffectPlan \<Rightarrow> CanonicalFailure \<Rightarrow> ClassifiedAttemptFailure" where
  "into_classified_attempt_failure plan failure =
     (let evidence_code = public_error_code (ep_public_code plan);
          durable_capability = (case ep_capability plan of
            ConfirmUnsupportedModel station_key_id model \<Rightarrow>
              Some (DurableUnsupportedModel station_key_id model evidence_code
                (cf_classifier_profile_version failure))
          | _ \<Rightarrow> None)
      in \<lparr>ca_kind = attempt_kind_for_class (ep_class plan),
          ca_blame = blame_for_target (ep_target plan),
          ca_retry = project_retry_disposition (ep_retry plan),
          ca_health = (case durable_capability of
            Some effect \<Rightarrow> LH_Capability effect
          | None \<Rightarrow> if ep_class plan \<in> {FC_ProviderCapacity, FC_RuntimeConcurrencyLimited} then LH_Neutral
              else lifecycle_health (ep_health plan)),
          ca_public_code = evidence_code,
          ca_sanitized_detail = Some (pe_message (cf_public failure))\<rparr>)"

definition classified_attempt_failure_from_canonical :: "CanonicalFailure \<Rightarrow> ClassifiedAttemptFailure" where
  "classified_attempt_failure_from_canonical failure =
     into_classified_attempt_failure (plan_failure_effects failure) failure"

text \<open>
  A provider signal teaches the store that a key does not serve a model exactly when it is a
  confirmed missing model and the catalog of the key is confirmed, and then it names that key and
  that model. A signal that blames neither the key, its account nor its group leaves the health of
  the key alone, and so does exhausted provider capacity.
\<close>
theorem capability_learned_only_when_confirmed:
  "(ca_health (classified_attempt_failure_from_canonical (failure_from_provider_signal s a)) =
      LH_Capability (DurableUnsupportedModel key model code version) \<longleftrightarrow>
    s = ConfirmedModelNotFound key model \<and> a = ConfirmedModelCatalog \<and>
    code = ''upstream_model_unavailable'' \<and> version = ''canonical-failure-v1'') \<and>
   (ca_health (classified_attempt_failure_from_canonical (failure_from_provider_signal s a)) \<in>
      {LH_ObserveFailure, LH_HardFail} \<longleftrightarrow>
    (\<exists>k. s = ConfirmedAuthentication k) \<or> (\<exists>st. s = ConfirmedInsufficientBalance st) \<or>
    (\<exists>st b. s = ConfirmedGroupSubscriptionInvalid st b) \<or> (\<exists>st r. s = SignalRateLimited st r) \<or>
    s = SignalOverloaded \<or> (\<exists>st e. s = SignalServerError st e) \<or> (\<exists>st e. s = SignalTransport st e) \<or>
    (\<exists>st e. s = SignalTimeout st e))"
  by (cases s)
     (auto simp: classified_attempt_failure_from_canonical_def into_classified_attempt_failure_def
       plan_failure_effects_def failure_from_provider_signal_def permits_model_not_found_learning_def
       public_error_def Let_def)

section \<open>Cost of an attempt\<close>

datatype FrozenPricingBasis = ExactPrice | MultiplierProxy | UnpricedBasis | BasisNotApplicable

record FrozenPricingAssessment =
  fp_pricing_context_id :: string
  fp_basis :: FrozenPricingBasis
  fp_currency :: "string option"
  fp_input_unit_price_micro :: "i64 option"
  fp_output_unit_price_micro :: "i64 option"
  fp_status_label :: string

datatype AttemptUsageStatus = UsageComplete | UsageMissing | UsageStreamMissing | UsageNotApplicable

record TokenUsage =
  tu_input_tokens :: i64
  tu_output_tokens :: i64
  tu_total_tokens :: i64
  tu_cache_creation_tokens :: "i64 option"
  tu_cache_read_tokens :: "i64 option"

record AttemptUsageSnapshot =
  us_status :: AttemptUsageStatus
  us_tokens :: "TokenUsage option"

datatype AttemptCostStatus = Priced | MissingUsage | StreamUsageMissing | Unpriced | PricingIncomplete | NotApplicable

record AttemptCostSnapshot =
  co_attempt_id :: AttemptId
  co_pricing :: FrozenPricingAssessment
  co_usage :: AttemptUsageSnapshot
  co_status :: AttemptCostStatus
  co_total_cost_micro :: "i64 option"
  co_currency :: "string option"

datatype OutcomeInvariantError =
    PricedCostWithoutCompleteUsage AttemptId
  | PricedCostWithoutCurrency AttemptId
  | UnavailableCostMarkedPriced AttemptId
  | MissingDurableAttemptCost AttemptId
  | ForeignAttemptCost AttemptId
  | DuplicateAttemptCost AttemptId

definition cost_priced ::
  "AttemptId \<Rightarrow> FrozenPricingAssessment \<Rightarrow> AttemptUsageSnapshot \<Rightarrow> i64 \<Rightarrow> OutcomeInvariantError + AttemptCostSnapshot" where
  "cost_priced attempt_id pricing usage total_cost_micro =
     (if us_status usage \<noteq> UsageComplete \<or> us_tokens usage = None
      then Inl (PricedCostWithoutCompleteUsage attempt_id)
      else case fp_currency pricing of
        None \<Rightarrow> Inl (PricedCostWithoutCurrency attempt_id)
      | Some currency \<Rightarrow>
        if currency = [] then Inl (PricedCostWithoutCurrency attempt_id)
        else Inr \<lparr>co_attempt_id = attempt_id, co_pricing = pricing, co_usage = usage, co_status = Priced,
          co_total_cost_micro = Some total_cost_micro, co_currency = Some currency\<rparr>)"

definition cost_unavailable ::
  "AttemptId \<Rightarrow> FrozenPricingAssessment \<Rightarrow> AttemptUsageSnapshot \<Rightarrow> AttemptCostStatus
    \<Rightarrow> OutcomeInvariantError + AttemptCostSnapshot" where
  "cost_unavailable attempt_id pricing usage status =
     (if status = Priced then Inl (UnavailableCostMarkedPriced attempt_id)
      else Inr \<lparr>co_attempt_id = attempt_id, co_pricing = pricing, co_usage = usage, co_status = status,
        co_total_cost_micro = None, co_currency = None\<rparr>)"

section \<open>Cost of a request\<close>

record MoneyAmount =
  mo_currency :: string
  mo_amount_micro :: i64

record AttemptCostGap =
  cg_attempt_id :: AttemptId
  cg_status :: AttemptCostStatus

datatype RequestCostAggregateStatus =
    NoAttempts | CompleteSingleCurrency string | CompleteMixedCurrency "string list" | Incomplete
  | AggregateNotApplicable

record RequestCostAggregate =
  ag_status :: RequestCostAggregateStatus
  ag_totals_by_currency_micro :: "(string, i64) btree"
  ag_compatibility_total :: "MoneyAmount option"
  ag_incomplete_attempts :: "AttemptCostGap list"

text \<open>Addition of \<^verbatim>\<open>i64\<close> as in a release build: it wraps.\<close>

definition i64_wrap :: "int \<Rightarrow> i64" where
  "i64_wrap x = (x + 2 ^ 63) mod 2 ^ 64 - 2 ^ 63"

text \<open>Every cost belongs to a started attempt, and no attempt has two.\<close>

fun check_durable_costs ::
  "AttemptId list \<Rightarrow> AttemptId list \<Rightarrow> AttemptCostSnapshot list \<Rightarrow> OutcomeInvariantError + AttemptId list" where
  "check_durable_costs expected seen [] = Inr seen"
| "check_durable_costs expected seen (snapshot # rest) =
     (let attempt_id = co_attempt_id snapshot in
      if attempt_id \<notin> set expected then Inl (ForeignAttemptCost attempt_id)
      else if attempt_id \<in> set seen then Inl (DuplicateAttemptCost attempt_id)
      else check_durable_costs expected (attempt_id # seen) rest)"

definition find_missing_cost :: "AttemptId list \<Rightarrow> AttemptId list \<Rightarrow> AttemptId option" where
  "find_missing_cost started seen = find (\<lambda>attempt_id. attempt_id \<notin> set seen) started"

definition add_total :: "string \<Rightarrow> i64 \<Rightarrow> (string, i64) btree \<Rightarrow> (string, i64) btree" where
  "add_total currency amount totals =
     bt_insert currency (i64_wrap ((case map_of totals currency of None \<Rightarrow> 0 | Some t \<Rightarrow> t) + amount)) totals"

fun sum_costs ::
  "AttemptCostSnapshot list \<Rightarrow> (string, i64) btree \<Rightarrow> AttemptCostGap list \<Rightarrow> nat
    \<Rightarrow> OutcomeInvariantError + ((string, i64) btree \<times> AttemptCostGap list \<times> nat)" where
  "sum_costs [] totals gaps not_applicable = Inr (totals, gaps, not_applicable)"
| "sum_costs (snapshot # rest) totals gaps not_applicable =
     (case co_status snapshot of
        Priced \<Rightarrow>
          (case co_currency snapshot of
             None \<Rightarrow> Inl (PricedCostWithoutCurrency (co_attempt_id snapshot))
           | Some currency \<Rightarrow>
             (case co_total_cost_micro snapshot of
                None \<Rightarrow> Inl (PricedCostWithoutCompleteUsage (co_attempt_id snapshot))
              | Some cost \<Rightarrow> sum_costs rest (add_total currency cost totals) gaps not_applicable))
      | NotApplicable \<Rightarrow> sum_costs rest totals gaps (not_applicable + 1)
      | status \<Rightarrow> sum_costs rest totals
          (gaps @ [\<lparr>cg_attempt_id = co_attempt_id snapshot, cg_status = status\<rparr>]) not_applicable)"

definition aggregate_status ::
  "(string, i64) btree \<Rightarrow> AttemptCostGap list \<Rightarrow> nat \<Rightarrow> nat \<Rightarrow> RequestCostAggregateStatus" where
  "aggregate_status totals gaps not_applicable cost_count =
     (if gaps \<noteq> [] then Incomplete
      else if totals = [] \<and> not_applicable = cost_count then AggregateNotApplicable
      else if length totals = 1 then CompleteSingleCurrency (fst (hd totals))
      else CompleteMixedCurrency (map fst totals))"

definition aggregate_request_costs ::
  "AttemptId list \<Rightarrow> AttemptCostSnapshot list \<Rightarrow> OutcomeInvariantError + RequestCostAggregate" where
  "aggregate_request_costs started durable_costs =
     (if started = [] then Inr \<lparr>ag_status = NoAttempts, ag_totals_by_currency_micro = [],
        ag_compatibility_total = None, ag_incomplete_attempts = []\<rparr>
      else rbind (check_durable_costs started [] durable_costs) (\<lambda>seen.
        case find_missing_cost started seen of
          Some attempt_id \<Rightarrow> Inl (MissingDurableAttemptCost attempt_id)
        | None \<Rightarrow> rbind (sum_costs durable_costs [] [] 0) (\<lambda>(totals, gaps, not_applicable).
            let status = aggregate_status totals gaps not_applicable (length durable_costs) in
            Inr \<lparr>ag_status = status, ag_totals_by_currency_micro = totals,
              ag_compatibility_total = (case status of
                CompleteSingleCurrency currency \<Rightarrow>
                  map_option (\<lambda>amount. \<lparr>mo_currency = currency, mo_amount_micro = amount\<rparr>) (map_of totals currency)
              | _ \<Rightarrow> None),
              ag_incomplete_attempts = gaps\<rparr>)))"

section \<open>The aggregate against its specification\<close>

definition priced_in :: "string \<Rightarrow> AttemptCostSnapshot \<Rightarrow> bool" where
  "priced_in currency s \<longleftrightarrow> co_status s = Priced \<and> co_currency s = Some currency"

definition currency_total :: "AttemptCostSnapshot list \<Rightarrow> string \<Rightarrow> int" where
  "currency_total costs currency = sum_list (map (\<lambda>s. the (co_total_cost_micro s)) (filter (priced_in currency) costs))"

definition currencies :: "AttemptCostSnapshot list \<Rightarrow> string set" where
  "currencies costs = {c. \<exists>s \<in> set costs. priced_in c s}"

definition cost_gaps :: "AttemptCostSnapshot list \<Rightarrow> AttemptCostGap list" where
  "cost_gaps costs = map (\<lambda>s. \<lparr>cg_attempt_id = co_attempt_id s, cg_status = co_status s\<rparr>)
     (filter (\<lambda>s. co_status s \<noteq> Priced \<and> co_status s \<noteq> NotApplicable) costs)"

definition priced_ok :: "AttemptCostSnapshot \<Rightarrow> bool" where
  "priced_ok s \<longleftrightarrow> co_status s = Priced \<longrightarrow> co_currency s \<noteq> None \<and> co_total_cost_micro s \<noteq> None"

text \<open>Every snapshot that the two constructors build is acceptable to the aggregation.\<close>

lemma constructed_costs_ok:
  "cost_priced i p u t = Inr s \<Longrightarrow> priced_ok s" "cost_unavailable i p u st = Inr s \<Longrightarrow> priced_ok s"
  by (auto simp: cost_priced_def cost_unavailable_def priced_ok_def split: if_splits option.splits)

lemma i64_wrap_add: "i64_wrap (i64_wrap a + b) = i64_wrap (a + b)"
proof -
  have "((a + 2 ^ 63) mod 2 ^ 64 - 2 ^ 63 + b + 2 ^ 63) mod 2 ^ 64 = ((a + 2 ^ 63) mod 2 ^ 64 + b) mod (2 ^ 64 :: int)"
    by (simp add: algebra_simps)
  also have "\<dots> = (a + 2 ^ 63 + b) mod 2 ^ 64" by (simp add: mod_add_left_eq)
  finally show ?thesis by (simp add: i64_wrap_def algebra_simps)
qed

lemma i64_wrap_id: "i64_min \<le> x \<Longrightarrow> x \<le> i64_max \<Longrightarrow> i64_wrap x = x"
  by (simp add: i64_wrap_def i64_min_def i64_max_def)

definition totals_of :: "AttemptCostSnapshot list \<Rightarrow> (string, i64) btree \<Rightarrow> bool" where
  "totals_of costs m \<longleftrightarrow> bt_ok m \<and>
     (\<forall>c. map_of m c = (if c \<in> currencies costs then Some (i64_wrap (currency_total costs c)) else None))"

lemma currency_total_none: "c \<notin> currencies costs \<Longrightarrow> currency_total costs c = 0"
  by (auto simp: currencies_def currency_total_def filter_False)

lemma currencies_append: "currencies (pre @ [s]) = currencies pre \<union> {c. priced_in c s}"
  by (auto simp: currencies_def)

lemma totals_skip: "totals_of pre m \<Longrightarrow> co_status s \<noteq> Priced \<Longrightarrow> totals_of (pre @ [s]) m"
  by (simp add: totals_of_def currencies_append priced_in_def currency_total_def)

lemma totals_add:
  assumes "totals_of pre m" "co_status s = Priced" "co_currency s = Some cur" "co_total_cost_micro s = Some t"
  shows "totals_of (pre @ [s]) (add_total cur t m)"
proof -
  have p: "priced_in c s \<longleftrightarrow> c = cur" for c using assms by (auto simp: priced_in_def)
  have tot: "currency_total (pre @ [s]) c = currency_total pre c + (if c = cur then t else 0)" for c
    using assms(4) by (simp add: currency_total_def p)
  have "i64_wrap ((case map_of m cur of None \<Rightarrow> 0 | Some t \<Rightarrow> t) + t) = i64_wrap (currency_total pre cur + t)"
    using assms(1) currency_total_none [of cur pre] by (simp add: totals_of_def i64_wrap_add)
  with assms(1) show ?thesis
    by (auto simp: totals_of_def add_total_def bt_ok_insert map_of_bt_insert currencies_append p tot)
qed

lemma sum_costs_spec:
  "totals_of pre m \<Longrightarrow>
   (case sum_costs costs m gaps n of
      Inl _ \<Rightarrow> \<not> list_all priced_ok costs
    | Inr (m', gaps', n') \<Rightarrow> list_all priced_ok costs \<and> totals_of (pre @ costs) m' \<and>
        gaps' = gaps @ cost_gaps costs \<and> n' = n + length (filter (\<lambda>s. co_status s = NotApplicable) costs))"
proof (induction costs arbitrary: pre m gaps n)
  case Nil
  then show ?case by (simp add: cost_gaps_def)
next
  case (Cons s costs)
  show ?case
  proof (cases "co_status s = Priced")
    case True
    show ?thesis
    proof (cases "priced_ok s")
      case False
      with True show ?thesis by (auto simp: priced_ok_def split: option.splits)
    next
      case ok: True
      then obtain cur t where ct: "co_currency s = Some cur" "co_total_cost_micro s = Some t"
        using True by (auto simp: priced_ok_def)
      have "totals_of (pre @ [s]) (add_total cur t m)" by (rule totals_add [OF Cons.prems True ct])
      from Cons.IH [OF this, where gaps = gaps and n = n] True ct ok show ?thesis
        by (auto simp: cost_gaps_def split: sum.splits)
    qed
  next
    case False
    then have ok: "priced_ok s" by (simp add: priced_ok_def)
    note IH = Cons.IH [OF totals_skip [OF Cons.prems False]]
    show ?thesis
    proof (cases "co_status s = NotApplicable")
      case True
      then show ?thesis using IH [where gaps = gaps and n = "n + 1"] ok by (auto simp: cost_gaps_def split: sum.splits)
    next
      case other: False
      then have "sum_costs (s # costs) m gaps n =
          sum_costs costs m (gaps @ [\<lparr>cg_attempt_id = co_attempt_id s, cg_status = co_status s\<rparr>]) n"
        using False by (auto split: AttemptCostStatus.splits)
      then show ?thesis using IH [where gaps = "gaps @ [\<lparr>cg_attempt_id = co_attempt_id s, cg_status = co_status s\<rparr>]" and n = n] ok False other
        by (auto simp: cost_gaps_def split: sum.splits)
    qed
  qed
qed

lemma check_durable_spec:
  "case check_durable_costs expected seen costs of
     Inl _ \<Rightarrow> \<not> (set (map co_attempt_id costs) \<subseteq> set expected \<and> distinct (map co_attempt_id costs) \<and>
       set (map co_attempt_id costs) \<inter> set seen = {})
   | Inr seen' \<Rightarrow> set (map co_attempt_id costs) \<subseteq> set expected \<and> distinct (map co_attempt_id costs) \<and>
       set (map co_attempt_id costs) \<inter> set seen = {} \<and> set seen' = set (map co_attempt_id costs) \<union> set seen"
proof (induction costs arbitrary: seen)
  case (Cons s costs)
  from Cons.IH [where seen = "co_attempt_id s # seen"] show ?case by (auto simp: Let_def split: sum.splits)
qed simp

lemma single_total:
  assumes "totals_of costs m"
  shows "length m = 1 \<longleftrightarrow> (\<exists>c. currencies costs = {c})"
    and "length m = 1 \<Longrightarrow> currencies costs = {fst (hd m)}"
proof -
  have dom: "fst ` set m = currencies costs"
    using assms by (auto simp: totals_of_def dom_map_of_conv_image_fst [symmetric] split: if_splits)
  have "distinct (map fst m)" using assms by (simp add: totals_of_def bt_ok_def)
  then have "length m = card (fst ` set m)" by (metis distinct_card length_map set_map)
  with dom show "length m = 1 \<longleftrightarrow> (\<exists>c. currencies costs = {c})" by (simp add: card_1_singleton_iff)
  show "currencies costs = {fst (hd m)}" if "length m = 1" using that dom by (cases m) auto
qed

lemma compatibility_total:
  assumes "totals_of costs m" "gaps = cost_gaps costs"
  shows "(case aggregate_status m gaps n k of
      CompleteSingleCurrency currency \<Rightarrow>
        map_option (\<lambda>amount. \<lparr>mo_currency = currency, mo_amount_micro = amount\<rparr>) (map_of m currency)
    | _ \<Rightarrow> None) =
   (if cost_gaps costs = [] \<and> (\<exists>c. currencies costs = {c})
    then Some \<lparr>mo_currency = the_elem (currencies costs),
      mo_amount_micro = i64_wrap (currency_total costs (the_elem (currencies costs)))\<rparr> else None)"
proof (cases "gaps = [] \<and> length m = 1")
  case True
  then have st: "aggregate_status m gaps n k = CompleteSingleCurrency (fst (hd m))"
    by (auto simp: aggregate_status_def)
  have cur: "currencies costs = {fst (hd m)}" using single_total(2) [OF assms(1)] True by blast
  have "map_of m (fst (hd m)) = Some (i64_wrap (currency_total costs (fst (hd m))))"
    using assms(1) cur by (simp add: totals_of_def)
  then show ?thesis unfolding st cur using True assms(2) by simp
next
  case False
  then have "aggregate_status m gaps n k \<noteq> CompleteSingleCurrency c" for c
    by (auto simp: aggregate_status_def)
  moreover have "\<not> (cost_gaps costs = [] \<and> (\<exists>c. currencies costs = {c}))"
    using False single_total(1) [OF assms(1)] assms(2) by blast
  ultimately show ?thesis by (simp split: RequestCostAggregateStatus.splits)
qed

lemma cost_aggregate_spec:
  assumes "started \<noteq> []"
  shows "case aggregate_request_costs started costs of
      Inl _ \<Rightarrow> \<not> (distinct (map co_attempt_id costs) \<and> set (map co_attempt_id costs) = set started \<and>
        list_all priced_ok costs)
    | Inr agg \<Rightarrow> distinct (map co_attempt_id costs) \<and> set (map co_attempt_id costs) = set started \<and>
        list_all priced_ok costs \<and>
        bt_ok (ag_totals_by_currency_micro agg) \<and>
        map_of (ag_totals_by_currency_micro agg) = (\<lambda>c. if c \<in> currencies costs
          then Some (i64_wrap (currency_total costs c)) else None) \<and>
        ag_incomplete_attempts agg = cost_gaps costs \<and>
        (ag_status agg = Incomplete \<longleftrightarrow> cost_gaps costs \<noteq> []) \<and>
        ag_compatibility_total agg = (if cost_gaps costs = [] \<and> (\<exists>c. currencies costs = {c})
          then Some \<lparr>mo_currency = the_elem (currencies costs),
            mo_amount_micro = i64_wrap (currency_total costs (the_elem (currencies costs)))\<rparr> else None)"
proof (cases "check_durable_costs started [] costs")
  case (Inl e)
  with check_durable_spec [where expected = started and seen = "[]" and costs = costs] assms show ?thesis
    by (auto simp: aggregate_request_costs_def)
next
  case (Inr seen)
  with check_durable_spec [where expected = started and seen = "[]" and costs = costs]
  have seen: "set (map co_attempt_id costs) \<subseteq> set started" "distinct (map co_attempt_id costs)"
    "set seen = set (map co_attempt_id costs)" by auto
  have miss: "find_missing_cost started seen = None \<longleftrightarrow> set (map co_attempt_id costs) = set started"
    using seen by (auto simp: find_missing_cost_def find_None_iff)
  show ?thesis
  proof (cases "find_missing_cost started seen")
    case (Some i)
    with miss Inr assms show ?thesis by (auto simp: aggregate_request_costs_def)
  next
    case None
    with miss have all: "set (map co_attempt_id costs) = set started" by simp
    have "totals_of [] []" by (simp add: totals_of_def bt_ok_def currencies_def)
    note sum = sum_costs_spec [OF this, where costs = costs and gaps = "[]" and n = 0]
    show ?thesis
    proof (cases "sum_costs costs [] [] 0")
      case (Inl e)
      with sum None Inr assms show ?thesis by (simp add: aggregate_request_costs_def \<open>check_durable_costs started [] costs = Inr seen\<close>)
    next
      case (Inr r)
      obtain m gaps n where r: "r = (m, gaps, n)" by (cases r)
      from sum Inr r have m: "totals_of costs m" "gaps = cost_gaps costs" "list_all priced_ok costs" by auto
      have agg: "aggregate_request_costs started costs = Inr \<lparr>ag_status = aggregate_status m gaps n (length costs),
          ag_totals_by_currency_micro = m,
          ag_compatibility_total = (case aggregate_status m gaps n (length costs) of
            CompleteSingleCurrency currency \<Rightarrow>
              map_option (\<lambda>amount. \<lparr>mo_currency = currency, mo_amount_micro = amount\<rparr>) (map_of m currency)
          | _ \<Rightarrow> None),
          ag_incomplete_attempts = gaps\<rparr>"
        using Inr r None assms \<open>check_durable_costs started [] costs = Inr seen\<close>
        by (simp add: aggregate_request_costs_def Let_def)
      have tot: "map_of m = (\<lambda>c. if c \<in> currencies costs then Some (i64_wrap (currency_total costs c)) else None)"
        using m(1) by (auto simp: totals_of_def)
      have "(case aggregate_status m gaps n (length costs) of
            CompleteSingleCurrency currency \<Rightarrow>
              map_option (\<lambda>amount. \<lparr>mo_currency = currency, mo_amount_micro = amount\<rparr>) (map_of m currency)
          | _ \<Rightarrow> None) =
         (if cost_gaps costs = [] \<and> (\<exists>c. currencies costs = {c})
          then Some \<lparr>mo_currency = the_elem (currencies costs),
            mo_amount_micro = i64_wrap (currency_total costs (the_elem (currencies costs)))\<rparr> else None)"
        by (rule compatibility_total [OF m(1,2)])
      moreover have "aggregate_status m gaps n (length costs) = Incomplete \<longleftrightarrow> cost_gaps costs \<noteq> []"
        by (auto simp: aggregate_status_def m(2))
      ultimately show ?thesis using m all seen(2) tot by (simp add: agg totals_of_def)
    qed
  qed
qed

text \<open>
  C27: The cost of a request is aggregated exactly when every started attempt has one durable cost
  and no other cost is present, and every priced one has an amount and a currency; otherwise the
  aggregation fails. The totals are the sums per currency (as \<^verbatim>\<open>i64\<close>, so a total within the
  range of \<^verbatim>\<open>i64\<close> is exact), the gaps list the attempts without a price in order, and the
  compatibility total is given exactly for a gapless request in a single currency.
\<close>
theorem cost_aggregate_exact:
  assumes "started \<noteq> []"
  shows "case aggregate_request_costs started costs of
      Inl _ \<Rightarrow> \<not> (distinct (map co_attempt_id costs) \<and> set (map co_attempt_id costs) = set started \<and>
        list_all priced_ok costs)
    | Inr agg \<Rightarrow> distinct (map co_attempt_id costs) \<and> set (map co_attempt_id costs) = set started \<and>
        list_all priced_ok costs \<and>
        bt_ok (ag_totals_by_currency_micro agg) \<and>
        map_of (ag_totals_by_currency_micro agg) = (\<lambda>c. if c \<in> currencies costs
          then Some (i64_wrap (currency_total costs c)) else None) \<and>
        ag_incomplete_attempts agg = cost_gaps costs \<and>
        (ag_status agg = Incomplete \<longleftrightarrow> cost_gaps costs \<noteq> []) \<and>
        ag_compatibility_total agg = (if cost_gaps costs = [] \<and> (\<exists>c. currencies costs = {c})
          then Some \<lparr>mo_currency = the_elem (currencies costs),
            mo_amount_micro = i64_wrap (currency_total costs (the_elem (currencies costs)))\<rparr> else None)"
  by (rule cost_aggregate_spec [OF assms])

text \<open>Two attempts priced in one currency.\<close>

definition example_pricing :: FrozenPricingAssessment where
  "example_pricing = \<lparr>fp_pricing_context_id = ''ctx'', fp_basis = ExactPrice, fp_currency = Some ''USD'',
     fp_input_unit_price_micro = Some 2, fp_output_unit_price_micro = Some 8, fp_status_label = ''fresh''\<rparr>"

definition example_usage :: AttemptUsageSnapshot where
  "example_usage = \<lparr>us_status = UsageComplete, us_tokens = Some \<lparr>tu_input_tokens = 10, tu_output_tokens = 5,
     tu_total_tokens = 15, tu_cache_creation_tokens = None, tu_cache_read_tokens = None\<rparr>\<rparr>"

definition example_attempt :: "u16 \<Rightarrow> AttemptId" where
  "example_attempt n = \<lparr>aid_request_id = ''req-1'', aid_ordinal = n\<rparr>"

definition example_cost :: "u16 \<Rightarrow> i64 \<Rightarrow> AttemptCostSnapshot" where
  "example_cost n micro = projr (cost_priced (example_attempt n) example_pricing example_usage micro)"

lemmas cost_eval = example_cost_def cost_priced_def example_usage_def example_pricing_def example_attempt_def
  aggregate_request_costs_def find_missing_cost_def aggregate_status_def add_total_def i64_wrap_def Let_def

theorem cost_aggregate_exact_witness:
  "ag_compatibility_total (projr (aggregate_request_costs [example_attempt 0, example_attempt 1]
     [example_cost 1 60, example_cost 0 40])) = Some \<lparr>mo_currency = ''USD'', mo_amount_micro = 100\<rparr>"
proof -
  let ?started = "[example_attempt 0, example_attempt 1]" and ?costs = "[example_cost 1 60, example_cost 0 40]"
  have c: "currencies ?costs = {''USD''}" "cost_gaps ?costs = []" "currency_total ?costs ''USD'' = 100"
    by (auto simp: currencies_def priced_in_def cost_gaps_def currency_total_def cost_eval)
  obtain agg where "aggregate_request_costs ?started ?costs = Inr agg"
    by (simp add: cost_eval)
  with cost_aggregate_exact [of ?started ?costs] c show ?thesis by (simp add: i64_wrap_def)
qed

text \<open>The sum of two representable costs may leave the range; the release build then wraps.\<close>

lemma cost_total_wraps:
  "ag_compatibility_total (projr (aggregate_request_costs [example_attempt 0, example_attempt 1]
     [example_cost 0 i64_max, example_cost 1 1])) = Some \<lparr>mo_currency = ''USD'', mo_amount_micro = i64_min\<rparr>"
  by (simp add: cost_eval i64_max_def i64_min_def)

section \<open>Records for the store\<close>

fun pricing_basis_str :: "FrozenPricingBasis \<Rightarrow> string" where
  "pricing_basis_str ExactPrice = ''exact_price''"
| "pricing_basis_str MultiplierProxy = ''multiplier_proxy''"
| "pricing_basis_str UnpricedBasis = ''unpriced''"
| "pricing_basis_str BasisNotApplicable = ''not_applicable''"

fun usage_status_str :: "AttemptUsageStatus \<Rightarrow> string" where
  "usage_status_str UsageComplete = ''complete''"
| "usage_status_str UsageMissing = ''missing_usage''"
| "usage_status_str UsageStreamMissing = ''stream_usage_missing''"
| "usage_status_str UsageNotApplicable = ''not_applicable''"

fun cost_status_str :: "AttemptCostStatus \<Rightarrow> string" where
  "cost_status_str Priced = ''priced''"
| "cost_status_str MissingUsage = ''missing_usage''"
| "cost_status_str StreamUsageMissing = ''stream_usage_missing''"
| "cost_status_str Unpriced = ''unpriced''"
| "cost_status_str PricingIncomplete = ''pricing_incomplete''"
| "cost_status_str NotApplicable = ''not_applicable''"

fun aggregate_status_str :: "RequestCostAggregateStatus \<Rightarrow> string" where
  "aggregate_status_str NoAttempts = ''no_attempts''"
| "aggregate_status_str (CompleteSingleCurrency _) = ''complete_single_currency''"
| "aggregate_status_str (CompleteMixedCurrency _) = ''complete_mixed_currency''"
| "aggregate_status_str Incomplete = ''incomplete''"
| "aggregate_status_str AggregateNotApplicable = ''not_applicable''"

record AttemptCostCommitRecord =
  cr_request_id :: string
  cr_ordinal :: u16
  cr_pricing_context_id :: string
  cr_pricing_basis :: string
  cr_pricing_status_label :: string
  cr_usage_status :: string
  cr_input_tokens :: "i64 option"
  cr_output_tokens :: "i64 option"
  cr_total_tokens :: "i64 option"
  cr_cache_creation_tokens :: "i64 option"
  cr_cache_read_tokens :: "i64 option"
  cr_cost_status :: string
  cr_currency :: "string option"
  cr_total_cost_micro :: "i64 option"
  cr_created_at_ms :: i64

definition attempt_cost_commit_record :: "AttemptCostSnapshot \<Rightarrow> i64 \<Rightarrow> AttemptCostCommitRecord" where
  "attempt_cost_commit_record cost created_at_ms =
     (let tokens = us_tokens (co_usage cost) in
      \<lparr>cr_request_id = aid_request_id (co_attempt_id cost), cr_ordinal = aid_ordinal (co_attempt_id cost),
       cr_pricing_context_id = fp_pricing_context_id (co_pricing cost),
       cr_pricing_basis = pricing_basis_str (fp_basis (co_pricing cost)),
       cr_pricing_status_label = fp_status_label (co_pricing cost),
       cr_usage_status = usage_status_str (us_status (co_usage cost)),
       cr_input_tokens = map_option tu_input_tokens tokens,
       cr_output_tokens = map_option tu_output_tokens tokens,
       cr_total_tokens = map_option tu_total_tokens tokens,
       cr_cache_creation_tokens = Option.bind tokens tu_cache_creation_tokens,
       cr_cache_read_tokens = Option.bind tokens tu_cache_read_tokens,
       cr_cost_status = cost_status_str (co_status cost), cr_currency = co_currency cost,
       cr_total_cost_micro = co_total_cost_micro cost, cr_created_at_ms = created_at_ms\<rparr>)"

definition interrupted_attempt_cost :: "AttemptId \<Rightarrow> i64 \<Rightarrow> AttemptCostCommitRecord" where
  "interrupted_attempt_cost attempt_id created_at_ms =
     \<lparr>cr_request_id = aid_request_id attempt_id, cr_ordinal = aid_ordinal attempt_id,
      cr_pricing_context_id = ''trace_incomplete'', cr_pricing_basis = ''unpriced'',
      cr_pricing_status_label = ''trace_incomplete'', cr_usage_status = ''missing_usage'',
      cr_input_tokens = None, cr_output_tokens = None, cr_total_tokens = None,
      cr_cache_creation_tokens = None, cr_cache_read_tokens = None,
      cr_cost_status = ''missing_usage'', cr_currency = None, cr_total_cost_micro = None,
      cr_created_at_ms = created_at_ms\<rparr>"

record RequestCostAggregateCommitRecord =
  ra_request_id :: string
  ra_status :: string
  ra_totals_by_currency_json :: string
  ra_compatibility_currency :: "string option"
  ra_compatibility_total_cost_micro :: "i64 option"
  ra_incomplete_attempts_json :: string
  ra_written_at_ms :: i64

text \<open>The JSON writer is a library: a parameter for the totals and one for the list of gaps.\<close>

definition request_cost_aggregate_commit_record ::
  "((string, i64) btree \<Rightarrow> string) \<Rightarrow> ((string \<times> u16 \<times> string) list \<Rightarrow> string)
    \<Rightarrow> string \<Rightarrow> RequestCostAggregate \<Rightarrow> i64 \<Rightarrow> RequestCostAggregateCommitRecord" where
  "request_cost_aggregate_commit_record totals_json gaps_json request_id aggregate written_at_ms =
     \<lparr>ra_request_id = request_id, ra_status = aggregate_status_str (ag_status aggregate),
      ra_totals_by_currency_json = totals_json (ag_totals_by_currency_micro aggregate),
      ra_compatibility_currency = map_option mo_currency (ag_compatibility_total aggregate),
      ra_compatibility_total_cost_micro = map_option mo_amount_micro (ag_compatibility_total aggregate),
      ra_incomplete_attempts_json = gaps_json (map (\<lambda>gap. (aid_request_id (cg_attempt_id gap),
         aid_ordinal (cg_attempt_id gap), cost_status_str (cg_status gap))) (ag_incomplete_attempts aggregate)),
      ra_written_at_ms = written_at_ms\<rparr>"

definition missing_usage_request_cost_aggregate ::
  "((string \<times> u16 \<times> string) list \<Rightarrow> string) \<Rightarrow> string \<Rightarrow> u16 list \<Rightarrow> i64 \<Rightarrow> RequestCostAggregateCommitRecord" where
  "missing_usage_request_cost_aggregate gaps_json request_id attempted_ordinals written_at_ms =
     \<lparr>ra_request_id = request_id, ra_status = ''incomplete'', ra_totals_by_currency_json = ''{}'',
      ra_compatibility_currency = None, ra_compatibility_total_cost_micro = None,
      ra_incomplete_attempts_json = gaps_json (map (\<lambda>ordinal. (request_id, ordinal, ''missing_usage'')) attempted_ordinals),
      ra_written_at_ms = written_at_ms\<rparr>"

text \<open>The status labels of the store are told apart.\<close>

lemma cost_status_str_inject: "cost_status_str a = cost_status_str b \<longleftrightarrow> a = b"
  by (cases a; cases b) simp_all

text \<open>
  Attempts that were all interrupted without usage are recorded alike by the aggregation of their
  costs and by the record that is written without one.
\<close>

lemma missing_usage_agrees:
  assumes "started \<noteq> []" "map co_attempt_id costs = started" "distinct started"
    and "list_all (\<lambda>s. co_status s = MissingUsage) costs" "list_all (\<lambda>i. aid_request_id i = rid) started"
    and "totals_json [] = ''{}''"
  shows "\<exists>agg. aggregate_request_costs started costs = Inr agg \<and>
    request_cost_aggregate_commit_record totals_json gaps_json rid agg t =
    missing_usage_request_cost_aggregate gaps_json rid (map aid_ordinal started) t"
proof -
  have nonpriced: "list_all priced_ok costs" "currencies costs = {}"
    using assms(4) by (auto simp: list_all_iff priced_ok_def currencies_def priced_in_def)
  have gaps: "cost_gaps costs = map (\<lambda>s. \<lparr>cg_attempt_id = co_attempt_id s, cg_status = MissingUsage\<rparr>) costs"
    using assms(4) by (auto simp: cost_gaps_def list_all_iff)
  note exact = cost_aggregate_spec [OF assms(1), where costs = costs]
  obtain agg where agg: "aggregate_request_costs started costs = Inr agg"
    using exact assms(2,3) nonpriced(1) by (cases "aggregate_request_costs started costs") auto
  with exact have a: "map_of (ag_totals_by_currency_micro agg) = Map.empty" "ag_status agg = Incomplete"
    "ag_incomplete_attempts agg = cost_gaps costs" "ag_compatibility_total agg = None"
    using nonpriced(2) gaps assms(1,2) by auto
  have "ag_totals_by_currency_micro agg = []" using a(1) by (simp add: map_of_eq_empty_iff)
  moreover have "map (\<lambda>gap. (aid_request_id (cg_attempt_id gap), aid_ordinal (cg_attempt_id gap),
      cost_status_str (cg_status gap))) (cost_gaps costs) =
     map (\<lambda>ordinal. (rid, ordinal, ''missing_usage'')) (map aid_ordinal started)"
    using assms(2,5) by (auto simp: gaps list_all_iff)
  ultimately show ?thesis using agg a assms(6)
    by (simp add: request_cost_aggregate_commit_record_def missing_usage_request_cost_aggregate_def)
qed

end
