(* ===== verification/AlertPolicy.thy ===== *)
theory AlertPolicy
  imports BTree RustString
begin

text \<open>
  Alert events and policies (\<^verbatim>\<open>models/alerting/event.rs\<close>, \<^verbatim>\<open>models/alerting/policy.rs\<close>,
  \<^verbatim>\<open>application/alerting/policy_resolver.rs\<close>): the registry of event types, the user's alert
  policies with their validation, and the resolution of the one policy that governs an observation.
\<close>

section \<open>Event vocabulary\<close>

definition condition_key_byte :: "char \<Rightarrow> bool" where
  "condition_key_byte c \<longleftrightarrow>
     CHR ''0'' \<le> c \<and> c \<le> CHR ''9'' \<or> CHR ''A'' \<le> c \<and> c \<le> CHR ''Z'' \<or>
     CHR ''a'' \<le> c \<and> c \<le> CHR ''z'' \<or> c \<in> set ''._:-''"

definition condition_key_new :: "string \<Rightarrow> string + string" where
  "condition_key_new v =
     (if v = [] \<or> 200 < length v then Inl ''condition key must be 1..=200 bytes''
      else if \<not> list_all condition_key_byte v then Inl ''condition key contains unsupported characters''
      else Inr v)"

datatype Severity = SevInfo | SevWarning | SevCritical

fun severity_rank :: "Severity \<Rightarrow> u8" where
  "severity_rank SevInfo = 1"
| "severity_rank SevWarning = 2"
| "severity_rank SevCritical = 3"

text \<open>The offset is an \<^verbatim>\<open>i8\<close>; the sum is the 8-bit one and is read as signed.\<close>

definition apply_offset :: "Severity \<Rightarrow> u8 \<Rightarrow> Severity" where
  "apply_offset s off =
     (let rank = max 1 (min 3 (sint (severity_rank s + off)))
      in if rank = 1 then SevInfo else if rank = 2 then SevWarning else SevCritical)"

fun severity_str :: "Severity \<Rightarrow> string" where
  "severity_str SevInfo = ''info''"
| "severity_str SevWarning = ''warning''"
| "severity_str SevCritical = ''critical''"

definition severity_from_str :: "string \<Rightarrow> Severity option" where
  "severity_from_str v =
     (if v = ''info'' then Some SevInfo else if v = ''warning'' then Some SevWarning
      else if v = ''critical'' then Some SevCritical else None)"

datatype EventCategory = AuditChangeCategory | ConditionObservation

datatype ObservationKind = Abnormal | Healthy | Change

datatype AlertEventType =
    GroupMissing
  | KeyGroupUnresolved
  | BalanceLow
  | BalanceDepleted
  | PriceExpired
  | KeyInvalid
  | CollectorFailed
  | AuthorizationExpired
  | StationDown
  | RouteImpacted
  | GroupAdded
  | RateChanged
  | GroupRateChanged
  | PriceChanged
  | ModelAdded
  | ModelRemoved
  | AuditChange

fun event_type_str :: "AlertEventType \<Rightarrow> string" where
  "event_type_str GroupMissing = ''group_missing''"
| "event_type_str KeyGroupUnresolved = ''key_group_unresolved''"
| "event_type_str BalanceLow = ''balance_low''"
| "event_type_str BalanceDepleted = ''balance_depleted''"
| "event_type_str PriceExpired = ''price_expired''"
| "event_type_str KeyInvalid = ''key_invalid''"
| "event_type_str CollectorFailed = ''collector_failed''"
| "event_type_str AuthorizationExpired = ''authorization_expired''"
| "event_type_str StationDown = ''station_down''"
| "event_type_str RouteImpacted = ''route_impacted''"
| "event_type_str GroupAdded = ''group_added''"
| "event_type_str RateChanged = ''rate_changed''"
| "event_type_str GroupRateChanged = ''group_rate_changed''"
| "event_type_str PriceChanged = ''price_changed''"
| "event_type_str ModelAdded = ''model_added''"
| "event_type_str ModelRemoved = ''model_removed''"
| "event_type_str AuditChange = ''audit_change''"

definition event_type_from_str :: "string \<Rightarrow> AlertEventType option" where
  "event_type_from_str v =
     (if v = ''group_missing'' then Some GroupMissing
      else if v = ''key_group_unresolved'' then Some KeyGroupUnresolved
      else if v = ''balance_low'' then Some BalanceLow
      else if v = ''balance_depleted'' then Some BalanceDepleted
      else if v = ''price_expired'' then Some PriceExpired
      else if v = ''key_invalid'' then Some KeyInvalid
      else if v = ''collector_failed'' then Some CollectorFailed
      else if v = ''authorization_expired'' then Some AuthorizationExpired
      else if v = ''station_down'' then Some StationDown
      else if v = ''route_impacted'' then Some RouteImpacted
      else if v = ''group_added'' then Some GroupAdded
      else if v = ''rate_changed'' then Some RateChanged
      else if v = ''group_rate_changed'' then Some GroupRateChanged
      else if v = ''price_changed'' then Some PriceChanged
      else if v = ''model_added'' then Some ModelAdded
      else if v = ''model_removed'' then Some ModelRemoved
      else if v = ''audit_change'' then Some AuditChange
      else None)"

datatype RecoveryOwner =
    GroupBinding
  | BalanceProjection
  | PricingProjection
  | StationKeyHealth
  | CollectorTask
  | EndpointHealth
  | RoutingProjection
  | NoOwner

record EventDefinition =
  ed_event_type :: AlertEventType
  ed_category :: EventCategory
  ed_observation_kind :: ObservationKind
  ed_base_severity :: Severity
  ed_recovery_owner :: RecoveryOwner
  ed_user_overridable :: bool
  ed_fact_freshness_seconds :: u32

definition event_state :: "AlertEventType \<Rightarrow> Severity \<Rightarrow> RecoveryOwner \<Rightarrow> u32 \<Rightarrow> EventDefinition" where
  "event_state t sev owner fresh =
     \<lparr>ed_event_type = t, ed_category = ConditionObservation, ed_observation_kind = Abnormal,
      ed_base_severity = sev, ed_recovery_owner = owner, ed_user_overridable = True,
      ed_fact_freshness_seconds = fresh\<rparr>"

definition event_audit :: "AlertEventType \<Rightarrow> Severity \<Rightarrow> EventDefinition" where
  "event_audit t sev =
     \<lparr>ed_event_type = t, ed_category = AuditChangeCategory, ed_observation_kind = Change,
      ed_base_severity = sev, ed_recovery_owner = NoOwner, ed_user_overridable = True,
      ed_fact_freshness_seconds = 0\<rparr>"

definition event_registry :: "EventDefinition list" where
  "event_registry =
     [event_audit GroupMissing SevInfo,
      event_state KeyGroupUnresolved SevWarning GroupBinding 900,
      event_state BalanceLow SevWarning BalanceProjection 900,
      event_state BalanceDepleted SevCritical BalanceProjection 900,
      event_state PriceExpired SevWarning PricingProjection 900,
      event_state KeyInvalid SevCritical StationKeyHealth 300,
      event_state CollectorFailed SevWarning CollectorTask 900,
      event_state AuthorizationExpired SevWarning CollectorTask 900,
      event_state StationDown SevCritical EndpointHealth 300,
      event_state RouteImpacted SevWarning RoutingProjection 300,
      event_audit GroupAdded SevInfo,
      event_audit RateChanged SevInfo,
      event_audit GroupRateChanged SevInfo,
      event_audit PriceChanged SevInfo,
      event_audit ModelAdded SevInfo,
      event_audit ModelRemoved SevInfo,
      event_audit AuditChange SevInfo]"

definition event_definition :: "AlertEventType \<Rightarrow> EventDefinition option" where
  "event_definition t = find (\<lambda>d. ed_event_type d = t) event_registry"

section \<open>Policies\<close>

datatype ScopeKind = ScopeGlobal | ScopeEventType | ScopeStation | ScopeStationKey

fun scope_rank :: "ScopeKind \<Rightarrow> u8" where
  "scope_rank ScopeGlobal = 0"
| "scope_rank ScopeEventType = 1"
| "scope_rank ScopeStation = 2"
| "scope_rank ScopeStationKey = 3"

datatype TriggerMode = Immediate | ConsecutiveOccurrences | ActiveDuration

datatype RecoveryMode = ConsecutiveHealthy | HealthyDuration

datatype RepeatMode = RepeatNever | RepeatInterval | SeverityEscalation | IntervalAndEscalation

datatype QuietHoursPolicy = QuietInherit | QuietRespect | BypassForCritical

datatype PolicyState = PolicyActive | PolicyDisabled | PolicyOrphaned | PolicyTombstone

record PolicyMatchContext =
  mc_event_type :: AlertEventType
  mc_base_severity :: Severity
  mc_station_id :: "string option"
  mc_station_key_id :: "string option"

record AlertPolicy =
  ap_id :: string
  ap_name :: string
  ap_enabled :: bool
  ap_state :: PolicyState
  ap_scope_kind :: ScopeKind
  ap_event_type :: "AlertEventType option"
  ap_station_id :: "string option"
  ap_station_key_id :: "string option"
  ap_minimum_severity :: "Severity option"
  ap_severity_offset :: u8
  ap_trigger_mode :: TriggerMode
  ap_trigger_count :: "u32 option"
  ap_trigger_duration_seconds :: "u64 option"
  ap_recovery_mode :: RecoveryMode
  ap_recovery_count :: "u32 option"
  ap_recovery_duration_seconds :: "u64 option"
  ap_in_app_enabled :: bool
  ap_desktop_enabled :: bool
  ap_repeat_mode :: RepeatMode
  ap_repeat_interval_seconds :: "u64 option"
  ap_cooldown_seconds :: u64
  ap_recovery_notification_enabled :: bool
  ap_quiet_hours_policy :: QuietHoursPolicy
  ap_priority :: u32
  ap_revision :: u64
  ap_created_at_ms :: i64
  ap_updated_at_ms :: i64

definition system_default_for_event :: "AlertEventType option \<Rightarrow> Severity \<Rightarrow> AlertPolicy" where
  "system_default_for_event t base =
     (let audit = (case Option.bind t event_definition of
                     None \<Rightarrow> False | Some d \<Rightarrow> ed_category d = AuditChangeCategory);
          immediate = (audit \<or> t = Some KeyInvalid \<or> t = Some AuthorizationExpired \<or>
                       (t = None \<and> base = SevCritical))
      in \<lparr>ap_id = ''system_default'', ap_name = ''System default'', ap_enabled = True,
          ap_state = PolicyActive, ap_scope_kind = ScopeGlobal, ap_event_type = None,
          ap_station_id = None, ap_station_key_id = None, ap_minimum_severity = None,
          ap_severity_offset = 0,
          ap_trigger_mode = (if immediate then Immediate else ConsecutiveOccurrences),
          ap_trigger_count = (if immediate then None
                              else Some (if t = Some CollectorFailed then 3 else 2)),
          ap_trigger_duration_seconds = None, ap_recovery_mode = ConsecutiveHealthy,
          ap_recovery_count = Some 1, ap_recovery_duration_seconds = None,
          ap_in_app_enabled = True, ap_desktop_enabled = False, ap_repeat_mode = RepeatNever,
          ap_repeat_interval_seconds = None, ap_cooldown_seconds = 1800,
          ap_recovery_notification_enabled = True, ap_quiet_hours_policy = QuietInherit,
          ap_priority = - 1, ap_revision = 1, ap_created_at_ms = 0, ap_updated_at_ms = 0\<rparr>)"

subsection \<open>Validation\<close>

definition scope_error :: "AlertPolicy \<Rightarrow> string option" where
  "scope_error p =
     (case ap_scope_kind p of
        ScopeGlobal \<Rightarrow>
          if ap_station_id p \<noteq> None \<or> ap_station_key_id p \<noteq> None
          then Some ''global policy cannot specify station ids'' else None
      | ScopeEventType \<Rightarrow>
          if ap_event_type p = None then Some ''event_type policy requires event_type''
          else if ap_station_id p \<noteq> None \<or> ap_station_key_id p \<noteq> None
          then Some ''event_type policy cannot specify station ids'' else None
      | ScopeStation \<Rightarrow>
          if ap_station_id p = None \<or> ap_station_key_id p \<noteq> None
          then Some ''station policy requires only station_id'' else None
      | ScopeStationKey \<Rightarrow>
          if ap_station_key_id p = None then Some ''station_key policy requires station_key_id'' else None)"

definition count_out_of_range :: "u32 option \<Rightarrow> bool" where
  "count_out_of_range v = (case v of None \<Rightarrow> False | Some n \<Rightarrow> \<not> (1 \<le> n \<and> n \<le> 100))"

definition duration_out_of_range :: "u64 option \<Rightarrow> bool" where
  "duration_out_of_range v = (case v of None \<Rightarrow> False | Some s \<Rightarrow> \<not> (60 \<le> s \<and> s \<le> 2592000))"

definition trigger_mismatch :: "AlertPolicy \<Rightarrow> bool" where
  "trigger_mismatch p \<longleftrightarrow>
     ap_trigger_mode p = ConsecutiveOccurrences \<and> ap_trigger_count p = None \<or>
     ap_trigger_mode p = ActiveDuration \<and> ap_trigger_duration_seconds p = None \<or>
     ap_trigger_mode p = Immediate \<and> (ap_trigger_count p \<noteq> None \<or> ap_trigger_duration_seconds p \<noteq> None)"

definition recovery_mismatch :: "AlertPolicy \<Rightarrow> bool" where
  "recovery_mismatch p \<longleftrightarrow>
     ap_recovery_mode p = ConsecutiveHealthy \<and> ap_recovery_count p = None \<or>
     ap_recovery_mode p = HealthyDuration \<and> ap_recovery_duration_seconds p = None"

definition policy_validate :: "AlertPolicy \<Rightarrow> string + unit" where
  "policy_validate p =
     (if ap_id p = [] \<or> 128 < length (ap_id p) then Inl ''policy id must be 1..=128 bytes''
      else if ap_name p = [] \<or> 200 < length (ap_name p) then Inl ''policy name must be 1..=200 bytes''
      else if \<not> (- 1 \<le> sint (ap_severity_offset p) \<and> sint (ap_severity_offset p) \<le> 1)
      then Inl ''severity_offset must be -1, 0 or 1''
      else if ap_revision p = 0 \<or> ap_created_at_ms p < 0 \<or> ap_updated_at_ms p < 0
      then Inl ''policy revision and timestamps must be positive''
      else case scope_error p of
        Some e \<Rightarrow> Inl e
      | None \<Rightarrow>
          if count_out_of_range (ap_trigger_count p) then Inl ''trigger_count must be between 1 and 100''
          else if duration_out_of_range (ap_trigger_duration_seconds p)
          then Inl ''trigger_duration_seconds is outside supported range''
          else if count_out_of_range (ap_recovery_count p) then Inl ''recovery_count must be between 1 and 100''
          else if duration_out_of_range (ap_recovery_duration_seconds p)
          then Inl ''recovery_duration_seconds is outside supported range''
          else if trigger_mismatch p then Inl ''trigger mode and trigger parameters do not match''
          else if recovery_mismatch p then Inl ''recovery mode and recovery parameters do not match''
          else if ap_repeat_mode p \<in> {RepeatInterval, IntervalAndEscalation} \<and>
                  ap_repeat_interval_seconds p = None
          then Inl ''interval repeat mode requires repeat_interval_seconds''
          else if ap_repeat_interval_seconds p = Some 0
          then Inl ''repeat_interval_seconds must be positive''
          else Inr ())"

subsection \<open>Matching and resolution\<close>

definition is_none_or :: "'a option \<Rightarrow> ('a \<Rightarrow> bool) \<Rightarrow> bool" where
  "is_none_or v P = (case v of None \<Rightarrow> True | Some x \<Rightarrow> P x)"

definition policy_matches :: "AlertPolicy \<Rightarrow> PolicyMatchContext \<Rightarrow> bool" where
  "policy_matches p c \<longleftrightarrow>
     ap_enabled p \<and> ap_state p = PolicyActive \<and>
     is_none_or (ap_event_type p) (\<lambda>t. t = mc_event_type c) \<and>
     is_none_or (ap_minimum_severity p) (\<lambda>m. severity_rank m \<le> severity_rank (mc_base_severity c)) \<and>
     is_none_or (ap_station_id p) (\<lambda>i. Some i = mc_station_id c) \<and>
     is_none_or (ap_station_key_id p) (\<lambda>i. Some i = mc_station_key_id c) \<and>
     (case ap_scope_kind p of
        ScopeGlobal \<Rightarrow> True
      | ScopeEventType \<Rightarrow> ap_event_type p = Some (mc_event_type c)
      | ScopeStation \<Rightarrow> ap_station_id p = mc_station_id c
      | ScopeStationKey \<Rightarrow> ap_station_key_id p = mc_station_key_id c)"

definition resolution_key :: "AlertPolicy \<Rightarrow> u8 \<times> u8 \<times> u8 \<times> u32 \<times> i64 \<times> string" where
  "resolution_key p =
     (scope_rank (ap_scope_kind p),
      (if ap_event_type p \<noteq> None then 1 else 0),
      (case ap_minimum_severity p of None \<Rightarrow> 0 | Some s \<Rightarrow> severity_rank s),
      ap_priority p, ap_created_at_ms p, ap_id p)"

text \<open>
  The key that \<^verbatim>\<open>min_by_key\<close> compares: the first three components under \<^verbatim>\<open>Reverse\<close>, that is with
  the opposite order, here as the negated number.
\<close>

definition resolution_order :: "AlertPolicy \<Rightarrow> int \<times> int \<times> int \<times> u32 \<times> i64 \<times> string" where
  "resolution_order p =
     (case resolution_key p of (a, b, c, prio, created, pid) \<Rightarrow>
        (- uint a, - uint b, - uint c, prio, created, pid))"

fun min_by_key :: "('a \<Rightarrow> 'k::linorder) \<Rightarrow> 'a list \<Rightarrow> 'a option" where
  "min_by_key f [] = None"
| "min_by_key f (x # xs) =
     (case min_by_key f xs of None \<Rightarrow> Some x | Some y \<Rightarrow> Some (if f x \<le> f y then x else y))"

definition resolve_policy :: "AlertPolicy list \<Rightarrow> PolicyMatchContext \<Rightarrow> AlertPolicy" where
  "resolve_policy ps c =
     (case min_by_key resolution_order (filter (\<lambda>p. policy_matches p c) ps) of
        Some p \<Rightarrow> p
      | None \<Rightarrow> system_default_for_event (Some (mc_event_type c)) (mc_base_severity c))"

definition effective_severity :: "AlertPolicy \<Rightarrow> Severity \<Rightarrow> Severity" where
  "effective_severity p base = apply_offset base (ap_severity_offset p)"

record ResolvedPolicy =
  rp_policy :: AlertPolicy
  rp_effective_severity :: Severity
  rp_fingerprint :: string

text \<open>
  The fingerprint is the lower-case hexadecimal SHA-256 digest of the policy as JSON. The JSON writer
  and the digest are parameters; the hexadecimal writer is the source's.
\<close>

definition hex_digit :: "nat \<Rightarrow> char" where
  "hex_digit n = (if n < 10 then byte (48 + n) else byte (87 + n))"

definition hex_byte :: "u8 \<Rightarrow> string" where
  "hex_byte b = [hex_digit (unat b div 16), hex_digit (unat b mod 16)]"

definition policy_fingerprint ::
    "(string \<Rightarrow> u8 list) \<Rightarrow> (AlertPolicy \<Rightarrow> string option) \<Rightarrow> AlertPolicy \<Rightarrow> string" where
  "policy_fingerprint sha256 to_json p =
     concat (map hex_byte (sha256 (case to_json p of None \<Rightarrow> [] | Some s \<Rightarrow> s)))"

definition resolve_with_policy ::
    "(string \<Rightarrow> u8 list) \<Rightarrow> (AlertPolicy \<Rightarrow> string option) \<Rightarrow> AlertPolicy \<Rightarrow> Severity \<Rightarrow> ResolvedPolicy" where
  "resolve_with_policy sha256 to_json p base =
     \<lparr>rp_policy = p, rp_effective_severity = effective_severity p base,
      rp_fingerprint = policy_fingerprint sha256 to_json p\<rparr>"

definition resolver_resolve ::
    "(string \<Rightarrow> u8 list) \<Rightarrow> (AlertPolicy \<Rightarrow> string option) \<Rightarrow> AlertPolicy list \<Rightarrow> PolicyMatchContext \<Rightarrow> ResolvedPolicy" where
  "resolver_resolve sha256 to_json ps c =
     resolve_with_policy sha256 to_json (resolve_policy ps c) (mc_base_severity c)"

section \<open>The registry and the names\<close>

lemma event_definition_total:
  "\<exists>d. event_definition t = Some d \<and> ed_event_type d = t \<and>
       (ed_category d = ConditionObservation \<longleftrightarrow> ed_recovery_owner d \<noteq> NoOwner) \<and>
       (ed_category d = AuditChangeCategory \<longleftrightarrow> ed_observation_kind d = Change)"
  by (cases t) (simp_all add: event_definition_def event_registry_def event_state_def event_audit_def)

lemma event_registry_distinct: "distinct (map ed_event_type event_registry)"
  by (simp add: event_registry_def event_state_def event_audit_def)

lemma event_type_from_str_iff: "event_type_from_str v = Some t \<longleftrightarrow> v = event_type_str t"
  by (cases t) (simp_all add: event_type_from_str_def)

lemma severity_from_str_iff: "severity_from_str v = Some s \<longleftrightarrow> v = severity_str s"
  by (cases s) (simp_all add: severity_from_str_def)

lemma event_type_str_inject [simp]: "event_type_str a = event_type_str b \<longleftrightarrow> a = b"
  using event_type_from_str_iff by (metis option.inject)

lemma severity_rank_inject [simp]: "severity_rank a = severity_rank b \<longleftrightarrow> a = b"
  by (cases a; cases b; simp)

lemma apply_offset_zero [simp]: "apply_offset s 0 = s"
  by (cases s) (simp_all add: apply_offset_def)

lemma apply_offset_valid:
  "apply_offset SevInfo (- 1) = SevInfo" "apply_offset SevWarning (- 1) = SevInfo"
  "apply_offset SevCritical (- 1) = SevWarning" "apply_offset SevInfo 1 = SevWarning"
  "apply_offset SevWarning 1 = SevCritical" "apply_offset SevCritical 1 = SevCritical"
  by (simp_all add: apply_offset_def)

section \<open>Defaults\<close>

text \<open>The default policy of every event passes the validation of user policies.\<close>

lemma system_default_valid: "policy_validate (system_default_for_event t base) = Inr ()"
proof -
  have modes: "\<not> trigger_mismatch (system_default_for_event t base)"
      "\<not> recovery_mismatch (system_default_for_event t base)"
    by (simp_all add: trigger_mismatch_def recovery_mismatch_def system_default_for_event_def Let_def)
  then show ?thesis
    by (simp add: policy_validate_def system_default_for_event_def Let_def scope_error_def
        count_out_of_range_def duration_out_of_range_def)
qed

lemma system_default_id [simp]: "ap_id (system_default_for_event t base) = ''system_default''"
  by (simp add: system_default_for_event_def Let_def)

section \<open>Resolution\<close>

lemma min_by_key_None [simp]: "min_by_key f xs = None \<longleftrightarrow> xs = []"
  by (cases xs) (simp_all split: option.split)

lemma min_by_key_least:
  "min_by_key f xs = Some m \<Longrightarrow> m \<in> set xs \<and> (\<forall>x \<in> set xs. f m \<le> f x)"
  by (induction xs arbitrary: m) (fastforce split: option.splits if_splits)+

lemma resolution_order_id: "resolution_order p = resolution_order q \<Longrightarrow> ap_id p = ap_id q"
  by (simp add: resolution_order_def resolution_key_def)

lemma resolution_order_inj: "distinct (map ap_id ps) \<Longrightarrow> inj_on resolution_order (set ps)"
  unfolding distinct_map by (intro inj_onI) (blast dest: inj_onD resolution_order_id)

lemma resolution_order_scope:
  "resolution_order p \<le> resolution_order q \<Longrightarrow>
     scope_rank (ap_scope_kind q) \<le> scope_rank (ap_scope_kind p)"
  by (simp add: resolution_order_def resolution_key_def less_eq_prod_def word_le_def)
     (metis neg_le_iff_le order.strict_implies_order order_refl)

lemma resolve_policy_matching:
  assumes "q \<in> set ps" "policy_matches q c"
  shows "resolve_policy ps c \<in> set ps \<and> policy_matches (resolve_policy ps c) c \<and>
         resolution_order (resolve_policy ps c) \<le> resolution_order q"
proof -
  let ?ms = "filter (\<lambda>p. policy_matches p c) ps"
  have "?ms \<noteq> []" using assms by (auto simp: filter_empty_conv)
  then obtain m where m: "min_by_key resolution_order ?ms = Some m"
    by (cases "min_by_key resolution_order ?ms") auto
  then show ?thesis using min_by_key_least [OF m] assms by (auto simp: resolve_policy_def)
qed

lemma resolve_policy_default:
  "\<forall>q \<in> set ps. \<not> policy_matches q c \<Longrightarrow>
     resolve_policy ps c = system_default_for_event (Some (mc_event_type c)) (mc_base_severity c)"
  by (simp add: resolve_policy_def filter_False)

lemma resolve_policy_reorder:
  assumes "distinct (map ap_id ps)" "set qs = set ps"
  shows "resolve_policy qs c = resolve_policy ps c"
proof (cases "\<exists>q \<in> set ps. policy_matches q c")
  case True
  then obtain q where q: "q \<in> set ps" "policy_matches q c" by blast
  let ?a = "resolve_policy ps c" and ?b = "resolve_policy qs c"
  have a: "?a \<in> set ps" "policy_matches ?a c" and b: "?b \<in> set ps" "policy_matches ?b c"
    using resolve_policy_matching [of q ps c] resolve_policy_matching [of q qs c] q assms(2) by auto
  have "resolution_order ?a \<le> resolution_order ?b" using resolve_policy_matching [of ?b ps c] b by blast
  moreover have "resolution_order ?b \<le> resolution_order ?a"
    using resolve_policy_matching [of ?a qs c] a assms(2) by blast
  ultimately show ?thesis
    using inj_onD [OF resolution_order_inj [OF assms(1)] _ b(1) a(1)] by simp
next
  case False
  then show ?thesis using assms(2) by (simp add: resolve_policy_default)
qed

text \<open>
  An observation is governed by the most specific policy. Whenever some policy of the list
  matches, the resolved policy is one of the list, it is enabled and active and restricted to no
  other station, key or event type than the observation's, no matching policy has a more specific
  scope, and the choice does not depend on the order of the list when the ids are distinct.
\<close>
theorem resolve_policy_most_specific:
  assumes "distinct (map ap_id ps)" "q \<in> set ps" "policy_matches q c"
  shows "let p = resolve_policy ps c in
           p \<in> set ps \<and> ap_enabled p \<and> ap_state p = PolicyActive \<and>
           (ap_station_id p = None \<or> ap_station_id p = mc_station_id c) \<and>
           (ap_station_key_id p = None \<or> ap_station_key_id p = mc_station_key_id c) \<and>
           (ap_event_type p = None \<or> ap_event_type p = Some (mc_event_type c)) \<and>
           scope_rank (ap_scope_kind q) \<le> scope_rank (ap_scope_kind p) \<and>
           resolution_order p \<le> resolution_order q \<and>
           (\<forall>qs. set qs = set ps \<longrightarrow> resolve_policy qs c = p)"
proof -
  note r = resolve_policy_matching [OF assms(2,3)]
  then have "is_none_or (ap_station_id (resolve_policy ps c)) (\<lambda>i. Some i = mc_station_id c)"
      "is_none_or (ap_station_key_id (resolve_policy ps c)) (\<lambda>i. Some i = mc_station_key_id c)"
      "is_none_or (ap_event_type (resolve_policy ps c)) (\<lambda>t. t = mc_event_type c)"
    by (simp_all add: policy_matches_def)
  then have own: "ap_station_id (resolve_policy ps c) = None \<or> ap_station_id (resolve_policy ps c) = mc_station_id c"
      "ap_station_key_id (resolve_policy ps c) = None \<or>
         ap_station_key_id (resolve_policy ps c) = mc_station_key_id c"
      "ap_event_type (resolve_policy ps c) = None \<or>
         ap_event_type (resolve_policy ps c) = Some (mc_event_type c)"
    by (simp_all add: is_none_or_def split: option.splits)
  moreover have "ap_enabled (resolve_policy ps c)" "ap_state (resolve_policy ps c) = PolicyActive"
    using r by (simp_all add: policy_matches_def)
  moreover have "\<forall>qs. set qs = set ps \<longrightarrow> resolve_policy qs c = resolve_policy ps c"
    using resolve_policy_reorder [OF assms(1)] by blast
  ultimately show ?thesis
    unfolding Let_def using r resolution_order_scope [of "resolve_policy ps c" q] by blast
qed

definition sample_policy :: "string \<Rightarrow> ScopeKind \<Rightarrow> string option \<Rightarrow> AlertPolicy" where
  "sample_policy i k st =
     (system_default_for_event (Some StationDown) SevCritical)
       \<lparr>ap_id := i, ap_scope_kind := k, ap_station_id := st, ap_priority := 100\<rparr>"

text \<open>A policy of the observed station wins over a global one.\<close>

theorem resolve_policy_most_specific_witness:
  "ap_id (resolve_policy [sample_policy ''global'' ScopeGlobal None,
                          sample_policy ''station'' ScopeStation (Some ''s1'')]
            \<lparr>mc_event_type = StationDown, mc_base_severity = SevCritical,
             mc_station_id = Some ''s1'', mc_station_key_id = None\<rparr>) = ''station''"
proof -
  let ?ps = "[sample_policy ''global'' ScopeGlobal None, sample_policy ''station'' ScopeStation (Some ''s1'')]"
  let ?c = "\<lparr>mc_event_type = StationDown, mc_base_severity = SevCritical,
             mc_station_id = Some ''s1'', mc_station_key_id = None\<rparr>"
  have q: "distinct (map ap_id ?ps)" "?ps ! 1 \<in> set ?ps" "policy_matches (?ps ! 1) ?c"
    by (simp_all add: sample_policy_def policy_matches_def is_none_or_def system_default_for_event_def
        event_definition_def event_registry_def event_state_def event_audit_def)
  have "resolve_policy ?ps ?c \<in> set ?ps"
      "scope_rank (ap_scope_kind (?ps ! 1)) \<le> scope_rank (ap_scope_kind (resolve_policy ?ps ?c))"
    using resolve_policy_most_specific [OF q] unfolding Let_def by blast+
  then have "resolve_policy ?ps ?c = ?ps ! 1"
    by (cases "resolve_policy ?ps ?c = ?ps ! 0") (simp_all add: sample_policy_def)
  then show ?thesis by (simp add: sample_policy_def)
qed

section \<open>Fingerprints\<close>

lemma hex_digit_no_colon: "n < 16 \<Longrightarrow> hex_digit n \<noteq> CHR '':''"
proof -
  assume "n < 16"
  then have "\<forall>k \<in> set [0..<16]. hex_digit k \<noteq> CHR '':'' \<Longrightarrow> hex_digit n \<noteq> CHR '':''" by simp
  moreover have "\<forall>k \<in> set [0..<16]. hex_digit k \<noteq> CHR '':''" by code_simp
  ultimately show ?thesis by blast
qed

lemma policy_fingerprint_no_colon: "CHR '':'' \<notin> set (policy_fingerprint sha256 to_json p)"
proof -
  have "CHR '':'' \<notin> set (hex_byte b)" for b :: u8
  proof -
    have "unat b < 256" using unat_bound [of b] by simp
    then have "unat b div 16 < 16" by (simp add: less_mult_imp_div_less)
    then show ?thesis
      using hex_digit_no_colon [of "unat b div 16"] hex_digit_no_colon [of "unat b mod 16"]
      by (auto simp: hex_byte_def)
  qed
  then show ?thesis by (auto simp: policy_fingerprint_def)
qed

end
