(* ===== verification/Incident.thy ===== *)
theory Incident
  imports AlertPolicy Machine "HOL-Library.Sublist"
begin

text \<open>
  The alert incident (\<^verbatim>\<open>models/alerting/incident.rs\<close>, \<^verbatim>\<open>application/alerting/incident_projector.rs\<close>):
  its record, the reducer that applies one observation, and the evaluation of deadlines. An incident
  is Pending until the trigger of its policy is met, Open until a healthy observation, Recovering
  until the recovery of the policy is met, and Resolved.
\<close>

section \<open>State\<close>

datatype LifecycleState = Pending | Open | Recovering | Resolved

record IncidentObservation =
  ob_source_observation_key :: string
  ob_event_type :: AlertEventType
  ob_condition_key :: string
  ob_kind :: ObservationKind
  ob_severity :: Severity
  ob_observed_at_ms :: i64
  ob_fact_fresh_until_ms :: i64
  ob_summary_json :: string

text \<open>\<^verbatim>\<open>StateTransition\<close>; its variant \<^verbatim>\<open>Reopened\<close> is never produced.\<close>

datatype StateTransition =
  NoTransition | ToPending | Opened | ToRecovering | ToResolved | Reopened

record Incident =
  in_id :: string
  in_condition_key :: string
  in_event_type :: AlertEventType
  in_lifecycle_state :: LifecycleState
  in_base_severity :: Severity
  in_severity :: Severity
  in_object_type :: string
  in_object_id :: "string option"
  in_station_id :: "string option"
  in_station_key_id :: "string option"
  in_policy_id :: "string option"
  in_policy_revision :: "u64 option"
  in_lifecycle_policy_fingerprint :: string
  in_episode_number :: u32
  in_first_seen_at_ms :: i64
  in_last_seen_at_ms :: i64
  in_opened_at_ms :: "i64 option"
  in_recovering_at_ms :: "i64 option"
  in_resolved_at_ms :: "i64 option"
  in_occurrence_count :: u64
  in_episode_occurrence_count :: u64
  in_consecutive_abnormal_count :: u32
  in_consecutive_healthy_count :: u32
  in_pending_since_ms :: "i64 option"
  in_healthy_since_ms :: "i64 option"
  in_last_observation_id :: "string option"
  in_last_observation_summary_json :: string
  in_fact_fresh_until_ms :: "i64 option"
  in_next_state_evaluation_at_ms :: "i64 option"
  in_last_notification_at_ms :: "i64 option"
  in_next_notification_at_ms :: "i64 option"
  in_version :: u64
  in_created_at_ms :: i64
  in_updated_at_ms :: i64

definition incident_new ::
    "string \<Rightarrow> string \<Rightarrow> AlertEventType \<Rightarrow> Severity \<Rightarrow> i64 \<Rightarrow> string \<Rightarrow> Incident" where
  "incident_new iid condition t base now fingerprint =
     \<lparr>in_id = iid, in_condition_key = condition, in_event_type = t, in_lifecycle_state = Pending,
      in_base_severity = base, in_severity = base, in_object_type = ''unknown'',
      in_object_id = None, in_station_id = None, in_station_key_id = None, in_policy_id = None,
      in_policy_revision = None, in_lifecycle_policy_fingerprint = fingerprint,
      in_episode_number = 1, in_first_seen_at_ms = now, in_last_seen_at_ms = now,
      in_opened_at_ms = None, in_recovering_at_ms = None, in_resolved_at_ms = None,
      in_occurrence_count = 0, in_episode_occurrence_count = 0, in_consecutive_abnormal_count = 0,
      in_consecutive_healthy_count = 0, in_pending_since_ms = Some now, in_healthy_since_ms = None,
      in_last_observation_id = None, in_last_observation_summary_json = ''{}'',
      in_fact_fresh_until_ms = None, in_next_state_evaluation_at_ms = None,
      in_last_notification_at_ms = None, in_next_notification_at_ms = None, in_version = 0,
      in_created_at_ms = now, in_updated_at_ms = now\<rparr>"

section \<open>The reducer\<close>

text \<open>\<^verbatim>\<open>duration.saturating_mul(1000) as i64\<close>: the saturated product read as a signed number.\<close>

definition duration_ms :: "u64 \<Rightarrow> i64" where
  "duration_ms d = sint (sat_mul d 1000)"

definition deadline :: "i64 option \<Rightarrow> u64 option \<Rightarrow> i64 option" where
  "deadline since dur =
     (case (since, dur) of (Some s, Some d) \<Rightarrow> Some (i64_sat_add s (duration_ms d)) | _ \<Rightarrow> None)"

definition maybe_open ::
    "Incident \<Rightarrow> i64 \<Rightarrow> TriggerMode \<Rightarrow> u32 option \<Rightarrow> u64 option \<Rightarrow> Incident \<times> StateTransition" where
  "maybe_open i at mode cnt dur =
     (let satisfied = (case mode of
                         Immediate \<Rightarrow> True
                       | ConsecutiveOccurrences \<Rightarrow>
                           (case cnt of None \<Rightarrow> 1 | Some n \<Rightarrow> n) \<le> in_consecutive_abnormal_count i
                       | ActiveDuration \<Rightarrow> False);
          i = (if mode = ActiveDuration
               then i\<lparr>in_next_state_evaluation_at_ms := deadline (in_pending_since_ms i) dur\<rparr> else i)
      in if satisfied
         then (i\<lparr>in_lifecycle_state := Open, in_opened_at_ms := Some at, in_pending_since_ms := None,
                 in_next_state_evaluation_at_ms := None\<rparr>, Opened)
         else (i, ToPending))"

definition recovery_satisfied ::
    "RecoveryMode \<Rightarrow> u32 \<Rightarrow> i64 option \<Rightarrow> i64 \<Rightarrow> u32 option \<Rightarrow> u64 option \<Rightarrow> bool" where
  "recovery_satisfied mode healthy since at cnt dur =
     (case mode of
        ConsecutiveHealthy \<Rightarrow> (case cnt of None \<Rightarrow> 1 | Some n \<Rightarrow> n) \<le> healthy
      | HealthyDuration \<Rightarrow>
          (case (since, dur) of
             (Some s, Some d) \<Rightarrow> duration_ms d \<le> i64_sat_sub at s
           | _ \<Rightarrow> False))"

text \<open>What every accepted observation writes, whatever its kind.\<close>

definition observe_fact :: "Incident \<Rightarrow> IncidentObservation \<Rightarrow> Incident" where
  "observe_fact i ob =
     i\<lparr>in_version := sat_add (in_version i) 1, in_updated_at_ms := ob_observed_at_ms ob,
       in_last_seen_at_ms := ob_observed_at_ms ob,
       in_last_observation_id := Some (ob_source_observation_key ob),
       in_last_observation_summary_json := ob_summary_json ob,
       in_fact_fresh_until_ms := Some (ob_fact_fresh_until_ms ob), in_severity := ob_severity ob\<rparr>"

definition apply_abnormal ::
    "Incident \<Rightarrow> i64 \<Rightarrow> TriggerMode \<Rightarrow> u32 option \<Rightarrow> u64 option \<Rightarrow> Incident \<times> StateTransition" where
  "apply_abnormal i at mode cnt dur =
     (let i = i\<lparr>in_occurrence_count := sat_add (in_occurrence_count i) 1,
                in_episode_occurrence_count := sat_add (in_episode_occurrence_count i) 1,
                in_consecutive_abnormal_count := sat_add (in_consecutive_abnormal_count i) 1,
                in_consecutive_healthy_count := 0, in_healthy_since_ms := None,
                in_next_state_evaluation_at_ms := None\<rparr>
      in case in_lifecycle_state i of
           Resolved \<Rightarrow>
             maybe_open
               (i\<lparr>in_episode_number := sat_add (in_episode_number i) 1,
                  in_episode_occurrence_count := 1, in_consecutive_abnormal_count := 1,
                  in_pending_since_ms := Some at, in_opened_at_ms := None,
                  in_recovering_at_ms := None, in_resolved_at_ms := None,
                  in_lifecycle_state := Pending\<rparr>) at mode cnt dur
         | Recovering \<Rightarrow> (i\<lparr>in_lifecycle_state := Open, in_recovering_at_ms := None\<rparr>, Opened)
         | Open \<Rightarrow> (i, NoTransition)
         | Pending \<Rightarrow> maybe_open i at mode cnt dur)"

definition apply_healthy ::
    "Incident \<Rightarrow> i64 \<Rightarrow> RecoveryMode \<Rightarrow> u32 option \<Rightarrow> u64 option \<Rightarrow> Incident \<times> StateTransition" where
  "apply_healthy i at mode cnt dur =
     (let i = i\<lparr>in_consecutive_abnormal_count := 0,
                in_consecutive_healthy_count := sat_add (in_consecutive_healthy_count i) 1,
                in_pending_since_ms := None, in_next_state_evaluation_at_ms := None\<rparr>
      in case in_lifecycle_state i of
           Pending \<Rightarrow> (i\<lparr>in_lifecycle_state := Resolved, in_resolved_at_ms := Some at\<rparr>, ToResolved)
         | Open \<Rightarrow>
             (let i = i\<lparr>in_lifecycle_state := Recovering, in_recovering_at_ms := Some at,
                        in_healthy_since_ms := Some at\<rparr>;
                  i = (if mode = HealthyDuration
                       then i\<lparr>in_next_state_evaluation_at_ms := deadline (in_healthy_since_ms i) dur\<rparr>
                       else i)
              in if recovery_satisfied mode (in_consecutive_healthy_count i) (in_healthy_since_ms i) at cnt dur
                 then (i\<lparr>in_lifecycle_state := Resolved, in_resolved_at_ms := Some at,
                         in_recovering_at_ms := None, in_next_state_evaluation_at_ms := None\<rparr>, ToResolved)
                 else (i, ToRecovering))
         | Recovering \<Rightarrow>
             if recovery_satisfied mode (in_consecutive_healthy_count i) (in_healthy_since_ms i) at cnt dur
             then (i\<lparr>in_lifecycle_state := Resolved, in_resolved_at_ms := Some at,
                     in_recovering_at_ms := None\<rparr>, ToResolved)
             else if mode = HealthyDuration
             then (i\<lparr>in_next_state_evaluation_at_ms := deadline (in_healthy_since_ms i) dur\<rparr>, NoTransition)
             else (i, NoTransition)
         | Resolved \<Rightarrow> (i, NoTransition))"

definition apply_observation ::
    "Incident \<Rightarrow> IncidentObservation \<Rightarrow> TriggerMode \<Rightarrow> u32 option \<Rightarrow> u64 option \<Rightarrow>
     RecoveryMode \<Rightarrow> u32 option \<Rightarrow> u64 option \<Rightarrow> Incident \<times> StateTransition" where
  "apply_observation i ob tmode tcnt tdur rmode rcnt rdur =
     (if ob_fact_fresh_until_ms ob < ob_observed_at_ms ob \<or> ob_observed_at_ms ob < in_last_seen_at_ms i
      then (i, NoTransition)
      else case ob_kind ob of
        Abnormal \<Rightarrow> apply_abnormal (observe_fact i ob) (ob_observed_at_ms ob) tmode tcnt tdur
      | Healthy \<Rightarrow> apply_healthy (observe_fact i ob) (ob_observed_at_ms ob) rmode rcnt rdur
      | Change \<Rightarrow> (observe_fact i ob, NoTransition))"

definition evaluate_due ::
    "Incident \<Rightarrow> i64 \<Rightarrow> TriggerMode \<Rightarrow> u64 option \<Rightarrow> RecoveryMode \<Rightarrow> u64 option \<Rightarrow> Incident \<times> StateTransition" where
  "evaluate_due i now tmode tdur rmode rdur =
     (case in_next_state_evaluation_at_ms i of
        None \<Rightarrow> (i, NoTransition)
      | Some due \<Rightarrow>
          if now < due \<or> (case in_fact_fresh_until_ms i of None \<Rightarrow> False | Some until \<Rightarrow> until < now)
          then (i, NoTransition)
          else if in_lifecycle_state i = Pending \<and> tmode = ActiveDuration
          then (if in_pending_since_ms i \<noteq> None \<and> tdur \<noteq> None
                then (i\<lparr>in_lifecycle_state := Open, in_opened_at_ms := Some now,
                        in_next_state_evaluation_at_ms := None\<rparr>, Opened)
                else (i, NoTransition))
          else if in_lifecycle_state i = Recovering \<and> rmode = HealthyDuration
          then (if in_healthy_since_ms i \<noteq> None \<and> rdur \<noteq> None
                then (i\<lparr>in_lifecycle_state := Resolved, in_resolved_at_ms := Some now,
                        in_recovering_at_ms := None, in_next_state_evaluation_at_ms := None\<rparr>, ToResolved)
                else (i, NoTransition))
          else (i, NoTransition))"

datatype ProjectionError = InvalidFreshness | ObservationOutOfOrder

definition project :: "Incident \<Rightarrow> IncidentObservation \<Rightarrow> AlertPolicy \<Rightarrow> Incident \<times> (ProjectionError + StateTransition)" where
  "project i ob p =
     (if ob_fact_fresh_until_ms ob < ob_observed_at_ms ob then (i, Inl InvalidFreshness)
      else if ob_observed_at_ms ob < in_last_seen_at_ms i then (i, Inl ObservationOutOfOrder)
      else case apply_observation i ob (ap_trigger_mode p) (ap_trigger_count p)
                  (ap_trigger_duration_seconds p) (ap_recovery_mode p) (ap_recovery_count p)
                  (ap_recovery_duration_seconds p) of
        (i', t) \<Rightarrow> (i', Inr t))"

section \<open>Policy changes\<close>

text \<open>
  What the reconciler (\<^verbatim>\<open>application/alerting/reconcile.rs\<close>) resets in an incident whose policy
  changed.
\<close>

definition reset_evaluation_epoch :: "Incident \<Rightarrow> i64 \<Rightarrow> Incident" where
  "reset_evaluation_epoch i now =
     (case in_lifecycle_state i of
        Pending \<Rightarrow> i\<lparr>in_pending_since_ms := Some now, in_consecutive_abnormal_count := 0,
                     in_next_state_evaluation_at_ms := None\<rparr>
      | Recovering \<Rightarrow> i\<lparr>in_healthy_since_ms := None, in_consecutive_healthy_count := 0,
                        in_next_state_evaluation_at_ms := None\<rparr>
      | Open \<Rightarrow> i
      | Resolved \<Rightarrow> i)"

text \<open>The calls that change an incident, each with the policy that governs it at that moment.\<close>

datatype incident_call =
    Observe IncidentObservation AlertPolicy
  | Due i64 AlertPolicy
  | ResetEpoch i64

fun incident_step :: "Incident \<Rightarrow> incident_call \<Rightarrow> Incident" where
  "incident_step i (Observe ob p) = fst (project i ob p)"
| "incident_step i (Due now p) =
     fst (evaluate_due i now (ap_trigger_mode p) (ap_trigger_duration_seconds p)
            (ap_recovery_mode p) (ap_recovery_duration_seconds p))"
| "incident_step i (ResetEpoch now) = reset_evaluation_epoch i now"

end
