(* ===== verification/Persistence.thy ===== *)
theory Persistence
  imports Prelude
begin

text \<open>
  What the stores share: the errors of \<^verbatim>\<open>persistence/error.rs\<close> that they return (a broken unique or
  foreign key is a \<open>ConstraintViolation\<close>, any other failed statement a \<open>DatabaseFailed\<close>) and the
  statements of SQL on a table given as the list of its rows.
\<close>

datatype PersistenceError =
  ConstraintViolation | RevisionConflict string | InvariantViolation string | DatabaseFailed | NotFound

text \<open>\<^verbatim>\<open>UPDATE ... SET f WHERE P\<close> with the number of affected rows.\<close>

definition sql_update :: "('r \<Rightarrow> bool) \<Rightarrow> ('r \<Rightarrow> 'r) \<Rightarrow> 'r list \<Rightarrow> 'r list \<times> nat" where
  "sql_update P f rows = (map (\<lambda>r. if P r then f r else r) rows, length (filter P rows))"
text \<open>The rows of a result set turned into values, the first failure stopping the reading.\<close>

fun collect :: "('a \<Rightarrow> 'e + 'b) \<Rightarrow> 'a list \<Rightarrow> 'e + 'b list" where
  "collect f [] = Inr []"
| "collect f (x # xs) = rbind (f x) (\<lambda>y. rbind (collect f xs) (\<lambda>ys. Inr (y # ys)))"

lemma collect_Inr: "collect f xs = Inr ys \<longleftrightarrow> list_all2 (\<lambda>x y. f x = Inr y) xs ys"
  by (induction xs arbitrary: ys) (auto simp: rbind_Inr_iff list_all2_Cons1)

definition or_else :: "'a option \<Rightarrow> 'a option \<Rightarrow> 'a option" where
  "or_else a b = (case a of None \<Rightarrow> b | Some x \<Rightarrow> Some x)"

definition coalesce :: "'a option \<Rightarrow> 'a \<Rightarrow> 'a" where
  "coalesce a d = (case a of None \<Rightarrow> d | Some x \<Rightarrow> x)"

end
