(* ===== verification/AlertDelivery.thy ===== *)
theory AlertDelivery
  imports Incident Persistence
begin

text \<open>
  Alert notifications (\<^verbatim>\<open>models/alerting/delivery.rs\<close>, \<^verbatim>\<open>models/alerting/attention.rs\<close>,
  \<^verbatim>\<open>application/alerting/policy_service.rs\<close>, \<^verbatim>\<open>delivery_planner.rs\<close>, \<^verbatim>\<open>delivery_worker.rs\<close> and the
  \<^verbatim>\<open>DeliveryStore\<close> of \<^verbatim>\<open>persistence/stores/alerting/mod.rs\<close>): the settings that suppress a notification,
  the deliveries planned for a transition, and the ledger in which they are claimed, retried and
  finished.
\<close>

section \<open>Deliveries\<close>

datatype NotificationChannel = InApp | Desktop

fun channel_str :: "NotificationChannel \<Rightarrow> string" where
  "channel_str InApp = ''in_app''"
| "channel_str Desktop = ''desktop''"

datatype DeliveryKind = KindOpened | KindRepeated | KindEscalated | KindRecovered | KindTest

fun delivery_kind_str :: "DeliveryKind \<Rightarrow> string" where
  "delivery_kind_str KindOpened = ''opened''"
| "delivery_kind_str KindRepeated = ''repeated''"
| "delivery_kind_str KindEscalated = ''escalated''"
| "delivery_kind_str KindRecovered = ''recovered''"
| "delivery_kind_str KindTest = ''test''"

datatype DeliveryStatus =
  StatusScheduled | StatusClaimed | StatusDelivered | StatusSuppressed | StatusFailed | OutcomeUnknown

datatype SuppressionReason =
    GlobalDisabled
  | ChannelDisabled
  | PermissionDenied
  | QuietHours
  | GlobalPause
  | IncidentSnoozed
  | CooldownReason
  | RepeatDisabled
  | PolicyMuted
  | StaleEpisode

record NotificationDelivery =
  nd_id :: string
  nd_delivery_key :: string
  nd_incident_id :: string
  nd_episode_number :: u32
  nd_delivery_sequence :: u64
  nd_policy_id :: "string option"
  nd_policy_revision :: "u64 option"
  nd_policy_snapshot_json :: string
  nd_channel :: NotificationChannel
  nd_delivery_kind :: DeliveryKind
  nd_status :: DeliveryStatus
  nd_scheduled_at_ms :: i64
  nd_claim_token :: "string option"
  nd_claimed_at_ms :: "i64 option"
  nd_lease_expires_at_ms :: "i64 option"
  nd_attempt_count :: u32
  nd_attempted_at_ms :: "i64 option"
  nd_outcome_unknown_at_ms :: "i64 option"
  nd_retry_not_before_ms :: "i64 option"
  nd_delivered_at_ms :: "i64 option"
  nd_suppressed_reason :: "SuppressionReason option"
  nd_error_code :: "string option"
  nd_created_at_ms :: i64
  nd_updated_at_ms :: i64

definition make_delivery_key ::
    "string \<Rightarrow> u32 \<Rightarrow> NotificationChannel \<Rightarrow> DeliveryKind \<Rightarrow> u64 \<Rightarrow> string" where
  "make_delivery_key iid ep ch k sq =
     iid @ '':'' @ show_nat (unat ep) @ '':'' @ channel_str ch @ '':'' @ delivery_kind_str k @ '':'' @
     show_nat (unat sq)"

text \<open>\<open>json_ok\<close> tells whether \<^verbatim>\<open>serde_json\<close> parses a text.\<close>

definition delivery_new ::
    "(string \<Rightarrow> bool) \<Rightarrow> string \<Rightarrow> string \<Rightarrow> u32 \<Rightarrow> u64 \<Rightarrow> NotificationChannel \<Rightarrow> DeliveryKind \<Rightarrow> i64 \<Rightarrow> string \<Rightarrow>
     string + NotificationDelivery" where
  "delivery_new json_ok did iid ep sq ch k at snapshot =
     (if ep = 0 \<or> sq = 0 then Inl ''episode_number and delivery_sequence must be positive''
      else if \<not> json_ok snapshot then Inl ''policy_snapshot_json must contain valid JSON''
      else Inr \<lparr>nd_id = did, nd_delivery_key = make_delivery_key iid ep ch k sq, nd_incident_id = iid,
                nd_episode_number = ep, nd_delivery_sequence = sq, nd_policy_id = None,
                nd_policy_revision = None, nd_policy_snapshot_json = snapshot, nd_channel = ch,
                nd_delivery_kind = k, nd_status = StatusScheduled, nd_scheduled_at_ms = at,
                nd_claim_token = None, nd_claimed_at_ms = None, nd_lease_expires_at_ms = None,
                nd_attempt_count = 0, nd_attempted_at_ms = None, nd_outcome_unknown_at_ms = None,
                nd_retry_not_before_ms = None, nd_delivered_at_ms = None, nd_suppressed_reason = None,
                nd_error_code = None, nd_created_at_ms = at, nd_updated_at_ms = at\<rparr>)"

definition delivery_suppress ::
    "NotificationDelivery \<Rightarrow> SuppressionReason \<Rightarrow> i64 \<Rightarrow> string + NotificationDelivery" where
  "delivery_suppress d reason now =
     (if nd_status d \<noteq> StatusScheduled then Inl ''only scheduled delivery can be suppressed''
      else Inr (d\<lparr>nd_status := StatusSuppressed, nd_suppressed_reason := Some reason,
                  nd_updated_at_ms := now\<rparr>))"

section \<open>Settings\<close>

record IncidentAttention =
  at_incident_id :: string
  at_episode_number :: u32
  at_seen_at_ms :: "i64 option"
  at_snoozed_until_ms :: "i64 option"
  at_updated_at_ms :: i64

definition is_snoozed_at :: "IncidentAttention \<Rightarrow> i64 \<Rightarrow> bool" where
  "is_snoozed_at a now = (case at_snoozed_until_ms a of None \<Rightarrow> False | Some until \<Rightarrow> now < until)"

record AlertingSettings =
  as_revision :: u64
  as_alerting_enabled :: bool
  as_in_app_enabled :: bool
  as_desktop_enabled :: bool
  as_paused :: bool
  as_global_pause_until_ms :: "i64 option"
  as_quiet_hours_enabled :: bool
  as_quiet_hours_start_local :: "string option"
  as_quiet_hours_end_local :: "string option"
  as_quiet_hours_time_zone :: string
  as_critical_bypasses_quiet_hours :: bool
  as_delete_resolved_incidents :: bool
  as_history_retention_days :: u32
  as_delivery_retention_days :: u32
  as_updated_at_ms :: i64

definition settings_default :: AlertingSettings where
  "settings_default =
     \<lparr>as_revision = 1, as_alerting_enabled = True, as_in_app_enabled = True, as_desktop_enabled = False,
      as_paused = False, as_global_pause_until_ms = None, as_quiet_hours_enabled = False,
      as_quiet_hours_start_local = Some ''22:00'', as_quiet_hours_end_local = Some ''08:00'',
      as_quiet_hours_time_zone = ''local'', as_critical_bypasses_quiet_hours = True,
      as_delete_resolved_incidents = True, as_history_retention_days = 90,
      as_delivery_retention_days = 30, as_updated_at_ms = 0\<rparr>"

text \<open>
  \<^verbatim>\<open>str::parse::<u16>\<close>: an optional plus sign and at least one decimal digit, refused when the number
  does not fit; \<^verbatim>\<open>split_once\<close> cuts at the first occurrence.
\<close>

definition is_digit :: "char \<Rightarrow> bool" where
  "is_digit c \<longleftrightarrow> CHR ''0'' \<le> c \<and> c \<le> CHR ''9''"

definition parse_u16 :: "string \<Rightarrow> nat option" where
  "parse_u16 s =
     (let ds = (case s of [] \<Rightarrow> [] | c # cs \<Rightarrow> if c = CHR ''+'' then cs else s)
      in if ds = [] \<or> \<not> list_all is_digit ds then None
         else let n = foldl (\<lambda>n c. n * 10 + (of_char c - 48)) 0 ds
              in if n < 65536 then Some n else None)"

fun split_once :: "char \<Rightarrow> string \<Rightarrow> (string \<times> string) option" where
  "split_once c [] = None"
| "split_once c (x # xs) =
     (if x = c then Some ([], xs)
      else case split_once c xs of None \<Rightarrow> None | Some (a, b) \<Rightarrow> Some (x # a, b))"

definition parse_minutes :: "string \<Rightarrow> nat option" where
  "parse_minutes v =
     (case split_once (CHR '':'') v of
        None \<Rightarrow> None
      | Some (h, m) \<Rightarrow>
          if length h \<noteq> 2 \<or> length m \<noteq> 2 then None
          else case (parse_u16 h, parse_u16 m) of
            (Some hours, Some minutes) \<Rightarrow>
              if 24 \<le> hours \<or> 60 \<le> minutes then None else Some (hours * 60 + minutes)
          | _ \<Rightarrow> None)"

definition retention_ok :: "u32 \<Rightarrow> bool" where
  "retention_ok d \<longleftrightarrow> 1 \<le> d \<and> d \<le> 3650"

text \<open>\<open>tz_known\<close> tells whether the time zone database knows a name.\<close>

definition settings_validate :: "(string \<Rightarrow> bool) \<Rightarrow> AlertingSettings \<Rightarrow> PersistenceError + unit" where
  "settings_validate tz_known s =
     (if as_revision s = 0 \<or> \<not> retention_ok (as_history_retention_days s) \<or>
         \<not> retention_ok (as_delivery_retention_days s)
      then Inl ConstraintViolation
      else if (case as_global_pause_until_ms s of None \<Rightarrow> False | Some v \<Rightarrow> v < 0)
      then Inl ConstraintViolation
      else if as_quiet_hours_enabled s then
        (case (as_quiet_hours_start_local s, as_quiet_hours_end_local s) of
           (Some a, Some b) \<Rightarrow>
             if parse_minutes a = None \<or> parse_minutes b = None then Inl ConstraintViolation
             else if as_quiet_hours_time_zone s \<noteq> ''local'' \<and> \<not> tz_known (as_quiet_hours_time_zone s)
             then Inl ConstraintViolation
             else Inr ()
         | _ \<Rightarrow> Inl ConstraintViolation)
      else Inr ())"

definition is_paused_at :: "AlertingSettings \<Rightarrow> i64 \<Rightarrow> bool" where
  "is_paused_at s now \<longleftrightarrow>
     as_paused s \<or> (case as_global_pause_until_ms s of None \<Rightarrow> False | Some until \<Rightarrow> now < until)"

text \<open>
  \<open>minute_of_day zone now\<close> is the wall clock of the zone at a time stamp, in minutes since midnight,
  \<open>None\<close> for a time stamp outside the calendar.
\<close>

definition is_quiet_at :: "(string \<Rightarrow> i64 \<Rightarrow> nat option) \<Rightarrow> AlertingSettings \<Rightarrow> i64 \<Rightarrow> bool" where
  "is_quiet_at minute_of_day s now =
     (if \<not> as_quiet_hours_enabled s then False
      else case (as_quiet_hours_start_local s, as_quiet_hours_end_local s) of
        (Some a, Some b) \<Rightarrow>
          (case (parse_minutes a, parse_minutes b) of
             (Some start, Some stop) \<Rightarrow>
               (case minute_of_day (as_quiet_hours_time_zone s) now of
                  None \<Rightarrow> False
                | Some minute \<Rightarrow>
                    if start = stop then True
                    else if start < stop then start \<le> minute \<and> minute < stop
                    else start \<le> minute \<or> minute < stop)
           | _ \<Rightarrow> False)
      | _ \<Rightarrow> False)"

section \<open>Planning\<close>

record PlannedDelivery =
  pd_delivery :: NotificationDelivery
  pd_suppression_reason :: "SuppressionReason option"

definition channel_is_policy_enabled :: "AlertPolicy \<Rightarrow> NotificationChannel \<Rightarrow> bool" where
  "channel_is_policy_enabled p ch =
     (case ch of InApp \<Rightarrow> ap_in_app_enabled p | Desktop \<Rightarrow> ap_desktop_enabled p)"

definition suppression_reason ::
    "(string \<Rightarrow> i64 \<Rightarrow> nat option) \<Rightarrow> Incident \<Rightarrow> AlertPolicy \<Rightarrow> AlertingSettings \<Rightarrow> IncidentAttention option \<Rightarrow>
     NotificationChannel \<Rightarrow> i64 \<Rightarrow> bool \<Rightarrow> SuppressionReason option" where
  "suppression_reason clock i p s att ch now policy_channel_enabled =
     (if \<not> ap_enabled p \<or> ap_state p \<noteq> PolicyActive then Some PolicyMuted
      else if \<not> as_alerting_enabled s then Some GlobalDisabled
      else if \<not> policy_channel_enabled then Some ChannelDisabled
      else if \<not> (case ch of InApp \<Rightarrow> as_in_app_enabled s | Desktop \<Rightarrow> as_desktop_enabled s)
      then Some ChannelDisabled
      else if is_paused_at s now then Some GlobalPause
      else if (case att of None \<Rightarrow> False | Some a \<Rightarrow> is_snoozed_at a now) then Some IncidentSnoozed
      else if (case ap_quiet_hours_policy p of
                 QuietRespect \<Rightarrow> True
               | BypassForCritical \<Rightarrow> in_severity i \<noteq> SevCritical
               | QuietInherit \<Rightarrow> \<not> (in_severity i = SevCritical \<and> as_critical_bypasses_quiet_hours s)) \<and>
              is_quiet_at clock s now
      then Some QuietHours
      else None)"

definition short_hash :: "(string \<Rightarrow> u8 list) \<Rightarrow> string \<Rightarrow> string" where
  "short_hash sha256 v = concat (map hex_byte (take 12 (sha256 v)))"

definition make_delivery ::
    "(string \<Rightarrow> bool) \<Rightarrow> (string \<Rightarrow> u8 list) \<Rightarrow> Incident \<Rightarrow> AlertPolicy \<Rightarrow> NotificationChannel \<Rightarrow> DeliveryKind \<Rightarrow>
     u64 \<Rightarrow> i64 \<Rightarrow> string \<Rightarrow> NotificationDelivery run" where
  "make_delivery json_ok sha256 i p ch k sq now snapshot =
     (let key = make_delivery_key (in_id i) (in_episode_number i) ch k sq
      in case delivery_new json_ok (''delivery-'' @ short_hash sha256 key) (in_id i)
                (in_episode_number i) sq ch k now snapshot of
           Inl _ \<Rightarrow> Panic ''planner emits valid delivery values''
         | Inr d \<Rightarrow>
             Done (if ap_id p \<noteq> ''system_default''
                   then d\<lparr>nd_policy_id := Some (ap_id p), nd_policy_revision := Some (ap_revision p)\<rparr>
                   else d))"

definition plan_kind ::
    "(string \<Rightarrow> i64 \<Rightarrow> nat option) \<Rightarrow> (string \<Rightarrow> bool) \<Rightarrow> (string \<Rightarrow> u8 list) \<Rightarrow> (AlertPolicy \<Rightarrow> string option) \<Rightarrow>
     DeliveryKind \<Rightarrow> Incident \<Rightarrow> AlertPolicy \<Rightarrow> AlertingSettings \<Rightarrow> IncidentAttention option \<Rightarrow> i64 \<Rightarrow> u64 \<Rightarrow>
     PlannedDelivery list run" where
  "plan_kind clock json_ok sha256 to_json k i p s att now sq =
     (let snapshot = (case to_json p of None \<Rightarrow> ''{}'' | Some t \<Rightarrow> t)
      in run_map
           (\<lambda>ch. let reason = suppression_reason clock i p s att ch now (channel_is_policy_enabled p ch)
                 in run_bind (make_delivery json_ok sha256 i p ch k sq now snapshot)
                      (\<lambda>d. Done \<lparr>pd_delivery = d, pd_suppression_reason = reason\<rparr>))
           [InApp, Desktop])"

definition plan_transition ::
    "(string \<Rightarrow> i64 \<Rightarrow> nat option) \<Rightarrow> (string \<Rightarrow> bool) \<Rightarrow> (string \<Rightarrow> u8 list) \<Rightarrow> (AlertPolicy \<Rightarrow> string option) \<Rightarrow>
     StateTransition \<Rightarrow> Incident \<Rightarrow> AlertPolicy \<Rightarrow> AlertingSettings \<Rightarrow> IncidentAttention option \<Rightarrow> i64 \<Rightarrow>
     PlannedDelivery list run" where
  "plan_transition clock json_ok sha256 to_json t i p s att now =
     (if t = Opened \<or> t = Reopened
      then plan_kind clock json_ok sha256 to_json KindOpened i p s att now 1
      else if t = ToResolved
      then (if \<not> ap_recovery_notification_enabled p then Done []
            else plan_kind clock json_ok sha256 to_json KindRecovered i p s att now 1)
      else Done [])"

end
