(* ===== verification/DeliveryLedger.thy ===== *)
theory DeliveryLedger
  imports AlertDelivery
begin

text \<open>
  The ledger of notifications (\<^verbatim>\<open>DeliveryStore\<close> of \<^verbatim>\<open>persistence/stores/alerting/mod.rs\<close>, driven by
  \<^verbatim>\<open>application/alerting/delivery_worker.rs\<close>). The table is the list of its rows; each function is
  one SQL statement: the rows its \<^verbatim>\<open>WHERE\<close> selects are updated, the others are kept.
\<close>

section \<open>Statements\<close>

type_synonym ledger = "NotificationDelivery list"

text \<open>The ids of \<^verbatim>\<open>SELECT id ... WHERE P ORDER BY key, id LIMIT n\<close>.\<close>

definition sql_first_ids ::
    "(NotificationDelivery \<Rightarrow> bool) \<Rightarrow> (NotificationDelivery \<Rightarrow> i64) \<Rightarrow> nat \<Rightarrow> ledger \<Rightarrow> string list" where
  "sql_first_ids P key n rows =
     map nd_id (take n (sort_by (\<lambda>a b. (key a, nd_id a) \<le> (key b, nd_id b)) (filter P rows)))"

text \<open>
  A row is inserted unless its delivery key is present; a clash of its id or of its
  \<^verbatim>\<open>UNIQUE (incident_id, episode_number, channel, delivery_kind, delivery_sequence)\<close> is an error.
  The statement writes the columns of a fresh row and leaves the claim columns empty.
\<close>

definition same_slot :: "NotificationDelivery \<Rightarrow> NotificationDelivery \<Rightarrow> bool" where
  "same_slot a b \<longleftrightarrow>
     nd_incident_id a = nd_incident_id b \<and> nd_episode_number a = nd_episode_number b \<and>
     nd_channel a = nd_channel b \<and> nd_delivery_kind a = nd_delivery_kind b \<and>
     nd_delivery_sequence a = nd_delivery_sequence b"

definition fresh_row :: "NotificationDelivery \<Rightarrow> NotificationDelivery" where
  "fresh_row d =
     d\<lparr>nd_claim_token := None, nd_claimed_at_ms := None, nd_lease_expires_at_ms := None,
       nd_attempt_count := 0, nd_attempted_at_ms := None, nd_outcome_unknown_at_ms := None,
       nd_retry_not_before_ms := None, nd_delivered_at_ms := None, nd_error_code := None,
       nd_created_at_ms := nd_scheduled_at_ms d, nd_updated_at_ms := nd_scheduled_at_ms d\<rparr>"

definition schedule :: "ledger \<Rightarrow> NotificationDelivery \<Rightarrow> PersistenceError + (ledger \<times> bool)" where
  "schedule rows d =
     (if \<exists>r \<in> set rows. nd_delivery_key r = nd_delivery_key d then Inr (rows, False)
      else if \<exists>r \<in> set rows. nd_id r = nd_id d \<or> same_slot r d then Inl ConstraintViolation
      else Inr (rows @ [fresh_row d], True))"

definition claimable :: "i64 \<Rightarrow> NotificationDelivery \<Rightarrow> bool" where
  "claimable now r \<longleftrightarrow>
     nd_status r \<in> {StatusScheduled, OutcomeUnknown} \<and> nd_scheduled_at_ms r \<le> now \<and>
     (case nd_retry_not_before_ms r of None \<Rightarrow> True | Some t \<Rightarrow> t \<le> now)"

definition claim_due :: "ledger \<Rightarrow> string \<Rightarrow> string \<Rightarrow> i64 \<Rightarrow> i64 \<Rightarrow> PersistenceError + (ledger \<times> bool)" where
  "claim_due rows did token now lease =
     (if lease \<le> 0 then Inl ConstraintViolation
      else case sql_update (\<lambda>r. nd_id r = did \<and> claimable now r)
             (\<lambda>r. r\<lparr>nd_status := StatusClaimed, nd_claim_token := Some token, nd_claimed_at_ms := Some now,
                    nd_lease_expires_at_ms := Some (now + lease),
                    nd_attempt_count := nd_attempt_count r + 1, nd_attempted_at_ms := Some now,
                    nd_retry_not_before_ms := None, nd_updated_at_ms := now\<rparr>) rows of
        (rows', n) \<Rightarrow> Inr (rows', n = 1))"

text \<open>The bound of a \<^verbatim>\<open>LIMIT\<close>.\<close>

definition sql_limit :: "nat \<Rightarrow> u32 \<Rightarrow> nat" where
  "sql_limit most l = max 1 (min most (unat l))"

definition due_ids :: "ledger \<Rightarrow> i64 \<Rightarrow> u32 \<Rightarrow> string list" where
  "due_ids rows now limit = sql_first_ids (claimable now) nd_scheduled_at_ms (sql_limit 500 limit) rows"

definition held :: "string \<Rightarrow> string \<Rightarrow> NotificationDelivery \<Rightarrow> bool" where
  "held did token r \<longleftrightarrow> nd_id r = did \<and> nd_status r = StatusClaimed \<and> nd_claim_token r = Some token"

definition update_held ::
    "ledger \<Rightarrow> string \<Rightarrow> string \<Rightarrow> (NotificationDelivery \<Rightarrow> NotificationDelivery) \<Rightarrow> PersistenceError + ledger" where
  "update_held rows did token f =
     (case sql_update (held did token) f rows of
        (rows', n) \<Rightarrow> if n \<noteq> 1 then Inl (RevisionConflict did) else Inr rows')"

definition mark_delivered :: "ledger \<Rightarrow> string \<Rightarrow> string \<Rightarrow> i64 \<Rightarrow> PersistenceError + ledger" where
  "mark_delivered rows did token now =
     update_held rows did token
       (\<lambda>r. r\<lparr>nd_status := StatusDelivered, nd_delivered_at_ms := Some now, nd_claim_token := None,
              nd_lease_expires_at_ms := None, nd_updated_at_ms := now\<rparr>)"

definition mark_failed :: "ledger \<Rightarrow> string \<Rightarrow> string \<Rightarrow> string \<Rightarrow> i64 \<Rightarrow> PersistenceError + ledger" where
  "mark_failed rows did token code now =
     update_held rows did token
       (\<lambda>r. r\<lparr>nd_status := StatusFailed, nd_error_code := Some code, nd_claim_token := None,
              nd_lease_expires_at_ms := None, nd_updated_at_ms := now\<rparr>)"

definition release_for_retry ::
    "ledger \<Rightarrow> string \<Rightarrow> string \<Rightarrow> string \<Rightarrow> i64 \<Rightarrow> i64 \<Rightarrow> u32 \<Rightarrow> PersistenceError + ledger" where
  "release_for_retry rows did token code retry_at now max_attempts =
     update_held rows did token
       (\<lambda>r. let spent = max max_attempts 1 \<le> nd_attempt_count r
            in r\<lparr>nd_status := (if spent then StatusFailed else OutcomeUnknown),
                 nd_error_code := (if spent then Some code else nd_error_code r),
                 nd_outcome_unknown_at_ms := (if spent then nd_outcome_unknown_at_ms r else Some retry_at),
                 nd_retry_not_before_ms := (if spent then None else Some retry_at),
                 nd_claim_token := None, nd_lease_expires_at_ms := None, nd_updated_at_ms := now\<rparr>)"

definition suppress_scheduled_for_incident ::
    "ledger \<Rightarrow> string \<Rightarrow> u32 \<Rightarrow> SuppressionReason \<Rightarrow> i64 \<Rightarrow> u32 \<Rightarrow> ledger \<times> nat" where
  "suppress_scheduled_for_incident rows iid ep reason now limit =
     (let ids = sql_first_ids
                  (\<lambda>r. nd_incident_id r = iid \<and> nd_episode_number r = ep \<and> nd_status r = StatusScheduled)
                  nd_scheduled_at_ms (sql_limit 500 limit) rows
      in sql_update (\<lambda>r. nd_id r \<in> set ids)
           (\<lambda>r. r\<lparr>nd_status := StatusSuppressed, nd_suppressed_reason := Some reason,
                  nd_updated_at_ms := now\<rparr>) rows)"

definition lease_expired :: "i64 \<Rightarrow> NotificationDelivery \<Rightarrow> bool" where
  "lease_expired now r \<longleftrightarrow>
     nd_status r = StatusClaimed \<and>
     (case nd_lease_expires_at_ms r of None \<Rightarrow> False | Some t \<Rightarrow> t \<le> now)"

definition expire_claims :: "ledger \<Rightarrow> i64 \<Rightarrow> i64 \<Rightarrow> u32 \<Rightarrow> u32 \<Rightarrow> ledger \<times> nat" where
  "expire_claims rows now retry_at max_attempts limit =
     (let ids = sql_first_ids (lease_expired now)
                  (\<lambda>r. case nd_lease_expires_at_ms r of None \<Rightarrow> 0 | Some t \<Rightarrow> t)
                  (sql_limit 500 limit) rows
      in sql_update (\<lambda>r. nd_id r \<in> set ids)
           (\<lambda>r. let spent = max max_attempts 1 \<le> nd_attempt_count r
                in r\<lparr>nd_status := (if spent then StatusFailed else OutcomeUnknown),
                     nd_error_code := (if spent then Some ''retry_exhausted'' else nd_error_code r),
                     nd_outcome_unknown_at_ms := (if spent then nd_outcome_unknown_at_ms r else Some now),
                     nd_retry_not_before_ms := (if spent then None else Some retry_at),
                     nd_claim_token := None, nd_lease_expires_at_ms := None,
                     nd_updated_at_ms := now\<rparr>) rows)"

definition delete_terminal_before :: "ledger \<Rightarrow> i64 \<Rightarrow> u32 \<Rightarrow> ledger \<times> nat" where
  "delete_terminal_before rows cutoff limit =
     (let ids = sql_first_ids
                  (\<lambda>r. nd_created_at_ms r < cutoff \<and>
                       nd_status r \<in> {StatusDelivered, StatusSuppressed, StatusFailed, OutcomeUnknown})
                  nd_created_at_ms (sql_limit 1000 limit) rows
      in (filter (\<lambda>r. nd_id r \<notin> set ids) rows, length (filter (\<lambda>r. nd_id r \<in> set ids) rows)))"

section \<open>The worker\<close>

text \<open>\<^verbatim>\<open>1_i64 << exponent\<close> with an exponent of at most five.\<close>

definition backoff_ms :: "u32 \<Rightarrow> i64" where
  "backoff_ms attempt =
     i64_clamp (1000 * 2 ^ unat (min (sat_sub attempt 1) 5))"

definition lease_ms :: i64 where "lease_ms = 30000"

definition worker_max_attempts :: u32 where "worker_max_attempts = 3"

definition mark_adapter_failure :: "ledger \<Rightarrow> string \<Rightarrow> string \<Rightarrow> i64 \<Rightarrow> PersistenceError + ledger" where
  "mark_adapter_failure rows did token now =
     release_for_retry rows did token ''delivery_adapter_failed'' (i64_sat_add now (backoff_ms 1)) now
       worker_max_attempts"

definition recover_expired :: "ledger \<Rightarrow> i64 \<Rightarrow> u32 \<Rightarrow> ledger \<times> nat" where
  "recover_expired rows now limit =
     expire_claims rows now (i64_sat_add now (backoff_ms 1)) worker_max_attempts limit"

text \<open>
  One round of claims: for every due delivery a token is drawn and the row claimed in a transaction of
  its own; an error of one ends the round. The result lists the ids claimed with their tokens.
\<close>

fun claim_all ::
    "(string \<Rightarrow> u64 \<Rightarrow> string) \<Rightarrow> i64 \<Rightarrow> string list \<Rightarrow> ledger \<Rightarrow> u64 \<Rightarrow>
     (ledger \<times> u64) \<times> (PersistenceError + (string \<times> string) list)" where
  "claim_all tok now [] rows sq = ((rows, sq), Inr [])"
| "claim_all tok now (did # ids) rows sq =
     (case claim_due rows did (tok did sq) now lease_ms of
        Inl e \<Rightarrow> ((rows, sq + 1), Inl e)
      | Inr (rows', claimed) \<Rightarrow>
          (case claim_all tok now ids rows' (sq + 1) of
             (st, Inl e) \<Rightarrow> (st, Inl e)
           | (st, Inr cs) \<Rightarrow> (st, Inr (if claimed then (did, tok did sq) # cs else cs))))"

definition claim_token :: "(string \<Rightarrow> string) \<Rightarrow> i64 \<Rightarrow> string \<Rightarrow> u64 \<Rightarrow> string" where
  "claim_token id_hash now did sq =
     ''claim-'' @ (if now < 0 then ''-'' @ show_nat (nat (- now)) else show_nat (nat now)) @ ''-'' @
     show_nat (unat sq) @ ''-'' @ id_hash did"

definition worker_claim_due ::
    "(string \<Rightarrow> string) \<Rightarrow> ledger \<times> u64 \<Rightarrow> i64 \<Rightarrow> u32 \<Rightarrow>
     (ledger \<times> u64) \<times> (PersistenceError + (string \<times> string) list)" where
  "worker_claim_due id_hash st now limit =
     (case st of (rows, sq) \<Rightarrow>
        claim_all (claim_token id_hash now) now (due_ids rows now limit) rows sq)"

end
