(* ===== verification/AlertTables.thy ===== *)
theory AlertTables
  imports DeliveryLedger
begin

text \<open>
  The tables of alerting (\<^verbatim>\<open>persistence/stores/alerting/mod.rs\<close> on the schema of
  \<^verbatim>\<open>persistence/migrations/0029_change_center_alerting_foundation.sql\<close>): one list of rows per table,
  one function per SQL statement, with the \<^verbatim>\<open>CHECK\<close>, uniqueness and foreign key constraints that can
  make a statement fail and the actions of the foreign keys on deletion. A failed \<^verbatim>\<open>CHECK\<close> is reported
  as \<open>DatabaseFailed\<close>, a broken unique or foreign key as \<open>ConstraintViolation\<close>.
\<close>

section \<open>Rows\<close>

record OccurrenceRow =
  oc_id :: string
  oc_source_observation_key :: string
  oc_event_type :: AlertEventType
  oc_category :: EventCategory
  oc_observation_kind :: ObservationKind
  oc_severity :: Severity
  oc_condition_key :: "string option"
  oc_incident_id :: "string option"
  oc_episode_number :: "u32 option"
  oc_object_type :: string
  oc_object_id :: "string option"
  oc_station_id :: "string option"
  oc_station_key_id :: "string option"
  oc_source :: string
  oc_reason_code :: "string option"
  oc_old_value_json :: "string option"
  oc_new_value_json :: "string option"
  oc_impact_json :: "string option"
  oc_observed_at_ms :: i64
  oc_created_at_ms :: i64
  oc_seen_at_ms :: "i64 option"

text \<open>
  The part of the database that alerting reads and writes. The stations are their ids, the station keys
  their ids with the id of the station.
\<close>

record AlertDb =
  db_stations :: "string list"
  db_station_keys :: "(string \<times> string) list"
  db_policies :: "AlertPolicy list"
  db_incidents :: "Incident list"
  db_occurrences :: "OccurrenceRow list"
  db_attention :: "IncidentAttention list"
  db_deliveries :: ledger
  db_settings_json :: "string option"

text \<open>
  What the sources take from libraries: the JSON parser and writers, SQLite's \<^verbatim>\<open>json_valid\<close>, SHA-256,
  the time zone database with the local time and the form encoding of URLs, all as functions.
\<close>

datatype JsonValue = JObject "(string \<times> JsonValue) list" | JArray "JsonValue list" | JString string | JScalar

record AlertEnv =
  ev_parse_json :: "string \<Rightarrow> JsonValue option"
  ev_sql_json_valid :: "string \<Rightarrow> bool"
  ev_sha256 :: "string \<Rightarrow> u8 list"
  ev_policy_json :: "AlertPolicy \<Rightarrow> string option"
  ev_settings_from_json :: "string \<Rightarrow> AlertingSettings option"
  ev_settings_to_json :: "AlertingSettings \<Rightarrow> string option"
  ev_tz_known :: "string \<Rightarrow> bool"
  ev_minute_of_day :: "string \<Rightarrow> i64 \<Rightarrow> nat option"
  ev_url_encode :: "string \<Rightarrow> string"

definition json_ok :: "AlertEnv \<Rightarrow> string \<Rightarrow> bool" where
  "json_ok env s \<longleftrightarrow> ev_parse_json env s \<noteq> None"

definition refers :: "'a option \<Rightarrow> 'a list \<Rightarrow> bool" where
  "refers v ids = (case v of None \<Rightarrow> True | Some i \<Rightarrow> i \<in> set ids)"

definition nonneg :: "i64 option \<Rightarrow> bool" where
  "nonneg v = (case v of None \<Rightarrow> True | Some t \<Rightarrow> 0 \<le> t)"

section \<open>Occurrences\<close>

definition occurrence_checks :: "AlertEnv \<Rightarrow> OccurrenceRow \<Rightarrow> bool" where
  "occurrence_checks env oc \<longleftrightarrow>
     (case oc_old_value_json oc of None \<Rightarrow> True | Some j \<Rightarrow> ev_sql_json_valid env j) \<and>
     (case oc_new_value_json oc of None \<Rightarrow> True | Some j \<Rightarrow> ev_sql_json_valid env j) \<and>
     (case oc_impact_json oc of None \<Rightarrow> True | Some j \<Rightarrow> ev_sql_json_valid env j) \<and>
     0 \<le> oc_observed_at_ms oc \<and> 0 \<le> oc_created_at_ms oc"

definition insert_ignore :: "AlertEnv \<Rightarrow> AlertDb \<Rightarrow> OccurrenceRow \<Rightarrow> PersistenceError + (AlertDb \<times> bool)" where
  "insert_ignore env db oc =
     (if \<not> occurrence_checks env oc then Inl DatabaseFailed
      else if \<exists>r \<in> set (db_occurrences db). oc_source_observation_key r = oc_source_observation_key oc
      then Inr (db, False)
      else if \<exists>r \<in> set (db_occurrences db). oc_id r = oc_id oc then Inl ConstraintViolation
      else if \<not> refers (oc_station_id oc) (db_stations db) \<or>
              \<not> refers (oc_station_key_id oc) (map fst (db_station_keys db))
      then Inl ConstraintViolation
      else Inr (db\<lparr>db_occurrences := db_occurrences db @ [oc]\<rparr>, True))"

definition link_occurrence :: "AlertDb \<Rightarrow> string \<Rightarrow> string \<Rightarrow> u32 \<Rightarrow> AlertDb" where
  "link_occurrence db oid iid ep =
     db\<lparr>db_occurrences :=
          fst (sql_update
            (\<lambda>r. oc_id r = oid \<and> (oc_incident_id r = None \<or> oc_incident_id r = Some iid))
            (\<lambda>r. r\<lparr>oc_incident_id := Some iid, oc_episode_number := Some ep\<rparr>) (db_occurrences db))\<rparr>"

section \<open>Incidents\<close>

text \<open>An unsigned 64-bit number is bound as the \<^verbatim>\<open>i64\<close> of the same bits.\<close>

definition incident_checks :: "AlertEnv \<Rightarrow> Incident \<Rightarrow> bool" where
  "incident_checks env i \<longleftrightarrow>
     (case in_policy_revision i of None \<Rightarrow> True | Some v \<Rightarrow> 0 < sint v) \<and>
     in_episode_number i \<noteq> 0 \<and> 0 \<le> in_first_seen_at_ms i \<and> 0 \<le> in_last_seen_at_ms i \<and>
     nonneg (in_opened_at_ms i) \<and> nonneg (in_recovering_at_ms i) \<and> nonneg (in_resolved_at_ms i) \<and>
     0 \<le> sint (in_occurrence_count i) \<and> 0 \<le> sint (in_episode_occurrence_count i) \<and>
     nonneg (in_pending_since_ms i) \<and> nonneg (in_healthy_since_ms i) \<and>
     ev_sql_json_valid env (in_last_observation_summary_json i) \<and>
     nonneg (in_fact_fresh_until_ms i) \<and> nonneg (in_next_state_evaluation_at_ms i) \<and>
     nonneg (in_last_notification_at_ms i) \<and> nonneg (in_next_notification_at_ms i) \<and>
     0 \<le> sint (in_version i) \<and> 0 \<le> in_created_at_ms i \<and> 0 \<le> in_updated_at_ms i"

definition incident_refers :: "AlertDb \<Rightarrow> Incident \<Rightarrow> bool" where
  "incident_refers db i \<longleftrightarrow>
     refers (in_station_id i) (db_stations db) \<and>
     refers (in_station_key_id i) (map fst (db_station_keys db)) \<and>
     refers (in_policy_id i) (map ap_id (db_policies db))"

definition load_for_write :: "AlertDb \<Rightarrow> string \<Rightarrow> PersistenceError + Incident option" where
  "load_for_write db condition =
     (case find (\<lambda>i. in_condition_key i = condition) (db_incidents db) of
        None \<Rightarrow> Inr None
      | Some i \<Rightarrow> (case condition_key_new (in_condition_key i) of
                    Inl e \<Rightarrow> Inl (InvariantViolation e)
                  | Inr _ \<Rightarrow> Inr (Some i)))"

definition insert_snapshot :: "AlertEnv \<Rightarrow> AlertDb \<Rightarrow> Incident \<Rightarrow> PersistenceError + AlertDb" where
  "insert_snapshot env db i =
     (if \<not> incident_checks env i then Inl DatabaseFailed
      else if \<exists>r \<in> set (db_incidents db). in_id r = in_id i \<or> in_condition_key r = in_condition_key i
      then Inl ConstraintViolation
      else if \<not> incident_refers db i then Inl ConstraintViolation
      else Inr (db\<lparr>db_incidents := db_incidents db @ [i]\<rparr>))"

text \<open>The update writes every column but the id, the condition, the type, the base severity and the creation.\<close>

definition written_row :: "Incident \<Rightarrow> Incident \<Rightarrow> Incident" where
  "written_row i r =
     i\<lparr>in_id := in_id r, in_condition_key := in_condition_key r, in_event_type := in_event_type r,
       in_base_severity := in_base_severity r, in_created_at_ms := in_created_at_ms r\<rparr>"

definition update_snapshot_cas :: "AlertEnv \<Rightarrow> AlertDb \<Rightarrow> Incident \<Rightarrow> u64 \<Rightarrow> PersistenceError + AlertDb" where
  "update_snapshot_cas env db i expected =
     (case sql_update (\<lambda>r. in_id r = in_id i \<and> in_version r = expected) (written_row i)
             (db_incidents db) of
        (rows, n) \<Rightarrow>
          if n \<noteq> 0 \<and> \<not> incident_checks env i then Inl DatabaseFailed
          else if n \<noteq> 0 \<and> \<not> incident_refers db i then Inl ConstraintViolation
          else if n \<noteq> 1 then Inl (RevisionConflict (in_id i))
          else Inr (db\<lparr>db_incidents := rows\<rparr>))"

definition active_states :: "LifecycleState set" where
  "active_states = {Pending, Open, Recovering}"

text \<open>A page of \<^verbatim>\<open>list_active_page\<close>: after the cursor, in the order of update time and id.\<close>

definition list_active_page :: "AlertDb \<Rightarrow> (i64 \<times> string) option \<Rightarrow> u32 \<Rightarrow> Incident list" where
  "list_active_page db cursor limit =
     take (sql_limit 500 limit)
       (sort_by (\<lambda>a b. (in_updated_at_ms a, in_id a) \<le> (in_updated_at_ms b, in_id b))
          (filter (\<lambda>i. in_lifecycle_state i \<in> active_states \<and> in_event_type i \<noteq> GroupMissing \<and>
                       (case cursor of None \<Rightarrow> True | Some c \<Rightarrow> c < (in_updated_at_ms i, in_id i)))
             (db_incidents db)))"

text \<open>Deleting incidents unlinks their occurrences and deletes their attention and deliveries.\<close>

definition delete_incidents :: "AlertDb \<Rightarrow> string set \<Rightarrow> AlertDb" where
  "delete_incidents db ids =
     db\<lparr>db_incidents := filter (\<lambda>i. in_id i \<notin> ids) (db_incidents db),
        db_occurrences :=
          map (\<lambda>r. if (case oc_incident_id r of None \<Rightarrow> False | Some i \<Rightarrow> i \<in> ids)
                   then r\<lparr>oc_incident_id := None\<rparr> else r) (db_occurrences db),
        db_attention := filter (\<lambda>a. at_incident_id a \<notin> ids) (db_attention db),
        db_deliveries := filter (\<lambda>d. nd_incident_id d \<notin> ids) (db_deliveries db)\<rparr>"

definition incident_ids :: "(Incident \<Rightarrow> bool) \<Rightarrow> AlertDb \<Rightarrow> string list" where
  "incident_ids P db = map in_id (filter P (db_incidents db))"

definition delete_resolved_by_id :: "AlertDb \<Rightarrow> string \<Rightarrow> AlertDb \<times> nat" where
  "delete_resolved_by_id db iid =
     (let ids = incident_ids (\<lambda>i. in_id i = iid \<and> in_lifecycle_state i = Resolved) db
      in (delete_incidents db (set ids), length ids))"

definition delete_resolved :: "AlertDb \<Rightarrow> u32 \<Rightarrow> AlertDb \<times> nat" where
  "delete_resolved db limit =
     (let ids = map in_id (take (sql_limit 10000 limit)
                  (sort_by (\<lambda>a b. (in_updated_at_ms a, in_id a) \<le> (in_updated_at_ms b, in_id b))
                     (filter (\<lambda>i. in_lifecycle_state i = Resolved) (db_incidents db))))
      in (delete_incidents db (set ids), length ids))"

text \<open>
  The user's bulk operations. Resolving suppresses the deliveries of the incidents that are not finished
  and closes the incidents; the station filter of a deletion also covers incidents of the station's keys.
\<close>

definition suppress_stale :: "AlertDb \<Rightarrow> string set \<Rightarrow> i64 \<Rightarrow> AlertDb" where
  "suppress_stale db ids now =
     db\<lparr>db_deliveries :=
          fst (sql_update
            (\<lambda>d. nd_incident_id d \<in> ids \<and> nd_status d \<in> {StatusScheduled, StatusClaimed, OutcomeUnknown})
            (\<lambda>d. d\<lparr>nd_status := StatusSuppressed, nd_suppressed_reason := Some StaleEpisode,
                   nd_claim_token := None, nd_lease_expires_at_ms := None,
                   nd_retry_not_before_ms := None, nd_updated_at_ms := now\<rparr>) (db_deliveries db))\<rparr>"

definition force_resolved :: "i64 \<Rightarrow> Incident \<Rightarrow> Incident" where
  "force_resolved now i =
     i\<lparr>in_lifecycle_state := Resolved, in_resolved_at_ms := Some now, in_recovering_at_ms := None,
       in_consecutive_abnormal_count := 0, in_consecutive_healthy_count := 0,
       in_pending_since_ms := None, in_healthy_since_ms := None,
       in_next_state_evaluation_at_ms := None, in_next_notification_at_ms := None,
       in_version := in_version i + 1, in_updated_at_ms := now\<rparr>"

definition resolve_where :: "(Incident \<Rightarrow> bool) \<Rightarrow> AlertDb \<Rightarrow> i64 \<Rightarrow> AlertDb \<times> nat" where
  "resolve_where P db now =
     (let db = suppress_stale db (set (incident_ids P db)) now
      in case sql_update P (force_resolved now) (db_incidents db) of
           (rows, n) \<Rightarrow> (db\<lparr>db_incidents := rows\<rparr>, n))"

definition of_station :: "AlertDb \<Rightarrow> string \<Rightarrow> Incident \<Rightarrow> bool" where
  "of_station db st i \<longleftrightarrow>
     in_station_id i = Some st \<or>
     (\<exists>(k, s) \<in> set (db_station_keys db). s = st \<and> in_station_key_id i = Some k)"

definition resolve_for_deleted_station :: "AlertDb \<Rightarrow> string \<Rightarrow> i64 \<Rightarrow> PersistenceError + (AlertDb \<times> nat)" where
  "resolve_for_deleted_station db st now =
     (if trim st = [] \<or> now < 0 then Inl ConstraintViolation
      else Inr (resolve_where
        (\<lambda>i. of_station db st i \<and> in_event_type i \<noteq> GroupMissing \<and> in_lifecycle_state i \<in> active_states)
        db now))"

definition resolve_all_active ::
    "AlertDb \<Rightarrow> string option \<Rightarrow> Severity option \<Rightarrow> i64 \<Rightarrow> PersistenceError + (AlertDb \<times> nat)" where
  "resolve_all_active db st sev now =
     (if now < 0 then Inl ConstraintViolation
      else Inr (resolve_where
        (\<lambda>i. in_lifecycle_state i \<in> active_states \<and> in_event_type i \<noteq> GroupMissing \<and>
             (st = None \<or> in_station_id i = st) \<and> is_none_or sev (\<lambda>s. in_severity i = s))
        db now))"

definition clear_incidents ::
    "AlertDb \<Rightarrow> string option \<Rightarrow> Severity option \<Rightarrow> string option \<Rightarrow> AlertDb \<times> nat" where
  "clear_incidents db st sev lifecycle =
     (let unseen = (\<lambda>i. \<forall>a \<in> set (db_attention db).
            at_incident_id a = in_id i \<and> at_episode_number a = in_episode_number i \<longrightarrow> at_seen_at_ms a = None);
          ids = incident_ids
            (\<lambda>i. (st = None \<or> in_station_id i = st) \<and> in_event_type i \<noteq> GroupMissing \<and>
                 is_none_or sev (\<lambda>s. in_severity i = s) \<and>
                 (lifecycle = None \<or>
                  lifecycle = Some ''active'' \<and> in_lifecycle_state i \<in> active_states \<or>
                  lifecycle = Some ''unread'' \<and> in_lifecycle_state i \<in> active_states \<and> unseen i \<or>
                  lifecycle = Some ''resolved'' \<and> in_lifecycle_state i = Resolved)) db
      in (delete_incidents db (set ids), length ids))"

section \<open>Deleting stations and keys\<close>

text \<open>
  The rows that refer to a deleted station or to a deleted key lose the reference
  (\<^verbatim>\<open>ON DELETE SET NULL\<close>), and the keys of a station go with it (\<^verbatim>\<open>ON DELETE CASCADE\<close>). A policy keeps
  the ids of its scope, which are no foreign keys. (Foreign keys of tables outside alerting are not part
  of the model.)
\<close>

definition without :: "string set \<Rightarrow> string option \<Rightarrow> string option" where
  "without gone v = (case v of None \<Rightarrow> None | Some s \<Rightarrow> if s \<in> gone then None else Some s)"

definition forget_assets :: "AlertDb \<Rightarrow> string set \<Rightarrow> string set \<Rightarrow> AlertDb" where
  "forget_assets db sts keys =
     db\<lparr>db_stations := filter (\<lambda>s. s \<notin> sts) (db_stations db),
        db_station_keys := filter (\<lambda>(k, s). k \<notin> keys) (db_station_keys db),
        db_incidents :=
          map (\<lambda>i. i\<lparr>in_station_id := without sts (in_station_id i),
                     in_station_key_id := without keys (in_station_key_id i)\<rparr>) (db_incidents db),
        db_occurrences :=
          map (\<lambda>oc. oc\<lparr>oc_station_id := without sts (oc_station_id oc),
                       oc_station_key_id := without keys (oc_station_key_id oc)\<rparr>) (db_occurrences db)\<rparr>"

definition delete_owned_state :: "AlertDb \<Rightarrow> string \<Rightarrow> PersistenceError + AlertDb" where
  "delete_owned_state db st =
     (if st \<notin> set (db_stations db) then Inl NotFound
      else Inr (forget_assets db {st} (set (map fst (filter (\<lambda>(k, s). s = st) (db_station_keys db))))))"

definition station_delete :: "AlertDb \<Rightarrow> string \<Rightarrow> i64 \<Rightarrow> PersistenceError + AlertDb" where
  "station_delete db st now =
     rbind (resolve_for_deleted_station db st now) (\<lambda>(db, _). delete_owned_state db st)"

definition delete_station_key :: "AlertDb \<Rightarrow> string \<Rightarrow> PersistenceError + AlertDb" where
  "delete_station_key db key =
     (if key \<notin> set (map fst (db_station_keys db)) then Inl NotFound
      else Inr (forget_assets db {} {key}))"

section \<open>Deliveries\<close>

text \<open>
  The insert of a delivery: the constraints of the row, the ledger's own conflicts, and the foreign keys
  when a row was inserted.
\<close>

definition delivery_checks :: "AlertEnv \<Rightarrow> NotificationDelivery \<Rightarrow> bool" where
  "delivery_checks env d \<longleftrightarrow>
     nd_episode_number d \<noteq> 0 \<and> 0 < sint (nd_delivery_sequence d) \<and>
     (case nd_policy_revision d of None \<Rightarrow> True | Some v \<Rightarrow> 0 < sint v) \<and>
     ev_sql_json_valid env (nd_policy_snapshot_json d) \<and> 0 \<le> nd_scheduled_at_ms d"

definition delivery_refers :: "AlertDb \<Rightarrow> NotificationDelivery \<Rightarrow> bool" where
  "delivery_refers db d \<longleftrightarrow>
     nd_incident_id d \<in> set (map in_id (db_incidents db)) \<and>
     refers (nd_policy_id d) (map ap_id (db_policies db))"

definition schedule_delivery ::
    "AlertEnv \<Rightarrow> AlertDb \<Rightarrow> NotificationDelivery \<Rightarrow> PersistenceError + (AlertDb \<times> bool)" where
  "schedule_delivery env db d =
     (if \<not> delivery_checks env d then Inl DatabaseFailed
      else rbind (schedule (db_deliveries db) d)
        (\<lambda>(rows, inserted).
           if inserted \<and> \<not> delivery_refers db d then Inl ConstraintViolation
           else Inr (db\<lparr>db_deliveries := rows\<rparr>, inserted)))"

section \<open>Attention\<close>

definition of_episode :: "string \<Rightarrow> u32 \<Rightarrow> IncidentAttention \<Rightarrow> bool" where
  "of_episode iid ep a \<longleftrightarrow> at_incident_id a = iid \<and> at_episode_number a = ep"

definition attention_ensure :: "AlertDb \<Rightarrow> string \<Rightarrow> u32 \<Rightarrow> i64 \<Rightarrow> PersistenceError + AlertDb" where
  "attention_ensure db iid ep now =
     (if ep = 0 \<or> now < 0 then Inl DatabaseFailed
      else if \<exists>a \<in> set (db_attention db). of_episode iid ep a then Inr db
      else if iid \<notin> set (map in_id (db_incidents db)) then Inl ConstraintViolation
      else Inr (db\<lparr>db_attention := db_attention db @
             [\<lparr>at_incident_id = iid, at_episode_number = ep, at_seen_at_ms = None,
               at_snoozed_until_ms = None, at_updated_at_ms = now\<rparr>]\<rparr>))"

definition attention_mark_seen :: "AlertDb \<Rightarrow> string \<Rightarrow> u32 \<Rightarrow> i64 \<Rightarrow> AlertDb" where
  "attention_mark_seen db iid ep now =
     db\<lparr>db_attention := fst (sql_update (of_episode iid ep)
          (\<lambda>a. a\<lparr>at_seen_at_ms := (case at_seen_at_ms a of None \<Rightarrow> Some now | v \<Rightarrow> v),
                 at_updated_at_ms := now\<rparr>) (db_attention db))\<rparr>"

definition attention_snooze_until :: "AlertDb \<Rightarrow> string \<Rightarrow> u32 \<Rightarrow> i64 \<Rightarrow> i64 \<Rightarrow> AlertDb" where
  "attention_snooze_until db iid ep until now =
     db\<lparr>db_attention := fst (sql_update (of_episode iid ep)
          (\<lambda>a. a\<lparr>at_snoozed_until_ms := Some until, at_updated_at_ms := now\<rparr>) (db_attention db))\<rparr>"

section \<open>Policies\<close>

definition scope_check :: "AlertPolicy \<Rightarrow> bool" where
  "scope_check p \<longleftrightarrow>
     ap_scope_kind p = ScopeGlobal \<and> ap_station_id p = None \<and> ap_station_key_id p = None \<or>
     ap_scope_kind p = ScopeEventType \<and> ap_event_type p \<noteq> None \<and> ap_station_id p = None \<and>
       ap_station_key_id p = None \<or>
     ap_scope_kind p = ScopeStation \<and> ap_station_id p \<noteq> None \<and> ap_station_key_id p = None \<or>
     ap_scope_kind p = ScopeStationKey \<and> ap_station_key_id p \<noteq> None"

definition trigger_check :: "AlertPolicy \<Rightarrow> bool" where
  "trigger_check p \<longleftrightarrow>
     ap_trigger_mode p = Immediate \<and> ap_trigger_count p = None \<and> ap_trigger_duration_seconds p = None \<or>
     ap_trigger_mode p = ConsecutiveOccurrences \<and> ap_trigger_count p \<noteq> None \<and>
       ap_trigger_duration_seconds p = None \<or>
     ap_trigger_mode p = ActiveDuration \<and> ap_trigger_count p = None \<and> ap_trigger_duration_seconds p \<noteq> None"

definition recovery_check :: "AlertPolicy \<Rightarrow> bool" where
  "recovery_check p \<longleftrightarrow>
     ap_recovery_mode p = ConsecutiveHealthy \<and> ap_recovery_count p \<noteq> None \<and>
       ap_recovery_duration_seconds p = None \<or>
     ap_recovery_mode p = HealthyDuration \<and> ap_recovery_count p = None \<and>
       ap_recovery_duration_seconds p \<noteq> None"

definition repeat_check :: "AlertPolicy \<Rightarrow> bool" where
  "repeat_check p \<longleftrightarrow>
     (ap_repeat_mode p \<in> {RepeatNever, SeverityEscalation} \<longleftrightarrow> ap_repeat_interval_seconds p = None)"

text \<open>SQLite's \<^verbatim>\<open>length\<close> counts the characters before the first NUL.\<close>

definition sql_length :: "string \<Rightarrow> nat" where
  "sql_length s =
     length (filter (\<lambda>c. \<not> (128 \<le> (of_char c :: nat) \<and> (of_char c :: nat) < 192))
               (takeWhile (\<lambda>c. c \<noteq> byte 0) s))"

definition policy_checks :: "AlertPolicy \<Rightarrow> bool" where
  "policy_checks p \<longleftrightarrow>
     1 \<le> sql_length (ap_name p) \<and> sql_length (ap_name p) \<le> 200 \<and>
     - 1 \<le> sint (ap_severity_offset p) \<and> sint (ap_severity_offset p) \<le> 1 \<and>
     \<not> count_out_of_range (ap_trigger_count p) \<and> \<not> duration_out_of_range (ap_trigger_duration_seconds p) \<and>
     \<not> count_out_of_range (ap_recovery_count p) \<and> \<not> duration_out_of_range (ap_recovery_duration_seconds p) \<and>
     (case ap_repeat_interval_seconds p of None \<Rightarrow> True | Some v \<Rightarrow> 0 < sint v) \<and>
     0 \<le> sint (ap_cooldown_seconds p) \<and> 0 < sint (ap_revision p) \<and>
     0 \<le> ap_created_at_ms p \<and> 0 \<le> ap_updated_at_ms p \<and>
     scope_check p \<and> trigger_check p \<and> recovery_check p \<and> repeat_check p"

text \<open>
  Saving checks the revision the user saw. The insert of an existing id becomes an update of every column
  but the creation time.
\<close>

definition policy_save :: "AlertDb \<Rightarrow> AlertPolicy \<Rightarrow> u64 option \<Rightarrow> PersistenceError + AlertDb" where
  "policy_save db p expected =
     (case policy_validate p of
        Inl e \<Rightarrow> Inl (InvariantViolation e)
      | Inr _ \<Rightarrow>
          (case (map_option ap_revision (find (\<lambda>q. ap_id q = ap_id p) (db_policies db)), expected) of
             (None, None) \<Rightarrow>
               if ap_revision p \<noteq> 1 then Inl (RevisionConflict (ap_id p))
               else if \<not> policy_checks p then Inl DatabaseFailed
               else Inr (db\<lparr>db_policies := db_policies db @ [p]\<rparr>)
           | (Some current, Some e) \<Rightarrow>
               if \<not> (current = e \<and> ap_revision p = sat_add e 1) then Inl (RevisionConflict (ap_id p))
               else if \<not> policy_checks p then Inl DatabaseFailed
               else Inr (db\<lparr>db_policies := fst (sql_update (\<lambda>q. ap_id q = ap_id p)
                          (\<lambda>q. p\<lparr>ap_created_at_ms := ap_created_at_ms q\<rparr>) (db_policies db))\<rparr>)
           | _ \<Rightarrow> Inl (RevisionConflict (ap_id p))))"

definition policy_mark_state ::
    "AlertDb \<Rightarrow> string \<Rightarrow> PolicyState \<Rightarrow> u64 \<Rightarrow> i64 \<Rightarrow> PersistenceError + AlertDb" where
  "policy_mark_state db pid st expected now =
     (case sql_update (\<lambda>q. ap_id q = pid \<and> ap_revision q = expected)
             (\<lambda>q. q\<lparr>ap_state := st, ap_enabled := (st = PolicyActive), ap_revision := ap_revision q + 1,
                    ap_updated_at_ms := now\<rparr>) (db_policies db) of
        (rows, n) \<Rightarrow>
          if n \<noteq> 0 \<and> \<not> (0 < sint (expected + 1) \<and> 0 \<le> now) then Inl DatabaseFailed
          else if n \<noteq> 1 then Inl (RevisionConflict pid)
          else Inr (db\<lparr>db_policies := rows\<rparr>))"

definition policy_list :: "AlertDb \<Rightarrow> AlertPolicy list" where
  "policy_list db =
     sort_by (\<lambda>a b. (- uint (scope_rank (ap_scope_kind a)), ap_priority a, ap_created_at_ms a, ap_id a)
                    \<le> (- uint (scope_rank (ap_scope_kind b)), ap_priority b, ap_created_at_ms b, ap_id b))
       (db_policies db)"

end
