(* ===== verification/AlertIngress.thy ===== *)
theory AlertIngress
  imports AlertTables
begin

text \<open>
  The transactions of alerting: the ingress of an observation (\<^verbatim>\<open>application/alerting/ingress.rs\<close>), the
  reconciliation of incidents with changed policies (\<^verbatim>\<open>application/alerting/reconcile.rs\<close>), retention
  (\<^verbatim>\<open>application/alerting/retention_worker.rs\<close>), the settings (\<^verbatim>\<open>application/alerting/policy_service.rs\<close>)
  and the supervised loop that runs them (\<^verbatim>\<open>background_tasks/alerting_runner.rs\<close>). Each transaction
  maps the database to an error or a new database; on an error nothing is written.
\<close>

section \<open>Observations\<close>

record ObservationIngress =
  ig_source_observation_key :: string
  ig_event_type :: AlertEventType
  ig_condition_key :: string
  ig_kind :: ObservationKind
  ig_severity :: Severity
  ig_object_type :: string
  ig_object_id :: "string option"
  ig_station_id :: "string option"
  ig_station_key_id :: "string option"
  ig_source :: string
  ig_reason_code :: "string option"
  ig_summary_json :: string
  ig_observed_at_ms :: i64
  ig_fact_fresh_until_ms :: i64

definition contains :: "string \<Rightarrow> string \<Rightarrow> bool" where
  "contains s needle \<longleftrightarrow> sublist needle s"

definition sensitive_words :: "string list" where
  "sensitive_words = [''token'', ''secret'', ''authorization'', ''password'', ''cookie'', ''api_key'']"

fun redacted :: "JsonValue \<Rightarrow> bool" where
  "redacted (JObject members) =
     list_all (\<lambda>(k, v). \<not> list_ex (contains (to_ascii_lowercase k)) sensitive_words \<and> redacted v) members"
| "redacted (JArray items) = list_all redacted items"
| "redacted (JString s) \<longleftrightarrow> \<not> contains s ''://'' \<and> \<not> contains (to_ascii_lowercase s) ''bearer ''"
| "redacted JScalar = True"

definition is_redacted_json :: "AlertEnv \<Rightarrow> string \<Rightarrow> bool" where
  "is_redacted_json env v =
     (if 16384 < length v then False
      else case ev_parse_json env v of None \<Rightarrow> False | Some j \<Rightarrow> redacted j)"

definition ingress_validate :: "AlertEnv \<Rightarrow> ObservationIngress \<Rightarrow> PersistenceError + unit" where
  "ingress_validate env x =
     (if ig_source_observation_key x = [] \<or> 200 < length (ig_source_observation_key x) \<or>
         \<not> list_all condition_key_byte (ig_source_observation_key x) \<or>
         ig_object_type x = [] \<or> 100 < length (ig_object_type x) \<or>
         ig_source x = [] \<or> 100 < length (ig_source x) \<or>
         ig_observed_at_ms x < 0 \<or> ig_fact_fresh_until_ms x < ig_observed_at_ms x \<or>
         \<not> is_redacted_json env (ig_summary_json x) \<or>
         ig_event_type x = GroupMissing \<and> (ig_kind x \<noteq> Change \<or> ig_severity x \<noteq> SevInfo)
      then Inl ConstraintViolation else Inr ())"

definition occurrence_of :: "ObservationIngress \<Rightarrow> OccurrenceRow" where
  "occurrence_of x =
     \<lparr>oc_id = ''occurrence-'' @ ig_source_observation_key x,
      oc_source_observation_key = ig_source_observation_key x, oc_event_type = ig_event_type x,
      oc_category = (if ig_kind x = Change then AuditChangeCategory else ConditionObservation),
      oc_observation_kind = ig_kind x, oc_severity = ig_severity x,
      oc_condition_key = Some (ig_condition_key x), oc_incident_id = None, oc_episode_number = None,
      oc_object_type = ig_object_type x, oc_object_id = ig_object_id x,
      oc_station_id = ig_station_id x, oc_station_key_id = ig_station_key_id x,
      oc_source = ig_source x, oc_reason_code = ig_reason_code x, oc_old_value_json = None,
      oc_new_value_json = Some (ig_summary_json x), oc_impact_json = None,
      oc_observed_at_ms = ig_observed_at_ms x, oc_created_at_ms = ig_observed_at_ms x,
      oc_seen_at_ms = None\<rparr>"

definition observation_of :: "ObservationIngress \<Rightarrow> IncidentObservation" where
  "observation_of x =
     \<lparr>ob_source_observation_key = ig_source_observation_key x, ob_event_type = ig_event_type x,
      ob_condition_key = ig_condition_key x, ob_kind = ig_kind x, ob_severity = ig_severity x,
      ob_observed_at_ms = ig_observed_at_ms x, ob_fact_fresh_until_ms = ig_fact_fresh_until_ms x,
      ob_summary_json = ig_summary_json x\<rparr>"

definition match_context :: "ObservationIngress \<Rightarrow> PolicyMatchContext" where
  "match_context x =
     \<lparr>mc_event_type = ig_event_type x, mc_base_severity = ig_severity x,
      mc_station_id = ig_station_id x, mc_station_key_id = ig_station_key_id x\<rparr>"

definition load_settings :: "AlertEnv \<Rightarrow> AlertDb \<Rightarrow> PersistenceError + AlertingSettings" where
  "load_settings env db =
     rbind (case db_settings_json db of
              None \<Rightarrow> Inr settings_default
            | Some j \<Rightarrow> (case ev_settings_from_json env j of
                          None \<Rightarrow> Inl (InvariantViolation ''invalid alerting settings'')
                        | Some s \<Rightarrow> Inr s))
       (\<lambda>s. rbind (settings_validate (ev_tz_known env) s) (\<lambda>_. Inr s))"

section \<open>Ingress\<close>

definition profile_fingerprint :: "AlertPolicy \<Rightarrow> string" where
  "profile_fingerprint p = ap_id p @ '':'' @ show_nat (unat (ap_revision p))"

definition fresh_incident :: "ObservationIngress \<Rightarrow> AlertPolicy \<Rightarrow> Incident" where
  "fresh_incident x p =
     incident_new (''incident-'' @ ig_condition_key x) (ig_condition_key x) (ig_event_type x)
       (ig_severity x) (ig_observed_at_ms x) (profile_fingerprint p)"

text \<open>What the observation and its policy write into the incident before it is reduced.\<close>

definition prepare_incident :: "ObservationIngress \<Rightarrow> AlertPolicy \<Rightarrow> Incident \<Rightarrow> Incident" where
  "prepare_incident x p i =
     i\<lparr>in_object_type := ig_object_type x, in_object_id := ig_object_id x,
       in_station_id := ig_station_id x, in_station_key_id := ig_station_key_id x,
       in_policy_id := (if ap_id p \<noteq> ''system_default'' then Some (ap_id p) else None),
       in_policy_revision := (if ap_id p \<noteq> ''system_default'' then Some (ap_revision p) else None),
       in_lifecycle_policy_fingerprint := profile_fingerprint p,
       in_severity := effective_severity p (ig_severity x)\<rparr>"

text \<open>The planned deliveries are suppressed where they have a reason and written to the ledger.\<close>

fun deliver_all :: "AlertEnv \<Rightarrow> i64 \<Rightarrow> AlertDb \<Rightarrow> PlannedDelivery list \<Rightarrow> PersistenceError + AlertDb" where
  "deliver_all env now db [] = Inr db"
| "deliver_all env now db (pd # pds) =
     rbind (case pd_suppression_reason pd of
              None \<Rightarrow> Inr (pd_delivery pd)
            | Some r \<Rightarrow> (case delivery_suppress (pd_delivery pd) r now of
                          Inl e \<Rightarrow> Inl (InvariantViolation e)
                        | Inr d \<Rightarrow> Inr d))
       (\<lambda>d. rbind (schedule_delivery env db d) (\<lambda>(db, _). deliver_all env now db pds))"

text \<open>
  The steps of a transaction can fail or panic: \<open>tx_bind\<close> is the \<^verbatim>\<open>?\<close> of the sources, \<open>tx\<close> a step that
  does not panic.
\<close>

type_synonym 'a tx = "(PersistenceError + 'a) run"

definition tx_bind :: "'a tx \<Rightarrow> ('a \<Rightarrow> 'b tx) \<Rightarrow> 'b tx" where
  "tx_bind r f = run_bind r (\<lambda>v. case v of Inl e \<Rightarrow> Done (Inl e) | Inr x \<Rightarrow> f x)"

abbreviation tx :: "PersistenceError + 'a \<Rightarrow> 'a tx" where
  "tx \<equiv> Done"

definition loaded_incident :: "ObservationIngress \<Rightarrow> AlertPolicy \<Rightarrow> Incident option \<Rightarrow> Incident" where
  "loaded_incident x p loaded = (case loaded of None \<Rightarrow> fresh_incident x p | Some i \<Rightarrow> i)"

text \<open>The projection, with its errors as the store's error.\<close>

definition project_observation ::
    "ObservationIngress \<Rightarrow> AlertPolicy \<Rightarrow> Incident \<Rightarrow> PersistenceError + (Incident \<times> StateTransition)" where
  "project_observation x p i =
     (case project (prepare_incident x p i) (observation_of x) p of
        (_, Inl _) \<Rightarrow> Inl ConstraintViolation
      | (j, Inr t) \<Rightarrow>
          Inr (if in_version i = 0 \<and> in_occurrence_count j = 0 then j\<lparr>in_version := 1\<rparr> else j, t))"

definition store_incident :: "AlertEnv \<Rightarrow> AlertDb \<Rightarrow> u64 \<Rightarrow> Incident \<Rightarrow> PersistenceError + AlertDb" where
  "store_incident env db expected i =
     (if expected = 0 then insert_snapshot env db i else update_snapshot_cas env db i expected)"

definition planned_deliveries ::
    "AlertEnv \<Rightarrow> ObservationIngress \<Rightarrow> AlertPolicy \<Rightarrow> AlertingSettings \<Rightarrow> Incident \<Rightarrow> StateTransition \<Rightarrow>
     PlannedDelivery list run" where
  "planned_deliveries env x p settings i t =
     (if t \<noteq> NoTransition \<and> \<not> (t = ToResolved \<and> in_episode_occurrence_count i = 0)
      then plan_transition (ev_minute_of_day env) (json_ok env) (ev_sha256 env) (ev_policy_json env)
             t i p settings None (ig_observed_at_ms x)
      else Done [])"

definition recovery_cleanup ::
    "bool \<Rightarrow> AlertingSettings \<Rightarrow> StateTransition \<Rightarrow> Incident \<Rightarrow> AlertDb \<Rightarrow> PersistenceError + AlertDb" where
  "recovery_cleanup cleanup settings t i db =
     (if cleanup \<and> t = ToResolved \<and> as_delete_resolved_incidents settings
      then (case delete_resolved_by_id db (in_id i) of
              (db', n) \<Rightarrow> if n \<noteq> 1 then Inl (RevisionConflict (in_id i)) else Inr db')
      else Inr db)"

text \<open>The projection of a condition observation after its occurrence is stored.\<close>

definition project_condition :: "AlertEnv \<Rightarrow> AlertDb \<Rightarrow> ObservationIngress \<Rightarrow> bool \<Rightarrow> AlertDb tx" where
  "project_condition env db x cleanup =
     (let p = resolve_policy (policy_list db) (match_context x)
      in tx_bind (tx (load_settings env db)) (\<lambda>settings.
         tx_bind (tx (load_for_write db (ig_condition_key x))) (\<lambda>loaded.
         tx_bind (tx (project_observation x p (loaded_incident x p loaded))) (\<lambda>(i, t).
         tx_bind (tx (store_incident env db (in_version (loaded_incident x p loaded)) i)) (\<lambda>db1.
         tx_bind (tx (attention_ensure db1 (in_id i) (in_episode_number i) (ig_observed_at_ms x))) (\<lambda>db2.
         run_bind (planned_deliveries env x p settings i t) (\<lambda>planned.
         tx_bind (tx (deliver_all env (ig_observed_at_ms x)
                        (link_occurrence db2 (oc_id (occurrence_of x)) (in_id i) (in_episode_number i))
                        planned)) (\<lambda>db3.
         tx (recovery_cleanup cleanup settings t i db3)))))))))"

definition record_in_session ::
    "AlertEnv \<Rightarrow> AlertDb \<Rightarrow> ObservationIngress \<Rightarrow> bool \<Rightarrow> (AlertDb \<times> bool) tx" where
  "record_in_session env db x cleanup =
     tx_bind (tx (ingress_validate env x)) (\<lambda>_.
     tx_bind (tx (insert_ignore env db (occurrence_of x))) (\<lambda>(db1, inserted).
       if \<not> inserted then tx (Inr (db1, False))
       else if ig_kind x \<noteq> Change
       then tx_bind (project_condition env db1 x cleanup) (\<lambda>db2. tx (Inr (db2, True)))
       else tx (Inr (db1, True))))"

section \<open>Reconciliation\<close>

definition canonical_base_severity :: "AlertEventType \<Rightarrow> Severity \<Rightarrow> Severity" where
  "canonical_base_severity t persisted = (if t = GroupMissing then SevInfo else persisted)"

definition reconcile_suppression :: "AlertingSettings \<Rightarrow> AlertPolicy \<Rightarrow> i64 \<Rightarrow> SuppressionReason option" where
  "reconcile_suppression s p now =
     (if \<not> ap_enabled p \<or> ap_state p \<noteq> PolicyActive then Some PolicyMuted
      else if \<not> as_alerting_enabled s then Some GlobalDisabled
      else if is_paused_at s now then Some GlobalPause
      else None)"

text \<open>
  The incident under the policy resolved for it now: whether its fingerprint changed and the incident it
  would become.
\<close>

definition reconciled :: "AlertEnv \<Rightarrow> AlertPolicy list \<Rightarrow> i64 \<Rightarrow> Incident \<Rightarrow> bool \<times> Incident \<times> AlertPolicy" where
  "reconciled env policies now i =
     (let base = canonical_base_severity (in_event_type i) (in_base_severity i);
          resolved = resolver_resolve (ev_sha256 env) (ev_policy_json env) policies
            \<lparr>mc_event_type = in_event_type i, mc_base_severity = base,
             mc_station_id = in_station_id i, mc_station_key_id = in_station_key_id i\<rparr>;
          changed = (in_lifecycle_policy_fingerprint i \<noteq> rp_fingerprint resolved);
          next_i = i\<lparr>in_base_severity := base, in_policy_id := Some (ap_id (rp_policy resolved)),
                     in_policy_revision := Some (ap_revision (rp_policy resolved)),
                     in_severity := rp_effective_severity resolved,
                     in_lifecycle_policy_fingerprint := rp_fingerprint resolved\<rparr>
      in (changed, (if changed then reset_evaluation_epoch next_i now else next_i), rp_policy resolved))"

definition needs_update :: "bool \<Rightarrow> Incident \<Rightarrow> Incident \<Rightarrow> bool" where
  "needs_update changed next_i i \<longleftrightarrow>
     changed \<or> in_policy_id next_i \<noteq> in_policy_id i \<or> in_policy_revision next_i \<noteq> in_policy_revision i \<or>
     in_base_severity next_i \<noteq> in_base_severity i \<or> in_severity next_i \<noteq> in_severity i"

definition reconcile_incident ::
    "AlertEnv \<Rightarrow> AlertPolicy list \<Rightarrow> AlertingSettings \<Rightarrow> i64 \<Rightarrow> u32 \<Rightarrow> AlertDb \<Rightarrow> Incident \<Rightarrow>
     PersistenceError + (AlertDb \<times> nat \<times> nat)" where
  "reconcile_incident env policies settings now limit db i =
     (case reconciled env policies now i of
        (changed, next_i, policy) \<Rightarrow>
          if \<not> needs_update changed next_i i then Inr (db, 0, 0)
          else rbind
            (update_snapshot_cas env db
               (next_i\<lparr>in_version := sat_add (in_version i) 1,
                       in_updated_at_ms := max now (in_updated_at_ms i)\<rparr>) (in_version i))
            (\<lambda>db. case (if changed then Some PolicyMuted else reconcile_suppression settings policy now) of
                None \<Rightarrow> Inr (db, 1, 0)
              | Some reason \<Rightarrow>
                  (case suppress_scheduled_for_incident (db_deliveries db) (in_id i) (in_episode_number i)
                          reason now limit of
                     (rows, n) \<Rightarrow> Inr (db\<lparr>db_deliveries := rows\<rparr>, 1, n))))"

record ReconcilePage =
  rc_examined :: nat
  rc_updated :: nat
  rc_suppressed :: nat
  rc_next_cursor :: "(i64 \<times> string) option"

text \<open>
  The incidents of a page are reconciled one by one, each in a transaction of its own: an error ends the
  page and keeps what was written before.
\<close>

fun reconcile_incidents ::
    "AlertEnv \<Rightarrow> AlertPolicy list \<Rightarrow> AlertingSettings \<Rightarrow> i64 \<Rightarrow> u32 \<Rightarrow> AlertDb \<Rightarrow> nat \<Rightarrow> nat \<Rightarrow> Incident list \<Rightarrow>
     AlertDb \<times> (PersistenceError + nat \<times> nat)" where
  "reconcile_incidents env policies settings now limit db u s [] = (db, Inr (u, s))"
| "reconcile_incidents env policies settings now limit db u s (i # rest) =
     (case reconcile_incident env policies settings now limit db i of
        Inl e \<Rightarrow> (db, Inl e)
      | Inr (db, u', s') \<Rightarrow>
          reconcile_incidents env policies settings now limit db (u + u') (s + s') rest)"

definition page_size :: u32 where "page_size = 100"

definition suppression_limit :: u32 where "suppression_limit = 100"

definition reconcile_page ::
    "AlertEnv \<Rightarrow> AlertDb \<Rightarrow> (i64 \<times> string) option \<Rightarrow> AlertPolicy list \<Rightarrow> AlertingSettings \<Rightarrow> i64 \<Rightarrow>
     AlertDb \<times> (PersistenceError + ReconcilePage)" where
  "reconcile_page env db cursor policies settings now =
     (if now < 0 then (db, Inl ConstraintViolation)
      else let snapshots = list_active_page db cursor page_size;
               examined = length snapshots
           in case reconcile_incidents env policies settings now suppression_limit db 0 0 snapshots of
                (db, Inl e) \<Rightarrow> (db, Inl e)
              | (db, Inr (u, s)) \<Rightarrow>
                  (db, Inr \<lparr>rc_examined = examined, rc_updated = u, rc_suppressed = s,
                            rc_next_cursor =
                              (if examined = unat page_size
                               then Some (in_updated_at_ms (last snapshots), in_id (last snapshots))
                               else None)\<rparr>))"

section \<open>Settings and retention\<close>

definition update_settings ::
    "AlertEnv \<Rightarrow> AlertDb \<Rightarrow> AlertingSettings \<Rightarrow> u64 \<Rightarrow> i64 \<Rightarrow> PersistenceError + (AlertDb \<times> AlertingSettings)" where
  "update_settings env db s expected now =
     (if now < 0 \<or> as_revision s \<noteq> sat_add expected 1
      then Inl (RevisionConflict ''alerting_settings_v1'')
      else let s = s\<lparr>as_updated_at_ms := now\<rparr>
           in rbind (settings_validate (ev_tz_known env) s)
             (\<lambda>_. case ev_settings_to_json env s of
                None \<Rightarrow> Inl (InvariantViolation ''cannot encode alerting settings'')
              | Some encoded \<Rightarrow>
                  if db_settings_json db \<noteq> None \<or> expected \<le> 1
                  then Inr (db\<lparr>db_settings_json := Some encoded\<rparr>, s)
                  else Inl (RevisionConflict ''alerting_settings_v1'')))"

definition delete_retained_before :: "AlertDb \<Rightarrow> i64 \<Rightarrow> u32 \<Rightarrow> AlertDb \<times> nat" where
  "delete_retained_before db cutoff limit =
     (let resolved = set (incident_ids (\<lambda>i. in_lifecycle_state i = Resolved) db);
          ids = map oc_id (take (sql_limit 1000 limit)
                  (sort_by (\<lambda>a b. (oc_created_at_ms a, oc_id a) \<le> (oc_created_at_ms b, oc_id b))
                     (filter (\<lambda>oc. oc_created_at_ms oc < cutoff \<and>
                        is_none_or (oc_incident_id oc) (\<lambda>i. i \<in> resolved)) (db_occurrences db))))
      in (db\<lparr>db_occurrences := filter (\<lambda>oc. oc_id oc \<notin> set ids) (db_occurrences db)\<rparr>, length ids))"

record RetentionReport =
  rt_occurrences_deleted :: nat
  rt_deliveries_deleted :: nat
  rt_resolved_incidents_deleted :: nat

definition clamp_batch :: "u32 \<Rightarrow> u32" where
  "clamp_batch b = max 1 (min b 10000)"

definition retention_cutoff :: "i64 \<Rightarrow> u32 \<Rightarrow> i64" where
  "retention_cutoff now days = i64_sat_sub now (i64_clamp (uint days * 86400000))"

definition retention_run ::
    "AlertDb \<Rightarrow> i64 \<Rightarrow> u32 \<Rightarrow> u32 \<Rightarrow> bool \<Rightarrow> u32 \<Rightarrow> PersistenceError + (AlertDb \<times> RetentionReport)" where
  "retention_run db now occ_days del_days del_resolved batch_size =
     (if now < 0 \<or> occ_days = 0 \<or> del_days = 0 then Inl ConstraintViolation
      else let batch = clamp_batch batch_size
           in case delete_terminal_before (db_deliveries db) (retention_cutoff now del_days) batch of
                (rows, deliveries) \<Rightarrow>
              (case delete_retained_before (db\<lparr>db_deliveries := rows\<rparr>) (retention_cutoff now occ_days) batch of
                (db, occurrences) \<Rightarrow>
              (case (if del_resolved then delete_resolved db batch else (db, 0)) of
                (db, incidents) \<Rightarrow>
                  Inr (db, \<lparr>rt_occurrences_deleted = occurrences, rt_deliveries_deleted = deliveries,
                            rt_resolved_incidents_deleted = incidents\<rparr>))))"

end
