(* ===== verification/AlertRuntime.thy ===== *)
theory AlertRuntime
  imports AlertIngress
begin

text \<open>
  The supervised alerting loop (\<^verbatim>\<open>background_tasks/alerting_runner.rs\<close>) with the desktop payloads of
  \<^verbatim>\<open>services/alerting/desktop_notification.rs\<close>: one round loads settings and policies, reconciles a page of incidents,
  claims and delivers what is due, recovers expired claims and runs retention. An error ends the round
  and keeps the transactions committed before it.
\<close>

section \<open>Desktop payloads\<close>

datatype DesktopNotificationError =
  PermissionDeniedError | Unavailable | Transient | InvalidPayload | InvalidField string

fun desktop_error_code :: "DesktopNotificationError \<Rightarrow> string" where
  "desktop_error_code PermissionDeniedError = ''permission_denied''"
| "desktop_error_code Unavailable = ''notification_unsupported''"
| "desktop_error_code Transient = ''delivery_adapter_failed''"
| "desktop_error_code InvalidPayload = ''invalid_notification_payload''"
| "desktop_error_code (InvalidField f) = ''invalid_notification_payload''"

definition is_retryable :: "DesktopNotificationError \<Rightarrow> bool" where
  "is_retryable e \<longleftrightarrow> e = Transient"

record DesktopNotificationPayload =
  dp_delivery_id :: string
  dp_incident_id :: string
  dp_episode_number :: u32
  dp_delivery_kind :: string
  dp_title :: string
  dp_body :: string
  dp_deep_link :: string

text \<open>
  The control characters are U+0000 to U+001F, U+007F and U+0080 to U+009F, the last ones written as
  the byte 194 and a byte from 128 to 159.
\<close>

fun has_control :: "string \<Rightarrow> bool" where
  "has_control [] = False"
| "has_control (c # cs) =
     (let n = (of_char c :: nat)
      in n < 32 \<or> n = 127 \<or>
         n = 194 \<and> (case cs of [] \<Rightarrow> False | d # _ \<Rightarrow> 128 \<le> (of_char d :: nat) \<and> (of_char d :: nat) < 160) \<or>
         has_control cs)"

definition bounded_text :: "string \<Rightarrow> nat \<Rightarrow> string \<Rightarrow> DesktopNotificationError + string" where
  "bounded_text v max_bytes field =
     (if has_control v then Inl (InvalidField field)
      else let v = trim v in if v = [] \<or> max_bytes < length v then Inl (InvalidField field) else Inr v)"

definition payload_new ::
    "string \<Rightarrow> string \<Rightarrow> u32 \<Rightarrow> string \<Rightarrow> string \<Rightarrow> DesktopNotificationError + DesktopNotificationPayload" where
  "payload_new did iid ep kind link =
     rbind (bounded_text did 128 ''delivery_id'') (\<lambda>did.
     rbind (bounded_text iid 128 ''incident_id'') (\<lambda>iid.
     rbind (bounded_text kind 32 ''delivery_kind'') (\<lambda>kind.
     rbind (bounded_text link 512 ''deep_link'') (\<lambda>link.
       if ep = 0 then Inl InvalidPayload
       else Inr \<lparr>dp_delivery_id = did, dp_incident_id = iid, dp_episode_number = ep,
                 dp_delivery_kind = kind, dp_title = ''Relay Pool alert'',
                 dp_body = ''Alert '' @ iid @ '' requires attention (episode '' @ show_nat (unat ep) @ '').'',
                 dp_deep_link = link\<rparr>))))"

definition build_alerting_deep_link ::
    "AlertEnv \<Rightarrow> string \<Rightarrow> u32 \<Rightarrow> string option \<Rightarrow> string option \<Rightarrow> string option \<Rightarrow> string option \<Rightarrow> string" where
  "build_alerting_deep_link env iid ep object_type object_id station_id station_key_id =
     (let target =
        (case (object_type = Some ''request'', object_id, station_key_id, station_id) of
           (True, Some r, _, _) \<Rightarrow> ''request/'' @ ev_url_encode env r
         | (_, _, Some k, _) \<Rightarrow> ''key/'' @ ev_url_encode env k
         | (_, _, None, Some s) \<Rightarrow> ''station/'' @ ev_url_encode env s
         | _ \<Rightarrow> ''changes'')
      in ''relaypool://'' @ target @ ''?incident_id='' @ ev_url_encode env iid @ ''&episode='' @
         show_nat (unat ep))"

section \<open>Claims\<close>

text \<open>
  The claimed row joined with its incident: what \<^verbatim>\<open>metadata_for_claim\<close> reads and \<^verbatim>\<open>desktop_payload\<close>
  formats. The incident exists as long as the row does.
\<close>

definition metadata_for_claim :: "AlertDb \<Rightarrow> string \<Rightarrow> string \<Rightarrow> (NotificationDelivery \<times> Incident option) option" where
  "metadata_for_claim db did token =
     map_option (\<lambda>d. (d, find (\<lambda>i. in_id i = nd_incident_id d) (db_incidents db)))
       (find (held did token) (db_deliveries db))"

definition desktop_payload ::
    "AlertEnv \<Rightarrow> NotificationDelivery \<times> Incident option \<Rightarrow> DesktopNotificationError + DesktopNotificationPayload" where
  "desktop_payload env m =
     (case m of (d, inc) \<Rightarrow>
        payload_new (nd_id d) (nd_incident_id d) (nd_episode_number d) (delivery_kind_str (nd_delivery_kind d))
          (build_alerting_deep_link env (nd_incident_id d) (nd_episode_number d)
             (map_option in_object_type inc) (Option.bind inc in_object_id)
             (Option.bind inc in_station_id) (Option.bind inc in_station_key_id)))"

text \<open>\<open>send\<close> is the desktop adapter: the error it reports, if any.\<close>

definition deliver_claim ::
    "AlertEnv \<Rightarrow> (DesktopNotificationPayload \<Rightarrow> DesktopNotificationError option) \<Rightarrow> AlertDb \<Rightarrow> i64 \<Rightarrow>
     string \<times> string \<times> NotificationDelivery \<times> Incident option \<Rightarrow> PersistenceError + AlertDb" where
  "deliver_claim env send db now claim =
     (case claim of (did, token, m) \<Rightarrow>
        rbind
          (case nd_channel (fst m) of
             InApp \<Rightarrow> mark_delivered (db_deliveries db) did token now
           | Desktop \<Rightarrow>
               (case desktop_payload env m of
                  Inl e \<Rightarrow> mark_failed (db_deliveries db) did token (desktop_error_code e) now
                | Inr payload \<Rightarrow>
                    (case send payload of
                       None \<Rightarrow> mark_delivered (db_deliveries db) did token now
                     | Some e \<Rightarrow>
                         if is_retryable e then mark_adapter_failure (db_deliveries db) did token now
                         else mark_failed (db_deliveries db) did token (desktop_error_code e) now)))
          (\<lambda>rows. Inr (db\<lparr>db_deliveries := rows\<rparr>)))"

fun deliver_claims ::
    "AlertEnv \<Rightarrow> (DesktopNotificationPayload \<Rightarrow> DesktopNotificationError option) \<Rightarrow> i64 \<Rightarrow> AlertDb \<Rightarrow>
     (string \<times> string \<times> NotificationDelivery \<times> Incident option) list \<Rightarrow> AlertDb \<times> (PersistenceError + unit)" where
  "deliver_claims env send now db [] = (db, Inr ())"
| "deliver_claims env send now db (c # cs) =
     (case deliver_claim env send db now c of
        Inl e \<Rightarrow> (db, Inl e)
      | Inr db \<Rightarrow> deliver_claims env send now db cs)"

definition id_hash :: "AlertEnv \<Rightarrow> string \<Rightarrow> string" where
  "id_hash env did = concat (map hex_byte (take 8 (ev_sha256 env did)))"

section \<open>A round of the loop\<close>

datatype TaskFailure = Transient_settings | Transient_reconcile | Transient_claim | Transient_delivery | Transient_retention

text \<open>
  The state of the loop is the database and the token counter of its worker. The claims of a round are
  made one after the other; nothing else touches the deliveries meanwhile, so that their metadata can be
  read after the round of claims.
\<close>

definition alerting_round ::
    "AlertEnv \<Rightarrow> (DesktopNotificationPayload \<Rightarrow> DesktopNotificationError option) \<Rightarrow> AlertDb \<times> u64 \<Rightarrow> i64 \<Rightarrow>
     (AlertDb \<times> u64) \<times> (TaskFailure + unit)" where
  "alerting_round env send st now =
     (case st of (db, sq) \<Rightarrow>
        (case load_settings env db of
           Inl _ \<Rightarrow> ((db, sq), Inl Transient_settings)
         | Inr settings \<Rightarrow>
        (case reconcile_page env db None (policy_list db) settings now of
           (db, Inl _) \<Rightarrow> ((db, sq), Inl Transient_reconcile)
         | (db, Inr _) \<Rightarrow>
        (case worker_claim_due (id_hash env) (db_deliveries db, sq) now 50 of
           ((rows, sq), Inl _) \<Rightarrow> ((db\<lparr>db_deliveries := rows\<rparr>, sq), Inl Transient_claim)
         | ((rows, sq), Inr claimed) \<Rightarrow>
        (let db = db\<lparr>db_deliveries := rows\<rparr>;
             claims = concat (map (\<lambda>(did, token). case metadata_for_claim db did token of
                                     None \<Rightarrow> [] | Some m \<Rightarrow> [(did, token, m)]) claimed)
         in case deliver_claims env send now db claims of
           (db, Inl _) \<Rightarrow> ((db, sq), Inl Transient_delivery)
         | (db, Inr _) \<Rightarrow>
        (let db = db\<lparr>db_deliveries := fst (recover_expired (db_deliveries db) now 50)\<rparr>
         in case retention_run db now (as_history_retention_days settings)
                   (as_delivery_retention_days settings) (as_delete_resolved_incidents settings) 100 of
           Inl _ \<Rightarrow> ((db, sq), Inl Transient_retention)
         | Inr (db, _) \<Rightarrow> ((db, sq), Inr ())))))))"

end
