(* ===== verification/IncidentCorrect.thy ===== *)
theory IncidentCorrect
  imports Incident
begin

text \<open>
  Correctness of the incident reducer: the consistency of the record over every sequence of calls,
  the meaning of the transitions it reports, and the lifecycle as a function of the history of
  observations.
\<close>

section \<open>Histories\<close>

text \<open>
  The abstract view of an incident: the history of the kinds it has observed, with a mark \<open>None\<close> where
  the reconciler restarted the count. With trigger threshold \<open>n\<close> and recovery threshold \<open>m\<close> an episode
  is active when at some point the last \<open>n\<close> marks were abnormal observations and since then there were
  never \<open>m\<close> healthy observations in a row.
\<close>

type_synonym history = "ObservationKind option list"

definition active :: "nat \<Rightarrow> nat \<Rightarrow> history \<Rightarrow> bool" where
  "active n m h \<longleftrightarrow>
     (\<exists>xs ys. h = xs @ ys \<and> suffix (replicate n (Some Abnormal)) xs \<and> \<not> sublist (replicate m (Some Healthy)) ys)"

text \<open>The kind of the last observation.\<close>

definition last_kind :: "history \<Rightarrow> ObservationKind option" where
  "last_kind h = (let ks = filter (\<lambda>k. k \<noteq> None) h in if ks = [] then None else last ks)"

definition history_state :: "nat \<Rightarrow> nat \<Rightarrow> history \<Rightarrow> LifecycleState" where
  "history_state n m h =
     (if active n m h then if last_kind h = Some Abnormal then Open else Recovering
      else if last_kind h = None \<or> last_kind h = Some Abnormal then Pending else Resolved)"

text \<open>An episode begins with the first observation and with every abnormal one after a resolution.\<close>

definition episodes :: "nat \<Rightarrow> nat \<Rightarrow> history \<Rightarrow> nat" where
  "episodes n m h =
     1 + length (filter (\<lambda>k. h ! k = Some Abnormal \<and> history_state n m (take k h) = Resolved) [0..<length h])"

lemma episodes_Nil: "episodes n m [] = 1"
  by (simp add: episodes_def)

lemma episodes_snoc:
  "episodes n m (h @ [x]) =
     episodes n m h + (if x = Some Abnormal \<and> history_state n m h = Resolved then 1 else 0)"
proof -
  have "filter (\<lambda>k. (h @ [x]) ! k = Some Abnormal \<and> history_state n m (take k (h @ [x])) = Resolved) [0..<length h] =
        filter (\<lambda>k. h ! k = Some Abnormal \<and> history_state n m (take k h) = Resolved) [0..<length h]"
    by (rule filter_cong) (auto simp: nth_append)
  then show ?thesis by (simp add: episodes_def)
qed

lemma last_kind_Nil [simp]: "last_kind [] = None"
  by (simp add: last_kind_def)

lemma last_kind_snoc [simp]: "last_kind (h @ [x]) = (if x = None then last_kind h else x)"
  by (simp add: last_kind_def Let_def)

definition trail :: "'a \<Rightarrow> 'a list \<Rightarrow> nat" where
  "trail k h = length (takeWhile ((=) k) (rev h))"

lemma trail_Nil [simp]: "trail k [] = 0"
  by (simp add: trail_def)

lemma trail_snoc [simp]: "trail k (h @ [x]) = (if x = k then Suc (trail k h) else 0)"
  by (auto simp: trail_def)

lemma trail_last_kind: "k \<noteq> None \<Longrightarrow> last_kind h \<noteq> k \<Longrightarrow> trail k h = 0"
  by (cases h rule: rev_cases) (auto split: if_splits)

lemma prefix_replicate: "prefix (replicate n k) xs \<longleftrightarrow> n \<le> length (takeWhile ((=) k) xs)"
proof (induction xs arbitrary: n)
  case (Cons x xs)
  then show ?case by (cases n) auto
qed simp

lemma suffix_replicate: "suffix (replicate n k) h \<longleftrightarrow> n \<le> trail k h"
  by (simp add: suffix_to_prefix trail_def prefix_replicate)

lemma trail_append: "xs = zs @ [y] \<Longrightarrow> y \<noteq> k \<Longrightarrow> trail k (xs @ ys) = trail k ys"
  by (induction ys rule: rev_induct) (simp_all flip: append_assoc)

lemma sublist_replicate_snoc:
  "sublist (replicate m k) (ys @ [y]) \<longleftrightarrow> m \<le> trail k (ys @ [y]) \<or> sublist (replicate m k) ys"
proof -
  have "sublist xs (ys @ [y]) \<longleftrightarrow> suffix xs (ys @ [y]) \<or> sublist xs ys" for xs
    by (auto simp: sublist_append prefix_Cons sublist_Cons_right)
  then show ?thesis by (metis suffix_replicate)
qed

lemma active_abnormal:
  assumes "1 \<le> n" "1 \<le> m"
  shows "active n m (h @ [Some Abnormal]) \<longleftrightarrow> active n m h \<or> n \<le> Suc (trail (Some Abnormal) h)"
proof
  assume "active n m (h @ [Some Abnormal])"
  then obtain xs ys where s: "h @ [Some Abnormal] = xs @ ys" "suffix (replicate n (Some Abnormal)) xs"
      "\<not> sublist (replicate m (Some Healthy)) ys" by (auto simp: active_def)
  show "active n m h \<or> n \<le> Suc (trail (Some Abnormal) h)"
  proof (cases ys rule: rev_cases)
    case Nil
    then have "xs = h @ [Some Abnormal]" using s(1) by simp
    then show ?thesis using s(2) by (simp add: suffix_replicate del: suffix_snoc)
  next
    case (snoc zs z)
    then have "h = xs @ zs" "\<not> sublist (replicate m (Some Healthy)) zs"
      using s by (auto simp: sublist_replicate_snoc)
    then show ?thesis using s(2) by (auto simp: active_def)
  qed
next
  assume "active n m h \<or> n \<le> Suc (trail (Some Abnormal) h)"
  then show "active n m (h @ [Some Abnormal])"
  proof
    assume "active n m h"
    then obtain xs ys where s: "h = xs @ ys" "suffix (replicate n (Some Abnormal)) xs"
        "\<not> sublist (replicate m (Some Healthy)) ys" by (auto simp: active_def)
    then have "\<not> sublist (replicate m (Some Healthy)) (ys @ [Some Abnormal])"
      using assms by (simp add: sublist_replicate_snoc)
    then show ?thesis using s unfolding active_def by (metis append.assoc)
  next
    assume "n \<le> Suc (trail (Some Abnormal) h)"
    then have "suffix (replicate n (Some Abnormal)) (h @ [Some Abnormal])" by (simp add: suffix_replicate del: suffix_snoc)
    moreover have "\<not> sublist (replicate m (Some Healthy)) []" using assms by simp
    ultimately show ?thesis unfolding active_def by (metis append_Nil2)
  qed
qed

lemma active_healthy:
  assumes "1 \<le> n" "1 \<le> m"
  shows "active n m (h @ [Some Healthy]) \<longleftrightarrow> active n m h \<and> Suc (trail (Some Healthy) h) < m"
proof
  assume "active n m (h @ [Some Healthy])"
  then obtain xs ys where s: "h @ [Some Healthy] = xs @ ys" "suffix (replicate n (Some Abnormal)) xs"
      "\<not> sublist (replicate m (Some Healthy)) ys" by (auto simp: active_def)
  obtain zs where ends: "xs = zs @ [Some Abnormal]"
    using s(2) assms(1) by (cases xs rule: rev_cases) (auto simp: suffix_replicate simp del: suffix_snoc split: if_splits)
  with s(1) obtain us where us: "ys = us @ [Some Healthy]" by (cases ys rule: rev_cases) auto
  with s have h: "h = xs @ us" and no: "\<not> m \<le> Suc (trail (Some Healthy) us)" "\<not> sublist (replicate m (Some Healthy)) us"
    by (auto simp: sublist_replicate_snoc)
  have "trail (Some Healthy) h = trail (Some Healthy) us" unfolding h by (rule trail_append [OF ends]) simp
  then show "active n m h \<and> Suc (trail (Some Healthy) h) < m"
    using no h s(2) by (auto simp: active_def)
next
  assume a: "active n m h \<and> Suc (trail (Some Healthy) h) < m"
  then obtain xs ys where s: "h = xs @ ys" "suffix (replicate n (Some Abnormal)) xs"
      "\<not> sublist (replicate m (Some Healthy)) ys" by (auto simp: active_def)
  obtain zs where ends: "xs = zs @ [Some Abnormal]"
    using s(2) assms(1) by (cases xs rule: rev_cases) (auto simp: suffix_replicate simp del: suffix_snoc split: if_splits)
  have "trail (Some Healthy) h = trail (Some Healthy) ys" unfolding s(1) by (rule trail_append [OF ends]) simp
  then have "\<not> sublist (replicate m (Some Healthy)) (ys @ [Some Healthy])"
    using a s(3) by (simp add: sublist_replicate_snoc)
  then show "active n m (h @ [Some Healthy])" using s unfolding active_def by (metis append.assoc)
qed

lemma active_reset:
  assumes "1 \<le> n" "1 \<le> m"
  shows "active n m (h @ [None]) \<longleftrightarrow> active n m h"
proof
  assume "active n m (h @ [None])"
  then obtain xs ys where s: "h @ [None] = xs @ ys" "suffix (replicate n (Some Abnormal)) xs"
      "\<not> sublist (replicate m (Some Healthy)) ys" by (auto simp: active_def)
  show "active n m h"
  proof (cases ys rule: rev_cases)
    case Nil
    then have "xs = h @ [None]" using s(1) by simp
    then show ?thesis using s(2) assms(1) by (simp add: suffix_replicate del: suffix_snoc)
  next
    case (snoc zs z)
    then have "h = xs @ zs" "\<not> sublist (replicate m (Some Healthy)) zs"
      using s by (auto simp: sublist_replicate_snoc)
    then show ?thesis using s(2) by (auto simp: active_def)
  qed
next
  assume "active n m h"
  then obtain xs ys where s: "h = xs @ ys" "suffix (replicate n (Some Abnormal)) xs"
      "\<not> sublist (replicate m (Some Healthy)) ys" by (auto simp: active_def)
  then have "\<not> sublist (replicate m (Some Healthy)) (ys @ [None])"
    using assms by (simp add: sublist_replicate_snoc)
  then show "active n m (h @ [None])" using s unfolding active_def by (metis append.assoc)
qed

section \<open>The lifecycle follows the history\<close>

lemma history_state_abnormal:
  "1 \<le> n \<Longrightarrow> 1 \<le> m \<Longrightarrow>
     history_state n m (h @ [Some Abnormal]) =
       (if active n m h \<or> n \<le> Suc (trail (Some Abnormal) h) then Open else Pending)"
  by (simp add: history_state_def active_abnormal)

lemma history_state_healthy:
  "1 \<le> n \<Longrightarrow> 1 \<le> m \<Longrightarrow>
     history_state n m (h @ [Some Healthy]) =
       (if active n m h \<and> Suc (trail (Some Healthy) h) < m then Recovering else Resolved)"
  by (simp add: history_state_def active_healthy)

lemma history_state_reset:
  "1 \<le> n \<Longrightarrow> 1 \<le> m \<Longrightarrow> history_state n m (h @ [None]) = history_state n m h"
  by (simp add: history_state_def active_reset)

lemma history_state_active: "history_state n m h \<in> {Open, Recovering} \<longleftrightarrow> active n m h"
  by (simp add: history_state_def)

lemma active_Nil: "1 \<le> n \<Longrightarrow> \<not> active n m []"
  by (simp add: active_def)

text \<open>The streak a state does not count is empty.\<close>

lemma streak_empty:
  "history_state n m h = Open \<Longrightarrow> trail (Some Healthy) h = 0"
  "history_state n m h = Resolved \<Longrightarrow> trail (Some Abnormal) h = 0"
  by (rule trail_last_kind; auto simp: history_state_def split: if_splits)+

text \<open>The thresholds a policy that counts observations applies.\<close>

definition trigger_threshold :: "AlertPolicy \<Rightarrow> nat" where
  "trigger_threshold p =
     (if ap_trigger_mode p = Immediate then 1
      else case ap_trigger_count p of None \<Rightarrow> 1 | Some n \<Rightarrow> unat n)"

definition recovery_threshold :: "AlertPolicy \<Rightarrow> nat" where
  "recovery_threshold p = (case ap_recovery_count p of None \<Rightarrow> 1 | Some n \<Rightarrow> unat n)"

definition observe_all :: "Incident \<Rightarrow> AlertPolicy \<Rightarrow> IncidentObservation list \<Rightarrow> Incident" where
  "observe_all i p obs = run_ops (\<lambda>i ob. fst (project i ob p)) i obs"

text \<open>
  Calls that are governed by one policy and whose observations are fresh and in order from a time on, and
  the history they make.
\<close>

fun governed :: "AlertPolicy \<Rightarrow> i64 \<Rightarrow> incident_call list \<Rightarrow> bool" where
  "governed p t [] = True"
| "governed p t (Observe ob q # cs) \<longleftrightarrow>
     q = p \<and> t \<le> ob_observed_at_ms ob \<and> ob_observed_at_ms ob \<le> ob_fact_fresh_until_ms ob \<and>
     governed p (ob_observed_at_ms ob) cs"
| "governed p t (Due now q # cs) \<longleftrightarrow> q = p \<and> governed p t cs"
| "governed p t (ResetEpoch now # cs) = governed p t cs"

fun marks :: "incident_call \<Rightarrow> history" where
  "marks (Observe ob p) = (if ob_kind ob = Change then [] else [Some (ob_kind ob)])"
| "marks (Due now p) = []"
| "marks (ResetEpoch now) = [None]"

definition history :: "incident_call list \<Rightarrow> history" where
  "history cs = concat (map marks cs)"

text \<open>
  The relation between an incident and its history: the state, the streak that this state counts and the
  episode.
\<close>

definition tracks :: "nat \<Rightarrow> nat \<Rightarrow> history \<Rightarrow> Incident \<Rightarrow> bool" where
  "tracks n m h i \<longleftrightarrow>
     in_lifecycle_state i = history_state n m h \<and>
     (in_lifecycle_state i = Pending \<longrightarrow>
        unat (in_consecutive_abnormal_count i) = min (trail (Some Abnormal) h) (2 ^ 32 - 1)) \<and>
     (in_lifecycle_state i \<in> {Open, Recovering} \<longrightarrow>
        unat (in_consecutive_healthy_count i) = min (trail (Some Healthy) h) (2 ^ 32 - 1)) \<and>
     unat (in_episode_number i) = min (episodes n m h) (2 ^ 32 - 1)"

lemma count_threshold:
  "unat (c :: u32) = min t (2 ^ 32 - 1) \<Longrightarrow> (k :: u32) \<le> c \<longleftrightarrow> unat k \<le> t"
  using unat_bound [of k] by (simp add: word_le_nat_alt)

lemma count_next:
  "unat (c :: u32) = min t (2 ^ 32 - 1) \<Longrightarrow> unat (sat_add c 1) = min (Suc t) (2 ^ 32 - 1)"
  by (simp add: unat_sat_add)

lemma project_fresh:
  assumes "ob_observed_at_ms ob \<le> ob_fact_fresh_until_ms ob" "in_last_seen_at_ms i \<le> ob_observed_at_ms ob"
  shows "project i ob p =
     (let r = (case ob_kind ob of
                 Abnormal \<Rightarrow> apply_abnormal (observe_fact i ob) (ob_observed_at_ms ob)
                    (ap_trigger_mode p) (ap_trigger_count p) (ap_trigger_duration_seconds p)
               | Healthy \<Rightarrow> apply_healthy (observe_fact i ob) (ob_observed_at_ms ob)
                    (ap_recovery_mode p) (ap_recovery_count p) (ap_recovery_duration_seconds p)
               | Change \<Rightarrow> (observe_fact i ob, NoTransition))
      in (fst r, Inr (snd r)))"
  using assms by (simp add: project_def apply_observation_def split: prod.split)

lemma episode_next:
  "unat (e :: u32) = min k (2 ^ 32 - 1) \<Longrightarrow> unat (sat_add e 1) = min (k + 1) (2 ^ 32 - 1)"
  using count_next [of e k] by simp

lemma apply_abnormal_tracks:
  assumes "tracks n m h i" "1 \<le> n" "1 \<le> m"
    and trigger: "mode = Immediate \<and> n = 1 \<or>
        mode = ConsecutiveOccurrences \<and> n = unat (case cnt of None \<Rightarrow> 1 | Some k \<Rightarrow> k)"
  shows "tracks n m (h @ [Some Abnormal]) (fst (apply_abnormal i at mode cnt dur))"
proof -
  let ?k = "case cnt of None \<Rightarrow> 1 | Some k \<Rightarrow> k" and ?c = "in_consecutive_abnormal_count i"
  note t = assms(1) [unfolded tracks_def]
  note facts = tracks_def apply_abnormal_def Let_def history_state_abnormal [OF assms(2,3)] episodes_snoc
  show ?thesis
  proof (cases "in_lifecycle_state i")
    case Resolved
    then have h: "history_state n m h = Resolved" "\<not> active n m h"
      using t history_state_active [of n m h] by auto
    have "?k \<le> 1 \<longleftrightarrow> unat ?k \<le> 1" by (simp add: word_le_nat_alt)
    moreover have "unat (sat_add (in_episode_number i) 1) = min (episodes n m h + 1) (2 ^ 32 - 1)"
      using t episode_next by blast
    ultimately show ?thesis
      using trigger h streak_empty(2) [OF h(1)] Resolved by (auto simp: facts maybe_open_def)
  next
    case Pending
    then have h: "history_state n m h = Pending" "\<not> active n m h"
      using t history_state_active [of n m h] by auto
    have c: "unat (sat_add ?c 1) = min (Suc (trail (Some Abnormal) h)) (2 ^ 32 - 1)"
      using t Pending by (intro count_next) simp
    have "?k \<le> sat_add ?c 1 \<longleftrightarrow> unat ?k \<le> Suc (trail (Some Abnormal) h)"
      by (rule count_threshold [OF c])
    then show ?thesis using trigger h c t Pending by (auto simp: facts maybe_open_def)
  next
    case Open
    then have "active n m h" "history_state n m h = Open" using t history_state_active [of n m h] by auto
    then show ?thesis using Open t by (simp add: facts)
  next
    case Recovering
    then have "active n m h" "history_state n m h = Recovering" using t history_state_active [of n m h] by auto
    then show ?thesis using Recovering t by (simp add: facts)
  qed
qed

lemma apply_healthy_tracks:
  assumes "tracks n m h i" "1 \<le> n" "1 \<le> m" "m = unat (case cnt of None \<Rightarrow> 1 | Some k \<Rightarrow> k)"
  shows "tracks n m (h @ [Some Healthy]) (fst (apply_healthy i at ConsecutiveHealthy cnt dur))"
proof -
  let ?k = "case cnt of None \<Rightarrow> 1 | Some k \<Rightarrow> k" and ?c = "in_consecutive_healthy_count i"
  note t = assms(1) [unfolded tracks_def]
  note facts = tracks_def apply_healthy_def Let_def history_state_healthy [OF assms(2,3)] episodes_snoc
    recovery_satisfied_def
  have a: "active n m h \<longleftrightarrow> in_lifecycle_state i \<in> {Open, Recovering}"
    using t history_state_active [of n m h] by simp
  show ?thesis
  proof (cases "in_lifecycle_state i \<in> {Open, Recovering}")
    case True
    then have "unat ?c = min (trail (Some Healthy) h) (2 ^ 32 - 1)" using t by blast
    then have c: "unat (sat_add ?c 1) = min (Suc (trail (Some Healthy) h)) (2 ^ 32 - 1)" by (rule count_next)
    have k: "?k \<le> sat_add ?c 1 \<longleftrightarrow> m \<le> Suc (trail (Some Healthy) h)"
      using count_threshold [OF c] assms(4) by simp
    have act: "active n m h" and e: "unat (in_episode_number i) = min (episodes n m h) (2 ^ 32 - 1)"
      using True a t by blast+
    from True consider "in_lifecycle_state i = Open" | "in_lifecycle_state i = Recovering" by blast
    then show ?thesis
    proof cases
      case 1
      then show ?thesis using k c e act by (cases "m \<le> Suc (trail (Some Healthy) h)") (simp_all add: facts)
    next
      case 2
      then show ?thesis using k c e act by (cases "m \<le> Suc (trail (Some Healthy) h)") (simp_all add: facts)
    qed
  next
    case False
    then show ?thesis using a t by (cases "in_lifecycle_state i") (simp_all add: facts)
  qed
qed

lemma reset_tracks:
  assumes "tracks n m h i" "1 \<le> n" "1 \<le> m"
  shows "tracks n m (h @ [None]) (reset_evaluation_epoch i now)"
proof -
  have "in_lifecycle_state i = Open \<Longrightarrow> in_consecutive_healthy_count i = 0"
    using assms(1) streak_empty(1) [of n m h] by (auto simp: tracks_def unat_eq_0)
  then show ?thesis
    using assms(1)
    by (cases "in_lifecycle_state i")
       (auto simp: tracks_def reset_evaluation_epoch_def history_state_reset [OF assms(2,3)] episodes_snoc)
qed

lemma apply_abnormal_last_seen [simp]:
  "in_last_seen_at_ms (fst (apply_abnormal i at mode cnt dur)) = in_last_seen_at_ms i"
  by (simp add: apply_abnormal_def maybe_open_def Let_def split: LifecycleState.split)

lemma apply_healthy_last_seen [simp]:
  "in_last_seen_at_ms (fst (apply_healthy i at mode cnt dur)) = in_last_seen_at_ms i"
  by (simp add: apply_healthy_def Let_def split: LifecycleState.split)

lemma project_last_seen:
  "ob_observed_at_ms ob \<le> ob_fact_fresh_until_ms ob \<Longrightarrow> in_last_seen_at_ms i \<le> ob_observed_at_ms ob \<Longrightarrow>
     in_last_seen_at_ms (fst (project i ob p)) = ob_observed_at_ms ob"
  by (simp add: project_fresh Let_def observe_fact_def split: ObservationKind.split)

definition counts_observations :: "AlertPolicy \<Rightarrow> bool" where
  "counts_observations p \<longleftrightarrow>
     policy_validate p = Inr () \<and> ap_trigger_mode p \<noteq> ActiveDuration \<and>
     ap_recovery_mode p = ConsecutiveHealthy"

lemma thresholds_positive:
  assumes "counts_observations p"
  shows "1 \<le> trigger_threshold p" "1 \<le> recovery_threshold p"
proof -
  have "\<not> count_out_of_range (ap_trigger_count p)" "\<not> count_out_of_range (ap_recovery_count p)"
    using assms by (auto simp: counts_observations_def policy_validate_def split: if_splits option.splits)
  then show "1 \<le> trigger_threshold p" "1 \<le> recovery_threshold p"
    by (auto simp: trigger_threshold_def recovery_threshold_def count_out_of_range_def word_le_nat_alt
        split: option.splits)
qed

lemma project_tracks:
  assumes "counts_observations p" "tracks (trigger_threshold p) (recovery_threshold p) h i"
    and "ob_observed_at_ms ob \<le> ob_fact_fresh_until_ms ob" "in_last_seen_at_ms i \<le> ob_observed_at_ms ob"
  shows "tracks (trigger_threshold p) (recovery_threshold p) (h @ marks (Observe ob p)) (fst (project i ob p))"
proof -
  have o: "tracks (trigger_threshold p) (recovery_threshold p) h (observe_fact i ob)"
    using assms(2) by (simp add: tracks_def observe_fact_def)
  show ?thesis
  proof (cases "ob_kind ob")
    case Abnormal
    moreover have "ap_trigger_mode p = Immediate \<and> trigger_threshold p = 1 \<or>
        ap_trigger_mode p = ConsecutiveOccurrences \<and>
        trigger_threshold p = unat (case ap_trigger_count p of None \<Rightarrow> 1 | Some k \<Rightarrow> k)"
      using assms(1)
      by (cases "ap_trigger_mode p")
         (auto simp: counts_observations_def trigger_threshold_def split: option.splits)
    ultimately show ?thesis
      using apply_abnormal_tracks [OF o thresholds_positive [OF assms(1)]] assms(3,4)
      by (simp add: project_fresh Let_def)
  next
    case Healthy
    moreover have "recovery_threshold p = unat (case ap_recovery_count p of None \<Rightarrow> 1 | Some k \<Rightarrow> k)"
      by (simp add: recovery_threshold_def split: option.splits)
    moreover have "ap_recovery_mode p = ConsecutiveHealthy"
      using assms(1) by (simp add: counts_observations_def)
    ultimately show ?thesis
      using apply_healthy_tracks [OF o thresholds_positive [OF assms(1)]] assms(3,4)
      by (simp add: project_fresh Let_def)
  next
    case Change
    then show ?thesis using o assms(3,4) by (simp add: project_fresh Let_def)
  qed
qed

text \<open>Under such a policy no deadline is ever met.\<close>

lemma counting_not_due:
  assumes "counts_observations p"
  shows "incident_step i (Due now p) = i"
proof -
  have "ap_trigger_mode p \<noteq> ActiveDuration" "ap_recovery_mode p \<noteq> HealthyDuration"
    using assms by (simp_all add: counts_observations_def)
  then show ?thesis by (cases "in_next_state_evaluation_at_ms i") (simp_all add: evaluate_due_def)
qed

lemma reset_last_seen: "in_last_seen_at_ms (reset_evaluation_epoch i now) = in_last_seen_at_ms i"
  by (cases "in_lifecycle_state i") (simp_all add: reset_evaluation_epoch_def)

lemma run_tracks:
  assumes "counts_observations p" "tracks (trigger_threshold p) (recovery_threshold p) h i"
    and "governed p (in_last_seen_at_ms i) calls"
  shows "tracks (trigger_threshold p) (recovery_threshold p) (h @ history calls) (run_ops incident_step i calls)"
  using assms(2,3)
proof (induction calls arbitrary: h i)
  case (Cons c calls)
  let ?i = "incident_step i c"
  have "tracks (trigger_threshold p) (recovery_threshold p) (h @ marks c) ?i \<and>
      governed p (in_last_seen_at_ms ?i) calls"
  proof (cases c)
    case (Observe ob q)
    then have q: "q = p" and o: "in_last_seen_at_ms i \<le> ob_observed_at_ms ob"
        "ob_observed_at_ms ob \<le> ob_fact_fresh_until_ms ob" "governed p (ob_observed_at_ms ob) calls"
      using Cons.prems(2) by simp_all
    show ?thesis
      using project_tracks [OF assms(1) Cons.prems(1) o(2,1)] project_last_seen [OF o(2,1)] o(3)
      unfolding Observe q by simp
  next
    case (Due now q)
    then have "?i = i" using Cons.prems(2) counting_not_due [OF assms(1)] by simp
    then show ?thesis using Cons.prems Due by simp
  next
    case (ResetEpoch now)
    then show ?thesis
      using Cons.prems reset_tracks [OF _ thresholds_positive [OF assms(1)]] by (simp add: reset_last_seen)
  qed
  then have "tracks (trigger_threshold p) (recovery_threshold p) ((h @ marks c) @ history calls)
      (run_ops incident_step ?i calls)"
    by (intro Cons.IH) simp_all
  then show ?case by (simp add: history_def)
qed (simp add: history_def)

lemma tracks_new: "1 \<le> n \<Longrightarrow> tracks n m [] (incident_new iid c t base now fp)"
  by (simp add: tracks_def incident_new_def history_state_def active_Nil episodes_Nil)

text \<open>
  C15: The lifecycle is a function of the history. Take an incident under a valid policy that counts
  observations, and any sequence of fresh observations in order, of deadlines and of resets by the
  reconciler (which happen at every round after an observation). At every moment it is Open or Recovering
  exactly when the history shows the threshold number of abnormal observations in a row, not interrupted
  by a reset, and since then never the recovery number of healthy ones in a row, not interrupted by a
  reset; the last observation tells Open from Recovering and Pending from Resolved. Its episode number is
  one more than the number of abnormal observations that found it resolved, up to the largest \<^verbatim>\<open>u32\<close>.
  (A change of the policy and the user's resolution by hand start from another history.)
\<close>
theorem incident_follows_history:
  assumes "counts_observations p" "governed p now calls"
    and "i = run_ops incident_step (incident_new iid c t base now fp) calls"
  shows "in_lifecycle_state i = history_state (trigger_threshold p) (recovery_threshold p) (history calls) \<and>
         unat (in_episode_number i) =
           min (episodes (trigger_threshold p) (recovery_threshold p) (history calls)) (2 ^ 32 - 1)"
proof -
  have "governed p (in_last_seen_at_ms (incident_new iid c t base now fp)) calls"
    using assms(2) by (simp add: incident_new_def)
  from run_tracks [OF assms(1) tracks_new [OF thresholds_positive(1) [OF assms(1)]] this]
  show ?thesis using assms(3) by (simp add: tracks_def)
qed

definition sample_observation :: "ObservationKind \<Rightarrow> i64 \<Rightarrow> IncidentObservation" where
  "sample_observation k t =
     \<lparr>ob_source_observation_key = ''obs'', ob_event_type = StationDown, ob_condition_key = ''station:1'',
      ob_kind = k, ob_severity = SevCritical, ob_observed_at_ms = t, ob_fact_fresh_until_ms = t + 10,
      ob_summary_json = ''{}''\<rparr>"

lemma sample_policy_counts: "counts_observations (system_default_for_event t base)"
proof -
  have "ap_trigger_mode (system_default_for_event t base) \<noteq> ActiveDuration"
      "ap_recovery_mode (system_default_for_event t base) = ConsecutiveHealthy"
    by (simp_all add: system_default_for_event_def Let_def)
  then show ?thesis by (simp add: counts_observations_def system_default_valid)
qed

text \<open>
  A station that fails twice under the default policy is Open, and resolved by the next healthy
  observation. Then it fails twice again, but with a round of the reconciler in between: the second
  episode stays Pending.
\<close>

definition sample_calls :: "AlertPolicy \<Rightarrow> incident_call list" where
  "sample_calls p =
     [Observe (sample_observation Abnormal 1) p, Observe (sample_observation Abnormal 2) p,
      Observe (sample_observation Healthy 3) p, Observe (sample_observation Abnormal 4) p, ResetEpoch 5,
      Observe (sample_observation Abnormal 6) p]"

definition sample_history :: history where
  "sample_history =
     [Some Abnormal, Some Abnormal, Some Healthy, Some Abnormal, None, Some Abnormal]"

lemma sample_history_state: "history_state 2 1 sample_history = Pending \<and> episodes 2 1 sample_history = 2"
proof -
  have h: "sample_history =
      ((((([] @ [Some Abnormal]) @ [Some Abnormal]) @ [Some Healthy]) @ [Some Abnormal]) @ [None]) @ [Some Abnormal]"
    by (simp add: sample_history_def)
  show ?thesis
    unfolding h
    by (simp add: episodes_snoc episodes_Nil history_state_abnormal history_state_healthy history_state_reset
        active_abnormal active_healthy active_reset active_Nil history_state_def [of _ _ "[]"]
        del: append.simps append_assoc)
qed

theorem incident_follows_history_witness:
  "in_lifecycle_state (run_ops incident_step (incident_new ''i'' ''station:1'' StationDown SevCritical 0 ''f'')
       (sample_calls (system_default_for_event (Some StationDown) SevCritical))) = Pending \<and>
   in_episode_number (run_ops incident_step (incident_new ''i'' ''station:1'' StationDown SevCritical 0 ''f'')
       (sample_calls (system_default_for_event (Some StationDown) SevCritical))) = 2"
proof -
  let ?p = "system_default_for_event (Some StationDown) SevCritical"
  have th: "trigger_threshold ?p = 2" "recovery_threshold ?p = 1"
    by (simp_all add: trigger_threshold_def recovery_threshold_def system_default_for_event_def
        event_definition_def event_registry_def event_state_def event_audit_def)
  have g: "governed ?p 0 (sample_calls ?p)" "history (sample_calls ?p) = sample_history"
    by (simp_all add: sample_calls_def sample_observation_def history_def sample_history_def)
  show ?thesis
    using incident_follows_history [OF sample_policy_counts g(1) refl] sample_history_state
    by (simp add: th g(2) word_unat_eq_iff)
qed

section \<open>Transitions\<close>

lemma apply_abnormal_phase:
  assumes "apply_abnormal i at mode cnt dur = (i', t)"
  shows "in_lifecycle_state i' \<in> {Open, Pending} \<and> (in_lifecycle_state i' = Pending \<longleftrightarrow> t = ToPending) \<and>
         (t = Opened \<longleftrightarrow> in_lifecycle_state i' = Open \<and> in_lifecycle_state i \<noteq> Open) \<and>
         t \<in> {NoTransition, ToPending, Opened}"
  using assms
  by (auto simp: apply_abnormal_def maybe_open_def Let_def split: LifecycleState.splits if_splits)

lemma apply_healthy_phase:
  assumes "apply_healthy i at mode cnt dur = (i', t)"
  shows "in_lifecycle_state i' \<in> {Recovering, Resolved} \<and>
         (t = ToResolved \<longleftrightarrow> in_lifecycle_state i' = Resolved \<and> in_lifecycle_state i \<noteq> Resolved) \<and>
         (t = ToRecovering \<longleftrightarrow> in_lifecycle_state i' = Recovering \<and> in_lifecycle_state i = Open) \<and>
         t \<in> {NoTransition, ToRecovering, ToResolved}"
  using assms by (auto simp: apply_healthy_def Let_def split: LifecycleState.splits if_splits)

lemma observe_fact_state [simp]: "in_lifecycle_state (observe_fact i ob) = in_lifecycle_state i"
  by (simp add: observe_fact_def)

text \<open>Every transition the reducer reports is the change of state it made, and conversely.\<close>

lemma project_transition:
  assumes "project i ob p = (i', Inr t)"
  shows "(t = Opened \<longleftrightarrow> in_lifecycle_state i' = Open \<and> in_lifecycle_state i \<noteq> Open)"
    and "(t = ToResolved \<longleftrightarrow> in_lifecycle_state i' = Resolved \<and> in_lifecycle_state i \<noteq> Resolved)"
    and "(t = ToRecovering \<longleftrightarrow> in_lifecycle_state i' = Recovering \<and> in_lifecycle_state i = Open)"
    and "t \<noteq> Reopened"
proof -
  have fresh: "ob_observed_at_ms ob \<le> ob_fact_fresh_until_ms ob" "in_last_seen_at_ms i \<le> ob_observed_at_ms ob"
    using assms by (auto simp: project_def split: if_splits)
  have "(t = Opened \<longleftrightarrow> in_lifecycle_state i' = Open \<and> in_lifecycle_state i \<noteq> Open) \<and>
        (t = ToResolved \<longleftrightarrow> in_lifecycle_state i' = Resolved \<and> in_lifecycle_state i \<noteq> Resolved) \<and>
        (t = ToRecovering \<longleftrightarrow> in_lifecycle_state i' = Recovering \<and> in_lifecycle_state i = Open) \<and>
        t \<noteq> Reopened"
  proof (cases "ob_kind ob")
    case Abnormal
    then have "apply_abnormal (observe_fact i ob) (ob_observed_at_ms ob) (ap_trigger_mode p)
        (ap_trigger_count p) (ap_trigger_duration_seconds p) = (i', t)"
      using assms by (simp add: project_fresh [OF fresh] Let_def prod_eq_iff)
    from apply_abnormal_phase [OF this] show ?thesis by auto
  next
    case Healthy
    then have "apply_healthy (observe_fact i ob) (ob_observed_at_ms ob) (ap_recovery_mode p)
        (ap_recovery_count p) (ap_recovery_duration_seconds p) = (i', t)"
      using assms by (simp add: project_fresh [OF fresh] Let_def prod_eq_iff)
    from apply_healthy_phase [OF this] show ?thesis by auto
  next
    case Change
    then show ?thesis using assms by (auto simp: project_fresh [OF fresh] Let_def)
  qed
  then show "(t = Opened \<longleftrightarrow> in_lifecycle_state i' = Open \<and> in_lifecycle_state i \<noteq> Open)"
      "(t = ToResolved \<longleftrightarrow> in_lifecycle_state i' = Resolved \<and> in_lifecycle_state i \<noteq> Resolved)"
      "(t = ToRecovering \<longleftrightarrow> in_lifecycle_state i' = Recovering \<and> in_lifecycle_state i = Open)"
      "t \<noteq> Reopened" by blast+
qed

lemma project_error: "project i ob p = (i', Inl e) \<Longrightarrow> i' = i"
  by (auto simp: project_def split: if_splits prod.splits)

lemma project_leaves_open:
  assumes "project i ob p = (i', r)" "in_lifecycle_state i = Open" "in_lifecycle_state i' \<noteq> Open"
  shows "r \<in> {Inr ToRecovering, Inr ToResolved} \<and> ob_kind ob = Healthy"
proof (cases r)
  case (Inl e)
  then show ?thesis using assms project_error by fastforce
next
  case (Inr t)
  have fresh: "ob_observed_at_ms ob \<le> ob_fact_fresh_until_ms ob" "in_last_seen_at_ms i \<le> ob_observed_at_ms ob"
    using assms(1) Inr by (auto simp: project_def split: if_splits)
  have "in_lifecycle_state i' \<in> {Recovering, Resolved} \<and> ob_kind ob = Healthy"
  proof (cases "ob_kind ob")
    case Abnormal
    then have "apply_abnormal (observe_fact i ob) (ob_observed_at_ms ob) (ap_trigger_mode p)
        (ap_trigger_count p) (ap_trigger_duration_seconds p) = (i', t)"
      using assms(1) Inr by (simp add: project_fresh [OF fresh] Let_def prod_eq_iff)
    then show ?thesis using assms(2,3) by (auto simp: apply_abnormal_def Let_def)
  next
    case Healthy
    then have "apply_healthy (observe_fact i ob) (ob_observed_at_ms ob) (ap_recovery_mode p)
        (ap_recovery_count p) (ap_recovery_duration_seconds p) = (i', t)"
      using assms(1) Inr by (simp add: project_fresh [OF fresh] Let_def prod_eq_iff)
    from apply_healthy_phase [OF this] Healthy show ?thesis by auto
  next
    case Change
    then show ?thesis using assms by (auto simp: project_fresh [OF fresh] Let_def)
  qed
  then show ?thesis using project_transition [OF assms(1) [unfolded Inr]] assms(2,3) Inr by auto
qed

text \<open>What a series of calls reports; a reset reports nothing.\<close>

fun outcome :: "Incident \<Rightarrow> incident_call \<Rightarrow> ProjectionError + StateTransition" where
  "outcome i (Observe ob p) = snd (project i ob p)"
| "outcome i (Due now p) =
     Inr (snd (evaluate_due i now (ap_trigger_mode p) (ap_trigger_duration_seconds p)
                 (ap_recovery_mode p) (ap_recovery_duration_seconds p)))"
| "outcome i (ResetEpoch now) = Inr NoTransition"

fun reported :: "Incident \<Rightarrow> incident_call list \<Rightarrow> (ProjectionError + StateTransition) list" where
  "reported i [] = []"
| "reported i (c # cs) = outcome i c # reported (incident_step i c) cs"

definition healthy_call :: "incident_call \<Rightarrow> bool" where
  "healthy_call c \<longleftrightarrow> (case c of Observe ob p \<Rightarrow> ob_kind ob = Healthy | _ \<Rightarrow> False)"

lemma reset_state [simp]: "in_lifecycle_state (reset_evaluation_epoch i now) = in_lifecycle_state i"
  by (cases "in_lifecycle_state i") (simp_all add: reset_evaluation_epoch_def)

lemma outcome_opened:
  assumes "outcome i c = Inr Opened"
  shows "in_lifecycle_state i \<noteq> Open" "in_lifecycle_state (incident_step i c) = Open"
proof -
  have "in_lifecycle_state i \<noteq> Open \<and> in_lifecycle_state (incident_step i c) = Open"
  proof (cases c)
    case (Observe ob p)
    then show ?thesis
      using assms project_transition(1) [of i ob p] by (cases "project i ob p") auto
  next
    case (Due now p)
    then show ?thesis using assms by (auto simp: evaluate_due_def split: option.splits if_splits)
  qed (use assms in simp)
  then show "in_lifecycle_state i \<noteq> Open" "in_lifecycle_state (incident_step i c) = Open" by blast+
qed

lemma outcome_leaves_open:
  assumes "in_lifecycle_state i = Open" "in_lifecycle_state (incident_step i c) \<noteq> Open"
  shows "healthy_call c \<and> outcome i c \<in> {Inr ToRecovering, Inr ToResolved}"
proof (cases c)
  case (Observe ob p)
  then show ?thesis
    using assms project_leaves_open [of i ob p] by (cases "project i ob p") (auto simp: healthy_call_def)
next
  case (Due now p)
  then show ?thesis using assms by (auto simp: evaluate_due_def split: option.splits if_splits)
qed (use assms in simp)

lemma opened_after_leaving:
  "reported i calls = bs @ Inr Opened # cs \<Longrightarrow> in_lifecycle_state i = Open \<Longrightarrow>
     \<exists>k < length bs. healthy_call (calls ! k) \<and> bs ! k \<in> {Inr ToRecovering, Inr ToResolved}"
proof (induction calls arbitrary: i bs)
  case (Cons c calls)
  have eq: "outcome i c # reported (incident_step i c) calls = bs @ Inr Opened # cs" using Cons.prems(1) by simp
  moreover have "outcome i c \<noteq> Inr Opened" using outcome_opened(1) Cons.prems(2) by blast
  ultimately obtain bs' where bs: "bs = outcome i c # bs'" "reported (incident_step i c) calls = bs' @ Inr Opened # cs"
    by (cases bs) auto
  show ?case
  proof (cases "in_lifecycle_state (incident_step i c) = Open")
    case True
    from Cons.IH [OF bs(2) this] obtain k where "k < length bs'" "healthy_call (calls ! k)"
        "bs' ! k \<in> {Inr ToRecovering, Inr ToResolved}" by blast
    then show ?thesis by (intro exI [of _ "Suc k"]) (simp add: bs(1))
  next
    case False
    from outcome_leaves_open [OF Cons.prems(2) this] show ?thesis
      by (intro exI [of _ 0]) (simp add: bs(1))
  qed
qed simp

text \<open>
  C16: An incident opens once until a healthy observation. Whatever the observations, the deadlines and
  the resets of the reconciler, and however the policy changes between them: between two reported openings
  there is a call that is a healthy observation and that reports the recovery or the resolution.
\<close>
theorem opened_once_until_recovery:
  assumes "reported i calls = as @ Inr Opened # bs @ Inr Opened # cs"
  shows "\<exists>k < length bs. healthy_call (calls ! (length as + 1 + k)) \<and>
           bs ! k \<in> {Inr ToRecovering, Inr ToResolved}"
  using assms
proof (induction calls arbitrary: i as)
  case (Cons c calls)
  have eq: "outcome i c # reported (incident_step i c) calls = as @ Inr Opened # bs @ Inr Opened # cs"
    using Cons.prems by simp
  show ?case
  proof (cases as)
    case Nil
    then have "outcome i c = Inr Opened" "reported (incident_step i c) calls = bs @ Inr Opened # cs" using eq by auto
    from opened_after_leaving [OF this(2) outcome_opened(2) [OF this(1)]] Nil show ?thesis by simp
  next
    case (Cons a as')
    then have "reported (incident_step i c) calls = as' @ Inr Opened # bs @ Inr Opened # cs" using eq by simp
    from Cons.IH [OF this] Cons show ?thesis by simp
  qed
qed simp

definition flapping_policy :: AlertPolicy where
  "flapping_policy =
     (system_default_for_event (Some KeyInvalid) SevCritical)\<lparr>ap_recovery_count := Some 2\<rparr>"

text \<open>An abnormal observation, a reset, a healthy observation and an abnormal one: opened twice.\<close>

definition flapping :: "incident_call list" where
  "flapping = [Observe (sample_observation Abnormal 1) flapping_policy, ResetEpoch 1,
               Observe (sample_observation Healthy 2) flapping_policy,
               Observe (sample_observation Abnormal 3) flapping_policy]"

theorem opened_once_until_recovery_witness:
  "reported (incident_new ''i'' ''station:1'' KeyInvalid SevCritical 0 ''f'') flapping =
     [Inr Opened, Inr NoTransition, Inr ToRecovering, Inr Opened] \<and>
   (\<exists>k. k < 2 \<and> healthy_call (flapping ! (1 + k)) \<and>
      [Inr NoTransition :: ProjectionError + StateTransition, Inr ToRecovering] ! k \<in> {Inr ToRecovering, Inr ToResolved})"
proof -
  have r: "reported (incident_new ''i'' ''station:1'' KeyInvalid SevCritical 0 ''f'') flapping =
      [] @ Inr Opened # [Inr NoTransition, Inr ToRecovering] @ Inr Opened # []"
    by (simp add: flapping_def flapping_policy_def sample_observation_def system_default_for_event_def
        event_definition_def event_registry_def event_state_def event_audit_def incident_new_def
        project_def apply_observation_def apply_abnormal_def apply_healthy_def maybe_open_def
        observe_fact_def recovery_satisfied_def Let_def sat_add_def word_le_nat_alt reset_evaluation_epoch_def)
  from opened_once_until_recovery [OF r] r show ?thesis by (simp add: numeral_2_eq_2)
qed

section \<open>Consistency of the record\<close>

definition incident_ok :: "Incident \<Rightarrow> bool" where
  "incident_ok i \<longleftrightarrow>
     (case in_lifecycle_state i of
        Pending \<Rightarrow> in_pending_since_ms i \<noteq> None \<and> in_opened_at_ms i = None \<and>
                   in_recovering_at_ms i = None \<and> in_resolved_at_ms i = None
      | Open \<Rightarrow> in_opened_at_ms i \<noteq> None \<and> in_recovering_at_ms i = None \<and> in_resolved_at_ms i = None
      | Recovering \<Rightarrow> in_opened_at_ms i \<noteq> None \<and> in_recovering_at_ms i \<noteq> None \<and>
                      in_resolved_at_ms i = None
      | Resolved \<Rightarrow> in_resolved_at_ms i \<noteq> None \<and> in_recovering_at_ms i = None) \<and>
     in_episode_number i \<noteq> 0 \<and>
     in_episode_occurrence_count i \<le> in_occurrence_count i \<and>
     (in_consecutive_abnormal_count i = 0 \<or> in_consecutive_healthy_count i = 0)"

lemma incident_new_ok: "incident_ok (incident_new iid c t base now fp)"
  by (simp add: incident_ok_def incident_new_def)

lemma sat_add_mono: "(a :: 'a::len word) \<le> b \<Longrightarrow> sat_add a 1 \<le> sat_add b 1"
  by (simp add: word_le_nat_alt unat_sat_add)

lemma one_le_sat_add: "(1 :: u64) \<le> sat_add a 1"
  by (simp add: word_le_nat_alt unat_sat_add)

lemma maybe_open_ok:
  "incident_ok i \<Longrightarrow> in_lifecycle_state i = Pending \<Longrightarrow> incident_ok (fst (maybe_open i at mode cnt dur))"
  by (auto simp: incident_ok_def maybe_open_def Let_def)

lemma apply_abnormal_ok: "incident_ok i \<Longrightarrow> incident_ok (fst (apply_abnormal i at mode cnt dur))"
proof (cases "in_lifecycle_state i")
  case Resolved
  assume "incident_ok i"
  with Resolved show ?thesis
    unfolding apply_abnormal_def Let_def
    by (simp, intro maybe_open_ok) (simp_all add: incident_ok_def sat_add_pos one_le_sat_add)
next
  case Pending
  assume "incident_ok i"
  with Pending show ?thesis
    unfolding apply_abnormal_def Let_def
    by (simp, intro maybe_open_ok) (simp_all add: incident_ok_def sat_add_mono)
qed (auto simp: apply_abnormal_def Let_def incident_ok_def sat_add_mono)

lemma apply_healthy_ok: "incident_ok i \<Longrightarrow> incident_ok (fst (apply_healthy i at mode cnt dur))"
  by (cases "in_lifecycle_state i") (auto simp: apply_healthy_def Let_def incident_ok_def)

lemma observe_fact_ok: "incident_ok i \<Longrightarrow> incident_ok (observe_fact i ob)"
  by (cases "in_lifecycle_state i") (simp_all add: incident_ok_def observe_fact_def)

lemma project_ok: "incident_ok i \<Longrightarrow> incident_ok (fst (project i ob p))"
  by (simp add: project_def apply_observation_def case_prod_beta apply_abnormal_ok apply_healthy_ok
      observe_fact_ok split: ObservationKind.split)

lemma evaluate_due_ok: "incident_ok i \<Longrightarrow> incident_ok (fst (evaluate_due i now tm td rm rd))"
  by (cases "in_lifecycle_state i"; cases "in_next_state_evaluation_at_ms i")
     (simp_all add: evaluate_due_def incident_ok_def)

lemma reset_evaluation_epoch_ok: "incident_ok i \<Longrightarrow> incident_ok (reset_evaluation_epoch i now)"
  by (auto simp: reset_evaluation_epoch_def incident_ok_def split: LifecycleState.splits)

interpretation incident_inv: kept_invariant incident_step incident_ok
proof
  fix i c
  assume "incident_ok i"
  then show "incident_ok (incident_step i c)"
    by (cases c) (simp_all add: project_ok evaluate_due_ok reset_evaluation_epoch_ok)
qed

text \<open>
  The record stays consistent. Over any sequence of observations, deadlines and policy changes the
  time stamps say the same as the lifecycle state, the episode number stays positive, an episode never
  counts more occurrences than the incident, and at most one of the two streaks is running.
\<close>
theorem incident_record_consistent:
  "incident_ok (run_ops incident_step (incident_new iid c t base now fp) calls)"
  by (rule incident_inv.run_keeps [OF incident_new_ok])

section \<open>Durations\<close>

text \<open>
  A trigger by active duration is met only by \<open>evaluate_due\<close>, which no caller outside the tests
  uses: no observation opens an incident under it.
\<close>

lemma active_duration_never_opens:
  assumes "ap_trigger_mode p = ActiveDuration" "in_lifecycle_state i \<notin> {Open, Recovering}"
  shows "in_lifecycle_state (observe_all i p obs) \<notin> {Open, Recovering}"
  using assms(2)
proof (induction obs arbitrary: i)
  case (Cons ob obs)
  have "in_lifecycle_state (fst (project i ob p)) \<notin> {Open, Recovering}"
    using Cons.prems assms(1)
    by (cases "in_lifecycle_state i")
       (auto simp: project_def apply_observation_def apply_abnormal_def apply_healthy_def maybe_open_def
          Let_def split: ObservationKind.splits prod.splits)
  from Cons.IH [OF this] show ?case by (simp add: observe_all_def)
qed (simp add: observe_all_def)

text \<open>
  The reset of a recovering incident forgets since when it is healthy, and only the transition from
  Open sets that again: under a recovery by duration no healthy observation resolves it any more.
\<close>

lemma reset_blocks_duration_recovery:
  assumes "ap_recovery_mode p = HealthyDuration" "in_lifecycle_state i = Recovering"
    and "\<forall>ob \<in> set obs. ob_kind ob \<noteq> Abnormal"
  shows "in_lifecycle_state (observe_all (reset_evaluation_epoch i now) p obs) = Recovering"
proof -
  have "in_lifecycle_state (observe_all j p obs) = Recovering"
    if "in_lifecycle_state j = Recovering" "in_healthy_since_ms j = None" for j
    using that assms(3)
  proof (induction obs arbitrary: j)
    case (Cons ob obs)
    then have "ob_kind ob \<noteq> Abnormal" by simp
    then have "in_lifecycle_state (fst (project j ob p)) = Recovering \<and>
               in_healthy_since_ms (fst (project j ob p)) = None"
      using Cons.prems(1,2) assms(1)
      by (cases "ob_kind ob")
         (auto simp: project_def apply_observation_def apply_healthy_def observe_fact_def
            recovery_satisfied_def Let_def)
    with Cons show ?case by (simp add: observe_all_def)
  qed (simp add: observe_all_def)
  with assms(2) show ?thesis by (simp add: reset_evaluation_epoch_def)
qed

end
