(* ===== verification/LedgerCorrect.thy ===== *)
theory LedgerCorrect
  imports DeliveryLedger
begin

text \<open>
  Correctness of notifications: delivery keys identify what is delivered, the planner never panics,
  quiet hours are a circular interval of the day, and over every sequence of ledger statements a
  delivery is attempted a bounded number of times, belongs to one claimant at a time and never leaves
  a final state.
\<close>

section \<open>Delivery keys\<close>

lemma split_last_colon:
  "a @ CHR '':'' # b = c @ CHR '':'' # d \<Longrightarrow> CHR '':'' \<notin> set b \<Longrightarrow> CHR '':'' \<notin> set d \<Longrightarrow> a = c \<and> b = d"
  by (auto simp: append_eq_append_conv2 Cons_eq_append_conv append_eq_Cons_conv)

lemma show_nat_no_colon: "CHR '':'' \<notin> set (show_nat n)"
proof
  assume "CHR '':'' \<in> set (show_nat n)"
  from show_nat_digits [OF this] show False by simp
qed

lemma channel_no_colon: "CHR '':'' \<notin> set (channel_str c)"
  by (cases c) simp_all

lemma kind_no_colon: "CHR '':'' \<notin> set (delivery_kind_str k)"
  by (cases k) simp_all

lemma channel_str_inject: "channel_str a = channel_str b \<longleftrightarrow> a = b"
  by (cases a; cases b) simp_all

lemma delivery_kind_str_inject: "delivery_kind_str a = delivery_kind_str b \<longleftrightarrow> a = b"
  by (cases a; cases b) simp_all

text \<open>Two deliveries have the same key exactly when they deliver the same thing.\<close>

lemma delivery_key_exact:
  "make_delivery_key i e c k s = make_delivery_key i' e' c' k' s' \<longleftrightarrow>
     i = i' \<and> e = e' \<and> c = c' \<and> k = k' \<and> s = s'"
proof
  assume eq: "make_delivery_key i e c k s = make_delivery_key i' e' c' k' s'"
  let ?d1 = "i @ '':'' @ show_nat (unat e) @ '':'' @ channel_str c @ '':'' @ delivery_kind_str k"
  let ?d2 = "i' @ '':'' @ show_nat (unat e') @ '':'' @ channel_str c' @ '':'' @ delivery_kind_str k'"
  have "?d1 = ?d2 \<and> show_nat (unat s) = show_nat (unat s')"
    using eq split_last_colon [of ?d1 "show_nat (unat s)" ?d2 "show_nat (unat s')"]
    by (simp add: make_delivery_key_def show_nat_no_colon)
  then have s: "s = s'" and d: "?d1 = ?d2" by (simp_all add: word_unat_eq_iff)
  let ?e1 = "i @ '':'' @ show_nat (unat e) @ '':'' @ channel_str c"
  let ?e2 = "i' @ '':'' @ show_nat (unat e') @ '':'' @ channel_str c'"
  have "?e1 = ?e2 \<and> delivery_kind_str k = delivery_kind_str k'"
    using d split_last_colon [of ?e1 "delivery_kind_str k" ?e2 "delivery_kind_str k'"]
    by (simp add: kind_no_colon)
  then have k: "k = k'" and e: "?e1 = ?e2" by (simp_all add: delivery_kind_str_inject)
  let ?f1 = "i @ '':'' @ show_nat (unat e)" and ?f2 = "i' @ '':'' @ show_nat (unat e')"
  have "?f1 = ?f2 \<and> channel_str c = channel_str c'"
    using e split_last_colon [of ?f1 "channel_str c" ?f2 "channel_str c'"] by (simp add: channel_no_colon)
  then have c: "c = c'" and f: "?f1 = ?f2" by (simp_all add: channel_str_inject)
  have "i = i' \<and> show_nat (unat e) = show_nat (unat e')"
    using f split_last_colon [of i "show_nat (unat e)" i' "show_nat (unat e')"]
    by (simp add: show_nat_no_colon)
  then show "i = i' \<and> e = e' \<and> c = c' \<and> k = k' \<and> s = s'"
    using s k c by (simp add: word_unat_eq_iff)
qed simp

section \<open>Planning\<close>

text \<open>
  The planner never panics on an incident with a positive episode number when the JSON writer writes
  JSON, and plans one delivery per channel.
\<close>

lemma make_delivery_done:
  assumes "in_episode_number i \<noteq> 0" "sq \<noteq> 0" "json_ok snapshot"
  shows "\<exists>d. make_delivery json_ok sha256 i p ch k sq now snapshot = Done d \<and>
             nd_delivery_key d = make_delivery_key (in_id i) (in_episode_number i) ch k sq \<and>
             nd_status d = StatusScheduled \<and> nd_incident_id d = in_id i \<and> nd_channel d = ch \<and>
             nd_delivery_kind d = k \<and> nd_episode_number d = in_episode_number i"
  using assms by (simp add: make_delivery_def delivery_new_def Let_def)

lemma plan_kind_done:
  assumes "in_episode_number i \<noteq> 0" "sq \<noteq> 0" "json_ok ''{}''" "\<And>t. to_json p = Some t \<Longrightarrow> json_ok t"
  shows "\<exists>a b. plan_kind clock json_ok sha256 to_json k i p s att now sq = Done [a, b] \<and>
           nd_channel (pd_delivery a) = InApp \<and> nd_channel (pd_delivery b) = Desktop \<and>
           (\<forall>d \<in> {a, b}. nd_delivery_kind (pd_delivery d) = k \<and> nd_status (pd_delivery d) = StatusScheduled \<and>
              nd_incident_id (pd_delivery d) = in_id i \<and>
              nd_episode_number (pd_delivery d) = in_episode_number i)"
proof -
  let ?s = "case to_json p of None \<Rightarrow> ''{}'' | Some t \<Rightarrow> t"
  have "json_ok ?s" using assms(3,4) by (simp split: option.split)
  note made = make_delivery_done [where json_ok = json_ok and snapshot = ?s, OF assms(1,2) this]
  from made [of sha256 p InApp k now] made [of sha256 p Desktop k now]
  show ?thesis by (auto simp: plan_kind_def Let_def)
qed

text \<open>Quiet hours are the circular interval from the start to the end of the day's clock.\<close>

lemma parse_minutes_bound: "parse_minutes v = Some n \<Longrightarrow> n < 1440"
  by (auto simp: parse_minutes_def split: option.splits prod.splits if_splits)

lemma quiet_hours_circular:
  assumes "as_quiet_hours_enabled s" "as_quiet_hours_start_local s = Some a"
    "as_quiet_hours_end_local s = Some b" "parse_minutes a = Some start" "parse_minutes b = Some stop"
    "clock (as_quiet_hours_time_zone s) now = Some minute" "minute < 1440"
  shows "is_quiet_at clock s now \<longleftrightarrow>
     start = stop \<or> (minute + 1440 - start) mod 1440 < (stop + 1440 - start) mod 1440"
proof -
  have circ: "(x + 1440 - start) mod 1440 = (if start \<le> x then x - start else x + 1440 - start)"
    if "x < 1440" for x
    using that parse_minutes_bound [OF assms(4)] by (auto simp: le_mod_geq mod_if)
  show ?thesis
    using assms parse_minutes_bound [OF assms(4)] parse_minutes_bound [OF assms(5)]
    by (auto simp: is_quiet_at_def circ)
qed

section \<open>The ledger as a machine\<close>

datatype ledger_call =
    Enqueue NotificationDelivery
  | Claim string string i64 i64
  | Delivered string string i64
  | FailedDelivery string string string i64
  | AdapterFailure string string i64
  | RecoverExpired i64 u32
  | SuppressIncident string u32 SuppressionReason i64 u32
  | DeleteTerminal i64 u32

text \<open>An error rolls the transaction back.\<close>

fun ledger_step :: "ledger \<Rightarrow> ledger_call \<Rightarrow> ledger" where
  "ledger_step rows (Enqueue d) = (case schedule rows d of Inl _ \<Rightarrow> rows | Inr (rows', _) \<Rightarrow> rows')"
| "ledger_step rows (Claim did token now lease) =
     (case claim_due rows did token now lease of Inl _ \<Rightarrow> rows | Inr (rows', _) \<Rightarrow> rows')"
| "ledger_step rows (Delivered did token now) =
     (case mark_delivered rows did token now of Inl _ \<Rightarrow> rows | Inr rows' \<Rightarrow> rows')"
| "ledger_step rows (FailedDelivery did token code now) =
     (case mark_failed rows did token code now of Inl _ \<Rightarrow> rows | Inr rows' \<Rightarrow> rows')"
| "ledger_step rows (AdapterFailure did token now) =
     (case mark_adapter_failure rows did token now of Inl _ \<Rightarrow> rows | Inr rows' \<Rightarrow> rows')"
| "ledger_step rows (RecoverExpired now limit) = fst (recover_expired rows now limit)"
| "ledger_step rows (SuppressIncident iid ep reason now limit) =
     fst (suppress_scheduled_for_incident rows iid ep reason now limit)"
| "ledger_step rows (DeleteTerminal cutoff limit) = fst (delete_terminal_before rows cutoff limit)"

text \<open>The rows a call may change or delete.\<close>

fun touches :: "ledger_call \<Rightarrow> NotificationDelivery \<Rightarrow> bool" where
  "touches (Enqueue d) r = False"
| "touches (Claim did token now lease) r = (nd_id r = did \<and> claimable now r)"
| "touches (Delivered did token now) r = held did token r"
| "touches (FailedDelivery did token code now) r = held did token r"
| "touches (AdapterFailure did token now) r = held did token r"
| "touches (RecoverExpired now limit) r = lease_expired now r"
| "touches (SuppressIncident iid ep reason now limit) r =
     (nd_incident_id r = iid \<and> nd_episode_number r = ep \<and> nd_status r = StatusScheduled)"
| "touches (DeleteTerminal cutoff limit) r =
     (nd_created_at_ms r < cutoff \<and>
      nd_status r \<in> {StatusDelivered, StatusSuppressed, StatusFailed, OutcomeUnknown})"

lemma sql_update_keeps: "r \<in> set rows \<Longrightarrow> \<not> P r \<Longrightarrow> r \<in> set (fst (sql_update P f rows))"
  by (auto simp: sql_update_def image_iff intro!: bexI [of _ r])

lemma sql_first_ids_sub: "did \<in> set (sql_first_ids P key n rows) \<Longrightarrow> \<exists>r \<in> set rows. nd_id r = did \<and> P r"
  by (auto simp: sql_first_ids_def dest!: in_set_takeD)

lemma not_selected:
  assumes "distinct (map nd_id rows)" "r \<in> set rows" "\<not> P r"
  shows "nd_id r \<notin> set (sql_first_ids P key n rows)"
proof
  assume "nd_id r \<in> set (sql_first_ids P key n rows)"
  then obtain q where "q \<in> set rows" "nd_id q = nd_id r" "P q" using sql_first_ids_sub by blast
  with assms show False by (metis distinct_map inj_onD)
qed

lemma step_keeps_untouched:
  assumes "distinct (map nd_id rows)" "r \<in> set rows" "\<not> touches c r"
  shows "r \<in> set (ledger_step rows c)"
proof (cases c)
  case (Enqueue d)
  then show ?thesis using assms(2) by (simp add: schedule_def)
next
  case (Claim did token now lease)
  then show ?thesis
    using assms sql_update_keeps [OF assms(2)] by (auto simp: claim_due_def case_prod_beta)
next
  case (Delivered did token now)
  then show ?thesis
    using assms sql_update_keeps [OF assms(2)]
    by (auto simp: mark_delivered_def update_held_def case_prod_beta)
next
  case (FailedDelivery did token code now)
  then show ?thesis
    using assms sql_update_keeps [OF assms(2)]
    by (auto simp: mark_failed_def update_held_def case_prod_beta)
next
  case (AdapterFailure did token now)
  then show ?thesis
    using assms sql_update_keeps [OF assms(2)]
    by (auto simp: mark_adapter_failure_def release_for_retry_def update_held_def case_prod_beta)
next
  case (RecoverExpired now limit)
  then show ?thesis
    using assms not_selected [OF assms(1,2)]
    by (auto simp: recover_expired_def expire_claims_def Let_def intro!: sql_update_keeps)
next
  case (SuppressIncident iid ep reason now limit)
  then show ?thesis
    using assms not_selected [OF assms(1,2)]
    by (auto simp: suppress_scheduled_for_incident_def Let_def intro!: sql_update_keeps)
next
  case (DeleteTerminal cutoff limit)
  then show ?thesis
    using assms not_selected [OF assms(1,2)] by (auto simp: delete_terminal_before_def Let_def)
qed

section \<open>Attempts are bounded\<close>

definition row_ok :: "NotificationDelivery \<Rightarrow> bool" where
  "row_ok r \<longleftrightarrow>
     unat (nd_attempt_count r) \<le> 3 \<and>
     (nd_status r = StatusScheduled \<longrightarrow> nd_attempt_count r = 0) \<and>
     (nd_status r \<in> {StatusClaimed, OutcomeUnknown} \<longrightarrow> nd_attempt_count r \<noteq> 0) \<and>
     (nd_status r = OutcomeUnknown \<longrightarrow> unat (nd_attempt_count r) < 3) \<and>
     (nd_status r = StatusClaimed \<longleftrightarrow> nd_claim_token r \<noteq> None) \<and>
     (nd_status r = StatusClaimed \<longleftrightarrow> nd_lease_expires_at_ms r \<noteq> None)"

definition ledger_ok :: "ledger \<Rightarrow> bool" where
  "ledger_ok rows \<longleftrightarrow>
     distinct (map nd_id rows) \<and> distinct (map nd_delivery_key rows) \<and> (\<forall>r \<in> set rows. row_ok r)"

text \<open>What the planner hands to the ledger: scheduled, or suppressed at once.\<close>

fun enqueues_fresh :: "ledger_call \<Rightarrow> bool" where
  "enqueues_fresh (Enqueue d) = (nd_status d \<in> {StatusScheduled, StatusSuppressed})"
| "enqueues_fresh c = True"

lemma ledger_ok_update_in:
  assumes "ledger_ok rows" "\<And>r. r \<in> set rows \<Longrightarrow> row_ok r \<Longrightarrow> P r \<Longrightarrow> row_ok (f r)"
    and "\<And>r. nd_id (f r) = nd_id r" "\<And>r. nd_delivery_key (f r) = nd_delivery_key r"
  shows "ledger_ok (fst (sql_update P f rows))"
proof -
  have "map nd_id (fst (sql_update P f rows)) = map nd_id rows"
      "map nd_delivery_key (fst (sql_update P f rows)) = map nd_delivery_key rows"
    using assms(3,4) by (simp_all add: sql_update_def)
  moreover have "\<forall>r \<in> set (fst (sql_update P f rows)). row_ok r"
    using assms(1,2) by (auto simp: ledger_ok_def sql_update_def)
  ultimately show ?thesis using assms(1) by (simp only: ledger_ok_def)
qed

lemma ledger_ok_update_held:
  assumes "ledger_ok rows" "\<And>r. row_ok r \<Longrightarrow> nd_status r = StatusClaimed \<Longrightarrow> row_ok (f r)"
    and "\<And>r. nd_id (f r) = nd_id r" "\<And>r. nd_delivery_key (f r) = nd_delivery_key r"
    and "update_held rows did token f = Inr rows'"
  shows "ledger_ok rows'"
  using ledger_ok_update_in [OF assms(1), of "held did token" f] assms(2-)
  by (auto simp: update_held_def held_def case_prod_beta split: if_splits)

lemma attempt_step:
  "unat (n :: u32) < 3 \<Longrightarrow> unat (n + 1) \<le> 3 \<and> n + 1 \<noteq> 0"
proof -
  assume "unat n < 3"
  then have "unat (n + 1) = unat n + 1" by (simp add: unat_word_ariths)
  with \<open>unat n < 3\<close> show ?thesis by auto
qed

lemma spent_iff: "worker_max_attempts \<le> n \<longleftrightarrow> 3 \<le> unat n" "(1 :: u32) \<le> n \<longleftrightarrow> 1 \<le> unat n"
  by (simp_all add: worker_max_attempts_def word_le_nat_alt)

lemma sql_first_status:
  assumes "distinct (map nd_id rows)" "r \<in> set rows" "nd_id r \<in> set (sql_first_ids P key n rows)"
  shows "P r"
  using not_selected [OF assms(1,2)] assms(3) by blast

text \<open>An update of selected ids changes only rows the selection is about.\<close>

lemma ledger_ok_update_ids:
  assumes "ledger_ok rows" "\<And>r. row_ok r \<Longrightarrow> P r \<Longrightarrow> row_ok (f r)"
    and "\<And>r. nd_id (f r) = nd_id r" "\<And>r. nd_delivery_key (f r) = nd_delivery_key r"
  shows "ledger_ok (fst (sql_update (\<lambda>r. nd_id r \<in> set (sql_first_ids P key n rows)) f rows))"
proof -
  have "distinct (map nd_id rows)" using assms(1) by (simp add: ledger_ok_def)
  from sql_first_status [OF this] show ?thesis
    using assms by (intro ledger_ok_update_in) blast+
qed

lemma schedule_ok:
  assumes "ledger_ok rows" "nd_status d \<in> {StatusScheduled, StatusSuppressed}" "schedule rows d = Inr (rows', b)"
  shows "ledger_ok rows'"
proof -
  have "row_ok (fresh_row d)" using assms(2) by (auto simp: row_ok_def fresh_row_def)
  moreover have "nd_id (fresh_row d) = nd_id d" "nd_delivery_key (fresh_row d) = nd_delivery_key d"
    by (simp_all add: fresh_row_def)
  ultimately have "ledger_ok (rows @ [fresh_row d])"
    if "\<forall>r \<in> set rows. nd_delivery_key r \<noteq> nd_delivery_key d" "\<forall>r \<in> set rows. nd_id r \<noteq> nd_id d"
    using assms(1) that by (force simp: ledger_ok_def)
  then show ?thesis using assms(1,3) by (auto simp: schedule_def split: if_splits)
qed

lemma ledger_step_ok:
  assumes "ledger_ok rows" "enqueues_fresh c"
  shows "ledger_ok (ledger_step rows c)"
proof (cases c)
  case (Enqueue d)
  then show ?thesis
    using assms schedule_ok [OF assms(1)] by (auto split: sum.split)
next
  case (Claim did token now lease)
  have "ledger_ok (fst (sql_update (\<lambda>r. nd_id r = did \<and> claimable now r)
          (\<lambda>r. r\<lparr>nd_status := StatusClaimed, nd_claim_token := Some token, nd_claimed_at_ms := Some now,
                 nd_lease_expires_at_ms := Some (now + lease),
                 nd_attempt_count := nd_attempt_count r + 1, nd_attempted_at_ms := Some now,
                 nd_retry_not_before_ms := None, nd_updated_at_ms := now\<rparr>) rows))"
  proof (rule ledger_ok_update_in [OF assms(1)])
    fix r :: NotificationDelivery
    assume "row_ok r" "nd_id r = did \<and> claimable now r"
    then have "unat (nd_attempt_count r) < 3" by (auto simp: row_ok_def claimable_def)
    from attempt_step [OF this]
    show "row_ok (r\<lparr>nd_status := StatusClaimed, nd_claim_token := Some token, nd_claimed_at_ms := Some now,
                 nd_lease_expires_at_ms := Some (now + lease),
                 nd_attempt_count := nd_attempt_count r + 1, nd_attempted_at_ms := Some now,
                 nd_retry_not_before_ms := None, nd_updated_at_ms := now\<rparr>)"
      by (simp add: row_ok_def)
  qed simp_all
  then show ?thesis using Claim assms(1) by (simp add: claim_due_def case_prod_beta)
next
  case (Delivered did token now)
  have "ledger_ok rows'" if "mark_delivered rows did token now = Inr rows'" for rows'
    using that unfolding mark_delivered_def
    by (rule ledger_ok_update_held [OF assms(1), rotated -1]) (simp_all add: row_ok_def)
  then show ?thesis using Delivered assms(1) by (auto split: sum.split)
next
  case (FailedDelivery did token code now)
  have "ledger_ok rows'" if "mark_failed rows did token code now = Inr rows'" for rows'
    using that unfolding mark_failed_def
    by (rule ledger_ok_update_held [OF assms(1), rotated -1]) (simp_all add: row_ok_def)
  then show ?thesis using FailedDelivery assms(1) by (auto split: sum.split)
next
  case (AdapterFailure did token now)
  have "ledger_ok rows'" if "mark_adapter_failure rows did token now = Inr rows'" for rows'
    using that unfolding mark_adapter_failure_def release_for_retry_def
    by (rule ledger_ok_update_held [OF assms(1), rotated -1])
       (auto simp: Let_def row_ok_def spent_iff)
  then show ?thesis using AdapterFailure assms(1) by (auto split: sum.split)
next
  case (RecoverExpired now limit)
  have "ledger_ok (fst (recover_expired rows now limit))"
    unfolding recover_expired_def expire_claims_def Let_def
    by (rule ledger_ok_update_ids [OF assms(1)])
       (auto simp: lease_expired_def Let_def row_ok_def spent_iff)
  then show ?thesis using RecoverExpired by simp
next
  case (SuppressIncident iid ep reason now limit)
  have "ledger_ok (fst (suppress_scheduled_for_incident rows iid ep reason now limit))"
    unfolding suppress_scheduled_for_incident_def Let_def
    by (rule ledger_ok_update_ids [OF assms(1)]) (auto simp: row_ok_def)
  then show ?thesis using SuppressIncident by simp
next
  case (DeleteTerminal cutoff limit)
  then show ?thesis
    using assms(1) by (auto simp: delete_terminal_before_def Let_def ledger_ok_def distinct_map_filter)
qed

lemma ledger_run_ok: "ledger_ok rows \<Longrightarrow> list_all enqueues_fresh cs \<Longrightarrow> ledger_ok (run_ops ledger_step rows cs)"
  by (induction cs arbitrary: rows) (auto intro: ledger_step_ok)

text \<open>
  The claims of a delivery that succeed in a run, and its insertions: a delivery whose row the retention
  has deleted may be scheduled again.
\<close>

fun claims_it :: "string \<Rightarrow> ledger \<Rightarrow> ledger_call \<Rightarrow> bool" where
  "claims_it did rows (Claim d token now lease) \<longleftrightarrow>
     d = did \<and> (case claim_due rows d token now lease of Inr (_, claimed) \<Rightarrow> claimed | Inl _ \<Rightarrow> False)"
| "claims_it did rows c = False"

fun inserts_it :: "string \<Rightarrow> ledger \<Rightarrow> ledger_call \<Rightarrow> bool" where
  "inserts_it did rows (Enqueue d) \<longleftrightarrow>
     nd_id d = did \<and> (case schedule rows d of Inr (_, inserted) \<Rightarrow> inserted | Inl _ \<Rightarrow> False)"
| "inserts_it did rows c = False"

fun occurrences_of :: "(ledger \<Rightarrow> ledger_call \<Rightarrow> bool) \<Rightarrow> ledger \<Rightarrow> ledger_call list \<Rightarrow> nat" where
  "occurrences_of E rows [] = 0"
| "occurrences_of E rows (c # cs) = (if E rows c then 1 else 0) + occurrences_of E (ledger_step rows c) cs"

text \<open>The claims a delivery still has.\<close>

definition claims_left :: "string \<Rightarrow> NotificationDelivery \<Rightarrow> nat" where
  "claims_left did r = (if nd_id r = did then 3 - unat (nd_attempt_count r) else 0)"

definition all_left :: "string \<Rightarrow> ledger \<Rightarrow> nat" where
  "all_left did rows = sum_list (map (claims_left did) rows)"

lemma all_left_update:
  assumes "\<And>r. r \<in> set rows \<Longrightarrow> P r \<Longrightarrow> claims_left did (f r) + k \<le> claims_left did r"
  shows "all_left did (fst (sql_update P f rows)) + k * snd (sql_update P f rows) \<le> all_left did rows"
  using assms
proof (induction rows)
  case (Cons r rows)
  then have "all_left did (fst (sql_update P f rows)) + k * snd (sql_update P f rows) \<le> all_left did rows" by simp
  then show ?case using Cons.prems [of r] by (auto simp: all_left_def sql_update_def)
qed (simp add: all_left_def sql_update_def)

lemma all_left_kept:
  "(\<And>r. claims_left did (f r) = claims_left did r) \<Longrightarrow> all_left did (fst (sql_update P f rows)) \<le> all_left did rows"
  using all_left_update [of rows P did f 0] by simp

lemma all_left_held:
  "update_held rows d token f = Inr rows' \<Longrightarrow> (\<And>r. claims_left did (f r) = claims_left did r) \<Longrightarrow>
     all_left did rows' \<le> all_left did rows"
  by (auto simp: update_held_def case_prod_beta all_left_kept split: if_splits)

lemma all_left_filter: "all_left did (filter P rows) \<le> all_left did rows"
  by (induction rows) (auto simp: all_left_def)

lemma claims_left_step:
  assumes "ledger_ok rows" "claim_due rows d token now lease = Inr (rows', b)"
  shows "(if d = did \<and> b then 1 else 0) + all_left did rows' \<le> all_left did rows"
proof -
  let ?P = "\<lambda>r. nd_id r = d \<and> claimable now r"
  let ?f = "\<lambda>r. r\<lparr>nd_status := StatusClaimed, nd_claim_token := Some token, nd_claimed_at_ms := Some now,
                 nd_lease_expires_at_ms := Some (now + lease),
                 nd_attempt_count := nd_attempt_count r + 1, nd_attempted_at_ms := Some now,
                 nd_retry_not_before_ms := None, nd_updated_at_ms := now\<rparr>"
  have u: "rows' = fst (sql_update ?P ?f rows)" "b = (snd (sql_update ?P ?f rows) = 1)"
    using assms(2) by (auto simp: claim_due_def case_prod_beta split: if_splits)
  have "claims_left did (?f r) + (if d = did then 1 else 0) \<le> claims_left did r" if "r \<in> set rows" "?P r" for r
  proof -
    have "unat (nd_attempt_count r) < 3"
      using assms(1) that by (auto simp: ledger_ok_def row_ok_def claimable_def)
    moreover from this have "unat (nd_attempt_count r + 1) = unat (nd_attempt_count r) + 1"
      by (simp add: unat_word_ariths)
    ultimately show ?thesis using that(2) by (simp add: claims_left_def) linarith
  qed
  from all_left_update [OF this] have "all_left did rows' + (if d = did then 1 else 0) * snd (sql_update ?P ?f rows)
      \<le> all_left did rows" unfolding u(1) .
  then show ?thesis using u(2) by (simp split: if_splits)
qed

lemma left_step:
  assumes "ledger_ok rows"
  shows "(if claims_it did rows c then 1 else 0) + all_left did (ledger_step rows c) \<le>
    all_left did rows + 3 * (if inserts_it did rows c then 1 else 0)"
proof (cases c)
  case (Enqueue d)
  have "claims_left did (fresh_row d) \<le> 3" "nd_id d \<noteq> did \<Longrightarrow> claims_left did (fresh_row d) = 0"
    by (simp_all add: claims_left_def fresh_row_def)
  then show ?thesis using Enqueue by (auto simp: schedule_def all_left_def)
next
  case (Claim d token now lease)
  show ?thesis
  proof (cases "claim_due rows d token now lease")
    case (Inr v)
    obtain rows' b where "v = (rows', b)" by (cases v)
    then show ?thesis using claims_left_step [OF assms, of d token now lease rows' b did] Claim Inr by simp
  qed (simp add: Claim)
next
  case (Delivered d token now)
  then show ?thesis by (auto simp: mark_delivered_def claims_left_def split: sum.split dest!: all_left_held [where did = did])
next
  case (FailedDelivery d token code now)
  then show ?thesis by (auto simp: mark_failed_def claims_left_def split: sum.split dest!: all_left_held [where did = did])
next
  case (AdapterFailure d token now)
  then show ?thesis
    by (auto simp: mark_adapter_failure_def release_for_retry_def claims_left_def Let_def split: sum.split
        dest!: all_left_held [where did = did])
next
  case (RecoverExpired now limit)
  then show ?thesis
    by (simp add: recover_expired_def expire_claims_def Let_def) (rule all_left_kept, simp add: claims_left_def)
next
  case (SuppressIncident iid ep reason now limit)
  then show ?thesis
    by (simp add: suppress_scheduled_for_incident_def Let_def) (rule all_left_kept, simp add: claims_left_def)
next
  case (DeleteTerminal cutoff limit)
  then show ?thesis by (simp add: delete_terminal_before_def Let_def all_left_filter)
qed

lemma claims_bounded:
  "ledger_ok rows \<Longrightarrow> list_all enqueues_fresh cs \<Longrightarrow>
     occurrences_of (claims_it did) rows cs \<le> all_left did rows + 3 * occurrences_of (inserts_it did) rows cs"
proof (induction cs arbitrary: rows)
  case (Cons c cs)
  have "occurrences_of (claims_it did) (ledger_step rows c) cs \<le>
      all_left did (ledger_step rows c) + 3 * occurrences_of (inserts_it did) (ledger_step rows c) cs"
    using Cons.prems by (intro Cons.IH) (simp_all add: ledger_step_ok)
  then show ?case using left_step [OF Cons.prems(1), of did c] by (auto split: if_splits)
qed simp

text \<open>
  C18: Delivery attempts are bounded. Over any sequence of ledger statements the claims of a delivery that
  succeed are at most three for every time it was inserted (a delivery inserted once is claimed, and so
  attempted, at most three times); one whose outcome is unknown has an attempt left, ids and delivery keys
  stay unique, and a row carries a token and a lease exactly while it is claimed.
\<close>
theorem delivery_attempts_bounded:
  assumes "list_all enqueues_fresh calls"
  shows "occurrences_of (claims_it did) [] calls \<le> 3 * occurrences_of (inserts_it did) [] calls \<and>
         (\<forall>r \<in> set (run_ops ledger_step [] calls).
            unat (nd_attempt_count r) \<le> 3 \<and>
            (nd_status r = OutcomeUnknown \<longrightarrow> unat (nd_attempt_count r) < 3) \<and>
            (nd_status r = StatusClaimed \<longleftrightarrow> nd_claim_token r \<noteq> None \<and> nd_lease_expires_at_ms r \<noteq> None) \<and>
            (\<forall>q \<in> set (run_ops ledger_step [] calls). nd_delivery_key q = nd_delivery_key r \<longrightarrow> q = r))"
proof -
  have empty: "ledger_ok []" by (simp add: ledger_ok_def)
  have "ledger_ok (run_ops ledger_step [] calls)" by (rule ledger_run_ok [OF empty assms])
  then show ?thesis
    using claims_bounded [OF empty assms, of did]
    by (auto simp: all_left_def ledger_ok_def row_ok_def distinct_map dest: inj_onD)
qed

section \<open>Claims and final states\<close>

lemma run_keeps_untouched:
  assumes "ledger_ok rows" "list_all enqueues_fresh cs" "r \<in> set rows" "\<forall>c \<in> set cs. \<not> touches c r"
  shows "r \<in> set (run_ops ledger_step rows cs)"
  using assms
proof (induction cs arbitrary: rows)
  case (Cons c cs)
  then have "r \<in> set (ledger_step rows c)"
    by (intro step_keeps_untouched) (auto simp: ledger_ok_def)
  moreover have "ledger_ok (ledger_step rows c)" using Cons.prems by (simp add: ledger_step_ok)
  ultimately show ?case using Cons by simp
qed simp

text \<open>The calls that may end a claim before its lease does, and the retention's deletion.\<close>

fun ends_claim :: "NotificationDelivery \<Rightarrow> ledger_call \<Rightarrow> bool" where
  "ends_claim r (Delivered did token now) \<longleftrightarrow> nd_id r = did \<and> nd_claim_token r = Some token"
| "ends_claim r (FailedDelivery did token code now) \<longleftrightarrow> nd_id r = did \<and> nd_claim_token r = Some token"
| "ends_claim r (AdapterFailure did token now) \<longleftrightarrow> nd_id r = did \<and> nd_claim_token r = Some token"
| "ends_claim r (RecoverExpired now limit) \<longleftrightarrow> (case nd_lease_expires_at_ms r of None \<Rightarrow> False | Some t \<Rightarrow> t \<le> now)"
| "ends_claim r c = False"

lemma claim_untouched: "nd_status r = StatusClaimed \<Longrightarrow> touches c r \<Longrightarrow> ends_claim r c"
  by (cases c) (auto simp: claimable_def held_def lease_expired_def)

text \<open>
  C19: A claimed delivery belongs to its claimant. Until its holder reports an outcome with the token of
  the claim, or the recovery of expired claims runs after the lease, every sequence of statements
  leaves the row as it is: in particular no other claim takes it.
\<close>
theorem claim_is_exclusive:
  assumes "list_all enqueues_fresh (before @ after)" "r \<in> set (run_ops ledger_step [] before)"
    and "nd_status r = StatusClaimed" "\<forall>c \<in> set after. \<not> ends_claim r c"
  shows "r \<in> set (run_ops ledger_step [] (before @ after))"
proof -
  have "ledger_ok (run_ops ledger_step [] before)"
    using assms(1) by (intro ledger_run_ok) (simp_all add: ledger_ok_def)
  moreover have "\<forall>c \<in> set after. \<not> touches c r" using assms(3,4) claim_untouched by blast
  ultimately show ?thesis
    using assms(1,2) run_keeps_untouched by (simp add: run_ops_append)
qed

text \<open>
  A finished delivery is final. Whatever statements run, a row that is delivered, failed or
  suppressed stays as it is until the retention deletes it: nothing is delivered a second time.
\<close>
theorem delivery_final:
  assumes "list_all enqueues_fresh (before @ after)" "r \<in> set (run_ops ledger_step [] before)"
    and "nd_status r \<in> {StatusDelivered, StatusFailed, StatusSuppressed}"
    and "\<forall>cutoff limit. DeleteTerminal cutoff limit \<notin> set after"
  shows "r \<in> set (run_ops ledger_step [] (before @ after))"
proof -
  have "ledger_ok (run_ops ledger_step [] before)"
    using assms(1) by (intro ledger_run_ok) (simp_all add: ledger_ok_def)
  moreover have "\<forall>c \<in> set after. \<not> touches c r"
  proof
    fix c assume "c \<in> set after"
    with assms(4) have "\<nexists>cutoff limit. c = DeleteTerminal cutoff limit" by blast
    then show "\<not> touches c r"
      using assms(3) by (cases c) (auto simp: claimable_def held_def lease_expired_def)
  qed
  ultimately show ?thesis
    using assms(1,2) run_keeps_untouched by (simp add: run_ops_append)
qed

definition sample_delivery :: NotificationDelivery where
  "sample_delivery =
     \<lparr>nd_id = ''d'', nd_delivery_key = ''k'', nd_incident_id = ''i'', nd_episode_number = 1,
      nd_delivery_sequence = 1, nd_policy_id = None, nd_policy_revision = None,
      nd_policy_snapshot_json = ''{}'', nd_channel = InApp, nd_delivery_kind = KindOpened,
      nd_status = StatusScheduled, nd_scheduled_at_ms = 0, nd_claim_token = None,
      nd_claimed_at_ms = None, nd_lease_expires_at_ms = None, nd_attempt_count = 0,
      nd_attempted_at_ms = None, nd_outcome_unknown_at_ms = None, nd_retry_not_before_ms = None,
      nd_delivered_at_ms = None, nd_suppressed_reason = None, nd_error_code = None,
      nd_created_at_ms = 0, nd_updated_at_ms = 0\<rparr>"

definition claimed_delivery :: NotificationDelivery where
  "claimed_delivery =
     sample_delivery\<lparr>nd_status := StatusClaimed, nd_claim_token := Some ''t'', nd_claimed_at_ms := Some 5,
       nd_lease_expires_at_ms := Some 30005, nd_attempt_count := 1, nd_attempted_at_ms := Some 5,
       nd_updated_at_ms := 5\<rparr>"

lemma claimed_run: "run_ops ledger_step [] [Enqueue sample_delivery, Claim ''d'' ''t'' 5 30000] = [claimed_delivery]"
  by (simp add: sample_delivery_def claimed_delivery_def schedule_def fresh_row_def claim_due_def
      sql_update_def claimable_def)

text \<open>An adapter that always fails: the fourth claim finds the delivery failed.\<close>

definition failing_calls :: "ledger_call list" where
  "failing_calls =
     [Enqueue sample_delivery, Claim ''d'' ''t'' 5 30000, AdapterFailure ''d'' ''t'' 6,
      Claim ''d'' ''u'' 2000 30000, AdapterFailure ''d'' ''u'' 2001,
      Claim ''d'' ''v'' 9000 30000, AdapterFailure ''d'' ''v'' 9001, Claim ''d'' ''w'' 20000 30000]"

theorem delivery_attempts_bounded_witness:
  "occurrences_of (claims_it ''d'') [] failing_calls = 3 \<and> occurrences_of (inserts_it ''d'') [] failing_calls = 1 \<and>
   occurrences_of (claims_it ''d'') [] failing_calls \<le> 3 * occurrences_of (inserts_it ''d'') [] failing_calls"
proof -
  have "list_all enqueues_fresh failing_calls" by (simp add: failing_calls_def sample_delivery_def)
  moreover have "occurrences_of (claims_it ''d'') [] failing_calls = 3"
      "occurrences_of (inserts_it ''d'') [] failing_calls = 1" by code_simp+
  ultimately show ?thesis using delivery_attempts_bounded [of failing_calls "''d''"] by blast
qed

text \<open>A second worker that claims, reports and recovers too early changes nothing.\<close>

theorem claim_is_exclusive_witness:
  "claimed_delivery \<in> set (run_ops ledger_step []
     ([Enqueue sample_delivery, Claim ''d'' ''t'' 5 30000] @
      [Claim ''d'' ''u'' 6 30000, Delivered ''d'' ''u'' 7, RecoverExpired 8 50]))"
proof (rule claim_is_exclusive)
  show "claimed_delivery \<in> set (run_ops ledger_step [] [Enqueue sample_delivery, Claim ''d'' ''t'' 5 30000])"
    unfolding claimed_run by simp
qed (simp_all add: sample_delivery_def claimed_delivery_def held_def lease_expired_def)

theorem delivery_final_witness:
  "sample_delivery\<lparr>nd_status := StatusSuppressed\<rparr> \<in> set (run_ops ledger_step []
     ([Enqueue (sample_delivery\<lparr>nd_status := StatusSuppressed\<rparr>)] @ [Claim ''d'' ''t'' 5 30000]))"
  by (rule delivery_final) (simp_all add: sample_delivery_def schedule_def fresh_row_def)

end
