(* ===== verification/AlertCorrect.thy ===== *)
theory AlertCorrect
  imports AlertRuntime IncidentCorrect LedgerCorrect
begin

text \<open>
  Correctness of the alerting transactions: the database stays consistent over every sequence of them,
  an observation is recorded once, retention keeps what is active, and what the interaction of ingress,
  reconciliation and cleanup does to incidents and notifications.
\<close>

section \<open>One transaction, taken apart\<close>

lemma tx_bind_Inr_iff: "tx_bind r f = Done (Inr y) \<longleftrightarrow> (\<exists>x. r = Done (Inr x) \<and> f x = Done (Inr y))"
  by (cases r) (auto simp: tx_bind_def split: sum.splits)

text \<open>
  A successful projection goes through these states: \<open>i\<close> is the reduced incident, \<open>db1\<close> the database
  with its row, \<open>db2\<close> with its attention row, \<open>db3\<close> with the notifications.
\<close>

lemma project_condition_split:
  assumes "project_condition env db x cleanup = Done (Inr db')"
    and "p = resolve_policy (policy_list db) (match_context x)"
  obtains settings loaded i t db1 db2 planned db3 where
    "load_settings env db = Inr settings"
    "load_for_write db (ig_condition_key x) = Inr loaded"
    "project_observation x p (loaded_incident x p loaded) = Inr (i, t)"
    "store_incident env db (in_version (loaded_incident x p loaded)) i = Inr db1"
    "attention_ensure db1 (in_id i) (in_episode_number i) (ig_observed_at_ms x) = Inr db2"
    "planned_deliveries env x p settings i t = Done planned"
    "deliver_all env (ig_observed_at_ms x)
       (link_occurrence db2 (oc_id (occurrence_of x)) (in_id i) (in_episode_number i)) planned = Inr db3"
    "recovery_cleanup cleanup settings t i db3 = Inr db'"
  using assms by (auto simp: project_condition_def Let_def tx_bind_Inr_iff run_bind_Done_iff)

lemma record_split:
  assumes "record_in_session env db x cleanup = Done (Inr (db', inserted))"
  obtains
    (duplicate) "db' = db" "\<not> inserted" "ingress_validate env x = Inr ()"
      "insert_ignore env db (occurrence_of x) = Inr (db, False)"
  | (audit) "inserted" "ig_kind x = Change" "ingress_validate env x = Inr ()"
      "insert_ignore env db (occurrence_of x) = Inr (db', True)"
  | (condition) db1 where "inserted" "ig_kind x \<noteq> Change" "ingress_validate env x = Inr ()"
      "insert_ignore env db (occurrence_of x) = Inr (db1, True)"
      "project_condition env db1 x cleanup = Done (Inr db')"
proof -
  from assms obtain db1 b where v: "ingress_validate env x = Inr ()"
      and ins: "insert_ignore env db (occurrence_of x) = Inr (db1, b)"
      and rest: "(if \<not> b then tx (Inr (db1, False))
             else if ig_kind x \<noteq> Change
             then tx_bind (project_condition env db1 x cleanup) (\<lambda>db2. tx (Inr (db2, True)))
             else tx (Inr (db1, True))) = Done (Inr (db', inserted))"
    by (auto simp: record_in_session_def tx_bind_Inr_iff)
  have "\<not> b \<Longrightarrow> db1 = db" using ins by (auto simp: insert_ignore_def split: if_splits)
  then show thesis
    using rest ins v duplicate audit condition
    by (cases b; cases "ig_kind x = Change") (auto simp: tx_bind_Inr_iff)
qed

section \<open>Consistency of the database\<close>

text \<open>What the rows of the other tables refer to: the ids of the stations, of their keys and of the policies.\<close>

type_synonym referents = "string set \<times> string set \<times> string set"

definition referents :: "AlertDb \<Rightarrow> referents" where
  "referents db = (set (db_stations db), fst ` set (db_station_keys db), ap_id ` set (db_policies db))"

definition assets_exist :: "referents \<Rightarrow> string option \<Rightarrow> string option \<Rightarrow> bool" where
  "assets_exist w st key \<longleftrightarrow> set_option st \<subseteq> fst w \<and> set_option key \<subseteq> fst (snd w)"

definition policy_exists :: "referents \<Rightarrow> string option \<Rightarrow> bool" where
  "policy_exists w p \<longleftrightarrow> set_option p \<subseteq> snd (snd w)"

definition incidents_ok :: "referents \<Rightarrow> Incident list \<Rightarrow> bool" where
  "incidents_ok w incs \<longleftrightarrow>
     distinct (map in_id incs) \<and>
     (\<forall>i \<in> set incs. incident_ok i \<and> in_id i = ''incident-'' @ in_condition_key i \<and>
                   assets_exist w (in_station_id i) (in_station_key_id i) \<and> policy_exists w (in_policy_id i))"

definition occurrences_ok :: "referents \<Rightarrow> Incident list \<Rightarrow> OccurrenceRow list \<Rightarrow> bool" where
  "occurrences_ok w incs os \<longleftrightarrow>
     distinct (map oc_source_observation_key os) \<and> distinct (map oc_id os) \<and>
     (\<forall>oc \<in> set os. set_option (oc_incident_id oc) \<subseteq> in_id ` set incs \<and>
                    assets_exist w (oc_station_id oc) (oc_station_key_id oc))"

definition attention_ok :: "Incident list \<Rightarrow> IncidentAttention list \<Rightarrow> bool" where
  "attention_ok incs as \<longleftrightarrow>
     distinct (map (\<lambda>a. (at_incident_id a, at_episode_number a)) as) \<and>
     (\<forall>a \<in> set as. at_incident_id a \<in> in_id ` set incs)"

text \<open>What a delivery delivers, and that its key says so.\<close>

definition identity ::
    "NotificationDelivery \<Rightarrow> string \<times> u32 \<times> NotificationChannel \<times> DeliveryKind \<times> u64 \<times> string \<times> string option" where
  "identity d =
     (nd_incident_id d, nd_episode_number d, nd_channel d, nd_delivery_kind d, nd_delivery_sequence d,
      nd_delivery_key d, nd_policy_id d)"

definition proper_key ::
    "string \<times> u32 \<times> NotificationChannel \<times> DeliveryKind \<times> u64 \<times> string \<times> string option \<Rightarrow> bool" where
  "proper_key v = (case v of (iid, ep, ch, k, sq, key, p) \<Rightarrow> key = make_delivery_key iid ep ch k sq)"

definition deliveries_ok :: "referents \<Rightarrow> Incident list \<Rightarrow> ledger \<Rightarrow> bool" where
  "deliveries_ok w incs ds \<longleftrightarrow>
     ledger_ok ds \<and>
     (\<forall>d \<in> set ds. nd_incident_id d \<in> in_id ` set incs \<and> policy_exists w (nd_policy_id d) \<and> proper_key (identity d))"

definition db_ok :: "AlertDb \<Rightarrow> bool" where
  "db_ok db \<longleftrightarrow>
     distinct (map ap_id (db_policies db)) \<and>
     incidents_ok (referents db) (db_incidents db) \<and>
     occurrences_ok (referents db) (db_incidents db) (db_occurrences db) \<and>
     attention_ok (db_incidents db) (db_attention db) \<and>
     deliveries_ok (referents db) (db_incidents db) (db_deliveries db)"

lemma referents_simps [simp]:
  "referents (db\<lparr>db_incidents := a\<rparr>) = referents db"
  "referents (db\<lparr>db_occurrences := b\<rparr>) = referents db"
  "referents (db\<lparr>db_attention := c\<rparr>) = referents db"
  "referents (db\<lparr>db_deliveries := d\<rparr>) = referents db"
  "referents (db\<lparr>db_settings_json := e\<rparr>) = referents db"
  by (simp_all add: referents_def)

lemma refers_set: "refers v xs \<longleftrightarrow> set_option v \<subseteq> set xs"
  by (cases v) (auto simp: refers_def)

text \<open>The foreign keys the statements check are those the tables promise.\<close>

lemma incident_refers_exist:
  "incident_refers db i \<longleftrightarrow>
     assets_exist (referents db) (in_station_id i) (in_station_key_id i) \<and> policy_exists (referents db) (in_policy_id i)"
  by (simp add: incident_refers_def refers_set assets_exist_def policy_exists_def referents_def)

text \<open>More incidents keep the other tables consistent.\<close>

lemma occurrences_ok_mono:
  "occurrences_ok w incs os \<Longrightarrow> in_id ` set incs \<subseteq> in_id ` set incs' \<Longrightarrow> occurrences_ok w incs' os"
  unfolding occurrences_ok_def by (meson subset_trans)

lemma attention_ok_mono: "attention_ok incs as \<Longrightarrow> in_id ` set incs \<subseteq> in_id ` set incs' \<Longrightarrow> attention_ok incs' as"
  by (auto simp: attention_ok_def)

lemma deliveries_ok_mono: "deliveries_ok w incs ds \<Longrightarrow> in_id ` set incs \<subseteq> in_id ` set incs' \<Longrightarrow> deliveries_ok w incs' ds"
  by (auto simp: deliveries_ok_def)

lemmas tables_mono = occurrences_ok_mono attention_ok_mono deliveries_ok_mono

lemma db_ok_more_incidents:
  assumes "db_ok db" "incidents_ok (referents db) incs" "in_id ` set (db_incidents db) \<subseteq> in_id ` set incs"
  shows "db_ok (db\<lparr>db_incidents := incs\<rparr>)"
  using assms by (auto simp: db_ok_def intro: tables_mono)

subsection \<open>Statements on the ledger\<close>

lemma sql_update_member: "r \<in> set (fst (sql_update P f rows)) \<Longrightarrow> \<exists>q \<in> set rows. r = (if P q then f q else q)"
  by (auto simp: sql_update_def)

lemma update_identity:
  "r \<in> set (fst (sql_update P f rows)) \<Longrightarrow> (\<And>q. identity (f q) = identity q) \<Longrightarrow>
     \<exists>q \<in> set rows. identity r = identity q"
  using sql_update_member [of r P f rows] by auto

lemma update_held_identity:
  "update_held rows did token f = Inr rows' \<Longrightarrow> r \<in> set rows' \<Longrightarrow> (\<And>q. identity (f q) = identity q) \<Longrightarrow>
     \<exists>q \<in> set rows. identity r = identity q"
  by (auto simp: update_held_def case_prod_beta split: if_splits dest!: update_identity)

fun enqueues :: "ledger_call \<Rightarrow> bool" where
  "enqueues (Enqueue d) = True"
| "enqueues c = False"

lemma ledger_step_identity:
  assumes "\<not> enqueues c" "r \<in> set (ledger_step rows c)"
  shows "\<exists>q \<in> set rows. identity r = identity q"
proof (cases c)
  case (Enqueue d)
  with assms(1) show ?thesis by simp
next
  case (Claim did token now lease)
  with assms(2) show ?thesis
    by (auto simp: claim_due_def case_prod_beta identity_def split: if_splits dest!: update_identity)
next
  case (Delivered did token now)
  with assms(2) show ?thesis
    by (auto simp: mark_delivered_def identity_def split: sum.splits dest!: update_held_identity)
next
  case (FailedDelivery did token code now)
  with assms(2) show ?thesis
    by (auto simp: mark_failed_def identity_def split: sum.splits dest!: update_held_identity)
next
  case (AdapterFailure did token now)
  with assms(2) show ?thesis
    by (auto simp: mark_adapter_failure_def release_for_retry_def identity_def Let_def
        split: sum.splits dest!: update_held_identity)
next
  case (RecoverExpired now limit)
  with assms(2) show ?thesis
    by (auto simp: recover_expired_def expire_claims_def identity_def Let_def dest!: update_identity)
next
  case (SuppressIncident iid ep reason now limit)
  with assms(2) show ?thesis
    by (auto simp: suppress_scheduled_for_incident_def identity_def Let_def dest!: update_identity)
next
  case (DeleteTerminal cutoff limit)
  with assms(2) show ?thesis by (auto simp: delete_terminal_before_def Let_def)
qed

lemma enqueues_fresh_other: "\<not> enqueues c \<Longrightarrow> enqueues_fresh c"
  by (cases c) simp_all

lemma identity_row:
  "identity r = identity q \<Longrightarrow> nd_incident_id r = nd_incident_id q \<and> nd_policy_id r = nd_policy_id q"
  by (simp add: identity_def)

lemma deliveries_ok_step: "deliveries_ok w incs ds \<Longrightarrow> \<not> enqueues c \<Longrightarrow> deliveries_ok w incs (ledger_step ds c)"
proof -
  assume ds: "deliveries_ok w incs ds" and c: "\<not> enqueues c"
  have "nd_incident_id r \<in> in_id ` set incs \<and> policy_exists w (nd_policy_id r) \<and> proper_key (identity r)"
    if r: "r \<in> set (ledger_step ds c)" for r
  proof -
    obtain q where q: "q \<in> set ds" "identity r = identity q" using ledger_step_identity [OF c r] by blast
    then show ?thesis using ds identity_row [OF q(2)] by (auto simp: deliveries_ok_def)
  qed
  then show ?thesis
    using ds c ledger_step_ok enqueues_fresh_other by (auto simp: deliveries_ok_def)
qed

lemma db_ok_deliveries:
  "db_ok db \<Longrightarrow> deliveries_ok (referents db) (db_incidents db) ds \<Longrightarrow> db_ok (db\<lparr>db_deliveries := ds\<rparr>)"
  by (simp add: db_ok_def)

lemma db_ok_ledger_step: "db_ok db \<Longrightarrow> \<not> enqueues c \<Longrightarrow> db_ok (db\<lparr>db_deliveries := ledger_step (db_deliveries db) c\<rparr>)"
  by (intro db_ok_deliveries deliveries_ok_step) (simp_all add: db_ok_def)

subsection \<open>Statements on incidents and occurrences\<close>

lemma insert_ignore_new:
  assumes "insert_ignore env db oc = Inr (db1, True)"
  shows "db1 = db\<lparr>db_occurrences := db_occurrences db @ [oc]\<rparr>"
    and "oc_source_observation_key oc \<notin> oc_source_observation_key ` set (db_occurrences db)"
    and "oc_id oc \<notin> oc_id ` set (db_occurrences db)"
    and "occurrence_checks env oc"
    and "assets_exist (referents db) (oc_station_id oc) (oc_station_key_id oc)"
  using assms by (auto simp: insert_ignore_def refers_set assets_exist_def referents_def split: if_splits)

lemma insert_ignore_ok:
  "db_ok db \<Longrightarrow> oc_incident_id oc = None \<Longrightarrow> insert_ignore env db oc = Inr (db1, True) \<Longrightarrow> db_ok db1"
  using insert_ignore_new [of env db oc db1]
  by (auto simp: db_ok_def occurrences_ok_def)

text \<open>The row of an incident after it is written: the columns the update leaves come from the old row.\<close>

definition row_of :: "Incident \<Rightarrow> Incident \<Rightarrow> bool" where
  "row_of i r \<longleftrightarrow>
     in_id r = in_id i \<and> in_severity r = in_severity i \<and> in_lifecycle_state r = in_lifecycle_state i \<and>
     in_lifecycle_policy_fingerprint r = in_lifecycle_policy_fingerprint i \<and>
     in_episode_number r = in_episode_number i \<and> in_policy_id r = in_policy_id i"

lemma written_row_simps [simp]:
  "incident_ok (written_row i r) = incident_ok i"
  "in_id (written_row i r) = in_id r"
  "in_condition_key (written_row i r) = in_condition_key r"
  "in_policy_id (written_row i r) = in_policy_id i"
  "in_station_id (written_row i r) = in_station_id i"
  "in_station_key_id (written_row i r) = in_station_key_id i"
  by (cases "in_lifecycle_state i") (simp_all add: written_row_def incident_ok_def)

lemma update_snapshot_ok:
  assumes "db_ok db" "incident_ok i" "update_snapshot_cas env db i v = Inr db1"
  obtains incs where "db1 = db\<lparr>db_incidents := incs\<rparr>" "incidents_ok (referents db) incs"
    "map in_id incs = map in_id (db_incidents db)" "\<exists>r \<in> set incs. row_of i r"
proof
  let ?P = "\<lambda>r. in_id r = in_id i \<and> in_version r = v"
  let ?incs = "map (\<lambda>r. if ?P r then written_row i r else r) (db_incidents db)"
  have one: "length (filter ?P (db_incidents db)) = 1" and refs: "incident_refers db i"
      and db1: "db1 = db\<lparr>db_incidents := ?incs\<rparr>"
    using assms(3) by (auto simp: update_snapshot_cas_def sql_update_def split: if_splits)
  then show "db1 = db\<lparr>db_incidents := ?incs\<rparr>" by simp
  show ids: "map in_id ?incs = map in_id (db_incidents db)" by simp
  have "\<forall>j \<in> set ?incs. incident_ok j \<and> in_id j = ''incident-'' @ in_condition_key j \<and>
            assets_exist (referents db) (in_station_id j) (in_station_key_id j) \<and>
        policy_exists (referents db) (in_policy_id j)"
  proof
    fix j assume "j \<in> set ?incs"
    then obtain r where r: "r \<in> set (db_incidents db)" "j = (if ?P r then written_row i r else r)" by auto
    then have "incident_ok r \<and> in_id r = ''incident-'' @ in_condition_key r \<and>
        assets_exist (referents db) (in_station_id r) (in_station_key_id r) \<and>
        policy_exists (referents db) (in_policy_id r)"
      using assms(1) by (simp only: db_ok_def incidents_ok_def)
    then show "incident_ok j \<and> in_id j = ''incident-'' @ in_condition_key j \<and>
        assets_exist (referents db) (in_station_id j) (in_station_key_id j) \<and>
        policy_exists (referents db) (in_policy_id j)"
      using r(2) assms(2) refs by (cases "?P r") (simp_all add: incident_refers_exist)
  qed
  moreover have "distinct (map in_id ?incs)"
    unfolding ids using assms(1) by (simp add: db_ok_def incidents_ok_def)
  ultimately show "incidents_ok (referents db) ?incs" unfolding incidents_ok_def by blast
  from one obtain r where "r \<in> set (db_incidents db)" "?P r"
  proof -
    have "filter ?P (db_incidents db) \<noteq> []" using one by force
    then show thesis using that by (auto simp: filter_empty_conv)
  qed
  then have "written_row i r \<in> set ?incs" "row_of i (written_row i r)"
    by (auto simp: row_of_def written_row_def)
  then show "\<exists>r \<in> set ?incs. row_of i r" by blast
qed

lemma store_incident_ok:
  assumes "db_ok db" "incident_ok i" "in_id i = ''incident-'' @ in_condition_key i"
    and "store_incident env db v i = Inr db1"
  obtains incs where "db1 = db\<lparr>db_incidents := incs\<rparr>" "incidents_ok (referents db) incs"
    "in_id ` set (db_incidents db) \<subseteq> in_id ` set incs" "\<exists>r \<in> set incs. row_of i r"
proof (cases "v = 0")
  case True
  then have ins: "db1 = db\<lparr>db_incidents := db_incidents db @ [i]\<rparr>" "incident_refers db i"
      "in_id i \<notin> in_id ` set (db_incidents db)"
    using assms(4) by (auto simp: store_incident_def insert_snapshot_def split: if_splits)
  have "incidents_ok (referents db) (db_incidents db @ [i])"
    using assms(1-3) ins(2,3) by (auto simp: db_ok_def incidents_ok_def incident_refers_exist)
  with ins show thesis by (intro that [of "db_incidents db @ [i]"]) (auto simp: row_of_def)
next
  case False
  then have "update_snapshot_cas env db i v = Inr db1" using assms(4) by (simp add: store_incident_def)
  from update_snapshot_ok [OF assms(1,2) this] obtain incs where incs:
    "db1 = db\<lparr>db_incidents := incs\<rparr>" "incidents_ok (referents db) incs"
    "map in_id incs = map in_id (db_incidents db)" "\<exists>r \<in> set incs. row_of i r" by blast
  have "in_id ` set incs = in_id ` set (db_incidents db)" using incs(3) by (metis set_map)
  with incs show thesis by (intro that) auto
qed

lemma attention_ensure_only:
  "attention_ensure db iid ep now = Inr db1 \<Longrightarrow> db1 = db\<lparr>db_attention := db_attention db1\<rparr>"
  by (auto simp: attention_ensure_def split: if_splits)

lemma attention_ensure_ok:
  assumes "db_ok db" "attention_ensure db iid ep now = Inr db1"
  shows "db_ok db1"
proof (cases "\<exists>a \<in> set (db_attention db). of_episode iid ep a")
  case True
  then show ?thesis using assms by (auto simp: attention_ensure_def split: if_splits)
next
  case False
  let ?a = "\<lparr>at_incident_id = iid, at_episode_number = ep, at_seen_at_ms = None,
             at_snoozed_until_ms = None, at_updated_at_ms = now\<rparr>"
  have db1: "db1 = db\<lparr>db_attention := db_attention db @ [?a]\<rparr>" "iid \<in> in_id ` set (db_incidents db)"
    using False assms(2) by (auto simp: attention_ensure_def split: if_splits)
  have "(iid, ep) \<notin> (\<lambda>a. (at_incident_id a, at_episode_number a)) ` set (db_attention db)"
    using False by (auto simp: of_episode_def)
  then have "attention_ok (db_incidents db) (db_attention db @ [?a])"
    using assms(1) db1(2) by (simp add: db_ok_def attention_ok_def)
  then show ?thesis using assms(1) by (simp add: db1(1) db_ok_def)
qed

lemma occurrences_ok_map:
  assumes "occurrences_ok w incs os" "\<And>oc. oc_source_observation_key (f oc) = oc_source_observation_key oc"
    and "\<And>oc. oc_id (f oc) = oc_id oc"
    and "\<And>oc. oc \<in> set os \<Longrightarrow> set_option (oc_incident_id (f oc)) \<subseteq> in_id ` set incs' \<and>
               assets_exist w' (oc_station_id (f oc)) (oc_station_key_id (f oc))"
  shows "occurrences_ok w' incs' (map f os)"
proof -
  have "map oc_source_observation_key (map f os) = map oc_source_observation_key os"
      "map oc_id (map f os) = map oc_id os" using assms(2,3) by simp_all
  then have "distinct (map oc_source_observation_key (map f os))" "distinct (map oc_id (map f os))"
    using assms(1) by (simp_all only: occurrences_ok_def)
  then show ?thesis using assms(4) by (simp add: occurrences_ok_def)
qed

lemma link_occurrence_keys [simp]:
  "map oc_source_observation_key (db_occurrences (link_occurrence db oid iid ep)) =
     map oc_source_observation_key (db_occurrences db)"
  by (simp add: link_occurrence_def sql_update_def)

lemma link_occurrence_ok:
  assumes "db_ok db" "iid \<in> in_id ` set (db_incidents db)"
  shows "db_ok (link_occurrence db oid iid ep)"
proof -
  have os: "occurrences_ok (referents db) (db_incidents db) (db_occurrences db)" using assms(1) by (simp add: db_ok_def)
  have "occurrences_ok (referents db) (db_incidents db) (db_occurrences (link_occurrence db oid iid ep))"
    unfolding link_occurrence_def sql_update_def using assms(2) os
    by (simp, intro occurrences_ok_map [OF os]) (auto simp: occurrences_ok_def)
  then show ?thesis using assms(1) by (simp add: db_ok_def link_occurrence_def)
qed

text \<open>Deleting incidents takes everything that refers to them along.\<close>

lemma delete_incidents_ok:
  assumes "db_ok db"
  shows "db_ok (delete_incidents db ids)"
proof -
  have os: "occurrences_ok (referents db) (db_incidents db) (db_occurrences db)" using assms(1) by (simp add: db_ok_def)
  have w: "referents (delete_incidents db ids) = referents db" by (simp add: delete_incidents_def referents_def)
  have "occurrences_ok (referents db) (db_incidents (delete_incidents db ids)) (db_occurrences (delete_incidents db ids))"
    unfolding delete_incidents_def
  proof (simp, rule occurrences_ok_map [OF os])
    fix oc assume "oc \<in> set (db_occurrences db)"
    then have "set_option (oc_incident_id oc) \<subseteq> in_id ` set (db_incidents db)"
        "assets_exist (referents db) (oc_station_id oc) (oc_station_key_id oc)" using os by (simp_all add: occurrences_ok_def)
    then show "set_option
        (oc_incident_id (if case oc_incident_id oc of None \<Rightarrow> False | Some i \<Rightarrow> i \<in> ids
                         then oc\<lparr>oc_incident_id := None\<rparr> else oc)) \<subseteq> in_id ` set (filter (\<lambda>i. in_id i \<notin> ids) (db_incidents db)) \<and>
        assets_exist (referents db)
         (oc_station_id (if case oc_incident_id oc of None \<Rightarrow> False | Some i \<Rightarrow> i \<in> ids
                         then oc\<lparr>oc_incident_id := None\<rparr> else oc))
         (oc_station_key_id (if case oc_incident_id oc of None \<Rightarrow> False | Some i \<Rightarrow> i \<in> ids
                             then oc\<lparr>oc_incident_id := None\<rparr> else oc))"
      by (cases "oc_incident_id oc") auto
  qed simp_all
  moreover have "ledger_ok (db_deliveries (delete_incidents db ids))"
    using assms by (auto simp: db_ok_def deliveries_ok_def ledger_ok_def delete_incidents_def distinct_map_filter)
  ultimately show ?thesis
    using assms unfolding db_ok_def w
    by (auto simp: incidents_ok_def attention_ok_def deliveries_ok_def delete_incidents_def distinct_map_filter)
qed

subsection \<open>The projection\<close>

lemma apply_abnormal_keeps [simp]:
  "in_id (fst (apply_abnormal i at mode cnt dur)) = in_id i"
  "in_condition_key (fst (apply_abnormal i at mode cnt dur)) = in_condition_key i"
  "in_severity (fst (apply_abnormal i at mode cnt dur)) = in_severity i"
  "in_lifecycle_policy_fingerprint (fst (apply_abnormal i at mode cnt dur)) = in_lifecycle_policy_fingerprint i"
  "in_policy_id (fst (apply_abnormal i at mode cnt dur)) = in_policy_id i"
  by (cases "in_lifecycle_state i"; simp add: apply_abnormal_def maybe_open_def Let_def)+

lemma apply_healthy_keeps [simp]:
  "in_id (fst (apply_healthy i at mode cnt dur)) = in_id i"
  "in_condition_key (fst (apply_healthy i at mode cnt dur)) = in_condition_key i"
  "in_severity (fst (apply_healthy i at mode cnt dur)) = in_severity i"
  "in_lifecycle_policy_fingerprint (fst (apply_healthy i at mode cnt dur)) = in_lifecycle_policy_fingerprint i"
  "in_policy_id (fst (apply_healthy i at mode cnt dur)) = in_policy_id i"
  by (cases "in_lifecycle_state i"; simp add: apply_healthy_def Let_def)+

lemma project_keeps:
  assumes "project i ob p = (j, Inr t)"
  shows "in_id j = in_id i" "in_condition_key j = in_condition_key i" "in_severity j = ob_severity ob"
    "in_lifecycle_policy_fingerprint j = in_lifecycle_policy_fingerprint i" "in_policy_id j = in_policy_id i"
proof -
  have fresh: "ob_observed_at_ms ob \<le> ob_fact_fresh_until_ms ob" "in_last_seen_at_ms i \<le> ob_observed_at_ms ob"
    using assms by (auto simp: project_def split: if_splits)
  have j: "j = fst (case ob_kind ob of
                 Abnormal \<Rightarrow> apply_abnormal (observe_fact i ob) (ob_observed_at_ms ob)
                    (ap_trigger_mode p) (ap_trigger_count p) (ap_trigger_duration_seconds p)
               | Healthy \<Rightarrow> apply_healthy (observe_fact i ob) (ob_observed_at_ms ob)
                    (ap_recovery_mode p) (ap_recovery_count p) (ap_recovery_duration_seconds p)
               | Change \<Rightarrow> (observe_fact i ob, NoTransition))"
    using assms by (simp add: project_fresh [OF fresh] Let_def)
  show "in_id j = in_id i" "in_condition_key j = in_condition_key i" "in_severity j = ob_severity ob"
    "in_lifecycle_policy_fingerprint j = in_lifecycle_policy_fingerprint i" "in_policy_id j = in_policy_id i"
    unfolding j by (cases "ob_kind ob"; simp add: observe_fact_def)+
qed

lemma prepare_incident_ok: "incident_ok (prepare_incident x p i) = incident_ok i"
  by (cases "in_lifecycle_state i") (simp_all add: prepare_incident_def incident_ok_def)

lemma prepare_incident_keeps [simp]:
  "in_id (prepare_incident x p i) = in_id i"
  "in_condition_key (prepare_incident x p i) = in_condition_key i"
  "in_lifecycle_state (prepare_incident x p i) = in_lifecycle_state i"
  "in_lifecycle_policy_fingerprint (prepare_incident x p i) = profile_fingerprint p"
  "in_policy_id (prepare_incident x p i) = (if ap_id p \<noteq> ''system_default'' then Some (ap_id p) else None)"
  by (simp_all add: prepare_incident_def)

lemma version_ok: "incident_ok (i\<lparr>in_version := v\<rparr>) = incident_ok i"
  by (cases "in_lifecycle_state i") (simp_all add: incident_ok_def)

text \<open>What a projected observation leaves in the incident.\<close>

lemma project_observation_row:
  assumes "project_observation x p i0 = Inr (i, t)"
  shows "in_id i = in_id i0" "in_condition_key i = in_condition_key i0" "in_severity i = ig_severity x"
    "in_lifecycle_policy_fingerprint i = profile_fingerprint p"
    "in_policy_id i = (if ap_id p \<noteq> ''system_default'' then Some (ap_id p) else None)"
    "incident_ok i0 \<Longrightarrow> incident_ok i"
proof -
  obtain j where pr: "project (prepare_incident x p i0) (observation_of x) p = (j, Inr t)"
      and i: "i = j \<or> i = j\<lparr>in_version := 1\<rparr>"
    using assms by (auto simp: project_observation_def split: prod.splits sum.splits if_splits)
  show "in_id i = in_id i0" "in_condition_key i = in_condition_key i0" "in_severity i = ig_severity x"
    "in_lifecycle_policy_fingerprint i = profile_fingerprint p"
    "in_policy_id i = (if ap_id p \<noteq> ''system_default'' then Some (ap_id p) else None)"
    using project_keeps [OF pr] i by (auto simp: observation_of_def)
  assume "incident_ok i0"
  then have "incident_ok (fst (project (prepare_incident x p i0) (observation_of x) p))"
    by (intro project_ok) (simp add: prepare_incident_ok)
  then show "incident_ok i" using pr i by (auto simp: version_ok)
qed

lemma loaded_incident_ok:
  assumes "db_ok db" "load_for_write db (ig_condition_key x) = Inr loaded"
  shows "incident_ok (loaded_incident x p loaded)"
    "in_id (loaded_incident x p loaded) = ''incident-'' @ ig_condition_key x"
    "in_condition_key (loaded_incident x p loaded) = ig_condition_key x"
proof -
  have "incident_ok (loaded_incident x p loaded) \<and>
      in_id (loaded_incident x p loaded) = ''incident-'' @ ig_condition_key x \<and>
      in_condition_key (loaded_incident x p loaded) = ig_condition_key x"
  proof (cases loaded)
    case None
    then show ?thesis by (simp add: loaded_incident_def fresh_incident_def incident_new_ok)
       (simp add: incident_new_def)
  next
    case (Some i)
    then have "i \<in> set (db_incidents db) \<and> in_condition_key i = ig_condition_key x"
      using assms(2) by (auto simp: load_for_write_def split: option.splits sum.splits dest: find_Some_in_set)
    then show ?thesis using assms(1) Some unfolding loaded_incident_def db_ok_def incidents_ok_def by auto
  qed
  then show "incident_ok (loaded_incident x p loaded)"
    "in_id (loaded_incident x p loaded) = ''incident-'' @ ig_condition_key x"
    "in_condition_key (loaded_incident x p loaded) = ig_condition_key x" by blast+
qed

subsection \<open>Notifications\<close>

definition deliverable :: "PlannedDelivery \<Rightarrow> bool" where
  "deliverable pd \<longleftrightarrow> nd_status (pd_delivery pd) = StatusScheduled \<and> proper_key (identity (pd_delivery pd))"

lemma make_delivery_identity:
  assumes "make_delivery jo sha i p ch k sq now snap = Done d"
  shows "nd_status d = StatusScheduled" "proper_key (identity d)"
  using assms
  by (auto simp: make_delivery_def delivery_new_def Let_def identity_def proper_key_def split: if_splits sum.splits)

lemma run_map_member: "run_map f xs = Done ys \<Longrightarrow> y \<in> set ys \<Longrightarrow> \<exists>x \<in> set xs. f x = Done y"
  by (induction xs arbitrary: ys) (auto simp: run_bind_Done_iff)

lemma planned_deliverable:
  assumes "planned_deliveries env x p settings i t = Done planned" "pd \<in> set planned"
  shows "deliverable pd"
proof -
  obtain k where "plan_kind (ev_minute_of_day env) (json_ok env) (ev_sha256 env) (ev_policy_json env)
      k i p settings None (ig_observed_at_ms x) 1 = Done planned"
    using assms(1,2) by (auto simp: planned_deliveries_def plan_transition_def split: if_splits)
  from this [unfolded plan_kind_def Let_def, THEN run_map_member, OF assms(2)] show ?thesis
    using make_delivery_identity
    by (auto simp: run_bind_Done_iff deliverable_def)
qed

lemma schedule_deliveries_ok:
  assumes "deliveries_ok w incs ds" "nd_status d \<in> {StatusScheduled, StatusSuppressed}"
    and "b \<Longrightarrow> nd_incident_id d \<in> in_id ` set incs \<and> policy_exists w (nd_policy_id d)"
    and "proper_key (identity d)" "schedule ds d = Inr (ds', b)"
  shows "deliveries_ok w incs ds'"
proof -
  have "ledger_ok ds'" using schedule_ok [OF _ assms(2,5)] assms(1) by (simp add: deliveries_ok_def)
  moreover have "identity (fresh_row d) = identity d" "nd_incident_id (fresh_row d) = nd_incident_id d"
      "nd_policy_id (fresh_row d) = nd_policy_id d"
    by (simp_all add: identity_def fresh_row_def)
  ultimately show ?thesis
    using assms(1,3,4,5) by (auto simp: deliveries_ok_def schedule_def split: if_splits)
qed

lemma schedule_delivery_ok:
  assumes "db_ok db" "nd_status d \<in> {StatusScheduled, StatusSuppressed}" "proper_key (identity d)"
    and "schedule_delivery env db d = Inr (db', b)"
  shows "db_ok db' \<and> db' = db\<lparr>db_deliveries := db_deliveries db'\<rparr>"
proof -
  obtain rows where sch: "schedule (db_deliveries db) d = Inr (rows, b)"
    and fk: "b \<Longrightarrow> delivery_refers db d" and db': "db' = db\<lparr>db_deliveries := rows\<rparr>"
    using assms(4) by (auto simp: schedule_delivery_def rbind_Inr_iff split: if_splits)
  have "nd_incident_id d \<in> in_id ` set (db_incidents db) \<and> policy_exists (referents db) (nd_policy_id d)" if b
    using fk [OF that] by (simp add: delivery_refers_def refers_set policy_exists_def referents_def)
  from schedule_deliveries_ok [OF _ assms(2) this assms(3) sch] have "deliveries_ok (referents db) (db_incidents db) rows"
    using assms(1) by (simp add: db_ok_def)
  then show ?thesis using db_ok_deliveries [OF assms(1)] by (simp add: db')
qed

lemma deliver_all_ok:
  assumes "db_ok db" "\<forall>pd \<in> set planned. deliverable pd" "deliver_all env now db planned = Inr db'"
  shows "db_ok db' \<and> db' = db\<lparr>db_deliveries := db_deliveries db'\<rparr>"
  using assms
proof (induction planned arbitrary: db)
  case (Cons pd pds)
  obtain d db1 b where d: "(case pd_suppression_reason pd of
              None \<Rightarrow> Inr (pd_delivery pd)
            | Some r \<Rightarrow> (case delivery_suppress (pd_delivery pd) r now of
                          Inl e \<Rightarrow> Inl (InvariantViolation e)
                        | Inr d \<Rightarrow> Inr d)) = Inr d"
      and sch: "schedule_delivery env db d = Inr (db1, b)"
      and rest: "deliver_all env now db1 pds = Inr db'"
    using Cons.prems(3) by (auto simp: rbind_Inr_iff)
  have "deliverable pd" using Cons.prems(2) by simp
  then have "nd_status d \<in> {StatusScheduled, StatusSuppressed}" "proper_key (identity d)"
    using d by (auto simp: delivery_suppress_def identity_def proper_key_def deliverable_def
        split: option.splits sum.splits if_splits)
  from schedule_delivery_ok [OF Cons.prems(1) this sch] obtain rows where
    db1: "db_ok db1" "db1 = db\<lparr>db_deliveries := rows\<rparr>" by blast
  from Cons.IH [OF db1(1) _ rest] Cons.prems(2) have db': "db_ok db'" "db' = db1\<lparr>db_deliveries := db_deliveries db'\<rparr>"
    by simp_all
  have "db1\<lparr>db_deliveries := ds\<rparr> = db\<lparr>db_deliveries := ds\<rparr>" for ds unfolding db1(2) by simp
  then show ?case using db' by metis
qed simp

subsection \<open>Transactions\<close>

text \<open>
  A successful projection ends in a consistent database \<open>db3\<close>, from which only the cleanup can still
  delete; it holds the reduced incident.
\<close>

lemma project_condition_result:
  assumes "db_ok db" "project_condition env db x cleanup = Done (Inr db')"
    and "p = resolve_policy (policy_list db) (match_context x)"
  obtains settings i0 i t db3 where
    "load_settings env db = Inr settings"
    "project_observation x p i0 = Inr (i, t)"
    "in_id i = ''incident-'' @ ig_condition_key x"
    "db_ok db3" "\<exists>r \<in> set (db_incidents db3). row_of i r"
    "db_policies db3 = db_policies db"
    "oc_source_observation_key ` set (db_occurrences db3) = oc_source_observation_key ` set (db_occurrences db)"
    "recovery_cleanup cleanup settings t i db3 = Inr db'"
proof -
  from project_condition_split [OF assms(2,3)] obtain settings loaded i t db1 db2 planned db3 where
    se: "load_settings env db = Inr settings" and
    lo: "load_for_write db (ig_condition_key x) = Inr loaded" and
    pr: "project_observation x p (loaded_incident x p loaded) = Inr (i, t)" and
    st: "store_incident env db (in_version (loaded_incident x p loaded)) i = Inr db1" and
    at: "attention_ensure db1 (in_id i) (in_episode_number i) (ig_observed_at_ms x) = Inr db2" and
    pl: "planned_deliveries env x p settings i t = Done planned" and
    de: "deliver_all env (ig_observed_at_ms x)
       (link_occurrence db2 (oc_id (occurrence_of x)) (in_id i) (in_episode_number i)) planned = Inr db3" and
    cl: "recovery_cleanup cleanup settings t i db3 = Inr db'" .
  note l = loaded_incident_ok [OF assms(1) lo, of p]
  have i: "incident_ok i" "in_id i = ''incident-'' @ ig_condition_key x" "in_condition_key i = ig_condition_key x"
    using project_observation_row [OF pr] l by simp_all
  have ik: "in_id i = ''incident-'' @ in_condition_key i" using i by simp
  from store_incident_ok [OF assms(1) i(1) ik st] obtain incs where
    incs: "db1 = db\<lparr>db_incidents := incs\<rparr>" "incidents_ok (referents db) incs"
      "in_id ` set (db_incidents db) \<subseteq> in_id ` set incs" "\<exists>r \<in> set incs. row_of i r" by blast
  then have db1: "db_ok db1" using db_ok_more_incidents [OF assms(1)] by simp
  have db2: "db_ok db2" by (rule attention_ensure_ok [OF db1 at])
  note only = attention_ensure_only [OF at]
  have inc2: "db_incidents db2 = incs" by (subst only) (simp add: incs(1))
  have mem: "in_id i \<in> in_id ` set incs" using incs(4) by (auto simp: row_of_def intro: rev_image_eqI)
  let ?db = "link_occurrence db2 (oc_id (occurrence_of x)) (in_id i) (in_episode_number i)"
  have link: "db_ok ?db" using link_occurrence_ok [OF db2] mem inc2 by simp
  have inc: "db_incidents ?db = incs" by (simp add: link_occurrence_def inc2)
  have "\<forall>pd \<in> set planned. deliverable pd"
    using planned_deliverable [OF pl] by blast
  from deliver_all_ok [OF link this de] have db3: "db_ok db3" "db3 = ?db\<lparr>db_deliveries := db_deliveries db3\<rparr>"
    by blast+
  have "db_incidents db3 = incs" by (subst db3(2)) (simp add: inc)
  moreover have "db_policies db3 = db_policies db"
    by (subst db3(2)) (simp add: link_occurrence_def, subst only, simp add: incs(1))
  moreover have "oc_source_observation_key ` set (db_occurrences db2) =
      oc_source_observation_key ` set (db_occurrences db)"
    by (subst only) (simp add: incs(1))
  then have "oc_source_observation_key ` set (db_occurrences db3) =
      oc_source_observation_key ` set (db_occurrences db)"
    by (subst db3(2)) (simp flip: set_map)
  ultimately show thesis using that [OF se pr i(2) db3(1)] incs(4) cl by simp
qed

lemma recovery_cleanup_ok: "db_ok db \<Longrightarrow> recovery_cleanup c s t i db = Inr db' \<Longrightarrow> db_ok db'"
  by (auto simp: recovery_cleanup_def delete_resolved_by_id_def Let_def delete_incidents_ok
      split: if_splits prod.splits)

lemma project_condition_ok:
  "db_ok db \<Longrightarrow> project_condition env db x cleanup = Done (Inr db') \<Longrightarrow> db_ok db'"
  by (erule project_condition_result [OF _ _ refl]) (auto intro: recovery_cleanup_ok)

lemma record_ok:
  assumes "db_ok db" "record_in_session env db x cleanup = Done (Inr (db', b))"
  shows "db_ok db'"
proof -
  have "oc_incident_id (occurrence_of x) = None" by (simp add: occurrence_of_def)
  note fresh = insert_ignore_ok [OF assms(1) this]
  from assms(2) show ?thesis
    by (cases rule: record_split) (use assms(1) fresh project_condition_ok in blast)+
qed

lemma reset_keeps [simp]:
  "in_id (reset_evaluation_epoch i now) = in_id i"
  "in_policy_id (reset_evaluation_epoch i now) = in_policy_id i"
  by (cases "in_lifecycle_state i"; simp add: reset_evaluation_epoch_def)+

lemma reconciled_row:
  assumes "reconciled env ps now i = (changed, j, p)"
  shows "in_id j = in_id i" "in_policy_id j = Some (ap_id p)" "incident_ok i \<Longrightarrow> incident_ok j"
proof -
  have "\<exists>k. (j = k \<or> j = reset_evaluation_epoch k now) \<and> in_id k = in_id i \<and> in_policy_id k = Some (ap_id p) \<and>
        (incident_ok i \<longrightarrow> incident_ok k)"
    using assms
    by (cases "in_lifecycle_state i")
       (auto simp: reconciled_def Let_def incident_ok_def split: if_splits)
  then show "in_id j = in_id i" "in_policy_id j = Some (ap_id p)" "incident_ok i \<Longrightarrow> incident_ok j"
    by (auto simp: reset_evaluation_epoch_ok)
qed

lemma updated_ok: "incident_ok (i\<lparr>in_version := v, in_updated_at_ms := t\<rparr>) = incident_ok i"
  by (cases "in_lifecycle_state i") (simp_all add: incident_ok_def)

lemma reconcile_incident_ok:
  assumes "db_ok db" "incident_ok i"
    and "reconcile_incident env ps settings now limit db i = Inr (db', u, s)"
  shows "db_ok db' \<and> db_policies db' = db_policies db"
proof -
  obtain changed j p where r: "reconciled env ps now i = (changed, j, p)" by (cases "reconciled env ps now i")
  show ?thesis
  proof (cases "needs_update changed j i")
    case False
    then show ?thesis using assms r by (simp add: reconcile_incident_def)
  next
    case True
    let ?j = "j\<lparr>in_version := sat_add (in_version i) 1, in_updated_at_ms := max now (in_updated_at_ms i)\<rparr>"
    obtain db1 where up: "update_snapshot_cas env db ?j (in_version i) = Inr db1"
      and rest: "(case (if changed then Some PolicyMuted else reconcile_suppression settings p now) of
                None \<Rightarrow> Inr (db1, 1, 0)
              | Some reason \<Rightarrow>
                  (case suppress_scheduled_for_incident (db_deliveries db1) (in_id i) (in_episode_number i)
                          reason now limit of
                     (rows, n) \<Rightarrow> Inr (db1\<lparr>db_deliveries := rows\<rparr>, 1, n)))
          = (Inr (db', u, s) :: PersistenceError + (AlertDb \<times> nat \<times> nat))"
      using assms(3) True r by (auto simp: reconcile_incident_def rbind_Inr_iff)
    have "incident_ok ?j" using reconciled_row(3) [OF r assms(2)] by (simp add: updated_ok)
    from update_snapshot_ok [OF assms(1) this up] obtain incs where
      incs: "db1 = db\<lparr>db_incidents := incs\<rparr>" "incidents_ok (referents db) incs"
        "map in_id incs = map in_id (db_incidents db)" by blast
    have "in_id ` set (db_incidents db) \<subseteq> in_id ` set incs" using incs(3) by (metis set_map subset_refl)
    then have db1: "db_ok db1" "db_policies db1 = db_policies db"
      using db_ok_more_incidents [OF assms(1) incs(2)] incs(1) by simp_all
    from rest have "db' = db1 \<or> (\<exists>reason. db' = db1\<lparr>db_deliveries :=
          ledger_step (db_deliveries db1) (SuppressIncident (in_id i) (in_episode_number i) reason now limit)\<rparr>)"
      by (auto simp: case_prod_beta split: option.splits)
    then show ?thesis
      using db1 db_ok_ledger_step [OF db1(1)] by (elim disjE exE) (simp_all del: ledger_step.simps)
  qed
qed

lemma reconcile_incidents_ok:
  assumes "db_ok db" "\<forall>i \<in> set incs. incident_ok i"
    and "reconcile_incidents env ps settings now limit db u s incs = (db', r)"
  shows "db_ok db' \<and> db_policies db' = db_policies db"
  using assms
proof (induction incs arbitrary: db u s)
  case (Cons i incs)
  show ?case
  proof (cases "reconcile_incident env ps settings now limit db i")
    case (Inl e)
    with Cons.prems show ?thesis by simp
  next
    case (Inr v)
    obtain db1 u' s' where v: "v = (db1, u', s')" by (cases v)
    have "db_ok db1 \<and> db_policies db1 = db_policies db"
      using reconcile_incident_ok [OF Cons.prems(1)] Cons.prems(2) Inr v by auto
    then show ?thesis using Cons.IH [of db1] Cons.prems(2,3) Inr v by auto
  qed
qed simp

lemma active_page_sub: "i \<in> set (list_active_page db cursor limit) \<Longrightarrow> i \<in> set (db_incidents db)"
  by (auto simp: list_active_page_def dest!: in_set_takeD)

lemma reconcile_page_ok:
  assumes "db_ok db" "reconcile_page env db cursor ps settings now = (db', r)"
  shows "db_ok db'"
proof (cases "now < 0")
  case False
  have "\<forall>i \<in> set (list_active_page db cursor page_size). incident_ok i"
    using assms(1) by (auto simp: db_ok_def incidents_ok_def dest: active_page_sub)
  then show ?thesis
    using assms(2) False reconcile_incidents_ok [OF assms(1)]
    by (auto simp: reconcile_page_def Let_def split: prod.splits sum.splits)
qed (use assms in \<open>simp add: reconcile_page_def\<close>)

subsection \<open>Claims, delivery and retention\<close>

lemma claim_all_ok:
  "db_ok db \<Longrightarrow> claim_all tok now ids (db_deliveries db) sq = ((rows, sq'), r) \<Longrightarrow> db_ok (db\<lparr>db_deliveries := rows\<rparr>)"
proof (induction ids arbitrary: db sq rows sq' r)
  case (Cons did ids)
  show ?case
  proof (cases "claim_due (db_deliveries db) did (tok did sq) now lease_ms")
    case (Inl e)
    with Cons.prems show ?thesis by auto
  next
    case (Inr v)
    obtain rows1 b where v: "v = (rows1, b)" by (cases v)
    then have "rows1 = ledger_step (db_deliveries db) (Claim did (tok did sq) now lease_ms)" using Inr by simp
    then have db1: "db_ok (db\<lparr>db_deliveries := rows1\<rparr>)"
      using db_ok_ledger_step [OF Cons.prems(1), of "Claim did (tok did sq) now lease_ms"] by simp
    obtain st r1 where "claim_all tok now ids rows1 (sq + 1) = (st, r1)" by (cases "claim_all tok now ids rows1 (sq + 1)")
    moreover from this have "st = (rows, sq')" using Cons.prems(2) Inr v by (auto split: sum.splits)
    ultimately show ?thesis using Cons.IH [OF db1] by simp
  qed
qed auto

lemma deliver_claim_ok:
  assumes "db_ok db" "deliver_claim env send db now claim = Inr db'"
  shows "db_ok db'"
proof -
  obtain did token m where c: "claim = (did, token, m)" by (cases claim)
  have "\<exists>call. \<not> enqueues call \<and> db' = db\<lparr>db_deliveries := ledger_step (db_deliveries db) call\<rparr>"
  proof -
    let ?ds = "db_deliveries db"
    consider rows where "mark_delivered ?ds did token now = Inr rows" "db' = db\<lparr>db_deliveries := rows\<rparr>"
      | rows e where "mark_failed ?ds did token e now = Inr rows" "db' = db\<lparr>db_deliveries := rows\<rparr>"
      | rows where "mark_adapter_failure ?ds did token now = Inr rows" "db' = db\<lparr>db_deliveries := rows\<rparr>"
      using assms(2) c
      by (auto simp: deliver_claim_def rbind_Inr_iff
          split: NotificationChannel.splits sum.splits option.splits if_splits)
    then show ?thesis
    proof cases
      case 1 then show ?thesis by (intro exI [of _ "Delivered did token now"]) simp
    next
      case (2 rows e) then show ?thesis by (intro exI [of _ "FailedDelivery did token e now"]) simp
    next
      case 3 then show ?thesis by (intro exI [of _ "AdapterFailure did token now"]) simp
    qed
  qed
  then show ?thesis using db_ok_ledger_step [OF assms(1)] by blast
qed

lemma deliver_claims_ok: "db_ok db \<Longrightarrow> deliver_claims env send now db cs = (db', r) \<Longrightarrow> db_ok db'"
proof (induction cs arbitrary: db)
  case (Cons c cs)
  then show ?case
    by (cases "deliver_claim env send db now c") (auto dest: deliver_claim_ok)
qed simp

lemma delete_retained_ok: "db_ok db \<Longrightarrow> delete_retained_before db cutoff limit = (db', n) \<Longrightarrow> db_ok db'"
proof -
  assume ok: "db_ok db" and del: "delete_retained_before db cutoff limit = (db', n)"
  then obtain P where db': "db' = db\<lparr>db_occurrences := filter P (db_occurrences db)\<rparr>"
    by (auto simp: delete_retained_before_def Let_def)
  have "occurrences_ok (referents db) (db_incidents db) (filter P (db_occurrences db))"
    using ok unfolding db_ok_def occurrences_ok_def by (simp add: distinct_map_filter)
  then show "db_ok db'" using ok unfolding db' db_ok_def by simp
qed

lemma delete_resolved_ok: "db_ok db \<Longrightarrow> delete_resolved db limit = (db', n) \<Longrightarrow> db_ok db'"
  by (auto simp: delete_resolved_def Let_def delete_incidents_ok)

lemma retention_ok':
  assumes "db_ok db" "retention_run db now a b c d = Inr (db', r)"
  shows "db_ok db'"
proof -
  obtain rows n1 db2 n2 db3 n3 where
    d: "delete_terminal_before (db_deliveries db) (retention_cutoff now b) (clamp_batch d) = (rows, n1)" and
    o: "delete_retained_before (db\<lparr>db_deliveries := rows\<rparr>) (retention_cutoff now a) (clamp_batch d) = (db2, n2)" and
    i: "(if c then delete_resolved db2 (clamp_batch d) else (db2, 0)) = (db3, n3)" and "db' = db3"
    using assms(2) by (auto simp: retention_run_def Let_def split: if_splits prod.splits)
  have "db_ok (db\<lparr>db_deliveries := rows\<rparr>)"
    using db_ok_ledger_step [OF assms(1), of "DeleteTerminal (retention_cutoff now b) (clamp_batch d)"] d by simp
  from delete_retained_ok [OF this o] have "db_ok db2" .
  then show ?thesis using i delete_resolved_ok \<open>db' = db3\<close> by (auto split: if_splits)
qed

lemma alerting_round_ok:
  assumes "db_ok db" "alerting_round env send (db, sq) now = ((db', sq'), r)"
  shows "db_ok db'"
proof (cases "load_settings env db")
  case (Inl e)
  then show ?thesis using assms by (simp add: alerting_round_def)
next
  case (Inr settings)
  obtain db1 r1 where rc: "reconcile_page env db None (policy_list db) settings now = (db1, r1)"
    by (cases "reconcile_page env db None (policy_list db) settings now")
  have db1: "db_ok db1" by (rule reconcile_page_ok [OF assms(1) rc])
  show ?thesis
  proof (cases r1)
    case (Inl e)
    then show ?thesis using assms(2) Inr rc db1 by (simp add: alerting_round_def)
  next
    case r1: (Inr pg)
    obtain rows sq1 r2 where cl: "worker_claim_due (id_hash env) (db_deliveries db1, sq) now 50 = ((rows, sq1), r2)"
      by (cases "worker_claim_due (id_hash env) (db_deliveries db1, sq) now 50") auto
    have db2: "db_ok (db1\<lparr>db_deliveries := rows\<rparr>)"
      using cl claim_all_ok [OF db1] by (simp add: worker_claim_due_def)
    show ?thesis
    proof (cases r2)
      case (Inl e)
      then show ?thesis using assms(2) Inr rc r1 cl db2 by (simp add: alerting_round_def)
    next
      case r2: (Inr claimed)
      let ?claims = "concat (map (\<lambda>(did, token). case metadata_for_claim (db1\<lparr>db_deliveries := rows\<rparr>) did token of
                                     None \<Rightarrow> [] | Some m \<Rightarrow> [(did, token, m)]) claimed)"
      obtain db3 r3 where de: "deliver_claims env send now (db1\<lparr>db_deliveries := rows\<rparr>) ?claims = (db3, r3)"
        by (cases "deliver_claims env send now (db1\<lparr>db_deliveries := rows\<rparr>) ?claims")
      have db3: "db_ok db3" by (rule deliver_claims_ok [OF db2 de])
      have db4: "db_ok (db3\<lparr>db_deliveries := fst (recover_expired (db_deliveries db3) now 50)\<rparr>)"
        using db_ok_ledger_step [OF db3, of "RecoverExpired now 50"] by simp
      show ?thesis
      proof (cases r3)
        case (Inl e)
        then show ?thesis using assms(2) Inr rc r1 cl r2 de db3 by (simp add: alerting_round_def Let_def)
      next
        case r3: (Inr u)
        then show ?thesis
          using assms(2) Inr rc r1 cl r2 de db4 retention_ok' [OF db4]
          by (auto simp: alerting_round_def Let_def split: sum.splits prod.splits)
      qed
    qed
  qed
qed

subsection \<open>The user's operations\<close>

lemma suppress_stale_ok:
  assumes "db_ok db"
  shows "db_ok (suppress_stale db ids now)" "db_incidents (suppress_stale db ids now) = db_incidents db"
    "db_policies (suppress_stale db ids now) = db_policies db"
proof -
  let ?P = "\<lambda>d. nd_incident_id d \<in> ids \<and> nd_status d \<in> {StatusScheduled, StatusClaimed, OutcomeUnknown}"
  let ?f = "\<lambda>d. d\<lparr>nd_status := StatusSuppressed, nd_suppressed_reason := Some StaleEpisode,
                   nd_claim_token := None, nd_lease_expires_at_ms := None,
                   nd_retry_not_before_ms := None, nd_updated_at_ms := now\<rparr>"
  have ds: "deliveries_ok (referents db) (db_incidents db) (db_deliveries db)" using assms by (simp add: db_ok_def)
  have "ledger_ok (fst (sql_update ?P ?f (db_deliveries db)))"
    using ds by (intro ledger_ok_update_in) (auto simp: deliveries_ok_def row_ok_def)
  moreover have "nd_incident_id r \<in> in_id ` set (db_incidents db) \<and> policy_exists (referents db) (nd_policy_id r) \<and>
      proper_key (identity r)"
    if r: "r \<in> set (fst (sql_update ?P ?f (db_deliveries db)))" for r
  proof -
    obtain q where q: "q \<in> set (db_deliveries db)" "identity r = identity q"
      using update_identity [OF r] by (auto simp: identity_def)
    then show ?thesis using ds identity_row [OF q(2)] by (auto simp: deliveries_ok_def)
  qed
  ultimately have "deliveries_ok (referents db) (db_incidents db) (fst (sql_update ?P ?f (db_deliveries db)))"
    by (simp add: deliveries_ok_def)
  then show "db_ok (suppress_stale db ids now)" unfolding suppress_stale_def by (rule db_ok_deliveries [OF assms])
qed (simp_all add: suppress_stale_def)

lemma force_resolved_keeps [simp]:
  "in_id (force_resolved now i) = in_id i"
  "in_condition_key (force_resolved now i) = in_condition_key i"
  "in_policy_id (force_resolved now i) = in_policy_id i"
  "in_station_id (force_resolved now i) = in_station_id i"
  "in_station_key_id (force_resolved now i) = in_station_key_id i"
  "incident_ok i \<Longrightarrow> incident_ok (force_resolved now i)"
  by (cases "in_lifecycle_state i"; simp add: force_resolved_def incident_ok_def)+

lemma incidents_ok_map:
  assumes "incidents_ok w incs" "\<And>i. in_id (f i) = in_id i" "\<And>i. in_condition_key (f i) = in_condition_key i"
    and "\<And>i. incident_ok i \<Longrightarrow> incident_ok (f i)"
    and "\<And>i. assets_exist w (in_station_id i) (in_station_key_id i) \<Longrightarrow>
           assets_exist w' (in_station_id (f i)) (in_station_key_id (f i))"
    and "\<And>i. policy_exists w (in_policy_id i) \<Longrightarrow> policy_exists w' (in_policy_id (f i))"
  shows "incidents_ok w' (map f incs)"
proof -
  have "map in_id (map f incs) = map in_id incs" using assms(2) by simp
  then have "distinct (map in_id (map f incs))" using assms(1) by (simp only: incidents_ok_def)
  moreover have "incident_ok j \<and> in_id j = ''incident-'' @ in_condition_key j \<and>
      assets_exist w' (in_station_id j) (in_station_key_id j) \<and> policy_exists w' (in_policy_id j)"
    if "j \<in> set (map f incs)" for j
  proof -
    obtain i where i: "i \<in> set incs" "j = f i" using \<open>j \<in> set (map f incs)\<close> by auto
    then have "incident_ok i \<and> in_id i = ''incident-'' @ in_condition_key i \<and>
        assets_exist w (in_station_id i) (in_station_key_id i) \<and> policy_exists w (in_policy_id i)"
      using assms(1) unfolding incidents_ok_def by blast
    then show ?thesis unfolding i(2) assms(2,3) using assms(4-6) by blast
  qed
  ultimately show ?thesis unfolding incidents_ok_def by blast
qed

lemma resolve_where_ok:
  assumes "db_ok db" "resolve_where P db now = (db', n)"
  shows "db_ok db'"
proof -
  let ?db = "suppress_stale db (set (incident_ids P db)) now"
  let ?f = "\<lambda>i. if P i then force_resolved now i else i"
  note s = suppress_stale_ok [OF assms(1), of "set (incident_ids P db)" now]
  have "incidents_ok (referents ?db) (map ?f (db_incidents ?db))"
    using s(1) by (intro incidents_ok_map) (auto simp: db_ok_def)
  moreover have "in_id ` set (db_incidents ?db) \<subseteq> in_id ` set (map ?f (db_incidents ?db))"
  proof -
    have "map in_id (map ?f (db_incidents ?db)) = map in_id (db_incidents ?db)" by simp
    then show ?thesis by (metis set_map subset_refl)
  qed
  moreover have "db' = ?db\<lparr>db_incidents := map ?f (db_incidents ?db)\<rparr>"
    using assms(2) by (simp add: resolve_where_def Let_def sql_update_def)
  ultimately show ?thesis using db_ok_more_incidents [OF s(1)] by simp
qed

lemma attention_update_ok:
  assumes "db_ok db" "\<And>a. at_incident_id (f a) = at_incident_id a" "\<And>a. at_episode_number (f a) = at_episode_number a"
  shows "db_ok (db\<lparr>db_attention := fst (sql_update P f (db_attention db))\<rparr>)"
proof -
  let ?as = "fst (sql_update P f (db_attention db))"
  have "map (\<lambda>a. (at_incident_id a, at_episode_number a)) ?as =
        map (\<lambda>a. (at_incident_id a, at_episode_number a)) (db_attention db)"
    using assms(2,3) by (simp add: sql_update_def)
  moreover have "attention_ok (db_incidents db) (db_attention db)" using assms(1) by (simp add: db_ok_def)
  moreover from this have "\<forall>a \<in> set ?as. at_incident_id a \<in> in_id ` set (db_incidents db)"
    using assms(2) by (auto simp: attention_ok_def dest!: sql_update_member)
  ultimately have "attention_ok (db_incidents db) ?as" by (simp add: attention_ok_def)
  then show ?thesis using assms(1) by (simp add: db_ok_def)
qed

lemma policy_exists_mono: "policy_exists w p \<Longrightarrow> snd (snd w) \<subseteq> snd (snd w') \<Longrightarrow> policy_exists w' p"
  by (auto simp: policy_exists_def)

lemma db_ok_policies:
  assumes "db_ok db" "distinct (map ap_id ps)" "ap_id ` set (db_policies db) \<subseteq> ap_id ` set ps"
  shows "db_ok (db\<lparr>db_policies := ps\<rparr>)"
proof -
  let ?w = "referents (db\<lparr>db_policies := ps\<rparr>)"
  have w: "fst ?w = fst (referents db)" "fst (snd ?w) = fst (snd (referents db))"
      "snd (snd (referents db)) \<subseteq> snd (snd ?w)"
    using assms(3) by (simp_all add: referents_def)
  have assets: "assets_exist ?w st key = assets_exist (referents db) st key" for st key
    by (simp add: assets_exist_def w)
  have policy: "policy_exists ?w p" if "policy_exists (referents db) p" for p
    by (rule policy_exists_mono [OF that w(3)])
  have "incidents_ok ?w incs" if "incidents_ok (referents db) incs" for incs
    using that policy unfolding incidents_ok_def assets by blast
  moreover have "occurrences_ok ?w incs os" if "occurrences_ok (referents db) incs os" for incs os
    using that unfolding occurrences_ok_def assets by blast
  moreover have "deliveries_ok ?w incs ds" if "deliveries_ok (referents db) incs ds" for incs ds
    using that policy unfolding deliveries_ok_def by blast
  ultimately show ?thesis using assms(1,2) by (simp add: db_ok_def)
qed

lemma policy_update_ok:
  assumes "db_ok db" "\<And>q. P q \<Longrightarrow> ap_id (f q) = ap_id q"
  shows "db_ok (db\<lparr>db_policies := fst (sql_update P f (db_policies db))\<rparr>)"
proof -
  have "map ap_id (fst (sql_update P f (db_policies db))) = map ap_id (db_policies db)"
    using assms(2) by (simp add: sql_update_def)
  then show ?thesis
    using assms(1) by (intro db_ok_policies) (auto simp: db_ok_def simp flip: set_map)
qed

lemma policy_save_ok: "db_ok db \<Longrightarrow> policy_save db p expected = Inr db' \<Longrightarrow> db_ok db'"
proof -
  assume ok: "db_ok db" and save: "policy_save db p expected = Inr db'"
  consider "find (\<lambda>q. ap_id q = ap_id p) (db_policies db) = None" "db' = db\<lparr>db_policies := db_policies db @ [p]\<rparr>"
    | "db' = db\<lparr>db_policies := fst (sql_update (\<lambda>q. ap_id q = ap_id p)
                          (\<lambda>q. p\<lparr>ap_created_at_ms := ap_created_at_ms q\<rparr>) (db_policies db))\<rparr>"
    using save by (auto simp: policy_save_def split: sum.splits option.splits if_splits)
  then show "db_ok db'"
  proof cases
    case 1
    then have "ap_id p \<notin> ap_id ` set (db_policies db)" by (auto simp: find_None_all)
    moreover have "distinct (map ap_id (db_policies db))" using ok by (simp add: db_ok_def)
    ultimately show ?thesis
      unfolding 1(2) by (intro db_ok_policies [OF ok]) auto
  next
    case 2
    then show ?thesis using policy_update_ok [OF ok] by simp
  qed
qed

lemma policy_mark_state_ok: "db_ok db \<Longrightarrow> policy_mark_state db pid st e now = Inr db' \<Longrightarrow> db_ok db'"
  by (auto simp: policy_mark_state_def case_prod_beta split: if_splits intro!: policy_update_ok)

lemma without_set: "set_option (without gone v) = set_option v - gone"
  by (cases v) (auto simp: without_def)

text \<open>A deleted station or key takes the references to it along.\<close>

lemma forget_assets_ok:
  assumes "db_ok db"
  shows "db_ok (forget_assets db sts keys)"
proof -
  let ?db = "forget_assets db sts keys" and ?w = "referents db"
  have w: "referents ?db = (fst ?w - sts, fst (snd ?w) - keys, snd (snd ?w))"
    by (auto simp: referents_def forget_assets_def image_iff split: prod.splits)
  have assets: "assets_exist (referents ?db) (without sts st) (without keys key)" if "assets_exist ?w st key" for st key
    using that by (auto simp: assets_exist_def w without_set)
  have policy: "policy_exists (referents ?db) p = policy_exists ?w p" for p by (simp add: policy_exists_def w)
  have os: "occurrences_ok ?w (db_incidents db) (db_occurrences db)" using assms by (simp add: db_ok_def)
  have ids: "in_id ` set (db_incidents ?db) = in_id ` set (db_incidents db)"
    by (simp add: forget_assets_def image_image)
  have same: "db_policies ?db = db_policies db" "db_attention ?db = db_attention db" "db_deliveries ?db = db_deliveries db"
    by (simp_all add: forget_assets_def)
  have incs: "db_incidents ?db = map (\<lambda>i. i\<lparr>in_station_id := without sts (in_station_id i),
                     in_station_key_id := without keys (in_station_key_id i)\<rparr>) (db_incidents db)"
    by (simp add: forget_assets_def)
  have "incident_ok (i\<lparr>in_station_id := a, in_station_key_id := b\<rparr>) = incident_ok i" for i a b
    by (cases "in_lifecycle_state i") (simp_all add: incident_ok_def)
  then have "incidents_ok (referents ?db) (db_incidents ?db)"
    unfolding incs using assms assets
    by (intro incidents_ok_map [of ?w]) (simp_all add: db_ok_def policy)
  moreover have "occurrences_ok (referents ?db) (db_incidents ?db) (db_occurrences ?db)"
  proof -
    have os': "db_occurrences ?db = map (\<lambda>oc. oc\<lparr>oc_station_id := without sts (oc_station_id oc),
                       oc_station_key_id := without keys (oc_station_key_id oc)\<rparr>) (db_occurrences db)"
      by (simp add: forget_assets_def)
    show ?thesis unfolding os'
    proof (rule occurrences_ok_map [OF os])
      fix oc assume "oc \<in> set (db_occurrences db)"
      then show "set_option (oc_incident_id (oc\<lparr>oc_station_id := without sts (oc_station_id oc),
            oc_station_key_id := without keys (oc_station_key_id oc)\<rparr>)) \<subseteq> in_id ` set (db_incidents ?db) \<and>
          assets_exist (referents ?db)
            (oc_station_id (oc\<lparr>oc_station_id := without sts (oc_station_id oc),
              oc_station_key_id := without keys (oc_station_key_id oc)\<rparr>))
            (oc_station_key_id (oc\<lparr>oc_station_id := without sts (oc_station_id oc),
              oc_station_key_id := without keys (oc_station_key_id oc)\<rparr>))"
        using os assets unfolding ids by (simp add: occurrences_ok_def)
    qed simp_all
  qed
  moreover have "attention_ok (db_incidents ?db) (db_attention db)"
    using assms unfolding db_ok_def attention_ok_def ids by blast
  moreover have "deliveries_ok (referents ?db) (db_incidents ?db) (db_deliveries db)"
    using assms unfolding db_ok_def deliveries_ok_def ids policy by blast
  ultimately show ?thesis using assms unfolding db_ok_def same by blast
qed

lemma station_delete_ok: "db_ok db \<Longrightarrow> station_delete db st now = Inr db' \<Longrightarrow> db_ok db'"
proof -
  assume ok: "db_ok db" and del: "station_delete db st now = Inr db'"
  then obtain P db1 n where "resolve_where P db now = (db1, n)" "delete_owned_state db1 st = Inr db'"
    by (auto simp: station_delete_def rbind_Inr_iff resolve_for_deleted_station_def split: if_splits)
  then show "db_ok db'"
    using resolve_where_ok [OF ok] forget_assets_ok by (auto simp: delete_owned_state_def split: if_splits)
qed

lemma delete_station_key_ok: "db_ok db \<Longrightarrow> delete_station_key db key = Inr db' \<Longrightarrow> db_ok db'"
  by (auto simp: delete_station_key_def split: if_splits intro!: forget_assets_ok)

section \<open>The database as a machine\<close>

datatype alert_call =
    RecordObservation ObservationIngress bool
  | Round u64 i64
  | SavePolicy AlertPolicy "u64 option"
  | MarkPolicy string PolicyState u64 i64
  | UpdateSettings AlertingSettings u64 i64
  | ResolveStation string i64
  | DeleteStation string i64
  | DeleteStationKey string
  | ResolveAll "string option" "Severity option" i64
  | ClearIncidents "string option" "Severity option" "string option"
  | MarkSeen string u32 i64
  | Snooze string u32 i64 i64

text \<open>A transaction that fails or panics is rolled back; a round keeps what it committed.\<close>

definition commit :: "AlertDb \<Rightarrow> PersistenceError + AlertDb \<Rightarrow> AlertDb" where
  "commit db r = (case r of Inl _ \<Rightarrow> db | Inr db' \<Rightarrow> db')"

fun alert_step ::
    "AlertEnv \<Rightarrow> (DesktopNotificationPayload \<Rightarrow> DesktopNotificationError option) \<Rightarrow> AlertDb \<Rightarrow> alert_call \<Rightarrow> AlertDb" where
  "alert_step env send db (RecordObservation x cleanup) =
     (case record_in_session env db x cleanup of Done (Inr (db', _)) \<Rightarrow> db' | _ \<Rightarrow> db)"
| "alert_step env send db (Round sq now) = fst (fst (alerting_round env send (db, sq) now))"
| "alert_step env send db (SavePolicy p expected) = commit db (policy_save db p expected)"
| "alert_step env send db (MarkPolicy pid st e now) = commit db (policy_mark_state db pid st e now)"
| "alert_step env send db (UpdateSettings s e now) =
     (case update_settings env db s e now of Inl _ \<Rightarrow> db | Inr (db', _) \<Rightarrow> db')"
| "alert_step env send db (ResolveStation st now) =
     (case resolve_for_deleted_station db st now of Inl _ \<Rightarrow> db | Inr (db', _) \<Rightarrow> db')"
| "alert_step env send db (DeleteStation st now) = commit db (station_delete db st now)"
| "alert_step env send db (DeleteStationKey key) = commit db (delete_station_key db key)"
| "alert_step env send db (ResolveAll st sev now) =
     (case resolve_all_active db st sev now of Inl _ \<Rightarrow> db | Inr (db', _) \<Rightarrow> db')"
| "alert_step env send db (ClearIncidents st sev lifecycle) = fst (clear_incidents db st sev lifecycle)"
| "alert_step env send db (MarkSeen iid ep now) = attention_mark_seen db iid ep now"
| "alert_step env send db (Snooze iid ep until now) = attention_snooze_until db iid ep until now"

lemma db_ok_settings: "db_ok db \<Longrightarrow> db_ok (db\<lparr>db_settings_json := v\<rparr>)"
  by (simp add: db_ok_def)

lemma alert_step_ok:
  assumes ok: "db_ok db"
  shows "db_ok (alert_step env send db c)"
proof (cases c)
  case (RecordObservation x cleanup)
  then show ?thesis using ok record_ok [OF ok] by (auto split: run.split sum.split)
next
  case (Round sq now)
  obtain db' sq' r where "alerting_round env send (db, sq) now = ((db', sq'), r)"
    by (cases "alerting_round env send (db, sq) now") auto
  then show ?thesis using Round alerting_round_ok [OF ok] by simp
next
  case (SavePolicy p e)
  then show ?thesis using ok policy_save_ok by (auto simp: commit_def split: sum.split)
next
  case (MarkPolicy pid st e now)
  then show ?thesis using ok policy_mark_state_ok by (auto simp: commit_def split: sum.split)
next
  case (UpdateSettings s e now)
  then show ?thesis
    using ok by (auto simp: update_settings_def Let_def rbind_Inr_iff db_ok_settings split: sum.splits option.splits if_splits)
next
  case (ResolveStation st now)
  then show ?thesis
    using ok resolve_where_ok [OF ok]
    by (auto simp: resolve_for_deleted_station_def split: sum.splits if_splits prod.splits)
next
  case (DeleteStation st now)
  then show ?thesis using ok station_delete_ok by (auto simp: commit_def split: sum.split)
next
  case (DeleteStationKey key)
  then show ?thesis using ok delete_station_key_ok by (auto simp: commit_def split: sum.split)
next
  case (ResolveAll st sev now)
  then show ?thesis
    using ok resolve_where_ok [OF ok] by (auto simp: resolve_all_active_def split: sum.splits if_splits prod.splits)
next
  case (ClearIncidents st sev lifecycle)
  then show ?thesis using ok by (simp add: clear_incidents_def Let_def delete_incidents_ok)
next
  case (MarkSeen iid ep now)
  then show ?thesis using ok by (simp add: attention_mark_seen_def attention_update_ok)
next
  case (Snooze iid ep until now)
  then show ?thesis using ok by (simp add: attention_snooze_until_def attention_update_ok)
qed

interpretation alert_inv: kept_invariant "alert_step env send" db_ok for env send
  by unfold_locales (rule alert_step_ok)

end
