(* ===== verification/AlertSafety.thy ===== *)
theory AlertSafety
  imports AlertCorrect
begin

text \<open>
  What the alerting transactions promise together: the database stays consistent, an observation is
  recorded once, retention keeps what is active; and what the interaction of ingress, reconciliation and
  cleanup does to incidents and notifications.
\<close>

section \<open>Consistency\<close>

text \<open>The database before the first observation: any stations and settings, nothing recorded.\<close>

definition fresh_db :: "string list \<Rightarrow> (string \<times> string) list \<Rightarrow> string option \<Rightarrow> AlertDb" where
  "fresh_db stations keys settings =
     \<lparr>db_stations = stations, db_station_keys = keys, db_policies = [], db_incidents = [],
      db_occurrences = [], db_attention = [], db_deliveries = [], db_settings_json = settings\<rparr>"

lemma fresh_db_ok: "db_ok (fresh_db stations keys settings)"
  by (simp add: db_ok_def fresh_db_def incidents_ok_def occurrences_ok_def attention_ok_def
      deliveries_ok_def ledger_ok_def)

text \<open>A small world for the witnesses: libraries that accept everything and one active incident.\<close>

definition sample_env :: AlertEnv where
  "sample_env =
     \<lparr>ev_parse_json = (\<lambda>s. Some (JObject [])), ev_sql_json_valid = (\<lambda>s. True),
      ev_sha256 = (\<lambda>s. replicate 32 7), ev_policy_json = (\<lambda>p. Some ''{}''),
      ev_settings_from_json = (\<lambda>s. Some settings_default), ev_settings_to_json = (\<lambda>s. Some ''{}''),
      ev_tz_known = (\<lambda>z. True), ev_minute_of_day = (\<lambda>z t. Some 0), ev_url_encode = (\<lambda>s. s)\<rparr>"

definition sample_incident :: Incident where
  "sample_incident = incident_new ''incident-key'' ''key'' KeyInvalid SevCritical 10 ''system_default:1''"

definition sample_db :: AlertDb where
  "sample_db = (fresh_db [] [] None)\<lparr>db_incidents := [sample_incident]\<rparr>"

lemma sample_db_ok: "db_ok sample_db"
  using incident_new_ok
  by (simp add: sample_db_def fresh_db_def sample_incident_def db_ok_def incidents_ok_def occurrences_ok_def
      attention_ok_def deliveries_ok_def ledger_ok_def assets_exist_def policy_exists_def)
    (simp add: incident_new_def)

lemma sample_db_facts:
  "db_policies sample_db = []" "db_incidents sample_db = [sample_incident]" "db_settings_json sample_db = None"
  "in_lifecycle_state sample_incident = Pending" "in_event_type sample_incident = KeyInvalid"
  by (simp_all add: sample_db_def fresh_db_def sample_incident_def incident_new_def)

lemma sample_settings: "db_settings_json db = None \<Longrightarrow> load_settings env db = Inr settings_default"
  by (simp add: load_settings_def settings_validate_def settings_default_def retention_ok_def)

text \<open>
  C12: The alerting tables stay consistent. Over any sequence of observations, rounds of the alerting
  loop, policy and settings changes, user operations and deletions of stations and keys, each of which may
  fail at any statement: policy, occurrence and incident ids stay unique, every incident's time stamps and
  counters agree with its lifecycle state, every reference points to a row that exists (of an occurrence
  to its incident, station and key, of an incident to its station, key and policy, of an attention row to
  its incident, of a delivery to its incident and policy), no two deliveries share a slot or a key, and
  the key of a delivery says what it delivers.
\<close>
theorem alert_db_consistent:
  "db_ok (run_ops (alert_step env send) (fresh_db stations keys settings) calls)"
  by (rule alert_inv.run_keeps [OF fresh_db_ok])

section \<open>Observations are recorded once\<close>

definition recorded_keys :: "AlertDb \<Rightarrow> string set" where
  "recorded_keys db = oc_source_observation_key ` set (db_occurrences db)"

lemma cleanup_keeps_keys:
  assumes "recovery_cleanup cleanup settings t i db = Inr db'"
  shows "recorded_keys db' = recorded_keys db"
proof -
  have "recorded_keys (delete_incidents db ids) = recorded_keys db" for ids
  proof -
    have "map oc_source_observation_key (db_occurrences (delete_incidents db ids)) =
          map oc_source_observation_key (db_occurrences db)"
      by (simp add: delete_incidents_def)
    then show ?thesis unfolding recorded_keys_def by (metis set_map)
  qed
  then show ?thesis
    using assms by (auto simp: recovery_cleanup_def delete_resolved_by_id_def Let_def split: if_splits)
qed

lemma record_inserts_key:
  assumes "db_ok db" "record_in_session env db x cleanup = Done (Inr (db', True))"
  shows "ig_source_observation_key x \<in> recorded_keys db'"
    and "ingress_validate env x = Inr ()" and "occurrence_checks env (occurrence_of x)"
proof -
  have none: "oc_incident_id (occurrence_of x) = None" by (simp add: occurrence_of_def)
  have "ig_source_observation_key x \<in> recorded_keys db' \<and> ingress_validate env x = Inr () \<and>
        occurrence_checks env (occurrence_of x)"
    using assms(2)
  proof (cases rule: record_split)
    case audit
    then show ?thesis using insert_ignore_new [OF audit(4)] by (simp add: recorded_keys_def occurrence_of_def)
  next
    case (condition db1)
    note new = insert_ignore_new [OF condition(4)]
    have "db_ok db1" by (rule insert_ignore_ok [OF assms(1) none condition(4)])
    from project_condition_result [OF this condition(5) refl] obtain db3 settings t i where
      "recorded_keys db3 = recorded_keys db1" "recovery_cleanup cleanup settings t i db3 = Inr db'"
      unfolding recorded_keys_def by metis
    then have "recorded_keys db' = recorded_keys db1" using cleanup_keeps_keys by metis
    then show ?thesis using new condition(3) by (simp add: recorded_keys_def occurrence_of_def)
  qed simp
  then show "ig_source_observation_key x \<in> recorded_keys db'" "ingress_validate env x = Inr ()"
    "occurrence_checks env (occurrence_of x)" by blast+
qed

lemma record_duplicate:
  assumes "ig_source_observation_key y \<in> recorded_keys db" "ingress_validate env y = Inr ()"
    and "occurrence_checks env (occurrence_of y)"
  shows "record_in_session env db y cleanup = Done (Inr (db, False))"
proof -
  have "\<exists>r \<in> set (db_occurrences db). oc_source_observation_key r = oc_source_observation_key (occurrence_of y)"
    using assms(1) by (auto simp: recorded_keys_def occurrence_of_def)
  then have "insert_ignore env db (occurrence_of y) = Inr (db, False)"
    using assms(3) by (simp add: insert_ignore_def)
  then show ?thesis using assms(2) by (simp add: record_in_session_def tx_bind_def)
qed

lemma record_known_key:
  assumes "ig_source_observation_key y \<in> recorded_keys db"
  shows "alert_step env send db (RecordObservation y cleanup) = db"
proof -
  have "\<exists>r \<in> set (db_occurrences db). oc_source_observation_key r = oc_source_observation_key (occurrence_of y)"
    using assms by (auto simp: recorded_keys_def occurrence_of_def)
  then show ?thesis
    by (cases "ingress_validate env y"; cases "occurrence_checks env (occurrence_of y)")
       (simp_all add: record_in_session_def insert_ignore_def tx_bind_def)
qed

text \<open>
  C21: Ingress is idempotent. After an observation was recorded, recording it again, with or without the
  cleanup of recovered incidents, reports that nothing was inserted and leaves the database as it is; so
  does any other observation under the same source key.
\<close>
theorem ingress_idempotent:
  assumes "db_ok db" "record_in_session env db x cleanup = Done (Inr (db', True))"
  shows "record_in_session env db' x cleanup2 = Done (Inr (db', False)) \<and>
         (ig_source_observation_key y = ig_source_observation_key x \<longrightarrow>
          alert_step env send db' (RecordObservation y cleanup2) = db')"
  using record_inserts_key [OF assms] record_duplicate record_known_key by simp_all

text \<open>A first healthy observation, whose transaction is evaluated step by step.\<close>

definition sample_healthy :: ObservationIngress where
  "sample_healthy =
     \<lparr>ig_source_observation_key = ''k1'', ig_event_type = KeyInvalid, ig_condition_key = ''key'',
      ig_kind = Healthy, ig_severity = SevCritical, ig_object_type = ''key'', ig_object_id = None,
      ig_station_id = None, ig_station_key_id = None, ig_source = ''s'', ig_reason_code = None,
      ig_summary_json = ''{}'', ig_observed_at_ms = 10, ig_fact_fresh_until_ms = 20\<rparr>"

definition sample_default :: AlertPolicy where
  "sample_default = system_default_for_event (Some KeyInvalid) SevCritical"

definition healthy_incident :: Incident where
  "healthy_incident =
     (case project_observation sample_healthy sample_default (fresh_incident sample_healthy sample_default) of
        Inr (i, t) \<Rightarrow> i)"

lemma sample_default_facts:
  "ap_id sample_default = ''system_default''" "ap_recovery_mode sample_default = ConsecutiveHealthy"
  "ap_recovery_count sample_default = Some 1" "ap_revision sample_default = 1"
  "resolve_policy [] (match_context sample_healthy) = sample_default"
  by (simp_all add: sample_default_def system_default_for_event_def Let_def resolve_policy_def match_context_def
      sample_healthy_def)

lemma sample_healthy_facts:
  "ig_condition_key sample_healthy = ''key''" "ig_kind sample_healthy = Healthy"
  "ig_observed_at_ms sample_healthy = 10" "in_version (fresh_incident sample_healthy sample_default) = 0"
  "oc_station_id (occurrence_of sample_healthy) = None" "oc_station_key_id (occurrence_of sample_healthy) = None"
  "occurrence_checks sample_env (occurrence_of sample_healthy)"
  by (simp_all add: sample_healthy_def occurrence_of_def fresh_incident_def incident_new_def
      occurrence_checks_def sample_env_def)

lemma sample_healthy_valid: "ingress_validate sample_env sample_healthy = Inr ()"
  by code_simp

lemma healthy_incident_facts:
  "project_observation sample_healthy sample_default (fresh_incident sample_healthy sample_default) =
     Inr (healthy_incident, ToResolved)"
  "in_episode_occurrence_count healthy_incident = 0" "incident_checks sample_env healthy_incident"
  "in_station_id healthy_incident = None" "in_station_key_id healthy_incident = None"
  "in_policy_id healthy_incident = None" "in_episode_number healthy_incident = 1"
  "in_id healthy_incident = ''incident-key''"
  by (simp_all add: project_observation_def fresh_incident_def incident_new_def prepare_incident_def
      project_def healthy_incident_def apply_observation_def observation_of_def sample_healthy_def
      apply_healthy_def observe_fact_def sample_default_facts Let_def sat_add_def incident_checks_def
      sample_env_def nonneg_def)

lemma sort_by_empty: "sort_by le [] = []"
  by simp

lemma sample_recorded:
  "\<exists>db. record_in_session sample_env (fresh_db [] [] None) sample_healthy False = Done (Inr (db, True))"
  using sample_healthy_facts(7)
  by (simp add: record_in_session_def tx_bind_def sample_healthy_valid insert_ignore_def sample_healthy_facts
      refers_def project_condition_def fresh_db_def sample_settings policy_list_def sort_by_empty
      sample_default_facts load_for_write_def Let_def loaded_incident_def healthy_incident_facts
      store_incident_def insert_snapshot_def incident_refers_def attention_ensure_def
      planned_deliveries_def recovery_cleanup_def)

theorem ingress_idempotent_witness:
  "\<exists>db. record_in_session sample_env (fresh_db [] [] None) sample_healthy False = Done (Inr (db, True)) \<and>
        record_in_session sample_env db sample_healthy True = Done (Inr (db, False))"
proof -
  obtain db where "record_in_session sample_env (fresh_db [] [] None) sample_healthy False = Done (Inr (db, True))"
    using sample_recorded by blast
  with ingress_idempotent [OF fresh_db_ok this, of True sample_healthy] show ?thesis by blast
qed

section \<open>Retention\<close>

lemma delete_retained_only:
  "delete_retained_before db cutoff limit = (db', n) \<Longrightarrow> db' = db\<lparr>db_occurrences := db_occurrences db'\<rparr>"
  by (auto simp: delete_retained_before_def Let_def)

lemma same_id: "distinct (map f xs) \<Longrightarrow> x \<in> set xs \<Longrightarrow> y \<in> set xs \<Longrightarrow> f x = f y \<Longrightarrow> x = y"
  by (auto simp: distinct_map dest: inj_onD)

lemma delete_retained_keeps:
  assumes "delete_retained_before db cutoff limit = (db', n)" "db_ok db"
    and "oc \<in> set (db_occurrences db)" "oc_incident_id oc = Some (in_id i)"
    and "i \<in> set (db_incidents db)" "in_lifecycle_state i \<noteq> Resolved"
  shows "oc \<in> set (db_occurrences db')"
proof -
  let ?resolved = "set (incident_ids (\<lambda>i. in_lifecycle_state i = Resolved) db)"
  let ?P = "\<lambda>oc. oc_created_at_ms oc < cutoff \<and> is_none_or (oc_incident_id oc) (\<lambda>i. i \<in> ?resolved)"
  have ids: "distinct (map in_id (db_incidents db))" "distinct (map oc_id (db_occurrences db))"
    using assms(2) by (simp_all add: db_ok_def incidents_ok_def occurrences_ok_def)
  have "in_id i \<notin> ?resolved"
    using same_id [OF ids(1) assms(5)] assms(6) by (auto simp: incident_ids_def)
  then have "\<not> ?P oc" using assms(4) by (simp add: is_none_or_def)
  moreover have "?P q" if "q \<in> set (take k (sort_by le (filter ?P (db_occurrences db))))" for q k le
    using in_set_takeD [OF that] by simp
  moreover have "q \<in> set (db_occurrences db)"
      if "q \<in> set (take k (sort_by le (filter ?P (db_occurrences db))))" for q k le
    using in_set_takeD [OF that] by simp
  ultimately have "oc_id oc \<notin> oc_id ` set (take k (sort_by le (filter ?P (db_occurrences db))))" for k le
    using same_id [OF ids(2) assms(3)] by blast
  then show ?thesis using assms(1,3) by (auto simp: delete_retained_before_def Let_def)
qed

lemma fixed_in_map: "x \<in> set xs \<Longrightarrow> f x = x \<Longrightarrow> x \<in> set (map f xs)"
  by (simp add: rev_image_eqI)

lemma delete_resolved_keeps:
  assumes "delete_resolved db limit = (db', n)" "db_ok db"
    and "i \<in> set (db_incidents db)" "in_lifecycle_state i \<noteq> Resolved"
  shows "i \<in> set (db_incidents db')"
    and "a \<in> set (db_attention db) \<Longrightarrow> at_incident_id a = in_id i \<Longrightarrow> a \<in> set (db_attention db')"
    and "d \<in> set (db_deliveries db) \<Longrightarrow> nd_incident_id d = in_id i \<Longrightarrow> d \<in> set (db_deliveries db')"
    and "oc \<in> set (db_occurrences db) \<Longrightarrow> oc_incident_id oc = Some (in_id i) \<Longrightarrow> oc \<in> set (db_occurrences db')"
proof -
  obtain ids where db': "db' = delete_incidents db ids"
      and ids: "\<forall>k \<in> ids. \<exists>j \<in> set (db_incidents db). in_id j = k \<and> in_lifecycle_state j = Resolved"
    using assms(1) by (fastforce simp: delete_resolved_def Let_def dest: in_set_takeD)
  have distinct: "distinct (map in_id (db_incidents db))"
    using assms(2) by (simp add: db_ok_def incidents_ok_def)
  have "in_id i \<notin> ids"
  proof
    assume "in_id i \<in> ids"
    then obtain j where j: "j \<in> set (db_incidents db)" "in_id j = in_id i" "in_lifecycle_state j = Resolved"
      using ids by blast
    then show False using same_id [OF distinct assms(3) j(1)] assms(4) by simp
  qed
  then show "i \<in> set (db_incidents db')"
    "a \<in> set (db_attention db) \<Longrightarrow> at_incident_id a = in_id i \<Longrightarrow> a \<in> set (db_attention db')"
    "d \<in> set (db_deliveries db) \<Longrightarrow> nd_incident_id d = in_id i \<Longrightarrow> d \<in> set (db_deliveries db')"
    using assms(3) by (simp_all add: db' delete_incidents_def)
  assume oc: "oc \<in> set (db_occurrences db)" "oc_incident_id oc = Some (in_id i)"
  let ?f = "\<lambda>r. if (case oc_incident_id r of None \<Rightarrow> False | Some k \<Rightarrow> k \<in> ids)
                then r\<lparr>oc_incident_id := None\<rparr> else r"
  have "?f oc = oc" using oc(2) \<open>in_id i \<notin> ids\<close> by simp
  from fixed_in_map [of oc _ ?f, OF oc(1) this] show "oc \<in> set (db_occurrences db')"
    by (simp add: db' delete_incidents_def)
qed

lemma delete_terminal_keeps:
  assumes "delete_terminal_before ds cutoff limit = (rows, n)" "ledger_ok ds"
    and "d \<in> set ds" "nd_status d \<in> {StatusScheduled, StatusClaimed}"
  shows "d \<in> set rows"
proof -
  let ?P = "\<lambda>r. nd_created_at_ms r < cutoff \<and>
       nd_status r \<in> {StatusDelivered, StatusSuppressed, StatusFailed, OutcomeUnknown}"
  have distinct: "distinct (map nd_id ds)" using assms(2) by (simp add: ledger_ok_def)
  have "nd_id d \<notin> set (sql_first_ids ?P nd_created_at_ms k ds)" for k
  proof
    assume "nd_id d \<in> set (sql_first_ids ?P nd_created_at_ms k ds)"
    then obtain r where r: "r \<in> set ds" "?P r" "nd_id r = nd_id d"
      by (auto simp: sql_first_ids_def dest!: in_set_takeD)
    then have "r = d" using same_id [OF distinct _ assms(3)] by blast
    then show False using r(2) assms(4) by auto
  qed
  then show ?thesis using assms(1,3) by (auto simp: delete_terminal_before_def Let_def)
qed

text \<open>
  Retention keeps what is active. However old an incident is and whatever the retention settings, a
  round of retention deletes no incident that is not resolved, none of its occurrences, no attention row
  and no scheduled or claimed notification of it.
\<close>
theorem retention_keeps_active:
  assumes "db_ok db" "retention_run db now occ_days del_days del_resolved batch = Inr (db', report)"
    and "i \<in> set (db_incidents db)" "in_lifecycle_state i \<noteq> Resolved"
  shows "i \<in> set (db_incidents db') \<and>
    {oc \<in> set (db_occurrences db). oc_incident_id oc = Some (in_id i)} \<subseteq> set (db_occurrences db') \<and>
    {a \<in> set (db_attention db). at_incident_id a = in_id i} \<subseteq> set (db_attention db') \<and>
    {d \<in> set (db_deliveries db). nd_incident_id d = in_id i \<and> nd_status d \<in> {StatusScheduled, StatusClaimed}}
      \<subseteq> set (db_deliveries db')"
proof -
  let ?b = "clamp_batch batch"
  obtain rows n1 db2 n2 db3 n3 where
    d: "delete_terminal_before (db_deliveries db) (retention_cutoff now del_days) ?b = (rows, n1)" and
    o: "delete_retained_before (db\<lparr>db_deliveries := rows\<rparr>) (retention_cutoff now occ_days) ?b = (db2, n2)" and
    r: "(if del_resolved then delete_resolved db2 ?b else (db2, 0)) = (db3, n3)" and db': "db' = db3"
    using assms(2) by (auto simp: retention_run_def Let_def split: if_splits prod.splits)
  have ok1: "db_ok (db\<lparr>db_deliveries := rows\<rparr>)"
    using db_ok_ledger_step [OF assms(1), of "DeleteTerminal (retention_cutoff now del_days) ?b"] d by simp
  note ok2 = delete_retained_ok [OF ok1 o]
  note only = delete_retained_only [OF o]
  have same: "db_incidents db2 = db_incidents db" "db_attention db2 = db_attention db" "db_deliveries db2 = rows"
    by (subst only, simp)+
  have ledger: "ledger_ok (db_deliveries db)" using assms(1) by (simp add: db_ok_def deliveries_ok_def)
  have i2: "i \<in> set (db_incidents db2)" using assms(3) same by simp
  have occ: "oc \<in> set (db_occurrences db2)"
      if "oc \<in> set (db_occurrences db)" "oc_incident_id oc = Some (in_id i)" for oc
    using delete_retained_keeps [OF o ok1 _ that(2) _ assms(4)] that(1) assms(3) by simp
  note del = delete_terminal_keeps [OF d ledger]
  show ?thesis
  proof (cases del_resolved)
    case True
    then have "delete_resolved db2 ?b = (db', n3)" using r db' by simp
    note kept = delete_resolved_keeps [OF this ok2 i2 assms(4)]
    show ?thesis using kept(1) kept(2-4) [unfolded same] occ del by auto
  next
    case False
    then show ?thesis using r db' i2 occ del same by auto
  qed
qed

lemma sample_retention: "\<exists>db r. retention_run sample_db 100 1 1 True 10 = Inr (db, r)"
  by (simp add: retention_run_def Let_def case_prod_beta)

theorem retention_keeps_active_witness:
  "\<exists>db r. retention_run sample_db 100 1 1 True 10 = Inr (db, r) \<and> sample_incident \<in> set (db_incidents db)"
proof -
  obtain db r where run: "retention_run sample_db 100 1 1 True 10 = Inr (db, r)" using sample_retention by blast
  have "sample_incident \<in> set (db_incidents db)"
    using retention_keeps_active [OF sample_db_ok run, of sample_incident] by (simp add: sample_db_facts)
  with run show ?thesis by blast
qed

section \<open>Ingress and reconciliation\<close>

text \<open>
  Ingress writes the fingerprint of a policy as its id and revision around a colon, reconciliation as a
  hexadecimal digest: the one never equals the other.
\<close>

lemma reconciled_changed:
  assumes "in_lifecycle_policy_fingerprint i = profile_fingerprint p"
  shows "fst (reconciled env ps now i)"
proof -
  have "CHR '':'' \<in> set (in_lifecycle_policy_fingerprint i)" using assms by (simp add: profile_fingerprint_def)
  then have "in_lifecycle_policy_fingerprint i \<noteq> policy_fingerprint (ev_sha256 env) (ev_policy_json env) q" for q
    using policy_fingerprint_no_colon by metis
  then show ?thesis by (simp add: reconciled_def Let_def resolver_resolve_def resolve_with_policy_def)
qed

text \<open>
  What the loop does to a row between two observations: an observation is projected, then a round of the
  loop reconciles the incident if it is active.
\<close>

definition observe_then_reconcile ::
    "AlertEnv \<Rightarrow> AlertPolicy list \<Rightarrow> Incident \<Rightarrow> ObservationIngress \<times> i64 \<Rightarrow> Incident" where
  "observe_then_reconcile env policies i step =
     (case step of (x, now) \<Rightarrow>
        (case project_observation x (resolve_policy policies (match_context x)) i of
           Inl _ \<Rightarrow> i
         | Inr (j, _) \<Rightarrow>
             if in_lifecycle_state j \<in> active_states then fst (snd (reconciled env policies now j)) else j))"

definition needs_two :: "AlertPolicy \<Rightarrow> bool" where
  "needs_two p \<longleftrightarrow>
     ap_trigger_mode p = ConsecutiveOccurrences \<and> (\<exists>n. ap_trigger_count p = Some n \<and> 2 \<le> n)"

definition starved :: "Incident \<Rightarrow> bool" where
  "starved i \<longleftrightarrow> in_lifecycle_state i = Pending \<and> in_consecutive_abnormal_count i = 0 \<or>
     in_lifecycle_state i = Resolved"

lemma not_yet: "needs_two p \<Longrightarrow> \<not> (case ap_trigger_count p of None \<Rightarrow> 1 | Some n \<Rightarrow> n) \<le> (1 :: u32)"
  by (auto simp: needs_two_def word_le_nat_alt)

lemma project_starved:
  assumes "needs_two p" "starved i" "project i ob p = (j, Inr t)"
  shows "in_lifecycle_state j \<in> {Pending, Resolved}"
proof -
  have fresh: "ob_observed_at_ms ob \<le> ob_fact_fresh_until_ms ob" "in_last_seen_at_ms i \<le> ob_observed_at_ms ob"
    using assms(3) by (auto simp: project_def split: if_splits)
  have mode: "ap_trigger_mode p = ConsecutiveOccurrences" using assms(1) by (simp add: needs_two_def)
  have one: "sat_add 0 1 = (1 :: u32)" by (simp add: sat_add_def)
  have "in_lifecycle_state (fst (apply_abnormal (observe_fact i ob) (ob_observed_at_ms ob)
           (ap_trigger_mode p) (ap_trigger_count p) (ap_trigger_duration_seconds p))) = Pending"
    using assms(2) not_yet [OF assms(1)] mode
    by (auto simp: starved_def apply_abnormal_def maybe_open_def observe_fact_def Let_def one)
  moreover have "in_lifecycle_state (fst (apply_healthy (observe_fact i ob) (ob_observed_at_ms ob)
           (ap_recovery_mode p) (ap_recovery_count p) (ap_recovery_duration_seconds p))) = Resolved"
    using assms(2) by (auto simp: starved_def apply_healthy_def observe_fact_def Let_def)
  ultimately show ?thesis
    using assms(2,3) project_fresh [OF fresh]
    by (cases "ob_kind ob") (auto simp: Let_def observe_fact_def starved_def)
qed

lemma prepare_starved: "starved (prepare_incident x p i) = starved i"
  by (simp add: starved_def prepare_incident_def)

lemma observe_then_reconcile_starved:
  assumes "needs_two (resolve_policy ps (match_context x))" "starved i"
  shows "starved (observe_then_reconcile env ps i (x, now))"
proof (cases "project_observation x (resolve_policy ps (match_context x)) i")
  case (Inl e)
  then show ?thesis using assms by (simp add: observe_then_reconcile_def)
next
  case (Inr v)
  let ?p = "resolve_policy ps (match_context x)"
  obtain j t where v: "v = (j, t)" by (cases v)
  have row: "project_observation x ?p i = Inr (j, t)" using Inr v by simp
  then obtain j0 where j0: "project (prepare_incident x ?p i) (observation_of x) ?p = (j0, Inr t)"
      "j = j0 \<or> j = j0\<lparr>in_version := 1\<rparr>"
    by (auto simp: project_observation_def split: prod.splits sum.splits if_splits)
  then have state: "in_lifecycle_state j \<in> {Pending, Resolved}"
    using project_starved [OF assms(1) _ j0(1)] assms(2) by (auto simp: prepare_starved)
  show ?thesis
  proof (cases "in_lifecycle_state j = Pending")
    case True
    have "fst (reconciled env ps now j)" using reconciled_changed project_observation_row(4) [OF row] by blast
    then have "starved (fst (snd (reconciled env ps now j)))"
      using True by (auto simp: reconciled_def Let_def reset_evaluation_epoch_def starved_def)
    then show ?thesis using row True by (simp add: observe_then_reconcile_def active_states_def)
  next
    case False
    then show ?thesis using row state by (auto simp: observe_then_reconcile_def active_states_def starved_def)
  qed
qed

text \<open>
  Reconciliation starves the count of a trigger. While a round of the loop runs between any two
  observations of a condition, a policy that asks for two or more consecutive occurrences never opens
  its incident, however many abnormal observations arrive: ingress and reconciliation write different
  fingerprints, so that each round takes the policy for changed and counts from zero again.
\<close>
theorem reconciliation_starves_counts:
  assumes "\<forall>(x, now) \<in> set steps. needs_two (resolve_policy policies (match_context x))"
  shows "in_lifecycle_state (foldl (observe_then_reconcile env policies) (fresh_incident x0 p0) steps)
           \<in> {Pending, Resolved}"
proof -
  have "starved (foldl (observe_then_reconcile env policies) i steps)" if "starved i" for i
    using assms that
  proof (induction steps arbitrary: i)
    case (Cons s steps)
    then show ?case using observe_then_reconcile_starved by (cases s) simp
  qed simp
  moreover have "starved (fresh_incident x0 p0)"
    by (simp add: starved_def fresh_incident_def incident_new_def)
  ultimately show ?thesis unfolding starved_def by blast
qed

definition sample_policy :: AlertPolicy where
  "sample_policy =
     (system_default_for_event (Some StationDown) SevWarning)\<lparr>ap_id := ''p1'', ap_trigger_count := Some 2\<rparr>"

definition sample_abnormal :: ObservationIngress where
  "sample_abnormal = sample_healthy\<lparr>ig_kind := Abnormal, ig_event_type := StationDown\<rparr>"

lemma sample_policy_governs: "needs_two (resolve_policy [sample_policy] (match_context sample_abnormal))"
  by (simp add: resolve_policy_def policy_matches_def match_context_def sample_abnormal_def sample_healthy_def
      sample_policy_def system_default_for_event_def Let_def needs_two_def is_none_or_def
      event_definition_def event_registry_def event_state_def event_audit_def)

theorem reconciliation_starves_counts_witness:
  "needs_two (resolve_policy [sample_policy] (match_context sample_abnormal)) \<and>
   in_lifecycle_state (foldl (observe_then_reconcile sample_env [sample_policy])
       (fresh_incident sample_abnormal sample_policy) [(sample_abnormal, 11), (sample_abnormal, 12), (sample_abnormal, 13)])
     \<in> {Pending, Resolved}"
  using reconciliation_starves_counts
      [of "[(sample_abnormal, 11), (sample_abnormal, 12), (sample_abnormal, 13)]" "[sample_policy]"
        sample_env sample_abnormal sample_policy]
    sample_policy_governs
  by simp

text \<open>
  A scheduled notification that fits the page of the statement is suppressed, whatever it is about.
\<close>

lemma suppress_covers:
  assumes "length (filter (\<lambda>d. nd_incident_id d = iid \<and> nd_episode_number d = ep \<and> nd_status d = StatusScheduled) ds)
             \<le> sql_limit 500 limit"
    and "r \<in> set (fst (suppress_scheduled_for_incident ds iid ep reason now limit))"
    and "nd_incident_id r = iid" "nd_episode_number r = ep"
  shows "nd_status r \<noteq> StatusScheduled"
proof
  assume scheduled: "nd_status r = StatusScheduled"
  let ?P = "\<lambda>d. nd_incident_id d = iid \<and> nd_episode_number d = ep \<and> nd_status d = StatusScheduled"
  let ?ids = "sql_first_ids ?P nd_scheduled_at_ms (sql_limit 500 limit) ds"
  from assms(2) obtain q where q: "q \<in> set ds" "r = (if nd_id q \<in> set ?ids
      then q\<lparr>nd_status := StatusSuppressed, nd_suppressed_reason := Some reason, nd_updated_at_ms := now\<rparr> else q)"
    by (auto simp: suppress_scheduled_for_incident_def Let_def dest!: sql_update_member)
  have "set ?ids = nd_id ` {d \<in> set ds. ?P d}" using assms(1) by (simp add: sql_first_ids_def)
  moreover have "nd_id q \<notin> set ?ids" using q(2) scheduled by (auto split: if_splits)
  ultimately have "\<not> ?P q" using q(1) by blast
  moreover have "r = q" using q(2) \<open>nd_id q \<notin> set ?ids\<close> by simp
  ultimately show False using assms(3,4) scheduled by simp
qed

lemma update_snapshot_only: "update_snapshot_cas env db i v = Inr db1 \<Longrightarrow> db_deliveries db1 = db_deliveries db"
  by (auto simp: update_snapshot_cas_def case_prod_beta split: if_splits)

text \<open>
  C24: Reconciliation mutes what ingress scheduled. When the last write of an incident was an
  observation, the next round that reconciles it suppresses every notification of its episode that is
  still scheduled, up to a hundred of them, although no policy changed: a notification reaches its
  channel only if it is claimed before that.
\<close>
theorem reconciliation_mutes_notifications:
  assumes "in_lifecycle_policy_fingerprint i = profile_fingerprint p"
    and "reconcile_incident env policies settings now suppression_limit db i = Inr (db', u, s)"
    and "length (filter (\<lambda>d. nd_incident_id d = in_id i \<and> nd_episode_number d = in_episode_number i \<and>
                             nd_status d = StatusScheduled) (db_deliveries db)) \<le> 100"
  shows "{d \<in> set (db_deliveries db'). nd_incident_id d = in_id i \<and> nd_episode_number d = in_episode_number i \<and>
            nd_status d = StatusScheduled} = {}"
proof -
  obtain changed j q where r: "reconciled env policies now i = (changed, j, q)"
    by (cases "reconciled env policies now i")
  then have changed using reconciled_changed [OF assms(1), of env policies now] by simp
  let ?j = "j\<lparr>in_version := sat_add (in_version i) 1, in_updated_at_ms := max now (in_updated_at_ms i)\<rparr>"
  obtain db1 where up: "update_snapshot_cas env db ?j (in_version i) = Inr db1"
    and db': "db_deliveries db' = fst (suppress_scheduled_for_incident (db_deliveries db1) (in_id i)
                (in_episode_number i) PolicyMuted now suppression_limit)"
    using assms(2) r \<open>changed\<close>
    by (auto simp: reconcile_incident_def needs_update_def rbind_Inr_iff case_prod_beta)
  have "sql_limit 500 suppression_limit = 100" by (simp add: sql_limit_def suppression_limit_def)
  then show ?thesis
    using suppress_covers [of "in_id i" "in_episode_number i" "db_deliveries db" suppression_limit] assms(3)
      update_snapshot_only [OF up] by (auto simp: db')
qed

definition muted_incident :: Incident where
  "muted_incident = sample_incident\<lparr>in_lifecycle_policy_fingerprint := profile_fingerprint sample_policy\<rparr>"

definition muted_db :: AlertDb where
  "muted_db = sample_db\<lparr>db_policies := [sample_policy], db_incidents := [muted_incident]\<rparr>"

lemma sample_policy_resolved:
  "resolve_policy [sample_policy] \<lparr>mc_event_type = KeyInvalid, mc_base_severity = SevCritical,
     mc_station_id = None, mc_station_key_id = None\<rparr> = sample_policy"
  by (simp add: resolve_policy_def policy_matches_def sample_policy_def system_default_for_event_def Let_def
      is_none_or_def event_definition_def event_registry_def event_state_def event_audit_def)

lemma sample_policy_facts: "ap_id sample_policy = ''p1''" "ap_revision sample_policy = 1"
  by (simp_all add: sample_policy_def system_default_for_event_def Let_def)

definition muted_next :: Incident where
  "muted_next =
     muted_incident\<lparr>in_policy_id := Some ''p1'', in_policy_revision := Some 1,
       in_severity := effective_severity sample_policy SevCritical,
       in_lifecycle_policy_fingerprint := policy_fingerprint (ev_sha256 sample_env) (ev_policy_json sample_env) sample_policy,
       in_pending_since_ms := Some 100, in_consecutive_abnormal_count := 0, in_next_state_evaluation_at_ms := None\<rparr>"

lemma muted_resolved:
  "fst (reconciled sample_env [sample_policy] 100 muted_incident)"
  "fst (snd (reconciled sample_env [sample_policy] 100 muted_incident)) = muted_next"
proof -
  show changed: "fst (reconciled sample_env [sample_policy] 100 muted_incident)"
    by (rule reconciled_changed [of _ sample_policy]) (simp add: muted_incident_def)
  have i: "in_event_type muted_incident = KeyInvalid" "in_base_severity muted_incident = SevCritical"
      "in_station_id muted_incident = None" "in_station_key_id muted_incident = None"
      "in_lifecycle_state muted_incident = Pending"
    by (simp_all add: muted_incident_def sample_incident_def incident_new_def)
  have b: "muted_incident\<lparr>in_base_severity := SevCritical\<rparr> = muted_incident"
    by (simp add: muted_incident_def sample_incident_def incident_new_def)
  show "fst (snd (reconciled sample_env [sample_policy] 100 muted_incident)) = muted_next"
    using changed
    by (simp add: reconciled_def Let_def resolver_resolve_def resolve_with_policy_def i canonical_base_severity_def
        sample_policy_resolved reset_evaluation_epoch_def muted_next_def sample_policy_facts b)
qed

lemma muted_reconciled:
  "\<exists>db s. reconcile_incident sample_env [sample_policy] settings_default 100 suppression_limit muted_db muted_incident =
     Inr (db, 1, s)"
proof -
  obtain q where r: "reconciled sample_env [sample_policy] 100 muted_incident = (True, muted_next, q)"
    using muted_resolved by (cases "reconciled sample_env [sample_policy] 100 muted_incident") auto
  let ?j = "muted_next\<lparr>in_version := sat_add (in_version muted_incident) 1, in_updated_at_ms := max 100 (in_updated_at_ms muted_incident)\<rparr>"
  have "in_policy_id ?j = Some ''p1''" "in_station_id ?j = None" "in_station_key_id ?j = None"
      "in_id ?j = in_id muted_incident"
    by (simp_all add: muted_next_def muted_incident_def sample_incident_def incident_new_def)
  moreover have "map ap_id (db_policies muted_db) = [''p1'']" by (simp add: muted_db_def sample_policy_facts)
  ultimately have refs: "incident_refers muted_db ?j" by (simp add: incident_refers_def refers_def)
  have "incident_checks sample_env ?j"
    by (simp add: incident_checks_def muted_next_def muted_incident_def sample_incident_def incident_new_def
        nonneg_def sample_env_def sat_add_def)
  then have "\<exists>db1. update_snapshot_cas sample_env muted_db ?j (in_version muted_incident) = Inr db1"
    using refs by (simp add: update_snapshot_cas_def sql_update_def muted_db_def muted_next_def)
  then show ?thesis
    using r by (auto simp: reconcile_incident_def needs_update_def case_prod_beta)
qed

theorem reconciliation_mutes_notifications_witness:
  "\<exists>db s. reconcile_incident sample_env [sample_policy] settings_default 100 suppression_limit muted_db muted_incident =
     Inr (db, 1, s) \<and> {d \<in> set (db_deliveries db). nd_incident_id d = in_id muted_incident \<and>
       nd_episode_number d = in_episode_number muted_incident \<and> nd_status d = StatusScheduled} = {}"
proof -
  obtain db s where run: "reconcile_incident sample_env [sample_policy] settings_default 100 suppression_limit muted_db
      muted_incident = Inr (db, 1, s)" using muted_reconciled by blast
  have "db_deliveries muted_db = []" by (simp add: muted_db_def sample_db_def fresh_db_def)
  moreover have "in_lifecycle_policy_fingerprint muted_incident = profile_fingerprint sample_policy"
    by (simp add: muted_incident_def)
  ultimately show ?thesis
    using run reconciliation_mutes_notifications [OF _ run, of sample_policy] by simp
qed

section \<open>The virtual default policy\<close>

lemma policy_list_empty: "db_policies db = [] \<Longrightarrow> policy_list db = []"
  by (simp add: policy_list_def)

lemma unknown_policy_refused:
  assumes "in_policy_id i = Some q" "q \<notin> ap_id ` set (db_policies db)"
    and "r \<in> set (db_incidents db)" "in_id r = in_id i" "in_version r = v"
  shows "\<exists>e. update_snapshot_cas env db i v = Inl e"
proof -
  let ?P = "\<lambda>r. in_id r = in_id i \<and> in_version r = v"
  have "r \<in> set (filter ?P (db_incidents db))" using assms(3-5) by simp
  then have "length (filter ?P (db_incidents db)) \<noteq> 0" by (metis length_0_conv list.set(1) empty_iff)
  moreover have "\<not> incident_refers db i" using assms(1,2) by (simp add: incident_refers_def refers_def)
  ultimately show ?thesis by (auto simp: update_snapshot_cas_def sql_update_def)
qed

lemma reconcile_default_fails:
  assumes "in_policy_id i = None" "db_policies db = []" "i \<in> set (db_incidents db)"
  shows "\<exists>e. reconcile_incident env [] settings now limit db i = Inl e"
proof -
  obtain changed j p where r: "reconciled env [] now i = (changed, j, p)" by (cases "reconciled env [] now i")
  then have "ap_id p = ''system_default''"
    by (auto simp: reconciled_def Let_def resolver_resolve_def resolve_with_policy_def resolve_policy_def)
  then have j: "in_policy_id j = Some ''system_default''" "in_id j = in_id i"
    using reconciled_row [OF r] by simp_all
  let ?j = "j\<lparr>in_version := sat_add (in_version i) 1, in_updated_at_ms := max now (in_updated_at_ms i)\<rparr>"
  have "\<exists>e. update_snapshot_cas env db ?j (in_version i) = Inl e"
    by (rule unknown_policy_refused [of _ "''system_default''" _ i]) (use assms j in simp_all)
  moreover have "needs_update changed j i" using assms(1) j by (simp add: needs_update_def)
  ultimately show ?thesis using r by (auto simp: reconcile_incident_def)
qed

text \<open>
  C23: The virtual default policy stalls the loop. Without a policy of the user every incident is governed
  by the default policy, which has no row; reconciliation writes its id all the same, the foreign key
  refuses it, and the round ends there: as long as one incident is active no round claims, delivers,
  recovers or retains anything, and the database stays as it is.
\<close>
theorem default_policy_stalls_loop:
  assumes "db_ok db" "db_policies db = []" "load_settings env db = Inr settings" "0 \<le> now"
    and "j \<in> set (db_incidents db)" "in_lifecycle_state j \<in> active_states" "in_event_type j \<noteq> GroupMissing"
  shows "alerting_round env send (db, sq) now = ((db, sq), Inl Transient_reconcile)"
proof -
  have "list_active_page db None page_size \<noteq> []"
    using assms(5-7) by (auto simp: list_active_page_def page_size_def sql_limit_def filter_empty_conv)
  then obtain i rest where page: "list_active_page db None page_size = i # rest"
    by (cases "list_active_page db None page_size") auto
  then have i: "i \<in> set (db_incidents db)" using active_page_sub [of i db None page_size] by simp
  then have "policy_exists (referents db) (in_policy_id i)"
    using assms(1) by (simp add: db_ok_def incidents_ok_def)
  then have "in_policy_id i = None" using assms(2) by (cases "in_policy_id i") (simp_all add: policy_exists_def referents_def)
  from reconcile_default_fails [OF this assms(2) i] obtain e where
    "reconcile_incident env [] settings now suppression_limit db i = Inl e" by blast
  then have "reconcile_page env db None [] settings now = (db, Inl e)"
    using assms(4) page by (simp add: reconcile_page_def)
  then show ?thesis using assms(3) policy_list_empty [OF assms(2)] by (simp add: alerting_round_def)
qed

theorem default_policy_stalls_loop_witness:
  "alerting_round sample_env (\<lambda>_. None) (sample_db, 1) 100 = ((sample_db, 1), Inl Transient_reconcile)"
  by (rule default_policy_stalls_loop [OF sample_db_ok _ sample_settings, where j = sample_incident])
     (simp_all add: sample_db_facts active_states_def)

section \<open>Settings and recovery notifications\<close>

text \<open>The stored revision is never compared: a write with a stale revision is accepted after another one.\<close>

lemma stale_settings_accepted:
  assumes "update_settings env db s1 expected now1 = Inr (db1, t1)"
    and "update_settings env db s2 expected now2 = Inr (db2, t2)"
  shows "\<exists>db3. update_settings env db1 s2 expected now2 = Inr (db3, t2)"
  using assms by (auto simp: update_settings_def Let_def rbind_Inr_iff split: if_splits option.splits)

text \<open>
  The transaction that resolves an incident deletes it when resolved incidents are not kept, and with it
  the recovery notification it has just written.
\<close>

lemma recovery_notification_deleted:
  assumes "recovery_cleanup True settings ToResolved i db = Inr db'" "as_delete_resolved_incidents settings"
  shows "\<forall>d \<in> set (db_deliveries db'). nd_incident_id d \<noteq> in_id i"
proof -
  let ?ids = "incident_ids (\<lambda>j. in_id j = in_id i \<and> in_lifecycle_state j = Resolved) db"
  have "db' = delete_incidents db (set ?ids)" "length ?ids = 1"
    using assms by (simp_all add: recovery_cleanup_def delete_resolved_by_id_def Let_def split: if_splits)
  moreover have "set ?ids = {in_id i}"
  proof -
    obtain y where y: "filter (\<lambda>j. in_id j = in_id i \<and> in_lifecycle_state j = Resolved) (db_incidents db) = [y]"
      using \<open>length ?ids = 1\<close> by (auto simp: incident_ids_def length_Suc_conv)
    then have "in_id y = in_id i" using filter_set [of _ "db_incidents db"] by (metis (mono_tags, lifting) list.set_intros(1) mem_Collect_eq set_filter)
    then show ?thesis by (simp add: incident_ids_def y)
  qed
  ultimately show ?thesis by (simp add: delete_incidents_def)
qed

end
