(* ===== verification/Quality.thy ===== *)
theory Quality
  imports BTree
begin

text \<open>
  The quality projection of a station key (\<^verbatim>\<open>application/quality_projection.rs\<close>, production version
  \<^verbatim>\<open>routing_quality_v3\<close>): from the observations of attempts and probes to the reliability and latency
  scores the planner reads. Retries of one request are one sample; samples decay with their age in
  fixed-point arithmetic. Values of 64 bits are words, the 128-bit intermediate values natural numbers
  with their saturation written out.
\<close>

section \<open>Observations\<close>

datatype ObservationSource = RealRequest | ActiveProbe | Administrative

datatype TrafficEquivalence = ExactRequest | SameModelShape | EndpointOnly | Anonymous

datatype ObservationOutcome =
    Success | CredentialFailure | EndpointFailure | ModelFailure | RateLimited | Timeout | Cancelled | Unknown

datatype EventTimeStatus = ValidTime | MissingTime | InvalidTime

record ObservationScope =
  os_station_id :: "string option"
  os_station_key_id :: "string option"
  os_model :: "string option"
  os_endpoint_revision :: "i64 option"

text \<open>The fields of an observation that the projection reads.\<close>

record RoutingObservation =
  ro_id :: string
  ro_event_at_ms :: i64
  ro_scope :: ObservationScope
  ro_source :: ObservationSource
  ro_traffic_equivalence :: TrafficEquivalence
  ro_outcome :: ObservationOutcome
  ro_latency_ms :: "u32 option"
  ro_correlation_id :: string
  ro_attempt_index :: u16
  ro_station_key_lifecycle_revision :: u64
  ro_cluster_finalized :: bool
  ro_cluster_expected_attempt_count :: u16
  ro_boundary_crossed :: bool
  ro_event_time_status :: EventTimeStatus

fun is_quality_outcome :: "ObservationOutcome \<Rightarrow> bool" where
  "is_quality_outcome Cancelled = False"
| "is_quality_outcome Unknown = False"
| "is_quality_outcome _ = True"

definition observation_scope :: "RoutingObservation \<Rightarrow> string" where
  "observation_scope ob =
     (case os_station_key_id (ro_scope ob) of
        Some k \<Rightarrow> ''station_key:'' @ k
      | None \<Rightarrow> (case os_station_id (ro_scope ob) of
                  Some s \<Rightarrow> ''station:'' @ s
                | None \<Rightarrow> (case os_model (ro_scope ob) of
                            Some m \<Rightarrow> ''model:'' @ m
                          | None \<Rightarrow> ''global'')))"

section \<open>Configuration and results\<close>

record QualityProjectionConfig =
  qc_quality_policy_revision :: u64
  qc_recent_minimum_samples :: u64
  qc_historical_minimum_samples :: u64
  qc_optimistic_reliability_basis_points :: u16
  qc_optimistic_latency_ms :: u32
  qc_real_traffic_weight_basis_points :: u16
  qc_monitoring_weight_basis_points :: u16
  qc_real_source_eligible :: bool
  qc_monitoring_source_eligible :: bool
  qc_current_lifecycle_revision :: "u64 option"

definition quality_config_default :: QualityProjectionConfig where
  "quality_config_default =
     \<lparr>qc_quality_policy_revision = 1, qc_recent_minimum_samples = 5,
      qc_historical_minimum_samples = 15, qc_optimistic_reliability_basis_points = 9500,
      qc_optimistic_latency_ms = 2500, qc_real_traffic_weight_basis_points = 7000,
      qc_monitoring_weight_basis_points = 3000, qc_real_source_eligible = True,
      qc_monitoring_source_eligible = True, qc_current_lifecycle_revision = None\<rparr>"

record QualitySourceWindowSummary =
  qw_sample_count :: u64
  qw_effective_weight :: u64
  qw_success_weight :: u64
  qw_failure_weight :: u64
  qw_reliability_basis_points :: u16
  qw_minimum_met :: bool

record QualitySourceSummary =
  qss_eligible :: bool
  qss_effective_weight_basis_points :: u16
  qss_recent :: QualitySourceWindowSummary
  qss_historical :: QualitySourceWindowSummary
  qss_blended_reliability_basis_points :: u16

record QualityLatencySourceSummary =
  ql_recent_sample_count :: u64
  ql_recent_effective_weight :: u64
  ql_recent_weighted_latency_ms :: u32
  ql_recent_minimum_met :: bool
  ql_historical_sample_count :: u64
  ql_historical_effective_weight :: u64
  ql_historical_weighted_latency_ms :: u32
  ql_historical_minimum_met :: bool
  ql_blended_weighted_latency_ms :: u32

record QualityLatencySummary =
  qls_recent_sample_count :: u64
  qls_recent_effective_weight :: u64
  qls_recent_weighted_latency_ms :: u32
  qls_recent_minimum_met :: bool
  qls_historical_sample_count :: u64
  qls_historical_effective_weight :: u64
  qls_historical_weighted_latency_ms :: u32
  qls_historical_minimum_met :: bool
  qls_blended_weighted_latency_ms :: u32
  qls_real_source_weight_basis_points :: u16
  qls_monitoring_source_weight_basis_points :: u16
  qls_real_source :: QualityLatencySourceSummary
  qls_monitoring_source :: QualityLatencySourceSummary

datatype MonitoringSourceStatus = Comparable | NoEvidence | Incomparable | WeightZero | DisabledSource

record QualitySummary =
  qs_scope :: string
  qs_projector_version :: string
  qs_observation_count :: u64
  qs_effective_mass_basis_points :: u64
  qs_success_mass_basis_points :: u64
  qs_failure_mass_basis_points :: u64
  qs_reliability_basis_points :: u16
  qs_latency_coverage_basis_points :: u16
  qs_p95_latency_ms :: "u32 option"
  qs_responsiveness_basis_points :: u16
  qs_recent_observation_count :: u64
  qs_recent_effective_mass_basis_points :: u64
  qs_recent_success_mass_basis_points :: u64
  qs_recent_failure_mass_basis_points :: u64
  qs_recent_reliability_basis_points :: u16
  qs_recent_reliability_weight_basis_points :: u16
  qs_recent_responsiveness_weight_basis_points :: u16
  qs_recent_p95_latency_ms :: "u32 option"
  qs_recent_latency_coverage_basis_points :: u16
  qs_recent_responsiveness_basis_points :: u16
  qs_historical_observation_count :: u64
  qs_historical_effective_mass_basis_points :: u64
  qs_historical_success_mass_basis_points :: u64
  qs_historical_failure_mass_basis_points :: u64
  qs_historical_reliability_basis_points :: u16
  qs_historical_reliability_weight_basis_points :: u16
  qs_historical_responsiveness_weight_basis_points :: u16
  qs_historical_p95_latency_ms :: "u32 option"
  qs_historical_latency_coverage_basis_points :: u16
  qs_historical_responsiveness_basis_points :: u16
  qs_historical_age_window_days :: u16
  qs_historical_half_life_days :: u16
  qs_last_event_at_ms :: "i64 option"
  qs_checkpoint_sequence :: u64
  qs_quality_policy_revision :: u64
  qs_algorithm_version :: string
  qs_weight_scale :: u64
  qs_ratio_scale :: u64
  qs_recent_minimum_samples :: u64
  qs_historical_minimum_samples :: u64
  qs_optimistic_reliability_basis_points :: u16
  qs_optimistic_latency_ms :: u32
  qs_real_reliability_basis_points :: u16
  qs_monitoring_reliability_basis_points :: u16
  qs_real_source_weight_basis_points :: u16
  qs_monitoring_source_weight_basis_points :: u16
  qs_real_source_eligible :: bool
  qs_monitoring_source_eligible :: bool
  qs_monitoring_source_status :: MonitoringSourceStatus
  qs_real_source :: QualitySourceSummary
  qs_monitoring_source :: QualitySourceSummary
  qs_latency :: QualityLatencySummary
  qs_quality_unavailable :: bool
  qs_quality_basis :: string
  qs_last_real_route_sample_at_ms :: "i64 option"
  qs_idle_real_route_sample :: string
  qs_event_time_diagnostic :: "string option"
  qs_selected_observation_ids :: "string list"

section \<open>Weights\<close>

text \<open>Saturation of the 128-bit values; \<open>q32\<close> is the scale of the exponential.\<close>

definition u128_sat :: "nat \<Rightarrow> nat" where
  "u128_sat n = min n (2 ^ 128 - 1)"

definition q32 :: nat where "q32 = 2 ^ 32"

definition exp2_neg_binary_q32 :: "nat list" where
  "exp2_neg_binary_q32 =
     [2147483648, 3037000500, 3611622603, 3938502376, 4112874773, 4202935003, 4248701965,
      4271771996, 4283353945, 4289156690, 4292061010, 4293513907, 4294240540, 4294603903,
      4294785595, 4294876445, 4294921870, 4294944583, 4294955939, 4294961618, 4294964457,
      4294965876, 4294966586, 4294966941, 4294967119, 4294967207, 4294967252, 4294967274,
      4294967285, 4294967290, 4294967293, 4294967295, 4294967295]"

definition mul_q32 :: "nat \<Rightarrow> nat \<Rightarrow> nat" where
  "mul_q32 l r = (u128_sat (l * r) + q32 div 2) div q32"

text \<open>The loop over the table: the factor of every set bit of the fraction, the highest bit first.\<close>

fun mul_factors :: "nat \<Rightarrow> nat \<Rightarrow> nat list \<Rightarrow> nat \<Rightarrow> nat" where
  "mul_factors fraction index [] r = r"
| "mul_factors fraction index (f # fs) r =
     mul_factors fraction (Suc index) fs
       (if odd (fraction div 2 ^ (31 - index)) then mul_q32 r f else r)"

definition exp2_neg_ratio_q32 :: "nat \<Rightarrow> nat \<Rightarrow> nat" where
  "exp2_neg_ratio_q32 age half_life =
     (if half_life = 0 then 0
      else let ratio = age * q32 div half_life;
               integer = ratio div q32
           in if 128 \<le> integer then 0
              else mul_factors (ratio mod q32) 0 (tl exp2_neg_binary_q32) (q32 div 2 ^ integer))"

definition recent_window_ms :: i64 where "recent_window_ms = 24 * 60 * 60 * 1000"
definition history_window_ms :: i64 where "history_window_ms = 30 * 24 * 60 * 60 * 1000"
definition weight_scale :: nat where "weight_scale = 1000000"
definition ratio_scale :: nat where "ratio_scale = 1000000"
definition latency_scale :: nat where "latency_scale = 1000"
definition basis_points_scale :: nat where "basis_points_scale = 10000"
definition responsiveness_cap_ms :: nat where "responsiveness_cap_ms = 120000"

definition quality_weight_q32 :: "nat \<Rightarrow> nat" where
  "quality_weight_q32 age =
     (let recent = nat recent_window_ms
      in if age \<le> recent then exp2_neg_ratio_q32 age (72 * 60 * 60 * 1000)
         else mul_q32 (exp2_neg_ratio_q32 recent (72 * 60 * 60 * 1000))
                (exp2_neg_ratio_q32 (age - recent) (24 * 60 * 60 * 1000)))"

definition quality_weight_fixed :: "i64 \<Rightarrow> u64" where
  "quality_weight_fixed age_ms =
     (let q = quality_weight_q32 (nat (max age_ms 0));
          quantized = (q * weight_scale + 2 ^ 31) div 2 ^ 32
      in if q = 0 then 0 else of_nat (min (max quantized 1) weight_scale))"

section \<open>Ratios\<close>

definition ratio_bp :: "u64 \<Rightarrow> u64 \<Rightarrow> u16" where
  "ratio_bp numerator denominator =
     (if denominator = 0 then 0
      else of_nat (min ((unat numerator * 10000 + unat denominator div 2) div unat denominator) 10000))"

definition recent_ratio_fixed :: "u64 \<Rightarrow> u64" where
  "recent_ratio_fixed n =
     (if n = 0 then 0
      else let denominator = unat n + 20
           in of_nat (min ((ratio_scale * unat n + denominator div 2) div denominator)
                        (ratio_scale * 9 div 10)))"

definition ratio_to_basis_points :: "u64 \<Rightarrow> u16" where
  "ratio_to_basis_points v =
     of_nat (min ((min (unat v) ratio_scale * basis_points_scale + ratio_scale div 2) div ratio_scale)
               basis_points_scale)"

definition recent_ratio_basis_points :: "u64 \<Rightarrow> u16" where
  "recent_ratio_basis_points n = ratio_to_basis_points (recent_ratio_fixed n)"

definition blend_basis_points :: "u16 \<Rightarrow> u16 \<Rightarrow> u16 \<Rightarrow> u16" where
  "blend_basis_points l r w =
     (let sum = unat l * unat w + unat r * (basis_points_scale - unat w)
      in of_nat (min ((sum + basis_points_scale div 2) div basis_points_scale) 10000))"

definition blend_ratio_u16 :: "u16 \<Rightarrow> u16 \<Rightarrow> u64 \<Rightarrow> u16" where
  "blend_ratio_u16 l r w =
     (let sum = unat l * unat w + unat r * (ratio_scale - min (unat w) ratio_scale)
      in of_nat (min ((sum + ratio_scale div 2) div ratio_scale) 10000))"

definition blend_scaled_u64 :: "u64 \<Rightarrow> u64 \<Rightarrow> u64 \<Rightarrow> u64" where
  "blend_scaled_u64 l r w =
     (let sum = unat l * unat w + unat r * (ratio_scale - min (unat w) ratio_scale);
          v = (sum + ratio_scale div 2) div ratio_scale
      in if v < 2 ^ 64 then of_nat v else - 1)"

definition scaled_latency_ms :: "u64 \<Rightarrow> u32" where
  "scaled_latency_ms v =
     of_nat (min (unat (sat_add v (of_nat (latency_scale div 2))) div latency_scale) (2 ^ 32 - 1))"

definition responsiveness_score_v3 :: "u32 \<Rightarrow> u16" where
  "responsiveness_score_v3 latency =
     of_nat ((responsiveness_cap_ms - min (unat latency) responsiveness_cap_ms) * 10000
               div responsiveness_cap_ms)"

section \<open>Windows and sources\<close>

record V3WindowResult =
  wr_sample_count :: u64
  wr_effective_weight :: u64
  wr_success_weight :: u64
  wr_failure_weight :: u64
  wr_latency_sample_count :: u64
  wr_latency_weight :: u64
  wr_latency_sum :: nat

definition window_empty :: V3WindowResult where
  "window_empty =
     \<lparr>wr_sample_count = 0, wr_effective_weight = 0, wr_success_weight = 0, wr_failure_weight = 0,
      wr_latency_sample_count = 0, wr_latency_weight = 0, wr_latency_sum = 0\<rparr>"

definition window_add :: "V3WindowResult \<Rightarrow> RoutingObservation \<Rightarrow> u64 \<Rightarrow> V3WindowResult" where
  "window_add w ob weight =
     (if \<not> is_quality_outcome (ro_outcome ob) \<or> \<not> ro_boundary_crossed ob then w
      else let w = w\<lparr>wr_sample_count := sat_add (wr_sample_count w) 1,
                     wr_effective_weight := sat_add (wr_effective_weight w) weight\<rparr>
           in if ro_outcome ob = Success
              then let w = w\<lparr>wr_success_weight := sat_add (wr_success_weight w) weight\<rparr>
                   in (case ro_latency_ms ob of
                         None \<Rightarrow> w
                       | Some l \<Rightarrow>
                           w\<lparr>wr_latency_sample_count := sat_add (wr_latency_sample_count w) 1,
                             wr_latency_weight := sat_add (wr_latency_weight w) weight,
                             wr_latency_sum := u128_sat (wr_latency_sum w + unat l * unat weight)\<rparr>)
              else w\<lparr>wr_failure_weight := sat_add (wr_failure_weight w) weight\<rparr>)"

definition window_reliability :: "V3WindowResult \<Rightarrow> u64 \<Rightarrow> u16 \<Rightarrow> u16" where
  "window_reliability w minimum optimistic =
     (if wr_sample_count w < minimum \<or> wr_effective_weight w = 0 then optimistic
      else ratio_bp (wr_success_weight w) (wr_effective_weight w))"

definition latency_scaled :: "V3WindowResult \<Rightarrow> u64 \<Rightarrow> u32 \<Rightarrow> u64" where
  "latency_scaled w minimum optimistic =
     (if wr_latency_sample_count w < minimum \<or> wr_latency_weight w = 0
      then sat_mul (ucast optimistic) (of_nat latency_scale)
      else let v = (u128_sat (wr_latency_sum w * latency_scale) + unat (wr_latency_weight w) div 2)
                     div unat (wr_latency_weight w)
           in of_nat (min v (2 ^ 64 - 1)))"

record V3SourceResult =
  sr_recent :: V3WindowResult
  sr_historical :: V3WindowResult
  sr_last_valid_event_at_ms :: "i64 option"
  sr_had_invalid_event_time :: bool
  sr_selected_count :: u64

definition source_empty :: V3SourceResult where
  "source_empty =
     \<lparr>sr_recent = window_empty, sr_historical = window_empty, sr_last_valid_event_at_ms = None,
      sr_had_invalid_event_time = False, sr_selected_count = 0\<rparr>"

record LatencyResult =
  lr_recent_scaled :: u64
  lr_historical_scaled :: u64
  lr_blended_scaled :: u64
  lr_recent_ratio :: u64
  lr_recent_ready :: bool
  lr_historical_ready :: bool

definition source_latency :: "V3SourceResult \<Rightarrow> QualityProjectionConfig \<Rightarrow> LatencyResult" where
  "source_latency s config =
     (let recent = latency_scaled (sr_recent s) (qc_recent_minimum_samples config)
                     (qc_optimistic_latency_ms config);
          historical = latency_scaled (sr_historical s) (qc_historical_minimum_samples config)
                         (qc_optimistic_latency_ms config);
          ratio = recent_ratio_fixed (wr_latency_sample_count (sr_recent s))
      in \<lparr>lr_recent_scaled = recent, lr_historical_scaled = historical,
          lr_blended_scaled = blend_scaled_u64 recent historical ratio, lr_recent_ratio = ratio,
          lr_recent_ready = (qc_recent_minimum_samples config \<le> wr_latency_sample_count (sr_recent s)),
          lr_historical_ready =
            (qc_historical_minimum_samples config \<le> wr_latency_sample_count (sr_historical s))\<rparr>)"

text \<open>The share of the real source in basis points, rounded.\<close>

definition effective_share :: "u16 \<Rightarrow> u16 \<Rightarrow> u16" where
  "effective_share real_weight monitoring_weight =
     (let total = unat real_weight + unat monitoring_weight
      in of_nat ((unat real_weight * 10000 + total div 2) div total))"

definition mix_latency ::
    "LatencyResult \<Rightarrow> LatencyResult \<Rightarrow> u16 \<Rightarrow> u16 \<Rightarrow> u32 \<Rightarrow> LatencyResult" where
  "mix_latency real monitoring real_weight monitoring_weight optimistic_ms =
     (if unat real_weight + unat monitoring_weight = 0
      then let optimistic = sat_mul (ucast optimistic_ms) (of_nat latency_scale)
           in \<lparr>lr_recent_scaled = optimistic, lr_historical_scaled = optimistic,
               lr_blended_scaled = optimistic, lr_recent_ratio = 0, lr_recent_ready = False,
               lr_historical_ready = False\<rparr>
      else let effective_real = effective_share real_weight monitoring_weight;
               source_ratio = sat_mul (ucast effective_real) (of_nat (ratio_scale div 10000));
               recent_ratio = blend_scaled_u64 (lr_recent_ratio real) (lr_recent_ratio monitoring) source_ratio;
               recent = blend_scaled_u64 (lr_recent_scaled real) (lr_recent_scaled monitoring) source_ratio;
               historical = blend_scaled_u64 (lr_historical_scaled real)
                              (lr_historical_scaled monitoring) source_ratio
           in \<lparr>lr_recent_scaled = recent, lr_historical_scaled = historical,
               lr_blended_scaled = blend_scaled_u64 recent historical recent_ratio,
               lr_recent_ratio = recent_ratio,
               lr_recent_ready = ((effective_real = 0 \<or> lr_recent_ready real) \<and>
                                  (effective_real = 10000 \<or> lr_recent_ready monitoring)),
               lr_historical_ready = ((effective_real = 0 \<or> lr_historical_ready real) \<and>
                                      (effective_real = 10000 \<or> lr_historical_ready monitoring))\<rparr>)"

definition quality_latency_source_summary ::
    "V3SourceResult \<Rightarrow> LatencyResult \<Rightarrow> QualityLatencySourceSummary" where
  "quality_latency_source_summary s l =
     \<lparr>ql_recent_sample_count = wr_latency_sample_count (sr_recent s),
      ql_recent_effective_weight = wr_latency_weight (sr_recent s),
      ql_recent_weighted_latency_ms = scaled_latency_ms (lr_recent_scaled l),
      ql_recent_minimum_met = lr_recent_ready l,
      ql_historical_sample_count = wr_latency_sample_count (sr_historical s),
      ql_historical_effective_weight = wr_latency_weight (sr_historical s),
      ql_historical_weighted_latency_ms = scaled_latency_ms (lr_historical_scaled l),
      ql_historical_minimum_met = lr_historical_ready l,
      ql_blended_weighted_latency_ms = scaled_latency_ms (lr_blended_scaled l)\<rparr>"

definition combined_latency_coverage :: "V3WindowResult \<Rightarrow> V3WindowResult \<Rightarrow> u16" where
  "combined_latency_coverage recent historical =
     (let effective = sat_add (wr_effective_weight recent) (wr_effective_weight historical);
          latency = sat_add (wr_latency_weight recent) (wr_latency_weight historical)
      in if effective = 0 then 0
         else of_nat (min (unat latency * basis_points_scale div unat effective) basis_points_scale))"

record ReliabilityResult =
  rr_recent :: u16
  rr_historical :: u16
  rr_blended :: u16
  rr_ready :: bool

definition source_reliability :: "V3SourceResult \<Rightarrow> QualityProjectionConfig \<Rightarrow> ReliabilityResult" where
  "source_reliability s config =
     (let recent = window_reliability (sr_recent s) (qc_recent_minimum_samples config)
                     (qc_optimistic_reliability_basis_points config);
          historical = window_reliability (sr_historical s) (qc_historical_minimum_samples config)
                         (qc_optimistic_reliability_basis_points config)
      in \<lparr>rr_recent = recent, rr_historical = historical,
          rr_blended = blend_ratio_u16 recent historical (recent_ratio_fixed (wr_sample_count (sr_recent s))),
          rr_ready = (qc_recent_minimum_samples config \<le> wr_sample_count (sr_recent s) \<or>
                      qc_historical_minimum_samples config \<le> wr_sample_count (sr_historical s))\<rparr>)"

definition window_summary :: "V3WindowResult \<Rightarrow> u16 \<Rightarrow> u64 \<Rightarrow> QualitySourceWindowSummary" where
  "window_summary w reliability minimum =
     \<lparr>qw_sample_count = wr_sample_count w, qw_effective_weight = wr_effective_weight w,
      qw_success_weight = wr_success_weight w, qw_failure_weight = wr_failure_weight w,
      qw_reliability_basis_points = reliability, qw_minimum_met = (minimum \<le> wr_sample_count w)\<rparr>"

definition quality_source_summary ::
    "V3SourceResult \<Rightarrow> ReliabilityResult \<Rightarrow> bool \<Rightarrow> u16 \<Rightarrow> QualityProjectionConfig \<Rightarrow> QualitySourceSummary" where
  "quality_source_summary s r eligible weight config =
     \<lparr>qss_eligible = eligible, qss_effective_weight_basis_points = weight,
      qss_recent = window_summary (sr_recent s) (rr_recent r) (qc_recent_minimum_samples config),
      qss_historical =
        window_summary (sr_historical s) (rr_historical r) (qc_historical_minimum_samples config),
      qss_blended_reliability_basis_points = rr_blended r\<rparr>"

definition mix_reliability ::
    "ReliabilityResult \<Rightarrow> ReliabilityResult \<Rightarrow> u16 \<Rightarrow> u16 \<Rightarrow> bool \<Rightarrow> bool \<Rightarrow> u16 \<times> u16 \<times> u16 \<times> bool" where
  "mix_reliability real monitoring configured_real configured_monitoring real_eligible monitoring_eligible =
     (let real_weight = (if real_eligible then configured_real else 0);
          monitoring_weight = (if monitoring_eligible then configured_monitoring else 0)
      in if unat real_weight + unat monitoring_weight = 0 then (0, 0, 0, True)
         else let effective_real = effective_share real_weight monitoring_weight
              in (blend_basis_points (rr_blended real) (rr_blended monitoring) effective_real,
                  effective_real, sat_sub 10000 effective_real, False))"

section \<open>Clusters\<close>

definition in_current_scope :: "string \<Rightarrow> QualityProjectionConfig \<Rightarrow> RoutingObservation \<Rightarrow> bool" where
  "in_current_scope scope config ob \<longleftrightarrow>
     observation_scope ob = scope \<and> os_station_key_id (ro_scope ob) \<noteq> None \<and>
     (case qc_current_lifecycle_revision config of
        None \<Rightarrow> True | Some r \<Rightarrow> ro_station_key_lifecycle_revision ob = r)"

definition is_monitoring_evidence ::
    "string \<Rightarrow> QualityProjectionConfig \<Rightarrow> i64 \<Rightarrow> RoutingObservation \<Rightarrow> bool" where
  "is_monitoring_evidence scope config now ob \<longleftrightarrow>
     in_current_scope scope config ob \<and> ro_source ob = ActiveProbe \<and>
     ro_traffic_equivalence ob \<noteq> Anonymous \<and> ro_boundary_crossed ob \<and>
     is_quality_outcome (ro_outcome ob) \<and> ro_event_time_status ob = ValidTime \<and>
     ro_event_at_ms ob \<le> now \<and> ro_correlation_id ob \<noteq> []"

definition monitoring_status ::
    "string \<Rightarrow> QualityProjectionConfig \<Rightarrow> i64 \<Rightarrow> RoutingObservation list \<Rightarrow> MonitoringSourceStatus" where
  "monitoring_status scope config now obs =
     (if \<not> qc_monitoring_source_eligible config then DisabledSource
      else if qc_monitoring_weight_basis_points config = 0 then WeightZero
      else if \<not> list_ex (is_monitoring_evidence scope config now) obs then NoEvidence
      else Comparable)"

definition projected :: "string \<Rightarrow> QualityProjectionConfig \<Rightarrow> RoutingObservation \<Rightarrow> bool" where
  "projected scope config ob \<longleftrightarrow>
     in_current_scope scope config ob \<and> ro_source ob \<noteq> Administrative \<and>
     ro_traffic_equivalence ob \<noteq> Anonymous"

definition invalid_real_time :: "RoutingObservation \<Rightarrow> bool" where
  "invalid_real_time ob \<longleftrightarrow> ro_source ob = RealRequest \<and> ro_event_time_status ob \<noteq> ValidTime"

type_synonym cluster_key = "string \<times> string \<times> u64 \<times> string"

definition cluster_key :: "RoutingObservation \<Rightarrow> cluster_key" where
  "cluster_key ob =
     (if ro_source ob = RealRequest then ''real_request'' else ''active_probe'',
      (case os_station_key_id (ro_scope ob) of None \<Rightarrow> [] | Some k \<Rightarrow> k),
      ro_station_key_lifecycle_revision ob, ro_correlation_id ob)"

definition push_cluster ::
    "(cluster_key, RoutingObservation list) btree \<Rightarrow> RoutingObservation \<Rightarrow>
     (cluster_key, RoutingObservation list) btree" where
  "push_cluster m ob =
     (if ro_correlation_id ob = [] then m
      else bt_insert (cluster_key ob)
             ((case map_of m (cluster_key ob) of None \<Rightarrow> [] | Some c \<Rightarrow> c) @ [ob]) m)"

definition clusters ::
    "string \<Rightarrow> QualityProjectionConfig \<Rightarrow> RoutingObservation list \<Rightarrow>
     (cluster_key, RoutingObservation list) btree" where
  "clusters scope config obs = foldl push_cluster [] (filter (projected scope config) obs)"

definition attempt_le :: "RoutingObservation \<Rightarrow> RoutingObservation \<Rightarrow> bool" where
  "attempt_le l r \<longleftrightarrow>
     (ro_attempt_index l, ro_event_at_ms l, ro_id l) \<le> (ro_attempt_index r, ro_event_at_ms r, ro_id r)"

definition later_attempt :: "RoutingObservation \<Rightarrow> RoutingObservation \<Rightarrow> RoutingObservation" where
  "later_attempt m ob =
     (if (ro_attempt_index m, ro_id m) \<le> (ro_attempt_index ob, ro_id ob) then ob else m)"

text \<open>\<^verbatim>\<open>Iterator::max_by\<close> on a non-empty cluster: the last of the greatest elements.\<close>

fun last_attempt :: "RoutingObservation list \<Rightarrow> RoutingObservation option" where
  "last_attempt [] = None"
| "last_attempt (ob # obs) = Some (foldl later_attempt ob obs)"

definition cluster_complete :: "RoutingObservation list \<Rightarrow> bool" where
  "cluster_complete cluster =
     (let expected = (case cluster of [] \<Rightarrow> 0 | ob # _ \<Rightarrow> ro_cluster_expected_attempt_count ob)
      in 0 < expected \<and>
         list_all (\<lambda>ob. ro_cluster_finalized ob \<and> ro_cluster_expected_attempt_count ob = expected) cluster)"

section \<open>The projection\<close>

record Tally =
  ta_real :: V3SourceResult
  ta_monitoring :: V3SourceResult
  ta_ids :: "string list"
  ta_recent :: u64
  ta_historical :: u64
  ta_invalid :: bool

definition source_add :: "V3SourceResult \<Rightarrow> bool \<Rightarrow> RoutingObservation \<Rightarrow> u64 \<Rightarrow> V3SourceResult" where
  "source_add s recent ob weight =
     (let s = s\<lparr>sr_selected_count := sat_add (sr_selected_count s) 1,
                sr_last_valid_event_at_ms :=
                  Some (case sr_last_valid_event_at_ms s of
                          None \<Rightarrow> ro_event_at_ms ob | Some v \<Rightarrow> max v (ro_event_at_ms ob))\<rparr>
      in if recent then s\<lparr>sr_recent := window_add (sr_recent s) ob weight\<rparr>
         else s\<lparr>sr_historical := window_add (sr_historical s) ob weight\<rparr>)"

definition tally_selected :: "i64 \<Rightarrow> bool \<Rightarrow> Tally \<Rightarrow> RoutingObservation \<Rightarrow> Tally" where
  "tally_selected now real t ob =
     (let t = t\<lparr>ta_ids := ta_ids t @ [ro_id ob]\<rparr>
      in if ro_event_time_status ob \<noteq> ValidTime \<or> \<not> ro_boundary_crossed ob \<or>
            \<not> is_quality_outcome (ro_outcome ob)
         then t\<lparr>ta_invalid := (ta_invalid t \<or> invalid_real_time ob)\<rparr>
         else if now < ro_event_at_ms ob then t
         else let age = i64_sat_sub now (ro_event_at_ms ob);
                  recent = (age \<le> recent_window_ms)
              in if \<not> recent \<and> history_window_ms \<le> age then t
                 else let t = (if real
                               then t\<lparr>ta_real := source_add (ta_real t) recent ob (quality_weight_fixed age)\<rparr>
                               else t\<lparr>ta_monitoring :=
                                        source_add (ta_monitoring t) recent ob (quality_weight_fixed age)\<rparr>)
                      in if recent then t\<lparr>ta_recent := sat_add (ta_recent t) 1\<rparr>
                         else t\<lparr>ta_historical := sat_add (ta_historical t) 1\<rparr>)"

definition tally_cluster :: "i64 \<Rightarrow> Tally \<Rightarrow> cluster_key \<times> RoutingObservation list \<Rightarrow> Tally" where
  "tally_cluster now t kc =
     (let cluster = sort_by attempt_le (snd kc)
      in if \<not> cluster_complete cluster then t
         else (case last_attempt cluster of
                 None \<Rightarrow> t
               | Some ob \<Rightarrow> tally_selected now (fst (fst kc) = ''real_request'') t ob))"

definition tally ::
    "string \<Rightarrow> QualityProjectionConfig \<Rightarrow> i64 \<Rightarrow> RoutingObservation list \<Rightarrow> Tally" where
  "tally scope config now obs =
     foldl (tally_cluster now)
       \<lparr>ta_real = source_empty, ta_monitoring = source_empty, ta_ids = [], ta_recent = 0,
        ta_historical = 0,
        ta_invalid = list_ex invalid_real_time (filter (projected scope config) obs)\<rparr>
       (clusters scope config obs)"

text \<open>The sum of a weight over both windows of both sources, in the order of the code.\<close>

definition total_weight :: "(V3WindowResult \<Rightarrow> u64) \<Rightarrow> V3SourceResult \<Rightarrow> V3SourceResult \<Rightarrow> u64" where
  "total_weight f real monitoring =
     sat_add (sat_add (sat_add (f (sr_recent real)) (f (sr_historical real))) (f (sr_recent monitoring)))
       (f (sr_historical monitoring))"

definition show_bool :: "bool \<Rightarrow> string" where
  "show_bool b = (if b then ''true'' else ''false'')"

definition summarize ::
    "string \<Rightarrow> QualityProjectionConfig \<Rightarrow> u64 \<Rightarrow> i64 \<Rightarrow> MonitoringSourceStatus \<Rightarrow> Tally \<Rightarrow> QualitySummary" where
  "summarize scope config checkpoint now status t =
     (let real = ta_real t; monitoring = ta_monitoring t; invalid = ta_invalid t;
          monitoring_eligible = qc_monitoring_source_eligible config;
          real_rel = source_reliability real config;
          monitoring_rel = source_reliability monitoring config
      in case mix_reliability real_rel monitoring_rel (qc_real_traffic_weight_basis_points config)
                (qc_monitoring_weight_basis_points config) (qc_real_source_eligible config)
                monitoring_eligible of
         (reliability, real_weight, monitoring_weight, unavailable) \<Rightarrow>
     (let real_lat = source_latency real config;
          monitoring_lat = source_latency monitoring config;
          mixed = mix_latency real_lat monitoring_lat real_weight monitoring_weight
                    (qc_optimistic_latency_ms config);
          blended_ms = scaled_latency_ms (lr_blended_scaled mixed);
          recent_ms = scaled_latency_ms (lr_recent_scaled mixed);
          historical_ms = scaled_latency_ms (lr_historical_scaled mixed);
          last_real = sr_last_valid_event_at_ms real;
          recent_bp = recent_ratio_basis_points (ta_recent t);
          latency_bp = ratio_to_basis_points (lr_recent_ratio mixed)
      in \<lparr>qs_scope = scope, qs_projector_version = ''routing_quality_v3'',
          qs_observation_count = sat_add (sr_selected_count real) (sr_selected_count monitoring),
          qs_effective_mass_basis_points = total_weight wr_effective_weight real monitoring,
          qs_success_mass_basis_points = total_weight wr_success_weight real monitoring,
          qs_failure_mass_basis_points = total_weight wr_failure_weight real monitoring,
          qs_reliability_basis_points = reliability,
          qs_latency_coverage_basis_points =
            max (combined_latency_coverage (sr_recent real) (sr_historical real))
                (combined_latency_coverage (sr_recent monitoring) (sr_historical monitoring)),
          qs_p95_latency_ms = None,
          qs_responsiveness_basis_points = responsiveness_score_v3 blended_ms,
          qs_recent_observation_count = ta_recent t,
          qs_recent_effective_mass_basis_points =
            sat_add (wr_effective_weight (sr_recent real)) (wr_effective_weight (sr_recent monitoring)),
          qs_recent_success_mass_basis_points =
            sat_add (wr_success_weight (sr_recent real)) (wr_success_weight (sr_recent monitoring)),
          qs_recent_failure_mass_basis_points =
            sat_add (wr_failure_weight (sr_recent real)) (wr_failure_weight (sr_recent monitoring)),
          qs_recent_reliability_basis_points = rr_recent real_rel,
          qs_recent_reliability_weight_basis_points = recent_bp,
          qs_recent_responsiveness_weight_basis_points = latency_bp,
          qs_recent_p95_latency_ms = None,
          qs_recent_latency_coverage_basis_points =
            combined_latency_coverage (sr_recent real) (sr_recent monitoring),
          qs_recent_responsiveness_basis_points = responsiveness_score_v3 recent_ms,
          qs_historical_observation_count = ta_historical t,
          qs_historical_effective_mass_basis_points =
            sat_add (wr_effective_weight (sr_historical real)) (wr_effective_weight (sr_historical monitoring)),
          qs_historical_success_mass_basis_points =
            sat_add (wr_success_weight (sr_historical real)) (wr_success_weight (sr_historical monitoring)),
          qs_historical_failure_mass_basis_points =
            sat_add (wr_failure_weight (sr_historical real)) (wr_failure_weight (sr_historical monitoring)),
          qs_historical_reliability_basis_points = rr_historical real_rel,
          qs_historical_reliability_weight_basis_points = sat_sub 10000 recent_bp,
          qs_historical_responsiveness_weight_basis_points = sat_sub 10000 latency_bp,
          qs_historical_p95_latency_ms = None,
          qs_historical_latency_coverage_basis_points =
            combined_latency_coverage (sr_historical real) (sr_historical monitoring),
          qs_historical_responsiveness_basis_points = responsiveness_score_v3 historical_ms,
          qs_historical_age_window_days = 30, qs_historical_half_life_days = 1,
          qs_last_event_at_ms =
            (case last_real of None \<Rightarrow> sr_last_valid_event_at_ms monitoring | Some v \<Rightarrow> Some v),
          qs_checkpoint_sequence = checkpoint,
          qs_quality_policy_revision = qc_quality_policy_revision config,
          qs_algorithm_version = ''routing_quality_v3'', qs_weight_scale = of_nat weight_scale,
          qs_ratio_scale = of_nat ratio_scale,
          qs_recent_minimum_samples = qc_recent_minimum_samples config,
          qs_historical_minimum_samples = qc_historical_minimum_samples config,
          qs_optimistic_reliability_basis_points = qc_optimistic_reliability_basis_points config,
          qs_optimistic_latency_ms = qc_optimistic_latency_ms config,
          qs_real_reliability_basis_points = rr_blended real_rel,
          qs_monitoring_reliability_basis_points = rr_blended monitoring_rel,
          qs_real_source_weight_basis_points = real_weight,
          qs_monitoring_source_weight_basis_points = monitoring_weight,
          qs_real_source_eligible = qc_real_source_eligible config,
          qs_monitoring_source_eligible = monitoring_eligible,
          qs_monitoring_source_status = status,
          qs_real_source =
            quality_source_summary real real_rel (qc_real_source_eligible config) real_weight config,
          qs_monitoring_source =
            quality_source_summary monitoring monitoring_rel monitoring_eligible monitoring_weight config,
          qs_latency =
            \<lparr>qls_recent_sample_count =
               sat_add (wr_latency_sample_count (sr_recent real)) (wr_latency_sample_count (sr_recent monitoring)),
             qls_recent_effective_weight =
               sat_add (wr_latency_weight (sr_recent real)) (wr_latency_weight (sr_recent monitoring)),
             qls_recent_weighted_latency_ms = recent_ms,
             qls_recent_minimum_met = lr_recent_ready mixed,
             qls_historical_sample_count =
               sat_add (wr_latency_sample_count (sr_historical real))
                 (wr_latency_sample_count (sr_historical monitoring)),
             qls_historical_effective_weight =
               sat_add (wr_latency_weight (sr_historical real)) (wr_latency_weight (sr_historical monitoring)),
             qls_historical_weighted_latency_ms = historical_ms,
             qls_historical_minimum_met = lr_historical_ready mixed,
             qls_blended_weighted_latency_ms = blended_ms,
             qls_real_source_weight_basis_points = real_weight,
             qls_monitoring_source_weight_basis_points = monitoring_weight,
             qls_real_source = quality_latency_source_summary real real_lat,
             qls_monitoring_source = quality_latency_source_summary monitoring monitoring_lat\<rparr>,
          qs_quality_unavailable = unavailable,
          qs_quality_basis =
            (if unavailable then ''QualityUnavailable''
             else if rr_ready real_rel \<or> rr_ready monitoring_rel then ''Observed''
             else ''OptimisticInsufficientSamples''),
          qs_last_real_route_sample_at_ms = last_real,
          qs_idle_real_route_sample =
            (if invalid \<or> sr_had_invalid_event_time real then ''unknown''
             else show_bool (case last_real of
                    None \<Rightarrow> True | Some v \<Rightarrow> recent_window_ms \<le> i64_sat_sub now v)),
          qs_event_time_diagnostic = (if invalid then Some ''event_time_missing_or_invalid'' else None),
          qs_selected_observation_ids = sort_by (\<le>) (ta_ids t)\<rparr>))"

definition rebuild_quality_summary_v3_at ::
    "string \<Rightarrow> RoutingObservation list \<Rightarrow> QualityProjectionConfig \<Rightarrow> u64 \<Rightarrow> i64 \<Rightarrow> QualitySummary" where
  "rebuild_quality_summary_v3_at scope obs config checkpoint evaluation_at_ms =
     (let now = max evaluation_at_ms 0
      in summarize scope config checkpoint now (monitoring_status scope config now obs)
           (tally scope config now obs))"

end
