(* ===== verification/QualityWeight.thy ===== *)
theory QualityWeight
  imports Quality Complex_Main
begin

text \<open>
  The fixed-point weights of samples against the real exponential they approximate: the table of binary
  exponents, the product over the bits of an age, and the weight of an age.
\<close>

section \<open>The table\<close>

text \<open>\<open>half_root k\<close> is \<open>2 powr -(1 / 2 ^ k)\<close>; \<open>brackets\<close> encloses it, scaled by \<open>2 ^ 64\<close>.\<close>

definition half_root :: "nat \<Rightarrow> real" where
  "half_root k = 2 powr (- (1 / 2 ^ k))"

lemma half_root_0: "half_root 0 = 1 / 2"
  by (simp add: half_root_def powr_minus_divide)

lemma half_root_square: "half_root (Suc k) ^ 2 = half_root k"
proof -
  have "half_root (Suc k) ^ 2 = 2 powr (2 * (- (1 / 2 ^ Suc k)))"
    unfolding half_root_def by (simp add: powr_powr flip: powr_numeral)
  then show ?thesis by (simp add: half_root_def)
qed

lemma half_root_bounds: "0 < half_root k" "half_root k \<le> 1"
  using powr_mono [of "- (1 / 2 ^ k)" 0 2] by (simp_all add: half_root_def)

definition roots :: "int list" where
  "roots =
     [9223372036854775808, 13043817825332782212, 15511800964685064948, 16915738899553466670,
      17664662643191237676, 18051468387014017850, 18248035989933441396, 18347121020861646923,
      18396865112328554660, 18421787711448657617, 18434261669329232139, 18440501815349552981,
      18443622680442407997, 18445183311048607331, 18445963675871538003, 18446353870663572144,
      18446548971154807801, 18446646522174239824, 18446695297877410578, 18446719685777359790,
      18446731879739425373, 18446737976723480911, 18446741025216264367, 18446742549462845017,
      18446743311586182573, 18446743692647863158, 18446743883178706403, 18446743978444128763,
      18446744026076840128, 18446744049893195856, 18446744061801373732, 18446744067755462673,
      18446744070732507144]"

definition bracketed :: "int \<Rightarrow> nat \<Rightarrow> bool" where
  "bracketed l k \<longleftrightarrow> l \<le> 2 ^ 64 * half_root k \<and> 2 ^ 64 * half_root k \<le> l + 4"

fun narrowing :: "int list \<Rightarrow> bool" where
  "narrowing (l # l' # ls) \<longleftrightarrow>
     0 \<le> l' \<and> l'\<^sup>2 \<le> 2 ^ 64 * l \<and> 2 ^ 64 * (l + 4) \<le> (l' + 4)\<^sup>2 \<and> narrowing (l' # ls)"
| "narrowing _ = True"

lemma bracketed_step:
  assumes "bracketed l k" "0 \<le> l'" "l'\<^sup>2 \<le> 2 ^ 64 * l" "2 ^ 64 * (l + 4) \<le> (l' + 4)\<^sup>2"
  shows "bracketed l' (Suc k)"
proof -
  let ?x = "2 ^ 64 * half_root (Suc k)"
  have x: "?x\<^sup>2 = 2 ^ 64 * (2 ^ 64 * half_root k)" "0 \<le> ?x"
    using half_root_bounds [of "Suc k"] half_root_square [of k] by (simp_all add: power_mult_distrib)
  have "real_of_int (l'\<^sup>2) \<le> real_of_int (2 ^ 64 * l)" using assms(3) by (simp only: of_int_le_iff)
  also have "real_of_int (2 ^ 64 * l) \<le> ?x\<^sup>2" using assms(1) x(1) by (simp add: bracketed_def)
  finally have low: "(real_of_int l')\<^sup>2 \<le> ?x\<^sup>2" by simp
  have "?x\<^sup>2 \<le> real_of_int (2 ^ 64 * (l + 4))" using assms(1) x(1) by (simp add: bracketed_def)
  also have "real_of_int (2 ^ 64 * (l + 4)) \<le> real_of_int ((l' + 4)\<^sup>2)"
    using assms(4) by (simp only: of_int_le_iff)
  finally have high: "?x\<^sup>2 \<le> (real_of_int l' + 4)\<^sup>2" by simp
  show ?thesis
    using power2_le_imp_le [OF low x(2)] power2_le_imp_le [OF high] assms(2) by (simp add: bracketed_def)
qed

lemma narrowing_brackets:
  "narrowing ls \<Longrightarrow> ls \<noteq> [] \<Longrightarrow> bracketed (hd ls) k \<Longrightarrow> i < length ls \<Longrightarrow> bracketed (ls ! i) (k + i)"
proof (induction ls arbitrary: k i rule: narrowing.induct)
  case (1 l l' ls)
  show ?case
  proof (cases i)
    case 0
    then show ?thesis using "1.prems"(3) by simp
  next
    case (Suc j)
    have "bracketed l' (Suc k)" using "1.prems" by (intro bracketed_step [of l]) simp_all
    then show ?thesis using "1.IH" [of "Suc k" j] "1.prems" Suc by simp
  qed
qed (auto simp: less_Suc_eq)

lemma roots_narrowing: "narrowing roots"
  by (simp add: roots_def)

lemma roots_close: "list_all2 (\<lambda>e l. \<bar>int e * 2 ^ 32 - l\<bar> \<le> 2 ^ 31) exp2_neg_binary_q32 roots"
  by (simp add: roots_def exp2_neg_binary_q32_def)

lemma roots_bracketed: "i < 33 \<Longrightarrow> bracketed (roots ! i) i"
  using narrowing_brackets [OF roots_narrowing, of 0 i]
  by (simp add: bracketed_def roots_def half_root_0)

text \<open>Every entry of the table is the exponential of its index, scaled by \<open>2 ^ 32\<close> and off by less than one.\<close>

lemma table_accurate:
  assumes "k < 33"
  shows "\<bar>real (exp2_neg_binary_q32 ! k) - 2 ^ 32 * half_root k\<bar> \<le> 1"
proof -
  let ?e = "exp2_neg_binary_q32 ! k" and ?l = "roots ! k"
  have "length exp2_neg_binary_q32 = 33" by (simp add: exp2_neg_binary_q32_def)
  then have "\<bar>int ?e * 2 ^ 32 - ?l\<bar> \<le> 2 ^ 31" using roots_close assms by (simp add: list_all2_conv_all_nth)
  then have "real_of_int \<bar>int ?e * 2 ^ 32 - ?l\<bar> \<le> real_of_int (2 ^ 31)" by (simp only: of_int_le_iff)
  then have "\<bar>real ?e * 2 ^ 32 - ?l\<bar> \<le> 2 ^ 31" by simp
  moreover have "bracketed ?l k" by (rule roots_bracketed [OF assms])
  ultimately have "\<bar>real ?e * 2 ^ 32 - 2 ^ 64 * half_root k\<bar> \<le> 2 ^ 31 + 4"
    unfolding bracketed_def abs_le_iff by linarith
  then show ?thesis by simp
qed

section \<open>The product\<close>

lemma round_div: "\<bar>real ((n + 2 ^ 31) div 2 ^ 32) - real n / 2 ^ 32\<bar> \<le> 1 / 2"
proof -
  let ?d = "(n + 2 ^ 31) div 2 ^ 32"
  have "?d * 2 ^ 32 \<le> n + 2 ^ 31" "n + 2 ^ 31 < ?d * 2 ^ 32 + 2 ^ 32"
  proof -
    have "n + 2 ^ 31 = ?d * 2 ^ 32 + (n + 2 ^ 31) mod 2 ^ 32" by (rule div_mult_mod_eq [symmetric])
    moreover have "(n + 2 ^ 31) mod 2 ^ 32 < 2 ^ 32" by simp
    ultimately show "?d * 2 ^ 32 \<le> n + 2 ^ 31" "n + 2 ^ 31 < ?d * 2 ^ 32 + 2 ^ 32" by linarith+
  qed
  then have "real ?d * 2 ^ 32 \<le> real n + 2 ^ 31" "real n + 2 ^ 31 < real ?d * 2 ^ 32 + 2 ^ 32"
    by (simp_all flip: of_nat_le_iff of_nat_less_iff)
  then show ?thesis by (simp add: abs_le_iff field_simps)
qed

lemma mul_q32_round:
  assumes "l \<le> q32" "r \<le> q32"
  shows "mul_q32 l r = (l * r + 2 ^ 31) div 2 ^ 32" and "mul_q32 l r \<le> q32"
proof -
  have prod: "l * r \<le> 2 ^ 32 * 2 ^ 32" using mult_le_mono [OF assms] by (simp add: q32_def)
  then have "u128_sat (l * r) = l * r" by (simp add: u128_sat_def)
  then show eq: "mul_q32 l r = (l * r + 2 ^ 31) div 2 ^ 32" by (simp add: mul_q32_def q32_def)
  have "(l * r + 2 ^ 31) div 2 ^ 32 \<le> (2 ^ 32 * 2 ^ 32 + 2 ^ 31) div (2 ^ 32 :: nat)"
    using prod by (intro div_le_mono) simp
  then show "mul_q32 l r \<le> q32" by (simp add: eq q32_def)
qed

definition close :: "nat \<Rightarrow> real \<Rightarrow> real \<Rightarrow> bool" where
  "close n x e \<longleftrightarrow> n \<le> q32 \<and> 0 \<le> x \<and> x \<le> 1 \<and> \<bar>real n - 2 ^ 32 * x\<bar> \<le> e"

lemma close_mono: "close n x d \<Longrightarrow> d \<le> e \<Longrightarrow> close n x e"
  by (simp add: close_def)

lemma close_mul:
  assumes "close l x d" "close r y e"
  shows "close (mul_q32 l r) (x * y) (d + e + 1 / 2)"
proof -
  note m = mul_q32_round [of l r]
  have l: "l \<le> q32" "0 \<le> x" "x \<le> 1" "\<bar>real l - 2 ^ 32 * x\<bar> \<le> d"
    and r: "r \<le> q32" "0 \<le> y" "y \<le> 1" "\<bar>real r - 2 ^ 32 * y\<bar> \<le> e"
    using assms by (simp_all add: close_def)
  have "real l * real r / 2 ^ 32 - 2 ^ 32 * (x * y) =
        (real l - 2 ^ 32 * x) * (real r / 2 ^ 32) + x * (real r - 2 ^ 32 * y)"
    by (simp add: field_simps)
  also have "\<bar>\<dots>\<bar> \<le> \<bar>real l - 2 ^ 32 * x\<bar> * (real r / 2 ^ 32) + x * \<bar>real r - 2 ^ 32 * y\<bar>"
    using l(2) by (intro order_trans [OF abs_triangle_ineq]) (simp add: abs_mult)
  also have "\<dots> \<le> d * 1 + 1 * e"
  proof (rule add_mono; rule mult_mono)
    show "real r / 2 ^ 32 \<le> 1" using r(1) by (simp add: q32_def flip: of_nat_le_iff)
  qed (use l r in auto)
  finally have exact: "\<bar>real l * real r / 2 ^ 32 - 2 ^ 32 * (x * y)\<bar> \<le> d + e" by simp
  have "\<bar>real (mul_q32 l r) - real l * real r / 2 ^ 32\<bar> \<le> 1 / 2"
    using round_div [of "l * r"] m(1) l(1) r(1) by simp
  then have "\<bar>real (mul_q32 l r) - 2 ^ 32 * (x * y)\<bar> \<le> d + e + 1 / 2" using exact by linarith
  then show ?thesis using m(2) l r by (simp add: close_def mult_le_one)
qed

lemma table_close: "k < 33 \<Longrightarrow> close (exp2_neg_binary_q32 ! k) (half_root k) 1"
proof -
  assume k: "k < 33"
  have "list_all (\<lambda>e. e \<le> q32) exp2_neg_binary_q32" by (simp add: exp2_neg_binary_q32_def q32_def)
  moreover have "length exp2_neg_binary_q32 = 33" by (simp add: exp2_neg_binary_q32_def)
  ultimately have "exp2_neg_binary_q32 ! k \<le> q32" using k by (simp add: list_all_length)
  then show ?thesis using table_accurate [OF k] half_root_bounds [of k] by (simp add: close_def)
qed

lemma mul_factors_close:
  assumes "i \<le> 32" "close r x e"
  shows "close (mul_factors fraction i (drop (Suc i) exp2_neg_binary_q32) r)
           (x * 2 powr (- (real (fraction mod 2 ^ (32 - i)) / 2 ^ 32))) (e + 3 / 2 * real (32 - i))"
  using assms
proof (induction "32 - i" arbitrary: i r x e)
  case 0
  then show ?case by (simp add: exp2_neg_binary_q32_def)
next
  case (Suc n)
  have i: "i < 32" "n = 32 - Suc i" "Suc i \<le> 32" using Suc.hyps(2) by linarith+
  let ?k = "31 - i" and ?f = "exp2_neg_binary_q32 ! Suc i"
  have len: "length exp2_neg_binary_q32 = 33" by (simp add: exp2_neg_binary_q32_def)
  then have drop: "drop (Suc i) exp2_neg_binary_q32 = ?f # drop (Suc (Suc i)) exp2_neg_binary_q32"
    using i(1) by (simp add: Cons_nth_drop_Suc)
  let ?bit = "fraction div 2 ^ ?k mod 2" and ?low = "fraction mod 2 ^ (32 - Suc i)"
  have k: "32 - i = Suc ?k" "32 - Suc i = ?k" using i(1) by simp_all
  have split: "fraction mod 2 ^ (32 - i) = ?bit * 2 ^ ?k + ?low"
    using mod_mult2_eq [of fraction "2 ^ ?k" 2] by (simp only: k power_Suc2) (simp add: mult.commute)
  have scale: "2 ^ ?k / 2 ^ 32 = (1 / 2 ^ Suc i :: real)"
  proof -
    have "(2 :: real) ^ 32 = 2 ^ (?k + Suc i)" using i(1) by (intro arg_cong [of _ _ "power 2"]) simp
    then show ?thesis by (simp only: power_add) simp
  qed
  show ?case
  proof (cases "odd (fraction div 2 ^ ?k)")
    case True
    then have "?bit = 1" by presburger
    then have eq: "real (fraction mod 2 ^ (32 - i)) / 2 ^ 32 = 1 / 2 ^ Suc i + real ?low / 2 ^ 32"
      unfolding split using scale by (simp add: add_divide_distrib)
    have pow: "2 powr (- (real (fraction mod 2 ^ (32 - i)) / 2 ^ 32)) =
        half_root (Suc i) * 2 powr (- (real ?low / 2 ^ 32))"
      unfolding eq half_root_def minus_add_distrib by (rule powr_add)
    have err: "e + 3 / 2 * real (32 - i) = e + 1 + 1 / 2 + 3 / 2 * real (32 - Suc i)" using k by simp
    have loop: "mul_factors fraction i (drop (Suc i) exp2_neg_binary_q32) r =
        mul_factors fraction (Suc i) (drop (Suc (Suc i)) exp2_neg_binary_q32) (mul_q32 r ?f)"
      unfolding drop using True by simp
    have "close (mul_q32 r ?f) (x * half_root (Suc i)) (e + 1 + 1 / 2)"
      using close_mul [OF Suc.prems(2) table_close [of "Suc i"]] i(1) by simp
    from Suc.hyps(1) [OF i(2,3) this] show ?thesis unfolding loop pow err mult.assoc .
  next
    case False
    then have "?bit = 0" by presburger
    then have low: "fraction mod 2 ^ (32 - i) = ?low" unfolding split by simp
    from Suc.hyps(1) [OF i(2,3) Suc.prems(2)] have
      "close (mul_factors fraction (Suc i) (drop (Suc (Suc i)) exp2_neg_binary_q32) r)
        (x * 2 powr (- (real ?low / 2 ^ 32))) (e + 3 / 2 * real (32 - Suc i))" .
    then have "close (mul_factors fraction (Suc i) (drop (Suc (Suc i)) exp2_neg_binary_q32) r)
        (x * 2 powr (- (real ?low / 2 ^ 32))) (e + 3 / 2 * real (32 - i))"
      by (rule close_mono) simp
    then show ?thesis using False low by (simp add: drop)
  qed
qed

section \<open>The exponential\<close>

lemma powr_close:
  assumes "u \<le> v"  "0 \<le> u"
  shows "2 powr (- v) \<le> 2 powr (- u)" and "2 powr (- u) - 2 powr (- v) \<le> v - (u :: real)"
proof -
  show "2 powr (- v) \<le> 2 powr (- u)" using assms by (intro powr_mono) simp_all
  have "1 - 2 powr (- (v - u)) \<le> (v - u) * ln 2"
    using exp_ge_add_one_self [of "(u - v) * ln 2"] by (simp add: powr_def algebra_simps)
  also have "\<dots> \<le> (v - u) * 1" using assms(1) ln_2_less_1 by (intro mult_left_mono) simp_all
  finally have d: "1 - 2 powr (- (v - u)) \<le> v - u" by simp
  have "2 powr (- v) = 2 powr (- u) * 2 powr (- (v - u))" by (simp flip: powr_add)
  then have "2 powr (- u) - 2 powr (- v) = 2 powr (- u) * (1 - 2 powr (- (v - u)))"
    by (simp add: algebra_simps)
  also have "\<dots> \<le> 1 * (v - u)"
    using d assms powr_mono [of "- u" 0 2] powr_mono [of "- (v - u)" 0 2] by (intro mult_mono) simp_all
  finally show "2 powr (- u) - 2 powr (- v) \<le> v - u" by simp
qed

lemma exp2_close:
  assumes "0 < h" "age \<le> 32 * h"
  shows "close (exp2_neg_ratio_q32 age h) (2 powr (- (real age / real h))) 49"
proof -
  let ?ratio = "age * q32 div h"
  let ?n = "?ratio div q32" and ?m = "?ratio mod q32"
  have "?ratio \<le> 32 * q32"
    using div_le_mono [of "age * q32" "32 * h * q32" h] assms by (simp add: mult.commute mult.left_commute)
  then have n: "?n \<le> 32" using div_le_mono [of ?ratio "32 * q32" q32] by (simp add: q32_def)
  have start: "close (q32 div 2 ^ ?n) (1 / 2 ^ ?n) 0"
  proof -
    have "(2 :: nat) ^ 32 div 2 ^ ?n = 2 ^ (32 - ?n)" using n by (simp add: power_diff)
    moreover have "(2 :: real) ^ (32 - ?n) = 2 ^ 32 / 2 ^ ?n" using n by (simp add: power_diff)
    ultimately have "real (q32 div 2 ^ ?n) = 2 ^ 32 / 2 ^ ?n" by (simp add: q32_def)
    moreover have "q32 div 2 ^ ?n \<le> q32" by simp
    ultimately show ?thesis by (simp add: close_def)
  qed
  have q: "real q32 = 2 ^ 32" by (simp add: q32_def)
  have m: "?m mod 2 ^ 32 = ?m" by (simp add: q32_def)
  have tl: "tl exp2_neg_binary_q32 = drop (Suc 0) exp2_neg_binary_q32" by (simp add: drop_Suc)
  have "close (exp2_neg_ratio_q32 age h) (1 / 2 ^ ?n * 2 powr (- (real ?m / 2 ^ 32))) 48"
    using mul_factors_close [OF _ start, of 0 ?m] n m assms(1)
    by (simp add: exp2_neg_ratio_q32_def Let_def tl)
  moreover have "1 / 2 ^ ?n * 2 powr (- (real ?m / 2 ^ 32)) = 2 powr (- (real ?ratio / 2 ^ 32))"
  proof -
    have "real ?ratio = real ?n * real q32 + real ?m"
      by (simp only: div_mult_mod_eq flip: of_nat_mult of_nat_add)
    then have "real ?ratio = real ?n * 2 ^ 32 + real ?m" by (simp only: q)
    then have "real ?ratio / 2 ^ 32 = real ?n + real ?m / 2 ^ 32" by (simp add: add_divide_distrib)
    then have "2 powr (- (real ?ratio / 2 ^ 32)) = 2 powr (- real ?n) * 2 powr (- (real ?m / 2 ^ 32))"
      by (simp only: minus_add_distrib powr_add)
    then show ?thesis by (simp add: powr_minus_divide powr_realpow)
  qed
  ultimately have c: "close (exp2_neg_ratio_q32 age h) (2 powr (- (real ?ratio / 2 ^ 32))) 48" by simp
  let ?u = "real ?ratio / 2 ^ 32" and ?v = "real age / real h"
  have "?ratio * h \<le> age * q32" "age * q32 \<le> ?ratio * h + h"
    using assms(1) div_mult_mod_eq [of "age * q32" h] mod_less_divisor [of h "age * q32"] by linarith+
  then have "real (?ratio * h) \<le> real (age * q32)" "real (age * q32) \<le> real (?ratio * h + h)"
    by (simp_all only: of_nat_le_iff)
  then have "real ?ratio * real h \<le> real age * 2 ^ 32" "real age * 2 ^ 32 \<le> real ?ratio * real h + real h"
    by (simp_all only: of_nat_mult of_nat_add q)
  then have uv: "?u \<le> ?v" "?v - ?u \<le> 1 / 2 ^ 32"
    using assms(1) by (simp_all add: field_simps)
  have near: "2 powr (- ?v) \<le> 2 powr (- ?u)" "2 powr (- ?u) - 2 powr (- ?v) \<le> 1 / 2 ^ 32"
    by (rule powr_close(1) [OF uv(1)], simp) (rule order_trans [OF powr_close(2) [OF uv(1)] uv(2)], simp)
  have scaled: "2 ^ 32 * b \<le> 2 ^ 32 * a \<and> 2 ^ 32 * a - 2 ^ 32 * b \<le> (1 :: real)"
    if "b \<le> a" "a - b \<le> 1 / 2 ^ 32" for a b :: real
    using that by simp
  from scaled [OF near] have "\<bar>2 ^ 32 * 2 powr (- ?u) - 2 ^ 32 * 2 powr (- ?v)\<bar> \<le> 1" by linarith
  then show ?thesis using c powr_mono [of "- ?v" 0 2] by (simp add: close_def abs_le_iff)
qed

section \<open>The weight of an age\<close>

text \<open>
  The decay of a sample of age \<open>a\<close> in milliseconds: a half-life of 72 hours for the first day, then of
  24 hours.
\<close>

definition time_decay :: "real \<Rightarrow> real" where
  "time_decay a =
     (if a \<le> 86400000 then 2 powr (- (a / 259200000))
      else 2 powr (- (86400000 / 259200000)) * 2 powr (- ((a - 86400000) / 86400000)))"

lemma third_root: "3 / 5 \<le> 2 powr (- (1 / 3 :: real))"
proof (rule ccontr)
  assume "\<not> 3 / 5 \<le> 2 powr (- (1 / 3 :: real))"
  then have "(2 powr (- (1 / 3 :: real))) ^ 3 < (3 / 5) ^ 3" by (intro power_strict_mono) simp_all
  moreover have "(2 powr (- (1 / 3 :: real))) ^ 3 = 2 powr (3 * (- (1 / 3)))"
    by (simp add: powr_powr flip: powr_numeral)
  ultimately show False by (simp add: powr_minus_divide power3_eq_cube)
qed

lemma boundary_factor:
  assumes "close b (2 powr (- (real 86400000 / real 259200000))) 49"
  shows "2 ^ 31 \<le> b"
proof -
  have "real 86400000 / real 259200000 = 1 / 3" by simp
  with assms have "\<bar>real b - 2 ^ 32 * 2 powr (- (1 / 3))\<bar> \<le> 49" unfolding close_def by metis
  moreover have "2 ^ 32 * (3 / 5) \<le> 2 ^ 32 * 2 powr (- (1 / 3 :: real))"
    by (rule mult_left_mono [OF third_root]) simp
  ultimately have "real (2 ^ 31) \<le> real b" by simp
  then show ?thesis by (simp only: of_nat_le_iff)
qed

lemma mul_q32_pos: "1 \<le> l \<Longrightarrow> l \<le> q32 \<Longrightarrow> 2 ^ 31 \<le> r \<Longrightarrow> r \<le> q32 \<Longrightarrow> 1 \<le> mul_q32 l r"
proof -
  assume a: "1 \<le> l" "l \<le> q32" "2 ^ 31 \<le> r" "r \<le> q32"
  then have "2 ^ 31 \<le> l * r" using mult_le_mono [of 1 l "2 ^ 31" r] by simp
  then have "(2 ^ 32 :: nat) div 2 ^ 32 \<le> (l * r + 2 ^ 31) div 2 ^ 32" by (intro div_le_mono) simp
  then show ?thesis using mul_q32_round(1) [OF a(2,4)] by simp
qed

lemma mul_factors_pos:
  "list_all (\<lambda>f. 2 ^ 31 \<le> f \<and> f \<le> q32) fs \<Longrightarrow> 1 \<le> r \<Longrightarrow> r \<le> q32 \<Longrightarrow> 1 \<le> mul_factors fraction i fs r"
proof (induction fs arbitrary: i r)
  case (Cons f fs)
  then show ?case using mul_q32_pos [of r f] mul_q32_round(2) [of r f] by simp
qed simp

lemma exp2_pos:
  assumes "0 < h" "age \<le> 32 * h"
  shows "1 \<le> exp2_neg_ratio_q32 age h"
proof -
  let ?ratio = "age * q32 div h"
  have "?ratio \<le> 32 * q32"
    using div_le_mono [of "age * q32" "32 * h * q32" h] assms by (simp add: mult.commute mult.left_commute)
  then have n: "?ratio div q32 \<le> 32" using div_le_mono [of ?ratio "32 * q32" q32] by (simp add: q32_def)
  then have "(2 :: nat) ^ (?ratio div q32) \<le> 2 ^ 32" by (intro power_increasing) simp_all
  then have "1 \<le> q32 div 2 ^ (?ratio div q32)"
    using div_le_mono [of "2 ^ (?ratio div q32)" q32 "2 ^ (?ratio div q32)"] by (simp add: q32_def)
  moreover have "list_all (\<lambda>f. 2 ^ 31 \<le> f \<and> f \<le> q32) (tl exp2_neg_binary_q32)"
    by (simp add: exp2_neg_binary_q32_def q32_def)
  ultimately show ?thesis
    using mul_factors_pos [of "tl exp2_neg_binary_q32" "q32 div 2 ^ (?ratio div q32)"] n assms(1)
    by (simp add: exp2_neg_ratio_q32_def Let_def)
qed

lemma weight_q32_close:
  assumes "age \<le> 2592000000"
  shows "close (quality_weight_q32 age) (time_decay (real age)) 99" and "1 \<le> quality_weight_q32 age"
proof -
  have "close (quality_weight_q32 age) (time_decay (real age)) 99 \<and> 1 \<le> quality_weight_q32 age"
  proof (cases "age \<le> 86400000")
    case True
    then show ?thesis
      using exp2_close [of 259200000 age] exp2_pos [of 259200000 age]
      by (auto simp: quality_weight_q32_def recent_window_ms_def time_decay_def elim: close_mono)
  next
    case False
    let ?b = "exp2_neg_ratio_q32 86400000 259200000" and ?h = "exp2_neg_ratio_q32 (age - 86400000) 86400000"
    have h: "close ?h (2 powr (- (real (age - 86400000) / real 86400000))) 49"
      using assms by (intro exp2_close) simp_all
    have b: "close ?b (2 powr (- (real 86400000 / real 259200000))) 49" by (intro exp2_close) simp_all
    have q: "quality_weight_q32 age = mul_q32 ?b ?h"
      using False by (simp add: quality_weight_q32_def recent_window_ms_def)
    have "real (age - 86400000) = real age - 86400000" using False by (simp add: of_nat_diff)
    then have "close (quality_weight_q32 age) (time_decay (real age)) 99"
      using close_mono [OF close_mul [OF b h], of 99] False by (simp add: q time_decay_def)
    moreover have "1 \<le> mul_q32 ?h ?b"
    proof (rule mul_q32_pos)
      show "1 \<le> ?h" using assms by (intro exp2_pos) simp_all
    qed (use h b boundary_factor [OF b] in \<open>simp_all only: close_def\<close>)
    ultimately show ?thesis by (simp add: q mul_q32_def mult.commute)
  qed
  then show "close (quality_weight_q32 age) (time_decay (real age)) 99" "1 \<le> quality_weight_q32 age" by blast+
qed

lemma quality_weight_value:
  assumes "0 \<le> age" "age \<le> history_window_ms"
  shows "unat (quality_weight_fixed age) =
    min (max ((quality_weight_q32 (nat age) * 10 ^ 6 + 2 ^ 31) div 2 ^ 32) 1) (10 ^ 6)"
proof -
  have "nat age \<le> 2592000000" using assms(2) by (simp add: history_window_ms_def)
  then have "quality_weight_q32 (nat age) \<noteq> 0" using weight_q32_close(2) [of "nat age"] by simp
  then show ?thesis
    using assms(1) by (simp add: quality_weight_fixed_def Let_def max_absorb1 weight_scale_def unat_of_nat_lt)
qed

text \<open>
  C13: Sample weights follow their specification. Within the history window the fixed-point weight of
  an age is positive and differs by at most one millionth from the exponential decay with a half-life of
  72 hours during the first day and of 24 hours afterwards.
\<close>
theorem quality_weight_accurate:
  assumes "0 \<le> age" "age \<le> history_window_ms"
  shows "1 \<le> unat (quality_weight_fixed age) \<and> unat (quality_weight_fixed age) \<le> 1000000 \<and>
         \<bar>real (unat (quality_weight_fixed age)) - 1000000 * time_decay (real_of_int age)\<bar> \<le> 1"
proof -
  let ?q = "quality_weight_q32 (nat age)" and ?x = "time_decay (real_of_int age)"
  let ?z = "(?q * 10 ^ 6 + 2 ^ 31) div 2 ^ 32 :: nat"
  have "nat age \<le> 2592000000" using assms(2) by (simp add: history_window_ms_def)
  from weight_q32_close(1) [OF this] have x: "0 \<le> ?x" "?x \<le> 1" "\<bar>real ?q - 2 ^ 32 * ?x\<bar> \<le> 99"
    using assms(1) by (simp_all add: close_def)
  have "\<bar>real ?z - real (?q * 10 ^ 6) / 2 ^ 32\<bar> \<le> 1 / 2" by (rule round_div)
  moreover have "\<bar>real (?q * 10 ^ 6) / 2 ^ 32 - 10 ^ 6 * ?x\<bar> \<le> 1 / 2"
    using x(3) by (simp add: abs_le_iff field_simps)
  ultimately have z: "\<bar>real ?z - 10 ^ 6 * ?x\<bar> \<le> 1" by linarith
  have "\<bar>real (min (max ?z 1) (10 ^ 6)) - 10 ^ 6 * ?x\<bar> \<le> 1"
    using z x(1,2) by (auto simp: min_def max_def abs_le_iff)
  moreover have "1 \<le> min (max ?z 1) (10 ^ 6)" "min (max ?z 1) (10 ^ 6) \<le> 1000000" by simp_all
  moreover have "(10 :: real) ^ 6 = 1000000" by simp
  ultimately show ?thesis unfolding quality_weight_value [OF assms] by metis
qed

theorem quality_weight_accurate_witness:
  "1 \<le> unat (quality_weight_fixed 172800000) \<and> unat (quality_weight_fixed 172800000) \<le> 1000000 \<and>
   \<bar>real (unat (quality_weight_fixed 172800000)) - 1000000 * time_decay 172800000\<bar> \<le> 1"
  using quality_weight_accurate [of 172800000] by (simp add: history_window_ms_def)

end
