(* ===== verification/QualityCorrect.thy ===== *)
theory QualityCorrect
  imports QualityWeight
begin

text \<open>
  Correctness of the quality projection: what it counts, that neither the order nor the repetition of
  observations matters, and the range of its scores.
\<close>

section \<open>Clusters\<close>

definition attempt_key :: "RoutingObservation \<Rightarrow> u16 \<times> string" where
  "attempt_key ob = (ro_attempt_index ob, ro_id ob)"

lemma foldl_later_attempt:
  "foldl later_attempt m obs \<in> insert m (set obs) \<and>
   (\<forall>ob \<in> insert m (set obs). attempt_key ob \<le> attempt_key (foldl later_attempt m obs))"
proof (induction obs arbitrary: m)
  case (Cons ob obs)
  have step: "later_attempt m ob \<in> {m, ob}" "attempt_key m \<le> attempt_key (later_attempt m ob)"
      "attempt_key ob \<le> attempt_key (later_attempt m ob)"
    by (auto simp: later_attempt_def attempt_key_def less_eq_prod_def)
  have "foldl later_attempt m (ob # obs) = foldl later_attempt (later_attempt m ob) obs" by simp
  then show ?case using Cons.IH [of "later_attempt m ob"] step by (auto intro: order_trans)
qed simp

lemma last_attempt_Some:
  assumes "last_attempt obs = Some ob"
  shows "ob \<in> set obs" and "\<forall>y \<in> set obs. attempt_key y \<le> attempt_key ob"
  using assms foldl_later_attempt by (cases obs; force)+

definition complete_set :: "RoutingObservation set \<Rightarrow> bool" where
  "complete_set C \<longleftrightarrow>
     (\<exists>e > 0. \<forall>ob \<in> C. ro_cluster_finalized ob \<and> ro_cluster_expected_attempt_count ob = e)"

lemma cluster_complete_set: "c \<noteq> [] \<Longrightarrow> cluster_complete c \<longleftrightarrow> complete_set (set c)"
  by (cases c) (auto simp: cluster_complete_def complete_set_def list_all_iff Let_def)

text \<open>The observation a cluster contributes, if any, and what it is.\<close>

definition selected :: "RoutingObservation list \<Rightarrow> RoutingObservation option" where
  "selected c =
     (let c = sort_by attempt_le c in if cluster_complete c then last_attempt c else None)"

lemma tally_cluster_selected:
  "tally_cluster now t (k, c) =
     (case selected c of None \<Rightarrow> t | Some ob \<Rightarrow> tally_selected now (fst k = ''real_request'') t ob)"
  by (auto simp: tally_cluster_def selected_def Let_def split: option.split)

definition final_attempt_of :: "RoutingObservation set \<Rightarrow> RoutingObservation \<Rightarrow> bool" where
  "final_attempt_of C ob \<longleftrightarrow> complete_set C \<and> ob \<in> C \<and> (\<forall>y \<in> C. attempt_key y \<le> attempt_key ob)"

lemma selected_Some_iff:
  assumes "c \<noteq> []" "inj_on ro_id (set c)"
  shows "selected c = Some ob \<longleftrightarrow> final_attempt_of (set c) ob"
proof
  assume "selected c = Some ob"
  then show "final_attempt_of (set c) ob"
    using last_attempt_Some [of "sort_by attempt_le c" ob] cluster_complete_set [of "sort_by attempt_le c"] assms(1)
    by (auto simp: selected_def Let_def final_attempt_of_def split: if_splits)
next
  assume final: "final_attempt_of (set c) ob"
  then have "cluster_complete (sort_by attempt_le c)"
    using cluster_complete_set [of "sort_by attempt_le c"] assms(1) by (simp add: final_attempt_of_def)
  moreover obtain m where m: "last_attempt (sort_by attempt_le c) = Some m"
    using assms(1) by (cases "sort_by attempt_le c") (auto dest: arg_cong [of _ _ length])
  note last_attempt_Some [OF m]
  then have "m \<in> set c" "attempt_key ob \<le> attempt_key m" using final by (simp_all add: final_attempt_of_def)
  then have "attempt_key m = attempt_key ob" using final by (auto simp: final_attempt_of_def)
  then have "m = ob"
    using assms(2) final \<open>m \<in> set c\<close> by (auto simp: attempt_key_def final_attempt_of_def dest: inj_onD)
  ultimately show "selected c = Some ob" using m by (simp add: selected_def Let_def)
qed

lemma selected_cong:
  assumes "set c = set c'" "inj_on ro_id (set c)" "c \<noteq> []"
  shows "selected c = selected c'"
proof -
  have ne: "c' \<noteq> []" and inj: "inj_on ro_id (set c')" using assms by auto
  have "selected c = Some ob \<longleftrightarrow> selected c' = Some ob" for ob
    using selected_Some_iff [OF assms(3,2)] selected_Some_iff [OF ne inj] assms(1) by simp
  then show ?thesis by (metis option.exhaust)
qed

text \<open>The clusters of a list of observations, as a map.\<close>

definition members :: "RoutingObservation list \<Rightarrow> cluster_key \<Rightarrow> RoutingObservation list" where
  "members obs k = filter (\<lambda>ob. ro_correlation_id ob \<noteq> [] \<and> cluster_key ob = k) obs"

lemma push_clusters:
  "bt_ok (foldl push_cluster [] obs) \<and>
   (\<forall>k. map_of (foldl push_cluster [] obs) k = (if members obs k = [] then None else Some (members obs k)))"
proof (induction obs rule: rev_induct)
  case Nil
  then show ?case by (simp add: bt_ok_def members_def)
next
  case (snoc ob obs)
  let ?m = "foldl push_cluster [] obs"
  show ?case
  proof (cases "ro_correlation_id ob = []")
    case True
    then show ?thesis using snoc by (simp add: push_cluster_def members_def)
  next
    case False
    have "map_of ?m (cluster_key ob) =
        (if members obs (cluster_key ob) = [] then None else Some (members obs (cluster_key ob)))"
      using snoc by blast
    then have push: "push_cluster ?m ob =
        bt_insert (cluster_key ob) (members obs (cluster_key ob) @ [ob]) ?m"
      using False by (simp add: push_cluster_def)
    have "members (obs @ [ob]) k = members obs k @ (if cluster_key ob = k then [ob] else [])" for k
      using False by (simp add: members_def)
    then show ?thesis
      using snoc push by (auto simp: bt_ok_insert map_of_bt_insert)
  qed
qed

text \<open>The observations that take part, and the final attempts among them.\<close>

definition cluster_of :: "string \<Rightarrow> QualityProjectionConfig \<Rightarrow> RoutingObservation set \<Rightarrow> cluster_key \<Rightarrow> RoutingObservation set" where
  "cluster_of scope config S k = {ob \<in> S. projected scope config ob \<and> ro_correlation_id ob \<noteq> [] \<and> cluster_key ob = k}"

lemma clusters_ok: "bt_ok (clusters scope config obs)"
  using push_clusters by (simp add: clusters_def)

lemma clusters_mem:
  "(k, c) \<in> set (clusters scope config obs) \<longleftrightarrow> c \<noteq> [] \<and> c = members (filter (projected scope config) obs) k"
proof -
  have "map_of (clusters scope config obs) k =
      (if members (filter (projected scope config) obs) k = [] then None
       else Some (members (filter (projected scope config) obs) k))"
    using push_clusters [of "filter (projected scope config) obs"] unfolding clusters_def by blast
  then show ?thesis using map_of_mem [OF clusters_ok, of k c scope config obs] by auto
qed

lemma clusters_set:
  "(k, c) \<in> set (clusters scope config obs) \<Longrightarrow> c \<noteq> [] \<and> set c = cluster_of scope config (set obs) k"
  by (auto simp: clusters_mem members_def cluster_of_def)

lemma clusters_keys:
  "fst ` set (clusters scope config obs) = {k. cluster_of scope config (set obs) k \<noteq> {}}"
proof -
  have a: "k \<in> fst ` set (clusters scope config obs) \<longleftrightarrow> members (filter (projected scope config) obs) k \<noteq> []" for k
  proof -
    have "k \<in> fst ` set (clusters scope config obs) \<longleftrightarrow> (\<exists>c. (k, c) \<in> set (clusters scope config obs))" by force
    then show ?thesis by (simp only: clusters_mem) auto
  qed
  have b: "members (filter (projected scope config) obs) k \<noteq> [] \<longleftrightarrow> cluster_of scope config (set obs) k \<noteq> {}" for k
    by (auto simp: members_def cluster_of_def filter_empty_conv)
  show ?thesis by (rule set_eqI) (simp only: a b mem_Collect_eq)
qed

text \<open>Observations that form the same set form the same clusters, up to order and repetition.\<close>

lemma clusters_cong:
  assumes "set obs = set obs'" "inj_on ro_id (set obs)"
  shows "list_all2 (\<lambda>(k, c) (k', c'). k = k' \<and> selected c = selected c')
           (clusters scope config obs) (clusters scope config obs')"
proof -
  let ?C = "clusters scope config obs" and ?D = "clusters scope config obs'"
  have "sorted (map fst ?C)" "distinct (map fst ?C)" "sorted (map fst ?D)" "distinct (map fst ?D)"
    using clusters_ok by (auto simp: bt_ok_def)
  moreover have "set (map fst ?C) = set (map fst ?D)" using clusters_keys assms(1) by simp
  ultimately have keys: "map fst ?C = map fst ?D" by (rule sorted_distinct_set_unique)
  then have len: "length ?C = length ?D" by (metis length_map)
  show ?thesis
  proof (rule list_all2I)
    show "\<forall>p \<in> set (zip ?C ?D). case p of (x, y) \<Rightarrow> (case x of (k, c) \<Rightarrow> \<lambda>(k', c'). k = k' \<and> selected c = selected c') y"
    proof
      fix p assume "p \<in> set (zip ?C ?D)"
      then obtain i where i: "i < length ?C" "p = (?C ! i, ?D ! i)" using len by (auto simp: set_zip)
      obtain k c k' c' where kc: "?C ! i = (k, c)" "?D ! i = (k', c')" by (metis surj_pair)
      have "fst (?C ! i) = fst (?D ! i)" using keys i(1) len by (metis nth_map)
      then have k: "k = k'" using kc by simp
      have "(k, c) \<in> set ?C" "(k, c') \<in> set ?D" using i(1) kc k len by (metis nth_mem)+
      then have c: "c \<noteq> []" "set c = set c'" "set c \<subseteq> set obs"
        using clusters_set [of k c scope config obs] clusters_set [of k c' scope config obs'] assms(1)
        by (auto simp: cluster_of_def)
      have "selected c = selected c'"
        using c assms(2) by (intro selected_cong) (auto intro: inj_on_subset)
      then show "case p of (x, y) \<Rightarrow> (case x of (k, c) \<Rightarrow> \<lambda>(k', c'). k = k' \<and> selected c = selected c') y"
        using i(2) kc k by simp
    qed
  qed (rule len)
qed

lemma tally_cong:
  assumes "list_all2 (\<lambda>(k, c) (k', c'). k = k' \<and> selected c = selected c') C D"
  shows "foldl (tally_cluster now) t C = foldl (tally_cluster now) t D"
  using assms
proof (induction C D arbitrary: t rule: list_all2_induct)
  case (Cons x C y D)
  then show ?case by (cases x; cases y) (simp add: tally_cluster_selected)
qed simp

text \<open>
  C11: The projection depends on the set of observations only. Observations identified by their ids give
  the same summary in whatever order they arrive and however often one of them is repeated.
\<close>
theorem quality_projection_order_free:
  assumes "set obs = set obs'" "inj_on ro_id (set obs)"
  shows "rebuild_quality_summary_v3_at scope obs config checkpoint now =
         rebuild_quality_summary_v3_at scope obs' config checkpoint now"
proof -
  have ex: "list_ex P obs = list_ex P obs'" "list_ex P (filter Q obs) = list_ex P (filter Q obs')" for P Q
    using assms(1) by (auto simp: list_ex_iff)
  have "tally scope config n obs = tally scope config n obs'" for n
    using tally_cong [OF clusters_cong [OF assms]] ex by (simp add: tally_def)
  then show ?thesis
    unfolding rebuild_quality_summary_v3_at_def monitoring_status_def Let_def by (simp add: ex(1))
qed

section \<open>What is counted\<close>

text \<open>
  The final attempts of the complete clusters, and those among them that count in one window of one
  source: a trustworthy time in the window, an outcome that says something about the key, and a request
  that reached the provider.
\<close>

definition final_attempts :: "string \<Rightarrow> QualityProjectionConfig \<Rightarrow> RoutingObservation set \<Rightarrow> RoutingObservation set" where
  "final_attempts scope config S =
     {ob \<in> S. final_attempt_of (cluster_of scope config S (cluster_key ob)) ob}"

definition age_of :: "i64 \<Rightarrow> RoutingObservation \<Rightarrow> i64" where
  "age_of now ob = i64_sat_sub now (ro_event_at_ms ob)"

definition counts :: "i64 \<Rightarrow> bool \<Rightarrow> RoutingObservation \<Rightarrow> bool" where
  "counts now recent ob \<longleftrightarrow>
     ro_event_time_status ob = ValidTime \<and> ro_boundary_crossed ob \<and> is_quality_outcome (ro_outcome ob) \<and>
     ro_event_at_ms ob \<le> now \<and>
     (if recent then age_of now ob \<le> recent_window_ms
      else recent_window_ms < age_of now ob \<and> age_of now ob < history_window_ms)"

definition samples ::
    "string \<Rightarrow> QualityProjectionConfig \<Rightarrow> i64 \<Rightarrow> bool \<Rightarrow> bool \<Rightarrow> RoutingObservation set \<Rightarrow> RoutingObservation set" where
  "samples scope config now rl recent S =
     {ob \<in> final_attempts scope config S. counts now recent ob \<and> (ro_source ob = RealRequest \<longleftrightarrow> rl)}"

definition sample_weight :: "i64 \<Rightarrow> RoutingObservation \<Rightarrow> nat" where
  "sample_weight now ob = unat (quality_weight_fixed (age_of now ob))"

definition window_of :: "Tally \<Rightarrow> bool \<Rightarrow> bool \<Rightarrow> V3WindowResult" where
  "window_of t rl recent =
     (let s = (if rl then ta_real t else ta_monitoring t) in if recent then sr_recent s else sr_historical s)"

lemma tally_selected_window:
  "window_of (tally_selected now r t ob) rl recent =
     (if counts now recent ob \<and> r = rl
      then window_add (window_of t rl recent) ob (quality_weight_fixed (age_of now ob))
      else window_of t rl recent)"
  by (cases r; cases rl; cases recent)
     (auto simp: tally_selected_def window_of_def counts_def age_of_def source_add_def Let_def
        recent_window_ms_def history_window_ms_def)

fun picks :: "(cluster_key \<times> RoutingObservation list) list \<Rightarrow> (cluster_key \<times> RoutingObservation) list" where
  "picks [] = []"
| "picks (kc # C) =
     (case selected (snd kc) of None \<Rightarrow> picks C | Some ob \<Rightarrow> (fst kc, ob) # picks C)"

definition picked :: "i64 \<Rightarrow> bool \<Rightarrow> bool \<Rightarrow> (cluster_key \<times> RoutingObservation list) list \<Rightarrow> RoutingObservation list" where
  "picked now rl recent C =
     map snd (filter (\<lambda>(k, ob). counts now recent ob \<and> (fst k = ''real_request'' \<longleftrightarrow> rl)) (picks C))"

definition add_sample :: "i64 \<Rightarrow> V3WindowResult \<Rightarrow> RoutingObservation \<Rightarrow> V3WindowResult" where
  "add_sample now w ob = window_add w ob (quality_weight_fixed (age_of now ob))"

lemma window_of_fold:
  "window_of (foldl (tally_cluster now) t C) rl recent =
     foldl (add_sample now) (window_of t rl recent) (picked now rl recent C)"
proof (induction C arbitrary: t)
  case (Cons kc C)
  have cluster: "tally_cluster now t kc =
      (case selected (snd kc) of None \<Rightarrow> t
       | Some ob \<Rightarrow> tally_selected now (fst (fst kc) = ''real_request'') t ob)"
    using tally_cluster_selected [of now t "fst kc" "snd kc"] by simp
  show ?case
  proof (cases "selected (snd kc)")
    case None
    then show ?thesis using Cons.IH cluster by (simp add: picked_def)
  next
    case (Some ob)
    then show ?thesis
      using Cons.IH [of "tally_cluster now t kc"] cluster
      by (simp add: picked_def tally_selected_window add_sample_def)
  qed
qed (simp add: picked_def)

lemma picks_mem:
  "(k, ob) \<in> set (picks C) \<longleftrightarrow> (\<exists>c. (k, c) \<in> set C \<and> selected c = Some ob)"
proof (induction C)
  case (Cons kc C)
  then show ?case by (cases kc; cases "selected (snd kc)") auto
qed simp

lemma real_key: "fst (cluster_key ob) = ''real_request'' \<longleftrightarrow> ro_source ob = RealRequest"
  by (simp add: cluster_key_def)

lemma distinct_picks: "distinct (map fst C) \<Longrightarrow> distinct (map fst (picks C))"
proof (induction C)
  case (Cons kc C)
  obtain k c where kc: "kc = (k, c)" by (cases kc)
  have "fst ` set (picks C) \<subseteq> fst ` set C" by (force simp: picks_mem)
  then have "k \<notin> fst ` set (picks C)" using Cons.prems kc by auto
  then show ?case using Cons kc by (cases "selected c") simp_all
qed simp

lemma picked_samples:
  assumes "inj_on ro_id (set obs)"
  shows "set (picked now rl recent (clusters scope config obs)) = samples scope config now rl recent (set obs)"
    and "distinct (picked now rl recent (clusters scope config obs))"
proof -
  let ?C = "clusters scope config obs"
  have pick: "(k, ob) \<in> set (picks ?C) \<longleftrightarrow> k = cluster_key ob \<and> ob \<in> final_attempts scope config (set obs)" for k ob
  proof
    assume "(k, ob) \<in> set (picks ?C)"
    then obtain c where c: "(k, c) \<in> set ?C" "selected c = Some ob" by (auto simp: picks_mem)
    note cs = clusters_set [OF c(1)]
    have "inj_on ro_id (set c)" using cs assms by (auto simp: cluster_of_def intro: inj_on_subset)
    then have "final_attempt_of (cluster_of scope config (set obs) k) ob"
      using selected_Some_iff [of c ob] cs c(2) by simp
    moreover from this have "ob \<in> cluster_of scope config (set obs) k" by (simp add: final_attempt_of_def)
    ultimately show "k = cluster_key ob \<and> ob \<in> final_attempts scope config (set obs)"
      by (auto simp: cluster_of_def final_attempts_def)
  next
    assume a: "k = cluster_key ob \<and> ob \<in> final_attempts scope config (set obs)"
    then have final: "final_attempt_of (cluster_of scope config (set obs) k) ob" by (simp add: final_attempts_def)
    then have "cluster_of scope config (set obs) k \<noteq> {}" by (auto simp: final_attempt_of_def)
    then have "k \<in> fst ` set ?C" by (simp add: clusters_keys)
    then obtain c where c: "(k, c) \<in> set ?C" by auto
    note cs = clusters_set [OF c]
    have "inj_on ro_id (set c)" using cs assms by (auto simp: cluster_of_def intro: inj_on_subset)
    then have "selected c = Some ob" using selected_Some_iff [of c ob] cs final by simp
    then show "(k, ob) \<in> set (picks ?C)" using c by (auto simp: picks_mem)
  qed
  show "set (picked now rl recent ?C) = samples scope config now rl recent (set obs)"
    by (force simp: picked_def samples_def pick real_key image_iff)
  have "distinct (map fst ?C)" using clusters_ok by (simp add: bt_ok_def)
  then have "distinct (map fst (picks ?C))" by (rule distinct_picks)
  then have "distinct (picks ?C)" by (simp add: distinct_map)
  moreover have "inj_on snd (set (picks ?C))"
  proof (rule inj_onI)
    fix p q assume pq: "p \<in> set (picks ?C)" "q \<in> set (picks ?C)" "snd p = snd q"
    then have "fst p = cluster_key (snd p)" "fst q = cluster_key (snd q)"
      using pick by (metis prod.collapse)+
    then show "p = q" using pq(3) by (metis prod.expand)
  qed
  ultimately show "distinct (picked now rl recent ?C)"
    unfolding picked_def by (auto simp: distinct_map intro: inj_on_subset)
qed

text \<open>A window without saturation holds the sums of its samples.\<close>

definition weight_sum :: "i64 \<Rightarrow> RoutingObservation list \<Rightarrow> nat" where
  "weight_sum now obs = sum_list (map (sample_weight now) obs)"

definition window_holds :: "i64 \<Rightarrow> V3WindowResult \<Rightarrow> RoutingObservation list \<Rightarrow> bool" where
  "window_holds now w obs \<longleftrightarrow>
     unat (wr_sample_count w) = length obs \<and>
     unat (wr_effective_weight w) = weight_sum now obs \<and>
     unat (wr_success_weight w) = weight_sum now (filter (\<lambda>ob. ro_outcome ob = Success) obs) \<and>
     unat (wr_failure_weight w) = weight_sum now (filter (\<lambda>ob. ro_outcome ob \<noteq> Success) obs)"

lemma counts_age: "counts now recent ob \<Longrightarrow> 0 \<le> age_of now ob \<and> age_of now ob \<le> history_window_ms"
  by (auto simp: counts_def age_of_def i64_sat_sub_def i64_clamp_def i64_max_def i64_min_def
      recent_window_ms_def history_window_ms_def split: if_splits)

lemma sample_weight_bounds: "counts now recent ob \<Longrightarrow> 1 \<le> sample_weight now ob \<and> sample_weight now ob \<le> 1000000"
proof -
  assume "counts now recent ob"
  from counts_age [OF this] have "0 \<le> age_of now ob" "age_of now ob \<le> history_window_ms" by blast+
  then show ?thesis by (simp add: sample_weight_def quality_weight_value)
qed

lemma weight_sum_le: "\<forall>ob \<in> set obs. counts now recent ob \<Longrightarrow> weight_sum now obs \<le> length obs * 1000000"
proof (induction obs)
  case (Cons ob obs)
  then show ?case using sample_weight_bounds [of now recent ob] by (simp add: weight_sum_def)
qed (simp add: weight_sum_def)

lemma weight_sum_filter_le: "weight_sum now (filter P obs) \<le> weight_sum now obs"
  by (induction obs) (auto simp: weight_sum_def)

lemma unat_sat_add_fits: "unat a + unat b < 2 ^ 64 \<Longrightarrow> unat (sat_add a b) = unat a + unat b" for a b :: u64
  by (simp add: unat_sat_add)

lemma add_sample_holds:
  assumes "window_holds now w obs" "\<forall>x \<in> set (obs @ [ob]). counts now recent x"
    and "length (obs @ [ob]) \<le> 2 ^ 43"
  shows "window_holds now (add_sample now w ob) (obs @ [ob])"
proof -
  have "length (obs @ [ob]) * 1000000 \<le> 2 ^ 43 * 1000000" using assms(3) by (rule mult_le_mono1)
  then have total: "weight_sum now (obs @ [ob]) < 2 ^ 64" using weight_sum_le [OF assms(2)] by simp
  have eff: "weight_sum now (obs @ [ob]) = weight_sum now obs + sample_weight now ob" by (simp add: weight_sum_def)
  note le = weight_sum_filter_le [of now _ obs]
  have quality: "is_quality_outcome (ro_outcome ob)" "ro_boundary_crossed ob"
    using assms(2) by (auto simp: counts_def)
  have fits: "unat (wr_sample_count w) + unat (1 :: u64) < 2 ^ 64"
      "unat (wr_effective_weight w) + unat (quality_weight_fixed (age_of now ob)) < 2 ^ 64"
      "unat (wr_success_weight w) + unat (quality_weight_fixed (age_of now ob)) < 2 ^ 64"
      "unat (wr_failure_weight w) + unat (quality_weight_fixed (age_of now ob)) < 2 ^ 64"
    using assms(1,3) total eff le [of "\<lambda>ob. ro_outcome ob = Success"] le [of "\<lambda>ob. ro_outcome ob \<noteq> Success"]
    by (simp_all add: window_holds_def sample_weight_def)
  show ?thesis
    using assms(1) quality fits [THEN unat_sat_add_fits]
    by (cases "ro_latency_ms ob"; cases "ro_outcome ob = Success")
       (simp_all add: window_holds_def add_sample_def window_add_def Let_def weight_sum_def sample_weight_def)
qed

lemma fold_samples_hold:
  assumes "\<forall>x \<in> set obs. counts now recent x" "length obs \<le> 2 ^ 43"
  shows "window_holds now (foldl (add_sample now) window_empty obs) obs"
  using assms
proof (induction obs rule: rev_induct)
  case Nil
  then show ?case by (simp add: window_holds_def window_empty_def weight_sum_def)
next
  case (snoc ob obs)
  then show ?case using add_sample_holds [of now _ obs ob recent] by simp
qed

text \<open>The window of a source in a summary.\<close>

definition window_in :: "QualitySummary \<Rightarrow> bool \<Rightarrow> bool \<Rightarrow> QualitySourceWindowSummary" where
  "window_in q rl recent =
     (let s = (if rl then qs_real_source q else qs_monitoring_source q)
      in if recent then qss_recent s else qss_historical s)"

definition minimum_of :: "QualityProjectionConfig \<Rightarrow> bool \<Rightarrow> u64" where
  "minimum_of config recent =
     (if recent then qc_recent_minimum_samples config else qc_historical_minimum_samples config)"

lemma window_in_summarize:
  "window_in (summarize scope config checkpoint now status t) rl recent =
     (let w = window_of t rl recent
      in window_summary w
           (window_reliability w (minimum_of config recent) (qc_optimistic_reliability_basis_points config))
           (minimum_of config recent))"
  by (cases rl; cases recent)
     (simp_all add: summarize_def Let_def case_prod_beta window_in_def window_of_def quality_source_summary_def
       source_reliability_def minimum_of_def)

definition weight_over :: "i64 \<Rightarrow> RoutingObservation set \<Rightarrow> nat" where
  "weight_over now S = (\<Sum>ob \<in> S. sample_weight now ob)"

text \<open>The success share of a set of samples in basis points, rounded to the nearest.\<close>

definition success_share :: "i64 \<Rightarrow> RoutingObservation set \<Rightarrow> nat" where
  "success_share now S =
     (weight_over now {ob \<in> S. ro_outcome ob = Success} * 10000 + weight_over now S div 2) div weight_over now S"

lemma weight_over_pos: "finite S \<Longrightarrow> \<forall>ob \<in> S. counts now recent ob \<Longrightarrow> S \<noteq> {} \<Longrightarrow> 0 < weight_over now S"
proof -
  assume a: "finite S" "\<forall>ob \<in> S. counts now recent ob" "S \<noteq> {}"
  then obtain ob where "ob \<in> S" by blast
  moreover from this have "0 < sample_weight now ob" using sample_weight_bounds [of now recent ob] a(2) by auto
  ultimately show ?thesis unfolding weight_over_def using a(1) by (meson sum_pos2 zero_le)
qed

lemma ratio_share:
  assumes "unat s \<le> unat e" "e \<noteq> 0"
  shows "unat (ratio_bp s e) = (unat s * 10000 + unat e div 2) div unat e"
proof -
  have e: "0 < unat e" using assms(2) by (simp add: unat_gt_0)
  have "unat s * 10000 + unat e div 2 < unat e * 10001"
    using assms(1) e by simp
  then have "(unat s * 10000 + unat e div 2) div unat e < 10001" by (simp add: less_mult_imp_div_less mult.commute)
  then show ?thesis using assms(2) by (simp add: ratio_bp_def unat_of_nat_lt)
qed

text \<open>
  C9: Every request counts once, by its last attempt. In a summary each window of each source counts
  exactly the final attempts of complete, uniquely identified clusters that have a trustworthy time in
  the window and reached the provider with a telling outcome; its weights are the sums of their decayed
  weights, and its reliability is the optimistic value below the minimum number of samples and the
  rounded weighted share of successes from there on.
\<close>
theorem quality_counts_final_attempts:
  assumes "inj_on ro_id (set obs)" "length obs \<le> 2 ^ 43"
  shows
    "let W = window_in (rebuild_quality_summary_v3_at scope obs config checkpoint eval_at) rl recent;
         now = max eval_at 0;
         S = samples scope config now rl recent (set obs)
     in unat (qw_sample_count W) = card S \<and>
        unat (qw_effective_weight W) = weight_over now S \<and>
        unat (qw_success_weight W) = weight_over now {ob \<in> S. ro_outcome ob = Success} \<and>
        unat (qw_failure_weight W) = weight_over now {ob \<in> S. ro_outcome ob \<noteq> Success} \<and>
        unat (qw_reliability_basis_points W) =
          (if card S < unat (minimum_of config recent) \<or> S = {}
           then unat (qc_optimistic_reliability_basis_points config) else success_share now S)"
proof -
  let ?now = "max eval_at 0"
  let ?S = "samples scope config ?now rl recent (set obs)"
  let ?L = "picked ?now rl recent (clusters scope config obs)"
  let ?w = "window_of (tally scope config ?now obs) rl recent"
  note L = picked_samples [OF assms(1), of ?now rl recent scope config]
  have fin: "finite ?S" by (simp add: samples_def final_attempts_def)
  have all: "\<forall>x \<in> set ?L. counts ?now recent x" using L(1) by (simp add: samples_def)
  have len: "length ?L = card ?S" using L distinct_card by metis
  have "card ?S \<le> card (set obs)" by (intro card_mono) (auto simp: samples_def final_attempts_def)
  also have "card (set obs) \<le> length obs" by (rule card_length)
  finally have le: "card ?S \<le> 2 ^ 43" using assms(2) by simp
  have "?w = foldl (add_sample ?now) window_empty ?L"
    by (cases rl; cases recent) (simp_all add: tally_def window_of_fold, simp_all add: window_of_def source_empty_def)
  then have holds: "window_holds ?now ?w ?L" using fold_samples_hold [OF all] len le by simp
  have sums: "weight_sum ?now (filter P ?L) = weight_over ?now {ob \<in> ?S. P ob}" for P
  proof -
    have "distinct (filter P ?L)" "set (filter P ?L) = {ob \<in> ?S. P ob}" using L by auto
    then show ?thesis
      unfolding weight_sum_def weight_over_def by (metis sum_list_distinct_conv_sum_set)
  qed
  have whole: "weight_sum ?now ?L = weight_over ?now ?S" using sums [of "\<lambda>_. True"] by simp
  have w: "unat (wr_sample_count ?w) = card ?S" "unat (wr_effective_weight ?w) = weight_over ?now ?S"
      "unat (wr_success_weight ?w) = weight_over ?now {ob \<in> ?S. ro_outcome ob = Success}"
      "unat (wr_failure_weight ?w) = weight_over ?now {ob \<in> ?S. ro_outcome ob \<noteq> Success}"
    using holds len whole sums by (simp_all add: window_holds_def)
  have zero: "wr_effective_weight ?w = 0 \<longleftrightarrow> ?S = {}"
  proof -
    have "wr_effective_weight ?w = 0 \<longleftrightarrow> weight_over ?now ?S = 0" using w(2) by (metis unat_eq_0)
    moreover have "?S = {} \<Longrightarrow> weight_over ?now ?S = 0" by (simp only: weight_over_def sum.empty)
    moreover have "\<forall>ob \<in> ?S. counts ?now recent ob" by (simp add: samples_def)
    then have "?S \<noteq> {} \<Longrightarrow> weight_over ?now ?S \<noteq> 0" using weight_over_pos [OF fin] by blast
    ultimately show ?thesis by argo
  qed
  have "unat (wr_success_weight ?w) \<le> unat (wr_effective_weight ?w)"
    using w(2,3) whole sums [of "\<lambda>ob. ro_outcome ob = Success"]
      weight_sum_filter_le [of ?now "\<lambda>ob. ro_outcome ob = Success" ?L] by linarith
  note share = ratio_share [OF this]
  have few: "wr_sample_count ?w < minimum_of config recent \<longleftrightarrow> card ?S < unat (minimum_of config recent)"
    using w(1) by (simp add: word_less_nat_alt)
  have "unat (window_reliability ?w (minimum_of config recent) (qc_optimistic_reliability_basis_points config)) =
        (if card ?S < unat (minimum_of config recent) \<or> ?S = {}
         then unat (qc_optimistic_reliability_basis_points config) else success_share ?now ?S)"
    using share w(2,3) by (simp add: window_reliability_def few zero success_share_def)
  then show ?thesis
    using w by (simp add: rebuild_quality_summary_v3_at_def Let_def window_in_summarize window_summary_def)
qed

text \<open>Two attempts of one request to one key: the first timed out, the second succeeded.\<close>

definition sample_attempt :: "u16 \<Rightarrow> string \<Rightarrow> ObservationOutcome \<Rightarrow> RoutingObservation" where
  "sample_attempt n i outcome =
     \<lparr>ro_id = i, ro_event_at_ms = 50,
      ro_scope = \<lparr>os_station_id = None, os_station_key_id = Some ''k'', os_model = None, os_endpoint_revision = None\<rparr>,
      ro_source = RealRequest, ro_traffic_equivalence = ExactRequest, ro_outcome = outcome,
      ro_latency_ms = Some 900, ro_correlation_id = ''r'', ro_attempt_index = n,
      ro_station_key_lifecycle_revision = 1, ro_cluster_finalized = True,
      ro_cluster_expected_attempt_count = 2, ro_boundary_crossed = True, ro_event_time_status = ValidTime\<rparr>"

abbreviation "first_attempt \<equiv> sample_attempt 0 ''a'' Timeout"
abbreviation "second_attempt \<equiv> sample_attempt 1 ''b'' Success"

lemma sample_ids: "inj_on ro_id {first_attempt, second_attempt}"
  by (simp add: sample_attempt_def)

theorem quality_projection_order_free_witness:
  "rebuild_quality_summary_v3_at ''station_key:k'' [first_attempt, second_attempt] quality_config_default 7 100 =
   rebuild_quality_summary_v3_at ''station_key:k'' [second_attempt, first_attempt, second_attempt]
     quality_config_default 7 100"
proof (rule quality_projection_order_free)
  show "set [first_attempt, second_attempt] = set [second_attempt, first_attempt, second_attempt]" by auto
  show "inj_on ro_id (set [first_attempt, second_attempt])" using sample_ids by simp
qed

lemma sample_cluster:
  "cluster_of ''station_key:k'' quality_config_default {first_attempt, second_attempt} (cluster_key second_attempt) =
     {first_attempt, second_attempt}"
  by (auto simp: cluster_of_def sample_attempt_def cluster_key_def projected_def in_current_scope_def
      observation_scope_def quality_config_default_def)

lemma sample_key: "cluster_key first_attempt = cluster_key second_attempt" "first_attempt \<noteq> second_attempt"
  by (simp_all add: cluster_key_def sample_attempt_def)

lemma sample_samples:
  "samples ''station_key:k'' quality_config_default 100 True True {first_attempt, second_attempt} = {second_attempt}"
proof -
  have "complete_set {first_attempt, second_attempt}"
    unfolding complete_set_def by (rule exI [of _ 2]) (simp add: sample_attempt_def word_less_nat_alt)
  then have "final_attempt_of {first_attempt, second_attempt} ob \<longleftrightarrow> ob = second_attempt" for ob
    by (auto simp: final_attempt_of_def attempt_key_def sample_attempt_def)
  then have final: "final_attempts ''station_key:k'' quality_config_default {first_attempt, second_attempt} = {second_attempt}"
    using sample_cluster sample_key by (auto simp: final_attempts_def)
  have "counts 100 True second_attempt"
    by (simp add: counts_def age_of_def sample_attempt_def i64_sat_sub_def i64_clamp_def i64_max_def i64_min_def
        recent_window_ms_def)
  moreover have "ro_source second_attempt = RealRequest" by (simp add: sample_attempt_def)
  ultimately show ?thesis unfolding samples_def final by auto
qed

theorem quality_counts_final_attempts_witness:
  "unat (qw_sample_count (window_in (rebuild_quality_summary_v3_at ''station_key:k''
      [first_attempt, second_attempt] quality_config_default 7 100) True True)) = 1 \<and>
   unat (qw_failure_weight (window_in (rebuild_quality_summary_v3_at ''station_key:k''
      [first_attempt, second_attempt] quality_config_default 7 100) True True)) = 0"
proof -
  have inj: "inj_on ro_id (set [first_attempt, second_attempt])" using sample_ids by simp
  have "{ob \<in> {second_attempt}. ro_outcome ob \<noteq> Success} = {}" by (simp add: sample_attempt_def)
  then show ?thesis
    using quality_counts_final_attempts [OF inj, of "''station_key:k''" quality_config_default 7 100 True True]
    by (simp add: Let_def sample_samples weight_over_def)
qed

section \<open>Ranges\<close>

lemma capped: "n \<le> 10000 \<Longrightarrow> unat (of_nat n :: u16) = n"
  by (simp add: unat_of_nat_lt)

lemma score_ranges [simp]:
  "unat (blend_basis_points l r w) \<le> 10000" "unat (responsiveness_score_v3 ms) \<le> 10000"
  "unat (combined_latency_coverage a b) \<le> 10000" "unat (ratio_to_basis_points v) \<le> 10000"
proof -
  show "unat (blend_basis_points l r w) \<le> 10000" by (simp add: blend_basis_points_def Let_def capped)
  have "(responsiveness_cap_ms - min (unat ms) responsiveness_cap_ms) * 10000 div responsiveness_cap_ms
      \<le> responsiveness_cap_ms * 10000 div responsiveness_cap_ms"
    by (intro div_le_mono mult_le_mono1) simp
  then show "unat (responsiveness_score_v3 ms) \<le> 10000"
    by (simp add: responsiveness_score_v3_def capped responsiveness_cap_ms_def)
  show "unat (combined_latency_coverage a b) \<le> 10000"
    by (simp add: combined_latency_coverage_def Let_def capped basis_points_scale_def)
  show "unat (ratio_to_basis_points v) \<le> 10000"
    by (simp add: ratio_to_basis_points_def capped basis_points_scale_def)
qed

lemma effective_share_le:
  assumes "unat a + unat b \<noteq> 0"
  shows "unat (effective_share a b) \<le> 10000"
proof -
  let ?t = "unat a + unat b"
  have "?t div 2 < ?t" using assms by (intro div_less_dividend) simp_all
  moreover have "x * 10000 + d < 10001 * t" if "d < t" "x \<le> t" for x d t :: nat using that by simp
  ultimately have "unat a * 10000 + ?t div 2 < 10001 * ?t" by simp
  then have "(unat a * 10000 + ?t div 2) div ?t < 10001" by (rule less_mult_imp_div_less)
  then show ?thesis by (simp add: effective_share_def Let_def capped)
qed

lemma complement: "unat w \<le> 10000 \<Longrightarrow> unat w + unat (sat_sub 10000 w) = 10000" for w :: u16
  by (simp add: unat_sat_sub)

lemma mix_reliability_weights:
  assumes "mix_reliability a b wr wm er em = (reliability, rw, mw, unavailable)"
  shows "unat reliability \<le> 10000"
    and "unavailable \<longleftrightarrow> (er \<longrightarrow> wr = 0) \<and> (em \<longrightarrow> wm = 0)"
    and "unat rw + unat mw = (if unavailable then 0 else 10000)"
    and "unavailable \<Longrightarrow> reliability = 0"
proof -
  let ?r = "if er then wr else 0" and ?m = "if em then wm else 0"
  have un: "unavailable \<longleftrightarrow> unat ?r + unat ?m = 0"
    using assms by (auto simp: mix_reliability_def Let_def split: if_splits)
  then show "unavailable \<longleftrightarrow> (er \<longrightarrow> wr = 0) \<and> (em \<longrightarrow> wm = 0)" by (auto simp: unat_eq_0)
  show "unat reliability \<le> 10000" "unavailable \<Longrightarrow> reliability = 0"
    using assms un by (auto simp: mix_reliability_def Let_def split: if_splits)
  show "unat rw + unat mw = (if unavailable then 0 else 10000)"
  proof (cases "unat ?r + unat ?m = 0")
    case True
    then show ?thesis using assms un by (simp add: mix_reliability_def Let_def)
  next
    case False
    then have "rw = effective_share ?r ?m" "mw = sat_sub 10000 rw"
      using assms unfolding mix_reliability_def Let_def by (auto split: if_splits)
    then show ?thesis using False un complement effective_share_le [OF False] by simp
  qed
qed

text \<open>
  Every score of a summary is in range. Reliability, responsiveness and coverage lie between 0 and
  10000 basis points, the weights of the recent and the historical window add up to 10000, and so do the
  weights of the two sources unless no eligible source has a weight: exactly then the summary is marked
  unavailable, with reliability zero.
\<close>
theorem quality_scores_in_range:
  "let q = rebuild_quality_summary_v3_at scope obs config checkpoint now
   in unat (qs_reliability_basis_points q) \<le> 10000 \<and> unat (qs_responsiveness_basis_points q) \<le> 10000 \<and>
      unat (qs_latency_coverage_basis_points q) \<le> 10000 \<and>
      unat (qs_recent_reliability_weight_basis_points q) + unat (qs_historical_reliability_weight_basis_points q) = 10000 \<and>
      unat (qs_recent_responsiveness_weight_basis_points q) +
        unat (qs_historical_responsiveness_weight_basis_points q) = 10000 \<and>
      unat (qs_real_source_weight_basis_points q) + unat (qs_monitoring_source_weight_basis_points q) =
        (if qs_quality_unavailable q then 0 else 10000) \<and>
      (qs_quality_unavailable q =
         ((if qc_real_source_eligible config then unat (qc_real_traffic_weight_basis_points config) else 0) +
          (if qc_monitoring_source_eligible config then unat (qc_monitoring_weight_basis_points config) else 0) = 0)) \<and>
      (if qs_quality_unavailable q then qs_reliability_basis_points q = 0 else True)"
proof -
  let ?t = "tally scope config (max now 0) obs"
  obtain reliability rw mw unavailable where mix: "mix_reliability (source_reliability (ta_real ?t) config)
      (source_reliability (ta_monitoring ?t) config) (qc_real_traffic_weight_basis_points config)
      (qc_monitoring_weight_basis_points config) (qc_real_source_eligible config)
      (qc_monitoring_source_eligible config) = (reliability, rw, mw, unavailable)"
    by (metis surj_pair)
  note m = mix_reliability_weights [OF mix]
  have "unat (max a b) \<le> 10000" if "unat a \<le> 10000" "unat b \<le> 10000" for a b :: u16
    using that by (simp add: max_def)
  then show ?thesis
    using m
    by (simp add: rebuild_quality_summary_v3_at_def summarize_def Let_def mix complement recent_ratio_basis_points_def)
       (auto simp: unat_eq_0 unat_gt_0)
qed

end
