(* ===== verification/RequestFacts.thy ===== *)
theory RequestFacts
  imports Snapshot ModelMapping
begin

text \<open>
  The facts of a request that planning reads (\<^verbatim>\<open>routing_engine/request.rs\<close>) and the part of the routing
  settings that is turned into them (\<^verbatim>\<open>operational_facts/candidate_projection.rs\<close>).
\<close>

datatype RouteKind = Inference | ModelCatalog

datatype OrderingProfile = PriorityFirst

definition canonical_v3_ordering_profile :: OrderingProfile where
  "canonical_v3_ordering_profile = PriorityFirst"

datatype GroupFilterMode = AnyGroup | UngroupedOnlyMode | RequiredGroup

record CanonicalRouteRequest =
  cq_route_kind :: RouteKind
  cq_requested_model :: "string option"
  cq_stream :: bool
  cq_uses_tools :: bool
  cq_uses_vision :: bool
  cq_uses_reasoning :: bool
  cq_untrusted_headers :: "(string \<times> string) list"

record ValidatedLocalRouteSettings =
  vs_ordering_profile :: OrderingProfile
  vs_max_rate_multiplier :: "f64 option"
  vs_group_filter_mode :: GroupFilterMode
  vs_required_group_stable_key :: "string option"
  vs_preferred_models :: "string list"
  vs_required_tags :: "string list"
  vs_allow_depleted_fallback :: bool
  vs_affinity_enabled :: bool

record RouteRequestFacts =
  fx_route_kind :: RouteKind
  fx_requested_model :: "string option"
  fx_stream :: bool
  fx_uses_tools :: bool
  fx_uses_vision :: bool
  fx_uses_reasoning :: bool
  fx_ordering_profile :: OrderingProfile
  fx_max_rate_multiplier :: "f64 option"
  fx_group_filter_mode :: GroupFilterMode
  fx_required_group_stable_key :: "string option"
  fx_preferred_models :: "string list"
  fx_required_tags :: "string list"
  fx_allow_depleted_fallback :: bool
  fx_affinity_enabled :: bool
  fx_admitted_at_ms :: i64
  fx_mapping_requested_model :: "string option"
  fx_mapping_endpoint :: "EndpointKind option"
  fx_model_mapping_revision :: "i64 option"
  fx_model_resolution_fence :: "string option"

text \<open>The untrusted headers are dropped: nothing of them reaches the facts.\<close>

definition classify_request ::
  "CanonicalRouteRequest \<Rightarrow> ValidatedLocalRouteSettings \<Rightarrow> i64 \<Rightarrow> RouteRequestFacts" where
  "classify_request request settings admitted_at_ms =
     \<lparr>fx_route_kind = cq_route_kind request, fx_requested_model = cq_requested_model request,
      fx_stream = cq_stream request, fx_uses_tools = cq_uses_tools request,
      fx_uses_vision = cq_uses_vision request, fx_uses_reasoning = cq_uses_reasoning request,
      fx_ordering_profile = vs_ordering_profile settings,
      fx_max_rate_multiplier = vs_max_rate_multiplier settings,
      fx_group_filter_mode = vs_group_filter_mode settings,
      fx_required_group_stable_key = vs_required_group_stable_key settings,
      fx_preferred_models = vs_preferred_models settings, fx_required_tags = vs_required_tags settings,
      fx_allow_depleted_fallback = vs_allow_depleted_fallback settings,
      fx_affinity_enabled = vs_affinity_enabled settings, fx_admitted_at_ms = admitted_at_ms,
      fx_mapping_requested_model = None, fx_mapping_endpoint = None,
      fx_model_mapping_revision = None, fx_model_resolution_fence = None\<rparr>"

definition with_model_mapping :: "RouteRequestFacts \<Rightarrow> u64 \<Rightarrow> string \<Rightarrow> RouteRequestFacts" where
  "with_model_mapping f mapping_revision fence =
     f\<lparr>fx_model_mapping_revision :=
         (if uint mapping_revision \<le> i64_max then Some (uint mapping_revision) else None),
       fx_model_resolution_fence := Some fence\<rparr>"

definition with_mapping_requested_model :: "RouteRequestFacts \<Rightarrow> string option \<Rightarrow> RouteRequestFacts" where
  "with_mapping_requested_model f model = f\<lparr>fx_mapping_requested_model := model\<rparr>"

definition with_mapping_endpoint :: "RouteRequestFacts \<Rightarrow> EndpointKind \<Rightarrow> RouteRequestFacts" where
  "with_mapping_endpoint f endpoint = f\<lparr>fx_mapping_endpoint := Some endpoint\<rparr>"

section \<open>Settings\<close>

record RuntimeRoutingSettings =
  rts_max_rate_multiplier :: "f64 option"
  rts_routing_group_scope :: RoutingGroupFilter
  rts_allow_depleted_fallback :: bool
  rts_outbound_proxy_mode :: string
  rts_outbound_proxy_url :: "string option"
  rts_global_proxy_mode :: string
  rts_global_proxy_url :: "string option"

fun group_filter_mode :: "RoutingGroupFilter \<Rightarrow> GroupFilterMode" where
  "group_filter_mode AllGroups = AnyGroup"
| "group_filter_mode UngroupedOnly = UngroupedOnlyMode"
| "group_filter_mode (GroupBindingId _) = RequiredGroup"
| "group_filter_mode (GroupIdHash _) = RequiredGroup"
| "group_filter_mode (GroupType _) = RequiredGroup"

fun group_type_name :: "PricingGroupType \<Rightarrow> string" where
  "group_type_name Gpt = ''gpt''"
| "group_type_name Claude = ''claude''"
| "group_type_name Gemini = ''gemini''"
| "group_type_name Grok = ''grok''"
| "group_type_name ImageGeneration = ''image_generation''"

fun required_group_stable_key :: "RoutingGroupFilter \<Rightarrow> string option" where
  "required_group_stable_key (GroupBindingId i) = Some (''binding:'' @ i)"
| "required_group_stable_key (GroupIdHash h) = Some (''group-id:'' @ h)"
| "required_group_stable_key (GroupType t) = Some (''group-type:'' @ group_type_name t)"
| "required_group_stable_key AllGroups = None"
| "required_group_stable_key UngroupedOnly = None"

definition validated_route_settings :: "RuntimeRoutingSettings \<Rightarrow> ValidatedLocalRouteSettings" where
  "validated_route_settings settings =
     \<lparr>vs_ordering_profile = canonical_v3_ordering_profile,
      vs_max_rate_multiplier = rts_max_rate_multiplier settings,
      vs_group_filter_mode = group_filter_mode (rts_routing_group_scope settings),
      vs_required_group_stable_key = required_group_stable_key (rts_routing_group_scope settings),
      vs_preferred_models = [], vs_required_tags = [],
      vs_allow_depleted_fallback = rts_allow_depleted_fallback settings, vs_affinity_enabled = False\<rparr>"

definition route_request_facts_for_read_model :: "RuntimeRoutingSettings \<Rightarrow> i64 \<Rightarrow> RouteRequestFacts" where
  "route_request_facts_for_read_model settings admitted_at_ms =
     classify_request
       \<lparr>cq_route_kind = Inference, cq_requested_model = None, cq_stream = False, cq_uses_tools = False,
        cq_uses_vision = False, cq_uses_reasoning = False, cq_untrusted_headers = []\<rparr>
       (validated_route_settings settings) admitted_at_ms"

section \<open>What mapping is asked\<close>

definition mapping_facts :: "RouteRequestFacts \<Rightarrow> ModelRequestFacts" where
  "mapping_facts request =
     \<lparr>mf_requested_model =
        (case fx_mapping_requested_model request of None \<Rightarrow> fx_requested_model request | Some m \<Rightarrow> Some m),
      mf_endpoint = (case fx_mapping_endpoint request of None \<Rightarrow> EK_Responses | Some e \<Rightarrow> e),
      mf_stream = fx_stream request, mf_tools = fx_uses_tools request,
      mf_vision = fx_uses_vision request, mf_reasoning = fx_uses_reasoning request\<rparr>"

end
