(* ===== verification/FactRows.thy ===== *)
theory FactRows
  imports BTree Snapshot Persistence
begin

text \<open>
  The tables that planning reads and the query that turns them into raw facts
  (\<^verbatim>\<open>persistence/stores/operational_facts/queries.rs\<close> on the schema of the migrations 0002 to 0007, 0024,
  0056 and 0076): one row per station key with its station, capabilities, group binding, the selected
  balance snapshot and the record revisions.
\<close>

section \<open>Tables\<close>

record StationKeyRow =
  ky_id :: string
  ky_station_id :: string
  ky_enabled :: bool
  ky_api_key :: string
  ky_api_key_secret_id :: "string option"
  ky_schedulable :: bool
  ky_priority :: i64
  ky_routing_order :: "i64 option"
  ky_group_binding_id :: "string option"
  ky_group_id_hash :: "string option"
  ky_created_at :: string

record StationRow =
  sx_id :: string
  sx_enabled :: bool
  sx_endpoint_revision :: i64
  sx_api_base_url :: string
  sx_credit_per_cny :: f64

record CapabilityRow =
  cy_station_key_id :: string
  cy_supports_chat_completions :: bool
  cy_supports_responses :: bool
  cy_supports_embeddings :: bool
  cy_supports_stream :: bool
  cy_supports_tools :: bool
  cy_supports_vision :: bool
  cy_supports_reasoning :: bool
  cy_model_allowlist_json :: string
  cy_model_blocklist_json :: string
  cy_preferred_models_json :: string
  cy_only_use_as_backup :: bool
  cy_routing_tags_json :: string

record GroupBindingRow =
  gb_id :: string
  gb_binding_status :: string
  gb_effective_rate_multiplier :: "f64 option"
  gb_group_id_hash :: "string option"
  gb_group_category_override :: "string option"
  gb_inferred_group_category :: "string option"

record BalanceRow =
  bl_id :: string
  bl_station_id :: string
  bl_station_key_id :: "string option"
  bl_scope :: string
  bl_balance_kind :: string
  bl_value :: "f64 option"
  bl_currency :: string
  bl_status :: string
  bl_evidence_confidence :: string
  bl_spendability_authority :: string
  bl_observed_at_ms :: "i64 option"
  bl_valid_until_ms :: "i64 option"
  bl_created_at :: string
  bl_updated_at :: string

record ModelAliasRow =
  ma_id :: string
  ma_client_model :: string
  ma_upstream_model :: string
  ma_enabled :: bool

record FactDb =
  fd_station_keys :: "StationKeyRow list"
  fd_stations :: "StationRow list"
  fd_capabilities :: "CapabilityRow list"
  fd_group_bindings :: "GroupBindingRow list"
  fd_balances :: "BalanceRow list"
  fd_aliases :: "ModelAliasRow list"
  fd_routing_policy :: "string option"
  fd_revisions :: "string \<Rightarrow> i64 option"

section \<open>Raw rows\<close>

record OperationalFactReadOptions =
  op_candidate_limit :: nat
  op_requested_model :: "string option"
  op_include_model_catalog :: bool
  op_include_legacy_aliases :: bool

definition for_request_model :: "string \<Rightarrow> OperationalFactReadOptions" where
  "for_request_model model =
     \<lparr>op_candidate_limit = MAX_OPERATIONAL_CANDIDATES, op_requested_model = Some model,
      op_include_model_catalog = False, op_include_legacy_aliases = True\<rparr>"

definition for_model_catalog :: OperationalFactReadOptions where
  "for_model_catalog =
     \<lparr>op_candidate_limit = MAX_OPERATIONAL_CANDIDATES, op_requested_model = None,
      op_include_model_catalog = True, op_include_legacy_aliases = True\<rparr>"

definition without_legacy_aliases :: "OperationalFactReadOptions \<Rightarrow> OperationalFactReadOptions" where
  "without_legacy_aliases o1 = o1\<lparr>op_include_legacy_aliases := False\<rparr>"

record RawOperationalCandidateRow =
  rw_station_key_id :: string
  rw_station_id :: string
  rw_key_enabled :: bool
  rw_station_enabled :: bool
  rw_endpoint_revision :: i64
  rw_api_base_url :: string
  rw_credential_available :: bool
  rw_key_record_revision :: i64
  rw_station_record_revision :: i64
  rw_account_record_revision :: i64
  rw_schedulable :: bool
  rw_priority :: i64
  rw_backup_only :: bool
  rw_group_binding_id :: "string option"
  rw_group_record_revision :: "i64 option"
  rw_group_binding_status :: "string option"
  rw_station_native_multiplier :: "f64 option"
  rw_credit_per_cny :: "f64 option"
  rw_group_id_hash :: "string option"
  rw_group_category :: "string option"
  rw_supports_chat_completions :: bool
  rw_supports_responses :: bool
  rw_supports_stream :: bool
  rw_supports_tools :: bool
  rw_supports_vision :: bool
  rw_supports_reasoning :: bool
  rw_model_allowlist_json :: string
  rw_model_blocklist_json :: string
  rw_preferred_models_json :: string
  rw_routing_tags_json :: string
  rw_balance_scope :: "string option"
  rw_balance_kind :: "string option"
  rw_balance_status :: "string option"
  rw_balance_value :: "f64 option"
  rw_balance_currency :: "string option"
  rw_balance_evidence_confidence :: "string option"
  rw_balance_spendability_authority :: "string option"
  rw_balance_observed_at_ms :: "i64 option"
  rw_balance_valid_until_ms :: "i64 option"

record RawOperationalSettingRow =
  rg_key :: string
  rg_value :: string
  rg_record_revision :: i64

record RawOperationalModelAliasRow =
  rm_alias_id :: string
  rm_client_model :: string
  rm_upstream_model :: string
  rm_record_revision :: i64

record RawOperationalFactRows =
  ry_candidates :: "RawOperationalCandidateRow list"
  ry_settings :: "RawOperationalSettingRow list"
  ry_model_aliases :: "RawOperationalModelAliasRow list"
  ry_query_count :: nat
  ry_loaded_full_model_catalog :: bool

datatype OperationalFactQueryError = RevisionUnavailable string

section \<open>The query\<close>

text \<open>SQLite's \<^verbatim>\<open>TRIM\<close> removes spaces only, its \<^verbatim>\<open>LOWER\<close> folds ASCII.\<close>

definition sql_trim :: "string \<Rightarrow> string" where
  "sql_trim s = rev (dropWhile (\<lambda>c. c = CHR '' '') (rev (dropWhile (\<lambda>c. c = CHR '' '') s)))"

definition depleted_words :: "string list" where
  "depleted_words = [''depleted'', ''exhausted'', ''empty'']"

text \<open>The row of the latest update, ties broken by creation time and id.\<close>

definition latest_balance :: "BalanceRow list \<Rightarrow> BalanceRow option" where
  "latest_balance rows =
     (case sort_by (\<lambda>a b. (bl_updated_at b, bl_created_at b, bl_id b) \<le> (bl_updated_at a, bl_created_at a, bl_id a)) rows of
        [] \<Rightarrow> None | row # _ \<Rightarrow> Some row)"

definition account_balance :: "FactDb \<Rightarrow> string \<Rightarrow> BalanceRow option" where
  "account_balance db station_id =
     latest_balance (filter (\<lambda>b. bl_station_key_id b = None \<and> bl_station_id b = station_id \<and>
       bl_scope b \<in> {''station'', ''station_account''}) (fd_balances db))"

definition key_balance :: "FactDb \<Rightarrow> string \<Rightarrow> BalanceRow option" where
  "key_balance db key_id =
     latest_balance (filter (\<lambda>b. bl_station_key_id b = Some key_id \<and> bl_scope b = ''station_key'') (fd_balances db))"

definition key_scope_rank :: "BalanceRow \<Rightarrow> nat" where
  "key_scope_rank b =
     (if bl_value b \<noteq> None \<or> to_ascii_lowercase (sql_trim (bl_status b)) \<in> set depleted_words then 0 else 2)"

text \<open>
  The union of the latest account row (rank 1) and the latest key row (rank 0 or 2), ordered by rank.
\<close>

definition selected_balance :: "FactDb \<Rightarrow> StationKeyRow \<Rightarrow> BalanceRow option" where
  "selected_balance db k =
     (case (account_balance db (ky_station_id k), key_balance db (ky_id k)) of
        (None, None) \<Rightarrow> None
      | (Some a, None) \<Rightarrow> Some a
      | (None, Some b) \<Rightarrow> Some b
      | (Some a, Some b) \<Rightarrow> if key_scope_rank b < 1 then Some b else Some a)"

definition required_revision :: "FactDb \<Rightarrow> string \<Rightarrow> string \<Rightarrow> OperationalFactQueryError + i64" where
  "required_revision db scope name =
     (case fd_revisions db scope of
        None \<Rightarrow> Inl (RevisionUnavailable name)
      | Some r \<Rightarrow> if r > 0 then Inr r else Inl (RevisionUnavailable name))"

definition raw_candidate ::
  "FactDb \<Rightarrow> StationKeyRow \<Rightarrow> StationRow \<Rightarrow> OperationalFactQueryError + RawOperationalCandidateRow" where
  "raw_candidate db k s =
     (let c = find (\<lambda>c. cy_station_key_id c = ky_id k) (fd_capabilities db);
          g = Option.bind (ky_group_binding_id k) (\<lambda>i. find (\<lambda>g. gb_id g = i) (fd_group_bindings db));
          b = selected_balance db k
      in rbind (required_revision db (''station_key:'' @ ky_id k) (''station_key:'' @ ky_id k)) (\<lambda>key_revision.
         rbind (required_revision db (''station:'' @ sx_id s) (''station:'' @ ky_station_id k)) (\<lambda>station_revision.
         rbind (required_revision db (''station_account:'' @ sx_id s) (''station_account:'' @ ky_station_id k)) (\<lambda>account_revision.
           Inr \<lparr>rw_station_key_id = ky_id k, rw_station_id = ky_station_id k, rw_key_enabled = ky_enabled k,
             rw_station_enabled = sx_enabled s, rw_endpoint_revision = sx_endpoint_revision s,
             rw_api_base_url = sx_api_base_url s,
             rw_credential_available = (sql_trim (ky_api_key k) \<noteq> [] \<or> ky_api_key_secret_id k \<noteq> None),
             rw_key_record_revision = key_revision, rw_station_record_revision = station_revision,
             rw_account_record_revision = account_revision, rw_schedulable = ky_schedulable k,
             rw_priority = ky_priority k,
             rw_backup_only = coalesce (map_option cy_only_use_as_backup c) False,
             rw_group_binding_id = ky_group_binding_id k,
             rw_group_record_revision = Option.bind (ky_group_binding_id k) (\<lambda>i. fd_revisions db (''station_group:'' @ i)),
             rw_group_binding_status = map_option gb_binding_status g,
             rw_station_native_multiplier = Option.bind g gb_effective_rate_multiplier,
             rw_credit_per_cny = Some (sx_credit_per_cny s),
             rw_group_id_hash = or_else (ky_group_id_hash k) (Option.bind g gb_group_id_hash),
             rw_group_category = or_else (Option.bind g gb_group_category_override) (Option.bind g gb_inferred_group_category),
             rw_supports_chat_completions = coalesce (map_option cy_supports_chat_completions c) True,
             rw_supports_responses = coalesce (map_option cy_supports_responses c) True,
             rw_supports_stream = coalesce (map_option cy_supports_stream c) True,
             rw_supports_tools = coalesce (map_option cy_supports_tools c) False,
             rw_supports_vision = coalesce (map_option cy_supports_vision c) False,
             rw_supports_reasoning = coalesce (map_option cy_supports_reasoning c) False,
             rw_model_allowlist_json = coalesce (map_option cy_model_allowlist_json c) ''[]'',
             rw_model_blocklist_json = coalesce (map_option cy_model_blocklist_json c) ''[]'',
             rw_preferred_models_json = coalesce (map_option cy_preferred_models_json c) ''[]'',
             rw_routing_tags_json = coalesce (map_option cy_routing_tags_json c) ''[]'',
             rw_balance_scope = map_option bl_scope b, rw_balance_kind = map_option bl_balance_kind b,
             rw_balance_status = map_option bl_status b, rw_balance_value = Option.bind b bl_value,
             rw_balance_currency = map_option bl_currency b,
             rw_balance_evidence_confidence = map_option bl_evidence_confidence b,
             rw_balance_spendability_authority = map_option bl_spendability_authority b,
             rw_balance_observed_at_ms = Option.bind b bl_observed_at_ms,
             rw_balance_valid_until_ms = Option.bind b bl_valid_until_ms\<rparr>))))"

text \<open>The inner join with the stations, in the order of the query.\<close>

definition joined_keys :: "FactDb \<Rightarrow> (StationKeyRow \<times> StationRow) list" where
  "joined_keys db =
     sort_by (\<lambda>(a, _) (b, _).
         (coalesce (ky_routing_order a) (ky_priority a), ky_priority a, ky_created_at a, ky_id a)
         \<le> (coalesce (ky_routing_order b) (ky_priority b), ky_priority b, ky_created_at b, ky_id b))
       (List.map_filter (\<lambda>k. map_option (Pair k) (find (\<lambda>s. sx_id s = ky_station_id k) (fd_stations db)))
         (fd_station_keys db))"

definition raw_alias :: "FactDb \<Rightarrow> ModelAliasRow \<Rightarrow> OperationalFactQueryError + RawOperationalModelAliasRow" where
  "raw_alias db a =
     rbind (required_revision db (''model_alias:'' @ ma_id a) (''model_alias:'' @ ma_id a)) (\<lambda>r.
       Inr \<lparr>rm_alias_id = ma_id a, rm_client_model = ma_client_model a, rm_upstream_model = ma_upstream_model a,
         rm_record_revision = r\<rparr>)"

definition selected_aliases :: "FactDb \<Rightarrow> OperationalFactReadOptions \<Rightarrow> ModelAliasRow list" where
  "selected_aliases db options =
     (if \<not> op_include_legacy_aliases options then []
      else sort_by (\<lambda>a b. (ma_client_model a, ma_upstream_model a, ma_id a) \<le> (ma_client_model b, ma_upstream_model b, ma_id b))
        (filter (\<lambda>a. ma_enabled a \<and>
            (op_include_model_catalog options \<or>
             (case op_requested_model options of None \<Rightarrow> False
              | Some m \<Rightarrow> ma_client_model a = m \<or> ma_upstream_model a = m))) (fd_aliases db)))"

definition load_raw :: "FactDb \<Rightarrow> OperationalFactReadOptions \<Rightarrow> OperationalFactQueryError + RawOperationalFactRows" where
  "load_raw db options =
     rbind (collect (\<lambda>(k, s). raw_candidate db k s) (joined_keys db)) (\<lambda>candidates.
     rbind (case fd_routing_policy db of
              None \<Rightarrow> Inr []
            | Some config_json \<Rightarrow>
                rbind (required_revision db ''routing_policy'' ''setting:routing_policy'') (\<lambda>r.
                  Inr [\<lparr>rg_key = ''routing_policy'', rg_value = config_json, rg_record_revision = r\<rparr>]))
       (\<lambda>settings.
     rbind (collect (raw_alias db) (selected_aliases db options)) (\<lambda>aliases.
       Inr \<lparr>ry_candidates = candidates, ry_settings = settings, ry_model_aliases = aliases,
         ry_query_count = (if op_include_legacy_aliases options then 3 else 2),
         ry_loaded_full_model_catalog = op_include_model_catalog options\<rparr>)))"

end
