(* ===== verification/CandidateFacts.thy ===== *)
theory CandidateFacts
  imports FactRows Planner
begin

text \<open>
  The assembly of operational facts (\<^verbatim>\<open>operational_facts/assembler.rs\<close>, \<^verbatim>\<open>models/operational/identity.rs\<close>):
  raw rows become typed facts or the first error, and the balance evidence of a candidate is judged.
\<close>

section \<open>Validated values\<close>

datatype OperationalValidationError =
    EmptyId string
  | InvalidRevision string i64
  | InvalidEndpointOrigin string

datatype OperationalFactAssemblyError =
    InvalidJson string
  | InvalidFact OperationalValidationError

definition id_new :: "string \<Rightarrow> string \<Rightarrow> OperationalValidationError + string" where
  "id_new field v = (if trim v = [] then Inl (EmptyId field) else Inr v)"

definition record_revision_new :: "i64 \<Rightarrow> OperationalValidationError + i64" where
  "record_revision_new v = (if v \<le> 0 then Inl (InvalidRevision ''record'' v) else Inr v)"

definition endpoint_revision_new :: "i64 \<Rightarrow> OperationalValidationError + i64" where
  "endpoint_revision_new v = (if v \<le> 0 then Inl (InvalidRevision ''endpoint'' v) else Inr v)"

record EndpointRef =
  er_station_id :: string
  er_endpoint_id :: string
  er_revision :: i64

record EndpointFacts =
  ef_endpoint_ref :: EndpointRef
  ef_sanitized_origin :: string
  ef_outbound_policy_ref :: string

text \<open>
  The parts of a URL as the \<^verbatim>\<open>url\<close> crate parses them, and the JSON reader of string lists, are
  parameters.
\<close>

record ParsedUrl =
  pu_scheme :: string
  pu_host :: "string option"
  pu_username :: string
  pu_password :: "string option"
  pu_port :: "u16 option"

record FactEnv =
  fk_parse_url :: "string \<Rightarrow> ParsedUrl option"
  fk_parse_string_list :: "string \<Rightarrow> string list option"

definition sanitized_origin :: "FactEnv \<Rightarrow> string \<Rightarrow> OperationalValidationError + string" where
  "sanitized_origin env v =
     (case fk_parse_url env v of
        None \<Rightarrow> Inl (InvalidEndpointOrigin ''endpoint origin must be an absolute HTTP(S) URL'')
      | Some url \<Rightarrow>
        if pu_scheme url \<notin> {''http'', ''https''}
        then Inl (InvalidEndpointOrigin ''endpoint origin scheme must be http or https'')
        else case pu_host url of
          None \<Rightarrow> Inl (InvalidEndpointOrigin ''endpoint origin must include a host'')
        | Some host \<Rightarrow>
          if pu_username url \<noteq> [] \<or> pu_password url \<noteq> None
          then Inl (InvalidEndpointOrigin ''endpoint origin must not include user info'')
          else Inr (pu_scheme url @ ''://'' @ host
            @ (case pu_port url of None \<Rightarrow> [] | Some port \<Rightarrow> '':'' @ show_nat (unat port))))"

section \<open>Facts\<close>

record OperationalCandidateFact =
  cn_station_key_id :: string
  cn_station_id :: string
  cn_key_enabled :: bool
  cn_station_enabled :: bool
  cn_endpoint :: EndpointFacts
  cn_credential_available :: bool
  cn_credential_revision :: i64
  cn_schedulable :: bool
  cn_priority :: i64
  cn_backup_only :: bool
  cn_group_binding_id :: "string option"
  cn_group_record_revision :: "i64 option"
  cn_group_binding_status :: "string option"
  cn_station_native_multiplier :: "f64 option"
  cn_credit_per_cny :: "f64 option"
  cn_account_record_revision :: i64
  cn_group_id_hash :: "string option"
  cn_group_category :: "string option"
  cn_supports_chat_completions :: bool
  cn_supports_responses :: bool
  cn_supports_stream :: bool
  cn_supports_tools :: bool
  cn_supports_vision :: bool
  cn_supports_reasoning :: bool
  cn_model_allowlist :: "string list"
  cn_model_blocklist :: "string list"
  cn_preferred_models :: "string list"
  cn_routing_tags :: "string list"
  cn_balance_scope :: "string option"
  cn_balance_kind :: "string option"
  cn_balance_status :: "string option"
  cn_balance_value :: "f64 option"
  cn_balance_currency :: "string option"
  cn_balance_evidence_confidence :: "string option"
  cn_balance_spendability_authority :: "string option"
  cn_balance_observed_at_ms :: "i64 option"
  cn_balance_valid_until_ms :: "i64 option"

record FactVersionVector =
  fv_max_station_revision :: i64
  fv_max_key_revision :: i64
  fv_max_settings_revision :: i64
  fv_max_alias_revision :: i64

record SettingFact =
  sg_key :: string
  sg_value :: string
  sg_record_revision :: i64

record OperationalFactBundle =
  fb_snapshot_id :: string
  fb_version_vector :: FactVersionVector
  fb_candidates :: "OperationalCandidateFact list"
  fb_settings_by_key :: "(string, SettingFact) btree"
  fb_model_aliases :: "RawOperationalModelAliasRow list"
  fb_query_count :: nat
  fb_loaded_full_model_catalog :: bool

section \<open>Assembly\<close>

definition invalid_fact :: "OperationalValidationError + 'a \<Rightarrow> OperationalFactAssemblyError + 'a" where
  "invalid_fact r = (case r of Inl e \<Rightarrow> Inl (InvalidFact e) | Inr x \<Rightarrow> Inr x)"

definition parse_json_string_list :: "FactEnv \<Rightarrow> string \<Rightarrow> string \<Rightarrow> OperationalFactAssemblyError + string list" where
  "parse_json_string_list env v field =
     (case fk_parse_string_list env v of None \<Rightarrow> Inl (InvalidJson field) | Some xs \<Rightarrow> Inr xs)"

definition transpose_option :: "('a \<Rightarrow> 'e + 'b) \<Rightarrow> 'a option \<Rightarrow> 'e + 'b option" where
  "transpose_option f x = (case x of None \<Rightarrow> Inr None | Some v \<Rightarrow> rbind (f v) (\<lambda>y. Inr (Some y)))"

definition assemble_candidate ::
  "FactEnv \<Rightarrow> RawOperationalCandidateRow \<Rightarrow> OperationalFactAssemblyError + OperationalCandidateFact" where
  "assemble_candidate env row =
     rbind (invalid_fact (id_new ''station_id'' (rw_station_id row))) (\<lambda>station_id.
     rbind (invalid_fact (id_new ''station_key_id'' (rw_station_key_id row))) (\<lambda>station_key_id.
     rbind (invalid_fact (endpoint_revision_new (rw_endpoint_revision row))) (\<lambda>endpoint_revision.
     rbind (invalid_fact (record_revision_new (rw_key_record_revision row))) (\<lambda>key_record_revision.
     rbind (invalid_fact (id_new ''endpoint_id'' ''primary'')) (\<lambda>endpoint_id.
     rbind (invalid_fact (sanitized_origin env (rw_api_base_url row))) (\<lambda>origin.
     rbind (invalid_fact (id_new ''outbound_policy_ref'' ''station-default'')) (\<lambda>outbound_policy_ref.
     rbind (invalid_fact (transpose_option record_revision_new (rw_group_record_revision row))) (\<lambda>group_record_revision.
     rbind (invalid_fact (record_revision_new (rw_account_record_revision row))) (\<lambda>account_record_revision.
     rbind (parse_json_string_list env (rw_model_allowlist_json row) ''model_allowlist_json'') (\<lambda>model_allowlist.
     rbind (parse_json_string_list env (rw_model_blocklist_json row) ''model_blocklist_json'') (\<lambda>model_blocklist.
     rbind (parse_json_string_list env (rw_preferred_models_json row) ''preferred_models_json'') (\<lambda>preferred_models.
     rbind (parse_json_string_list env (rw_routing_tags_json row) ''routing_tags_json'') (\<lambda>routing_tags.
       Inr \<lparr>cn_station_key_id = station_key_id, cn_station_id = station_id, cn_key_enabled = rw_key_enabled row,
         cn_station_enabled = rw_station_enabled row,
         cn_endpoint = \<lparr>ef_endpoint_ref = \<lparr>er_station_id = station_id, er_endpoint_id = endpoint_id,
             er_revision = endpoint_revision\<rparr>,
           ef_sanitized_origin = origin, ef_outbound_policy_ref = outbound_policy_ref\<rparr>,
         cn_credential_available = rw_credential_available row, cn_credential_revision = key_record_revision,
         cn_schedulable = rw_schedulable row, cn_priority = rw_priority row, cn_backup_only = rw_backup_only row,
         cn_group_binding_id = rw_group_binding_id row, cn_group_record_revision = group_record_revision,
         cn_group_binding_status = rw_group_binding_status row,
         cn_station_native_multiplier = rw_station_native_multiplier row,
         cn_credit_per_cny = rw_credit_per_cny row, cn_account_record_revision = account_record_revision,
         cn_group_id_hash = rw_group_id_hash row, cn_group_category = rw_group_category row,
         cn_supports_chat_completions = rw_supports_chat_completions row,
         cn_supports_responses = rw_supports_responses row, cn_supports_stream = rw_supports_stream row,
         cn_supports_tools = rw_supports_tools row, cn_supports_vision = rw_supports_vision row,
         cn_supports_reasoning = rw_supports_reasoning row, cn_model_allowlist = model_allowlist,
         cn_model_blocklist = model_blocklist, cn_preferred_models = preferred_models,
         cn_routing_tags = routing_tags, cn_balance_scope = rw_balance_scope row,
         cn_balance_kind = rw_balance_kind row, cn_balance_status = rw_balance_status row,
         cn_balance_value = Option.bind (rw_balance_value row) (\<lambda>v. if f64_is_finite v then Some v else None),
         cn_balance_currency = rw_balance_currency row,
         cn_balance_evidence_confidence = rw_balance_evidence_confidence row,
         cn_balance_spendability_authority = rw_balance_spendability_authority row,
         cn_balance_observed_at_ms = rw_balance_observed_at_ms row,
         cn_balance_valid_until_ms = rw_balance_valid_until_ms row\<rparr>)))))))))))))"

definition assemble_setting ::
  "RawOperationalSettingRow \<Rightarrow> OperationalFactAssemblyError + (string \<times> SettingFact)" where
  "assemble_setting row =
     rbind (invalid_fact (record_revision_new (rg_record_revision row))) (\<lambda>revision.
       Inr (rg_key row, \<lparr>sg_key = rg_key row, sg_value = rg_value row, sg_record_revision = revision\<rparr>))"

definition assemble_alias ::
  "RawOperationalModelAliasRow \<Rightarrow> OperationalFactAssemblyError + RawOperationalModelAliasRow" where
  "assemble_alias row =
     rbind (invalid_fact (record_revision_new (rm_record_revision row))) (\<lambda>revision.
       Inr (row\<lparr>rm_record_revision := revision\<rparr>))"

definition max_revision :: "i64 list \<Rightarrow> i64" where
  "max_revision rs = foldl max 0 rs"

text \<open>\<^verbatim>\<open>format!("ofs-{value:016x}")\<close> of the counter of the process\<close>

definition snapshot_id_of :: "u64 \<Rightarrow> string" where
  "snapshot_id_of v = ''ofs-'' @ map (\<lambda>i. hex_digit (unat v div 16 ^ (15 - i) mod 16)) [0..<16]"

definition assemble_operational_fact_bundle ::
  "FactEnv \<Rightarrow> u64 \<Rightarrow> RawOperationalFactRows \<Rightarrow> OperationalFactAssemblyError + (OperationalFactBundle \<times> u64)" where
  "assemble_operational_fact_bundle env counter raw =
     rbind (collect (assemble_candidate env) (ry_candidates raw)) (\<lambda>candidates.
     rbind (collect assemble_setting (ry_settings raw)) (\<lambda>settings.
     rbind (collect assemble_alias (ry_model_aliases raw)) (\<lambda>aliases.
       Inr (\<lparr>fb_snapshot_id = snapshot_id_of counter,
         fb_version_vector =
           \<lparr>fv_max_station_revision = max_revision (map rw_station_record_revision (ry_candidates raw)),
            fv_max_key_revision = max_revision (map rw_key_record_revision (ry_candidates raw)),
            fv_max_settings_revision = max_revision (map rg_record_revision (ry_settings raw)),
            fv_max_alias_revision = max_revision (map rm_record_revision (ry_model_aliases raw))\<rparr>,
         fb_candidates = candidates,
         fb_settings_by_key = foldl (\<lambda>m (k, v). bt_insert k v m) [] settings,
         fb_model_aliases = aliases, fb_query_count = ry_query_count raw,
         fb_loaded_full_model_catalog = ry_loaded_full_model_catalog raw\<rparr>, counter + 1))))"

datatype OperationalFactReadError =
    Assembly OperationalFactAssemblyError
  | Source OperationalFactQueryError

definition load_bundle ::
  "FactEnv \<Rightarrow> FactDb \<Rightarrow> u64 \<Rightarrow> OperationalFactReadOptions \<Rightarrow> OperationalFactReadError + (OperationalFactBundle \<times> u64)" where
  "load_bundle env db counter options =
     (case load_raw db options of
        Inl e \<Rightarrow> Inl (Source e)
      | Inr raw \<Rightarrow>
        (case assemble_operational_fact_bundle env counter raw of
           Inl e \<Rightarrow> Inl (Assembly e)
         | Inr r \<Rightarrow> Inr r))"

section \<open>Balance evidence\<close>

definition balance_is_depleted :: "f64 option \<Rightarrow> string option \<Rightarrow> bool" where
  "balance_is_depleted v status =
     (case Option.bind v (\<lambda>x. if f64_is_finite x then Some x else None) of
        Some x \<Rightarrow> f64_le x (F64_Num 0)
      | None \<Rightarrow> some_satisfies (\<lambda>s. to_ascii_lowercase (trim s) \<in> set depleted_words) status)"

definition balance_kind_matches :: "string \<Rightarrow> string \<Rightarrow> bool" where
  "balance_kind_matches scope kind =
     (let s = to_ascii_lowercase (trim scope) in
      if s = ''station_key'' then eq_ignore_ascii_case kind ''station_key_quota''
      else if s \<in> {''station'', ''station_account''} then eq_ignore_ascii_case kind ''account_balance''
      else False)"

definition balance_fact_rejection_reason :: "OperationalCandidateFact \<Rightarrow> i64 \<Rightarrow> string option" where
  "balance_fact_rejection_reason c evaluation_at_ms =
     (case (cn_balance_scope c, cn_balance_kind c) of
        (Some scope, Some kind) \<Rightarrow>
          if \<not> balance_kind_matches scope kind then Some ''balance_kind_scope_mismatch''
          else if \<not> some_satisfies (\<lambda>currency. trim currency \<noteq> []) (cn_balance_currency c)
          then Some ''balance_currency_missing''
          else if some_satisfies (\<lambda>t. t < 0) (cn_balance_observed_at_ms c) then Some ''balance_observed_at_invalid''
          else if \<not> some_satisfies (\<lambda>v. eq_ignore_ascii_case v ''confirmed'') (cn_balance_evidence_confidence c)
            \<or> \<not> some_satisfies (\<lambda>v. eq_ignore_ascii_case v ''authoritative'') (cn_balance_spendability_authority c)
          then Some ''balance_untrusted''
          else if some_satisfies (\<lambda>t. t < evaluation_at_ms) (cn_balance_valid_until_ms c) then Some ''balance_stale''
          else if cn_balance_value c = None
            \<and> \<not> some_satisfies (\<lambda>s. to_ascii_lowercase (trim s) \<in> set depleted_words) (cn_balance_status c)
          then Some ''balance_missing''
          else if balance_is_depleted (cn_balance_value c) (cn_balance_status c) then Some ''balance_depleted''
          else None
      | _ \<Rightarrow> Some ''balance_missing'')"

end
