(* ===== verification/CapabilityVerdicts.thy ===== *)
theory CapabilityVerdicts
  imports ModelMapping Persistence
begin

text \<open>
  The durable verdicts about unsupported models (\<^verbatim>\<open>stores/routing_health_verdict_store.rs\<close> on the
  schema of the migrations 0035, 0043 and 0045): what a failed attempt records, and which of the
  models of a plan are known not to be served by a key.
\<close>

record UnsupportedModelObservation =
  um_observation_id :: string
  um_logical_request_id :: string
  um_attempt_ordinal :: u8
  um_station_key_id :: string
  um_resolved_model :: string
  um_credential_revision :: i64
  um_endpoint_revision :: i64
  um_model_alias_revision :: i64
  um_endpoint_kind :: string
  um_protocol_kind :: string
  um_model_mapping_revision :: "i64 option"
  um_model_resolution_fence :: "string option"
  um_evidence_code :: string
  um_classifier_profile_version :: string

text \<open>A row of \<^verbatim>\<open>routing_capability_model_observations\<close> is its observation with a sequence and a hash.\<close>

record CapabilityObservationRow =
  bo_ingestion_sequence :: nat
  bo_payload_hash :: string
  bo_identity_version :: i64
  bo_observation :: UnsupportedModelObservation
  bo_created_at_ms :: i64

record CapabilityVerdictRow =
  vv_station_key_id :: string
  vv_resolved_model :: string
  vv_credential_revision :: i64
  vv_endpoint_revision :: i64
  vv_model_alias_revision :: i64
  vv_endpoint_kind :: string
  vv_protocol_kind :: string
  vv_identity_version :: i64
  vv_model_mapping_revision :: "i64 option"
  vv_model_resolution_fence :: "string option"
  vv_source_observation_id :: string
  vv_source_ingestion_sequence :: nat
  vv_projector_version :: string
  vv_updated_at_ms :: i64

record CapabilityDb =
  cd_observations :: "CapabilityObservationRow list"
  cd_next_sequence :: nat
  cd_verdicts :: "CapabilityVerdictRow list"

datatype CapabilityObservationApplyResult = Applied | Existing

definition MAX_BATCH_SUBJECTS :: nat where
  "MAX_BATCH_SUBJECTS = 4096"

definition NATIVE_MODEL_CAPABILITY_IDENTITY_VERSION :: i64 where
  "NATIVE_MODEL_CAPABILITY_IDENTITY_VERSION = 2"

section \<open>Reading\<close>

type_synonym capability_subject = "string \<times> string \<times> i64 \<times> i64 \<times> i64"

definition verdict_of_subject :: "capability_subject \<Rightarrow> CapabilityVerdictRow \<Rightarrow> bool" where
  "verdict_of_subject r v \<longleftrightarrow>
     (case r of (station_key_id, resolved_model, credential_revision, endpoint_revision, model_alias_revision) \<Rightarrow>
       vv_station_key_id v = station_key_id \<and> vv_resolved_model v = resolved_model \<and>
       vv_credential_revision v = credential_revision \<and> vv_endpoint_revision v = endpoint_revision \<and>
       vv_endpoint_kind v = ''unknown'' \<and> vv_protocol_kind v = ''unknown'' \<and> vv_identity_version v \<ge> 2)"

text \<open>Every stored verdict is \<^verbatim>\<open>'unsupported'\<close>: the column's \<^verbatim>\<open>CHECK\<close> admits no other value.\<close>

definition load_unsupported_model_batch ::
  "CapabilityDb \<Rightarrow> capability_subject list \<Rightarrow> PersistenceError + capability_subject list" where
  "load_unsupported_model_batch db subjects =
     (if length subjects > MAX_BATCH_SUBJECTS then Inl ConstraintViolation
      else Inr (concat (map (\<lambda>r.
        map (\<lambda>v. (vv_station_key_id v, vv_resolved_model v, vv_credential_revision v, vv_endpoint_revision v,
                 vv_model_alias_revision v))
          (filter (verdict_of_subject r) (cd_verdicts db))) subjects)))"

section \<open>Writing\<close>

definition validate_text :: "string \<Rightarrow> nat \<Rightarrow> bool" where
  "validate_text v max_bytes \<longleftrightarrow> v \<noteq> [] \<and> length v \<le> max_bytes \<and> \<not> has_control v"

definition observation_valid :: "UnsupportedModelObservation \<Rightarrow> i64 \<Rightarrow> bool" where
  "observation_valid o1 now_ms \<longleftrightarrow>
     list_all (\<lambda>(v, m). validate_text v m)
       [(um_observation_id o1, 160), (um_logical_request_id o1, 160), (um_station_key_id o1, 160),
        (um_resolved_model o1, 256), (um_endpoint_kind o1, 64), (um_protocol_kind o1, 64),
        (um_evidence_code o1, 96), (um_classifier_profile_version o1, 96)] \<and>
     (case um_model_resolution_fence o1 of None \<Rightarrow> True | Some f \<Rightarrow> validate_text f 128) \<and>
     \<not> (now_ms < 0 \<or> um_credential_revision o1 \<le> 0 \<or> um_endpoint_revision o1 \<le> 0 \<or>
        um_model_alias_revision o1 \<le> 0 \<or>
        (case um_model_mapping_revision o1 of None \<Rightarrow> False | Some r \<Rightarrow> r \<le> 0))"

text \<open>The fields under the hash: all but the id of the observation.\<close>

type_synonym capability_payload =
  "string \<times> u8 \<times> string \<times> string \<times> i64 \<times> i64 \<times> i64 \<times> string \<times> string \<times> i64 option \<times> string option \<times> string \<times> string"

definition capability_payload :: "UnsupportedModelObservation \<Rightarrow> capability_payload" where
  "capability_payload o1 =
     (um_logical_request_id o1, um_attempt_ordinal o1, um_station_key_id o1, um_resolved_model o1,
      um_credential_revision o1, um_endpoint_revision o1, um_model_alias_revision o1, um_endpoint_kind o1,
      um_protocol_kind o1, um_model_mapping_revision o1, um_model_resolution_fence o1, um_evidence_code o1,
      um_classifier_profile_version o1)"

definition same_observation :: "UnsupportedModelObservation \<Rightarrow> CapabilityObservationRow \<Rightarrow> bool" where
  "same_observation o1 row \<longleftrightarrow>
     um_observation_id (bo_observation row) = um_observation_id o1 \<or>
     um_logical_request_id (bo_observation row) = um_logical_request_id o1 \<and>
     um_attempt_ordinal (bo_observation row) = um_attempt_ordinal o1 \<and>
     um_station_key_id (bo_observation row) = um_station_key_id o1 \<and>
     um_resolved_model (bo_observation row) = um_resolved_model o1"

definition verdict_of :: "UnsupportedModelObservation \<Rightarrow> nat \<Rightarrow> i64 \<Rightarrow> CapabilityVerdictRow" where
  "verdict_of o1 sequence now_ms =
     \<lparr>vv_station_key_id = um_station_key_id o1, vv_resolved_model = um_resolved_model o1,
      vv_credential_revision = um_credential_revision o1, vv_endpoint_revision = um_endpoint_revision o1,
      vv_model_alias_revision = um_model_alias_revision o1, vv_endpoint_kind = um_endpoint_kind o1,
      vv_protocol_kind = um_protocol_kind o1, vv_identity_version = NATIVE_MODEL_CAPABILITY_IDENTITY_VERSION,
      vv_model_mapping_revision = um_model_mapping_revision o1,
      vv_model_resolution_fence = um_model_resolution_fence o1, vv_source_observation_id = um_observation_id o1,
      vv_source_ingestion_sequence = sequence, vv_projector_version = ''capability_evidence_v2'',
      vv_updated_at_ms = now_ms\<rparr>"

text \<open>
  The two keys of the verdict table: the primary key of migration 0035, and the partial unique index
  of migration 0045 over the rows of identity version 2 and later.
\<close>

definition same_primary_key :: "CapabilityVerdictRow \<Rightarrow> CapabilityVerdictRow \<Rightarrow> bool" where
  "same_primary_key a b \<longleftrightarrow>
     vv_station_key_id a = vv_station_key_id b \<and> vv_resolved_model a = vv_resolved_model b \<and>
     vv_credential_revision a = vv_credential_revision b \<and> vv_endpoint_revision a = vv_endpoint_revision b \<and>
     vv_model_alias_revision a = vv_model_alias_revision b"

definition same_native_identity :: "CapabilityVerdictRow \<Rightarrow> CapabilityVerdictRow \<Rightarrow> bool" where
  "same_native_identity a b \<longleftrightarrow>
     vv_identity_version a \<ge> 2 \<and> vv_identity_version b \<ge> 2 \<and>
     vv_station_key_id a = vv_station_key_id b \<and> vv_resolved_model a = vv_resolved_model b \<and>
     vv_endpoint_kind a = vv_endpoint_kind b \<and> vv_protocol_kind a = vv_protocol_kind b \<and>
     vv_credential_revision a = vv_credential_revision b \<and> vv_endpoint_revision a = vv_endpoint_revision b"

definition refresh_verdict :: "CapabilityVerdictRow \<Rightarrow> CapabilityVerdictRow \<Rightarrow> CapabilityVerdictRow" where
  "refresh_verdict new old =
     (if vv_source_ingestion_sequence new > vv_source_ingestion_sequence old
      then old\<lparr>vv_model_alias_revision := vv_model_alias_revision new,
               vv_model_mapping_revision := vv_model_mapping_revision new,
               vv_model_resolution_fence := vv_model_resolution_fence new,
               vv_source_observation_id := vv_source_observation_id new,
               vv_source_ingestion_sequence := vv_source_ingestion_sequence new,
               vv_projector_version := vv_projector_version new,
               vv_updated_at_ms := vv_updated_at_ms new\<rparr>
      else old)"

text \<open>
  The upsert: a row of the same native identity is refreshed, which fails when another row has the
  refreshed primary key; otherwise the row is inserted, which fails when its primary key is taken.
\<close>

definition upsert_verdict ::
  "CapabilityVerdictRow list \<Rightarrow> CapabilityVerdictRow \<Rightarrow> PersistenceError + CapabilityVerdictRow list" where
  "upsert_verdict rows new =
     (case find (same_native_identity new) rows of
        Some old \<Rightarrow>
          if \<exists>row \<in> set rows. \<not> same_native_identity new row \<and> same_primary_key (refresh_verdict new old) row
          then Inl ConstraintViolation
          else Inr (map (\<lambda>row. if same_native_identity new row then refresh_verdict new row else row) rows)
      | None \<Rightarrow>
          if \<exists>row \<in> set rows. same_primary_key new row then Inl ConstraintViolation
          else Inr (rows @ [new]))"

definition apply_unsupported_model ::
  "(capability_payload \<Rightarrow> string) \<Rightarrow> CapabilityDb \<Rightarrow> UnsupportedModelObservation \<Rightarrow> i64
    \<Rightarrow> PersistenceError + (CapabilityDb \<times> CapabilityObservationApplyResult)" where
  "apply_unsupported_model payload_hash db o1 now_ms =
     (if \<not> observation_valid o1 now_ms then Inl ConstraintViolation
      else let hash = payload_hash (capability_payload o1) in
        (case find (same_observation o1) (cd_observations db) of
           Some existing \<Rightarrow>
             if bo_payload_hash existing = hash then Inr (db, Existing)
             else Inl (InvariantViolation ''capability observation identity collision'')
         | None \<Rightarrow>
             if um_attempt_ordinal o1 > 63 then Inl DatabaseFailed
             else let sequence = cd_next_sequence db in
               rbind (upsert_verdict (cd_verdicts db) (verdict_of o1 sequence now_ms)) (\<lambda>verdicts.
                 Inr (\<lparr>cd_observations = cd_observations db @
                        [\<lparr>bo_ingestion_sequence = sequence, bo_payload_hash = hash,
                          bo_identity_version = NATIVE_MODEL_CAPABILITY_IDENTITY_VERSION,
                          bo_observation = o1, bo_created_at_ms = now_ms\<rparr>],
                      cd_next_sequence = sequence + 1, cd_verdicts = verdicts\<rparr>, Applied))))"

end
