(* ===== verification/QualityRead.thy ===== *)
theory QualityRead
  imports BTree ModelMapping Persistence
begin

text \<open>
  The quality read model of planning (\<^verbatim>\<open>RoutingQualityStore::load_planning_read\<close> in
  \<^verbatim>\<open>stores/routing_quality_store.rs\<close> on the tables of migration 0061): the axes of the active quality
  generation for a set of scopes, and how far the projection lags behind the observations.
\<close>

section \<open>Tables\<close>

record QualityGenerationRow =
  qp_quality_generation_id :: string
  qp_active :: bool
  qp_input_observation_watermark :: "i64 option"

record QualitySummaryRow =
  qo_quality_generation_id :: string
  qo_scope :: string
  qo_station_key_lifecycle_revision :: i64
  qo_quality_revision :: i64
  qo_summary_json :: string

record QualityAxisRow =
  qa_quality_generation_id :: string
  qa_scope :: string
  qa_station_key_lifecycle_revision :: i64
  qa_axis :: string
  qa_health_revision :: i64
  qa_value_basis_points :: i64

record QualityCheckpointRow =
  qk_quality_generation_id :: string
  qk_projector :: string
  qk_projector_version :: string
  qk_scope :: string
  qk_checkpoint_sequence :: i64

record ObservationRow =
  qn_eligible_active :: bool
  qn_ingestion_sequence :: "i64 option"
  qn_ingested_at_ms :: i64

record QualityDb =
  qd_generations :: "QualityGenerationRow list"
  qd_summaries :: "QualitySummaryRow list"
  qd_axes :: "QualityAxisRow list"
  qd_checkpoints :: "QualityCheckpointRow list"
  qd_observations :: "ObservationRow list"

text \<open>
  What a reader of a stored summary sees: the members \<^verbatim>\<open>projector_version\<close> as a string and
  \<^verbatim>\<open>quality_unavailable\<close> as a boolean. The JSON parser is a parameter.
\<close>

type_synonym summary_parser = "string \<Rightarrow> (string option \<times> bool option) option"

definition MAX_ACTIVE_QUALITY_LAG_SECONDS :: nat where
  "MAX_ACTIVE_QUALITY_LAG_SECONDS = 900"

definition ROUTING_QUALITY_PROJECTOR_ID :: string where
  "ROUTING_QUALITY_PROJECTOR_ID = ''routing-projection-v1''"

definition ROUTING_QUALITY_CURSOR_SCOPE :: string where
  "ROUTING_QUALITY_CURSOR_SCOPE = ''__routing_projection_ingestion_cursor__''"

record RoutingQualityPlanningRead =
  qr_axes :: "(string, (string, u16) btree) btree"
  qr_unavailable_scopes :: "string list"
  qr_quality_revision :: u64
  qr_health_revision :: u64
  qr_projection_backlog :: u64
  qr_projection_lag_seconds :: u64
  qr_quality_stale :: bool
  qr_quality_available :: bool

definition planning_read_default :: RoutingQualityPlanningRead where
  "planning_read_default =
     \<lparr>qr_axes = [], qr_unavailable_scopes = [], qr_quality_revision = 0, qr_health_revision = 0,
      qr_projection_backlog = 0, qr_projection_lag_seconds = 0, qr_quality_stale = False,
      qr_quality_available = False\<rparr>"

section \<open>Revisions and lag\<close>

definition quality_generation_id_valid :: "string \<Rightarrow> bool" where
  "quality_generation_id_valid g \<longleftrightarrow> 5 \<le> length g \<and> length g \<le> 192 \<and> \<not> has_control g"

definition to_u64_nonnegative :: "i64 option \<Rightarrow> string \<Rightarrow> PersistenceError + u64 option" where
  "to_u64_nonnegative v field =
     (case v of
        None \<Rightarrow> Inr None
      | Some x \<Rightarrow> if x < 0 then Inl (InvariantViolation (field @ '' is negative'')) else Inr (Some (of_int x)))"

definition checkpoint_of :: "QualityDb \<Rightarrow> string \<Rightarrow> i64 option" where
  "checkpoint_of db g =
     map_option qk_checkpoint_sequence
       (find (\<lambda>c. qk_quality_generation_id c = g \<and> qk_projector c = ROUTING_QUALITY_PROJECTOR_ID \<and>
          qk_projector_version c = ''routing_quality_v3'' \<and> qk_scope c = ROUTING_QUALITY_CURSOR_SCOPE)
        (qd_checkpoints db))"

definition backlog_rows :: "QualityDb \<Rightarrow> i64 \<Rightarrow> ObservationRow list" where
  "backlog_rows db checkpoint =
     filter (\<lambda>r. qn_eligible_active r \<and>
         (case qn_ingestion_sequence r of None \<Rightarrow> False | Some s \<Rightarrow> s > checkpoint))
       (qd_observations db)"

definition lag_seconds :: "i64 \<Rightarrow> ObservationRow list \<Rightarrow> u64" where
  "lag_seconds now_ms rows =
     (let lag_ms = coalesce (map_option (\<lambda>oldest. of_int (max (i64_sat_sub now_ms oldest) 0))
            (min_option (map qn_ingested_at_ms rows))) 0
      in sat_add lag_ms 999 div 1000)"

section \<open>Axes\<close>

definition requested_scopes :: "string list \<Rightarrow> string list" where
  "requested_scopes scopes = remdups (sort (take 1024 (filter (\<lambda>s. s \<noteq> []) scopes)))"

text \<open>The rows of the last lifecycle of each requested scope, with their axes (a left join), in order.\<close>

definition latest_summary :: "QualityDb \<Rightarrow> string \<Rightarrow> string \<Rightarrow> QualitySummaryRow option" where
  "latest_summary db g scope =
     (let rows = filter (\<lambda>r. qo_quality_generation_id r = g \<and> qo_scope r = scope) (qd_summaries db)
      in case max_option (map qo_station_key_lifecycle_revision rows) of
           None \<Rightarrow> None
         | Some lifecycle \<Rightarrow> find (\<lambda>r. qo_station_key_lifecycle_revision r = lifecycle) rows)"

definition axes_of :: "QualityDb \<Rightarrow> QualitySummaryRow \<Rightarrow> QualityAxisRow list" where
  "axes_of db s =
     sort_by (\<lambda>a b. qa_axis a \<le> qa_axis b)
       (filter (\<lambda>a. qa_quality_generation_id a = qo_quality_generation_id s \<and> qa_scope a = qo_scope s \<and>
          qa_station_key_lifecycle_revision a = qo_station_key_lifecycle_revision s) (qd_axes db))"

definition summary_rows :: "QualityDb \<Rightarrow> string \<Rightarrow> string list \<Rightarrow> (QualitySummaryRow \<times> QualityAxisRow option) list" where
  "summary_rows db g scopes =
     concat (map (\<lambda>scope.
       case latest_summary db g scope of
         None \<Rightarrow> []
       | Some s \<Rightarrow> (case axes_of db s of [] \<Rightarrow> [(s, None)] | axes \<Rightarrow> map (\<lambda>a. (s, Some a)) axes))
     scopes)"

definition summary_available :: "summary_parser \<Rightarrow> string \<Rightarrow> bool" where
  "summary_available parse json =
     (case parse json of
        Some (Some version, Some unavailable) \<Rightarrow> version = ''routing_quality_v3'' \<and> \<not> unavailable
      | _ \<Rightarrow> False)"

definition insert_unique :: "'a \<Rightarrow> 'a list \<Rightarrow> 'a list" where
  "insert_unique x xs = (if x \<in> set xs then xs else xs @ [x])"

definition axis_entry :: "string \<Rightarrow> (string, (string, u16) btree) btree \<Rightarrow> (string, u16) btree" where
  "axis_entry scope m = coalesce (map_of m scope) []"

text \<open>
  One row of the result: \<open>parsed\<close> remembers the availability of a summary from its first row.
\<close>

definition read_row ::
  "summary_parser \<Rightarrow> QualitySummaryRow \<times> QualityAxisRow option
    \<Rightarrow> (string, bool) btree \<times> RoutingQualityPlanningRead
    \<Rightarrow> PersistenceError + (string, bool) btree \<times> RoutingQualityPlanningRead" where
  "read_row parse row st =
     (case (row, st) of ((s, axis), (parsed, result)) \<Rightarrow>
        let scope = qo_scope s;
            available = coalesce (map_of parsed scope) (summary_available parse (qo_summary_json s));
            parsed' = (case map_of parsed scope of None \<Rightarrow> bt_insert scope available parsed | Some _ \<Rightarrow> parsed)
        in if \<not> available
           then Inr (parsed', result\<lparr>qr_unavailable_scopes := insert_unique scope (qr_unavailable_scopes result)\<rparr>)
           else case axis of
             None \<Rightarrow> Inr (parsed', result)
           | Some a \<Rightarrow>
             if \<not> (0 \<le> qa_value_basis_points a \<and> qa_value_basis_points a \<le> 10000)
             then Inl (InvariantViolation ''routing generation health axis is outside basis-point range'')
             else Inr (parsed', result\<lparr>qr_axes :=
               bt_insert scope (bt_insert (qa_axis a) (of_int (qa_value_basis_points a)) (axis_entry scope (qr_axes result)))
                 (qr_axes result)\<rparr>))"

fun read_rows ::
  "summary_parser \<Rightarrow> (QualitySummaryRow \<times> QualityAxisRow option) list
    \<Rightarrow> (string, bool) btree \<times> RoutingQualityPlanningRead
    \<Rightarrow> PersistenceError + (string, bool) btree \<times> RoutingQualityPlanningRead" where
  "read_rows parse [] st = Inr st"
| "read_rows parse (row # rows) st = rbind (read_row parse row st) (read_rows parse rows)"

definition axes_complete :: "string \<Rightarrow> RoutingQualityPlanningRead \<Rightarrow> bool" where
  "axes_complete scope result \<longleftrightarrow>
     (case map_of (qr_axes result) scope of
        None \<Rightarrow> False
      | Some axes \<Rightarrow> ''reliability'' \<in> fst ` set axes \<and> ''latency'' \<in> fst ` set axes)"

definition drop_incomplete :: "(string \<times> bool) list \<Rightarrow> RoutingQualityPlanningRead \<Rightarrow> RoutingQualityPlanningRead" where
  "drop_incomplete parsed result =
     foldl (\<lambda>result (scope, available).
         if available \<and> \<not> axes_complete scope result
         then result\<lparr>qr_axes := bt_remove scope (qr_axes result),
                qr_unavailable_scopes := insert_unique scope (qr_unavailable_scopes result)\<rparr>
         else result) result parsed"

definition load_planning_read ::
  "summary_parser \<Rightarrow> QualityDb \<Rightarrow> string option \<Rightarrow> string list \<Rightarrow> i64 \<Rightarrow> PersistenceError + RoutingQualityPlanningRead" where
  "load_planning_read parse db quality_generation_id scopes now_ms =
     (if now_ms < 0 then Inl ConstraintViolation
      else case quality_generation_id of
        None \<Rightarrow> Inr (planning_read_default\<lparr>qr_quality_available := True\<rparr>)
      | Some g \<Rightarrow>
        if \<not> quality_generation_id_valid g then Inl ConstraintViolation
        else case find (\<lambda>r. qp_quality_generation_id r = g \<and> qp_active r) (qd_generations db) of
          None \<Rightarrow> Inl (InvariantViolation ''routing_generation_registry_corrupt: active quality component is missing'')
        | Some generation \<Rightarrow>
          rbind (to_u64_nonnegative (qp_input_observation_watermark generation) ''active quality watermark'') (\<lambda>watermark.
          rbind (to_u64_nonnegative (max_option (map qo_quality_revision
              (filter (\<lambda>r. qo_quality_generation_id r = g) (qd_summaries db)))) ''quality revision'') (\<lambda>stored_quality.
          rbind (to_u64_nonnegative (max_option (map qa_health_revision
              (filter (\<lambda>r. qa_quality_generation_id r = g) (qd_axes db)))) ''health revision'') (\<lambda>stored_health.
            let base_watermark = coalesce watermark 0;
                quality_revision = max (max (coalesce stored_quality 0) base_watermark) 1;
                health_revision = max (max (coalesce stored_health 0) quality_revision) 1
            in rbind (case checkpoint_of db g of
                        None \<Rightarrow> Inr base_watermark
                      | Some c \<Rightarrow> if c < 0 then Inl (InvariantViolation ''routing quality checkpoint is negative'')
                                  else Inr (max (of_int c) base_watermark)) (\<lambda>checkpoint.
               if uint checkpoint > i64_max then Inl ConstraintViolation
               else let rows = backlog_rows db (uint checkpoint);
                        backlog = of_nat (length rows);
                        lag = lag_seconds now_ms rows;
                        result = \<lparr>qr_axes = [], qr_unavailable_scopes = [], qr_quality_revision = quality_revision,
                          qr_health_revision = health_revision, qr_projection_backlog = backlog,
                          qr_projection_lag_seconds = lag, qr_quality_stale = (backlog > 0),
                          qr_quality_available = (unat lag \<le> MAX_ACTIVE_QUALITY_LAG_SECONDS)\<rparr>
                    in if requested_scopes scopes = [] then Inr result
                       else rbind (read_rows parse (summary_rows db g (requested_scopes scopes)) ([], result))
                         (\<lambda>(parsed, result). Inr (drop_incomplete parsed result)))))))"

end
