(* ===== verification/Generation.thy ===== *)
theory Generation
  imports ModelMapping Persistence
begin

text \<open>
  The registry of routing generations (\<^verbatim>\<open>models/routing_generation.rs\<close> and
  \<^verbatim>\<open>stores/routing_generation_store.rs\<close> on the schema of migration 0063): a generation ties a policy, a
  quality and a circuit component together, one of them is active, and a cutover replaces it behind a
  fence.
\<close>

section \<open>Generations and the marker\<close>

datatype RoutingGenerationStatus = Building | Ready | CutoverFencing | ActiveGeneration | Retired | FailedGeneration

datatype RoutingCutoverMode = PreCutover | V3Active

record RoutingRuntimeGeneration =
  gx_runtime_generation_id :: string
  gx_policy_generation_id :: string
  gx_quality_generation_id :: string
  gx_circuit_generation_id :: string
  gx_policy_revision :: u64
  gx_quality_policy_revision :: u64
  gx_circuit_policy_revision :: u64
  gx_algorithm_version :: string
  gx_status :: RoutingGenerationStatus
  gx_input_observation_watermark :: u64
  gx_input_circuit_event_watermark :: u64
  gx_policy_input_hash :: string
  gx_quality_input_hash :: string
  gx_circuit_input_hash :: string
  gx_policy_content_hash :: string
  gx_quality_content_hash :: string
  gx_circuit_content_hash :: string
  gx_checkpoint_ref :: string
  gx_cutover_fence_revision :: "u64 option"
  gx_created_at_ms :: i64

record RoutingGenerationMarker =
  gk_mode :: RoutingCutoverMode
  gk_active_runtime_generation_id :: "string option"
  gk_fenced_runtime_generation_id :: "string option"
  gk_fence_revision :: u64
  gk_updated_at_ms :: i64

record RoutingGenerationRegistrySnapshot =
  gs_marker :: RoutingGenerationMarker
  gs_active :: "RoutingRuntimeGeneration option"
  gs_fencing :: "RoutingRuntimeGeneration option"

end
