(* ===== verification/PlanningBuild.thy ===== *)
theory PlanningBuild
  imports RequestFacts CandidateFacts CapabilityVerdicts QualityRead Generation ModelResolve Quality
begin

text \<open>
  The builder of planning snapshots (\<^verbatim>\<open>operational_facts/planning_snapshot.rs\<close>): every configured key is
  resolved against the model mapping, checked for capability and against the hard gates, and either
  assessed as excluded with a reason or admitted for scoring with its quality.
\<close>

section \<open>Results\<close>

text \<open>
  \<open>StoreError e\<close> stands for the source's \<^verbatim>\<open>Facts(Source(text))\<close> with the text of the store's error \<open>e\<close>.
\<close>

datatype PlanningSnapshotBuildError =
    FactsError OperationalFactReadError
  | StoreError PersistenceError
  | Invalid string
  | CandidateLimitExceeded nat nat

datatype PlanningCandidateEligibility = AdmittedForScoring | Excluded

datatype PlanningCandidateSet = SetNotApplicable | WithinLimit

record PlanningCandidateAssessment =
  pa_station_key_id :: string
  pa_station_id :: string
  pa_endpoint_revision :: i64
  pa_credential_revision :: i64
  pa_account_revision :: i64
  pa_group_revision :: "i64 option"
  pa_snapshot_id :: string
  pa_durable_revision :: u64
  pa_request_context_fingerprint :: string
  pa_eligibility :: PlanningCandidateEligibility
  pa_candidate_set :: PlanningCandidateSet
  pa_primary_reason :: "string option"
  pa_secondary_reason_codes :: "string list"

record PlanningBuildResult =
  pb_snapshot :: PlanningSnapshot
  pb_assessments :: "PlanningCandidateAssessment list"

section \<open>Gates\<close>

abbreviation endpoint_revision :: "OperationalCandidateFact \<Rightarrow> i64" where
  "endpoint_revision c \<equiv> er_revision (ef_endpoint_ref (cn_endpoint c))"

definition candidate_is_depleted :: "OperationalCandidateFact \<Rightarrow> bool" where
  "candidate_is_depleted c = balance_is_depleted (cn_balance_value c) (cn_balance_status c)"

definition candidate_cap_eligible :: "OperationalCandidateFact \<Rightarrow> bool" where
  "candidate_cap_eligible c \<longleftrightarrow> cn_station_enabled c \<and> cn_credential_available c"

definition model_permitted :: "OperationalCandidateFact \<Rightarrow> string \<Rightarrow> bool" where
  "model_permitted c model \<longleftrightarrow>
     \<not> list_ex (\<lambda>blocked. eq_ignore_ascii_case blocked model) (cn_model_blocklist c) \<and>
     (cn_model_allowlist c = [] \<or> list_ex (\<lambda>allowed. eq_ignore_ascii_case allowed model) (cn_model_allowlist c))"

definition candidate_capability_rejection_reason ::
  "OperationalCandidateFact \<Rightarrow> RouteRequestFacts \<Rightarrow> string option \<Rightarrow> string option" where
  "candidate_capability_rejection_reason c request model_override =
     (let protocol_ok = cn_supports_chat_completions c \<or> cn_supports_responses c;
          model_ok = (case model_override of None \<Rightarrow> True | Some model \<Rightarrow> model_permitted c model);
          features_ok = (\<not> fx_stream request \<or> cn_supports_stream c) \<and> (\<not> fx_uses_tools request \<or> cn_supports_tools c)
            \<and> (\<not> fx_uses_vision request \<or> cn_supports_vision c)
            \<and> (\<not> fx_uses_reasoning request \<or> cn_supports_reasoning c)
      in if protocol_ok \<and> model_ok \<and> features_ok then None else Some ''capability_rejected'')"

definition strip_prefix :: "string \<Rightarrow> string \<Rightarrow> string option" where
  "strip_prefix p s = (if starts_with s p then Some (drop (length p) s) else None)"

definition candidate_matches_group_scope :: "OperationalCandidateFact \<Rightarrow> RouteRequestFacts \<Rightarrow> bool" where
  "candidate_matches_group_scope c request =
     (case fx_group_filter_mode request of
        AnyGroup \<Rightarrow> True
      | UngroupedOnlyMode \<Rightarrow> cn_group_binding_id c = None \<and> cn_group_id_hash c = None
      | RequiredGroup \<Rightarrow>
        (case fx_required_group_stable_key request of
           None \<Rightarrow> False
         | Some required \<Rightarrow>
             some_satisfies (\<lambda>binding. cn_group_binding_id c = Some binding) (strip_prefix ''binding:'' required)
           \<or> some_satisfies (\<lambda>group_id. cn_group_id_hash c = Some group_id) (strip_prefix ''group-id:'' required)
           \<or> some_satisfies (\<lambda>category. some_satisfies (\<lambda>actual. eq_ignore_ascii_case actual category) (cn_group_category c))
               (strip_prefix ''group-type:'' required)))"

definition positive :: "f64 option \<Rightarrow> f64 option" where
  "positive v = Option.bind v (\<lambda>x. if f64_is_finite x \<and> f64_lt (F64_Num 0) x then Some x else None)"

definition effective_rate_multiplier :: "f64 option \<Rightarrow> f64 \<Rightarrow> f64 option" where
  "effective_rate_multiplier raw_multiplier credit_per_cny =
     map_option (\<lambda>raw. f64_div raw (coalesce (positive (Some credit_per_cny)) (F64_Num 1))) (positive raw_multiplier)"

definition candidate_multiplier :: "OperationalCandidateFact \<Rightarrow> f64 option" where
  "candidate_multiplier c =
     effective_rate_multiplier (cn_station_native_multiplier c) (coalesce (cn_credit_per_cny c) (F64_Num 1))"

definition multiplier_ceiling_ok :: "OperationalCandidateFact \<Rightarrow> RouteRequestFacts \<Rightarrow> bool" where
  "multiplier_ceiling_ok c request =
     (case fx_route_kind request of
        ModelCatalog \<Rightarrow> True
      | Inference \<Rightarrow>
        (case (fx_max_rate_multiplier request, candidate_multiplier c) of
           (Some max_multiplier, Some multiplier) \<Rightarrow> f64_le multiplier max_multiplier
         | _ \<Rightarrow> True))"

definition candidate_hard_rejection_reason ::
  "OperationalCandidateFact \<Rightarrow> RouteRequestFacts \<Rightarrow> RoutingPolicyConfigV2 \<Rightarrow> string option \<Rightarrow> string option" where
  "candidate_hard_rejection_reason c request policy model_override =
     (if \<not> cn_station_enabled c then Some ''station_disabled''
      else if \<not> cn_key_enabled c then Some ''key_disabled''
      else if \<not> cn_schedulable c then Some ''candidate_unschedulable''
      else if \<not> cn_credential_available c then Some ''credential_unavailable''
      else case candidate_capability_rejection_reason c request model_override of
        Some reason \<Rightarrow> Some reason
      | None \<Rightarrow>
        if \<not> candidate_matches_group_scope c request then Some ''group_mismatch''
        else if \<not> multiplier_ceiling_ok c request then Some ''multiplier_ceiling''
        else if \<not> list_all (\<lambda>tag. list_ex (\<lambda>t. eq_ignore_ascii_case t tag) (cn_routing_tags c)) (fx_required_tags request)
        then Some ''tag_mismatch''
        else case balance_fact_rejection_reason c (fx_admitted_at_ms request) of
          Some reason \<Rightarrow> if reason \<noteq> ''balance_depleted'' \<or> \<not> p2_allow_depleted_fallback policy then Some reason else None
        | None \<Rightarrow> None)"

definition candidate_hard_eligible ::
  "OperationalCandidateFact \<Rightarrow> RouteRequestFacts \<Rightarrow> RoutingPolicyConfigV2 \<Rightarrow> string option \<Rightarrow> bool" where
  "candidate_hard_eligible c request policy model_override \<longleftrightarrow>
     candidate_hard_rejection_reason c request policy model_override = None"

section \<open>Reasons over the variants of a candidate\<close>

fun find_map :: "('a \<Rightarrow> 'b option) \<Rightarrow> 'a list \<Rightarrow> 'b option" where
  "find_map f [] = None"
| "find_map f (x # xs) = (case f x of Some y \<Rightarrow> Some y | None \<Rightarrow> find_map f xs)"

definition capability_rejection_reason_for_variants ::
  "OperationalCandidateFact \<Rightarrow> RouteRequestFacts \<Rightarrow> CandidateModelVariant list \<Rightarrow> string option" where
  "capability_rejection_reason_for_variants c request variants =
     (if variants = [] then candidate_capability_rejection_reason c request None
      else find_map (\<lambda>v. candidate_capability_rejection_reason c request (Some (mv_upstream_model v))) variants)"

definition candidate_matches_request_capabilities ::
  "OperationalCandidateFact \<Rightarrow> RouteRequestFacts \<Rightarrow> CandidateModelVariant list \<Rightarrow> bool" where
  "candidate_matches_request_capabilities c request variants =
     (if fx_requested_model request = None \<and> fx_mapping_requested_model request = None
         \<or> fx_route_kind request = ModelCatalog
      then candidate_capability_rejection_reason c request None = None
      else variants \<noteq> [])"

definition hard_rejection_reason_for_variants ::
  "OperationalCandidateFact \<Rightarrow> RouteRequestFacts \<Rightarrow> RoutingPolicyConfigV2 \<Rightarrow> CandidateModelVariant list \<Rightarrow> string option" where
  "hard_rejection_reason_for_variants c request policy variants =
     find_map (\<lambda>v. candidate_hard_rejection_reason c request policy (Some (mv_upstream_model v))) variants"

fun model_mapping_reason :: "ResolutionError \<Rightarrow> string" where
  "model_mapping_reason RequestedModelInvalid = ''model_mapping_invalid_model''"
| "model_mapping_reason TargetRequiresCandidateContext = ''model_mapping_context_required''"
| "model_mapping_reason ProfileNotFound = ''model_mapping_profile_not_found''"
| "model_mapping_reason ProfileHasNoOffering = ''model_mapping_no_target''"
| "model_mapping_reason NoResolvedTargets = ''model_mapping_no_target''"

definition candidate_context :: "ModelRequestFacts \<Rightarrow> OperationalCandidateFact \<Rightarrow> CandidateResolutionContext" where
  "candidate_context facts c =
     \<lparr>cx_station_key_id = cn_station_key_id c, cx_station_id = cn_station_id c, cx_endpoint = mf_endpoint facts,
      cx_credential_revision = of_int (cn_credential_revision c), cx_endpoint_revision = of_int (endpoint_revision c)\<rparr>"

definition resolve_candidate_mapping ::
  "CompiledConfiguration \<Rightarrow> ModelRequestFacts \<Rightarrow> OperationalCandidateFact \<Rightarrow> RouteRequestFacts
    \<Rightarrow> ResolutionError + (CandidateModelVariant list \<times> FallbackTrigger option)" where
  "resolve_candidate_mapping configuration facts c request =
     rbind (resolve_for_candidate configuration facts (candidate_context facts c)) (\<lambda>plan.
       let variants = resolved_variants plan (candidate_context facts c)
       in if variants = [] \<and> fx_requested_model request \<noteq> None then Inl NoResolvedTargets
          else Inr (variants, rp_fallback_trigger plan))"

definition capability_subjects_for_planning ::
  "OperationalCandidateFact list \<Rightarrow> RouteRequestFacts \<Rightarrow> CompiledConfiguration \<Rightarrow> ModelRequestFacts \<Rightarrow> capability_subject list" where
  "capability_subjects_for_planning candidates request configuration facts =
     concat (map (\<lambda>c.
       let variants = (case resolve_candidate_mapping configuration facts c request of Inl _ \<Rightarrow> [] | Inr (vs, _) \<Rightarrow> vs);
           models = (if variants = [] then (case fx_requested_model request of None \<Rightarrow> [] | Some m \<Rightarrow> [m])
                     else map mv_upstream_model variants)
       in map (\<lambda>model. (cn_station_key_id c, model, cn_credential_revision c, endpoint_revision c, 1)) models)
     candidates)"

section \<open>Scores and prices of the snapshot\<close>

definition preference_score :: "OperationalCandidateFact \<Rightarrow> RouteRequestFacts \<Rightarrow> u16" where
  "preference_score c request =
     (if some_satisfies (\<lambda>model. list_ex (\<lambda>preferred. eq_ignore_ascii_case preferred model) (cn_preferred_models c))
           (fx_requested_model request)
      then 10000
      else sat_sub 10000 (of_int (max 0 (min 10000 (cn_priority c)))))"

definition pricing_snapshot_for_candidate :: "OperationalCandidateFact \<Rightarrow> RoutePlanPricingSnapshot" where
  "pricing_snapshot_for_candidate c =
     (case candidate_multiplier c of
        None \<Rightarrow> pricing_unpriced ''pricing_context_missing''
      | Some rate_multiplier \<Rightarrow>
          \<lparr>pr_basis = MultiplierProxy, pr_rate_multiplier = Some rate_multiplier, pr_currency = None,
           pr_unit = Some ''rate_multiplier'', pr_estimated_input_price = None, pr_estimated_output_price = None,
           pr_estimated_cache_creation_price = None, pr_estimated_cache_read_price = None,
           pr_status_label = ''group_rate_only''\<rparr>)"

definition station_key_scope :: "string \<Rightarrow> string" where
  "station_key_scope key = ''station_key:'' @ key"

definition candidate_assessment ::
  "OperationalCandidateFact \<Rightarrow> string \<Rightarrow> u64 \<Rightarrow> string \<Rightarrow> PlanningCandidateEligibility \<Rightarrow> PlanningCandidateSet
    \<Rightarrow> string option \<Rightarrow> PlanningCandidateAssessment" where
  "candidate_assessment c snapshot_id durable_revision fingerprint eligibility candidate_set primary_reason =
     \<lparr>pa_station_key_id = cn_station_key_id c, pa_station_id = cn_station_id c,
      pa_endpoint_revision = endpoint_revision c, pa_credential_revision = cn_credential_revision c,
      pa_account_revision = cn_account_record_revision c, pa_group_revision = cn_group_record_revision c,
      pa_snapshot_id = snapshot_id, pa_durable_revision = durable_revision,
      pa_request_context_fingerprint = fingerprint, pa_eligibility = eligibility, pa_candidate_set = candidate_set,
      pa_primary_reason = primary_reason, pa_secondary_reason_codes = []\<rparr>"

definition candidate_assessment_from_snapshot ::
  "CandidateSnapshot \<Rightarrow> string \<Rightarrow> u64 \<Rightarrow> string \<Rightarrow> PlanningCandidateEligibility \<Rightarrow> PlanningCandidateSet
    \<Rightarrow> string option \<Rightarrow> PlanningCandidateAssessment" where
  "candidate_assessment_from_snapshot c snapshot_id durable_revision fingerprint eligibility candidate_set primary_reason =
     \<lparr>pa_station_key_id = cs_station_key_id c, pa_station_id = cs_station_id c,
      pa_endpoint_revision = cs_endpoint_revision c, pa_credential_revision = cs_credential_revision c,
      pa_account_revision = cs_account_revision c, pa_group_revision = cs_group_revision c,
      pa_snapshot_id = snapshot_id, pa_durable_revision = durable_revision,
      pa_request_context_fingerprint = fingerprint, pa_eligibility = eligibility, pa_candidate_set = candidate_set,
      pa_primary_reason = primary_reason, pa_secondary_reason_codes = []\<rparr>"

section \<open>The loop over the candidates\<close>

text \<open>What the loop has counted and collected.\<close>

record BuildState =
  bs_capability_match_count :: nat
  bs_candidate_cap_count :: nat
  bs_fallback_trigger :: "FallbackTrigger option"
  bs_assessments :: "PlanningCandidateAssessment list"
  bs_eligible :: "CandidateSnapshot list"

definition build_start :: BuildState where
  "build_start =
     \<lparr>bs_capability_match_count = 0, bs_candidate_cap_count = 0, bs_fallback_trigger = None,
      bs_assessments = [], bs_eligible = []\<rparr>"

text \<open>The values one build uses for every candidate.\<close>

record BuildContext =
  bx_request :: RouteRequestFacts
  bx_policy :: RoutingPolicyConfigV2
  bx_quality_config :: QualityProjectionConfig
  bx_profile :: DispatchAlgorithmProfile
  bx_mapping :: CompiledConfiguration
  bx_unsupported :: "capability_subject list"
  bx_snapshot_id :: string
  bx_durable_revision :: u64
  bx_fingerprint :: string

definition exclude :: "BuildContext \<Rightarrow> OperationalCandidateFact \<Rightarrow> string option \<Rightarrow> BuildState \<Rightarrow> BuildState" where
  "exclude bx c reason st =
     st\<lparr>bs_assessments := bs_assessments st @
       [candidate_assessment c (bx_snapshot_id bx) (bx_durable_revision bx) (bx_fingerprint bx) Excluded
          SetNotApplicable reason]\<rparr>"

definition supported_variants ::
  "capability_subject list \<Rightarrow> OperationalCandidateFact \<Rightarrow> CandidateModelVariant list \<Rightarrow> CandidateModelVariant list" where
  "supported_variants unsupported c variants =
     (if unsupported = [] then variants
      else filter (\<lambda>v. (cn_station_key_id c, mv_upstream_model v, cn_credential_revision c, endpoint_revision c, 1)
             \<notin> set unsupported) variants)"

definition optimistic_responsiveness :: "BuildContext \<Rightarrow> u16" where
  "optimistic_responsiveness bx =
     bp_get (responsiveness_score (Some (qc_optimistic_latency_ms (bx_quality_config bx))) (dp_latency_cap_ms (bx_profile bx)))"

definition candidate_snapshot ::
  "BuildContext \<Rightarrow> OperationalCandidateFact \<Rightarrow> (string \<times> i64) option \<Rightarrow> CandidateModelVariant list \<Rightarrow> bool \<Rightarrow> CandidateSnapshot" where
  "candidate_snapshot bx c resolved_model variants hard_eligible =
     \<lparr>cs_station_key_id = cn_station_key_id c, cs_station_id = cn_station_id c,
      cs_endpoint_revision = endpoint_revision c, cs_credential_revision = cn_credential_revision c,
      cs_account_revision = cn_account_record_revision c, cs_group_binding_id = cn_group_binding_id c,
      cs_group_revision = cn_group_record_revision c,
      cs_resolved_upstream_model = map_option fst resolved_model,
      cs_model_alias_revision = coalesce (map_option snd resolved_model) 1,
      cs_model_variants = variants, cs_model_variant_pricing = [],
      cs_credential_available = cn_credential_available c, cs_hard_eligible = hard_eligible,
      cs_backup_only = cn_backup_only c, cs_depleted = candidate_is_depleted c,
      cs_capability_basis_points = 10000, cs_quality_available = True,
      cs_reliability_basis_points = qc_optimistic_reliability_basis_points (bx_quality_config bx),
      cs_responsiveness_basis_points = optimistic_responsiveness bx, cs_cost_basis_points = None,
      cs_pricing = pricing_snapshot_for_candidate c,
      cs_preference_basis_points = preference_score c (bx_request bx),
      cs_failure_domains = [''station:'' @ cn_station_id c, ''key:'' @ cn_station_key_id c]\<rparr>"

text \<open>One candidate after its variants are known.\<close>

definition assess_variants ::
  "BuildContext \<Rightarrow> OperationalCandidateFact \<Rightarrow> CandidateModelVariant list \<Rightarrow> BuildState \<Rightarrow> BuildState" where
  "assess_variants bx c mapped_variants st =
     (let request = bx_request bx;
          supported = supported_variants (bx_unsupported bx) c mapped_variants
      in if mapped_variants \<noteq> [] \<and> supported = [] then exclude bx c (Some ''unsupported_model'') st
      else let capability_reason = capability_rejection_reason_for_variants c request supported;
               capable = filter (\<lambda>v. candidate_capability_rejection_reason c request (Some (mv_upstream_model v)) = None) supported
      in if \<not> candidate_matches_request_capabilities c request capable
         then exclude bx c (Some (coalesce capability_reason ''capability_rejected'')) st
      else let st = st\<lparr>bs_capability_match_count := bs_capability_match_count st + 1,
                 bs_candidate_cap_count := bs_candidate_cap_count st + (if candidate_cap_eligible c then 1 else 0)\<rparr>;
               hard_reason = hard_rejection_reason_for_variants c request (bx_policy bx) capable;
               variants = filter (\<lambda>v. candidate_hard_eligible c request (bx_policy bx) (Some (mv_upstream_model v))) capable
      in if fx_requested_model request \<noteq> None \<and> variants = [] \<and> fx_route_kind request \<noteq> ModelCatalog
         then exclude bx c (Some (coalesce hard_reason ''capability_rejected'')) st
      else let first_model = (case variants of [] \<Rightarrow> None | v # _ \<Rightarrow> Some (mv_upstream_model v));
               resolved_model = or_else (map_option (\<lambda>m. (m, 1)) first_model)
                 (map_option (\<lambda>m. (trim m, 1)) (fx_requested_model request));
               gate_model = or_else first_model (fx_requested_model request);
               reason = candidate_hard_rejection_reason c request (bx_policy bx) gate_model
      in if reason = None
         then st\<lparr>bs_eligible := bs_eligible st @ [candidate_snapshot bx c resolved_model variants True]\<rparr>
         else exclude bx c reason st)"

definition assess_candidate :: "BuildContext \<Rightarrow> OperationalCandidateFact \<Rightarrow> BuildState \<Rightarrow> BuildState" where
  "assess_candidate bx c st =
     (case resolve_candidate_mapping (bx_mapping bx) (mapping_facts (bx_request bx)) c (bx_request bx) of
        Inl e \<Rightarrow> exclude bx c (Some (model_mapping_reason e)) st
      | Inr (variants, trigger) \<Rightarrow>
          assess_variants bx c variants
            (st\<lparr>bs_fallback_trigger := or_else (bs_fallback_trigger st) trigger\<rparr>))"

definition assess_candidates :: "BuildContext \<Rightarrow> OperationalCandidateFact list \<Rightarrow> BuildState" where
  "assess_candidates bx cs = foldl (\<lambda>st c. assess_candidate bx c st) build_start cs"

section \<open>Quality of the admitted candidates\<close>

definition axis_value :: "RoutingQualityPlanningRead \<Rightarrow> string \<Rightarrow> string \<Rightarrow> u16 option" where
  "axis_value read scope axis = Option.bind (map_of (qr_axes read) scope) (\<lambda>axes. map_of axes axis)"

definition with_quality :: "BuildContext \<Rightarrow> RoutingQualityPlanningRead \<Rightarrow> CandidateSnapshot \<Rightarrow> CandidateSnapshot" where
  "with_quality bx read c =
     (let scope = station_key_scope (cs_station_key_id c) in
      c\<lparr>cs_quality_available := (qr_quality_available read \<and> scope \<notin> set (qr_unavailable_scopes read)),
        cs_reliability_basis_points := coalesce (axis_value read scope ''reliability'')
          (qc_optimistic_reliability_basis_points (bx_quality_config bx)),
        cs_responsiveness_basis_points := coalesce (axis_value read scope ''latency'') (optimistic_responsiveness bx)\<rparr>)"

section \<open>The build\<close>

text \<open>
  The stores and the compiled mapping a build reads in its transaction; the fingerprint of the request
  context (SHA-256 over a debug print) and the JSON reader of summaries are parameters.
\<close>

record PlanningStores =
  pz_facts :: FactDb
  pz_capability :: CapabilityDb
  pz_quality :: QualityDb
  pz_registry :: "PersistenceError + RoutingGenerationRegistrySnapshot"
  pz_mapping :: CompiledConfiguration
  pz_mapping_revision :: u64
  pz_now_ms :: i64

record PlanningEnv =
  pe_facts :: FactEnv
  pe_summary :: summary_parser
  pe_fingerprint :: "RouteRequestFacts \<Rightarrow> u64 \<Rightarrow> u64 \<Rightarrow> string"

definition CAPABILITY_CHUNK :: nat where
  "CAPABILITY_CHUNK = 4096"

fun chunks :: "nat \<Rightarrow> 'a list \<Rightarrow> 'a list list" where
  "chunks n [] = []"
| "chunks n (x # xs) = (x # take (n - 1) xs) # chunks n (drop (n - 1) xs)"

definition load_unsupported :: "CapabilityDb \<Rightarrow> capability_subject list \<Rightarrow> PersistenceError + capability_subject list" where
  "load_unsupported db subjects =
     rbind (collect (load_unsupported_model_batch db) (chunks CAPABILITY_CHUNK subjects)) (\<lambda>found. Inr (concat found))"

definition durable_revision_of :: "FactVersionVector \<Rightarrow> RouteRequestFacts \<Rightarrow> CompiledConfiguration \<Rightarrow> i64" where
  "durable_revision_of v request configuration =
     max_revision [fv_max_station_revision v, fv_max_key_revision v, fv_max_settings_revision v, fv_max_alias_revision v,
       coalesce (fx_model_mapping_revision request) (min (uint (cc_mapping_revision configuration)) i64_max)]"

definition store_error :: "PersistenceError + 'a \<Rightarrow> PlanningSnapshotBuildError + 'a" where
  "store_error r = (case r of Inl e \<Rightarrow> Inl (StoreError e) | Inr x \<Rightarrow> Inr x)"

definition planning_snapshot_of ::
  "BuildContext \<Rightarrow> OperationalFactBundle \<Rightarrow> RoutingGenerationRegistrySnapshot \<Rightarrow> RoutingQualityPlanningRead
    \<Rightarrow> u64 \<Rightarrow> AttemptBudgetProfileV1 \<Rightarrow> RuntimeOverlaySnapshot \<Rightarrow> BuildState \<Rightarrow> PlanningSnapshot" where
  "planning_snapshot_of bx facts registry read routing_policy_revision attempt_budget runtime st =
     \<lparr>ps_snapshot_id = fb_snapshot_id facts, ps_durable_revision = bx_durable_revision bx,
      ps_configured_key_count = length (fb_candidates facts),
      ps_capability_match_count = bs_capability_match_count st,
      ps_candidate_cap_count = bs_candidate_cap_count st,
      ps_routing_runtime_generation_id = gk_active_runtime_generation_id (gs_marker registry),
      ps_routing_generation_fence_revision = gk_fence_revision (gs_marker registry),
      ps_routing_policy_revision = routing_policy_revision,
      ps_routing_quality_revision = qr_quality_revision read,
      ps_routing_health_revision = qr_health_revision read,
      ps_quality_projection_backlog = qr_projection_backlog read,
      ps_quality_projection_lag_seconds = qr_projection_lag_seconds read,
      ps_quality_stale = qr_quality_stale read, ps_policy = bx_policy bx, ps_attempt_budget = attempt_budget,
      ps_profile = bx_profile bx, ps_candidates = map (with_quality bx read) (bs_eligible st),
      ps_model_fallback_trigger = bs_fallback_trigger st, ps_runtime = runtime\<rparr>"

definition admitted_assessments :: "BuildContext \<Rightarrow> CandidateSnapshot list \<Rightarrow> PlanningCandidateAssessment list" where
  "admitted_assessments bx cs =
     map (\<lambda>c. candidate_assessment_from_snapshot c (bx_snapshot_id bx) (bx_durable_revision bx) (bx_fingerprint bx)
       AdmittedForScoring WithinLimit None) cs"

definition build_with_assessments ::
  "PlanningEnv \<Rightarrow> PlanningStores \<Rightarrow> u64 \<Rightarrow> OperationalFactReadOptions \<Rightarrow> RoutingPolicyConfigV2 \<Rightarrow> u64
    \<Rightarrow> AttemptBudgetProfileV1 \<Rightarrow> QualityProjectionConfig \<Rightarrow> DispatchAlgorithmProfile \<Rightarrow> RuntimeOverlaySnapshot
    \<Rightarrow> RouteRequestFacts \<Rightarrow> PlanningSnapshotBuildError + PlanningBuildResult" where
  "build_with_assessments env stores counter options policy routing_policy_revision attempt_budget quality_config
     profile runtime request =
     (case load_bundle (pe_facts env) (pz_facts stores) counter options of
        Inl e \<Rightarrow> Inl (FactsError e)
      | Inr (facts, _) \<Rightarrow>
        rbind (store_error (pz_registry stores)) (\<lambda>registry.
        rbind (store_error (load_unsupported (pz_capability stores)
            (capability_subjects_for_planning (fb_candidates facts) request (pz_mapping stores) (mapping_facts request))))
          (\<lambda>unsupported.
          let durable_revision = durable_revision_of (fb_version_vector facts) request (pz_mapping stores)
          in if durable_revision \<le> 0 then Inl (Invalid ''revision_unavailable'')
          else let bx = \<lparr>bx_request = request, bx_policy = policy, bx_quality_config = quality_config,
                 bx_profile = profile, bx_mapping = pz_mapping stores, bx_unsupported = unsupported,
                 bx_snapshot_id = fb_snapshot_id facts, bx_durable_revision = of_int durable_revision,
                 bx_fingerprint = pe_fingerprint env request routing_policy_revision (pz_mapping_revision stores)\<rparr>;
               st = assess_candidates bx (fb_candidates facts)
          in if bs_candidate_cap_count st > op_candidate_limit options
             then Inl (CandidateLimitExceeded (bs_candidate_cap_count st) (op_candidate_limit options))
             else rbind (store_error (load_planning_read (pe_summary env) (pz_quality stores)
                 (map_option gx_quality_generation_id (gs_active registry))
                 (map (\<lambda>c. station_key_scope (cs_station_key_id c)) (bs_eligible st)) (max 0 (pz_now_ms stores))))
               (\<lambda>read.
               let snapshot = planning_snapshot_of bx facts registry read routing_policy_revision attempt_budget runtime st
               in case snapshot_validate snapshot of
                    Inl e \<Rightarrow> Inl (Invalid e)
                  | Inr _ \<Rightarrow> Inr \<lparr>pb_snapshot = snapshot,
                      pb_assessments = bs_assessments st @ admitted_assessments bx (ps_candidates snapshot)\<rparr>))))"

end
