(* ===== verification/PlanningBuildCorrect.thy ===== *)
theory PlanningBuildCorrect
  imports PlanningBuild PlannerCorrect
begin

text \<open>
  Correctness of the planning snapshot: which candidates and model variants a snapshot offers, that
  every configured key is assessed, what follows for the plans made from it, and how a learned
  verdict about an unsupported model takes effect.
\<close>

section \<open>The gates\<close>

text \<open>What a key must satisfy to serve a request with the upstream model \<open>m\<close>.\<close>

definition may_serve ::
  "OperationalCandidateFact \<Rightarrow> RouteRequestFacts \<Rightarrow> RoutingPolicyConfigV2 \<Rightarrow> string option \<Rightarrow> bool" where
  "may_serve c request policy m \<longleftrightarrow>
     cn_station_enabled c \<and> cn_key_enabled c \<and> cn_schedulable c \<and> cn_credential_available c \<and>
     (cn_supports_chat_completions c \<or> cn_supports_responses c) \<and>
     (case m of None \<Rightarrow> True | Some model \<Rightarrow> model_permitted c model) \<and>
     (fx_stream request \<longrightarrow> cn_supports_stream c) \<and> (fx_uses_tools request \<longrightarrow> cn_supports_tools c) \<and>
     (fx_uses_vision request \<longrightarrow> cn_supports_vision c) \<and> (fx_uses_reasoning request \<longrightarrow> cn_supports_reasoning c) \<and>
     candidate_matches_group_scope c request \<and> multiplier_ceiling_ok c request \<and>
     (\<forall>tag \<in> set (fx_required_tags request). \<exists>t \<in> set (cn_routing_tags c). eq_ignore_ascii_case t tag) \<and>
     (case balance_fact_rejection_reason c (fx_admitted_at_ms request) of
        None \<Rightarrow> True | Some reason \<Rightarrow> reason = ''balance_depleted'' \<and> p2_allow_depleted_fallback policy)"

lemma capability_gate:
  "candidate_capability_rejection_reason c request m = None \<longleftrightarrow>
     (cn_supports_chat_completions c \<or> cn_supports_responses c) \<and>
     (case m of None \<Rightarrow> True | Some model \<Rightarrow> model_permitted c model) \<and>
     (fx_stream request \<longrightarrow> cn_supports_stream c) \<and> (fx_uses_tools request \<longrightarrow> cn_supports_tools c) \<and>
     (fx_uses_vision request \<longrightarrow> cn_supports_vision c) \<and> (fx_uses_reasoning request \<longrightarrow> cn_supports_reasoning c)"
  by (auto simp: candidate_capability_rejection_reason_def Let_def)

lemma hard_gate: "candidate_hard_rejection_reason c request policy m = None \<longleftrightarrow> may_serve c request policy m"
proof (cases "candidate_capability_rejection_reason c request m")
  case None
  note capable = None [unfolded capability_gate]
  show ?thesis
  proof (cases "balance_fact_rejection_reason c (fx_admitted_at_ms request)")
    case balance: None
    show ?thesis unfolding candidate_hard_rejection_reason_def may_serve_def None balance
      by (simp add: capable list_all_iff list_ex_iff)
  next
    case balance: (Some reason)
    show ?thesis unfolding candidate_hard_rejection_reason_def may_serve_def None balance
      by (simp add: capable list_all_iff list_ex_iff)
  qed
next
  case (Some reason)
  then have "\<not> may_serve c request policy m" using capability_gate [of c request m] unfolding may_serve_def by auto
  then show ?thesis by (simp add: candidate_hard_rejection_reason_def Some)
qed

lemma may_serve_capable: "may_serve c request policy m \<Longrightarrow> candidate_capability_rejection_reason c request m = None"
  by (auto simp: may_serve_def capability_gate)

lemma may_serve_model:
  "may_serve c request policy None \<Longrightarrow> model_permitted c model \<Longrightarrow> may_serve c request policy (Some model)"
  by (simp add: may_serve_def)

text \<open>A depleted key passes only with the fallback of the policy.\<close>

lemma may_serve_depleted: "may_serve c request policy m \<Longrightarrow> candidate_is_depleted c \<Longrightarrow> p2_allow_depleted_fallback policy"
  by (auto simp: may_serve_def candidate_is_depleted_def balance_fact_rejection_reason_def split: option.splits if_splits)

section \<open>Reading the verdicts\<close>

definition known_unsupported :: "CapabilityDb \<Rightarrow> OperationalCandidateFact \<Rightarrow> string \<Rightarrow> bool" where
  "known_unsupported db c model \<longleftrightarrow>
     list_ex (\<lambda>v. verdict_of_subject (cn_station_key_id c, model, cn_credential_revision c, endpoint_revision c, 1) v \<and>
       vv_model_alias_revision v = 1) (cd_verdicts db)"

lemma concat_chunks: "0 < n \<Longrightarrow> concat (chunks n xs) = xs"
proof (induction n xs rule: chunks.induct)
  case (2 n x xs)
  then show ?case by (simp add: append_take_drop_id)
qed simp

lemma chunk_length: "0 < n \<Longrightarrow> chunk \<in> set (chunks n xs) \<Longrightarrow> length chunk \<le> n"
  by (induction n xs rule: chunks.induct) auto

definition verdict_subject :: "CapabilityVerdictRow \<Rightarrow> capability_subject" where
  "verdict_subject v =
     (vv_station_key_id v, vv_resolved_model v, vv_credential_revision v, vv_endpoint_revision v, vv_model_alias_revision v)"

definition matching_verdicts :: "CapabilityDb \<Rightarrow> capability_subject set \<Rightarrow> CapabilityVerdictRow set" where
  "matching_verdicts db S = (\<Union>r \<in> S. set (filter (verdict_of_subject r) (cd_verdicts db)))"

lemma matching_verdicts_Un: "matching_verdicts db (S \<union> T) = matching_verdicts db S \<union> matching_verdicts db T"
  by (auto simp: matching_verdicts_def)

lemma load_batch_set:
  assumes "load_unsupported_model_batch db subjects = Inr found"
  shows "set found = verdict_subject ` matching_verdicts db (set subjects)"
proof -
  have "found = concat (map (\<lambda>r. map verdict_subject (filter (verdict_of_subject r) (cd_verdicts db))) subjects)"
    using assms by (simp add: load_unsupported_model_batch_def verdict_subject_def [abs_def] split: if_splits)
  then show ?thesis by (simp add: matching_verdicts_def image_UN)
qed

lemma load_unsupported_total: "\<exists>found. load_unsupported db subjects = Inr found"
proof -
  let ?f = "load_unsupported_model_batch db"
  have "\<exists>founds. collect ?f cs = Inr founds" if "\<forall>chunk \<in> set cs. length chunk \<le> CAPABILITY_CHUNK" for cs
    using that by (induction cs) (auto simp: load_unsupported_model_batch_def CAPABILITY_CHUNK_def MAX_BATCH_SUBJECTS_def)
  moreover have "\<forall>chunk \<in> set (chunks CAPABILITY_CHUNK subjects). length chunk \<le> CAPABILITY_CHUNK"
    by (intro ballI chunk_length) (simp_all add: CAPABILITY_CHUNK_def)
  ultimately obtain founds where "collect ?f (chunks CAPABILITY_CHUNK subjects) = Inr founds" by blast
  then show ?thesis by (simp add: load_unsupported_def)
qed

lemma load_unsupported_set:
  assumes "load_unsupported db subjects = Inr found"
  shows "set found = verdict_subject ` matching_verdicts db (set subjects)"
proof -
  obtain founds where f: "list_all2 (\<lambda>x y. load_unsupported_model_batch db x = Inr y) (chunks CAPABILITY_CHUNK subjects) founds"
    "found = concat founds"
    using assms by (auto simp: load_unsupported_def rbind_Inr_iff collect_Inr)
  have "set (concat founds) = verdict_subject ` matching_verdicts db (set (concat cs))"
    if "list_all2 (\<lambda>x y. load_unsupported_model_batch db x = Inr y) cs founds" for cs
    using that
  proof (induction rule: list_all2_induct)
    case Nil
    show ?case by (simp add: matching_verdicts_def)
  next
    case (Cons x xs y ys)
    then show ?case by (simp add: load_batch_set [OF Cons.hyps(1)] matching_verdicts_Un image_Un)
  qed
  from this [OF f(1)] f(2) show ?thesis by (simp add: concat_chunks CAPABILITY_CHUNK_def)
qed

text \<open>For a variant among the subjects the loaded set says exactly what the verdicts say.\<close>

lemma loaded_iff_known:
  assumes "load_unsupported db subjects = Inr found"
    and "(cn_station_key_id c, model, cn_credential_revision c, endpoint_revision c, 1) \<in> set subjects"
  shows "(cn_station_key_id c, model, cn_credential_revision c, endpoint_revision c, 1) \<in> set found \<longleftrightarrow>
    known_unsupported db c model"
proof
  let ?r = "(cn_station_key_id c, model, cn_credential_revision c, endpoint_revision c, 1)"
  assume "?r \<in> set found"
  then obtain v where "v \<in> matching_verdicts db (set subjects)" "?r = verdict_subject v"
    unfolding load_unsupported_set [OF assms(1)] by blast
  moreover from this(1) obtain q where "v \<in> set (filter (verdict_of_subject q) (cd_verdicts db))"
    unfolding matching_verdicts_def by blast
  ultimately show "known_unsupported db c model"
    by (auto simp: known_unsupported_def list_ex_iff verdict_subject_def verdict_of_subject_def)
next
  let ?r = "(cn_station_key_id c, model, cn_credential_revision c, endpoint_revision c, 1)"
  assume "known_unsupported db c model"
  then obtain v where v: "v \<in> set (cd_verdicts db)" "verdict_of_subject ?r v" "vv_model_alias_revision v = 1"
    by (auto simp: known_unsupported_def list_ex_iff)
  then have "v \<in> matching_verdicts db (set subjects)" using assms(2) by (auto simp: matching_verdicts_def)
  moreover have "verdict_subject v = ?r" using v by (simp add: verdict_subject_def verdict_of_subject_def)
  ultimately show "?r \<in> set found" unfolding load_unsupported_set [OF assms(1)] by (metis imageI)
qed

section \<open>One candidate\<close>

text \<open>The variants with which a key may serve the request: every gate asked for every mapped model.\<close>

definition serving_variants :: "BuildContext \<Rightarrow> OperationalCandidateFact \<Rightarrow> CandidateModelVariant list" where
  "serving_variants bx c =
     (case resolve_candidate_mapping (bx_mapping bx) (mapping_facts (bx_request bx)) c (bx_request bx) of
        Inl _ \<Rightarrow> []
      | Inr (variants, _) \<Rightarrow>
          filter (\<lambda>v. (cn_station_key_id c, mv_upstream_model v, cn_credential_revision c, endpoint_revision c, 1)
                \<notin> set (bx_unsupported bx) \<and>
              may_serve c (bx_request bx) (bx_policy bx) (Some (mv_upstream_model v))) variants)"

lemma supported_variants_filter:
  "supported_variants unsupported c vs =
     filter (\<lambda>v. (cn_station_key_id c, mv_upstream_model v, cn_credential_revision c, endpoint_revision c, 1)
       \<notin> set unsupported) vs"
  by (simp add: supported_variants_def)

text \<open>A request for a model that is served by inference, the case of every forwarded request.\<close>

definition model_request :: "RouteRequestFacts \<Rightarrow> bool" where
  "model_request request \<longleftrightarrow> fx_route_kind request = Inference \<and> fx_requested_model request \<noteq> None"

definition excluded :: "BuildContext \<Rightarrow> OperationalCandidateFact \<Rightarrow> BuildState \<Rightarrow> BuildState \<Rightarrow> bool" where
  "excluded bx c st st' \<longleftrightarrow>
     bs_eligible st' = bs_eligible st \<and>
     (\<exists>reason. bs_assessments st' = bs_assessments st @
       [candidate_assessment c (bx_snapshot_id bx) (bx_durable_revision bx) (bx_fingerprint bx) Excluded SetNotApplicable
          (Some reason)])"

definition admitted :: "BuildContext \<Rightarrow> OperationalCandidateFact \<Rightarrow> BuildState \<Rightarrow> BuildState \<Rightarrow> bool" where
  "admitted bx c st st' \<longleftrightarrow>
     bs_assessments st' = bs_assessments st \<and>
     (\<exists>model. bs_eligible st' = bs_eligible st @ [candidate_snapshot bx c model (serving_variants bx c) True] \<and>
       (serving_variants bx c \<noteq> [] \<longrightarrow> model = Some (mv_upstream_model (hd (serving_variants bx c)), 1)) \<and>
       coalesce (map_option snd model) 1 = 1) \<and>
     (\<exists>m. may_serve c (bx_request bx) (bx_policy bx) m)"

lemma serving_variants_stages:
  assumes "resolve_candidate_mapping (bx_mapping bx) (mapping_facts (bx_request bx)) c (bx_request bx) = Inr (mapped, t)"
  shows "filter (\<lambda>v. candidate_hard_eligible c (bx_request bx) (bx_policy bx) (Some (mv_upstream_model v)))
      (filter (\<lambda>v. candidate_capability_rejection_reason c (bx_request bx) (Some (mv_upstream_model v)) = None)
        (supported_variants (bx_unsupported bx) c mapped)) = serving_variants bx c"
  unfolding serving_variants_def assms supported_variants_filter candidate_hard_eligible_def hard_gate
  by (auto intro!: filter_cong dest: may_serve_capable)

lemma serving_variants_may_serve:
  "v \<in> set (serving_variants bx c) \<Longrightarrow> may_serve c (bx_request bx) (bx_policy bx) (Some (mv_upstream_model v))"
  by (auto simp: serving_variants_def split: sum.splits)

lemma assess_variants_cases:
  assumes "resolve_candidate_mapping (bx_mapping bx) (mapping_facts (bx_request bx)) c (bx_request bx) = Inr (mapped, t)"
  shows "if serving_variants bx c \<noteq> [] then admitted bx c st (assess_variants bx c mapped st)
    else excluded bx c st (assess_variants bx c mapped st) \<or>
      \<not> model_request (bx_request bx) \<and> admitted bx c st (assess_variants bx c mapped st)"
proof -
  let ?S = "serving_variants bx c"
  define supported where "supported = supported_variants (bx_unsupported bx) c mapped"
  define capable where
    "capable = filter (\<lambda>v. candidate_capability_rejection_reason c (bx_request bx) (Some (mv_upstream_model v)) = None) supported"
  note stages = serving_variants_stages [OF assms, folded supported_def, folded capable_def]
  note body = assess_variants_def [of bx c mapped st, folded supported_def, unfolded Let_def, folded capable_def, unfolded stages]
  show ?thesis
  proof (cases ?S)
    case (Cons v vs)
    then have v: "v \<in> set ?S" by simp
    then have "v \<in> set capable" using stages by (metis filter_is_subset subsetD)
    then have cap: "capable \<noteq> []" by auto
    then have sup: "supported \<noteq> []" by (cases supported) (simp_all add: capable_def)
    have gate: "candidate_hard_rejection_reason c (bx_request bx) (bx_policy bx) (Some (mv_upstream_model v)) = None"
      using serving_variants_may_serve [OF v] by (simp add: hard_gate)
    have caps: "candidate_matches_request_capabilities c (bx_request bx) capable"
      using cap may_serve_capable [OF serving_variants_may_serve [OF v]]
      by (simp add: candidate_matches_request_capabilities_def capability_gate)
    show ?thesis unfolding body
      using serving_variants_may_serve [OF v] gate caps sup
      by (auto simp: admitted_def Cons or_else_def coalesce_def)
  next
    case Nil
    show ?thesis unfolding body
      by (cases "fx_requested_model (bx_request bx)")
        (auto simp: Nil excluded_def admitted_def exclude_def model_request_def or_else_def coalesce_def hard_gate [symmetric])
  qed
qed

lemma assess_candidate_cases:
  "if serving_variants bx c \<noteq> [] then admitted bx c st (assess_candidate bx c st)
   else excluded bx c st (assess_candidate bx c st) \<or>
     \<not> model_request (bx_request bx) \<and> admitted bx c st (assess_candidate bx c st)"
proof (cases "resolve_candidate_mapping (bx_mapping bx) (mapping_facts (bx_request bx)) c (bx_request bx)")
  case (Inl e)
  then show ?thesis by (auto simp: assess_candidate_def serving_variants_def excluded_def exclude_def)
next
  case (Inr p)
  then obtain mapped t where p: "resolve_candidate_mapping (bx_mapping bx) (mapping_facts (bx_request bx)) c (bx_request bx)
      = Inr (mapped, t)" by (cases p) simp
  let ?st = "st\<lparr>bs_fallback_trigger := or_else (bs_fallback_trigger st) t\<rparr>"
  have same: "admitted bx c ?st st' \<longleftrightarrow> admitted bx c st st'" "excluded bx c ?st st' \<longleftrightarrow> excluded bx c st st'" for st'
    by (simp_all add: admitted_def excluded_def)
  show ?thesis using assess_variants_cases [OF p, of ?st] unfolding same assess_candidate_def p by simp
qed

section \<open>All candidates\<close>

text \<open>The candidate that the builder is expected to offer for a key.\<close>

definition offered :: "BuildContext \<Rightarrow> OperationalCandidateFact \<Rightarrow> CandidateSnapshot option" where
  "offered bx c =
     (case serving_variants bx c of
        [] \<Rightarrow> None
      | v # vs \<Rightarrow> Some (candidate_snapshot bx c (Some (mv_upstream_model v, 1)) (v # vs) True))"

lemma assess_candidates_snoc: "assess_candidates bx (cs @ [c]) = assess_candidate bx c (assess_candidates bx cs)"
  by (simp add: assess_candidates_def)

lemma assess_candidates_offered:
  assumes "model_request (bx_request bx)"
  shows "bs_eligible (assess_candidates bx cs) = List.map_filter (offered bx) cs"
proof (induction cs rule: rev_induct)
  case Nil
  show ?case by (simp add: assess_candidates_def build_start_def)
next
  case (snoc c cs)
  show ?case using assess_candidate_cases [of bx c "assess_candidates bx cs"] assms snoc
    by (cases "serving_variants bx c")
      (auto simp: assess_candidates_snoc admitted_def excluded_def offered_def List.map_filter_def)
qed

definition admits :: "BuildContext \<Rightarrow> OperationalCandidateFact \<Rightarrow> CandidateSnapshot \<Rightarrow> bool" where
  "admits bx c s \<longleftrightarrow> (\<exists>model. s = candidate_snapshot bx c model (serving_variants bx c) True) \<and>
     cs_model_alias_revision s = 1 \<and> (\<exists>m. may_serve c (bx_request bx) (bx_policy bx) m)"

lemma admitted_admits: "admitted bx c st st' \<Longrightarrow> \<exists>s. bs_eligible st' = bs_eligible st @ [s] \<and> admits bx c s"
  by (auto simp: admitted_def admits_def candidate_snapshot_def)

lemma assess_candidates_admits:
  "\<forall>s \<in> set (bs_eligible (assess_candidates bx cs)). \<exists>c \<in> set cs. admits bx c s"
proof (induction cs rule: rev_induct)
  case Nil
  show ?case by (simp add: assess_candidates_def build_start_def)
next
  case (snoc c cs)
  let ?st = "assess_candidates bx cs"
  have "bs_eligible (assess_candidate bx c ?st) = bs_eligible ?st \<or> admitted bx c ?st (assess_candidate bx c ?st)"
    using assess_candidate_cases [of bx c ?st] by (auto simp: excluded_def split: if_splits)
  then show ?case using snoc admitted_admits [of bx c ?st] by (fastforce simp: assess_candidates_snoc)
qed

text \<open>Every candidate is assessed once: excluded with a reason, or offered.\<close>

lemma assess_candidates_once:
  "mset (map pa_station_key_id (bs_assessments (assess_candidates bx cs))) +
     mset (map cs_station_key_id (bs_eligible (assess_candidates bx cs))) = mset (map cn_station_key_id cs) \<and>
   list_all (\<lambda>a. pa_eligibility a = Excluded \<and> pa_primary_reason a \<noteq> None) (bs_assessments (assess_candidates bx cs))"
proof (induction cs rule: rev_induct)
  case Nil
  show ?case by (simp add: assess_candidates_def build_start_def)
next
  case (snoc c cs)
  let ?st = "assess_candidates bx cs"
  have "excluded bx c ?st (assess_candidate bx c ?st) \<or> admitted bx c ?st (assess_candidate bx c ?st)"
    using assess_candidate_cases [of bx c ?st] by (auto split: if_splits)
  then show ?case using snoc
    by (auto simp: assess_candidates_snoc excluded_def admitted_def candidate_assessment_def candidate_snapshot_def)
qed

text \<open>The counters of the loop: at most every key matches, and the offered keys are among those counted.\<close>

definition counted :: "BuildState \<Rightarrow> nat \<Rightarrow> bool" where
  "counted st n \<longleftrightarrow> bs_capability_match_count st \<le> n \<and> bs_candidate_cap_count st \<le> bs_capability_match_count st \<and>
     length (bs_eligible st) \<le> bs_candidate_cap_count st"

lemma assess_variants_counted:
  assumes "counted st n"
  shows "counted (assess_variants bx c mapped st) (Suc n)"
proof -
  have "candidate_cap_eligible c" if "candidate_hard_rejection_reason c (bx_request bx) (bx_policy bx) m = None" for m
    using that by (simp add: hard_gate may_serve_def candidate_cap_eligible_def)
  with assms show ?thesis by (auto simp: assess_variants_def Let_def counted_def exclude_def)
qed

lemma assess_candidates_counted: "counted (assess_candidates bx cs) (length cs)"
proof (induction cs rule: rev_induct)
  case Nil
  show ?case by (simp add: assess_candidates_def build_start_def counted_def)
next
  case (snoc c cs)
  let ?st = "assess_candidates bx cs"
  have "counted (?st\<lparr>bs_fallback_trigger := x\<rparr>) (length cs)" for x using snoc by (simp add: counted_def)
  from assess_variants_counted [OF this] show ?case using snoc
    by (auto simp: assess_candidates_snoc assess_candidate_def exclude_def counted_def split: sum.splits prod.splits)
qed

section \<open>The rows behind a fact\<close>

definition has_credential :: "StationKeyRow \<Rightarrow> bool" where
  "has_credential k \<longleftrightarrow> sql_trim (ky_api_key k) \<noteq> [] \<or> ky_api_key_secret_id k \<noteq> None"

definition fact_of :: "FactEnv \<Rightarrow> FactDb \<Rightarrow> StationKeyRow \<Rightarrow> StationRow \<Rightarrow> OperationalCandidateFact \<Rightarrow> bool" where
  "fact_of env db k s c \<longleftrightarrow> (\<exists>row. raw_candidate db k s = Inr row \<and> assemble_candidate env row = Inr c)"

lemma invalid_fact_Inr: "invalid_fact r = Inr x \<longleftrightarrow> r = Inr x"
  by (simp add: invalid_fact_def split: sum.splits)

lemma fact_of_row:
  assumes "fact_of env db k s c"
  shows "cn_station_key_id c = ky_id k" "cn_station_id c = ky_station_id k" "cn_key_enabled c = ky_enabled k"
    "cn_station_enabled c = sx_enabled s" "cn_schedulable c = ky_schedulable k"
    "cn_credential_available c = has_credential k" "endpoint_revision c = sx_endpoint_revision s"
    "fd_revisions db (''station_key:'' @ ky_id k) = Some (cn_credential_revision c)"
    "0 < cn_credential_revision c" "0 < endpoint_revision c"
proof -
  obtain row where row: "raw_candidate db k s = Inr row" and c: "assemble_candidate env row = Inr c"
    using assms by (auto simp: fact_of_def)
  have r: "rw_station_key_id row = ky_id k" "rw_station_id row = ky_station_id k" "rw_key_enabled row = ky_enabled k"
    "rw_station_enabled row = sx_enabled s" "rw_schedulable row = ky_schedulable k"
    "rw_credential_available row = has_credential k" "rw_endpoint_revision row = sx_endpoint_revision s"
    "fd_revisions db (''station_key:'' @ ky_id k) = Some (rw_key_record_revision row)"
    using row by (auto simp: raw_candidate_def has_credential_def required_revision_def Let_def rbind_Inr_iff
        split: option.splits if_splits)
  have a: "cn_station_key_id c = rw_station_key_id row" "cn_station_id c = rw_station_id row"
    "cn_key_enabled c = rw_key_enabled row" "cn_station_enabled c = rw_station_enabled row"
    "cn_schedulable c = rw_schedulable row" "cn_credential_available c = rw_credential_available row"
    "endpoint_revision c = rw_endpoint_revision row" "cn_credential_revision c = rw_key_record_revision row"
    "0 < cn_credential_revision c" "0 < endpoint_revision c"
    using c by (auto simp: assemble_candidate_def rbind_Inr_iff invalid_fact_Inr id_new_def record_revision_new_def
        endpoint_revision_new_def split: if_splits)
  show "cn_station_key_id c = ky_id k" "cn_station_id c = ky_station_id k" "cn_key_enabled c = ky_enabled k"
    "cn_station_enabled c = sx_enabled s" "cn_schedulable c = ky_schedulable k"
    "cn_credential_available c = has_credential k" "endpoint_revision c = sx_endpoint_revision s"
    "fd_revisions db (''station_key:'' @ ky_id k) = Some (cn_credential_revision c)"
    "0 < cn_credential_revision c" "0 < endpoint_revision c"
    using r a by simp_all
qed

lemma load_bundle_facts:
  assumes "load_bundle env db counter options = Inr (facts, n)"
  shows "list_all2 (\<lambda>(k, s) c. fact_of env db k s c) (joined_keys db) (fb_candidates facts)"
proof -
  obtain rows where rows: "collect (\<lambda>(k, s). raw_candidate db k s) (joined_keys db) = Inr rows"
    "collect (assemble_candidate env) rows = Inr (fb_candidates facts)"
    using assms by (auto simp: load_bundle_def load_raw_def assemble_operational_fact_bundle_def rbind_Inr_iff
        split: sum.splits)
  then have l: "list_all2 (\<lambda>x row. (case x of (k, s) \<Rightarrow> raw_candidate db k s) = Inr row) (joined_keys db) rows"
    "list_all2 (\<lambda>row c. assemble_candidate env row = Inr c) rows (fb_candidates facts)"
    by (simp_all add: collect_Inr)
  show ?thesis
    by (rule list_all2_trans [OF _ l]) (auto simp: fact_of_def)
qed

lemma in_map_filter: "y \<in> set (List.map_filter f xs) \<longleftrightarrow> (\<exists>x \<in> set xs. f x = Some y)"
  by (induction xs) (auto simp: List.map_filter_simps split: option.splits)

lemma joined_keys_row: "(k, s) \<in> set (joined_keys db) \<Longrightarrow> k \<in> set (fd_station_keys db) \<and> s \<in> set (fd_stations db) \<and> sx_id s = ky_station_id k"
  by (auto simp: joined_keys_def in_map_filter find_Some_iff)

section \<open>The build\<close>

lemma store_error_Inr: "store_error r = Inr x \<longleftrightarrow> r = Inr x"
  by (simp add: store_error_def split: sum.splits)

lemma Inr_unit: "x = Inr () \<longleftrightarrow> (\<forall>e. x \<noteq> Inl e)"
  by (cases x) auto

lemma build_parts:
  assumes "build_with_assessments env stores counter options policy revision budget quality_config profile runtime request = Inr r"
  obtains facts n registry unsupported quality bx where
    "load_bundle (pe_facts env) (pz_facts stores) counter options = Inr (facts, n)"
    "load_unsupported (pz_capability stores)
       (capability_subjects_for_planning (fb_candidates facts) request (pz_mapping stores) (mapping_facts request)) = Inr unsupported"
    "bx_request bx = request" "bx_policy bx = policy" "bx_mapping bx = pz_mapping stores" "bx_unsupported bx = unsupported"
    "bs_candidate_cap_count (assess_candidates bx (fb_candidates facts)) \<le> op_candidate_limit options"
    "pb_snapshot r = planning_snapshot_of bx facts registry quality revision budget runtime
       (assess_candidates bx (fb_candidates facts))"
    "snapshot_validate (pb_snapshot r) = Inr ()"
    "pb_assessments r = bs_assessments (assess_candidates bx (fb_candidates facts)) @
       admitted_assessments bx (ps_candidates (pb_snapshot r))"
proof -
  obtain facts n where facts: "load_bundle (pe_facts env) (pz_facts stores) counter options = Inr (facts, n)"
    using assms by (auto simp: build_with_assessments_def split: sum.splits)
  obtain registry where registry: "pz_registry stores = Inr registry"
    using assms by (cases "pz_registry stores") (simp_all add: build_with_assessments_def facts store_error_def)
  obtain unsupported where unsupported: "load_unsupported (pz_capability stores)
       (capability_subjects_for_planning (fb_candidates facts) request (pz_mapping stores) (mapping_facts request)) = Inr unsupported"
    using load_unsupported_total by blast
  define bx where "bx = \<lparr>bx_request = request, bx_policy = policy, bx_quality_config = quality_config,
    bx_profile = profile, bx_mapping = pz_mapping stores, bx_unsupported = unsupported,
    bx_snapshot_id = fb_snapshot_id facts,
    bx_durable_revision = of_int (durable_revision_of (fb_version_vector facts) request (pz_mapping stores)),
    bx_fingerprint = pe_fingerprint env request revision (pz_mapping_revision stores)\<rparr>"
  note body = assms [unfolded build_with_assessments_def, simplified, unfolded facts sum.case prod.case registry
      store_error_def rbind.simps unsupported Let_def, folded store_error_def, folded bx_def]
  let ?st = "assess_candidates bx (fb_candidates facts)"
  have limit: "bs_candidate_cap_count ?st \<le> op_candidate_limit options"
    using body by (simp add: not_less split: if_splits)
  obtain quality where r: "r = \<lparr>pb_snapshot = planning_snapshot_of bx facts registry quality revision budget runtime ?st,
      pb_assessments = bs_assessments ?st @
        admitted_assessments bx (ps_candidates (planning_snapshot_of bx facts registry quality revision budget runtime ?st))\<rparr>"
    "\<forall>e. snapshot_validate (planning_snapshot_of bx facts registry quality revision budget runtime ?st) \<noteq> Inl e"
    using body by (auto simp: rbind_Inr_iff store_error_Inr Inr_unit split: if_splits sum.splits)
  then have "snapshot_validate (pb_snapshot r) = Inr ()"
    by (cases "snapshot_validate (pb_snapshot r)") simp_all
  with r show ?thesis
    by (intro that [OF facts unsupported _ _ _ _ limit]) (simp_all add: bx_def)
qed

section \<open>What a build offers\<close>

text \<open>The variants a key may serve, read off the stores: no gate rejects them and no verdict is known.\<close>

definition serving ::
  "PlanningStores \<Rightarrow> RouteRequestFacts \<Rightarrow> RoutingPolicyConfigV2 \<Rightarrow> OperationalCandidateFact \<Rightarrow> CandidateModelVariant list" where
  "serving stores request policy c =
     (case resolve_candidate_mapping (pz_mapping stores) (mapping_facts request) c request of
        Inl _ \<Rightarrow> []
      | Inr (variants, _) \<Rightarrow>
          filter (\<lambda>v. \<not> known_unsupported (pz_capability stores) c (mv_upstream_model v) \<and>
              may_serve c request policy (Some (mv_upstream_model v))) variants)"

lemma serving_variants_serving:
  assumes "load_unsupported (pz_capability stores)
       (capability_subjects_for_planning candidates request (pz_mapping stores) (mapping_facts request)) = Inr unsupported"
    and "bx_request bx = request" "bx_policy bx = policy" "bx_mapping bx = pz_mapping stores" "bx_unsupported bx = unsupported"
    and "c \<in> set candidates"
  shows "serving_variants bx c = serving stores request policy c"
proof (cases "resolve_candidate_mapping (pz_mapping stores) (mapping_facts request) c request")
  case (Inr p)
  obtain variants t where p: "p = (variants, t)" by (cases p)
  have "(cn_station_key_id c, mv_upstream_model v, cn_credential_revision c, endpoint_revision c, 1)
      \<in> set (capability_subjects_for_planning candidates request (pz_mapping stores) (mapping_facts request))"
    if "v \<in> set variants" for v
    using that assms(6) by (auto simp: capability_subjects_for_planning_def Inr p Let_def intro!: bexI [of _ c])
  from loaded_iff_known [OF assms(1) this] show ?thesis
    by (auto simp: serving_variants_def serving_def assms(2-5) Inr p intro!: filter_cong)
qed (simp add: serving_variants_def serving_def assms)

lemma serving_variant:
  assumes "v \<in> set (serving stores request policy c)"
  shows "mv_station_key_id v = cn_station_key_id c" "\<not> known_unsupported (pz_capability stores) c (mv_upstream_model v)"
    "may_serve c request policy (Some (mv_upstream_model v))" "mv_station_id v = cn_station_id c"
proof -
  obtain variants t where m: "resolve_candidate_mapping (pz_mapping stores) (mapping_facts request) c request = Inr (variants, t)"
    and v: "v \<in> set variants"
    using assms by (cases "resolve_candidate_mapping (pz_mapping stores) (mapping_facts request) c request")
      (auto simp: serving_def)
  obtain plan where "variants = resolved_variants plan (candidate_context (mapping_facts request) c)"
    using m by (auto simp: resolve_candidate_mapping_def rbind_Inr_iff Let_def split: if_splits)
  then obtain ts where "variants = map (candidate_variant plan (candidate_context (mapping_facts request) c)) ts"
    using foldl_add_variant [of plan "candidate_context (mapping_facts request) c" "rp_target_models plan"]
    unfolding resolved_variants_fold by blast
  with v show "mv_station_key_id v = cn_station_key_id c" "mv_station_id v = cn_station_id c"
    by (auto simp: candidate_variant_def candidate_context_def)
  show "\<not> known_unsupported (pz_capability stores) c (mv_upstream_model v)"
    "may_serve c request policy (Some (mv_upstream_model v))"
    using assms by (auto simp: serving_def split: sum.splits)
qed

lemma with_quality_keeps:
  "cs_station_key_id (with_quality bx q c) = cs_station_key_id c"
  "cs_credential_revision (with_quality bx q c) = cs_credential_revision c"
  "cs_endpoint_revision (with_quality bx q c) = cs_endpoint_revision c"
  "cs_model_variants (with_quality bx q c) = cs_model_variants c"
  by (simp_all add: with_quality_def Let_def)

lemma candidate_snapshot_keeps:
  "cs_station_key_id (candidate_snapshot bx c model vs h) = cn_station_key_id c"
  "cs_credential_revision (candidate_snapshot bx c model vs h) = cn_credential_revision c"
  "cs_endpoint_revision (candidate_snapshot bx c model vs h) = endpoint_revision c"
  "cs_model_variants (candidate_snapshot bx c model vs h) = vs"
  by (simp_all add: candidate_snapshot_def)

lemma snapshot_candidates:
  "ps_candidates (planning_snapshot_of bx facts registry quality revision budget runtime st) =
     map (with_quality bx quality) (bs_eligible st)"
  by (simp add: planning_snapshot_of_def)

lemma snapshot_runtime:
  "ps_runtime (planning_snapshot_of bx facts registry quality revision budget runtime st) = runtime"
  by (simp add: planning_snapshot_of_def)

text \<open>The key and revisions under which a variant is offered, and the variants.\<close>

type_synonym offer = "string \<times> i64 \<times> i64 \<times> CandidateModelVariant list"

definition offer_of :: "CandidateSnapshot \<Rightarrow> offer" where
  "offer_of s = (cs_station_key_id s, cs_credential_revision s, cs_endpoint_revision s, cs_model_variants s)"

lemma build_offers:
  assumes "build_with_assessments env stores counter options policy revision budget quality_config profile runtime request = Inr r"
    and "model_request request"
  obtains facts n where "load_bundle (pe_facts env) (pz_facts stores) counter options = Inr (facts, n)"
    "map offer_of (ps_candidates (pb_snapshot r)) =
      map (\<lambda>c. (cn_station_key_id c, cn_credential_revision c, endpoint_revision c, serving stores request policy c))
        (filter (\<lambda>c. serving stores request policy c \<noteq> []) (fb_candidates facts))"
  using assms(1)
proof (rule build_parts)
  fix facts n registry unsupported quality bx
  assume b: "load_bundle (pe_facts env) (pz_facts stores) counter options = Inr (facts, n)"
    "load_unsupported (pz_capability stores)
       (capability_subjects_for_planning (fb_candidates facts) request (pz_mapping stores) (mapping_facts request)) = Inr unsupported"
    "bx_request bx = request" "bx_policy bx = policy" "bx_mapping bx = pz_mapping stores" "bx_unsupported bx = unsupported"
    "pb_snapshot r = planning_snapshot_of bx facts registry quality revision budget runtime
       (assess_candidates bx (fb_candidates facts))"
  have "map offer_of (List.map_filter (offered bx) cs) =
      map (\<lambda>c. (cn_station_key_id c, cn_credential_revision c, endpoint_revision c, serving stores request policy c))
        (filter (\<lambda>c. serving stores request policy c \<noteq> []) cs)" if "set cs \<subseteq> set (fb_candidates facts)" for cs
    using that
  proof (induction cs)
    case (Cons c cs)
    have "serving_variants bx c = serving stores request policy c"
      by (rule serving_variants_serving [OF b(2-6)]) (use Cons.prems in simp)
    with Cons show ?case
      by (cases "serving stores request policy c")
        (simp_all add: offered_def List.map_filter_simps offer_of_def candidate_snapshot_keeps)
  qed (simp add: List.map_filter_simps)
  moreover have "map offer_of (ps_candidates (pb_snapshot r)) = map offer_of (List.map_filter (offered bx) (fb_candidates facts))"
    using assms(2) by (simp add: b(3,7) snapshot_candidates assess_candidates_offered offer_of_def [abs_def] with_quality_keeps o_def)
  ultimately show ?thesis using that b(1) by simp
qed

text \<open>A plan entry goes back to a candidate of the snapshot and one of its variants.\<close>

lemma plan_entry_origin:
  assumes "plan_snapshot sha s = Done (Inr plan)" "p \<in> set (rp_candidates plan)"
  obtains c v where "(c, v) \<in> set (eligible_pairs s)" "plan_entry p = expected_entry (c, v)"
proof -
  have v: "snapshot_validate s = Inr ()" and f: "ro_in_flight (ps_runtime s) < ro_max_concurrency (ps_runtime s)"
    using assms(1) by (auto simp: plan_snapshot_def not_le split: sum.splits if_splits)
  from v f have "plan_entry p \<in> set (map expected_entry (eligible_pairs s))"
  proof (cases rule: plan_snapshot_spec [where sha = sha])
    case (plan ps qs plan')
    have "plan_entry p \<in> set (map plan_entry qs)" using plan assms by auto
    also have "map plan_entry qs = map plan_entry ps"
      using affinity_entries [OF affinity_correction_spec [OF plan(3)]] plan(5) by metis
    finally show ?thesis by (simp only: plan(4))
  qed (use assms in simp)
  then show ?thesis using that by auto
qed

section \<open>Learned verdicts\<close>

text \<open>Observations one after the other; a failed one is rolled back.\<close>

definition apply_all ::
  "(capability_payload \<Rightarrow> string) \<Rightarrow> CapabilityDb \<Rightarrow> (UnsupportedModelObservation \<times> i64) list \<Rightarrow> CapabilityDb" where
  "apply_all payload_hash =
     foldl (\<lambda>db (o1, now_ms). case apply_unsupported_model payload_hash db o1 now_ms of Inl _ \<Rightarrow> db | Inr (db', _) \<Rightarrow> db')"

definition learned :: "CapabilityDb \<Rightarrow> string \<Rightarrow> string \<Rightarrow> i64 \<Rightarrow> i64 \<Rightarrow> bool" where
  "learned db key model credential endpoint \<longleftrightarrow>
     list_ex (\<lambda>v. verdict_of_subject (key, model, credential, endpoint, 1) v \<and> vv_model_alias_revision v = 1) (cd_verdicts db)"

text \<open>
  The stored verdicts come from observations that were stored before. Both tables start empty, and
  every stored observation keeps it.
\<close>

definition verdicts_sequenced :: "CapabilityDb \<Rightarrow> bool" where
  "verdicts_sequenced db \<longleftrightarrow> list_all (\<lambda>v. vv_source_ingestion_sequence v < cd_next_sequence db) (cd_verdicts db)"

text \<open>
  The observation that decides about a model on a key: the last one among \<open>os\<close> that the store recorded
  for the same key, model, credential and endpoint revisions and the kinds \<^verbatim>\<open>unknown\<close>, which the
  request path writes; whatever the others are and whether they were accepted.
\<close>

fun deciding ::
  "(capability_payload \<Rightarrow> string) \<Rightarrow> CapabilityDb \<Rightarrow> (UnsupportedModelObservation \<times> i64) list
    \<Rightarrow> string \<Rightarrow> string \<Rightarrow> i64 \<Rightarrow> i64 \<Rightarrow> UnsupportedModelObservation option" where
  "deciding h db [] key model credential endpoint = None"
| "deciding h db ((o1, now_ms) # os) key model credential endpoint =
     (case apply_unsupported_model h db o1 now_ms of
        Inl _ \<Rightarrow> deciding h db os key model credential endpoint
      | Inr (db', result) \<Rightarrow>
          or_else (deciding h db' os key model credential endpoint)
            (if result = Applied \<and> um_station_key_id o1 = key \<and> um_resolved_model o1 = model
                \<and> um_credential_revision o1 = credential \<and> um_endpoint_revision o1 = endpoint
                \<and> um_endpoint_kind o1 = ''unknown'' \<and> um_protocol_kind o1 = ''unknown''
             then Some o1 else None))"

lemma known_unsupported_learned:
  "known_unsupported db c model \<longleftrightarrow> learned db (cn_station_key_id c) model (cn_credential_revision c) (endpoint_revision c)"
  by (simp add: known_unsupported_def learned_def)

lemma refresh_identity:
  "verdict_of_subject r (refresh_verdict new old) = verdict_of_subject r old"
  "vv_identity_version (refresh_verdict new old) = vv_identity_version old"
  "vv_model_alias_revision (refresh_verdict new old) \<in> {vv_model_alias_revision new, vv_model_alias_revision old}"
  by (simp_all add: refresh_verdict_def verdict_of_subject_def split: prod.splits)

lemma upsert_cases:
  assumes "upsert_verdict rows new = Inr rows'"
  obtains (refreshed) old where "old \<in> set rows" "same_native_identity new old"
      "rows' = map (\<lambda>row. if same_native_identity new row then refresh_verdict new row else row) rows"
  | (inserted) "rows' = rows @ [new]"
proof (cases "find (same_native_identity new) rows")
  case None
  then show ?thesis using assms inserted by (auto simp: upsert_verdict_def split: if_splits)
next
  case (Some old)
  then have "old \<in> set rows" "same_native_identity new old" by (auto simp: find_Some_iff)
  then show ?thesis using assms refreshed by (auto simp: upsert_verdict_def Some split: if_splits)
qed

lemma list_ex_map: "list_ex P xs \<Longrightarrow> (\<And>x. P x \<Longrightarrow> P (f x)) \<Longrightarrow> list_ex P (map f xs)"
  by (auto simp: list_ex_iff)

lemma refresh_newer:
  "vv_source_ingestion_sequence old < vv_source_ingestion_sequence new \<Longrightarrow>
    vv_model_alias_revision (refresh_verdict new old) = vv_model_alias_revision new"
  by (simp add: refresh_verdict_def)

lemma refresh_sequence:
  "vv_source_ingestion_sequence (refresh_verdict new old) \<in> {vv_source_ingestion_sequence new, vv_source_ingestion_sequence old}"
  by (simp add: refresh_verdict_def)

lemma apply_verdicts:
  assumes "apply_unsupported_model h db o1 now_ms = Inr (db', result)"
  obtains "db' = db" "result = Existing"
  | "result = Applied" "cd_next_sequence db' = cd_next_sequence db + 1"
    "upsert_verdict (cd_verdicts db) (verdict_of o1 (cd_next_sequence db) now_ms) = Inr (cd_verdicts db')"
  using assms by (auto simp: apply_unsupported_model_def Let_def rbind_Inr_iff split: if_splits option.splits)

lemma apply_sequenced:
  assumes "apply_unsupported_model h db o1 now_ms = Inr (db', result)" "verdicts_sequenced db"
  shows "verdicts_sequenced db'"
  using assms(1)
proof (cases rule: apply_verdicts)
  case 2
  let ?new = "verdict_of o1 (cd_next_sequence db) now_ms"
  have new: "vv_source_ingestion_sequence ?new = cd_next_sequence db" by (simp add: verdict_of_def)
  have old: "vv_source_ingestion_sequence v < cd_next_sequence db" if "v \<in> set (cd_verdicts db)" for v
    using assms(2) that by (simp add: verdicts_sequenced_def list_all_iff)
  from 2(3) show ?thesis
  proof (cases rule: upsert_cases)
    case (refreshed row)
    have "vv_source_ingestion_sequence (refresh_verdict ?new v) < cd_next_sequence db + 1" if "v \<in> set (cd_verdicts db)" for v
      using refresh_sequence [of ?new v] new old [OF that] by auto
    then show ?thesis using old 2(2) by (auto simp: verdicts_sequenced_def list_all_iff refreshed(3) less_Suc_eq)
  next
    case inserted
    then show ?thesis using old new 2(2) by (auto simp: verdicts_sequenced_def list_all_iff less_Suc_eq)
  qed
qed (use assms in simp)

text \<open>
  One observation: it decides about its own identity by its alias revision, and about no other. A row
  of the same native identity takes over the alias revision, because the observation is newer.
\<close>

lemma apply_learned:
  assumes "apply_unsupported_model h db o1 now_ms = Inr (db', result)" "verdicts_sequenced db"
  shows "learned db' key model credential endpoint \<longleftrightarrow>
    (if result = Applied \<and> um_station_key_id o1 = key \<and> um_resolved_model o1 = model
        \<and> um_credential_revision o1 = credential \<and> um_endpoint_revision o1 = endpoint
        \<and> um_endpoint_kind o1 = ''unknown'' \<and> um_protocol_kind o1 = ''unknown''
     then um_model_alias_revision o1 = 1 else learned db key model credential endpoint)"
  using assms(1)
proof (cases rule: apply_verdicts)
  case 2
  let ?new = "verdict_of o1 (cd_next_sequence db) now_ms" and ?r = "(key, model, credential, endpoint, 1)"
  have new: "vv_model_alias_revision ?new = um_model_alias_revision o1" "vv_identity_version ?new \<ge> 2"
    and same: "verdict_of_subject ?r ?new \<longleftrightarrow> um_station_key_id o1 = key \<and> um_resolved_model o1 = model
        \<and> um_credential_revision o1 = credential \<and> um_endpoint_revision o1 = endpoint
        \<and> um_endpoint_kind o1 = ''unknown'' \<and> um_protocol_kind o1 = ''unknown''"
    by (auto simp: verdict_of_def verdict_of_subject_def NATIVE_MODEL_CAPABILITY_IDENTITY_VERSION_def)
  have native: "same_native_identity ?new v \<longleftrightarrow> verdict_of_subject ?r v" if "verdict_of_subject ?r ?new" for v
    using that new(2) by (auto simp: same_native_identity_def verdict_of_subject_def)
  have newer: "vv_model_alias_revision (refresh_verdict ?new v) = um_model_alias_revision o1" if "v \<in> set (cd_verdicts db)" for v
    using refresh_newer [of v ?new] new assms(2) that
    by (simp add: verdicts_sequenced_def list_all_iff verdict_of_def)
  from 2(3) show ?thesis
  proof (cases rule: upsert_cases)
    case (refreshed old)
    show ?thesis
    proof (cases "verdict_of_subject ?r ?new")
      case True
      let ?f = "\<lambda>v. if same_native_identity ?new v then refresh_verdict ?new v else v"
      have "verdict_of_subject ?r (?f v) \<longleftrightarrow> verdict_of_subject ?r v" for v by (simp add: refresh_identity)
      moreover have "vv_model_alias_revision (?f v) = um_model_alias_revision o1"
        if "v \<in> set (cd_verdicts db)" "verdict_of_subject ?r v" for v
        using native [OF True, of v] newer [OF that(1)] that(2) by simp
      ultimately have "list_ex (\<lambda>v. verdict_of_subject ?r v \<and> vv_model_alias_revision v = 1) (map ?f (cd_verdicts db)) \<longleftrightarrow>
          (\<exists>v \<in> set (cd_verdicts db). verdict_of_subject ?r v) \<and> um_model_alias_revision o1 = 1"
        by (auto simp only: list_ex_iff set_map image_iff bex_simps)
      moreover have "verdict_of_subject ?r old" using True native refreshed(2) by simp
      ultimately show ?thesis
        using True same 2(1) refreshed(1) by (auto simp: learned_def refreshed(3))
    next
      case False
      then have "\<not> verdict_of_subject ?r v" if "same_native_identity ?new v" for v
        using that by (auto simp: same_native_identity_def verdict_of_subject_def)
      then have "verdict_of_subject ?r v \<and> vv_model_alias_revision v = 1 \<longleftrightarrow>
          verdict_of_subject ?r (if same_native_identity ?new v then refresh_verdict ?new v else v) \<and>
          vv_model_alias_revision (if same_native_identity ?new v then refresh_verdict ?new v else v) = 1" for v
        by (auto simp: refresh_identity)
      then have "learned db' key model credential endpoint \<longleftrightarrow> learned db key model credential endpoint"
        by (simp only: learned_def refreshed(3) list_ex_iff set_map image_iff bex_simps)
      then show ?thesis using False same by auto
    qed
  next
    case inserted
    show ?thesis
    proof (cases "verdict_of_subject ?r ?new")
      case True
      have "find (same_native_identity ?new) (cd_verdicts db) = None"
        using 2(3) inserted by (auto simp: upsert_verdict_def split: option.splits if_splits dest: arg_cong [where f = length])
      then have "\<not> verdict_of_subject ?r v" if "v \<in> set (cd_verdicts db)" for v
        using native [OF True] that by (auto simp: find_None_iff)
      then show ?thesis using True same 2(1) new by (auto simp: learned_def inserted list_ex_iff)
    next
      case False
      then show ?thesis using same by (auto simp: learned_def inserted)
    qed
  qed
qed simp

lemma apply_all_learned:
  "verdicts_sequenced db \<Longrightarrow> learned (apply_all h db os) key model credential endpoint \<longleftrightarrow>
    (case deciding h db os key model credential endpoint of
       None \<Rightarrow> learned db key model credential endpoint
     | Some o1 \<Rightarrow> um_model_alias_revision o1 = 1)"
proof (induction os arbitrary: db)
  case (Cons x os)
  obtain o1 now where x: "x = (o1, now)" by (cases x)
  show ?case
  proof (cases "apply_unsupported_model h db o1 now")
    case (Inl e)
    then show ?thesis using Cons by (simp add: apply_all_def x)
  next
    case (Inr p)
    then obtain db' result where p: "apply_unsupported_model h db o1 now = Inr (db', result)" by (cases p) simp
    show ?thesis
      using Cons.IH [OF apply_sequenced [OF p Cons.prems]] apply_learned [OF p Cons.prems, of key model credential endpoint]
      by (auto simp: apply_all_def x p or_else_def split: option.splits)
  qed
qed (simp add: apply_all_def)

text \<open>
  A verdict of identity version 1 with the primary key of a new one makes the upsert fail, whatever
  model request fails; and it is no verdict to the reader.
\<close>

lemma legacy_verdict_blocks_learning:
  assumes "observation_valid o1 now_ms" "find (same_observation o1) (cd_observations db) = None"
    and "um_attempt_ordinal o1 \<le> 63" "old \<in> set (cd_verdicts db)" "vv_identity_version old = 1"
    and "same_primary_key (verdict_of o1 (cd_next_sequence db) now_ms) old"
    and "find (same_native_identity (verdict_of o1 (cd_next_sequence db) now_ms)) (cd_verdicts db) = None"
  shows "apply_unsupported_model h db o1 now_ms = Inl ConstraintViolation \<and> \<not> verdict_of_subject r old"
proof -
  have "\<not> um_attempt_ordinal o1 > 63" using assms(3) by simp
  moreover have "upsert_verdict (cd_verdicts db) (verdict_of o1 (cd_next_sequence db) now_ms) = Inl ConstraintViolation"
    using assms(4,6,7) by (auto simp: upsert_verdict_def)
  ultimately show ?thesis
    using assms(1,2,5) by (auto simp: apply_unsupported_model_def verdict_of_subject_def Let_def split: prod.splits)
qed

section \<open>What the gates do not ask\<close>

text \<open>
  The endpoint of the request takes no part in the gates, a key without a known multiplier passes the
  price ceiling, and a key without a balance row serves nothing.
\<close>

lemma gates_ignore_endpoint: "may_serve c (with_mapping_endpoint request e) policy m = may_serve c request policy m"
proof -
  have same: "fx_stream (with_mapping_endpoint request e) = fx_stream request"
    "fx_uses_tools (with_mapping_endpoint request e) = fx_uses_tools request"
    "fx_uses_vision (with_mapping_endpoint request e) = fx_uses_vision request"
    "fx_uses_reasoning (with_mapping_endpoint request e) = fx_uses_reasoning request"
    "fx_group_filter_mode (with_mapping_endpoint request e) = fx_group_filter_mode request"
    "fx_required_group_stable_key (with_mapping_endpoint request e) = fx_required_group_stable_key request"
    "fx_route_kind (with_mapping_endpoint request e) = fx_route_kind request"
    "fx_max_rate_multiplier (with_mapping_endpoint request e) = fx_max_rate_multiplier request"
    "fx_required_tags (with_mapping_endpoint request e) = fx_required_tags request"
    "fx_admitted_at_ms (with_mapping_endpoint request e) = fx_admitted_at_ms request"
    by (simp_all add: with_mapping_endpoint_def)
  show ?thesis unfolding may_serve_def candidate_matches_group_scope_def multiplier_ceiling_ok_def same ..
qed

lemma unknown_multiplier_passes_ceiling: "candidate_multiplier c = None \<Longrightarrow> multiplier_ceiling_ok c request"
  by (simp add: multiplier_ceiling_ok_def split: RouteKind.split option.split)

lemma missing_balance_serves_nothing: "cn_balance_scope c = None \<Longrightarrow> \<not> may_serve c request policy m"
  by (simp add: may_serve_def balance_fact_rejection_reason_def)

section \<open>A concrete build\<close>

text \<open>A station with an enabled and a disabled key, whose account balance is known, without mapping rules.\<close>

definition example_key :: "string \<Rightarrow> bool \<Rightarrow> i64 \<Rightarrow> StationKeyRow" where
  "example_key key enabled order1 = \<lparr>ky_id = key, ky_station_id = ''st'', ky_enabled = enabled, ky_api_key = ''sk'',
     ky_api_key_secret_id = None, ky_schedulable = True, ky_priority = order1, ky_routing_order = None,
     ky_group_binding_id = None, ky_group_id_hash = None, ky_created_at = ''1''\<rparr>"

definition example_station :: StationRow where
  "example_station = \<lparr>sx_id = ''st'', sx_enabled = True, sx_endpoint_revision = 1, sx_api_base_url = ''u'', sx_credit_per_cny = F64_Num 1\<rparr>"

definition example_balance :: BalanceRow where
  "example_balance = \<lparr>bl_id = ''b'', bl_station_id = ''st'', bl_station_key_id = None, bl_scope = ''station'',
     bl_balance_kind = ''account_balance'', bl_value = Some (F64_Num 5), bl_currency = ''CNY'', bl_status = ''ok'',
     bl_evidence_confidence = ''confirmed'', bl_spendability_authority = ''authoritative'', bl_observed_at_ms = None,
     bl_valid_until_ms = None, bl_created_at = ''1'', bl_updated_at = ''1''\<rparr>"

definition example_facts_db :: FactDb where
  "example_facts_db = \<lparr>fd_station_keys = [example_key ''k1'' True 1, example_key ''k2'' False 2],
     fd_stations = [example_station], fd_capabilities = [], fd_group_bindings = [], fd_balances = [example_balance],
     fd_aliases = [], fd_routing_policy = None, fd_revisions = (\<lambda>_. Some 1)\<rparr>"

definition example_env :: PlanningEnv where
  "example_env = \<lparr>pe_facts = \<lparr>fk_parse_url = (\<lambda>_. Some \<lparr>pu_scheme = ''https'', pu_host = Some ''h'', pu_username = [],
       pu_password = None, pu_port = None\<rparr>), fk_parse_string_list = (\<lambda>_. Some [])\<rparr>,
     pe_summary = undefined, pe_fingerprint = (\<lambda>_ _ _. ''f'')\<rparr>"

definition example_registry :: RoutingGenerationRegistrySnapshot where
  "example_registry = \<lparr>gs_marker = \<lparr>gk_mode = PreCutover, gk_active_runtime_generation_id = None,
     gk_fenced_runtime_generation_id = None, gk_fence_revision = 0, gk_updated_at_ms = 0\<rparr>, gs_active = None, gs_fencing = None\<rparr>"

definition example_stores :: "CapabilityDb \<Rightarrow> PlanningStores" where
  "example_stores cap = \<lparr>pz_facts = example_facts_db, pz_capability = cap,
     pz_quality = \<lparr>qd_generations = [], qd_summaries = [], qd_axes = [], qd_checkpoints = [], qd_observations = []\<rparr>,
     pz_registry = Inr example_registry,
     pz_mapping = \<lparr>cc_mapping_revision = 1, cc_model_resolution_fence = ''f'',
       cc_policy = \<lparr>mp_unmatched_model_behavior = PreserveUnmatched\<rparr>, cc_rules = [], cc_profiles = [], cc_bindings = []\<rparr>,
     pz_mapping_revision = 1, pz_now_ms = 0\<rparr>"

definition example_route_settings :: RuntimeRoutingSettings where
  "example_route_settings = \<lparr>rts_max_rate_multiplier = None, rts_routing_group_scope = AllGroups,
     rts_allow_depleted_fallback = False, rts_outbound_proxy_mode = [], rts_outbound_proxy_url = None,
     rts_global_proxy_mode = [], rts_global_proxy_url = None\<rparr>"

definition example_request :: RouteRequestFacts where
  "example_request = (route_request_facts_for_read_model example_route_settings 0)\<lparr>fx_requested_model := Some ''m''\<rparr>"

lemma example_model_request: "model_request example_request"
  by (simp add: example_request_def model_request_def route_request_facts_for_read_model_def classify_request_def)

lemma example_joined: "joined_keys example_facts_db =
    [(example_key ''k1'' True 1, example_station), (example_key ''k2'' False 2, example_station)]"
  by (simp add: joined_keys_def example_facts_db_def List.map_filter_simps example_key_def example_station_def
      sort_by_def coalesce_def less_eq_prod_def)

definition example_fact :: "string \<Rightarrow> bool \<Rightarrow> i64 \<Rightarrow> OperationalCandidateFact" where
  "example_fact key enabled order1 = \<lparr>cn_station_key_id = key, cn_station_id = ''st'', cn_key_enabled = enabled,
     cn_station_enabled = True,
     cn_endpoint = \<lparr>ef_endpoint_ref = \<lparr>er_station_id = ''st'', er_endpoint_id = ''primary'', er_revision = 1\<rparr>,
       ef_sanitized_origin = ''https://h'', ef_outbound_policy_ref = ''station-default''\<rparr>,
     cn_credential_available = True, cn_credential_revision = 1, cn_schedulable = True, cn_priority = order1,
     cn_backup_only = False, cn_group_binding_id = None, cn_group_record_revision = None, cn_group_binding_status = None,
     cn_station_native_multiplier = None, cn_credit_per_cny = Some (F64_Num 1), cn_account_record_revision = 1,
     cn_group_id_hash = None, cn_group_category = None, cn_supports_chat_completions = True, cn_supports_responses = True,
     cn_supports_stream = True, cn_supports_tools = False, cn_supports_vision = False, cn_supports_reasoning = False,
     cn_model_allowlist = [], cn_model_blocklist = [], cn_preferred_models = [], cn_routing_tags = [],
     cn_balance_scope = Some ''station'', cn_balance_kind = Some ''account_balance'', cn_balance_status = Some ''ok'',
     cn_balance_value = Some (F64_Num 5), cn_balance_currency = Some ''CNY'',
     cn_balance_evidence_confidence = Some ''confirmed'', cn_balance_spendability_authority = Some ''authoritative'',
     cn_balance_observed_at_ms = None, cn_balance_valid_until_ms = None\<rparr>"

lemma example_bundle:
  obtains facts where "load_bundle (pe_facts example_env) example_facts_db 0 (for_request_model ''m'') = Inr (facts, 1)"
    "fb_candidates facts = [example_fact ''k1'' True 1, example_fact ''k2'' False 2]" "fb_snapshot_id facts \<noteq> []"
    "fb_version_vector facts = \<lparr>fv_max_station_revision = 1, fv_max_key_revision = 1, fv_max_settings_revision = 0,
       fv_max_alias_revision = 0\<rparr>"
proof -
  have "\<exists>facts. load_bundle (pe_facts example_env) example_facts_db 0 (for_request_model ''m'') = Inr (facts, 1) \<and>
    fb_candidates facts = [example_fact ''k1'' True 1, example_fact ''k2'' False 2] \<and> fb_snapshot_id facts \<noteq> [] \<and>
    fb_version_vector facts = \<lparr>fv_max_station_revision = 1, fv_max_key_revision = 1, fv_max_settings_revision = 0,
       fv_max_alias_revision = 0\<rparr>"
    unfolding load_bundle_def load_raw_def example_joined
    by (simp add: example_facts_db_def example_key_def example_station_def example_balance_def example_env_def
        raw_candidate_def required_revision_def selected_balance_def account_balance_def key_balance_def latest_balance_def
        sort_by_def selected_aliases_def for_request_model_def coalesce_def or_else_def Let_def sql_trim_def
        assemble_operational_fact_bundle_def assemble_candidate_def parse_json_string_list_def invalid_fact_def id_new_def
        endpoint_revision_new_def record_revision_new_def sanitized_origin_def transpose_option_def trim_id visible_ascii_def
        max_revision_def snapshot_id_of_def example_fact_def)
  then show ?thesis using that by blast
qed

lemma example_fact_fields:
  "cn_station_key_id (example_fact key enabled order1) = key" "cn_station_id (example_fact key enabled order1) = ''st''"
  "cn_credential_revision (example_fact key enabled order1) = 1" "endpoint_revision (example_fact key enabled order1) = 1"
  "cn_account_record_revision (example_fact key enabled order1) = 1" "cn_group_binding_id (example_fact key enabled order1) = None"
  "cn_group_record_revision (example_fact key enabled order1) = None"
  "cn_credential_available (example_fact key enabled order1)"
  by (simp_all add: example_fact_def)

lemma example_balance_ok: "balance_fact_rejection_reason (example_fact key enabled order1) 0 = None"
  by (simp add: balance_fact_rejection_reason_def example_fact_def balance_kind_matches_def Let_def trim_id visible_ascii_def
      to_ascii_lowercase_def ascii_lowercase_def eq_ignore_ascii_case_def some_satisfies_def balance_is_depleted_def)

lemma example_not_depleted: "\<not> candidate_is_depleted (example_fact key enabled order1)"
  by (simp add: candidate_is_depleted_def balance_is_depleted_def example_fact_def)

lemma example_request_fields:
  "fx_stream example_request = False" "fx_uses_tools example_request = False" "fx_uses_vision example_request = False"
  "fx_uses_reasoning example_request = False" "fx_group_filter_mode example_request = AnyGroup"
  "fx_max_rate_multiplier example_request = None" "fx_required_tags example_request = []"
  "fx_admitted_at_ms example_request = 0" "fx_route_kind example_request = Inference"
  "fx_requested_model example_request = Some ''m''" "fx_model_mapping_revision example_request = None"
  "fx_mapping_requested_model example_request = None" "fx_mapping_endpoint example_request = None"
  by (simp_all add: example_request_def route_request_facts_for_read_model_def classify_request_def
      validated_route_settings_def example_route_settings_def)

lemma example_gates: "may_serve (example_fact key enabled order1) example_request policy m \<longleftrightarrow> enabled"
  by (cases m) (simp_all add: may_serve_def example_request_fields example_balance_ok candidate_matches_group_scope_def
      multiplier_ceiling_ok_def, simp_all add: example_fact_def model_permitted_def)

lemma example_model: "normalize_model_name ''m'' = Some ''m''"
  by (rule normalize_ascii(1)) (simp_all add: visible_ascii_def)

lemma example_mapping:
  "\<exists>v t. resolve_candidate_mapping (pz_mapping (example_stores cap)) (mapping_facts example_request)
       (example_fact key enabled order1) example_request = Inr ([v], t) \<and> mv_upstream_model v = ''m''"
  by (simp add: resolve_candidate_mapping_def resolve_for_candidate_def resolve_def mapping_facts_def example_request_fields
      example_stores_def is_mapping_bypass_def example_model plan_base_def resolved_variants_def candidate_variant_def)

definition example_runtime :: RuntimeOverlaySnapshot where
  "example_runtime = \<lparr>ro_runtime_instance_id = ''r'', ro_runtime_revision = 1, ro_candidate_set_revision = 1,
     ro_in_flight = 0, ro_max_concurrency = 8, ro_affinity_station_key_id = None\<rparr>"

definition example_build_of :: "CapabilityDb \<Rightarrow> PlanningSnapshotBuildError + PlanningBuildResult" where
  "example_build_of cap = build_with_assessments example_env (example_stores cap) 0 (for_request_model ''m'') config_v2_default 1
     example_budget quality_config_default profile_default example_runtime example_request"

lemma example_serving:
  assumes "list_all (\<lambda>v. vv_resolved_model v \<noteq> ''m'') (cd_verdicts cap)"
  obtains v where "mv_upstream_model v = ''m''"
    "serving (example_stores cap) example_request policy (example_fact key True order1) = [v]"
    "serving (example_stores cap) example_request policy (example_fact key2 False order2) = []"
proof -
  obtain v t where v: "resolve_candidate_mapping (pz_mapping (example_stores cap)) (mapping_facts example_request)
       (example_fact key True order1) example_request = Inr ([v], t)" "mv_upstream_model v = ''m''"
    using example_mapping by blast
  have "pz_capability (example_stores cap) = cap" by (simp add: example_stores_def)
  moreover have "\<not> known_unsupported cap c ''m''" for c
    using assms by (auto simp: known_unsupported_def list_ex_iff list_all_iff verdict_of_subject_def)
  ultimately have "serving (example_stores cap) example_request policy (example_fact key True order1) = [v]"
    using v by (simp add: serving_def example_gates)
  moreover have "serving (example_stores cap) example_request policy (example_fact key2 False order2) = []"
    using example_gates serving_variant(3) by (metis list.set_intros(1) neq_Nil_conv)
  ultimately show ?thesis using that v(2) by blast
qed

lemma example_candidate_snapshot_valid:
  assumes "mv_upstream_model v = ''m''" "mv_station_key_id v = ''k1''" "mv_station_id v = ''st''"
    and "bx_quality_config bx = quality_config_default" "bx_request bx = example_request"
  shows "\<not> candidate_invalid (with_quality bx (planning_read_default\<lparr>qr_quality_available := True\<rparr>)
    (candidate_snapshot bx (example_fact ''k1'' True 1) (Some (''m'', 1)) [v] True))"
proof -
  have "optimistic_responsiveness bx \<le> 10000"
    using responsiveness_score_ok by (simp add: optimistic_responsiveness_def bp_ok_def)
  moreover have "pricing_snapshot_for_candidate (example_fact ''k1'' True 1) = pricing_unpriced ''pricing_context_missing''"
    by (simp add: pricing_snapshot_for_candidate_def candidate_multiplier_def example_fact_def effective_rate_multiplier_def positive_def)
  moreover have "preference_score (example_fact ''k1'' True 1) example_request \<le> 10000"
    by (simp add: preference_score_def example_request_fields example_fact_def some_satisfies_def sat_sub_def)
  ultimately show ?thesis
    using assms by (simp add: candidate_invalid_def with_quality_def candidate_snapshot_def Let_def planning_read_default_def
        axis_value_def coalesce_def some_satisfies_def pricing_unpriced_def quality_config_default_def example_fact_fields not_less)
qed

definition example_quality :: RoutingQualityPlanningRead where
  "example_quality = planning_read_default\<lparr>qr_quality_available := True\<rparr>"

lemma example_build_shape:
  obtains bx facts where "bx_request bx = example_request" "bx_policy bx = config_v2_default"
    "bx_quality_config bx = quality_config_default" "fb_candidates facts = [example_fact ''k1'' True 1, example_fact ''k2'' False 2]"
    "\<And>c. c \<in> set (fb_candidates facts) \<Longrightarrow>
       serving_variants bx c = serving (example_stores cap) example_request config_v2_default c"
    "\<And>st snapshot. st = assess_candidates bx (fb_candidates facts) \<Longrightarrow>
       snapshot = planning_snapshot_of bx facts example_registry example_quality 1 example_budget example_runtime st \<Longrightarrow>
       bs_eligible st = [] \<or> (\<exists>s. bs_eligible st = [s] \<and> \<not> candidate_invalid (with_quality bx example_quality s)) \<Longrightarrow>
       example_build_of cap = Inr \<lparr>pb_snapshot = snapshot,
         pb_assessments = bs_assessments st @ admitted_assessments bx (ps_candidates snapshot)\<rparr> \<and>
       ps_candidates snapshot = map (with_quality bx example_quality) (bs_eligible st) \<and>
       snapshot_validate snapshot = Inr ()"
proof -
  obtain facts where facts: "load_bundle (pe_facts example_env) example_facts_db 0 (for_request_model ''m'') = Inr (facts, 1)"
    "fb_candidates facts = [example_fact ''k1'' True 1, example_fact ''k2'' False 2]" "fb_snapshot_id facts \<noteq> []"
    "fb_version_vector facts = \<lparr>fv_max_station_revision = 1, fv_max_key_revision = 1, fv_max_settings_revision = 0,
       fv_max_alias_revision = 0\<rparr>" by (rule example_bundle)
  let ?stores = "example_stores cap"
  obtain unsupported where u: "load_unsupported cap
       (capability_subjects_for_planning (fb_candidates facts) example_request (pz_mapping ?stores) (mapping_facts example_request)) = Inr unsupported"
    using load_unsupported_total by blast
  have fields: "pz_facts ?stores = example_facts_db" "pz_capability ?stores = cap" "pz_now_ms ?stores = 0"
    "cc_mapping_revision (pz_mapping ?stores) = 1" "pz_mapping_revision ?stores = 1"
    by (simp_all add: example_stores_def)
  have registry: "pz_registry ?stores = Inr example_registry" by (simp add: example_stores_def)
  have dur: "durable_revision_of (fb_version_vector facts) example_request (pz_mapping ?stores) = 1"
    by (simp add: durable_revision_of_def facts(4) max_revision_def example_request_fields coalesce_def fields i64_max_def)
  define bx where "bx = \<lparr>bx_request = example_request, bx_policy = config_v2_default, bx_quality_config = quality_config_default,
    bx_profile = profile_default, bx_mapping = pz_mapping ?stores, bx_unsupported = unsupported,
    bx_snapshot_id = fb_snapshot_id facts, bx_durable_revision = of_int 1,
    bx_fingerprint = pe_fingerprint example_env example_request 1 (pz_mapping_revision ?stores)\<rparr>"
  have bx: "bx_request bx = example_request" "bx_policy bx = config_v2_default" "bx_quality_config bx = quality_config_default"
    "bx_profile bx = profile_default" "bx_mapping bx = pz_mapping ?stores" "bx_unsupported bx = unsupported"
    "bx_durable_revision bx = 1" by (simp_all add: bx_def)
  have sv: "serving_variants bx c = serving ?stores example_request config_v2_default c" if "c \<in> set (fb_candidates facts)" for c
    by (rule serving_variants_serving [OF _ _ _ _ _ that]) (simp_all add: fields bx u)
  have quality: "load_planning_read (pe_summary example_env) (pz_quality ?stores) None scopes 0 = Inr example_quality" for scopes
    by (simp add: load_planning_read_def example_quality_def)
  have profile: "profile_validate profile_default = Inr ()" by (simp add: profile_validate_def profile_default_def)
  show thesis
  proof (rule that [OF bx(1-3) facts(2) sv])
    fix st snapshot
    assume st: "st = assess_candidates bx (fb_candidates facts)"
      and snapshot: "snapshot = planning_snapshot_of bx facts example_registry example_quality 1 example_budget example_runtime st"
      and eligible: "bs_eligible st = [] \<or> (\<exists>s. bs_eligible st = [s] \<and> \<not> candidate_invalid (with_quality bx example_quality s))"
    have counted: "bs_capability_match_count st \<le> 2" "bs_candidate_cap_count st \<le> bs_capability_match_count st"
      "length (bs_eligible st) \<le> bs_candidate_cap_count st"
      using assess_candidates_counted [of bx "fb_candidates facts"] by (simp_all add: counted_def facts(2) st)
    have candidates: "ps_candidates snapshot = map (with_quality bx example_quality) (bs_eligible st)"
      by (simp add: snapshot snapshot_candidates)
    have valid: "snapshot_validate snapshot = Inr ()"
      using counted config_v2_default_valid eligible profile
      by (auto simp: snapshot_validate_def candidates)
        (simp_all add: snapshot planning_snapshot_of_def bx facts(2,3) example_quality_def planning_read_default_def
          example_registry_def example_budget_def example_runtime_def MAX_OPERATIONAL_CANDIDATES_def)
    have limit: "\<not> op_candidate_limit (for_request_model ''m'') < bs_candidate_cap_count st"
      using counted by (simp add: for_request_model_def MAX_OPERATIONAL_CANDIDATES_def)
    have active: "map_option gx_quality_generation_id (gs_active example_registry) = None" by (simp add: example_registry_def)
    show "example_build_of cap = Inr \<lparr>pb_snapshot = snapshot,
         pb_assessments = bs_assessments st @ admitted_assessments bx (ps_candidates snapshot)\<rparr> \<and>
       ps_candidates snapshot = map (with_quality bx example_quality) (bs_eligible st) \<and>
       snapshot_validate snapshot = Inr ()"
      unfolding example_build_of_def build_with_assessments_def fields(1) facts(1) registry store_error_def sum.case prod.case
        rbind.simps fields(2) u Let_def dur bx_def [symmetric]
      using limit valid candidates by (simp add: active fields(3) quality st [symmetric] snapshot [symmetric])
  qed
qed

lemma example_build:
  assumes "list_all (\<lambda>v. vv_resolved_model v \<noteq> ''m'') (cd_verdicts cap)"
  obtains r s v where "example_build_of cap = Inr r" "ps_candidates (pb_snapshot r) = [s]"
    "offer_of s = (''k1'', 1, 1, [v])" "mv_upstream_model v = ''m''"
    "eligible (ps_policy (pb_snapshot r)) s" "ps_runtime (pb_snapshot r) = example_runtime"
    "snapshot_validate (pb_snapshot r) = Inr ()"
proof -
  let ?serving = "serving (example_stores cap) example_request config_v2_default"
  obtain bx facts where bx: "bx_request bx = example_request" "bx_policy bx = config_v2_default"
      "bx_quality_config bx = quality_config_default"
    and facts: "fb_candidates facts = [example_fact ''k1'' True 1, example_fact ''k2'' False 2]"
    and sv: "\<And>c. c \<in> set (fb_candidates facts) \<Longrightarrow> serving_variants bx c = ?serving c"
    and build: "\<And>st snapshot. st = assess_candidates bx (fb_candidates facts) \<Longrightarrow>
       snapshot = planning_snapshot_of bx facts example_registry example_quality 1 example_budget example_runtime st \<Longrightarrow>
       bs_eligible st = [] \<or> (\<exists>s. bs_eligible st = [s] \<and> \<not> candidate_invalid (with_quality bx example_quality s)) \<Longrightarrow>
       example_build_of cap = Inr \<lparr>pb_snapshot = snapshot,
         pb_assessments = bs_assessments st @ admitted_assessments bx (ps_candidates snapshot)\<rparr> \<and>
       ps_candidates snapshot = map (with_quality bx example_quality) (bs_eligible st) \<and>
       snapshot_validate snapshot = Inr ()"
    by (rule example_build_shape [of cap]) blast
  obtain v where v: "mv_upstream_model v = ''m''" "?serving (example_fact ''k1'' True 1) = [v]"
    "?serving (example_fact ''k2'' False 2) = []" by (rule example_serving [OF assms])
  let ?st = "assess_candidates bx (fb_candidates facts)"
  let ?s = "candidate_snapshot bx (example_fact ''k1'' True 1) (Some (''m'', 1)) [v] True"
  have offered: "bs_eligible ?st = [?s]"
    using assess_candidates_offered [of bx "fb_candidates facts"] example_model_request
    by (simp add: bx facts List.map_filter_simps offered_def sv v)
  have "v \<in> set (?serving (example_fact ''k1'' True 1))" by (simp add: v)
  from serving_variant(1,4) [OF this] have variant: "mv_station_key_id v = ''k1''" "mv_station_id v = ''st''"
    by (simp_all add: example_fact_fields)
  have ok: "\<not> candidate_invalid (with_quality bx example_quality ?s)"
    unfolding example_quality_def by (rule example_candidate_snapshot_valid) (simp_all add: v variant bx)
  note built = build [OF refl refl, unfolded offered, OF disjI2, OF exI, OF conjI, OF refl ok]
  have "eligible (ps_policy (planning_snapshot_of bx facts example_registry example_quality 1 example_budget example_runtime ?st))
      (with_quality bx example_quality ?s)"
    by (simp add: eligible_def with_quality_def candidate_snapshot_def Let_def example_fact_fields example_not_depleted)
  with built show ?thesis
    by (intro that [of _ "with_quality bx example_quality ?s" v])
      (auto simp: offer_of_def with_quality_keeps candidate_snapshot_keeps example_fact_fields v snapshot_runtime)
qed

text \<open>With a verdict on the model of the first key, the same request is offered nothing.\<close>

lemma example_build_learned:
  assumes "known_unsupported cap (example_fact ''k1'' True 1) ''m''"
  obtains r where "example_build_of cap = Inr r" "ps_candidates (pb_snapshot r) = []"
proof -
  let ?serving = "serving (example_stores cap) example_request config_v2_default"
  obtain bx facts where bx: "bx_request bx = example_request"
    and facts: "fb_candidates facts = [example_fact ''k1'' True 1, example_fact ''k2'' False 2]"
    and sv: "\<And>c. c \<in> set (fb_candidates facts) \<Longrightarrow> serving_variants bx c = ?serving c"
    and build: "\<And>st snapshot. st = assess_candidates bx (fb_candidates facts) \<Longrightarrow>
       snapshot = planning_snapshot_of bx facts example_registry example_quality 1 example_budget example_runtime st \<Longrightarrow>
       bs_eligible st = [] \<or> (\<exists>s. bs_eligible st = [s] \<and> \<not> candidate_invalid (with_quality bx example_quality s)) \<Longrightarrow>
       example_build_of cap = Inr \<lparr>pb_snapshot = snapshot,
         pb_assessments = bs_assessments st @ admitted_assessments bx (ps_candidates snapshot)\<rparr> \<and>
       ps_candidates snapshot = map (with_quality bx example_quality) (bs_eligible st) \<and>
       snapshot_validate snapshot = Inr ()"
    by (rule example_build_shape [of cap]) blast
  obtain v t where v: "resolve_candidate_mapping (pz_mapping (example_stores cap)) (mapping_facts example_request)
       (example_fact ''k1'' True 1) example_request = Inr ([v], t)" "mv_upstream_model v = ''m''"
    using example_mapping by blast
  have "pz_capability (example_stores cap) = cap" by (simp add: example_stores_def)
  then have none: "?serving (example_fact ''k1'' True 1) = []" using v assms by (simp add: serving_def)
  have "?serving (example_fact ''k2'' False 2) = []"
    using example_gates serving_variant(3) by (metis list.set_intros(1) neq_Nil_conv)
  with none have "bs_eligible (assess_candidates bx (fb_candidates facts)) = []"
    using assess_candidates_offered [of bx "fb_candidates facts"] example_model_request
    by (simp add: bx facts List.map_filter_simps offered_def sv)
  then show thesis using build [OF refl refl] that by auto
qed

text \<open>What a list of candidates offers: key, model, credential and endpoint revision.\<close>

definition offered_models :: "CandidateSnapshot list \<Rightarrow> (string \<times> string \<times> i64 \<times> i64) list" where
  "offered_models cs =
     concat (map (\<lambda>s. map (\<lambda>v. (cs_station_key_id s, mv_upstream_model v, cs_credential_revision s, cs_endpoint_revision s))
       (cs_model_variants s)) cs)"

definition no_verdicts :: CapabilityDb where
  "no_verdicts = \<lparr>cd_observations = [], cd_next_sequence = 1, cd_verdicts = []\<rparr>"

section \<open>Properties\<close>

text \<open>
  C4: a built snapshot offers exactly what the stores allow. For a model request the candidates are,
  in the order of the configured keys, the keys with a variant that passes every gate and is not known
  to be unsupported, each with its current revisions and with exactly those variants.
\<close>
theorem build_offers_exactly:
  assumes "build_with_assessments env stores counter options policy revision budget quality_config profile runtime request = Inr r"
    and "model_request request"
  shows "\<exists>facts n. load_bundle (pe_facts env) (pz_facts stores) counter options = Inr (facts, n) \<and>
    map offer_of (ps_candidates (pb_snapshot r)) =
      map (\<lambda>c. (cn_station_key_id c, cn_credential_revision c, endpoint_revision c, serving stores request policy c))
        (filter (\<lambda>c. serving stores request policy c \<noteq> []) (fb_candidates facts))"
  by (rule build_offers [OF assms]) blast

theorem build_offers_exactly_witness:
  "\<exists>r facts. example_build_of no_verdicts = Inr r \<and>
     load_bundle (pe_facts example_env) example_facts_db 0 (for_request_model ''m'') = Inr (facts, 1) \<and>
     map offer_of (ps_candidates (pb_snapshot r)) =
       map (\<lambda>c. (cn_station_key_id c, cn_credential_revision c, endpoint_revision c,
             serving (example_stores no_verdicts) example_request config_v2_default c))
         (filter (\<lambda>c. serving (example_stores no_verdicts) example_request config_v2_default c \<noteq> []) (fb_candidates facts)) \<and>
     map offer_of (ps_candidates (pb_snapshot r)) \<noteq> []"
proof -
  obtain r s v where r: "example_build_of no_verdicts = Inr r" "ps_candidates (pb_snapshot r) = [s]"
    by (rule example_build [of no_verdicts]) (simp_all add: no_verdicts_def)
  obtain facts where "load_bundle (pe_facts example_env) example_facts_db 0 (for_request_model ''m'') = Inr (facts, 1)"
    by (rule example_bundle)
  with build_offers_exactly [OF r(1) [unfolded example_build_of_def] example_model_request] r
  show ?thesis by (simp add: example_stores_def)
qed

text \<open>
  C7: every configured key is assessed once. The assessments of a successful build are those of the
  keys that join a station, the admitted ones are the candidates of the snapshot in their order, a key
  is excluded exactly when its assessment carries a reason, and the snapshot is valid and within the
  limit of candidates.
\<close>
theorem build_assesses_every_key:
  assumes "build_with_assessments env stores counter options policy revision budget quality_config profile runtime request = Inr r"
  shows "mset (map pa_station_key_id (pb_assessments r)) = mset (map (\<lambda>(k, s). ky_id k) (joined_keys (pz_facts stores))) \<and>
    map pa_station_key_id (filter (\<lambda>a. pa_eligibility a = AdmittedForScoring) (pb_assessments r)) =
      map cs_station_key_id (ps_candidates (pb_snapshot r)) \<and>
    list_all (\<lambda>a. pa_eligibility a = Excluded \<longleftrightarrow> pa_primary_reason a \<noteq> None) (pb_assessments r) \<and>
    snapshot_validate (pb_snapshot r) = Inr () \<and>
    length (ps_candidates (pb_snapshot r)) \<le> op_candidate_limit options"
  using assms
proof (rule build_parts)
  fix facts :: OperationalFactBundle and n registry unsupported quality bx
  let ?st = "assess_candidates bx (fb_candidates facts)"
  assume b: "load_bundle (pe_facts env) (pz_facts stores) counter options = Inr (facts, n)"
    "bs_candidate_cap_count ?st \<le> op_candidate_limit options"
    "pb_snapshot r = planning_snapshot_of bx facts registry quality revision budget runtime ?st"
    "snapshot_validate (pb_snapshot r) = Inr ()"
    "pb_assessments r = bs_assessments ?st @ admitted_assessments bx (ps_candidates (pb_snapshot r))"
  note once = assess_candidates_once [of bx "fb_candidates facts"]
  let ?A = "admitted_assessments bx (ps_candidates (pb_snapshot r))"
  have A: "map pa_station_key_id ?A = map cs_station_key_id (ps_candidates (pb_snapshot r))"
    "filter (\<lambda>a. pa_eligibility a = AdmittedForScoring) ?A = ?A"
    "list_all (\<lambda>a. pa_eligibility a = Excluded \<longleftrightarrow> pa_primary_reason a \<noteq> None) ?A"
    by (simp_all add: admitted_assessments_def candidate_assessment_from_snapshot_def o_def list_all_iff)
  have K: "map cs_station_key_id (ps_candidates (pb_snapshot r)) = map cs_station_key_id (bs_eligible ?st)"
    by (simp add: b(3) snapshot_candidates with_quality_keeps o_def)
  have "filter (\<lambda>a. pa_eligibility a = AdmittedForScoring) (bs_assessments ?st) = []"
    using once by (auto simp: list_all_iff filter_empty_conv)
  moreover have "list_all (\<lambda>a. pa_eligibility a = Excluded \<longleftrightarrow> pa_primary_reason a \<noteq> None) (bs_assessments ?st)"
    using once by (auto simp: list_all_iff)
  moreover have "map (\<lambda>(k, s). ky_id k) (joined_keys (pz_facts stores)) = map cn_station_key_id (fb_candidates facts)"
    using load_bundle_facts [OF b(1)] fact_of_row(1) by (induction rule: list_all2_induct) auto
  moreover have "length (ps_candidates (pb_snapshot r)) \<le> bs_candidate_cap_count ?st"
    using b(4) by (auto simp: snapshot_validate_def b(3) planning_snapshot_of_def not_less split: if_splits)
  ultimately show ?thesis
    using once A K b(2,4) by (simp add: b(5))
qed

theorem build_assesses_every_key_witness:
  "\<exists>r. example_build_of no_verdicts = Inr r \<and>
     mset (map pa_station_key_id (pb_assessments r)) = {#''k1'', ''k2''#} \<and>
     map pa_station_key_id (filter (\<lambda>a. pa_eligibility a = AdmittedForScoring) (pb_assessments r)) = [''k1'']"
proof -
  obtain r s v where r: "example_build_of no_verdicts = Inr r" "ps_candidates (pb_snapshot r) = [s]" "offer_of s = (''k1'', 1, 1, [v])"
    by (rule example_build [of no_verdicts]) (simp_all add: no_verdicts_def)
  have db: "pz_facts (example_stores no_verdicts) = example_facts_db" by (simp add: example_stores_def)
  from build_assesses_every_key [OF r(1) [unfolded example_build_of_def]] r show ?thesis
    by (simp add: db example_joined) (simp add: example_key_def offer_of_def)
qed

text \<open>
  C1: what a request can reach. Every entry of a plan that is made from a built snapshot for a model
  request is backed by an enabled, schedulable key with a credential on an enabled station, and by a
  variant of that key whose upstream model passes the capability, list, group, price, tag and balance
  gates and is not known to be unsupported.
\<close>
theorem planned_routes_pass_gates:
  assumes "build_with_assessments env stores counter options policy revision budget quality_config profile runtime request = Inr r"
    and "model_request request"
    and "plan_snapshot sha (pb_snapshot r) = Done (Inr plan)" and "p \<in> set (rp_candidates plan)"
  shows "\<exists>k s c v. k \<in> set (fd_station_keys (pz_facts stores)) \<and> s \<in> set (fd_stations (pz_facts stores)) \<and>
    sx_id s = ky_station_id k \<and> fact_of (pe_facts env) (pz_facts stores) k s c \<and>
    pc_station_key_id p = ky_id k \<and> pc_lifecycle_revision p = cn_credential_revision c \<and>
    ky_enabled k \<and> ky_schedulable k \<and> has_credential k \<and> sx_enabled s \<and>
    pc_routing_identity p = identity_key v \<and> mv_station_key_id v = ky_id k \<and>
    \<not> known_unsupported (pz_capability stores) c (mv_upstream_model v) \<and>
    may_serve c request policy (Some (mv_upstream_model v))"
  using assms(1,2)
proof (rule build_offers)
  fix facts n
  assume b: "load_bundle (pe_facts env) (pz_facts stores) counter options = Inr (facts, n)"
    "map offer_of (ps_candidates (pb_snapshot r)) =
      map (\<lambda>c. (cn_station_key_id c, cn_credential_revision c, endpoint_revision c, serving stores request policy c))
        (filter (\<lambda>c. serving stores request policy c \<noteq> []) (fb_candidates facts))"
  obtain s v where s: "(s, v) \<in> set (eligible_pairs (pb_snapshot r))" "plan_entry p = expected_entry (s, v)"
    using plan_entry_origin [OF assms(3,4)] by blast
  then have pair: "s \<in> set (ps_candidates (pb_snapshot r))" "v \<in> set (candidate_variants s)"
    by (auto simp: eligible_pairs_def plan_pairs_def)
  then have "offer_of s \<in> set (map offer_of (ps_candidates (pb_snapshot r)))" by simp
  then obtain c where c: "c \<in> set (fb_candidates facts)" "serving stores request policy c \<noteq> []"
    "offer_of s = (cn_station_key_id c, cn_credential_revision c, endpoint_revision c, serving stores request policy c)"
    unfolding b(2) by auto
  then have o: "cs_station_key_id s = cn_station_key_id c" "cs_credential_revision s = cn_credential_revision c"
    "cs_model_variants s = serving stores request policy c" by (simp_all add: offer_of_def)
  then obtain w where w: "v = Some w" "w \<in> set (serving stores request policy c)"
    using pair(2) c(2) by (auto simp: candidate_variants_def split: if_splits)
  obtain k st where k: "(k, st) \<in> set (joined_keys (pz_facts stores))" "fact_of (pe_facts env) (pz_facts stores) k st c"
    using load_bundle_facts [OF b(1)] c(1) by (metis (no_types, lifting) case_prod_beta in_set_conv_nth list_all2_conv_all_nth prod.collapse)
  note row = fact_of_row [OF k(2)] and keys = joined_keys_row [OF k(1)] and serve = serving_variant [OF w(2)]
  from serve(3) have "cn_station_enabled c" "cn_key_enabled c" "cn_schedulable c" "cn_credential_available c"
    by (simp_all add: may_serve_def)
  then show ?thesis
    using s(2) row keys serve o k(2) w(1) by (intro exI [of _ k] exI [of _ st] exI [of _ c] exI [of _ w]) (simp add: plan_entry_def)
qed

theorem planned_routes_pass_gates_witness:
  "\<forall>sha. \<exists>r plan. example_build_of no_verdicts = Inr r \<and> plan_snapshot sha (pb_snapshot r) = Done (Inr plan) \<and>
     (\<exists>p k s c v. p \<in> set (rp_candidates plan) \<and> k \<in> set (fd_station_keys example_facts_db) \<and>
        fact_of (pe_facts example_env) example_facts_db k s c \<and> pc_station_key_id p = ky_id k \<and> ky_enabled k \<and>
        pc_routing_identity p = identity_key v \<and> may_serve c example_request config_v2_default (Some (mv_upstream_model v)))"
proof
  fix sha
  obtain r s v where r: "example_build_of no_verdicts = Inr r" "ps_candidates (pb_snapshot r) = [s]"
    "eligible (ps_policy (pb_snapshot r)) s" "ps_runtime (pb_snapshot r) = example_runtime" "snapshot_validate (pb_snapshot r) = Inr ()"
    by (rule example_build [of no_verdicts]) (simp_all add: no_verdicts_def)
  have "eligible_pairs (pb_snapshot r) \<noteq> []" using r(2,3) by (simp add: eligible_pairs_Nil)
  moreover have "ro_in_flight (ps_runtime (pb_snapshot r)) < ro_max_concurrency (ps_runtime (pb_snapshot r))"
    by (simp add: r(4) example_runtime_def)
  ultimately obtain plan where plan: "plan_snapshot sha (pb_snapshot r) = Done (Inr plan)" "rp_candidates plan \<noteq> []"
    using plan_snapshot_spec [OF r(5), of sha] by (metis sort_by_Nil_iff)
  then obtain p where p: "p \<in> set (rp_candidates plan)" by (cases "rp_candidates plan") auto
  have db: "pz_facts (example_stores no_verdicts) = example_facts_db" by (simp add: example_stores_def)
  from planned_routes_pass_gates [OF r(1) [unfolded example_build_of_def] example_model_request plan(1) p, unfolded db] p plan(1) r(1)
  show "\<exists>r plan. example_build_of no_verdicts = Inr r \<and> plan_snapshot sha (pb_snapshot r) = Done (Inr plan) \<and>
     (\<exists>p k s c v. p \<in> set (rp_candidates plan) \<and> k \<in> set (fd_station_keys example_facts_db) \<and>
        fact_of (pe_facts example_env) example_facts_db k s c \<and> pc_station_key_id p = ky_id k \<and> ky_enabled k \<and>
        pc_routing_identity p = identity_key v \<and> may_serve c example_request config_v2_default (Some (mv_upstream_model v)))"
    by blast
qed

text \<open>
  C8: the last observation decides. Let any observations be applied to a store, in any order, accepted
  or not. When the last one that the store recorded for a key and a model, at a credential and an
  endpoint revision and of unknown kinds (\<open>deciding\<close>), carries alias revision 1, as every observation of
  the request path does, then no snapshot built for a model request on that store offers the model on
  that key at those revisions. (An
  observation with another alias revision takes the verdict away again: \<open>later_alias_revision_unlearns\<close>.)
\<close>
theorem learned_model_never_offered:
  assumes "verdicts_sequenced db"
    and "deciding h db os key model credential endpoint = Some o1" "um_model_alias_revision o1 = 1"
    and "pz_capability stores = apply_all h db os"
    and "build_with_assessments env stores counter options policy revision budget quality_config profile runtime request = Inr r"
    and "model_request request"
  shows "(key, model, credential, endpoint) \<notin> set (offered_models (ps_candidates (pb_snapshot r)))"
  using assms(5,6)
proof (rule build_offers)
  fix facts n
  assume b: "map offer_of (ps_candidates (pb_snapshot r)) =
      map (\<lambda>c. (cn_station_key_id c, cn_credential_revision c, endpoint_revision c, serving stores request policy c))
        (filter (\<lambda>c. serving stores request policy c \<noteq> []) (fb_candidates facts))"
  have l: "learned (pz_capability stores) key model credential endpoint"
    using apply_all_learned [OF assms(1)] assms(2-4) by simp
  show ?thesis
  proof
    assume "(key, model, credential, endpoint) \<in> set (offered_models (ps_candidates (pb_snapshot r)))"
    then obtain s v where s: "s \<in> set (ps_candidates (pb_snapshot r))" "v \<in> set (cs_model_variants s)"
      "(cs_station_key_id s, mv_upstream_model v, cs_credential_revision s, cs_endpoint_revision s) =
        (key, model, credential, endpoint)"
      by (auto simp: offered_models_def)
    then have "offer_of s \<in> set (map offer_of (ps_candidates (pb_snapshot r)))" by simp
    then obtain c where c:
      "offer_of s = (cn_station_key_id c, cn_credential_revision c, endpoint_revision c, serving stores request policy c)"
      unfolding b by auto
    then have "known_unsupported (pz_capability stores) c model"
      using l s(3) by (simp add: known_unsupported_learned offer_of_def)
    moreover have "v \<in> set (serving stores request policy c)" "mv_upstream_model v = model"
      using c s by (simp_all add: offer_of_def)
    ultimately show False using serving_variant(2) by blast
  qed
qed

text \<open>The same alias revision is what the reader compares: another one hides the verdict from it.\<close>

lemma later_alias_revision_unlearns:
  assumes "verdicts_sequenced db"
    and "deciding h db os (cn_station_key_id c) model (cn_credential_revision c) (endpoint_revision c) = Some o1"
    and "um_model_alias_revision o1 \<noteq> 1"
  shows "\<not> known_unsupported (apply_all h db os) c model"
  using apply_all_learned [OF assms(1)] assms(2,3) by (simp add: known_unsupported_learned)

definition example_observation :: "string \<Rightarrow> i64 \<Rightarrow> UnsupportedModelObservation" where
  "example_observation i alias_revision = \<lparr>um_observation_id = i, um_logical_request_id = i, um_attempt_ordinal = 0,
     um_station_key_id = ''k1'', um_resolved_model = ''m'', um_credential_revision = 1, um_endpoint_revision = 1,
     um_model_alias_revision = alias_revision, um_endpoint_kind = ''unknown'', um_protocol_kind = ''unknown'',
     um_model_mapping_revision = None, um_model_resolution_fence = None, um_evidence_code = ''e'',
     um_classifier_profile_version = ''p''\<rparr>"

text \<open>An observation with alias revision 99, then one with 1: the last decides.\<close>

definition example_observations :: "(UnsupportedModelObservation \<times> i64) list" where
  "example_observations = [(example_observation ''a'' 99, 0), (example_observation ''o'' 1, 0)]"

lemma example_deciding:
  "deciding (\<lambda>_. ''h'') no_verdicts example_observations ''k1'' ''m'' 1 1 = Some (example_observation ''o'' 1)"
  using normalize_ascii(2) [of "''m''"] normalize_ascii(2) [of "''o''"] normalize_ascii(2) [of "''a''"] normalize_ascii(2) [of "''k1''"]
    normalize_ascii(2) [of "''e''"] normalize_ascii(2) [of "''p''"] normalize_ascii(2) [of "''unknown''"]
  by (simp add: example_observations_def apply_unsupported_model_def observation_valid_def validate_text_def
      example_observation_def no_verdicts_def upsert_verdict_def verdict_of_def visible_ascii_def Let_def or_else_def
      same_observation_def same_native_identity_def same_primary_key_def NATIVE_MODEL_CAPABILITY_IDENTITY_VERSION_def)

text \<open>The request is offered its model on the key before the observations, and not after them.\<close>

theorem learned_model_never_offered_witness:
  "\<exists>before after. example_build_of no_verdicts = Inr before \<and>
     (''k1'', ''m'', 1, 1) \<in> set (offered_models (ps_candidates (pb_snapshot before))) \<and>
     example_build_of (apply_all (\<lambda>_. ''h'') no_verdicts example_observations) = Inr after \<and>
     (''k1'', ''m'', 1, 1) \<notin> set (offered_models (ps_candidates (pb_snapshot after)))"
proof -
  let ?cap = "apply_all (\<lambda>_. ''h'') no_verdicts example_observations"
  obtain r s v where r: "example_build_of no_verdicts = Inr r" "ps_candidates (pb_snapshot r) = [s]"
    "offer_of s = (''k1'', 1, 1, [v])" "mv_upstream_model v = ''m''"
    by (rule example_build [of no_verdicts]) (simp_all add: no_verdicts_def)
  then have shown: "(''k1'', ''m'', 1, 1) \<in> set (offered_models (ps_candidates (pb_snapshot r)))"
    by (simp add: offered_models_def offer_of_def)
  have ok: "verdicts_sequenced no_verdicts" by (simp add: verdicts_sequenced_def no_verdicts_def)
  have alias_one: "um_model_alias_revision (example_observation ''o'' 1) = 1" by (simp add: example_observation_def)
  have "known_unsupported ?cap (example_fact ''k1'' True 1) ''m''"
    using apply_all_learned [OF ok] alias_one by (simp add: known_unsupported_learned example_fact_fields example_deciding)
  then obtain r' where r': "example_build_of ?cap = Inr r'" by (rule example_build_learned) blast
  have "pz_capability (example_stores ?cap) = ?cap" by (simp add: example_stores_def)
  from learned_model_never_offered [OF ok example_deciding alias_one this r' [unfolded example_build_of_def] example_model_request]
    r(1) shown r' show ?thesis by blast
qed

end
