(* ===== verification/Spec2Isabelle.thy ===== *)
theory Spec2Isabelle
  imports Circuit AdmissionCorrect Affinity ModelResolve Sse Finalization AlertSafety QualityCorrect PlanningBuildCorrect
begin

text \<open>
  Relay Pool Desktop routes the requests of local AI clients to keys of relay stations and raises alerts
  about them. This is a verification development of its core logic, the Rust code under
  \<^verbatim>\<open>src/src-tauri/src\<close>; the paths below are relative to it. The definitions are translated from the
  code, one group per component in the order the code has them, and the theorems say what makes each
  component and their interaction correct.

  The parts and how they interact. A request is described by its facts. The snapshot builder reads the
  keys, stations, balances, verdicts and quality scores from the database, resolves the requested model
  on every key and offers the keys that pass the gates. The planner scores and orders the offered
  candidates under the compiled policy. The coordinator of the request walks through the plan, takes
  capacity, and plans again after a failed attempt without the keys already tried. The circuit breaker of
  a key admits and counts the attempts. What an attempt did is classified by the failure taxonomy,
  recorded by the lifecycle, and fed back as quality observations and as verdicts about unsupported
  models. Observations about stations and keys become incidents and notifications.

  The theories, by part.

  \<^item> Foundations. \<open>Prelude\<close> has the machine integers with their saturating and checked operations, code
    that can panic (\<open>run\<close>), the stable sort and the list lemmas; \<open>Machine\<close> the interfaces of stateful
    components as locales: kept invariants, spent budgets, monotone counters, exclusive leases, lease
    registries. \<open>RustString\<close> and \<open>Utf8\<close> are strings as the standard library has them, \<open>F64\<close> binary64
    with one rounding per operation, \<open>BTree\<close> the ordered maps, \<open>Persistence\<close> the errors of the stores and
    SQL statements on a list of rows.
  \<^item> Policy. \<open>Policy\<close> (\<^verbatim>\<open>models/routing_policy.rs\<close>) is the configuration in its three versions with
    validation and upgrades, \<open>PolicyCompile\<close> (\<^verbatim>\<open>application/routing_policy.rs\<close>,
    \<^verbatim>\<open>application/health_protection.rs\<close>) the compilers to budgets, protection profile and weights:
    they are total, succeed exactly on valid configurations, and upgrading round-trips.
  \<^item> Planning. \<open>Factors\<close>, \<open>Snapshot\<close> and \<open>Planner\<close> (\<^verbatim>\<open>application/routing_engine/{factors, tiers,
    algorithm_profile, planning_snapshot, candidate_plan, intelligent_planner, dispatch}.rs\<close>) are the
    scoring factors, the validated snapshot and the planner. \<open>PlannerWeights\<close> and \<open>PlannerCorrect\<close> prove
    exact normalisation of the weights, that the planner never panics, that a plan holds exactly the
    eligible candidates in the documented order down to the identity, and that a cheaper key never scores
    worse through the floating-point formula.
  \<^item> Admission. \<open>Capacity\<close> (\<^verbatim>\<open>routing_engine/capacity.rs\<close>) is the registry of in-flight counters, \<open>Admission\<close>
    (\<^verbatim>\<open>routing_engine/admission.rs\<close>, \<^verbatim>\<open>request.rs\<close>) the coordinator, \<open>Affinity\<close> (\<^verbatim>\<open>affinity.rs\<close>) the session
    affinity. \<open>AdmissionPass\<close> analyses one pass; \<open>AdmissionCorrect\<close> proves over every sequence of calls
    that the best candidate with room is taken, no key twice, within the attempt and replan budgets,
    without losing capacity and never again after a possibly accepted attempt.
  \<^item> Health. \<open>Circuit\<close> (\<^verbatim>\<open>application/station_key_circuit.rs\<close>) is the breaker with its persistence gate: every
    reachable circuit can be stored and reloaded, opens and recovers at the exact thresholds, and grants
    one probe at a time. \<open>Quality\<close> (\<^verbatim>\<open>application/quality_projection.rs\<close>) is the projection of observations to
    scores; \<open>QualityWeight\<close> compares its fixed-point weights with the exponential function,
    \<open>QualityCorrect\<close> its counts with a definition over sets.
  \<^item> Model mapping. \<open>Glob\<close>, \<open>ModelVariant\<close>, \<open>ModelMapping\<close> and \<open>ModelResolve\<close>
    (\<^verbatim>\<open>application/model_mapping/{glob, compiler, resolver}.rs\<close>, \<^verbatim>\<open>models/model_mapping.rs\<close>): the pattern
    matcher decides the pattern language, compilation excludes ambiguous rules and every other error of
    the resolver.
  \<^item> Snapshot building. \<open>RequestFacts\<close>, \<open>FactRows\<close>, \<open>CandidateFacts\<close>, \<open>CapabilityVerdicts\<close>, \<open>QualityRead\<close>,
    \<open>Generation\<close> and \<open>PlanningBuild\<close> (\<^verbatim>\<open>application/operational_facts\<close>,
    \<^verbatim>\<open>persistence/stores/operational_facts/queries.rs\<close>, \<^verbatim>\<open>routing_health_verdict_store.rs\<close>,
    \<^verbatim>\<open>routing_quality_store.rs\<close>): from the rows of the tables to the snapshot. \<open>PlanningBuildCorrect\<close> proves
    what a snapshot offers and what it excludes and why, composes this with the planner, and follows a
    verdict about an unsupported model from the attempt that learned it to the plans it removes.
  \<^item> Requests. \<open>Failure\<close>, \<open>Lifecycle\<close> and \<open>Finalization\<close> (\<^verbatim>\<open>application/request_finalization\<close>,
    \<^verbatim>\<open>application/request_lifecycle\<close>, \<^verbatim>\<open>routing_engine/routing_failure.rs\<close>): what a failure means, the phase
    machines of requests and attempts, and the costs. \<open>Sse\<close> (\<^verbatim>\<open>services/protocol_streaming/sse.rs\<close>) is the
    event stream decoder, proved to refine the framing of the whole stream.
  \<^item> Alerting. \<open>AlertPolicy\<close>, \<open>Incident\<close>, \<open>AlertDelivery\<close>, \<open>DeliveryLedger\<close>, \<open>AlertTables\<close>, \<open>AlertIngress\<close> and
    \<open>AlertRuntime\<close> (\<^verbatim>\<open>models/alerting\<close>, \<^verbatim>\<open>application/alerting\<close>, \<^verbatim>\<open>persistence/stores/alerting/mod.rs\<close> on the
    schema of migration 0029, \<^verbatim>\<open>background_tasks/alerting_runner.rs\<close>): policies, the incident reducer,
    notifications, the tables with their constraints, the transactions and the supervised loop.
    \<open>IncidentCorrect\<close> reads state and episode of an incident off its history, \<open>LedgerCorrect\<close> bounds the
    claims of a delivery and protects its claimant, \<open>AlertCorrect\<close> and \<open>AlertSafety\<close> prove the consistency
    of all tables, that an observation is recorded once, and what the transactions do to each other.

  How state and operations correspond. A Rust struct is a record with the same fields under a short
  prefix, an enum a datatype with its constructors, an operation on \<^verbatim>\<open>&mut self\<close> a function from the state
  to its result and the state it leaves behind, errors included. What a mutex or a transaction makes
  atomic is one step; what a client can do is a datatype of calls with a step function (\<open>circuit_step\<close>,
  \<open>admission_step\<close>, \<open>request_step\<close>, \<open>incident_step\<close>, \<open>ledger_step\<close>, \<open>alert_step\<close> and others), and \<open>run_ops\<close> runs a
  sequence of them. A table is the list of its rows; a failed transaction leaves it as it was. Integers
  are words of their width where they can wrap or saturate; \<open>i64\<close> values that the code only compares,
  clamps or adds with saturation are integers. A panic is a value, so that its absence is a theorem.

  Loops and bounds. The glob matcher is a \<open>while_option\<close>, proved to return. The overlap search of two
  patterns stops at the code's own limits, 16384 states and 100000 steps, with an error of its own. All
  other loops are structural or have a termination proof; no fuel is used. The limits in the statements
  are those of the code or follow from them: replanning at most nine times, three claims per delivery, a
  hundred incidents and a hundred suppressed notifications per reconciliation, 1024 candidates of a
  snapshot, 4096 subjects of a query. The exactness of the quality counts is stated for at most \<open>2 ^ 43\<close>
  observations of a key, below which no sum of weights saturates, and the accuracy of capacity counters
  for fewer than \<open>2 ^ 32\<close> leases.

  Parameters. Code outside the repository is an argument of the definitions that use it, without
  assumptions unless a statement names one: SHA-256, the JSON parser and writers (\<^verbatim>\<open>serde_json\<close> and SQLite's
  \<^verbatim>\<open>json_valid\<close>), the URL parser and encoder, the time zone database, the desktop notification adapter and
  the clock. The fingerprint of a request context and the reader of the stored quality summary are built
  on them and are parameters too.

  Not modelled: the asynchronous HTTP proxy around the coordinator and the protocol adapters (sockets,
  timeouts, rewriting of JSON bodies), the collectors that read the web APIs of stations, monitoring,
  pricing catalogs, the secrets and the migration of data, the supervision of tasks, the staged switch
  between routing generations, commands and read models of the user interface, and the stores whose
  tables no modelled component reads. Of the alerting tables the marking of informational changes and the
  repair of orphaned rows at start-up are left out. Decoding of JSON in front of the modelled records is
  a third-party library.
\<close>

end
